(* ===== verification/Prelude.thy ===== *)
theory Prelude
  imports Main "HOL-Library.Word" "HOL-Library.AList" "HOL-Library.Multiset"
begin

text \<open>
  What every component shares: results that may be an exception, stateful
  Python code as state passing, big-endian integers over bytes, and Python's
  insertion-ordered dictionaries as association lists.
\<close>

unbundle bit_operations_syntax

named_theorems res_iff \<open>when a composed computation returns a value\<close>
named_theorems step_simps \<open>equations that run a stateful computation\<close>

section \<open>Results\<close>

text \<open>A computation that raises is \<open>Inl\<close> of the exception.\<close>

type_synonym ('e, 'a) res = "'e + 'a"

definition res_bind :: "('e, 'a) res \<Rightarrow> ('a \<Rightarrow> ('e, 'b) res) \<Rightarrow> ('e, 'b) res" where
  "res_bind m f = (case m of Inl e \<Rightarrow> Inl e | Inr x \<Rightarrow> f x)"

lemma res_bind_simps [simp]:
  "res_bind (Inl e) f = Inl e"
  "res_bind (Inr x) f = f x"
  by (simp_all add: res_bind_def)

lemma res_bind_Inr_iff [res_iff]:
  "res_bind m f = Inr y \<longleftrightarrow> (\<exists>x. m = Inr x \<and> f x = Inr y)"
  by (cases m) auto

lemma res_bind_Inl_iff [res_iff]:
  "res_bind m f = Inl e \<longleftrightarrow> m = Inl e \<or> (\<exists>x. m = Inr x \<and> f x = Inl e)"
  by (cases m) auto

lemma res_bind_assoc: "res_bind (res_bind m f) g = res_bind m (\<lambda>x. res_bind (f x) g)"
  by (cases m) auto

lemma res_bind_cong [fundef_cong]:
  "m = m' \<Longrightarrow> (\<And>x. m' = Inr x \<Longrightarrow> f x = f' x) \<Longrightarrow> res_bind m f = res_bind m' f'"
  by (cases m') auto

text \<open>A list comprehension whose element expression may raise.\<close>

fun res_map :: "('a \<Rightarrow> ('e, 'b) res) \<Rightarrow> 'a list \<Rightarrow> ('e, 'b list) res" where
  "res_map f [] = Inr []"
| "res_map f (x # xs) =
     res_bind (f x) (\<lambda>y. res_bind (res_map f xs) (\<lambda>ys. Inr (y # ys)))"

lemma res_map_total:
  "(\<And>x. x \<in> set xs \<Longrightarrow> f x = Inr (g x)) \<Longrightarrow> res_map f xs = Inr (map g xs)"
  by (induction xs) auto

lemma res_map_Inr_length: "res_map f xs = Inr ys \<Longrightarrow> length ys = length xs"
  by (induction xs arbitrary: ys) (auto simp: res_iff)

lemma res_map_append:
  "res_map f (xs @ ys) = res_bind (res_map f xs) (\<lambda>us. res_bind (res_map f ys) (\<lambda>vs. Inr (us @ vs)))"
  by (induction xs) (auto simp: res_bind_assoc res_bind_def split: sum.splits)

definition res_the :: "('e, 'a) res \<Rightarrow> 'a" where
  "res_the r = (case r of Inr x \<Rightarrow> x | Inl _ \<Rightarrow> undefined)"

lemma res_the_Inr [simp]: "res_the (Inr x) = x"
  by (simp add: res_the_def)

section \<open>Stateful computations\<close>

text \<open>
  Python keeps the mutations made before an exception, so a computation over a
  world returns the outcome together with the world it leaves.
\<close>

type_synonym ('w, 'e, 'a) io = "'w \<Rightarrow> ('e, 'a) res \<times> 'w"

definition io_return :: "'a \<Rightarrow> ('w, 'e, 'a) io" where
  "io_return x = (\<lambda>w. (Inr x, w))"

definition io_raise :: "'e \<Rightarrow> ('w, 'e, 'a) io" where
  "io_raise e = (\<lambda>w. (Inl e, w))"

definition io_lift :: "('e, 'a) res \<Rightarrow> ('w, 'e, 'a) io" where
  "io_lift r = (\<lambda>w. (r, w))"

definition io_bind :: "('w, 'e, 'a) io \<Rightarrow> ('a \<Rightarrow> ('w, 'e, 'b) io) \<Rightarrow> ('w, 'e, 'b) io" where
  "io_bind m f = (\<lambda>w. case m w of (Inl e, w') \<Rightarrow> (Inl e, w') | (Inr x, w') \<Rightarrow> f x w')"

definition io_when_raise :: "bool \<Rightarrow> 'e \<Rightarrow> ('w, 'e, unit) io" where
  "io_when_raise c e = (if c then io_raise e else io_return ())"

lemma io_return_app [simp, step_simps]: "io_return x w = (Inr x, w)"
  by (simp add: io_return_def)

lemma io_raise_app [simp, step_simps]: "io_raise e w = (Inl e, w)"
  by (simp add: io_raise_def)

lemma io_lift_app [simp, step_simps]: "io_lift r w = (r, w)"
  by (simp add: io_lift_def)

lemma io_when_raise_app [simp, step_simps]:
  "io_when_raise c e w = ((if c then Inl e else Inr ()), w)"
  by (simp add: io_when_raise_def)

lemma io_bind_run [step_simps]:
  "m w = (Inr x, w') \<Longrightarrow> io_bind m f w = f x w'"
  "m w = (Inl e, w') \<Longrightarrow> io_bind m f w = (Inl e, w')"
  by (simp_all add: io_bind_def)

lemma io_bind_lift_simps [simp]:
  "io_bind (io_return x) f = f x"
  "io_bind (io_raise e) f = io_raise e"
  "io_bind (io_lift (Inr x)) f = f x"
  "io_bind (io_lift (Inl e)) f = io_raise e"
  by (simp_all add: io_bind_def fun_eq_iff)

lemma io_bind_Inr_iff [res_iff]:
  "io_bind m f w = (Inr y, w2) \<longleftrightarrow> (\<exists>x w1. m w = (Inr x, w1) \<and> f x w1 = (Inr y, w2))"
  by (cases "m w"; cases "fst (m w)") (auto simp: io_bind_def)

lemma io_bind_Inl_iff [res_iff]:
  "io_bind m f w = (Inl e, w2) \<longleftrightarrow>
     m w = (Inl e, w2) \<or> (\<exists>x w1. m w = (Inr x, w1) \<and> f x w1 = (Inl e, w2))"
  by (cases "m w"; cases "fst (m w)") (auto simp: io_bind_def)

lemma io_bind_assoc: "io_bind (io_bind m f) g = io_bind m (\<lambda>x. io_bind (f x) g)"
  by (auto simp: io_bind_def fun_eq_iff split: sum.splits prod.splits)

lemma io_bind_cong_run:
  "(\<And>x w'. m w = (Inr x, w') \<Longrightarrow> f x w' = g x w') \<Longrightarrow> io_bind m f w = io_bind m g w"
  by (auto simp: io_bind_def split: sum.splits prod.splits)

section \<open>Bytes and big-endian integers\<close>

type_synonym byte = "8 word"
type_synonym bytes = "byte list"

fun be_bytes :: "nat \<Rightarrow> int \<Rightarrow> bytes" where
  "be_bytes 0 n = []"
| "be_bytes (Suc w) n = be_bytes w (n div 256) @ [word_of_int n]"

definition be_int :: "bytes \<Rightarrow> int" where
  "be_int bs = foldl (\<lambda>a b. a * 256 + uint b) 0 bs"

lemma be_int_Nil [simp]: "be_int [] = 0"
  by (simp add: be_int_def)

lemma be_int_snoc: "be_int (bs @ [b]) = be_int bs * 256 + uint b"
  by (simp add: be_int_def)

lemma length_be_bytes [simp]: "length (be_bytes w n) = w"
  by (induction w arbitrary: n) auto

lemma be_int_nonneg [simp]: "0 \<le> be_int bs"
  by (induction bs rule: rev_induct) (auto simp: be_int_snoc)

lemma byte_uint_lt [simp]: "uint (b :: byte) < 256"
  using uint_lt2p [of b] by simp

lemma byte_unat_lt [simp]: "unat (b :: byte) < 256"
  using unsigned_less [of b, where ?'a = nat] by simp

lemma be_int_upper: "be_int bs < 256 ^ length bs"
proof (induction bs rule: rev_induct)
  case Nil
  then show ?case by simp
next
  case (snoc b bs)
  have "be_int bs * 256 + uint b < (be_int bs + 1) * 256"
    using byte_uint_lt [of b] by (simp add: algebra_simps)
  also have "\<dots> \<le> 256 ^ length bs * 256"
    using snoc by (intro mult_right_mono) auto
  finally show ?case by (simp add: be_int_snoc mult.commute)
qed

lemma uint_word_of_int_byte [simp]: "uint (word_of_int n :: byte) = n mod 256"
  by (simp add: uint_word_of_int)

lemma be_int_be_bytes_mod: "be_int (be_bytes w n) = n mod 256 ^ w"
proof (induction w arbitrary: n)
  case 0
  then show ?case by simp
next
  case (Suc w)
  have "be_int (be_bytes (Suc w) n) = (n div 256) mod 256 ^ w * 256 + n mod 256"
    by (simp add: be_int_snoc Suc)
  also have "\<dots> = n mod (256 * 256 ^ w)"
    by (simp add: zmod_zmult2_eq)
  finally show ?case by simp
qed

lemma be_int_be_bytes [simp]: "0 \<le> n \<Longrightarrow> n < 256 ^ w \<Longrightarrow> be_int (be_bytes w n) = n"
  by (simp add: be_int_be_bytes_mod)

lemma be_bytes_be_int [simp]: "be_bytes (length bs) (be_int bs) = bs"
proof (induction bs rule: rev_induct)
  case Nil
  then show ?case by simp
next
  case (snoc b bs)
  have "(be_int bs * 256 + uint b) div 256 = be_int bs"
    using byte_uint_lt [of b] by (simp add: div_add1_eq)
  moreover have "word_of_int (be_int bs * 256 + uint b) = b"
  proof -
    have "uint (word_of_int (be_int bs * 256 + uint b) :: byte) = (be_int bs * 256 + uint b) mod 256"
      by (rule uint_word_of_int_byte)
    also have "\<dots> = uint b"
      using byte_uint_lt [of b] uint_ge_0 [of b] by (simp only: mod_mult_self3 mod_pos_pos_trivial)
    finally show ?thesis by (simp only: word_uint_eq_iff)
  qed
  ultimately show ?case using snoc by (simp add: be_int_snoc)
qed

lemma be_int_single [simp]: "be_int [b] = uint b"
  by (simp add: be_int_def)

section \<open>Dictionaries\<close>

text \<open>
  A Python dictionary keeps the insertion order of its keys; storing under a
  present key keeps its place, which is what \<open>AList.update\<close> does.
\<close>

type_synonym ('k, 'v) dict = "('k \<times> 'v) list"

definition dict_get :: "('k, 'v) dict \<Rightarrow> 'k \<Rightarrow> 'v option" where
  "dict_get d k = map_of d k"

definition dict_set :: "'k \<Rightarrow> 'v \<Rightarrow> ('k, 'v) dict \<Rightarrow> ('k, 'v) dict" where
  "dict_set k v d = AList.update k v d"

definition dict_pop :: "'k \<Rightarrow> ('k, 'v) dict \<Rightarrow> ('k, 'v) dict" where
  "dict_pop k d = AList.delete k d"

definition dict_wf :: "('k, 'v) dict \<Rightarrow> bool" where
  "dict_wf d \<longleftrightarrow> distinct (map fst d)"

definition sorted_items :: "('k :: linorder, 'v) dict \<Rightarrow> ('k \<times> 'v) list" where
  "sorted_items d = sort_key fst d"

lemma dict_get_set [simp]:
  "dict_get (dict_set k v d) k' = (if k' = k then Some v else dict_get d k')"
  by (simp add: dict_get_def dict_set_def update_conv')

lemma dict_get_pop [simp]:
  "dict_get (dict_pop k d) k' = (if k' = k then None else dict_get d k')"
  by (simp add: dict_get_def dict_pop_def delete_conv')

lemma dict_wf_set [simp]: "dict_wf d \<Longrightarrow> dict_wf (dict_set k v d)"
  by (simp add: dict_wf_def dict_set_def distinct_update)

lemma dict_wf_pop [simp]: "dict_wf d \<Longrightarrow> dict_wf (dict_pop k d)"
  by (simp add: dict_wf_def dict_pop_def distinct_delete)

lemma dict_wf_Nil [simp]: "dict_wf []"
  by (simp add: dict_wf_def)

lemma dict_get_in: "dict_wf d \<Longrightarrow> (k, v) \<in> set d \<longleftrightarrow> dict_get d k = Some v"
  by (auto simp: dict_wf_def dict_get_def)

lemma set_sorted_items [simp]: "set (sorted_items d) = set d"
  by (simp add: sorted_items_def)

lemma length_sorted_items [simp]: "length (sorted_items d) = length d"
  by (simp add: sorted_items_def)

lemma dict_wf_sorted_items [simp]: "dict_wf (sorted_items d) \<longleftrightarrow> dict_wf d"
proof -
  have "mset (map fst (sorted_items d)) = mset (map fst d)"
    unfolding sorted_items_def mset_map by simp
  then show ?thesis
    unfolding dict_wf_def by (rule mset_eq_imp_distinct_iff)
qed

lemma map_of_sorted_items [simp]:
  "dict_wf d \<Longrightarrow> map_of (sorted_items d) = map_of d"
  by (rule map_of_inject_set [THEN iffD2]) (use dict_wf_sorted_items [of d] in \<open>auto simp: dict_wf_def\<close>)

text \<open>A property of every item, through the operations.\<close>

lemma list_all_dict: "dict_wf d \<Longrightarrow> list_all P d \<longleftrightarrow> (\<forall>k v. dict_get d k = Some v \<longrightarrow> P (k, v))"
  using dict_get_in by (fastforce simp: list_all_iff)

lemma list_all_dict_set [simp]: "list_all P d \<Longrightarrow> P (k, v) \<Longrightarrow> list_all P (dict_set k v d)"
  by (induction d) (auto simp: dict_set_def)

lemma list_all_dict_pop [simp]: "dict_wf d \<Longrightarrow> list_all P d \<Longrightarrow> list_all P (dict_pop k d)"
  by (simp add: list_all_dict)

lemma list_all_dict_get: "list_all P d \<Longrightarrow> dict_get d k = Some v \<Longrightarrow> P (k, v)"
  by (auto simp: dict_get_def list_all_iff dest: map_of_SomeD)

lemma dict_wf_map_values [simp]: "dict_wf (map (\<lambda>(k, v). (k, f v)) d) \<longleftrightarrow> dict_wf d"
  by (simp add: dict_wf_def comp_def case_prod_beta)

lemma dict_get_map_values [simp]: "dict_get (map (\<lambda>(k, v). (k, f v)) d) k = map_option f (dict_get d k)"
  by (simp add: dict_get_def map_of_map)

text \<open>A dictionary display or \<open>dict(pairs)\<close>: a later pair with the same key wins.\<close>

definition dict_of :: "('k \<times> 'v) list \<Rightarrow> ('k, 'v) dict" where
  "dict_of xs = foldl (\<lambda>d (k, v). dict_set k v d) [] xs"

lemma dict_of_snoc: "dict_of (xs @ [(k, v)]) = dict_set k v (dict_of xs)"
  by (simp add: dict_of_def)

lemma dict_get_dict_of: "dict_get (dict_of xs) k = map_of (rev xs) k"
proof (induction xs rule: rev_induct)
  case (snoc x xs)
  then show ?case by (cases x) (simp add: dict_of_snoc)
qed (simp add: dict_of_def dict_get_def)

lemma dict_get_dict_of_wf: "dict_wf xs \<Longrightarrow> dict_get (dict_of xs) k = dict_get xs k"
proof -
  assume "dict_wf xs"
  then have "map_of (rev xs) = map_of xs"
    by (subst map_of_inject_set) (auto simp: dict_wf_def rev_map [symmetric])
  then show ?thesis by (simp add: dict_get_dict_of) (simp add: dict_get_def)
qed

end
