(* ===== verification/Errors.thy ===== *)
theory Errors
  imports Prelude
begin

text \<open>
  The exceptions the library raises (\<open>errors.py\<close>, \<open>NsdpError\<close> of
  \<open>protocols/nsdp/client.py\<close>) and the built-in Python exceptions its code can
  let escape. A message is kept as the structured facts it is formatted from.
\<close>

text \<open>What an \<open>NsdpError\<close> message says: which branch raised it, and the numbers it names.\<close>

datatype nsdp_reason =
    NsdpTimeout
  | NsdpMalformed
  | NsdpWrongOp int
  | NsdpNoSalt
  | NsdpInterfaceMac
  | NsdpV1Refused int int
  | NsdpBadPassword int int
  | NsdpLockedOut int int
  | NsdpRequestFailed int int int
  | NsdpNoVlan int

text \<open>
  What an \<open>SnmpError\<close> message says: a malformed row the parsers met (table
  drift), an object the agent does not have, a SET the agent refused, or a
  precondition of a write.
\<close>

datatype snmp_reason =
    SnmpBadIndex
  | SnmpBadValue
  | SnmpBadBitmap
  | SnmpAbsent
  | SnmpRefused
  | SnmpFailed
  | SnmpNoVlan int
  | SnmpNoCollector
  | SnmpMissingColumn int int

text \<open>
  What a \<open>CliCommandError\<close> message says: the command the switch answered with
  text and that text, a precondition of a write, or output no parser accepts.
\<close>

datatype cli_reason =
    CliRejected "nat list" "nat list"
  | CliNoVlan int
  | CliNoPort int
  | CliNoForcedRate
  | CliCollectorExists
  | CliNoCollector
  | CliNoIndex
  | CliBadOutput

text \<open>The observed state a \<open>WriteVerificationError\<close> carries as \<open>before\<close> and \<open>after\<close>.\<close>

datatype evidence =
    EvNone
  | EvInt int
  | EvText "nat list"
  | EvInts "int list"
  | EvVlan int "int set" "int set"
  | EvState int bool
  | EvBool bool
  | EvSpeed bool "int option" "bool option"
  | EvPairs "(int \<times> int) list"
  | EvMgmt "nat list option" "nat list option" "nat list option"

datatype exn =
    ValueError
  | UnicodeEncodeError
  | StructError
  | IndexError
  | KeyError
  | OSError
  | TimeoutError
  | ConfigError
  | CredentialError
  | UnknownModelError
  | UnsupportedCapabilityError
  | ProtectedPortError
  | WriteVerificationError evidence evidence
  | CliCommandError cli_reason
  | CliTransportError
  | TimeoutExpired
  | AssertionError
  | HttpError
  | HttpAuthError
  | HttpUnexpectedPageError
  | NsdpError nsdp_reason
  | SnmpError snmp_reason
  | CommitFailedError
  | NotWritableError
  | InconsistentValueError

type_synonym 'a py = "(exn, 'a) res"

text \<open>
  What an \<open>except\<close> clause catches: \<open>UnicodeEncodeError\<close> is a \<open>ValueError\<close>,
  \<open>TimeoutError\<close> is an \<open>OSError\<close>, and \<open>struct.error\<close>, \<open>IndexError\<close> and
  \<open>KeyError\<close> are neither.
\<close>

definition is_value_error :: "exn \<Rightarrow> bool" where
  "is_value_error e \<longleftrightarrow> e = ValueError \<or> e = UnicodeEncodeError"

definition is_os_error :: "exn \<Rightarrow> bool" where
  "is_os_error e \<longleftrightarrow> e = OSError \<or> e = TimeoutError"

text \<open>Subclasses of \<open>HttpError\<close> and of the root \<open>NetgearSwitchError\<close>.\<close>

fun is_http_error :: "exn \<Rightarrow> bool" where
  "is_http_error HttpError = True"
| "is_http_error HttpAuthError = True"
| "is_http_error HttpUnexpectedPageError = True"
| "is_http_error _ = False"

fun is_netgear_error :: "exn \<Rightarrow> bool" where
  "is_netgear_error ConfigError = True"
| "is_netgear_error CredentialError = True"
| "is_netgear_error UnknownModelError = True"
| "is_netgear_error UnsupportedCapabilityError = True"
| "is_netgear_error ProtectedPortError = True"
| "is_netgear_error (WriteVerificationError b a) = True"
| "is_netgear_error (CliCommandError c) = True"
| "is_netgear_error (NsdpError r) = True"
| "is_netgear_error (SnmpError r) = True"
| "is_netgear_error e = is_http_error e"

lemma is_value_error_simps [simp]:
  "is_value_error ValueError"
  "is_value_error UnicodeEncodeError"
  "\<not> is_value_error StructError"
  "\<not> is_value_error IndexError"
  "\<not> is_value_error KeyError"
  "\<not> is_value_error OSError"
  "\<not> is_value_error (NsdpError r)"
  by (simp_all add: is_value_error_def)

lemma netgear_error_not_builtin:
  "is_netgear_error e \<Longrightarrow> \<not> is_value_error e \<and> \<not> is_os_error e"
  by (cases e) (auto simp: is_value_error_def is_os_error_def)

section \<open>Packing and indexing\<close>

text \<open>
  \<open>struct.pack(">H", n)\<close> and its kin: \<open>w\<close> bytes big-endian, \<open>struct.error\<close> out of
  range. \<open>bytes([n])\<close>: one byte, \<open>ValueError\<close> out of range. \<open>struct\<close>'s \<open>6s\<close>: cut or
  zero-padded to the width.
\<close>

definition struct_uint :: "nat \<Rightarrow> int \<Rightarrow> bytes py" where
  "struct_uint w n = (if 0 \<le> n \<and> n < 256 ^ w then Inr (be_bytes w n) else Inl StructError)"

definition byte_of :: "int \<Rightarrow> bytes py" where
  "byte_of n = (if 0 \<le> n \<and> n < 256 then Inr [word_of_int n] else Inl ValueError)"

definition struct_str :: "nat \<Rightarrow> bytes \<Rightarrow> bytes" where
  "struct_str w bs = take w bs @ replicate (w - length bs) 0"

text \<open>\<open>struct.unpack_from\<close> of one unsigned field: \<open>struct.error\<close> when the buffer is too short.\<close>

definition unpack_uint_from :: "nat \<Rightarrow> bytes \<Rightarrow> nat \<Rightarrow> int py" where
  "unpack_uint_from w bs off =
     (if off + w \<le> length bs then Inr (be_int (take w (drop off bs))) else Inl StructError)"

definition byte_at :: "bytes \<Rightarrow> nat \<Rightarrow> int py" where
  "byte_at bs i = (if i < length bs then Inr (uint (bs ! i)) else Inl IndexError)"

lemma struct_uint_ok [simp]:
  "0 \<le> n \<Longrightarrow> n < 256 ^ w \<Longrightarrow> struct_uint w n = Inr (be_bytes w n)"
  by (simp add: struct_uint_def)

lemma struct_uint_Inr_iff [res_iff]:
  "struct_uint w n = Inr bs \<longleftrightarrow> 0 \<le> n \<and> n < 256 ^ w \<and> bs = be_bytes w n"
  by (auto simp: struct_uint_def)

lemma struct_uint_Inl_iff [res_iff]:
  "struct_uint w n = Inl e \<longleftrightarrow> \<not> (0 \<le> n \<and> n < 256 ^ w) \<and> e = StructError"
  by (auto simp: struct_uint_def)

lemma byte_of_ok [simp]: "0 \<le> n \<Longrightarrow> n < 256 \<Longrightarrow> byte_of n = Inr [word_of_int n]"
  by (simp add: byte_of_def)

lemma byte_of_Inr_iff [res_iff]:
  "byte_of n = Inr bs \<longleftrightarrow> 0 \<le> n \<and> n < 256 \<and> bs = [word_of_int n]"
  by (auto simp: byte_of_def)

lemma byte_of_Inl_iff [res_iff]:
  "byte_of n = Inl e \<longleftrightarrow> \<not> (0 \<le> n \<and> n < 256) \<and> e = ValueError"
  by (auto simp: byte_of_def)

lemma length_struct_str [simp]: "length (struct_str w bs) = w"
  by (simp add: struct_str_def)

lemma struct_str_id [simp]: "length bs = w \<Longrightarrow> struct_str w bs = bs"
  by (simp add: struct_str_def)

lemma unpack_uint_from_ok [simp]:
  "off + w \<le> length bs \<Longrightarrow> unpack_uint_from w bs off = Inr (be_int (take w (drop off bs)))"
  by (simp add: unpack_uint_from_def)

lemma byte_at_ok [simp]: "i < length bs \<Longrightarrow> byte_at bs i = Inr (uint (bs ! i))"
  by (simp add: byte_at_def)

end
