(* ===== verification/Py_Text.thy ===== *)
theory Py_Text
  imports Errors
begin

text \<open>
  Python's \<open>str\<close> as a list of code points, the ASCII and UTF-8 codecs the code
  calls (with \<open>errors="replace"\<close> where it does), and the dotted-quad
  conversions of the \<open>socket\<close> module.
\<close>

type_synonym ustr = "nat list"

definition lit :: "string \<Rightarrow> ustr" where
  "lit s = map of_char s"

definition nul_rstrip :: "ustr \<Rightarrow> ustr" where
  "nul_rstrip s = rev (dropWhile (\<lambda>c. c = 0) (rev s))"

text \<open>The white space \<open>str.strip()\<close> removes.\<close>

definition is_space :: "nat \<Rightarrow> bool" where
  "is_space c \<longleftrightarrow> c = 32 \<or> (9 \<le> c \<and> c \<le> 13) \<or> (28 \<le> c \<and> c \<le> 31)
     \<or> (8192 \<le> c \<and> c \<le> 8202)
     \<or> c \<in> {133, 160, 5760, 8232, 8233, 8239, 8287, 12288}"

definition strip :: "ustr \<Rightarrow> ustr" where
  "strip s = rev (dropWhile is_space (rev (dropWhile is_space s)))"

definition ascii_lower_char :: "nat \<Rightarrow> nat" where
  "ascii_lower_char c = (if 65 \<le> c \<and> c \<le> 90 then c + 32 else c)"

definition ascii_upper_char :: "nat \<Rightarrow> nat" where
  "ascii_upper_char c = (if 97 \<le> c \<and> c \<le> 122 then c - 32 else c)"

text \<open>
  \<open>str.lower()\<close>, exact on ASCII. It is only ever compared with ASCII words that
  contain no \<open>k\<close>, and the only other code point whose lower case is one ASCII
  letter is the Kelvin sign.
\<close>

definition lower :: "ustr \<Rightarrow> ustr" where
  "lower s = map ascii_lower_char s"

lemmas text_eval = lit_def lower_def strip_def is_space_def ascii_lower_char_def
  ascii_upper_char_def nul_rstrip_def

section \<open>ASCII\<close>

definition is_ascii :: "ustr \<Rightarrow> bool" where
  "is_ascii s \<longleftrightarrow> (\<forall>c \<in> set s. c < 128)"

definition ascii_encode :: "ustr \<Rightarrow> bytes py" where
  "ascii_encode s = (if is_ascii s then Inr (map of_nat s) else Inl UnicodeEncodeError)"

definition ascii_decode_replace :: "bytes \<Rightarrow> ustr" where
  "ascii_decode_replace bs = map (\<lambda>b. if unat b < 128 then unat b else 65533) bs"

lemma unat_of_nat_byte [simp]: "n < 256 \<Longrightarrow> unat (of_nat n :: byte) = n"
  by (simp add: unat_of_nat)

lemma ascii_roundtrip: "is_ascii s \<Longrightarrow> ascii_decode_replace (map of_nat s) = s"
  unfolding ascii_decode_replace_def is_ascii_def by (induction s) auto

lemma ascii_encode_Inr_iff [res_iff]:
  "ascii_encode s = Inr bs \<longleftrightarrow> is_ascii s \<and> bs = map of_nat s"
  by (auto simp: ascii_encode_def)

lemma ascii_encode_ok [simp]: "is_ascii s \<Longrightarrow> ascii_encode s = Inr (map of_nat s)"
  by (simp add: ascii_encode_def)

lemma nul_rstrip_id: "s = [] \<or> last s \<noteq> 0 \<Longrightarrow> nul_rstrip s = s"
  by (cases s rule: rev_cases) (auto simp: nul_rstrip_def)

section \<open>UTF-8\<close>

definition is_scalar :: "nat \<Rightarrow> bool" where
  "is_scalar c \<longleftrightarrow> c < 1114112 \<and> \<not> (55296 \<le> c \<and> c < 57344)"

definition utf8_char :: "nat \<Rightarrow> nat list" where
  "utf8_char c =
     (if c < 128 then [c]
      else if c < 2048 then [192 + c div 64, 128 + c mod 64]
      else if c < 65536 then [224 + c div 4096, 128 + c div 64 mod 64, 128 + c mod 64]
      else [240 + c div 262144, 128 + c div 4096 mod 64, 128 + c div 64 mod 64, 128 + c mod 64])"

text \<open>A surrogate has no UTF-8 form: \<open>str.encode\<close> raises.\<close>

definition utf8_encode :: "ustr \<Rightarrow> bytes py" where
  "utf8_encode s =
     (if (\<forall>c \<in> set s. is_scalar c) then Inr (map of_nat (concat (map utf8_char s)))
      else Inl UnicodeEncodeError)"

definition is_cont :: "nat \<Rightarrow> bool" where
  "is_cont b \<longleftrightarrow> 128 \<le> b \<and> b < 192"

text \<open>The range the second byte of a well-formed sequence lies in, by its first byte.\<close>

definition second_ok :: "nat \<Rightarrow> nat \<Rightarrow> bool" where
  "second_ok b0 b1 \<longleftrightarrow>
     (if b0 = 224 then 160 \<le> b1 \<and> b1 < 192
      else if b0 = 237 then 128 \<le> b1 \<and> b1 < 160
      else if b0 = 240 then 144 \<le> b1 \<and> b1 < 192
      else if b0 = 244 then 128 \<le> b1 \<and> b1 < 144
      else is_cont b1)"

text \<open>
  One decoded code point and how many bytes after the first it takes. An
  ill-formed sequence gives U+FFFD for its longest well-formed prefix.
\<close>

definition utf8_step :: "nat \<Rightarrow> nat list \<Rightarrow> nat \<times> nat" where
  "utf8_step b0 rest =
     (if b0 < 128 then (b0, 0)
      else if 194 \<le> b0 \<and> b0 < 224 then
        (case rest of
           b1 # _ \<Rightarrow> if is_cont b1 then ((b0 - 192) * 64 + (b1 - 128), 1) else (65533, 0)
         | [] \<Rightarrow> (65533, 0))
      else if 224 \<le> b0 \<and> b0 < 240 then
        (case rest of
           [] \<Rightarrow> (65533, 0)
         | b1 # r1 \<Rightarrow>
             if \<not> second_ok b0 b1 then (65533, 0)
             else (case r1 of
                     b2 # _ \<Rightarrow>
                       if is_cont b2
                       then ((b0 - 224) * 4096 + (b1 - 128) * 64 + (b2 - 128), 2)
                       else (65533, 1)
                   | [] \<Rightarrow> (65533, 1)))
      else if 240 \<le> b0 \<and> b0 < 245 then
        (case rest of
           [] \<Rightarrow> (65533, 0)
         | b1 # r1 \<Rightarrow>
             if \<not> second_ok b0 b1 then (65533, 0)
             else (case r1 of
                     [] \<Rightarrow> (65533, 1)
                   | b2 # r2 \<Rightarrow>
                       if \<not> is_cont b2 then (65533, 1)
                       else (case r2 of
                               b3 # _ \<Rightarrow>
                                 if is_cont b3
                                 then ((b0 - 240) * 262144 + (b1 - 128) * 4096
                                       + (b2 - 128) * 64 + (b3 - 128), 3)
                                 else (65533, 2)
                             | [] \<Rightarrow> (65533, 2))))
      else (65533, 0))"

function utf8_loop :: "nat list \<Rightarrow> ustr" where
  "utf8_loop [] = []"
| "utf8_loop (b # bs) = fst (utf8_step b bs) # utf8_loop (drop (snd (utf8_step b bs)) bs)"
  by pat_completeness auto
termination
  by (relation "measure length") auto

definition utf8_decode_replace :: "bytes \<Rightarrow> ustr" where
  "utf8_decode_replace bs = utf8_loop (map unat bs)"

lemma split_base64:
  fixes c :: nat
  shows "c div 4096 * 4096 + c div 64 mod 64 * 64 + c mod 64 = c"
    and "c div 262144 * 64 + c div 4096 mod 64 = c div 4096"
proof -
  have d: "c div 4096 = c div 64 div 64" "c div 262144 = c div 4096 div 64"
    using div_mult2_eq [of c 64 64] div_mult2_eq [of c 4096 64] by simp_all
  have "c div 64 div 64 * 64 + c div 64 mod 64 = c div 64" "c div 64 * 64 + c mod 64 = c"
    by (rule div_mult_mod_eq)+
  then show "c div 4096 * 4096 + c div 64 mod 64 * 64 + c mod 64 = c"
    unfolding d by linarith
  show "c div 262144 * 64 + c div 4096 mod 64 = c div 4096"
    unfolding d(2) by (rule div_mult_mod_eq)
qed

lemma utf8_char_step:
  assumes "is_scalar c"
  shows "\<exists>b bs. utf8_char c = b # bs \<and> utf8_step b (bs @ rest) = (c, length bs)"
proof -
  consider (one) "c < 128" | (two) "128 \<le> c" "c < 2048" | (three) "2048 \<le> c" "c < 65536"
    | (four) "65536 \<le> c" by linarith
  then show ?thesis
  proof cases
    case one
    then show ?thesis by (simp add: utf8_char_def utf8_step_def)
  next
    case two
    have "c div 64 < 32" "2 \<le> c div 64" using two by (auto simp: div_less_iff_less_mult)
    moreover have "c div 64 * 64 + c mod 64 = c" by simp
    ultimately show ?thesis
      using two by (simp add: utf8_char_def utf8_step_def is_cont_def)
  next
    case three
    define a b d where "a = c div 4096" and "b = c div 64 mod 64" and "d = c mod 64"
    note abd = this
    have c: "a * 4096 + b * 64 + d = c" unfolding abd by (rule split_base64)
    have lt: "b < 64" "d < 64" by (simp_all add: abd)
    have a: "a < 16" using three c by linarith
    have e0: "a = 0 \<Longrightarrow> 32 \<le> b" and ed: "a = 13 \<Longrightarrow> b < 32"
      using assms three c lt unfolding is_scalar_def by linarith+
    have "utf8_char c = [224 + a, 128 + b, 128 + d]"
      using three by (simp add: utf8_char_def abd)
    moreover have "second_ok (224 + a) (128 + b)"
      using a lt e0 ed by (auto simp: second_ok_def is_cont_def)
    then have "utf8_step (224 + a) ([128 + b, 128 + d] @ rest) = (a * 4096 + b * 64 + d, 2)"
      using a lt by (simp add: utf8_step_def is_cont_def)
    ultimately show ?thesis using c by simp
  next
    case four
    define a b d e where "a = c div 262144" and "b = c div 4096 mod 64"
      and "d = c div 64 mod 64" and "e = c mod 64"
    note abde = this
    have "(a * 64 + b) * 4096 + d * 64 + e = c"
      unfolding abde split_base64(2) by (rule split_base64)
    then have c: "a * 262144 + b * 4096 + d * 64 + e = c" by simp
    have lt: "b < 64" "d < 64" "e < 64" by (simp_all add: abde)
    have "c < 1114112" using assms by (simp add: is_scalar_def)
    then have a: "a < 5" using c by linarith
    have f0: "a = 0 \<Longrightarrow> 16 \<le> b" and f4: "a = 4 \<Longrightarrow> b < 16"
      using assms four c lt unfolding is_scalar_def by linarith+
    have "utf8_char c = [240 + a, 128 + b, 128 + d, 128 + e]"
      using four by (simp add: utf8_char_def abde)
    moreover have "second_ok (240 + a) (128 + b)"
      using a lt f0 f4 by (auto simp: second_ok_def is_cont_def)
    then have "utf8_step (240 + a) ([128 + b, 128 + d, 128 + e] @ rest)
        = (a * 262144 + b * 4096 + d * 64 + e, 3)"
      using a lt by (simp add: utf8_step_def is_cont_def)
    ultimately show ?thesis using c by simp
  qed
qed

lemma utf8_loop_concat:
  "(\<forall>c \<in> set s. is_scalar c) \<Longrightarrow> utf8_loop (concat (map utf8_char s)) = s"
proof (induction s)
  case Nil
  then show ?case by simp
next
  case (Cons c s)
  then obtain b bs where "utf8_char c = b # bs"
    and "utf8_step b (bs @ concat (map utf8_char s)) = (c, length bs)"
    using utf8_char_step [of c "concat (map utf8_char s)"] by auto
  with Cons show ?case by simp
qed

lemma utf8_char_byte: "is_scalar c \<Longrightarrow> b \<in> set (utf8_char c) \<Longrightarrow> b < 256"
  by (auto simp: utf8_char_def is_scalar_def split: if_splits)

lemma utf8_roundtrip:
  assumes "utf8_encode s = Inr bs"
  shows "utf8_decode_replace bs = s"
proof -
  from assms have s: "\<forall>c \<in> set s. is_scalar c" and bs: "bs = map of_nat (concat (map utf8_char s))"
    by (auto simp: utf8_encode_def split: if_splits)
  have "map unat bs = concat (map utf8_char s)"
    unfolding bs map_map comp_def
    by (rule map_idI) (use s utf8_char_byte in \<open>auto simp del: of_nat_unat\<close>)
  with s show ?thesis by (simp add: utf8_decode_replace_def utf8_loop_concat)
qed

text \<open>What \<open>decode\<close> returns can always be encoded again.\<close>

lemma scalar_two: "x < 32 \<Longrightarrow> y < 64 \<Longrightarrow> is_scalar (x * 64 + y)"
  unfolding is_scalar_def by linarith

lemma scalar_three:
  assumes "x < 16" "y < 64" "z < 64" "x = 13 \<longrightarrow> y < 32"
  shows "is_scalar (x * 4096 + y * 64 + z)"
proof -
  consider "x \<le> 12" | "x = 13" "y < 32" | "14 \<le> x" using assms by linarith
  then show ?thesis unfolding is_scalar_def by cases (use assms in linarith)+
qed

lemma scalar_four:
  assumes "x < 5" "y < 64" "z < 64" "w < 64" "x = 0 \<longrightarrow> 16 \<le> y" "x = 4 \<longrightarrow> y < 16"
  shows "is_scalar (x * 262144 + y * 4096 + z * 64 + w)"
proof -
  consider "x = 0" "16 \<le> y" | "1 \<le> x" "x \<le> 3" | "x = 4" "y < 16" using assms by linarith
  then show ?thesis unfolding is_scalar_def by cases (use assms in linarith)+
qed

lemma is_scalar_replacement: "is_scalar 65533"
  by (simp add: is_scalar_def)

lemma cont_less: "is_cont b \<Longrightarrow> b - 128 < 64"
  by (auto simp: is_cont_def)

lemma second_less: "second_ok b0 b1 \<Longrightarrow> b1 - 128 < 64"
  by (auto simp: second_ok_def is_cont_def split: if_splits)

lemma utf8_step_scalar: "is_scalar (fst (utf8_step b0 rest))"
proof -
  consider "b0 < 128" | "128 \<le> b0" "b0 < 194" | "194 \<le> b0" "b0 < 224" | "224 \<le> b0" "b0 < 240"
    | "240 \<le> b0" "b0 < 245" | "245 \<le> b0" by linarith
  then show ?thesis
  proof cases
    case 1
    then show ?thesis by (simp add: utf8_step_def is_scalar_def)
  next
    case 2
    then show ?thesis by (simp add: utf8_step_def is_scalar_replacement)
  next
    case 3
    then have "b0 - 192 < 32" by simp
    with 3 show ?thesis
      by (simp add: utf8_step_def is_scalar_replacement cont_less scalar_two split: list.split)
  next
    case 4
    then have x: "b0 - 224 < 16" by simp
    have "second_ok b0 b1 \<Longrightarrow> b0 - 224 = 13 \<longrightarrow> b1 - 128 < 32" for b1
      by (auto simp: second_ok_def split: if_splits)
    with 4 x show ?thesis
      by (simp add: utf8_step_def is_scalar_replacement cont_less second_less scalar_three split: list.split)
  next
    case 5
    then have x: "b0 - 240 < 5" by simp
    have "is_scalar ((b0 - 240) * 262144 + (b1 - 128) * 4096 + (b2 - 128) * 64 + (b3 - 128))"
      if "second_ok b0 b1" "is_cont b2" "is_cont b3" for b1 b2 b3
    proof (rule scalar_four [OF x second_less [OF that(1)] cont_less [OF that(2)] cont_less [OF that(3)]])
      show "b0 - 240 = 0 \<longrightarrow> 16 \<le> b1 - 128" "b0 - 240 = 4 \<longrightarrow> b1 - 128 < 16"
        using 5 that(1) by (auto simp: second_ok_def split: if_splits)
    qed
    with 5 show ?thesis
      by (simp add: utf8_step_def is_scalar_replacement split: list.split)
  next
    case 6
    then show ?thesis by (simp add: utf8_step_def is_scalar_replacement)
  qed
qed

lemma utf8_loop_scalar: "c \<in> set (utf8_loop bs) \<Longrightarrow> is_scalar c"
  by (induction bs rule: utf8_loop.induct) (auto simp: utf8_step_scalar)

lemma utf8_encode_decoded: "\<exists>bs. utf8_encode (nul_rstrip (utf8_decode_replace v)) = Inr bs"
proof -
  have "set (nul_rstrip (utf8_decode_replace v)) \<subseteq> set (utf8_decode_replace v)"
    unfolding nul_rstrip_def by (auto dest: set_dropWhileD)
  then show ?thesis
    using utf8_loop_scalar by (auto simp: utf8_encode_def utf8_decode_replace_def)
qed

section \<open>Hexadecimal and separators\<close>

definition hex_digit :: "nat \<Rightarrow> nat" where
  "hex_digit d = (if d < 10 then 48 + d else 87 + d)"

definition hex_digit_upper :: "nat \<Rightarrow> nat" where
  "hex_digit_upper d = (if d < 10 then 48 + d else 55 + d)"

text \<open>\<open>f"{b:02X}"\<close>\<close>

definition hex2_upper :: "byte \<Rightarrow> ustr" where
  "hex2_upper b = [hex_digit_upper (unat b div 16), hex_digit_upper (unat b mod 16)]"

fun colon_join :: "ustr list \<Rightarrow> ustr" where
  "colon_join [] = []"
| "colon_join [s] = s"
| "colon_join (s # t # ss) = s @ 58 # colon_join (t # ss)"

section \<open>Dotted quads\<close>

fun show_nat :: "nat \<Rightarrow> ustr" where
  "show_nat n = (if n < 10 then [48 + n] else show_nat (n div 10) @ [48 + n mod 10])"

declare show_nat.simps [simp del]

fun split_on :: "nat \<Rightarrow> ustr \<Rightarrow> ustr list" where
  "split_on c [] = [[]]"
| "split_on c (x # xs) =
     (if x = c then [] # split_on c xs
      else (case split_on c xs of p # ps \<Rightarrow> (x # p) # ps | [] \<Rightarrow> [[x]]))"

text \<open>\<open>socket.inet_ntoa\<close>: \<open>OSError\<close> unless given four bytes.\<close>

definition dotted :: "bytes \<Rightarrow> ustr" where
  "dotted bs = (case map (\<lambda>b. show_nat (unat b)) bs of
     [] \<Rightarrow> [] | p # ps \<Rightarrow> p @ concat (map (\<lambda>q. 46 # q) ps))"

definition inet_ntoa :: "bytes \<Rightarrow> ustr py" where
  "inet_ntoa bs = (if length bs = 4 then Inr (dotted bs) else Inl OSError)"

text \<open>
  \<open>socket.inet_aton\<close> as the C library reads it: one to four parts, each decimal,
  octal (leading 0) or hexadecimal (0x), the last part filling the remaining
  bytes, and anything after white space ignored.
\<close>

definition is_digit :: "nat \<Rightarrow> bool" where
  "is_digit c \<longleftrightarrow> 48 \<le> c \<and> c < 58"

definition hex_val :: "nat \<Rightarrow> nat option" where
  "hex_val c = (if is_digit c then Some (c - 48)
                else if 97 \<le> c \<and> c < 103 then Some (c - 87)
                else if 65 \<le> c \<and> c < 71 then Some (c - 55) else None)"

definition digits_val :: "nat \<Rightarrow> nat list \<Rightarrow> nat" where
  "digits_val base ds = foldl (\<lambda>a d. a * base + d) 0 ds"

definition aton_part :: "ustr \<Rightarrow> nat option" where
  "aton_part p =
     (case p of
        [] \<Rightarrow> None
      | c # cs \<Rightarrow>
          if \<not> is_digit c then None
          else if c = 48 \<and> cs \<noteq> [] \<and> (hd cs = 120 \<or> hd cs = 88) then
            (if tl cs \<noteq> [] \<and> list_all (\<lambda>d. hex_val d \<noteq> None) (tl cs)
             then Some (digits_val 16 (map (\<lambda>d. the (hex_val d)) (tl cs))) else None)
          else if c = 48 then
            (if list_all (\<lambda>d. 48 \<le> d \<and> d < 56) cs
             then Some (digits_val 8 (map (\<lambda>d. d - 48) cs)) else None)
          else (if list_all is_digit cs
                then Some (digits_val 10 (map (\<lambda>d. d - 48) p)) else None))"

definition aton_parts :: "nat option list \<Rightarrow> bytes option" where
  "aton_parts vs =
     (if 1 \<le> length vs \<and> length vs \<le> 4 \<and> list_all (\<lambda>v. v \<noteq> None) vs
         \<and> list_all (\<lambda>v. the v < 256) (butlast vs)
         \<and> the (last vs) < 256 ^ (5 - length vs)
      then Some (map (\<lambda>v. of_nat (the v)) (butlast vs)
                 @ be_bytes (5 - length vs) (int (the (last vs))))
      else None)"

definition inet_aton :: "ustr \<Rightarrow> bytes py" where
  "inet_aton s =
     (if 0 \<in> set s then Inl ValueError
      else case aton_parts (map aton_part
              (split_on 46 (takeWhile (\<lambda>c. \<not> (c = 32 \<or> (9 \<le> c \<and> c \<le> 13))) s))) of
             Some bs \<Rightarrow> Inr bs | None \<Rightarrow> Inl OSError)"

lemma show_nat_digits: "d \<in> set (show_nat n) \<Longrightarrow> is_digit d"
proof (induction n rule: show_nat.induct)
  case (1 n)
  then show ?case
    by (subst (asm) show_nat.simps) (auto simp: is_digit_def split: if_splits)
qed

lemma show_nat_nonempty [simp]: "show_nat n \<noteq> []"
  by (subst show_nat.simps) simp

lemma show_nat_leading: "0 < n \<Longrightarrow> hd (show_nat n) \<noteq> 48"
proof (induction n rule: show_nat.induct)
  case (1 n)
  then show ?case by (subst show_nat.simps) (auto simp: hd_append)
qed

lemma digits_val_show_nat: "digits_val 10 (map (\<lambda>d. d - 48) (show_nat n)) = n"
proof (induction n rule: show_nat.induct)
  case (1 n)
  then show ?case
    by (subst show_nat.simps) (auto simp: digits_val_def)
qed

lemma aton_part_show_nat: "aton_part (show_nat n) = Some n"
proof (cases "n = 0")
  case True
  then show ?thesis by (simp add: show_nat.simps aton_part_def is_digit_def digits_val_def)
next
  case False
  obtain c cs where s: "show_nat n = c # cs" by (cases "show_nat n") auto
  have "c \<noteq> 48" using False show_nat_leading [of n] s by simp
  moreover have "is_digit c" "list_all is_digit cs"
    using show_nat_digits [of _ n] s by (auto simp: list_all_iff)
  ultimately show ?thesis
    using digits_val_show_nat [of n] by (simp add: s aton_part_def)
qed

lemma split_on_append: "c \<notin> set p \<Longrightarrow> split_on c (p @ c # r) = p # split_on c r"
  by (induction p) auto

lemma split_on_single: "c \<notin> set p \<Longrightarrow> split_on c p = [p]"
  by (induction p) auto

lemma digit_chars: "is_digit d \<Longrightarrow> d \<noteq> 46 \<and> d \<noteq> 0 \<and> d \<noteq> 32 \<and> \<not> (9 \<le> d \<and> d \<le> 13)"
  by (auto simp: is_digit_def)

lemma inet_aton_dotted:
  assumes "length bs = 4"
  shows "inet_aton (dotted bs) = Inr bs"
proof -
  obtain a b c d where bs: "bs = [a, b, c, d]"
    using assms by (auto simp: numeral_eq_Suc length_Suc_conv)
  let ?q = "\<lambda>b :: byte. show_nat (unat b)"
  have dq: "dotted bs = ?q a @ 46 # ?q b @ 46 # ?q c @ 46 # ?q d"
    by (simp add: bs dotted_def)
  have ch: "x = 46 \<or> is_digit x" if "x \<in> set (dotted bs)" for x
    using that show_nat_digits by (auto simp: dq)
  have nz: "0 \<notin> set (dotted bs)"
    using ch digit_chars by fastforce
  have tw: "takeWhile (\<lambda>c. \<not> (c = 32 \<or> (9 \<le> c \<and> c \<le> 13))) (dotted bs) = dotted bs"
    unfolding takeWhile_eq_all_conv using ch by (force simp: is_digit_def)
  have nd: "46 \<notin> set (?q x)" for x
    using show_nat_digits digit_chars by blast
  have "split_on 46 (dotted bs) = [?q a, ?q b, ?q c, ?q d]"
    using nd by (simp add: dq split_on_append split_on_single)
  then have "map aton_part (split_on 46 (dotted bs))
      = [Some (unat a), Some (unat b), Some (unat c), Some (unat d)]"
    by (simp add: aton_part_show_nat)
  moreover have "aton_parts [Some (unat a), Some (unat b), Some (unat c), Some (unat d)] = Some bs"
    by (simp add: aton_parts_def bs)
  ultimately show ?thesis
    unfolding inet_aton_def tw using nz by simp
qed

lemma inet_aton_length: "inet_aton s = Inr bs \<Longrightarrow> length bs = 4"
  by (auto simp: inet_aton_def aton_parts_def split: if_splits option.splits)

end
