(* ===== verification/Models.thy ===== *)
theory Models
  imports Py_Text
begin

text \<open>
  The public data model (\<open>models.py\<close>): the enums and frozen dataclasses every
  backend returns, the constructor check of a configured port speed, the
  completion test of a PoE power cycle, and the vocabularies shared by the
  backends (access modes, syslog severities).
\<close>

datatype poe_detect = PoeDisabled | PoeSearching | PoeDelivering | PoeFault | PoeUnknown
datatype vlan_mode = VlanUntagged | VlanTagged | VlanExcluded
datatype ip_mode = IpDhcp | IpStatic | IpUnknown

section \<open>Configured port speed\<close>

record port_speed =
  ps_auto :: bool
  ps_mbps :: "int option"
  ps_full :: "bool option"

text \<open>The dataclass constructor, with the check of \<open>__post_init__\<close>.\<close>

definition mk_port_speed :: "bool \<Rightarrow> int option \<Rightarrow> bool option \<Rightarrow> port_speed py" where
  "mk_port_speed a m f =
     (if a then
        (if m \<noteq> None \<or> f \<noteq> None then Inl ValueError
         else Inr \<lparr>ps_auto = a, ps_mbps = m, ps_full = f\<rparr>)
      else if m = None \<or> f = None then Inl ValueError
      else Inr \<lparr>ps_auto = a, ps_mbps = m, ps_full = f\<rparr>)"

definition port_speed_auto :: "port_speed py" where
  "port_speed_auto = mk_port_speed True None None"

definition port_speed_forced :: "int \<Rightarrow> bool \<Rightarrow> port_speed py" where
  "port_speed_forced m full = mk_port_speed False (Some m) (Some full)"

definition show_int :: "int \<Rightarrow> ustr" where
  "show_int i = (if i < 0 then 45 # show_nat (nat (- i)) else show_nat (nat i))"

definition port_speed_str :: "port_speed \<Rightarrow> ustr" where
  "port_speed_str s =
     (if ps_auto s then lit ''auto''
      else (case ps_mbps s of None \<Rightarrow> lit ''None'' | Some m \<Rightarrow> show_int m)
           @ lit ''M '' @ (if ps_full s = Some True then lit ''full'' else lit ''half'')
           @ lit ''-duplex'')"

text \<open>A value that exists is either auto with nothing else, or forced with both.\<close>

definition port_speed_wf :: "port_speed \<Rightarrow> bool" where
  "port_speed_wf s \<longleftrightarrow>
     (if ps_auto s then ps_mbps s = None \<and> ps_full s = None
      else ps_mbps s \<noteq> None \<and> ps_full s \<noteq> None)"

lemma mk_port_speed_wf: "mk_port_speed a m f = Inr s \<Longrightarrow> port_speed_wf s"
  by (auto simp: mk_port_speed_def port_speed_wf_def split: if_splits)

lemma mk_port_speed_Inr_iff:
  "(\<exists>s. mk_port_speed a m f = Inr s) \<longleftrightarrow> port_speed_wf \<lparr>ps_auto = a, ps_mbps = m, ps_full = f\<rparr>"
  by (auto simp: mk_port_speed_def port_speed_wf_def)

lemma mk_port_speed_raises: "mk_port_speed a m f = Inl e \<Longrightarrow> e = ValueError"
  by (auto simp: mk_port_speed_def split: if_splits)

section \<open>Records returned by the readers\<close>

record port_status =
  st_port :: int
  st_name :: "ustr option"
  st_admin_enabled :: bool
  st_link_up :: bool
  st_speed_mbps :: "int option"
  st_description :: "ustr option"
  st_full_duplex :: "bool option"
  st_flow_control :: "bool option"
  st_speed_config :: "port_speed option"
  st_oper_status :: "int option"

record poe_status =
  poe_port :: int
  poe_admin_enabled :: bool
  poe_detect_state :: poe_detect
  poe_power_mw :: "int option"

definition poe_is_delivering :: "poe_status \<Rightarrow> bool" where
  "poe_is_delivering p \<longleftrightarrow> poe_detect_state p = PoeDelivering"

definition poe_cycle_complete :: "poe_status option \<Rightarrow> poe_status option \<Rightarrow> bool" where
  "poe_cycle_complete before now =
     (case now of
        None \<Rightarrow> False
      | Some n \<Rightarrow>
          if (case before of None \<Rightarrow> False | Some b \<Rightarrow> poe_is_delivering b)
          then poe_is_delivering n
          else poe_detect_state n = PoeDelivering \<or> poe_detect_state n = PoeSearching)"

record vlan_info =
  vi_vlan_id :: int
  vi_name :: "ustr option"
  vi_member_ports :: "int set"
  vi_tagged_ports :: "int set"
  vi_untagged_ports :: "int set"

record port_stats =
  ct_port :: int
  ct_rx_bytes :: "int option"
  ct_tx_bytes :: "int option"
  ct_rx_packets :: "int option"
  ct_tx_packets :: "int option"
  ct_rx_errors :: "int option"
  ct_tx_errors :: "int option"

record mgmt_ip_config =
  ip_mode_of :: ip_mode
  ip_address :: "ustr option"
  ip_netmask :: "ustr option"
  ip_gateway :: "ustr option"
  ip_base_mac :: "ustr option"

record lldp_neighbor =
  ln_local_port :: int
  ln_remote_sys_name :: "ustr option"
  ln_remote_port_desc :: "ustr option"
  ln_remote_chassis_id :: "ustr option"
  ln_remote_port_id :: "ustr option"

record mac_entry =
  me_mac :: ustr
  me_port :: int
  me_vlan_id :: "int option"

text \<open>A sensor's \<open>float\<close>: the integer it was converted from, or \<open>nan\<close> (no live reading).\<close>

datatype reading = Reading int | NoReading

record sensor =
  sn_name :: ustr
  sn_kind :: ustr
  sn_value :: reading
  sn_unit :: ustr

record syslog_server =
  sl_host :: ustr
  sl_port :: int
  sl_severity :: int
  sl_active :: bool
  sl_index :: "int option"

record syslog_config =
  sg_enabled :: bool
  sg_local_port :: int
  sg_servers :: "syslog_server list"

record detected_model =
  dm_key :: "string option"
  dm_sys_descr :: "ustr option"
  dm_sys_object_id :: "ustr option"

definition matched :: "detected_model \<Rightarrow> bool" where
  "matched d \<longleftrightarrow> dm_key d \<noteq> None"

lemma poe_cycle_complete_strict:
  "poe_is_delivering b \<Longrightarrow> poe_cycle_complete (Some b) now \<Longrightarrow>
     \<exists>n. now = Some n \<and> poe_is_delivering n"
  by (auto simp: poe_cycle_complete_def split: option.splits)

lemma poe_cycle_complete_mono:
  "poe_cycle_complete (Some b) now \<Longrightarrow> poe_cycle_complete None now"
  by (auto simp: poe_cycle_complete_def poe_is_delivering_def split: option.splits if_splits)

section \<open>Evidence\<close>

text \<open>The evidence a \<open>WriteVerificationError\<close> carries, as the facts its check compared.\<close>

definition ev_int :: "int option \<Rightarrow> evidence" where
  "ev_int x = (case x of None \<Rightarrow> EvNone | Some n \<Rightarrow> EvInt n)"

definition ev_text :: "ustr option \<Rightarrow> evidence" where
  "ev_text x = (case x of None \<Rightarrow> EvNone | Some t \<Rightarrow> EvText t)"

definition ev_vlan :: "vlan_info option \<Rightarrow> evidence" where
  "ev_vlan x = (case x of None \<Rightarrow> EvNone
     | Some v \<Rightarrow> EvVlan (vi_vlan_id v) (vi_member_ports v) (vi_tagged_ports v))"

definition ev_mgmt :: "mgmt_ip_config \<Rightarrow> evidence" where
  "ev_mgmt g = EvMgmt (ip_address g) (ip_netmask g) (ip_gateway g)"

definition ev_poe :: "poe_status option \<Rightarrow> evidence" where
  "ev_poe x = (case x of None \<Rightarrow> EvNone | Some p \<Rightarrow> EvState (poe_port p) (poe_admin_enabled p))"

definition ev_port :: "port_status option \<Rightarrow> evidence" where
  "ev_port x = (case x of None \<Rightarrow> EvNone | Some p \<Rightarrow> EvState (st_port p) (st_admin_enabled p))"

definition ev_servers :: "syslog_config \<Rightarrow> evidence" where
  "ev_servers c = EvInts (map (\<lambda>s. case sl_index s of Some i \<Rightarrow> i | None \<Rightarrow> 0) (sg_servers c))"

section \<open>Access modes\<close>

definition PRIVILEGED_ACCESS_MODES :: "ustr list" where
  "PRIVILEGED_ACCESS_MODES = map lit [''privilege-15'', ''read/write'', ''super user'']"

definition UNPRIVILEGED_ACCESS_MODES :: "ustr list" where
  "UNPRIVILEGED_ACCESS_MODES = map lit [''privilege-1'', ''read only'', ''no access'']"

definition privileged_access :: "ustr \<Rightarrow> bool option" where
  "privileged_access access_mode =
     (let t = lower (strip access_mode) in
      if t \<in> set PRIVILEGED_ACCESS_MODES then Some True
      else if t \<in> set UNPRIVILEGED_ACCESS_MODES then Some False
      else None)"

section \<open>Syslog severities\<close>

definition SYSLOG_SEVERITY_NAMES :: "(ustr, int) dict" where
  "SYSLOG_SEVERITY_NAMES =
     [(lit ''emergency'', 0), (lit ''alert'', 1), (lit ''critical'', 2), (lit ''error'', 3),
      (lit ''warning'', 4), (lit ''notice'', 5), (lit ''info'', 6), (lit ''informational'', 6),
      (lit ''debug'', 7)]"

definition SYSLOG_SEVERITY_WORDS :: "(int, ustr) dict" where
  "SYSLOG_SEVERITY_WORDS =
     [(0, lit ''emergency''), (1, lit ''alert''), (2, lit ''critical''), (3, lit ''error''),
      (4, lit ''warning''), (5, lit ''notice''), (6, lit ''info''), (7, lit ''debug'')]"

definition SYSLOG_SEVERITY_LABELS :: "(int, ustr) dict" where
  "SYSLOG_SEVERITY_LABELS =
     [(0, lit ''Emergency''), (1, lit ''Alert''), (2, lit ''Critical''), (3, lit ''Error''),
      (4, lit ''Warning''), (5, lit ''Notice''), (6, lit ''Info''), (7, lit ''Debug'')]"

definition syslog_severity_label :: "int \<Rightarrow> ustr py" where
  "syslog_severity_label level =
     (case dict_get SYSLOG_SEVERITY_LABELS level of Some w \<Rightarrow> Inr w | None \<Rightarrow> Inl ValueError)"

definition syslog_severity_word :: "int \<Rightarrow> ustr py" where
  "syslog_severity_word level =
     (case dict_get SYSLOG_SEVERITY_WORDS level of Some w \<Rightarrow> Inr w | None \<Rightarrow> Inl ValueError)"

definition syslog_severity :: "ustr \<Rightarrow> int py" where
  "syslog_severity name =
     (case dict_get SYSLOG_SEVERITY_NAMES (lower (strip name)) of
        Some n \<Rightarrow> Inr n | None \<Rightarrow> Inl ValueError)"

lemma severity_range: "0 \<le> n \<Longrightarrow> n < 8 \<Longrightarrow> n \<in> {0, 1, 2, 3, 4, 5, 6, 7 :: int}"
  by auto

lemma severity_table_roundtrip:
  "list_all (\<lambda>n. res_bind (syslog_severity_word n) syslog_severity = Inr n
      \<and> res_bind (syslog_severity_label n) syslog_severity = Inr n) [0, 1, 2, 3, 4, 5, 6, 7]"
  by (simp add: syslog_severity_word_def syslog_severity_label_def syslog_severity_def
      dict_get_def text_eval SYSLOG_SEVERITY_WORDS_def SYSLOG_SEVERITY_LABELS_def
      SYSLOG_SEVERITY_NAMES_def)

lemma severity_out_of_range:
  "\<not> (0 \<le> n \<and> n < 8) \<Longrightarrow>
     syslog_severity_word n = Inl ValueError \<and> syslog_severity_label n = Inl ValueError"
  by (auto simp: syslog_severity_word_def syslog_severity_label_def dict_get_def
      SYSLOG_SEVERITY_WORDS_def SYSLOG_SEVERITY_LABELS_def)

text \<open>
  Severity words and web labels are written and read back as the same
  number: for every level 0..7 the CLI word and the web label both parse to the
  level they were printed from, and every other level is refused by both
  printers with \<open>ValueError\<close> instead of being sent as a number.
\<close>

theorem syslog_severity_roundtrip:
  "(if 0 \<le> n \<and> n < 8
    then (\<exists>w l. syslog_severity_word n = Inr w \<and> syslog_severity w = Inr n
            \<and> syslog_severity_label n = Inr l \<and> syslog_severity l = Inr n)
    else syslog_severity_word n = Inl ValueError \<and> syslog_severity_label n = Inl ValueError)"
  using severity_range [of n] severity_table_roundtrip severity_out_of_range [of n]
  by (auto simp: res_iff)

end
