(* ===== verification/Registry.thy ===== *)
theory Registry
  imports Models
begin

text \<open>
  The model registry (\<open>registry.py\<close>): one \<open>switch_model\<close> per registered key, the
  alias table and the lookup, and the choice of the one backend an operation
  runs on (\<open>_dispatch.py\<close>, with the facades' preference order).
\<close>

datatype backend = SNMP | NSDP | HTTP | SSH | TELNET | CONSOLE
datatype switch_class = FULLY_MANAGED | SMART_MANAGED_PRO | PLUS

definition FM_BASE :: string where
  "FM_BASE = ''1.3.6.1.4.1.4526.10''"

definition SMP_BASE :: string where
  "SMP_BASE = ''1.3.6.1.4.1.4526.11''"

record switch_model =
  m_key :: string
  m_display_name :: string
  m_class :: switch_class
  m_port_count :: int
  m_poe_port_count :: int
  m_backends :: "backend set"
  m_snmp_vendor_base :: "string option"
  m_verified :: bool
  m_snmp_vlan_write :: string
  m_snmp_split_writes :: bool
  m_snmp_can_create_vlan :: bool

text \<open>The keyword defaults of \<open>_model\<close>; an entry overrides what it names.\<close>

definition mk_model ::
    "string \<Rightarrow> string \<Rightarrow> switch_class \<Rightarrow> int \<Rightarrow> int \<Rightarrow> backend set \<Rightarrow> string option \<Rightarrow> switch_model" where
  "mk_model key name cls ports poe bs base =
     \<lparr>m_key = key, m_display_name = name, m_class = cls, m_port_count = ports,
      m_poe_port_count = poe, m_backends = bs, m_snmp_vendor_base = base,
      m_verified = True, m_snmp_vlan_write = ''qbridge'', m_snmp_split_writes = False,
      m_snmp_can_create_vlan = True\<rparr>"

definition has_mac_table :: "switch_model \<Rightarrow> bool" where
  "has_mac_table m \<longleftrightarrow> SNMP \<in> m_backends m"

section \<open>The entries\<close>

definition m4300_24x :: switch_model where
  "m4300_24x = (mk_model ''m4300-24x'' ''M4300-24X (XSM4324CS)'' FULLY_MANAGED 28 0
     {SNMP, HTTP, SSH, TELNET} (Some FM_BASE))\<lparr>m_snmp_vlan_write := ''fastpath_switchport''\<rparr>"

definition m4300_16x :: switch_model where
  "m4300_16x = (mk_model ''m4300-16x'' ''M4300-16X (XSM4316)'' FULLY_MANAGED 16 16
     {SNMP, HTTP, SSH, TELNET} (Some FM_BASE))\<lparr>m_snmp_vlan_write := ''fastpath_switchport''\<rparr>"

definition gsm7252ps :: switch_model where
  "gsm7252ps = mk_model ''gsm7252ps'' ''GSM7252PS'' FULLY_MANAGED 52 48
     {SNMP, HTTP, SSH, TELNET} (Some FM_BASE)"

definition gsm7228ps :: switch_model where
  "gsm7228ps = (mk_model ''gsm7228ps'' ''GSM7228PS (S3300)'' SMART_MANAGED_PRO 52 48
     {SNMP, HTTP, TELNET} (Some SMP_BASE))\<lparr>m_snmp_split_writes := True\<rparr>"

definition gs110emx :: switch_model where
  "gs110emx = mk_model ''gs110emx'' ''GS110EMX'' PLUS 10 0 {NSDP, HTTP} None"

definition gs305ep :: switch_model where
  "gs305ep = mk_model ''gs305ep'' ''GS305EP'' PLUS 5 4 {NSDP, HTTP} None"

definition m7300 :: switch_model where
  "m7300 = (mk_model ''m7300'' ''M7300-24XF'' FULLY_MANAGED 24 0 {SNMP} (Some FM_BASE))
     \<lparr>m_verified := False\<rparr>"

definition xs748t :: switch_model where
  "xs748t = (mk_model ''xs748t'' ''XS748T'' SMART_MANAGED_PRO 48 0 {SNMP} (Some SMP_BASE))
     \<lparr>m_verified := False\<rparr>"

definition gs728tpp :: switch_model where
  "gs728tpp = (mk_model ''gs728tpp'' ''GS728TPP'' SMART_MANAGED_PRO 28 24 {SNMP, HTTP} None)
     \<lparr>m_snmp_can_create_vlan := False\<rparr>"

definition gs105pe :: switch_model where
  "gs105pe = mk_model ''gs105pe'' ''GS105PE'' PLUS 5 0 {NSDP, HTTP} None"

definition registered :: "switch_model list" where
  "registered = [m4300_24x, m4300_16x, gsm7252ps, gsm7228ps, gs110emx, gs305ep, m7300,
     xs748t, gs728tpp, gs105pe]"

definition MODELS :: "(string, switch_model) dict" where
  "MODELS = map (\<lambda>m. (m_key m, m)) registered"

definition MODEL_ALIASES :: "(string, string) dict" where
  "MODEL_ALIASES = [(''s3300'', ''gsm7228ps'')]"

definition get_model :: "string \<Rightarrow> switch_model py" where
  "get_model key =
     (let canonical = (case dict_get MODEL_ALIASES key of Some c \<Rightarrow> c | None \<Rightarrow> key) in
      case dict_get MODELS canonical of Some m \<Rightarrow> Inr m | None \<Rightarrow> Inl UnknownModelError)"

lemmas model_defs = m4300_24x_def m4300_16x_def gsm7252ps_def gsm7228ps_def gs110emx_def
  gs305ep_def m7300_def xs748t_def gs728tpp_def gs105pe_def mk_model_def

lemma MODELS_wf: "dict_wf MODELS"
  by (simp add: MODELS_def registered_def dict_wf_def model_defs)

lemma get_model_registered:
  assumes "m \<in> set registered"
  shows "get_model (m_key m) = Inr m"
proof -
  have "(m_key m, m) \<in> set MODELS" using assms by (simp add: MODELS_def)
  then have "dict_get MODELS (m_key m) = Some m" using MODELS_wf by (simp add: dict_get_in)
  moreover have "m_key m \<noteq> ''s3300''"
    using assms by (auto simp: registered_def model_defs)
  ultimately show ?thesis by (simp add: get_model_def MODEL_ALIASES_def dict_get_def)
qed

text \<open>What holds of every entry of the table.\<close>

definition model_ok :: "switch_model \<Rightarrow> bool" where
  "model_ok m \<longleftrightarrow> 0 \<le> m_poe_port_count m \<and> m_poe_port_count m \<le> m_port_count m
     \<and> m_port_count m < 256 \<and> (SNMP \<in> m_backends m \<longleftrightarrow> m_class m \<noteq> PLUS)
     \<and> (NSDP \<in> m_backends m \<longleftrightarrow> m_class m = PLUS)
     \<and> (m_snmp_vendor_base m = None \<or> has_mac_table m)"

lemma models_ok: "list_all model_ok registered"
  by (simp add: registered_def model_ok_def model_defs has_mac_table_def)

lemma get_model_in:
  assumes "get_model key = Inr m"
  shows "m \<in> set registered \<and> (m_key m = key \<or> dict_get MODEL_ALIASES key = Some (m_key m))"
proof -
  obtain c where c: "dict_get MODELS c = Some m"
    and k: "c = (case dict_get MODEL_ALIASES key of Some c \<Rightarrow> c | None \<Rightarrow> key)"
    using assms by (auto simp: get_model_def Let_def split: option.splits)
  have "(c, m) \<in> set MODELS"
    using c MODELS_wf by (simp add: dict_get_in)
  then have "m \<in> set registered" "m_key m = c"
    by (auto simp: MODELS_def)
  with k show ?thesis by (auto split: option.splits)
qed

section \<open>Choosing a backend\<close>

definition BACKEND_PREFERENCE :: "backend list" where
  "BACKEND_PREFERENCE = [SNMP, NSDP, HTTP, SSH, TELNET, CONSOLE]"

definition resolve_backend :: "switch_model \<Rightarrow> backend option \<Rightarrow> backend list \<Rightarrow> backend py" where
  "resolve_backend model requested preference =
     (case requested of
        Some b \<Rightarrow> if b \<notin> m_backends model then Inl UnsupportedCapabilityError else Inr b
      | None \<Rightarrow> (case find (\<lambda>b. b \<in> m_backends model) preference of
                   Some b \<Rightarrow> Inr b | None \<Rightarrow> Inl UnsupportedCapabilityError))"

definition require_snmp_backend :: "switch_model \<Rightarrow> unit py" where
  "require_snmp_backend m = (if SNMP \<notin> m_backends m then Inl UnsupportedCapabilityError else Inr ())"

definition require_mac_table :: "switch_model \<Rightarrow> unit py" where
  "require_mac_table m = (if \<not> has_mac_table m then Inl UnsupportedCapabilityError else Inr ())"

definition require_nsdp_backend :: "switch_model \<Rightarrow> unit py" where
  "require_nsdp_backend m = (if NSDP \<notin> m_backends m then Inl UnsupportedCapabilityError else Inr ())"

definition require_http_backend :: "switch_model \<Rightarrow> unit py" where
  "require_http_backend m = (if HTTP \<notin> m_backends m then Inl UnsupportedCapabilityError else Inr ())"

definition CLI_BACKENDS :: "backend set" where
  "CLI_BACKENDS = {SSH, TELNET, CONSOLE}"

definition require_cli_backend :: "switch_model \<Rightarrow> unit py" where
  "require_cli_backend m =
     (if CLI_BACKENDS \<inter> m_backends m = {} then Inl UnsupportedCapabilityError else Inr ())"

text \<open>The default read and write communities, where an empty write community is refused too.\<close>

definition require_community :: "ustr option \<Rightarrow> ustr py" where
  "require_community c = (case c of None \<Rightarrow> Inl CredentialError | Some s \<Rightarrow> Inr s)"

definition require_write_community :: "ustr option \<Rightarrow> ustr py" where
  "require_write_community c =
     (case c of None \<Rightarrow> Inl CredentialError
      | Some s \<Rightarrow> if s = [] then Inl CredentialError else Inr s)"

text \<open>The parts of \<open>SyncSwitch\<close> that decide the backend: its model and the one it is pinned to.\<close>

record facade =
  fa_model :: switch_model
  fa_backend :: "backend option"

definition facade_backend :: "facade \<Rightarrow> backend option \<Rightarrow> backend py" where
  "facade_backend F backend =
     resolve_backend (fa_model F) (case backend of Some b \<Rightarrow> Some b | None \<Rightarrow> fa_backend F) BACKEND_PREFERENCE"

definition async_facade_backend :: "facade \<Rightarrow> backend option \<Rightarrow> backend py" where
  "async_facade_backend F backend =
     resolve_backend (fa_model F) (case backend of Some b \<Rightarrow> Some b | None \<Rightarrow> fa_backend F) BACKEND_PREFERENCE"

text \<open>The order the documentation gives: SNMP, NSDP, HTTP, SSH, TELNET, CONSOLE.\<close>

fun preference_rank :: "backend \<Rightarrow> nat" where
  "preference_rank SNMP = 0"
| "preference_rank NSDP = 1"
| "preference_rank HTTP = 2"
| "preference_rank SSH = 3"
| "preference_rank TELNET = 4"
| "preference_rank CONSOLE = 5"

lemma rank_inj [simp]: "preference_rank a = preference_rank b \<longleftrightarrow> a = b"
  by (cases a; cases b) simp_all

lemma rank_first: "0 < preference_rank b \<longleftrightarrow> b \<noteq> SNMP"
  by (cases b) simp_all

text \<open>The first backend of an increasing list that satisfies a test is the least that does.\<close>

lemma find_least:
  assumes "sorted_wrt (\<lambda>a b. preference_rank a < preference_rank b) bs"
  shows "find P bs = Some b \<longleftrightarrow> b \<in> set bs \<and> P b \<and> (\<forall>b' \<in> set bs. P b' \<longrightarrow> preference_rank b \<le> preference_rank b')"
  using assms
proof (induction bs)
  case (Cons a bs)
  then show ?case by (auto simp: less_imp_le leD)
qed simp

lemma BACKEND_PREFERENCE_ranked:
  "b \<in> set BACKEND_PREFERENCE" "sorted_wrt (\<lambda>a b. preference_rank a < preference_rank b) BACKEND_PREFERENCE"
  by (cases b; simp add: BACKEND_PREFERENCE_def) (simp add: BACKEND_PREFERENCE_def)

lemma default_backend:
  "resolve_backend m None BACKEND_PREFERENCE = Inr b \<longleftrightarrow>
     b \<in> m_backends m \<and> (\<forall>b' \<in> m_backends m. preference_rank b \<le> preference_rank b')"
  using find_least [OF BACKEND_PREFERENCE_ranked(2), of "\<lambda>b. b \<in> m_backends m" b] BACKEND_PREFERENCE_ranked(1)
  by (auto simp: resolve_backend_def split: option.splits)

lemma default_backend_refused:
  "resolve_backend m None BACKEND_PREFERENCE = Inl e \<longleftrightarrow> e = UnsupportedCapabilityError \<and> m_backends m = {}"
proof -
  have "find (\<lambda>b. b \<in> m_backends m) BACKEND_PREFERENCE = None \<longleftrightarrow> m_backends m = {}"
    using BACKEND_PREFERENCE_ranked(1) by (auto simp: find_None_iff)
  then show ?thesis by (auto simp: resolve_backend_def split: option.split)
qed

text \<open>
  C40. Backend resolution never substitutes, on either facade. A backend named in the
  call, or else the one the facade is pinned to, is the answer exactly when the model
  has it, and \<open>UnsupportedCapabilityError\<close> otherwise, whatever else the model has. With
  none named the answer is the model's backend that comes first in the documented order
  (\<open>preference_rank\<close>), and only a model without any backend is refused; every registered model
  is driven over NSDP if it is of the Plus class and over SNMP otherwise.
\<close>

theorem resolve_backend_no_substitution:
  "(facade_backend F arg = Inr b \<longleftrightarrow> b \<in> m_backends (fa_model F)
      \<and> (case (arg, fa_backend F) of
           (Some r, _) \<Rightarrow> b = r | (None, Some r) \<Rightarrow> b = r
         | (None, None) \<Rightarrow> \<forall>b' \<in> m_backends (fa_model F). preference_rank b \<le> preference_rank b'))
   \<and> (facade_backend F arg = Inl e \<longleftrightarrow> e = UnsupportedCapabilityError
      \<and> (case (arg, fa_backend F) of
           (Some r, _) \<Rightarrow> r \<notin> m_backends (fa_model F) | (None, Some r) \<Rightarrow> r \<notin> m_backends (fa_model F)
         | (None, None) \<Rightarrow> m_backends (fa_model F) = {}))
   \<and> (fa_model F \<in> set registered \<and> fa_backend F = None
        \<longrightarrow> facade_backend F None = Inr (if m_class (fa_model F) = PLUS then NSDP else SNMP))
   \<and> async_facade_backend F arg = facade_backend F arg"
proof -
  have named: "(resolve_backend m (Some r) p = Inr b \<longleftrightarrow> b \<in> m_backends m \<and> b = r)
      \<and> (resolve_backend m (Some r) p = Inl e \<longleftrightarrow> e = UnsupportedCapabilityError \<and> r \<notin> m_backends m)" for m r p
    by (auto simp: resolve_backend_def)
  have "resolve_backend m None BACKEND_PREFERENCE = Inr (if m_class m = PLUS then NSDP else SNMP)"
    if "m \<in> set registered" for m
  proof -
    have "model_ok m" using that models_ok by (auto simp: list_all_iff)
    then show ?thesis unfolding default_backend
      using rank_first by (auto simp: model_ok_def Suc_le_eq)
  qed
  then show ?thesis
    by (auto simp: facade_backend_def async_facade_backend_def named default_backend default_backend_refused
        split: option.splits)
qed

theorem resolve_backend_no_substitution_witness:
  "facade_backend \<lparr>fa_model = gs305ep, fa_backend = None\<rparr> (Some SNMP) = Inl UnsupportedCapabilityError
   \<and> facade_backend \<lparr>fa_model = gs305ep, fa_backend = Some HTTP\<rparr> None = Inr HTTP
   \<and> facade_backend \<lparr>fa_model = gs305ep, fa_backend = None\<rparr> None = Inr NSDP"
proof -
  let ?F = "\<lparr>fa_model = gs305ep, fa_backend = None\<rparr>" and ?H = "\<lparr>fa_model = gs305ep, fa_backend = Some HTTP\<rparr>"
  have g: "gs305ep \<in> set registered" "m_class gs305ep = PLUS" "SNMP \<notin> m_backends gs305ep" "HTTP \<in> m_backends gs305ep"
    by (simp_all add: registered_def model_defs)
  have "facade_backend ?F None = Inr NSDP"
    using resolve_backend_no_substitution [of ?F] g by simp
  moreover have "facade_backend ?F (Some SNMP) = Inl UnsupportedCapabilityError"
    using resolve_backend_no_substitution [of ?F "Some SNMP" _ UnsupportedCapabilityError] g by simp
  moreover have "facade_backend ?H None = Inr HTTP"
    using resolve_backend_no_substitution [of ?H None HTTP] g by simp
  ultimately show ?thesis by simp
qed

text \<open>
  The registry is coherent: \<open>get_model\<close> answers exactly the registered keys
  and the alias, always with the entry registered under the canonical key, and
  every entry has at most as many PoE ports as ports, a port number that fits the
  one-byte NSDP port count, SNMP exactly when it is not a Plus model and NSDP
  exactly when it is, and vendor OIDs only with SNMP.
\<close>

lemma registry_coherent:
  "(case get_model key of
      Inr m \<Rightarrow> m \<in> set registered
        \<and> (m_key m = key \<or> key = ''s3300'' \<and> m = gsm7228ps)
        \<and> 0 \<le> m_poe_port_count m \<and> m_poe_port_count m \<le> m_port_count m
        \<and> m_port_count m < 256
        \<and> (SNMP \<in> m_backends m \<longleftrightarrow> m_class m \<noteq> PLUS)
        \<and> (NSDP \<in> m_backends m \<longleftrightarrow> m_class m = PLUS)
        \<and> (m_snmp_vendor_base m = None \<or> has_mac_table m)
    | Inl e \<Rightarrow> e = UnknownModelError \<and> key \<notin> m_key ` set registered \<and> key \<noteq> ''s3300'')"
proof (cases "get_model key")
  case (Inl e)
  have "key \<noteq> m_key m" if "m \<in> set registered" for m
    using get_model_registered [OF that] Inl by auto
  moreover have "key \<noteq> ''s3300''"
    using Inl by (auto simp: get_model_def MODELS_def MODEL_ALIASES_def registered_def
        dict_get_def model_defs)
  ultimately show ?thesis
    using Inl by (auto simp: get_model_def Let_def split: option.splits)
next
  case (Inr m)
  then have m: "m \<in> set registered" "m_key m = key \<or> dict_get MODEL_ALIASES key = Some (m_key m)"
    using get_model_in by blast+
  have "m_key m = key \<or> key = ''s3300'' \<and> m = gsm7228ps"
  proof (cases "m_key m = key")
    case False
    then have k: "key = ''s3300''" "m_key m = ''gsm7228ps''"
      using m(2) by (simp_all add: MODEL_ALIASES_def dict_get_def split: if_split_asm)
    have "gsm7228ps \<in> set registered" "m_key gsm7228ps = ''gsm7228ps''"
      by (simp_all add: registered_def gsm7228ps_def mk_model_def)
    then have "m = gsm7228ps"
      using get_model_registered [OF m(1)] get_model_registered [of gsm7228ps] k(2) by simp
    with k(1) show ?thesis by simp
  qed simp
  moreover have "model_ok m" using m(1) models_ok by (simp add: list_all_iff)
  ultimately show ?thesis
    using m(1) Inr by (simp add: model_ok_def)
qed

end
