(* ===== verification/Nsdp_Protocol.thy ===== *)
theory Nsdp_Protocol
  imports Models
begin

text \<open>
  The NSDP wire codec (\<open>protocols/nsdp/protocol.py\<close>): operation and tag enums,
  TLV entries, and the 32-byte header followed by TLVs and the end marker. The
  decoder's loop over the datagram is a recursion over its offset.
\<close>

section \<open>Operations and tags\<close>

datatype op = READ_REQUEST | READ_RESPONSE | WRITE_REQUEST | WRITE_RESPONSE

fun op_code :: "op \<Rightarrow> int" where
  "op_code READ_REQUEST = 1"
| "op_code READ_RESPONSE = 2"
| "op_code WRITE_REQUEST = 3"
| "op_code WRITE_RESPONSE = 4"

definition op_of_int :: "int \<Rightarrow> op py" where
  "op_of_int n =
     (if n = 1 then Inr READ_REQUEST else if n = 2 then Inr READ_RESPONSE
      else if n = 3 then Inr WRITE_REQUEST else if n = 4 then Inr WRITE_RESPONSE
      else Inl ValueError)"

lemma op_of_int_code [simp]: "op_of_int (op_code x) = Inr x"
  by (cases x) (simp_all add: op_of_int_def)

lemma op_code_range: "0 \<le> op_code x \<and> op_code x < 256"
  by (cases x) simp_all

datatype tag =
    START_OF_MARK | END_OF_MARK
  | MODEL | HOSTNAME | MAC | LOCATION | IP_ADDRESS | NETMASK | GATEWAY | DHCP_MODE
  | FIRMWARE_VER_1 | FIRMWARE_VER_2 | PORT_COUNT | SERIAL_NUMBER
  | PASSWORD | AUTH_V2_ENCPASS | AUTH_V2_SALT | AUTH_V2_PASSWORD
  | PORT_STATUS | PORT_STATISTICS | PORT_NAME
  | VLAN_ENGINE | VLAN_PORT_CONF | VLAN_MEMBERS | VLAN_DESTROY | MAX_VLAN | PORT_PVID
  | QOS_ENGINE | PORT_QOS_PRIORITY
  | INGRESS_RATE_LIMIT | EGRESS_RATE_LIMIT | BROADCAST_FILTERING | BROADCAST_BANDWIDTH
  | PORT_MIRRORING
  | IGMP_SNOOPING | BLOCK_UNKNOWN_MULTICAST | IGMPV3_HEADER_VALIDATION
  | IGMP_STATIC_ROUTER_PORTS
  | LOOP_DETECTION | ACTIVE_FIRMWARE | REBOOT | FACTORY_RESET

fun tag_code :: "tag \<Rightarrow> int" where
  "tag_code START_OF_MARK = 0x0000"
| "tag_code END_OF_MARK = 0xFFFF"
| "tag_code MODEL = 0x0001"
| "tag_code HOSTNAME = 0x0003"
| "tag_code MAC = 0x0004"
| "tag_code LOCATION = 0x0005"
| "tag_code IP_ADDRESS = 0x0006"
| "tag_code NETMASK = 0x0007"
| "tag_code GATEWAY = 0x0008"
| "tag_code DHCP_MODE = 0x000B"
| "tag_code FIRMWARE_VER_1 = 0x000D"
| "tag_code FIRMWARE_VER_2 = 0x000E"
| "tag_code PORT_COUNT = 0x6000"
| "tag_code SERIAL_NUMBER = 0x7800"
| "tag_code PASSWORD = 0x000A"
| "tag_code AUTH_V2_ENCPASS = 0x0014"
| "tag_code AUTH_V2_SALT = 0x0017"
| "tag_code AUTH_V2_PASSWORD = 0x001A"
| "tag_code PORT_STATUS = 0x0C00"
| "tag_code PORT_STATISTICS = 0x1000"
| "tag_code PORT_NAME = 0xB000"
| "tag_code VLAN_ENGINE = 0x2000"
| "tag_code VLAN_PORT_CONF = 0x2400"
| "tag_code VLAN_MEMBERS = 0x2800"
| "tag_code VLAN_DESTROY = 0x2C00"
| "tag_code MAX_VLAN = 0x6400"
| "tag_code PORT_PVID = 0x3000"
| "tag_code QOS_ENGINE = 0x3400"
| "tag_code PORT_QOS_PRIORITY = 0x3800"
| "tag_code INGRESS_RATE_LIMIT = 0x4C00"
| "tag_code EGRESS_RATE_LIMIT = 0x5000"
| "tag_code BROADCAST_FILTERING = 0x5400"
| "tag_code BROADCAST_BANDWIDTH = 0x5800"
| "tag_code PORT_MIRRORING = 0x5C00"
| "tag_code IGMP_SNOOPING = 0x6800"
| "tag_code BLOCK_UNKNOWN_MULTICAST = 0x6C00"
| "tag_code IGMPV3_HEADER_VALIDATION = 0x7000"
| "tag_code IGMP_STATIC_ROUTER_PORTS = 0x8000"
| "tag_code LOOP_DETECTION = 0x9000"
| "tag_code ACTIVE_FIRMWARE = 0x000C"
| "tag_code REBOOT = 0x0013"
| "tag_code FACTORY_RESET = 0x0400"

definition all_tags :: "tag list" where
  "all_tags =
    [START_OF_MARK, END_OF_MARK, MODEL, HOSTNAME, MAC, LOCATION, IP_ADDRESS, NETMASK, GATEWAY,
     DHCP_MODE, FIRMWARE_VER_1, FIRMWARE_VER_2, PORT_COUNT, SERIAL_NUMBER, PASSWORD,
     AUTH_V2_ENCPASS, AUTH_V2_SALT, AUTH_V2_PASSWORD, PORT_STATUS, PORT_STATISTICS, PORT_NAME,
     VLAN_ENGINE, VLAN_PORT_CONF, VLAN_MEMBERS, VLAN_DESTROY, MAX_VLAN, PORT_PVID, QOS_ENGINE,
     PORT_QOS_PRIORITY, INGRESS_RATE_LIMIT, EGRESS_RATE_LIMIT, BROADCAST_FILTERING,
     BROADCAST_BANDWIDTH, PORT_MIRRORING, IGMP_SNOOPING, BLOCK_UNKNOWN_MULTICAST,
     IGMPV3_HEADER_VALIDATION, IGMP_STATIC_ROUTER_PORTS, LOOP_DETECTION, ACTIVE_FIRMWARE,
     REBOOT, FACTORY_RESET]"

definition tag_of_int :: "int \<Rightarrow> tag py" where
  "tag_of_int n = (case find (\<lambda>t. tag_code t = n) all_tags of Some t \<Rightarrow> Inr t | None \<Rightarrow> Inl ValueError)"

lemma all_tags_all [simp]: "t \<in> set all_tags"
  by (cases t) (simp_all add: all_tags_def)

lemma tag_codes_distinct: "distinct (map tag_code all_tags)"
  by (simp add: all_tags_def)

lemma tag_code_inject [simp]: "tag_code t = tag_code u \<longleftrightarrow> t = u"
  using tag_codes_distinct by (auto simp: distinct_map dest: inj_onD)

lemma tag_code_range: "0 \<le> tag_code t \<and> tag_code t < 65536"
  by (cases t) simp_all

lemma find_same: "t \<in> set xs \<Longrightarrow> find (\<lambda>u. u = t) xs = Some t"
  by (induction xs) auto

lemma tag_of_int_code [simp]: "tag_of_int (tag_code t) = Inr t"
  by (simp add: tag_of_int_def find_same)

lemma tag_of_int_Inr_iff: "tag_of_int n = Inr t \<longleftrightarrow> n = tag_code t"
proof
  assume "tag_of_int n = Inr t"
  then show "n = tag_code t"
    by (auto simp: tag_of_int_def find_Some_iff split: option.splits)
qed simp

text \<open>
  The \<open>tag\<close> of an entry is a catalogued \<open>Tag\<close> or a raw integer. \<open>Tag\<close> is an
  \<open>IntEnum\<close>, so Python compares the two kinds by their number.
\<close>

datatype tag_ref = Known tag | Raw int

fun tag_int :: "tag_ref \<Rightarrow> int" where
  "tag_int (Known t) = tag_code t"
| "tag_int (Raw n) = n"

definition tag_is :: "tag_ref \<Rightarrow> tag \<Rightarrow> bool" where
  "tag_is r t \<longleftrightarrow> tag_int r = tag_code t"

lemma tag_is_Known [simp]: "tag_is (Known u) t \<longleftrightarrow> u = t"
  by (simp add: tag_is_def)

definition tag_ref_of :: "int \<Rightarrow> tag_ref" where
  "tag_ref_of n = (case tag_of_int n of Inr t \<Rightarrow> Known t | Inl _ \<Rightarrow> Raw n)"

lemma tag_ref_of_code [simp]: "tag_ref_of (tag_code t) = Known t"
  by (simp add: tag_ref_of_def)

lemma tag_int_tag_ref_of [simp]: "tag_int (tag_ref_of n) = n"
  by (auto simp: tag_ref_of_def tag_of_int_Inr_iff split: sum.splits)

lemma tag_ref_of_is [simp]: "tag_is (tag_ref_of n) t \<longleftrightarrow> n = tag_code t"
  by (simp add: tag_is_def)

section \<open>TLV entries\<close>

record tlv =
  tlv_tag :: tag_ref
  tlv_value :: bytes

definition mk_tlv :: "tag \<Rightarrow> bytes \<Rightarrow> tlv" where
  "mk_tlv t v = \<lparr>tlv_tag = Known t, tlv_value = v\<rparr>"

lemma mk_tlv_sel [simp]: "tlv_tag (mk_tlv t v) = Known t" "tlv_value (mk_tlv t v) = v"
  by (simp_all add: mk_tlv_def)

definition tlv_encode :: "tlv \<Rightarrow> bytes py" where
  "tlv_encode e =
     res_bind (struct_uint 2 (tag_int (tlv_tag e))) (\<lambda>t.
     res_bind (struct_uint 2 (int (length (tlv_value e)))) (\<lambda>l.
     Inr (t @ l @ tlv_value e)))"

definition tlv_decode :: "bytes \<Rightarrow> (tlv \<times> nat) py" where
  "tlv_decode data =
     (if length data < 4 then Inl ValueError
      else
        let tag_raw = be_int (take 2 data);
            len = nat (be_int (take 2 (drop 2 data)))
        in if length data < 4 + len then Inl ValueError
           else Inr (\<lparr>tlv_tag = tag_ref_of tag_raw, tlv_value = take len (drop 4 data)\<rparr>, 4 + len))"

text \<open>An entry the codec can carry: a canonical 16-bit tag and a 16-bit length.\<close>

definition tlv_ok :: "tlv \<Rightarrow> bool" where
  "tlv_ok e \<longleftrightarrow> 0 \<le> tag_int (tlv_tag e) \<and> tag_int (tlv_tag e) < 65536
     \<and> tlv_tag e = tag_ref_of (tag_int (tlv_tag e)) \<and> length (tlv_value e) < 65536"

lemma tlv_ok_mk_tlv [simp]: "tlv_ok (mk_tlv t v) \<longleftrightarrow> length v < 65536"
  using tag_code_range [of t] by (simp add: tlv_ok_def)

lemma tlv_decode_consumed: "tlv_decode data = Inr (e, k) \<Longrightarrow> 4 \<le> k \<and> k \<le> length data"
  by (auto simp: tlv_decode_def Let_def split: if_splits)

lemma tlv_decode_ok:
  assumes "tlv_decode data = Inr (e, k)"
  shows "tlv_ok e"
proof -
  have "be_int (take 2 data) < 256 ^ length (take 2 data)" by (rule be_int_upper)
  moreover have "be_int (take 2 (drop 2 data)) < 256 ^ length (take 2 (drop 2 data))"
    by (rule be_int_upper)
  ultimately show ?thesis
    using assms
    by (auto simp: tlv_decode_def tlv_ok_def Let_def min_def split: if_splits)
qed

lemma tlv_decode_raises: "tlv_decode data = Inl e \<Longrightarrow> e = ValueError"
  by (auto simp: tlv_decode_def Let_def split: if_splits)

lemma tlv_encode_ok:
  "tlv_ok e \<Longrightarrow> tlv_encode e
     = Inr (be_bytes 2 (tag_int (tlv_tag e)) @ be_bytes 2 (int (length (tlv_value e))) @ tlv_value e)"
  by (simp add: tlv_encode_def tlv_ok_def)

lemma tlv_roundtrip:
  assumes "tlv_ok e" and "tlv_encode e = Inr bs"
  shows "tlv_decode (bs @ rest) = Inr (e, length bs)"
proof -
  have bs: "bs = be_bytes 2 (tag_int (tlv_tag e)) @ be_bytes 2 (int (length (tlv_value e))) @ tlv_value e"
    using assms by (simp add: tlv_encode_ok)
  have "be_int (be_bytes 2 (int (length (tlv_value e)))) = int (length (tlv_value e))"
    and "be_int (be_bytes 2 (tag_int (tlv_tag e))) = tag_int (tlv_tag e)"
    using assms(1) by (auto simp: tlv_ok_def)
  then show ?thesis
    using assms(1) by (simp add: tlv_decode_def bs tlv_ok_def)
qed

lemma length_tlv_encode: "tlv_encode e = Inr bs \<Longrightarrow> length bs = 4 + length (tlv_value e)"
  by (auto simp: tlv_encode_def res_iff)

section \<open>Packets\<close>

definition NSDP_SIGNATURE :: bytes where
  "NSDP_SIGNATURE = [0x4E, 0x53, 0x44, 0x50]"

definition HEADER_SIZE :: nat where
  "HEADER_SIZE = 32"

definition END_MARKER :: bytes where
  "END_MARKER = [0xFF, 0xFF, 0, 0]"

record nsdp_packet =
  pk_op :: op
  pk_client_mac :: bytes
  pk_server_mac :: bytes
  pk_sequence :: int
  pk_result :: int
  pk_tlvs :: "tlv list"
  pk_error_attr :: int

text \<open>The dataclass defaults: only the operation and the client address are required.\<close>

definition mk_packet :: "op \<Rightarrow> bytes \<Rightarrow> bytes \<Rightarrow> int \<Rightarrow> nsdp_packet" where
  "mk_packet x client server seqno =
     \<lparr>pk_op = x, pk_client_mac = client, pk_server_mac = server, pk_sequence = seqno,
      pk_result = 0, pk_tlvs = [], pk_error_attr = 0\<rparr>"

definition error_code :: "nsdp_packet \<Rightarrow> int" where
  "error_code p = drop_bit 8 (pk_result p) AND 255"

definition add_tlv :: "nsdp_packet \<Rightarrow> tag \<Rightarrow> bytes \<Rightarrow> nsdp_packet" where
  "add_tlv p t v = p\<lparr>pk_tlvs := pk_tlvs p @ [mk_tlv t v]\<rparr>"

text \<open>\<open>struct.pack(HEADER_FORMAT, ...)\<close>: the fields in order, each checked for range.\<close>

definition encode_header :: "nsdp_packet \<Rightarrow> bytes py" where
  "encode_header p =
     res_bind (struct_uint 1 1) (\<lambda>ver.
     res_bind (struct_uint 1 (op_code (pk_op p))) (\<lambda>opb.
     res_bind (struct_uint 2 (pk_result p)) (\<lambda>res.
     res_bind (struct_uint 2 (pk_error_attr p)) (\<lambda>attr.
     res_bind (struct_uint 4 (pk_sequence p)) (\<lambda>seqno.
     Inr (ver @ opb @ res @ attr @ struct_str 2 [0, 0]
          @ struct_str 6 (pk_client_mac p) @ struct_str 6 (pk_server_mac p)
          @ seqno @ struct_str 4 NSDP_SIGNATURE @ struct_str 4 [0, 0, 0, 0]))))))"

definition encode :: "nsdp_packet \<Rightarrow> bytes py" where
  "encode p =
     res_bind (encode_header p) (\<lambda>h.
     res_bind (res_map tlv_encode (pk_tlvs p)) (\<lambda>ts.
     Inr (h @ concat ts @ END_MARKER)))"

text \<open>
  The loop of \<open>NSDPPacket.decode\<close>: while four more bytes are there, one entry,
  stopping at the end marker. \<open>TLVEntry.decode\<close> takes at least four bytes, so
  the offset grows until it passes the end.
\<close>

function decode_tlvs :: "bytes \<Rightarrow> nat \<Rightarrow> (tlv list) py" where
  "decode_tlvs data offset =
     (if offset + 4 \<le> length data then
        (case tlv_decode (drop offset data) of
           Inl e \<Rightarrow> Inl e
         | Inr (entry, consumed) \<Rightarrow>
             if tag_is (tlv_tag entry) END_OF_MARK then Inr []
             else res_bind (decode_tlvs data (offset + consumed)) (\<lambda>ts. Inr (entry # ts)))
      else Inr [])"
  by pat_completeness auto
termination
  by (relation "measure (\<lambda>(data, offset). length data - offset)")
    (auto dest!: tlv_decode_consumed)

declare decode_tlvs.simps [simp del]

definition field :: "nat \<Rightarrow> nat \<Rightarrow> bytes \<Rightarrow> bytes" where
  "field off w data = take w (drop off data)"

definition decode :: "bytes \<Rightarrow> nsdp_packet py" where
  "decode data =
     (if length data < HEADER_SIZE then Inl ValueError
      else if field 24 4 data \<noteq> NSDP_SIGNATURE then Inl ValueError
      else res_bind (decode_tlvs data HEADER_SIZE) (\<lambda>tlvs.
           res_bind (op_of_int (be_int (field 1 1 data))) (\<lambda>x.
           Inr \<lparr>pk_op = x, pk_client_mac = field 8 6 data, pk_server_mac = field 14 6 data,
                pk_sequence = be_int (field 20 4 data), pk_result = be_int (field 2 2 data),
                pk_tlvs = tlvs, pk_error_attr = be_int (field 4 2 data)\<rparr>)))"

definition packet_ok :: "nsdp_packet \<Rightarrow> bool" where
  "packet_ok p \<longleftrightarrow>
     length (pk_client_mac p) = 6 \<and> length (pk_server_mac p) = 6
     \<and> 0 \<le> pk_sequence p \<and> pk_sequence p < 2 ^ 32
     \<and> 0 \<le> pk_result p \<and> pk_result p < 65536
     \<and> 0 \<le> pk_error_attr p \<and> pk_error_attr p < 65536
     \<and> (\<forall>e \<in> set (pk_tlvs p). tlv_ok e \<and> \<not> tag_is (tlv_tag e) END_OF_MARK)"

section \<open>Round trip and totality\<close>

lemma decode_tlvs_end:
  "decode_tlvs (pre @ END_MARKER @ junk) (length pre) = Inr []"
proof -
  have "tlv_decode (END_MARKER @ junk) = Inr (mk_tlv END_OF_MARK [], 4)"
    using tag_ref_of_code [of END_OF_MARK]
    by (simp add: tlv_decode_def END_MARKER_def be_int_def mk_tlv_def)
  then show ?thesis
    by (subst decode_tlvs.simps) (simp add: END_MARKER_def)
qed

lemma decode_tlvs_cons:
  assumes "tlv_ok e" and "\<not> tag_is (tlv_tag e) END_OF_MARK" and "tlv_encode e = Inr b"
  shows "decode_tlvs (pre @ b @ rest) (length pre)
       = res_bind (decode_tlvs ((pre @ b) @ rest) (length (pre @ b))) (\<lambda>ts. Inr (e # ts))"
proof -
  have "tlv_decode (b @ rest) = Inr (e, length b)"
    using assms by (intro tlv_roundtrip)
  moreover have "4 \<le> length b"
    using length_tlv_encode [OF assms(3)] by simp
  ultimately show ?thesis
    using assms(2) by (subst decode_tlvs.simps) simp
qed

lemma decode_tlvs_encoded:
  "\<forall>e \<in> set es. tlv_ok e \<and> \<not> tag_is (tlv_tag e) END_OF_MARK \<Longrightarrow>
   res_map tlv_encode es = Inr bs \<Longrightarrow>
   decode_tlvs (pre @ concat bs @ END_MARKER @ junk) (length pre) = Inr es"
proof (induction es arbitrary: bs pre)
  case Nil
  then show ?case using decode_tlvs_end by simp
next
  case (Cons e es)
  then obtain b bs' where b: "tlv_encode e = Inr b" and bs': "res_map tlv_encode es = Inr bs'"
    and bs: "bs = b # bs'"
    by (auto simp: res_iff)
  from Cons.IH [OF _ bs', of "pre @ b"] Cons.prems(1)
  have "decode_tlvs ((pre @ b) @ concat bs' @ END_MARKER @ junk) (length (pre @ b)) = Inr es"
    by simp
  with decode_tlvs_cons [OF _ _ b, of pre "concat bs' @ END_MARKER @ junk"] Cons.prems(1)
  show ?case by (simp add: bs)
qed

lemma decode_tlvs_ok:
  "decode_tlvs data off = Inr ts \<Longrightarrow>
     \<forall>e \<in> set ts. tlv_ok e \<and> \<not> tag_is (tlv_tag e) END_OF_MARK"
proof (induction data off arbitrary: ts rule: decode_tlvs.induct)
  case (1 data offset)
  note IH = "1.IH" [OF _ _ refl]
  from "1.prems" show ?case
    unfolding decode_tlvs.simps [of data offset]
    by (fastforce simp: res_iff split: if_splits sum.splits dest: tlv_decode_ok IH)
qed

lemma decode_tlvs_raises: "decode_tlvs data off = Inl e \<Longrightarrow> e = ValueError"
proof (induction data off arbitrary: e rule: decode_tlvs.induct)
  case (1 data offset)
  note IH = "1.IH" [OF _ _ refl]
  from "1.prems" show ?case
    unfolding decode_tlvs.simps [of data offset]
    by (fastforce simp: res_iff split: if_splits sum.splits dest: tlv_decode_raises IH)
qed

lemma res_map_tlv_encode_total:
  "\<forall>e \<in> set es. tlv_ok e \<Longrightarrow> \<exists>bs. res_map tlv_encode es = Inr bs"
  by (induction es) (auto simp: res_iff tlv_encode_ok)

lemma encode_header_ok:
  assumes "packet_ok p"
  shows "encode_header p = Inr ([1] @ be_bytes 1 (op_code (pk_op p)) @ be_bytes 2 (pk_result p)
      @ be_bytes 2 (pk_error_attr p) @ [0, 0] @ pk_client_mac p @ pk_server_mac p
      @ be_bytes 4 (pk_sequence p) @ NSDP_SIGNATURE @ [0, 0, 0, 0])"
  using assms op_code_range [of "pk_op p"]
  by (simp add: encode_header_def packet_ok_def NSDP_SIGNATURE_def)

lemma encode_total: "packet_ok p \<Longrightarrow> \<exists>bs. encode p = Inr bs"
  using res_map_tlv_encode_total [of "pk_tlvs p"]
  by (auto simp: encode_def encode_header_ok packet_ok_def)

lemma length_concat_encoded:
  "res_map tlv_encode es = Inr ts \<Longrightarrow>
     length (concat ts) = (\<Sum>e \<leftarrow> es. 4 + length (tlv_value e))"
  by (induction es arbitrary: ts) (auto simp: res_iff dest!: length_tlv_encode)

lemma encode_length:
  assumes "packet_ok p" and "encode p = Inr bs"
  shows "length bs = 36 + (\<Sum>e \<leftarrow> pk_tlvs p. 4 + length (tlv_value e))"
proof -
  obtain ts where ts: "res_map tlv_encode (pk_tlvs p) = Inr ts" and
    bs: "bs = [1] @ be_bytes 1 (op_code (pk_op p)) @ be_bytes 2 (pk_result p)
      @ be_bytes 2 (pk_error_attr p) @ [0, 0] @ pk_client_mac p @ pk_server_mac p
      @ be_bytes 4 (pk_sequence p) @ NSDP_SIGNATURE @ [0, 0, 0, 0] @ concat ts @ END_MARKER"
    using assms by (auto simp: encode_def encode_header_ok res_iff)
  show ?thesis
    using assms(1) length_concat_encoded [OF ts] by (simp add: bs packet_ok_def NSDP_SIGNATURE_def END_MARKER_def)
qed

lemma decode_encoded:
  assumes ok: "packet_ok p" and "encode p = Inr bs"
  shows "decode (bs @ junk) = Inr p"
proof -
  let ?op = "be_bytes 1 (op_code (pk_op p))" and ?res = "be_bytes 2 (pk_result p)"
  let ?attr = "be_bytes 2 (pk_error_attr p)" and ?sn = "be_bytes 4 (pk_sequence p)"
  define h where "h = [1] @ ?op @ ?res @ ?attr @ [0, 0] @ pk_client_mac p @ pk_server_mac p
      @ ?sn @ NSDP_SIGNATURE @ [0, 0, 0, 0]"
  obtain ts where ts: "res_map tlv_encode (pk_tlvs p) = Inr ts" and bs: "bs = h @ concat ts @ END_MARKER"
    using assms by (auto simp: encode_def encode_header_ok res_iff h_def)
  have len: "length h = 32"
    using ok by (simp add: h_def packet_ok_def NSDP_SIGNATURE_def)
  have tlvs: "decode_tlvs (bs @ junk) 32 = Inr (pk_tlvs p)"
    using decode_tlvs_encoded [OF _ ts, of h junk] ok by (simp add: bs len packet_ok_def)
  have fields: "field (Suc 0) (Suc 0) (h @ r) = ?op" "field 2 2 (h @ r) = ?res" "field 4 2 (h @ r) = ?attr"
    "field 8 6 (h @ r) = pk_client_mac p" "field 14 6 (h @ r) = pk_server_mac p"
    "field 20 4 (h @ r) = ?sn" "field 24 4 (h @ r) = NSDP_SIGNATURE" for r
    using ok by (simp_all add: field_def h_def packet_ok_def NSDP_SIGNATURE_def)
  show ?thesis
    using ok op_code_range [of "pk_op p"] tlvs
    by (simp add: decode_def HEADER_SIZE_def bs len fields packet_ok_def)
qed

lemma length_field: "off + w \<le> length data \<Longrightarrow> length (field off w data) = w"
  by (simp add: field_def)

lemma be_int_field_upper: "be_int (field off w data) < 256 ^ w"
proof -
  have "be_int (field off w data) < 256 ^ length (field off w data)" by (rule be_int_upper)
  also have "\<dots> \<le> 256 ^ w" by (simp add: field_def)
  finally show ?thesis .
qed

lemma decode_packet_ok:
  assumes "decode data = Inr p"
  shows "packet_ok p"
  using assms be_int_field_upper [of 2 2 data] be_int_field_upper [of 4 2 data]
    be_int_field_upper [of 20 4 data] decode_tlvs_ok [of data HEADER_SIZE]
  by (auto simp: decode_def packet_ok_def res_iff HEADER_SIZE_def length_field split: if_splits)

lemma decode_raises: "decode data = Inl e \<Longrightarrow> e = ValueError"
  by (auto simp: decode_def res_iff op_of_int_def split: if_splits dest: decode_tlvs_raises)

text \<open>
  C33. A packet with six-byte addresses, fields in range and canonical entries
  encodes, and decoding the datagram gives the packet back, whatever bytes follow
  the end marker.
\<close>

theorem packet_roundtrip:
  assumes "packet_ok p"
  shows "\<exists>bs. encode p = Inr bs \<and> decode (bs @ junk) = Inr p"
  using encode_total [OF assms] decode_encoded [OF assms] by blast

definition sample_packet :: nsdp_packet where
  "sample_packet = add_tlv (mk_packet WRITE_REQUEST [2, 0, 0, 0, 0, 1] [0x12, 0x34, 0x56, 0x78, 0x9A, 0xBC] 4294967295)
     PORT_PVID [3, 0, 100]"

theorem packet_roundtrip_witness:
  "\<exists>bs. encode sample_packet = Inr bs \<and> decode (bs @ [1, 2, 3]) = Inr sample_packet"
proof -
  have "packet_ok sample_packet"
    by (simp add: packet_ok_def sample_packet_def add_tlv_def mk_packet_def)
  then show ?thesis by (rule packet_roundtrip)
qed

text \<open>
  C34. Decoding any datagram either raises \<open>ValueError\<close>, the one exception the
  transports and the responder catch, or gives a packet that encodes again and
  decodes to itself: the decoder's image is exactly the packets the encoder can
  send.
\<close>

theorem decode_total_and_canonical:
  "(case decode data of
      Inl e \<Rightarrow> e = ValueError
    | Inr p \<Rightarrow> packet_ok p \<and> (\<exists>bs. encode p = Inr bs \<and> decode bs = Inr p))"
proof (cases "decode data")
  case (Inl e)
  then show ?thesis using decode_raises by simp
next
  case (Inr p)
  then have ok: "packet_ok p" by (rule decode_packet_ok)
  then obtain bs where bs: "encode p = Inr bs" using encode_total by blast
  with ok decode_encoded [of p bs "[]"] Inr show ?thesis by simp
qed

end
