(* ===== verification/Bitmap.thy ===== *)
theory Bitmap
  imports Errors
begin

text \<open>
  The MSB-first port bitmap both protocols use: bit 0x80 of byte 0 is port 1.
  The two loops (collect the set bits; set one bit per port, growing the buffer)
  occur verbatim in \<open>protocols/nsdp/parsers.py\<close>, \<open>protocols/snmp/write.py\<close> and
  \<open>protocols/snmp/parse.py\<close>; the codec contract they meet is a locale.
\<close>

section \<open>The loops\<close>

definition bit_mask :: "nat \<Rightarrow> byte" where
  "bit_mask k = drop_bit k 0x80"

definition byte_ports :: "nat \<Rightarrow> byte \<Rightarrow> int list" where
  "byte_ports i b = [int (i * 8 + k + 1). k \<leftarrow> [0..<8], b AND bit_mask k \<noteq> 0]"

definition bitmap_ports :: "bytes \<Rightarrow> int list" where
  "bitmap_ports bs = concat (map (\<lambda>(i, b). byte_ports i b) (enumerate 0 bs))"

text \<open>\<open>while byte_idx >= len(data): data.append(0)\<close>\<close>

function grow_to :: "int \<Rightarrow> bytes \<Rightarrow> bytes" where
  "grow_to byte_idx data =
     (if byte_idx \<ge> int (length data) then grow_to byte_idx (data @ [0]) else data)"
  by pat_completeness auto
termination
  by (relation "measure (\<lambda>(byte_idx, data). nat (byte_idx + 1 - int (length data)))") auto

declare grow_to.simps [simp del]

text \<open>
  \<open>byte_idx, bit = divmod(p - 1, 8)\<close>, grow, \<open>data[byte_idx] |= 0x80 >> bit\<close>. A
  port below 1 gives a negative index, which Python counts from the end.
\<close>

definition set_port :: "bytes \<Rightarrow> int \<Rightarrow> bytes py" where
  "set_port data p =
     (let byte_idx = (p - 1) div 8;
          k = nat ((p - 1) mod 8);
          data' = grow_to byte_idx data;
          j = (if byte_idx < 0 then int (length data') + byte_idx else byte_idx)
      in if j < 0 then Inl IndexError
         else Inr (data'[nat j := (data' ! nat j) OR bit_mask k]))"

fun set_ports :: "bytes \<Rightarrow> int list \<Rightarrow> bytes py" where
  "set_ports data [] = Inr data"
| "set_ports data (p # ps) = res_bind (set_port data p) (\<lambda>d. set_ports d ps)"

section \<open>What a bitmap says of a port\<close>

definition port_byte :: "int \<Rightarrow> nat" where
  "port_byte p = nat ((p - 1) div 8)"

definition port_bit :: "int \<Rightarrow> nat" where
  "port_bit p = 7 - nat ((p - 1) mod 8)"

definition has_port :: "bytes \<Rightarrow> int \<Rightarrow> bool" where
  "has_port bs p \<longleftrightarrow> 1 \<le> p \<and> port_byte p < length bs \<and> bit (bs ! port_byte p) (port_bit p)"

lemma bit_mask_push: "k < 8 \<Longrightarrow> bit_mask k = push_bit (7 - k) 1"
proof -
  assume "k < 8"
  then have "k \<in> {0, 1, 2, 3, 4, 5, 6, 7}" by auto
  then show ?thesis by (auto simp: bit_mask_def)
qed

lemma and_bit_mask: "k < 8 \<Longrightarrow> (b AND bit_mask k \<noteq> 0) = bit b (7 - k)"
  by (simp add: bit_mask_push bit_iff_and_push_bit_not_eq_0)

lemma port_pos_unique:
  "k < 8 \<Longrightarrow> p = int (i * 8 + k + 1) \<longleftrightarrow> 1 \<le> p \<and> port_byte p = i \<and> nat ((p - 1) mod 8) = k"
proof
  assume k: "k < 8" and p: "p = int (i * 8 + k + 1)"
  then have "p - 1 = int i * 8 + int k" by simp
  moreover have "(int i * 8 + int k) div 8 = int i" "(int i * 8 + int k) mod 8 = int k"
    using k by (simp_all add: div_add1_eq)
  ultimately show "1 \<le> p \<and> port_byte p = i \<and> nat ((p - 1) mod 8) = k"
    using p by (simp add: port_byte_def)
next
  assume k: "k < 8" and "1 \<le> p \<and> port_byte p = i \<and> nat ((p - 1) mod 8) = k"
  then have "(p - 1) div 8 = int i" "(p - 1) mod 8 = int k" "1 \<le> p"
    by (auto simp: port_byte_def nat_eq_iff pos_imp_zdiv_nonneg_iff)
  then have "p - 1 = int i * 8 + int k"
    using div_mult_mod_eq [of "p - 1" 8] by simp
  then show "p = int (i * 8 + k + 1)" by simp
qed

lemma byte_ports_mem:
  "p \<in> set (byte_ports i b) \<longleftrightarrow> 1 \<le> p \<and> port_byte p = i \<and> bit b (port_bit p)"
proof -
  have "p \<in> set (byte_ports i b)
      \<longleftrightarrow> (\<exists>k<8. p = int (i * 8 + k + 1) \<and> b AND bit_mask k \<noteq> 0)"
    by (auto simp: byte_ports_def)
  also have "\<dots> \<longleftrightarrow> (\<exists>k<8. (1 \<le> p \<and> port_byte p = i \<and> nat ((p - 1) mod 8) = k) \<and> bit b (7 - k))"
    using port_pos_unique and_bit_mask by metis
  also have "\<dots> \<longleftrightarrow> 1 \<le> p \<and> port_byte p = i \<and> bit b (port_bit p)"
    by (auto simp: port_bit_def)
  finally show ?thesis .
qed

lemma bitmap_ports_mem: "p \<in> set (bitmap_ports bs) \<longleftrightarrow> has_port bs p"
  by (auto simp: bitmap_ports_def byte_ports_mem has_port_def in_set_enumerate_eq)

lemma has_port_range: "has_port bs p \<Longrightarrow> 1 \<le> p \<and> p \<le> 8 * int (length bs)"
  unfolding has_port_def port_byte_def by linarith

lemma grow_to_eq: "grow_to i data = data @ replicate (nat (i + 1 - int (length data))) 0"
proof (induction i data rule: grow_to.induct)
  case (1 i data)
  show ?case
  proof (cases "i \<ge> int (length data)")
    case True
    then have "nat (i + 1 - int (length data)) = Suc (nat (i - int (length data)))"
      by linarith
    then show ?thesis
      using True "1.IH" by (simp add: grow_to.simps [of i data] replicate_append_same [symmetric] algebra_simps)
  next
    case False
    then show ?thesis by (simp add: grow_to.simps [of i data])
  qed
qed

lemma bit_or_mask:
  "k < 8 \<Longrightarrow> bit (b OR bit_mask k) n \<longleftrightarrow> bit b n \<or> n = 7 - k"
  by (auto simp: bit_mask_push bit_or_iff bit_exp_iff possible_bit_word)

lemma port_pos_inject:
  assumes "1 \<le> p" "1 \<le> q" and byte: "port_byte q = port_byte p" and bit: "port_bit q = port_bit p"
  shows "q = p"
proof -
  have d: "0 \<le> (p - 1) div 8" "0 \<le> (q - 1) div 8" using assms by simp_all
  have seven: "a = b" if "7 - a = 7 - b" "a \<le> 7" "b \<le> 7" for a b :: nat
    using that by simp
  have m: "0 \<le> x mod 8" "nat (x mod 8) \<le> 7" for x :: int
    using pos_mod_bound [of 8 x] by (simp_all add: nat_le_iff)
  have "nat ((q - 1) mod 8) = nat ((p - 1) mod 8)"
    by (rule seven) (use bit m in \<open>unfold port_bit_def, blast+\<close>)
  then have "(q - 1) mod 8 = (p - 1) mod 8"
    using m(1) eq_nat_nat_iff by blast
  moreover have "(q - 1) div 8 = (p - 1) div 8" using byte d unfolding port_byte_def by linarith
  ultimately have "q - 1 = p - 1" by (metis div_mult_mod_eq)
  then show ?thesis by simp
qed

lemma set_port_ok:
  assumes p: "1 \<le> p"
  shows "\<exists>d. set_port data p = Inr d \<and> length d = max (length data) (Suc (port_byte p))
    \<and> (\<forall>q. has_port d q \<longleftrightarrow> q = p \<or> has_port data q)"
proof -
  let ?i = "port_byte p" and ?k = "nat ((p - 1) mod 8)"
  let ?g = "grow_to ((p - 1) div 8) data"
  let ?d = "?g[?i := (?g ! ?i) OR bit_mask ?k]"
  have i: "(p - 1) div 8 = int ?i" using p by (simp add: port_byte_def pos_imp_zdiv_nonneg_iff)
  have k: "?k < 8" by simp
  have len: "length ?g = max (length data) (Suc ?i)"
    by (simp add: grow_to_eq i)
  have g: "has_port ?g q = has_port data q" for q
    by (auto simp: has_port_def grow_to_eq nth_append)
  have eq: "set_port data p = Inr ?d"
    using i by (simp add: set_port_def Let_def)
  have "has_port ?d q \<longleftrightarrow> q = p \<or> has_port ?g q" for q
  proof (cases "port_byte q = ?i")
    case False
    then show ?thesis by (auto simp: has_port_def)
  next
    case True
    have "1 \<le> q \<Longrightarrow> port_bit q = 7 - ?k \<Longrightarrow> q = p"
      using port_pos_inject [OF p _ True] by (simp add: port_bit_def)
    then show ?thesis
      using True len k p by (auto simp: has_port_def bit_or_mask port_bit_def)
  qed
  with eq len g show ?thesis by auto
qed

text \<open>The width the growing buffer ends with.\<close>

fun bytes_for :: "int list \<Rightarrow> nat" where
  "bytes_for [] = 0"
| "bytes_for (p # ps) = max (Suc (port_byte p)) (bytes_for ps)"

lemma bytes_for_le_iff: "bytes_for ps \<le> n \<longleftrightarrow> (\<forall>p \<in> set ps. Suc (port_byte p) \<le> n)"
  by (induction ps) auto

lemma bytes_for_cong: "set ps = set qs \<Longrightarrow> bytes_for ps = bytes_for qs"
  using bytes_for_le_iff [of ps "bytes_for qs"] bytes_for_le_iff [of qs "bytes_for ps"]
    bytes_for_le_iff [of ps "bytes_for ps"] bytes_for_le_iff [of qs "bytes_for qs"]
  by (simp add: antisym)

lemma bytes_for_le: "\<forall>p \<in> set ps. p \<le> 8 * int n \<Longrightarrow> \<forall>p \<in> set ps. 1 \<le> p \<Longrightarrow> bytes_for ps \<le> n"
  unfolding bytes_for_le_iff port_byte_def by fastforce

lemma set_ports_ok:
  "\<forall>p \<in> set ps. 1 \<le> p \<Longrightarrow>
   \<exists>d. set_ports data ps = Inr d \<and> length d = max (length data) (bytes_for ps)
    \<and> (\<forall>q. has_port d q \<longleftrightarrow> q \<in> set ps \<or> has_port data q)"
proof (induction ps arbitrary: data)
  case Nil
  then show ?case by simp
next
  case (Cons p ps)
  obtain d where d: "set_port data p = Inr d" "length d = max (length data) (Suc (port_byte p))"
    "\<And>q. has_port d q \<longleftrightarrow> q = p \<or> has_port data q"
    using set_port_ok [of p data] Cons.prems by auto
  moreover obtain d' where "set_ports d ps = Inr d'" "length d' = max (length d) (bytes_for ps)"
    "\<And>q. has_port d' q \<longleftrightarrow> q \<in> set ps \<or> has_port d q"
    using Cons.IH [of d] Cons.prems by auto
  ultimately show ?case by (auto simp: max.assoc)
qed

lemma has_port_zero [simp]: "\<not> has_port (replicate n 0) p"
  by (auto simp: has_port_def)

lemma bitmap_ext:
  assumes len: "length a = length b" and eq: "\<And>p. has_port a p = has_port b p"
  shows "a = b"
proof (rule nth_equalityI [OF len])
  fix i assume i: "i < length a"
  show "a ! i = b ! i"
  proof (rule bit_eqI)
    fix n assume "possible_bit TYPE(8 word) n"
    then have n: "n < 8" by (simp add: possible_bit_word)
    let ?p = "int (i * 8 + (7 - n) + 1)"
    have "1 \<le> ?p \<and> port_byte ?p = i \<and> nat ((?p - 1) mod 8) = 7 - n"
      using port_pos_unique [of "7 - n" ?p i] by simp
    then show "bit (a ! i) n = bit (b ! i) n"
      using eq [of ?p] i len n by (simp add: has_port_def port_bit_def)
  qed
qed

section \<open>The codec contract\<close>

text \<open>
  What the users of a bitmap codec rely on. \<open>enc ps w\<close> is the wire form of the
  ports \<open>ps\<close> at least \<open>w\<close> bytes wide, \<open>dec bs\<close> the ports of a wire form.
\<close>

locale port_bitmap_codec =
  fixes enc :: "int list \<Rightarrow> nat \<Rightarrow> bytes py"
    and dec :: "bytes \<Rightarrow> int set"
  assumes enc_dec: "\<forall>p \<in> set ps. 1 \<le> p \<Longrightarrow>
      \<exists>bs. enc ps w = Inr bs \<and> dec bs = set ps \<and> length bs = max w (bytes_for ps)"
    and dec_range: "p \<in> dec bs \<Longrightarrow> 1 \<le> p \<and> p \<le> 8 * int (length bs)"
    and dec_inject: "length a = length b \<Longrightarrow> dec a = dec b \<Longrightarrow> a = b"
begin

lemma finite_dec [simp]: "finite (dec bs)"
  by (rule finite_subset [of _ "{1..8 * int (length bs)}"]) (auto dest: dec_range)

text \<open>The order in which a set is enumerated does not matter.\<close>

lemma enc_cong:
  assumes "set ps = set qs" and "\<forall>p \<in> set ps. 1 \<le> p"
  shows "enc ps w = enc qs w"
proof -
  obtain a where a: "enc ps w = Inr a" "dec a = set ps" "length a = max w (bytes_for ps)"
    using enc_dec assms(2) by blast
  obtain b where b: "enc qs w = Inr b" "dec b = set qs" "length b = max w (bytes_for qs)"
    using enc_dec [of qs w] assms by blast
  have "a = b" using a b assms(1) bytes_for_cong [of ps qs] by (auto intro: dec_inject)
  with a b show ?thesis by simp
qed

lemma enc_fits:
  assumes "\<forall>p \<in> set ps. 1 \<le> p \<and> p \<le> 8 * int w"
  shows "\<exists>bs. enc ps w = Inr bs \<and> dec bs = set ps \<and> length bs = w"
proof -
  have "bytes_for ps \<le> w" using assms by (intro bytes_for_le) auto
  with enc_dec [of ps w] assms show ?thesis by (auto simp: max_absorb1)
qed

text \<open>Re-encoding what was decoded gives the same bytes.\<close>

lemma reencode: "enc (sorted_list_of_set (dec bs)) (length bs) = Inr bs"
proof -
  obtain a where a: "enc (sorted_list_of_set (dec bs)) (length bs) = Inr a"
    "dec a = dec bs" "length a = length bs"
    using enc_fits [of "sorted_list_of_set (dec bs)" "length bs"] dec_range by auto
  with dec_inject show ?thesis by blast
qed

text \<open>Read-modify-write of a set of ports: the wire form says exactly the new set.\<close>

lemma rmw:
  assumes "finite S" and "\<forall>p \<in> S. 1 \<le> p"
  shows "\<exists>bs. enc (sorted_list_of_set S) w = Inr bs \<and> dec bs = S
    \<and> length bs = max w (bytes_for (sorted_list_of_set S))"
  using enc_dec [of "sorted_list_of_set S" w] assms by auto

end

text \<open>The shared loops meet the contract.\<close>

interpretation msb: port_bitmap_codec "\<lambda>ps w. set_ports (replicate w 0) ps" "\<lambda>bs. set (bitmap_ports bs)"
proof unfold_locales
  fix ps :: "int list" and w
  assume "\<forall>p \<in> set ps. 1 \<le> p"
  then show "\<exists>bs. set_ports (replicate w 0) ps = Inr bs \<and> set (bitmap_ports bs) = set ps
      \<and> length bs = max w (bytes_for ps)"
    using set_ports_ok [of ps "replicate w 0"] by (auto simp: bitmap_ports_mem)
next
  fix p bs
  assume "p \<in> set (bitmap_ports bs)"
  then show "1 \<le> p \<and> p \<le> 8 * int (length bs)"
    by (simp add: bitmap_ports_mem has_port_range)
next
  fix a b :: bytes
  assume "length a = length b" and "set (bitmap_ports a) = set (bitmap_ports b)"
  then show "a = b"
    by (intro bitmap_ext) (auto simp: bitmap_ports_mem set_eq_iff)
qed

end
