(* ===== verification/Nsdp_Parsers.thy ===== *)
theory Nsdp_Parsers
  imports Nsdp_Protocol Bitmap
begin

text \<open>
  The NSDP value types (\<open>protocols/nsdp/types.py\<close>) and the per-tag parsers with
  the aggregation of a READ_RESPONSE into one device
  (\<open>protocols/nsdp/parsers.py\<close>).
\<close>

section \<open>Value types\<close>

datatype link_speed =
    DOWN | HALF_10M | FULL_10M | HALF_100M | FULL_100M | GIGABIT | TEN_GIGABIT
  | TEN_GIGABIT_PRIOR_ART

fun link_speed_code :: "link_speed \<Rightarrow> int" where
  "link_speed_code DOWN = 0x00"
| "link_speed_code HALF_10M = 0x01"
| "link_speed_code FULL_10M = 0x02"
| "link_speed_code HALF_100M = 0x03"
| "link_speed_code FULL_100M = 0x04"
| "link_speed_code GIGABIT = 0x05"
| "link_speed_code TEN_GIGABIT = 0x06"
| "link_speed_code TEN_GIGABIT_PRIOR_ART = 0xFF"

definition link_speeds :: "link_speed list" where
  "link_speeds = [DOWN, HALF_10M, FULL_10M, HALF_100M, FULL_100M, GIGABIT, TEN_GIGABIT,
     TEN_GIGABIT_PRIOR_ART]"

text \<open>\<open>LinkSpeed.from_byte\<close>: an unknown code is \<open>DOWN\<close>, never an exception.\<close>

definition from_byte :: "int \<Rightarrow> link_speed" where
  "from_byte v = (case find (\<lambda>s. link_speed_code s = v) link_speeds of Some s \<Rightarrow> s | None \<Rightarrow> DOWN)"

definition MBPS :: "(int, int) dict" where
  "MBPS = [(0x00, 0), (0x01, 10), (0x02, 10), (0x03, 100), (0x04, 100), (0x05, 1000),
     (0x06, 10000), (0xFF, 10000)]"

definition speed_mbps :: "link_speed \<Rightarrow> int" where
  "speed_mbps s = (case dict_get MBPS (link_speed_code s) of Some n \<Rightarrow> n | None \<Rightarrow> 0)"

datatype vlan_engine = VLAN_DISABLED | BASIC_PORT | ADVANCED_PORT | BASIC_802_1Q | ADVANCED_802_1Q

definition vlan_engine_of :: "int \<Rightarrow> vlan_engine py" where
  "vlan_engine_of n =
     (if n = 0 then Inr VLAN_DISABLED else if n = 1 then Inr BASIC_PORT
      else if n = 2 then Inr ADVANCED_PORT else if n = 3 then Inr BASIC_802_1Q
      else if n = 4 then Inr ADVANCED_802_1Q else Inl ValueError)"

record nsdp_port_status =
  nps_port_id :: int
  nps_speed :: link_speed
  nps_flow_control :: "bool option"

record nsdp_port_name =
  npn_port_id :: int
  npn_name :: "ustr option"

record nsdp_port_statistics =
  npt_port_id :: int
  npt_bytes_received :: int
  npt_bytes_sent :: int
  npt_crc_errors :: int

record nsdp_vlan_membership =
  nvm_vlan_id :: int
  nvm_member_ports :: "int set"
  nvm_tagged_ports :: "int set"

definition untagged_ports :: "nsdp_vlan_membership \<Rightarrow> int set" where
  "untagged_ports m = nvm_member_ports m - nvm_tagged_ports m"

record nsdp_port_pvid =
  npp_port_id :: int
  npp_vlan_id :: int

record nsdp_port_mirroring =
  npm_destination_port :: int
  npm_source_ports :: "int set"

record nsdp_igmp_snooping =
  nis_enabled :: bool
  nis_vlan_id :: "int option"

record nsdp_device =
  nd_model :: ustr
  nd_mac :: ustr
  nd_hostname :: "ustr option"
  nd_ip :: "ustr option"
  nd_netmask :: "ustr option"
  nd_gateway :: "ustr option"
  nd_firmware_version :: "ustr option"
  nd_dhcp_enabled :: "bool option"
  nd_port_count :: "int option"
  nd_serial_number :: "ustr option"
  nd_vlan_engine :: "vlan_engine option"
  nd_port_status :: "nsdp_port_status list"
  nd_port_names :: "nsdp_port_name list"
  nd_port_statistics :: "nsdp_port_statistics list"
  nd_vlan_members :: "nsdp_vlan_membership list"
  nd_port_pvids :: "nsdp_port_pvid list"
  nd_qos_engine :: "int option"
  nd_port_mirroring :: "nsdp_port_mirroring option"
  nd_igmp_snooping :: "nsdp_igmp_snooping option"
  nd_broadcast_filtering :: "bool option"
  nd_loop_detection :: "bool option"

section \<open>Parsers\<close>

definition parse_ipv4 :: "bytes \<Rightarrow> ustr py" where
  "parse_ipv4 data = (if length data \<noteq> 4 then Inl ValueError else inet_ntoa data)"

definition hex2 :: "byte \<Rightarrow> ustr" where
  "hex2 b = [hex_digit (unat b div 16), hex_digit (unat b mod 16)]"

definition parse_mac :: "bytes \<Rightarrow> ustr py" where
  "parse_mac data = (if length data \<noteq> 6 then Inl ValueError else Inr (colon_join (map hex2 data)))"

definition parse_port_status :: "bytes \<Rightarrow> nsdp_port_status py" where
  "parse_port_status data =
     (if length data \<noteq> 3 then Inl ValueError
      else Inr \<lparr>nps_port_id = uint (data ! 0), nps_speed = from_byte (uint (data ! 1)),
                nps_flow_control = Some (data ! 2 \<noteq> 0)\<rparr>)"

text \<open>\<open>text or None\<close>\<close>

definition or_none :: "ustr \<Rightarrow> ustr option" where
  "or_none s = (if s = [] then None else Some s)"

definition parse_port_name :: "bytes \<Rightarrow> nsdp_port_name py" where
  "parse_port_name data =
     (if data = [] then Inl ValueError
      else Inr \<lparr>npn_port_id = uint (data ! 0),
                npn_name = or_none (nul_rstrip (utf8_decode_replace (drop 1 data)))\<rparr>)"

definition parse_port_statistics :: "bytes \<Rightarrow> nsdp_port_statistics py" where
  "parse_port_statistics data =
     (if length data \<noteq> 49 then Inl ValueError
      else res_bind (unpack_uint_from 8 data 1) (\<lambda>rx.
           res_bind (unpack_uint_from 8 data 9) (\<lambda>tx.
           res_bind (unpack_uint_from 8 data 17) (\<lambda>crc.
           Inr \<lparr>npt_port_id = uint (data ! 0), npt_bytes_received = rx, npt_bytes_sent = tx,
                npt_crc_errors = crc\<rparr>))))"

definition parse_port_pvid :: "bytes \<Rightarrow> nsdp_port_pvid py" where
  "parse_port_pvid data =
     (if length data \<noteq> 3 then Inl ValueError
      else res_bind (unpack_uint_from 2 data 1) (\<lambda>v.
           Inr \<lparr>npp_port_id = uint (data ! 0), npp_vlan_id = v\<rparr>))"

definition decode_str :: "bytes \<Rightarrow> ustr" where
  "decode_str data = nul_rstrip (ascii_decode_replace data)"

definition parse_serial :: "bytes \<Rightarrow> ustr py" where
  "parse_serial data =
     (if data = [] \<or> data ! 0 \<noteq> 1 then Inl ValueError else Inr (decode_str (drop 1 data)))"

definition bitmap_to_ports :: "bytes \<Rightarrow> int set" where
  "bitmap_to_ports bitmap = set (bitmap_ports bitmap)"

definition ports_to_bitmap :: "int list \<Rightarrow> nat \<Rightarrow> bytes py" where
  "ports_to_bitmap ports width_bytes = set_ports (replicate width_bytes 0) ports"

definition bitmap_width :: "int \<Rightarrow> nat" where
  "bitmap_width port_count = nat ((port_count + 7) div 8)"

definition parse_vlan_members :: "bytes \<Rightarrow> int \<Rightarrow> nsdp_vlan_membership py" where
  "parse_vlan_members data port_count =
     (let w = bitmap_width port_count in
      if length data < 2 + w * 2 then Inl ValueError
      else res_bind (unpack_uint_from 2 data 0) (\<lambda>vlan_id.
           Inr \<lparr>nvm_vlan_id = vlan_id,
                nvm_member_ports = bitmap_to_ports (take w (drop 2 data)),
                nvm_tagged_ports = bitmap_to_ports (take w (drop (2 + w) data))\<rparr>))"

definition parse_port_mirroring :: "bytes \<Rightarrow> nsdp_port_mirroring py" where
  "parse_port_mirroring data =
     (if data = [] then Inl ValueError
      else Inr \<lparr>npm_destination_port = uint (data ! 0),
                npm_source_ports = bitmap_to_ports (drop 1 data)\<rparr>)"

definition parse_igmp_snooping :: "bytes \<Rightarrow> nsdp_igmp_snooping py" where
  "parse_igmp_snooping data =
     (if length data < 2 then Inl ValueError
      else Inr \<lparr>nis_enabled = data ! 1 \<noteq> 0,
                nis_vlan_id = (if length data \<ge> 4 \<and> data ! 3 \<noteq> 0 then Some (uint (data ! 3)) else None)\<rparr>)"

section \<open>Aggregation\<close>

text \<open>
  The locals of \<open>parse_device\<close>: the two identity fields, and the device built so
  far (its own identity fields are filled at the end).
\<close>

record device_acc =
  da_model :: "ustr option"
  da_mac :: "ustr option"
  da_dev :: nsdp_device

definition empty_device :: nsdp_device where
  "empty_device =
     \<lparr>nd_model = [], nd_mac = [], nd_hostname = None, nd_ip = None, nd_netmask = None,
      nd_gateway = None, nd_firmware_version = None, nd_dhcp_enabled = None,
      nd_port_count = None, nd_serial_number = None, nd_vlan_engine = None,
      nd_port_status = [], nd_port_names = [], nd_port_statistics = [], nd_vlan_members = [],
      nd_port_pvids = [], nd_qos_engine = None, nd_port_mirroring = None,
      nd_igmp_snooping = None, nd_broadcast_filtering = None, nd_loop_detection = None\<rparr>"

definition empty_acc :: device_acc where
  "empty_acc = \<lparr>da_model = None, da_mac = None, da_dev = empty_device\<rparr>"

text \<open>The first pass: the last non-empty PORT_COUNT wins, and 8 is assumed without one.\<close>

definition learn_port_count :: "tlv list \<Rightarrow> int" where
  "learn_port_count tlvs =
     foldl (\<lambda>n e. if tag_is (tlv_tag e) PORT_COUNT \<and> tlv_value e \<noteq> [] then uint (tlv_value e ! 0) else n)
       8 tlvs"

definition with_dev :: "device_acc \<Rightarrow> (nsdp_device \<Rightarrow> nsdp_device) \<Rightarrow> device_acc" where
  "with_dev a f = a\<lparr>da_dev := f (da_dev a)\<rparr>"

text \<open>The second pass: the \<open>elif\<close> chain on one entry's tag.\<close>

definition device_step :: "int \<Rightarrow> device_acc \<Rightarrow> tlv \<Rightarrow> device_acc py" where
  "device_step port_count a e =
     (let v = tlv_value e; is = tag_is (tlv_tag e); put = with_dev a in
      if is MODEL then Inr (a\<lparr>da_model := Some (decode_str v)\<rparr>)
      else if is MAC then res_bind (parse_mac v) (\<lambda>m. Inr (a\<lparr>da_mac := Some m\<rparr>))
      else if is HOSTNAME then Inr (put (nd_hostname_update (\<lambda>_. Some (decode_str v))))
      else if is IP_ADDRESS then res_bind (parse_ipv4 v) (\<lambda>s. Inr (put (nd_ip_update (\<lambda>_. Some s))))
      else if is NETMASK then res_bind (parse_ipv4 v) (\<lambda>s. Inr (put (nd_netmask_update (\<lambda>_. Some s))))
      else if is GATEWAY then res_bind (parse_ipv4 v) (\<lambda>s. Inr (put (nd_gateway_update (\<lambda>_. Some s))))
      else if is FIRMWARE_VER_1 then Inr (put (nd_firmware_version_update (\<lambda>_. Some (decode_str v))))
      else if is DHCP_MODE \<and> v \<noteq> [] then Inr (put (nd_dhcp_enabled_update (\<lambda>_. Some (v ! 0 \<noteq> 0))))
      else if is PORT_COUNT \<and> v \<noteq> [] then Inr (put (nd_port_count_update (\<lambda>_. Some (uint (v ! 0)))))
      else if is SERIAL_NUMBER then
        res_bind (parse_serial v) (\<lambda>s. Inr (put (nd_serial_number_update (\<lambda>_. Some s))))
      else if is VLAN_ENGINE \<and> v \<noteq> [] then
        res_bind (vlan_engine_of (uint (v ! 0))) (\<lambda>x. Inr (put (nd_vlan_engine_update (\<lambda>_. Some x))))
      else if is PORT_STATUS then
        res_bind (parse_port_status v) (\<lambda>x. Inr (put (nd_port_status_update (\<lambda>xs. xs @ [x]))))
      else if is PORT_NAME then
        res_bind (parse_port_name v) (\<lambda>x. Inr (put (nd_port_names_update (\<lambda>xs. xs @ [x]))))
      else if is PORT_STATISTICS then
        res_bind (parse_port_statistics v) (\<lambda>x. Inr (put (nd_port_statistics_update (\<lambda>xs. xs @ [x]))))
      else if is VLAN_MEMBERS then
        res_bind (parse_vlan_members v port_count) (\<lambda>x. Inr (put (nd_vlan_members_update (\<lambda>xs. xs @ [x]))))
      else if is PORT_PVID then
        res_bind (parse_port_pvid v) (\<lambda>x. Inr (put (nd_port_pvids_update (\<lambda>xs. xs @ [x]))))
      else if is QOS_ENGINE \<and> v \<noteq> [] then Inr (put (nd_qos_engine_update (\<lambda>_. Some (uint (v ! 0)))))
      else if is PORT_MIRRORING then
        res_bind (parse_port_mirroring v) (\<lambda>x. Inr (put (nd_port_mirroring_update (\<lambda>_. Some x))))
      else if is IGMP_SNOOPING then
        res_bind (parse_igmp_snooping v) (\<lambda>x. Inr (put (nd_igmp_snooping_update (\<lambda>_. Some x))))
      else if is BROADCAST_FILTERING \<and> v \<noteq> [] then
        Inr (put (nd_broadcast_filtering_update (\<lambda>_. Some (v ! 0 \<noteq> 0))))
      else if is LOOP_DETECTION \<and> v \<noteq> [] then
        Inr (put (nd_loop_detection_update (\<lambda>_. Some (v ! 0 \<noteq> 0))))
      else Inr a)"

fun device_loop :: "int \<Rightarrow> tlv list \<Rightarrow> device_acc \<Rightarrow> device_acc py" where
  "device_loop port_count [] a = Inr a"
| "device_loop port_count (e # es) a =
     res_bind (device_step port_count a e) (device_loop port_count es)"

definition finish_device :: "bytes \<Rightarrow> device_acc \<Rightarrow> nsdp_device py" where
  "finish_device server_mac a =
     (case da_model a of
        None \<Rightarrow> Inl ValueError
      | Some model \<Rightarrow>
          res_bind (case da_mac a of None \<Rightarrow> parse_mac server_mac | Some m \<Rightarrow> Inr m) (\<lambda>mac.
          Inr ((da_dev a)\<lparr>nd_model := model, nd_mac := mac\<rparr>)))"

definition parse_device :: "nsdp_packet \<Rightarrow> nsdp_device py" where
  "parse_device packet =
     res_bind (device_loop (learn_port_count (pk_tlvs packet)) (pk_tlvs packet) empty_acc)
       (finish_device (pk_server_mac packet))"

section \<open>Bitmaps\<close>

interpretation nsdp_bitmap: port_bitmap_codec ports_to_bitmap bitmap_to_ports
  unfolding ports_to_bitmap_def bitmap_to_ports_def by (rule msb.port_bitmap_codec_axioms)

lemma bitmap_to_ports_range: "p \<in> bitmap_to_ports bs \<Longrightarrow> 1 \<le> p \<and> p \<le> 8 * int (length bs)"
  by (rule nsdp_bitmap.dec_range)

lemma bitmap_to_ports_finite [simp]: "finite (bitmap_to_ports bs)"
  by (rule nsdp_bitmap.finite_dec)

lemma bitmap_width_covers: "0 \<le> n \<Longrightarrow> p \<le> n \<Longrightarrow> p \<le> 8 * int (bitmap_width n)"
  unfolding bitmap_width_def by linarith

lemma ports_to_bitmap_fits:
  assumes "\<forall>p \<in> set ps. 1 \<le> p \<and> p \<le> n" and "0 \<le> n"
  shows "\<exists>bs. ports_to_bitmap ps (bitmap_width n) = Inr bs \<and> bitmap_to_ports bs = set ps
    \<and> length bs = bitmap_width n"
  using assms bitmap_width_covers [of n] by (intro nsdp_bitmap.enc_fits) auto

text \<open>
  The two bitmap routines are inverse: encoding ports in any order gives a
  bitmap that decodes to exactly those ports, as wide as asked or as the highest
  port needs; and re-encoding the ports of any received bitmap at its own width
  gives the same bytes.
\<close>

lemma nsdp_bitmap_roundtrip:
  "((\<forall>p \<in> set ps. 1 \<le> p) \<longrightarrow>
     (\<exists>bs. ports_to_bitmap ps w = Inr bs \<and> bitmap_to_ports bs = set ps
        \<and> length bs = max w (bytes_for ps)))
   \<and> ports_to_bitmap (sorted_list_of_set (bitmap_to_ports bm)) (length bm) = Inr bm"
  using nsdp_bitmap.enc_dec nsdp_bitmap.reencode by blast

lemma nsdp_bitmap_roundtrip_witness:
  "(\<exists>bs. ports_to_bitmap [10, 1, 8] 1 = Inr bs \<and> bitmap_to_ports bs = {1, 8, 10} \<and> length bs = 2)
   \<and> bitmap_to_ports [0x81, 0x40] = {1, 8, 10}"
proof -
  have n: "max 1 (bytes_for [10, 1, 8]) = 2" "\<forall>p \<in> set [10, 1, 8 :: int]. 1 \<le> p"
    by (simp_all add: port_byte_def)
  have "\<exists>bs. ports_to_bitmap [10, 1, 8] 1 = Inr bs \<and> bitmap_to_ports bs = {1, 8, 10} \<and> length bs = 2"
    using nsdp_bitmap_roundtrip [of "[10, 1, 8]" 1 "[]"] n by auto
  moreover have "bitmap_to_ports [0x81, 0x40] = {1, 8, 10}"
    by (auto simp: bitmap_to_ports_def bitmap_ports_def byte_ports_def bit_mask_def upt_rec)
  ultimately show ?thesis by blast
qed

text \<open>
  A port number below 1 is not refused: its negative index wraps to the last
  byte, so port 0 is encoded as the last port of the bitmap.
\<close>

lemma ports_to_bitmap_port_zero: "ports_to_bitmap [0] 2 = Inr [0, 1]"
proof -
  have "replicate 2 (0 :: byte) = [0, 0]" by (simp add: numeral_2_eq_2)
  then show ?thesis
    by (simp add: ports_to_bitmap_def set_port_def Let_def bit_mask_def grow_to.simps)
qed

section \<open>Every parser raises only ValueError\<close>

named_theorems parser_raises

lemma inet_ntoa_raises: "parse_ipv4 v = Inl x \<Longrightarrow> x = ValueError"
  by (auto simp: parse_ipv4_def inet_ntoa_def split: if_splits)

lemma small_parser_raises [parser_raises]:
  "parse_mac v = Inl x \<Longrightarrow> x = ValueError"
  "parse_serial v = Inl x \<Longrightarrow> x = ValueError"
  "vlan_engine_of n = Inl x \<Longrightarrow> x = ValueError"
  "parse_port_status v = Inl x \<Longrightarrow> x = ValueError"
  "parse_port_name v = Inl x \<Longrightarrow> x = ValueError"
  "parse_port_pvid v = Inl x \<Longrightarrow> x = ValueError"
  "parse_port_statistics v = Inl x \<Longrightarrow> x = ValueError"
  "parse_vlan_members v pc = Inl x \<Longrightarrow> x = ValueError"
  "parse_port_mirroring v = Inl x \<Longrightarrow> x = ValueError"
  "parse_igmp_snooping v = Inl x \<Longrightarrow> x = ValueError"
  by (auto simp: parse_mac_def parse_serial_def vlan_engine_of_def parse_port_status_def
      parse_port_name_def parse_port_pvid_def parse_port_statistics_def parse_vlan_members_def
      parse_port_mirroring_def parse_igmp_snooping_def Let_def res_iff unpack_uint_from_def
      split: if_splits)

lemma device_step_raises: "device_step pc a e = Inl x \<Longrightarrow> x = ValueError"
  by (auto simp: device_step_def Let_def res_iff dest: parser_raises inet_ntoa_raises
      split: if_splits)

lemma device_loop_raises: "device_loop pc es a = Inl x \<Longrightarrow> x = ValueError"
  by (induction es arbitrary: a) (auto simp: res_iff dest: device_step_raises)

section \<open>What the aggregation keeps\<close>

lemma device_loop_append:
  "device_loop pc (es @ fs) a = res_bind (device_loop pc es a) (device_loop pc fs)"
  by (induction es arbitrary: a) (auto simp: res_bind_def split: sum.splits)

definition catalogued :: "tlv \<Rightarrow> bool" where
  "catalogued e \<longleftrightarrow> (\<exists>t. tag_is (tlv_tag e) t)"

lemma device_step_uncatalogued: "\<not> catalogued e \<Longrightarrow> device_step pc a e = Inr a"
  by (simp add: device_step_def catalogued_def Let_def)

lemma device_loop_filter: "device_loop pc (filter catalogued es) a = device_loop pc es a"
  by (induction es arbitrary: a) (auto simp: device_step_uncatalogued res_bind_def split: sum.splits)

lemma foldl_filter_id:
  "(\<And>n e. e \<in> set es \<Longrightarrow> \<not> P e \<Longrightarrow> f n e = n) \<Longrightarrow> foldl f n (filter P es) = foldl f n es"
  by (induction es arbitrary: n) auto

lemma learn_port_count_filter: "learn_port_count (filter catalogued es) = learn_port_count es"
  unfolding learn_port_count_def by (rule foldl_filter_id) (auto simp: catalogued_def)

lemma device_step_model:
  "device_step pc a e = Inr a' \<Longrightarrow>
     da_model a' = (if tag_is (tlv_tag e) MODEL then Some (decode_str (tlv_value e)) else da_model a)"
  by (auto simp: device_step_def with_dev_def Let_def res_iff split: if_splits)

lemma device_loop_model:
  "device_loop pc es a = Inr a' \<Longrightarrow>
     da_model a' = None \<longleftrightarrow> da_model a = None \<and> (\<forall>e \<in> set es. \<not> tag_is (tlv_tag e) MODEL)"
proof (induction es arbitrary: a)
  case (Cons e es)
  then obtain b where "device_step pc a e = Inr b" "device_loop pc es b = Inr a'"
    by (auto simp: res_iff)
  with Cons.IH [of b] device_step_model [of pc a e b] show ?case by auto
qed simp

text \<open>
  C37. Aggregating a response gives a device or raises \<open>ValueError\<close> and nothing
  else; it never gives a device for a response without a MODEL entry; and entries
  with a tag the catalogue does not name change nothing, wherever they stand.
\<close>

theorem parse_device_total:
  "(case parse_device p of
      Inl x \<Rightarrow> x = ValueError
    | Inr d \<Rightarrow> (\<exists>e \<in> set (pk_tlvs p). tag_is (tlv_tag e) MODEL))
   \<and> parse_device (p\<lparr>pk_tlvs := filter catalogued (pk_tlvs p)\<rparr>) = parse_device p"
proof -
  have raises: "x = ValueError" if "parse_device p = Inl x" for x
    using that by (auto simp: parse_device_def finish_device_def res_iff
        dest: device_loop_raises parser_raises split: option.splits)
  have model: "\<exists>e \<in> set (pk_tlvs p). tag_is (tlv_tag e) MODEL" if dev: "parse_device p = Inr d" for d
  proof -
    obtain a where "device_loop (learn_port_count (pk_tlvs p)) (pk_tlvs p) empty_acc = Inr a"
      and fin: "finish_device (pk_server_mac p) a = Inr d"
      using dev by (auto simp: parse_device_def res_iff)
    moreover have "da_model a \<noteq> None" using fin by (cases "da_model a") (simp_all add: finish_device_def)
    ultimately show ?thesis by (auto simp: device_loop_model empty_acc_def)
  qed
  have "parse_device (p\<lparr>pk_tlvs := filter catalogued (pk_tlvs p)\<rparr>) = parse_device p"
    by (simp add: parse_device_def device_loop_filter learn_port_count_filter)
  with raises model show ?thesis by (auto split: sum.splits)
qed

text \<open>One entry of each kind, and runs of the repeated kinds.\<close>

lemma device_step_mk_tlv:
  "device_step pc a (mk_tlv MODEL v) = Inr (a\<lparr>da_model := Some (decode_str v)\<rparr>)"
  "device_step pc a (mk_tlv MAC v) = res_bind (parse_mac v) (\<lambda>m. Inr (a\<lparr>da_mac := Some m\<rparr>))"
  "device_step pc a (mk_tlv HOSTNAME v) = Inr (with_dev a (nd_hostname_update (\<lambda>_. Some (decode_str v))))"
  "device_step pc a (mk_tlv IP_ADDRESS v)
     = res_bind (parse_ipv4 v) (\<lambda>s. Inr (with_dev a (nd_ip_update (\<lambda>_. Some s))))"
  "device_step pc a (mk_tlv NETMASK v)
     = res_bind (parse_ipv4 v) (\<lambda>s. Inr (with_dev a (nd_netmask_update (\<lambda>_. Some s))))"
  "device_step pc a (mk_tlv GATEWAY v)
     = res_bind (parse_ipv4 v) (\<lambda>s. Inr (with_dev a (nd_gateway_update (\<lambda>_. Some s))))"
  "v \<noteq> [] \<Longrightarrow> device_step pc a (mk_tlv DHCP_MODE v)
     = Inr (with_dev a (nd_dhcp_enabled_update (\<lambda>_. Some (v ! 0 \<noteq> 0))))"
  "v \<noteq> [] \<Longrightarrow> device_step pc a (mk_tlv PORT_COUNT v)
     = Inr (with_dev a (nd_port_count_update (\<lambda>_. Some (uint (v ! 0)))))"
  "device_step pc a (mk_tlv PORT_STATUS v)
     = res_bind (parse_port_status v) (\<lambda>x. Inr (with_dev a (nd_port_status_update (\<lambda>xs. xs @ [x]))))"
  "device_step pc a (mk_tlv PORT_NAME v)
     = res_bind (parse_port_name v) (\<lambda>x. Inr (with_dev a (nd_port_names_update (\<lambda>xs. xs @ [x]))))"
  "device_step pc a (mk_tlv PORT_STATISTICS v)
     = res_bind (parse_port_statistics v) (\<lambda>x. Inr (with_dev a (nd_port_statistics_update (\<lambda>xs. xs @ [x]))))"
  "device_step pc a (mk_tlv VLAN_MEMBERS v)
     = res_bind (parse_vlan_members v pc) (\<lambda>x. Inr (with_dev a (nd_vlan_members_update (\<lambda>xs. xs @ [x]))))"
  "device_step pc a (mk_tlv PORT_PVID v)
     = res_bind (parse_port_pvid v) (\<lambda>x. Inr (with_dev a (nd_port_pvids_update (\<lambda>xs. xs @ [x]))))"
  by (simp_all add: device_step_def)

lemma with_dev_with_dev: "with_dev (with_dev a f) g = with_dev a (\<lambda>d. g (f d))"
  by (simp add: with_dev_def)

lemma device_loop_vlan_members:
  "(\<And>x. x \<in> set xs \<Longrightarrow> parse_vlan_members (f x) pc = Inr (g x)) \<Longrightarrow>
   device_loop pc (map (\<lambda>x. mk_tlv VLAN_MEMBERS (f x)) xs) a
     = Inr (with_dev a (nd_vlan_members_update (\<lambda>ys. ys @ map g xs)))"
  by (induction xs arbitrary: a)
    (simp_all add: device_step_mk_tlv with_dev_with_dev, simp_all add: with_dev_def comp_def)

lemma device_loop_port_pvids:
  "(\<And>x. x \<in> set xs \<Longrightarrow> parse_port_pvid (f x) = Inr (g x)) \<Longrightarrow>
   device_loop pc (map (\<lambda>x. mk_tlv PORT_PVID (f x)) xs) a
     = Inr (with_dev a (nd_port_pvids_update (\<lambda>ys. ys @ map g xs)))"
  by (induction xs arbitrary: a)
    (simp_all add: device_step_mk_tlv with_dev_with_dev, simp_all add: with_dev_def comp_def)

lemma device_loop_port_status:
  "(\<And>x. x \<in> set xs \<Longrightarrow> parse_port_status (f x) = Inr (g x)) \<Longrightarrow>
   device_loop pc (map (\<lambda>x. mk_tlv PORT_STATUS (f x)) xs) a
     = Inr (with_dev a (nd_port_status_update (\<lambda>ys. ys @ map g xs)))"
  by (induction xs arbitrary: a)
    (simp_all add: device_step_mk_tlv with_dev_with_dev, simp_all add: with_dev_def comp_def)

lemma device_loop_port_names:
  "(\<And>x. x \<in> set xs \<Longrightarrow> parse_port_name (f x) = Inr (g x)) \<Longrightarrow>
   device_loop pc (map (\<lambda>x. mk_tlv PORT_NAME (f x)) xs) a
     = Inr (with_dev a (nd_port_names_update (\<lambda>ys. ys @ map g xs)))"
  by (induction xs arbitrary: a)
    (simp_all add: device_step_mk_tlv with_dev_with_dev, simp_all add: with_dev_def comp_def)

lemma device_loop_port_statistics:
  "(\<And>x. x \<in> set xs \<Longrightarrow> parse_port_statistics (f x) = Inr (g x)) \<Longrightarrow>
   device_loop pc (map (\<lambda>x. mk_tlv PORT_STATISTICS (f x)) xs) a
     = Inr (with_dev a (nd_port_statistics_update (\<lambda>ys. ys @ map g xs)))"
  by (induction xs arbitrary: a)
    (simp_all add: device_step_mk_tlv with_dev_with_dev, simp_all add: with_dev_def comp_def)

end
