(* ===== verification/Nsdp_Auth.thy ===== *)
theory Nsdp_Auth
  imports Nsdp_Protocol
begin

text \<open>
  NSDP write authentication (\<open>protocols/nsdp/auth.py\<close>): the repeating XOR of
  version 1, the eight-byte token of version 2, and the choice between them.
\<close>

definition V1_KEY :: bytes where
  "V1_KEY = [0x4E, 0x74, 0x67, 0x72, 0x53, 0x6D, 0x61, 0x72, 0x74, 0x53, 0x77, 0x69, 0x74,
             0x63, 0x68, 0x52, 0x6F, 0x63, 0x6B]"

lemma V1_KEY_text: "V1_KEY = map of_nat (lit ''NtgrSmartSwitchRock'')"
  by (simp add: V1_KEY_def lit_def)

definition ENCPASS_V1 :: int where
  "ENCPASS_V1 = 0x01"

definition ENCPASS_V2 :: int where
  "ENCPASS_V2 = 0x10"

definition xor_v1 :: "bytes \<Rightarrow> bytes" where
  "xor_v1 pw = map (\<lambda>(i, b). b XOR V1_KEY ! (i mod length V1_KEY)) (enumerate 0 pw)"

definition encode_password_v1 :: "ustr \<Rightarrow> bytes py" where
  "encode_password_v1 password = res_bind (ascii_encode password) (\<lambda>pw. Inr (xor_v1 pw))"

definition v2_key :: "bytes \<Rightarrow> bytes" where
  "v2_key pw = take 20 pw @ replicate (20 - length pw) 0"

definition v2_token :: "bytes \<Rightarrow> bytes \<Rightarrow> bytes \<Rightarrow> bytes" where
  "v2_token s m k =
    [s ! 3 XOR s ! 2 XOR m ! 1 XOR m ! 5 XOR k ! 0 XOR k ! 1 XOR k ! 2,
     s ! 3 XOR s ! 1 XOR m ! 4 XOR m ! 0 XOR k ! 3 XOR k ! 4 XOR k ! 5,
     s ! 0 XOR s ! 2 XOR m ! 3 XOR m ! 2 XOR k ! 6 XOR k ! 7 XOR k ! 8,
     s ! 0 XOR s ! 1 XOR m ! 4 XOR m ! 5 XOR k ! 9 XOR k ! 10 XOR k ! 11,
     s ! 3 XOR s ! 2 XOR m ! 1 XOR m ! 5 XOR k ! 12 XOR k ! 13 XOR k ! 14,
     s ! 3 XOR s ! 1 XOR m ! 4 XOR m ! 0 XOR k ! 15 XOR k ! 16 XOR k ! 17,
     s ! 0 XOR s ! 2 XOR m ! 3 XOR m ! 2 XOR k ! 18 XOR k ! 19 XOR k ! 0,
     s ! 0 XOR s ! 1 XOR m ! 4 XOR m ! 5 XOR k ! 1 XOR k ! 3 XOR k ! 5]"

definition auth_v2_password :: "ustr \<Rightarrow> bytes \<Rightarrow> bytes \<Rightarrow> bytes py" where
  "auth_v2_password password switch_mac salt =
     (if length salt \<noteq> 4 then Inl ValueError
      else if length switch_mac \<noteq> 6 then Inl ValueError
      else res_bind (ascii_encode password) (\<lambda>pw. Inr (v2_token salt switch_mac (v2_key pw))))"

definition encpass_is_v2 :: "bytes \<Rightarrow> bool" where
  "encpass_is_v2 value = (if value = [] then False else be_int value = ENCPASS_V2)"

section \<open>Version 1\<close>

lemma length_xor_v1 [simp]: "length (xor_v1 pw) = length pw"
  by (simp add: xor_v1_def)

lemma nth_xor_v1 [simp]: "i < length pw \<Longrightarrow> xor_v1 pw ! i = pw ! i XOR V1_KEY ! (i mod 19)"
  by (simp add: xor_v1_def nth_enumerate_eq V1_KEY_def)

lemma xor_v1_involution: "xor_v1 (xor_v1 pw) = pw"
  by (rule nth_equalityI) (simp_all add: xor.assoc)

lemma byte_lt_128_iff: "unat (b :: byte) < 128 \<longleftrightarrow> take_bit 7 b = b"
proof -
  have "take_bit 7 b = b \<longleftrightarrow> unat (take_bit 7 b) = unat b" by (simp only: word_unat_eq_iff)
  also have "\<dots> \<longleftrightarrow> unat b < 2 ^ 7"
    by (simp only: unsigned_take_bit_eq take_bit_nat_eq_self_iff)
  finally show ?thesis by simp
qed

lemma xor_lt_128: "unat (a :: byte) < 128 \<Longrightarrow> unat b < 128 \<Longrightarrow> unat (a XOR b) < 128"
  unfolding byte_lt_128_iff by simp

lemma V1_KEY_ascii: "i < 19 \<Longrightarrow> unat (V1_KEY ! i) < 128"
proof -
  assume "i < 19"
  moreover have "\<forall>b \<in> set V1_KEY. unat b < 128" by (simp add: V1_KEY_def)
  moreover have "length V1_KEY = 19" by (simp add: V1_KEY_def)
  ultimately show ?thesis by (metis nth_mem)
qed

lemma xor_v1_ascii:
  assumes "\<forall>b \<in> set pw. unat b < 128"
  shows "\<forall>b \<in> set (xor_v1 pw). unat b < 128"
proof
  fix b assume "b \<in> set (xor_v1 pw)"
  then obtain i where i: "i < length pw" and b: "b = pw ! i XOR V1_KEY ! (i mod 19)"
    by (auto simp: in_set_conv_nth)
  have "unat (pw ! i) < 128" using assms i nth_mem by blast
  moreover have "unat (V1_KEY ! (i mod 19)) < 128" by (rule V1_KEY_ascii) simp
  ultimately show "unat b < 128" unfolding b by (rule xor_lt_128)
qed

lemma ascii_bytes_roundtrip:
  "\<forall>b \<in> set bs. unat b < 128 \<Longrightarrow>
     is_ascii (ascii_decode_replace bs) \<and> map of_nat (ascii_decode_replace bs) = bs"
  by (auto simp: is_ascii_def ascii_decode_replace_def intro!: map_idI)

text \<open>
  The version 1 cipher is its own inverse on the wire text: every ASCII
  password encodes to as many bytes, all of them ASCII, and encoding that
  ciphertext again gives the password's bytes; a password with any other
  character is refused with \<open>UnicodeEncodeError\<close>.
\<close>

lemma password_v1_involution:
  "(if is_ascii pw
    then (\<exists>c. encode_password_v1 pw = Inr c \<and> length c = length pw
            \<and> encode_password_v1 (ascii_decode_replace c) = Inr (map of_nat pw))
    else encode_password_v1 pw = Inl UnicodeEncodeError)"
proof (cases "is_ascii pw")
  case True
  let ?c = "xor_v1 (map of_nat pw)"
  have "\<forall>b \<in> set (map of_nat pw :: bytes). unat b < 128"
    using True by (auto simp: is_ascii_def)
  then have "is_ascii (ascii_decode_replace ?c) \<and> map of_nat (ascii_decode_replace ?c) = ?c"
    by (intro ascii_bytes_roundtrip xor_v1_ascii)
  with True show ?thesis
    by (simp add: encode_password_v1_def xor_v1_involution)
qed (simp add: encode_password_v1_def ascii_encode_def)

section \<open>Version 2\<close>

lemma length_v2_key [simp]: "length (v2_key pw) = 20"
  by (simp add: v2_key_def)

lemma length_v2_token [simp]: "length (v2_token s m k) = 8"
  by (simp add: v2_token_def)

lemma v2_token_nth:
  "v2_token s m k ! 0 = s ! 3 XOR s ! 2 XOR m ! 1 XOR m ! 5 XOR k ! 0 XOR k ! 1 XOR k ! 2"
  "v2_token s m k ! 1 = s ! 3 XOR s ! 1 XOR m ! 4 XOR m ! 0 XOR k ! 3 XOR k ! 4 XOR k ! 5"
  "v2_token s m k ! 2 = s ! 0 XOR s ! 2 XOR m ! 3 XOR m ! 2 XOR k ! 6 XOR k ! 7 XOR k ! 8"
  "v2_token s m k ! 3 = s ! 0 XOR s ! 1 XOR m ! 4 XOR m ! 5 XOR k ! 9 XOR k ! 10 XOR k ! 11"
  "v2_token s m k ! 4 = s ! 3 XOR s ! 2 XOR m ! 1 XOR m ! 5 XOR k ! 12 XOR k ! 13 XOR k ! 14"
  "v2_token s m k ! 5 = s ! 3 XOR s ! 1 XOR m ! 4 XOR m ! 0 XOR k ! 15 XOR k ! 16 XOR k ! 17"
  "v2_token s m k ! 6 = s ! 0 XOR s ! 2 XOR m ! 3 XOR m ! 2 XOR k ! 18 XOR k ! 19 XOR k ! 0"
  "v2_token s m k ! 7 = s ! 0 XOR s ! 1 XOR m ! 4 XOR m ! 5 XOR k ! 1 XOR k ! 3 XOR k ! 5"
  by (simp_all add: v2_token_def)

lemma auth_v2_password_Inr_iff:
  "auth_v2_password pw mac salt = Inr t \<longleftrightarrow>
     length salt = 4 \<and> length mac = 6 \<and> is_ascii pw
     \<and> t = v2_token salt mac (v2_key (map of_nat pw))"
  by (auto simp: auth_v2_password_def res_iff)

lemma xor_left_self [simp]: "a XOR (a XOR b) = (b :: byte)"
  by (simp flip: xor.assoc)

lemmas xor_ac = xor.assoc xor.commute xor.left_commute

lemma xor_swap:
  assumes "a XOR b = c XOR (d :: byte)"
  shows "a XOR c = b XOR d"
proof -
  have "a XOR c = (a XOR b) XOR (b XOR c)" by (simp add: xor_ac)
  also have "\<dots> = b XOR d" unfolding assms by (simp add: xor_ac)
  finally show ?thesis .
qed

lemma xor_solve: "x XOR y = (z :: byte) \<Longrightarrow> y = x XOR z"
  by auto

lemma xor_cancel_right [simp]: "(a XOR x = b XOR x) = ((a :: byte) = b)"
proof
  assume "a XOR x = b XOR x"
  then have "(a XOR x) XOR x = (b XOR x) XOR x" by simp
  then show "a = b" by (simp add: xor.assoc)
qed simp

lemma xor2_cancel: "(a XOR b XOR x = d XOR e XOR x) = (a XOR b = d XOR (e :: byte))"
  using xor_cancel_right [of "a XOR b" x "d XOR e"] by (simp only: xor.assoc)

lemma v2_token_shift:
  assumes "length s = 4"
  shows "v2_token (map (\<lambda>b. b XOR c) s) m k = v2_token s m k"
proof -
  obtain a b d e where s: "s = [a, b, d, e]"
    using assms by (auto simp: numeral_eq_Suc length_Suc_conv)
  have shift: "(x XOR c) XOR (y XOR c) XOR z = x XOR y XOR z" for x y z :: byte
    by (simp add: xor_ac)
  show ?thesis unfolding s v2_token_def by (simp add: shift)
qed

lemma v2_token_salt_shift:
  assumes "length s = 4" "length t = 4" and eq: "v2_token s m k = v2_token t m k"
  shows "t = map (\<lambda>b. b XOR (s ! 0 XOR t ! 0)) s"
proof -
  obtain a b d e where s: "s = [a, b, d, e]"
    using assms(1) by (auto simp: numeral_eq_Suc length_Suc_conv)
  obtain a' b' d' e' where t: "t = [a', b', d', e']"
    using assms(2) by (auto simp: numeral_eq_Suc length_Suc_conv)
  have "e XOR d = e' XOR d'" "a XOR d = a' XOR d'" "a XOR b = a' XOR b'"
    using eq by (simp_all add: v2_token_def s t xor2_cancel)
  then have "a XOR a' = d XOR d'" "a XOR a' = b XOR b'" "e XOR e' = d XOR d'"
    using xor_swap by blast+
  then have "d XOR d' = a XOR a'" "b XOR b' = a XOR a'" "e XOR e' = a XOR a'"
    by (simp_all only:)
  then have "d' = d XOR (a XOR a')" "b' = b XOR (a XOR a')" "e' = e XOR (a XOR a')"
    by (blast intro: xor_solve)+
  moreover have "a' = a XOR (a XOR a')" by simp
  ultimately show ?thesis by (simp add: s t)
qed

text \<open>
  The version 2 token exists exactly for a four-byte salt, a six-byte
  address and an ASCII password, and has eight bytes; and the challenge it
  answers is only known up to one byte: for the same password and switch, two
  salts give the same token if and only if they differ by the same XOR byte in
  all four places, so every token answers 256 different challenges.
\<close>

lemma auth_v2_token_challenges:
  assumes "length mac = 6" and "is_ascii pw" and "length s = 4" and "length t = 4"
  shows "(\<exists>tok. auth_v2_password pw mac s = Inr tok \<and> length tok = 8)
       \<and> (auth_v2_password pw mac s = auth_v2_password pw mac t
          \<longleftrightarrow> (\<exists>c. t = map (\<lambda>b. b XOR c) s))"
proof -
  have tok: "auth_v2_password pw mac u = Inr (v2_token u mac (v2_key (map of_nat pw)))"
    if "length u = 4" for u
    using that assms(1,2) by (simp add: auth_v2_password_def)
  show ?thesis
    using tok [OF assms(3)] tok [OF assms(4)] v2_token_salt_shift [OF assms(3,4)]
      v2_token_shift [OF assms(3)] by auto
qed

text \<open>
  The token the module's documentation quotes from the go-nsdp test suite:
  password ''password'', switch 12:34:56:78:9a:bc, salt 12:34:56:78.
\<close>

lemma auth_v2_token_challenges_witness:
  "auth_v2_password (lit ''password'') [0x12, 0x34, 0x56, 0x78, 0x9A, 0xBC] [0x12, 0x34, 0x56, 0x78]
     = Inr [0xC4, 0xAF, 0x7C, 0x00, 0xA6, 0xC4, 0x1A, 0x7D]
   \<and> auth_v2_password (lit ''password'') [0x12, 0x34, 0x56, 0x78, 0x9A, 0xBC] [0x12, 0x34, 0x56, 0x78]
     = auth_v2_password (lit ''password'') [0x12, 0x34, 0x56, 0x78, 0x9A, 0xBC] [0x13, 0x35, 0x57, 0x79]"
proof -
  let ?m = "[0x12, 0x34, 0x56, 0x78, 0x9A, 0xBC] :: bytes" and ?s = "[0x12, 0x34, 0x56, 0x78] :: bytes"
  have a: "is_ascii (lit ''password'')" by (simp add: is_ascii_def lit_def)
  have "\<exists>c. ([0x13, 0x35, 0x57, 0x79] :: bytes) = map (\<lambda>b. b XOR c) ?s"
    by (rule exI [where x = 1]) simp
  then have "auth_v2_password (lit ''password'') ?m ?s = auth_v2_password (lit ''password'') ?m [0x13, 0x35, 0x57, 0x79]"
    using auth_v2_token_challenges [of ?m "lit ''password''" ?s "[0x13, 0x35, 0x57, 0x79]"] a by simp
  moreover have "auth_v2_password (lit ''password'') ?m ?s
      = Inr [0xC4, 0xAF, 0x7C, 0x00, 0xA6, 0xC4, 0x1A, 0x7D]"
    using a by (simp add: auth_v2_password_def v2_token_def v2_key_def lit_def)
  ultimately show ?thesis by simp
qed

text \<open>
  The token leaks the password: the XOR of its bytes 0 and 4, 1 and 5, 2 and
  6, 3 and 7 are XORs of fixed password bytes, the same for every salt and every
  switch address.
\<close>

lemma auth_v2_token_leak:
  assumes "auth_v2_password pw mac salt = Inr t"
  shows "(let k = v2_key (map of_nat pw) in
      t ! 0 XOR t ! 4 = k ! 0 XOR k ! 1 XOR k ! 2 XOR k ! 12 XOR k ! 13 XOR k ! 14
    \<and> t ! 1 XOR t ! 5 = k ! 3 XOR k ! 4 XOR k ! 5 XOR k ! 15 XOR k ! 16 XOR k ! 17
    \<and> t ! 2 XOR t ! 6 = k ! 6 XOR k ! 7 XOR k ! 8 XOR k ! 18 XOR k ! 19 XOR k ! 0
    \<and> t ! 3 XOR t ! 7 = k ! 9 XOR k ! 10 XOR k ! 11 XOR k ! 1 XOR k ! 3 XOR k ! 5)"
proof -
  have c: "(d1 XOR d2 XOR m1 XOR m2 XOR x1 XOR x2 XOR x3) XOR (d1 XOR d2 XOR m1 XOR m2 XOR y1 XOR y2 XOR y3)
      = x1 XOR x2 XOR x3 XOR y1 XOR y2 XOR y3" for d1 d2 m1 m2 x1 x2 x3 y1 y2 y3 :: byte
    by (rule bit_eqI) (auto simp: bit_xor_iff)
  have t: "t = v2_token salt mac (v2_key (map of_nat pw))"
    using assms by (simp only: auth_v2_password_Inr_iff)
  show ?thesis
    unfolding t Let_def v2_token_nth c by (intro conjI refl)
qed

lemma auth_v2_token_leak_witness:
  "\<exists>t u. auth_v2_password (lit ''password'') [1, 2, 3, 4, 5, 6] [9, 9, 9, 9] = Inr t
    \<and> auth_v2_password (lit ''password'') [6, 5, 4, 3, 2, 1] [1, 2, 3, 4] = Inr u
    \<and> t ! 0 XOR t ! 4 = u ! 0 XOR u ! 4"
proof -
  have a: "is_ascii (lit ''password'')" by (simp add: is_ascii_def lit_def)
  obtain t u where t: "auth_v2_password (lit ''password'') [1, 2, 3, 4, 5, 6] [9, 9, 9, 9] = Inr t"
    and u: "auth_v2_password (lit ''password'') [6, 5, 4, 3, 2, 1] [1, 2, 3, 4] = Inr u"
    using a by (simp add: auth_v2_password_def)
  from auth_v2_token_leak [OF t] auth_v2_token_leak [OF u]
  have "t ! 0 XOR t ! 4 = u ! 0 XOR u ! 4" by (simp add: Let_def)
  with t u show ?thesis by blast
qed

lemma encpass_is_v2_u32: "encpass_is_v2 (be_bytes 4 n) \<longleftrightarrow> n mod 2 ^ 32 = ENCPASS_V2"
proof -
  have "be_bytes 4 n \<noteq> []" using length_be_bytes [of 4 n] by fastforce
  then show ?thesis by (simp add: encpass_is_v2_def be_int_be_bytes_mod)
qed

text \<open>
  Passwords the version 2 scheme cannot tell apart: the token takes from the key only
  these eight sums, so two passwords with the same sums have the same token for every
  challenge and address, and two with different sums never have.
\<close>

definition v2_sums :: "bytes \<Rightarrow> bytes" where
  "v2_sums k =
    [k ! 0 XOR k ! 1 XOR k ! 2, k ! 3 XOR k ! 4 XOR k ! 5, k ! 6 XOR k ! 7 XOR k ! 8, k ! 9 XOR k ! 10 XOR k ! 11,
     k ! 12 XOR k ! 13 XOR k ! 14, k ! 15 XOR k ! 16 XOR k ! 17, k ! 18 XOR k ! 19 XOR k ! 0, k ! 1 XOR k ! 3 XOR k ! 5]"

definition interchangeable :: "ustr \<Rightarrow> ustr \<Rightarrow> bool" where
  "interchangeable pw pw' \<longleftrightarrow> v2_sums (v2_key (map of_nat pw)) = v2_sums (v2_key (map of_nat pw'))"

lemma v2_token_eq_iff:
  "v2_token salt mac (v2_key (map of_nat pw)) = v2_token salt mac (v2_key (map of_nat pw')) \<longleftrightarrow> interchangeable pw pw'"
proof -
  have c: "a XOR b XOR d XOR e XOR x XOR y XOR z = a XOR b XOR d XOR e XOR x' XOR y' XOR z'
      \<longleftrightarrow> x XOR y XOR z = x' XOR y' XOR z'" for a b d e x y z x' y' z' :: byte
  proof -
    have "a XOR b XOR d XOR e XOR x XOR y XOR z = (a XOR b XOR d XOR e) XOR (x XOR y XOR z)" for x y z :: byte
      by (simp add: xor.assoc)
    then show ?thesis by (metis xor_left_self)
  qed
  show ?thesis by (simp add: interchangeable_def v2_token_def v2_sums_def c)
qed

lemma interchangeable_token:
  assumes "interchangeable pw pw'" "is_ascii pw" "is_ascii pw'"
  shows "auth_v2_password pw mac salt = auth_v2_password pw' mac salt"
  using assms v2_token_eq_iff [of salt mac pw pw'] by (simp add: auth_v2_password_def)

text \<open>Swapping two characters of one sum is enough.\<close>

lemma interchangeable_example: "interchangeable (lit ''passwodr'') (lit ''password'')"
  by (simp add: interchangeable_def v2_sums_def v2_key_def lit_def)

end
