(* ===== verification/Nsdp_Frames.thy ===== *)
theory Nsdp_Frames
  imports Nsdp_Parsers Nsdp_Auth
begin

text \<open>
  Request framing and the encoders of configuration entries
  (\<open>protocols/nsdp/write.py\<close>), with the round trips through the parsers.
\<close>

section \<open>Results and requests\<close>

definition RESULT_SUCCESS :: int where
  "RESULT_SUCCESS = 0x0000"

definition RESULT_BAD_PASSWORD :: int where
  "RESULT_BAD_PASSWORD = 0x0700"

definition RESULT_BAD_PASSWORD_V2 :: int where
  "RESULT_BAD_PASSWORD_V2 = 0x0D00"

definition RESULT_LOCKED_V2 :: int where
  "RESULT_LOCKED_V2 = 0x0E00"

definition RESULT_READONLY :: int where
  "RESULT_READONLY = 0x0300"

definition build_read_request :: "bytes \<Rightarrow> bytes \<Rightarrow> int \<Rightarrow> tag list \<Rightarrow> nsdp_packet" where
  "build_read_request client_mac server_mac seqno tags =
     foldl (\<lambda>p t. add_tlv p t []) (mk_packet READ_REQUEST client_mac server_mac seqno) tags"

definition build_write_request ::
    "bytes \<Rightarrow> bytes \<Rightarrow> int \<Rightarrow> ustr \<Rightarrow> tlv list \<Rightarrow> nsdp_packet py" where
  "build_write_request client_mac server_mac seqno password tlvs =
     (let pkt = mk_packet WRITE_REQUEST client_mac server_mac seqno in
      res_bind (encode_password_v1 password) (\<lambda>c.
      Inr (pkt\<lparr>pk_tlvs := [mk_tlv PASSWORD c] @ tlvs\<rparr>)))"

definition build_write_request_v2 ::
    "bytes \<Rightarrow> bytes \<Rightarrow> int \<Rightarrow> tlv list \<Rightarrow> bytes \<Rightarrow> nsdp_packet" where
  "build_write_request_v2 client_mac server_mac seqno tlvs auth_token =
     (mk_packet WRITE_REQUEST client_mac server_mac seqno)
       \<lparr>pk_tlvs := [mk_tlv AUTH_V2_PASSWORD auth_token] @ tlvs\<rparr>"

lemma foldl_add_tlv:
  "foldl (\<lambda>p t. add_tlv p t []) p tags = p\<lparr>pk_tlvs := pk_tlvs p @ map (\<lambda>t. mk_tlv t []) tags\<rparr>"
  by (induction tags arbitrary: p) (simp_all add: add_tlv_def)

lemma build_read_request_eq:
  "build_read_request c s n tags = (mk_packet READ_REQUEST c s n)\<lparr>pk_tlvs := map (\<lambda>t. mk_tlv t []) tags\<rparr>"
  by (simp add: build_read_request_def foldl_add_tlv mk_packet_def)

section \<open>Configuration entries\<close>

definition pvid_tlv :: "int \<Rightarrow> int \<Rightarrow> tlv py" where
  "pvid_tlv port vlan =
     res_bind (byte_of port) (\<lambda>p. res_bind (struct_uint 2 vlan) (\<lambda>v.
     Inr (mk_tlv PORT_PVID (p @ v))))"

definition vlan_members_tlv :: "int \<Rightarrow> int list \<Rightarrow> int list \<Rightarrow> int \<Rightarrow> tlv py" where
  "vlan_members_tlv vlan members tagged port_count =
     (let width = bitmap_width port_count in
      res_bind (struct_uint 2 vlan) (\<lambda>v.
      res_bind (ports_to_bitmap members width) (\<lambda>m.
      res_bind (ports_to_bitmap tagged width) (\<lambda>t.
      Inr (mk_tlv VLAN_MEMBERS (v @ m @ t))))))"

definition vlan_destroy_tlv :: "int \<Rightarrow> tlv py" where
  "vlan_destroy_tlv vlan = res_bind (struct_uint 2 vlan) (\<lambda>v. Inr (mk_tlv VLAN_DESTROY v))"

definition port_name_tlv :: "int \<Rightarrow> ustr \<Rightarrow> tlv py" where
  "port_name_tlv port name =
     res_bind (byte_of port) (\<lambda>p. res_bind (utf8_encode name) (\<lambda>s. Inr (mk_tlv PORT_NAME (p @ s))))"

definition hostname_tlv :: "ustr \<Rightarrow> tlv py" where
  "hostname_tlv name = res_bind (ascii_encode name) (\<lambda>s. Inr (mk_tlv HOSTNAME s))"

definition ipv4_tlv :: "tag \<Rightarrow> ustr \<Rightarrow> tlv py" where
  "ipv4_tlv t text = res_bind (inet_aton text) (\<lambda>b. Inr (mk_tlv t b))"

definition dhcp_tlv :: "bool \<Rightarrow> tlv" where
  "dhcp_tlv enabled = mk_tlv DHCP_MODE (if enabled then [1] else [0])"

definition reboot_tlv :: tlv where
  "reboot_tlv = mk_tlv REBOOT []"

section \<open>Round trips\<close>

lemma uint_of_int_byte [simp]: "0 \<le> n \<Longrightarrow> n < 256 \<Longrightarrow> uint (word_of_int n :: byte) = n"
  by simp

lemma parse_port_pvid_value:
  assumes "0 \<le> port" "port < 256" "0 \<le> vlan" "vlan < 65536"
  shows "parse_port_pvid (word_of_int port # be_bytes 2 vlan) = Inr \<lparr>npp_port_id = port, npp_vlan_id = vlan\<rparr>"
  using assms by (simp add: parse_port_pvid_def)

lemma parse_vlan_members_value:
  assumes "0 \<le> vlan" "vlan < 65536" and "length m = bitmap_width n" "length t = bitmap_width n"
  shows "parse_vlan_members (be_bytes 2 vlan @ m @ t) n
    = Inr \<lparr>nvm_vlan_id = vlan, nvm_member_ports = bitmap_to_ports m, nvm_tagged_ports = bitmap_to_ports t\<rparr>"
  using assms by (simp add: parse_vlan_members_def Let_def)

lemma parse_port_name_value:
  assumes "0 \<le> port" "port < 256" and "utf8_encode name = Inr bs"
  shows "parse_port_name (word_of_int port # bs)
    = Inr \<lparr>npn_port_id = port, npn_name = or_none (nul_rstrip name)\<rparr>"
  using assms utf8_roundtrip [of name bs] by (simp add: parse_port_name_def)

lemma decode_str_encode: "ascii_encode s = Inr bs \<Longrightarrow> decode_str bs = nul_rstrip s"
  by (auto simp: decode_str_def ascii_roundtrip res_iff)

lemma utf8_encode_raises: "utf8_encode s = Inl x \<Longrightarrow> x = UnicodeEncodeError"
  by (auto simp: utf8_encode_def split: if_splits)

lemma inet_aton_raises: "inet_aton s = Inl x \<Longrightarrow> x = OSError \<or> x = ValueError"
  by (auto simp: inet_aton_def split: if_splits option.splits)

text \<open>
  What a configuration entry encodes is what the read parsers decode: a PVID
  entry exists exactly for a byte-sized port and a 16-bit VLAN and parses back to
  them; a port label and a host name come back without trailing NULs; an address
  comes back as a dotted quad that encodes to the same four bytes. Every refusal
  is one of the named built-in exceptions.
\<close>

lemma config_entries_roundtrip:
  "(case pvid_tlv port vlan of
      Inr e \<Rightarrow> tlv_tag e = Known PORT_PVID
        \<and> parse_port_pvid (tlv_value e) = Inr \<lparr>npp_port_id = port, npp_vlan_id = vlan\<rparr>
    | Inl x \<Rightarrow> (if 0 \<le> port \<and> port < 256 then x = StructError \<and> \<not> (0 \<le> vlan \<and> vlan < 65536)
               else x = ValueError))
   \<and> (case port_name_tlv port name of
        Inr e \<Rightarrow> tlv_tag e = Known PORT_NAME
          \<and> parse_port_name (tlv_value e) = Inr \<lparr>npn_port_id = port, npn_name = or_none (nul_rstrip name)\<rparr>
      | Inl x \<Rightarrow> is_value_error x)
   \<and> (case hostname_tlv name of
        Inr e \<Rightarrow> tlv_tag e = Known HOSTNAME \<and> decode_str (tlv_value e) = nul_rstrip name
      | Inl x \<Rightarrow> x = UnicodeEncodeError \<and> \<not> is_ascii name)
   \<and> (case ipv4_tlv t addr of
        Inr e \<Rightarrow> (\<exists>q. parse_ipv4 (tlv_value e) = Inr q \<and> ipv4_tlv t q = Inr e)
      | Inl x \<Rightarrow> x = OSError \<or> x = ValueError)"
proof (intro conjI)
  show "(case pvid_tlv port vlan of
      Inr e \<Rightarrow> tlv_tag e = Known PORT_PVID
        \<and> parse_port_pvid (tlv_value e) = Inr \<lparr>npp_port_id = port, npp_vlan_id = vlan\<rparr>
    | Inl x \<Rightarrow> (if 0 \<le> port \<and> port < 256 then x = StructError \<and> \<not> (0 \<le> vlan \<and> vlan < 65536)
               else x = ValueError))"
    using parse_port_pvid_value
    by (auto simp: pvid_tlv_def res_iff simp del: struct_uint_ok byte_of_ok split: sum.splits)
  show "(case port_name_tlv port name of
        Inr e \<Rightarrow> tlv_tag e = Known PORT_NAME
          \<and> parse_port_name (tlv_value e) = Inr \<lparr>npn_port_id = port, npn_name = or_none (nul_rstrip name)\<rparr>
      | Inl x \<Rightarrow> is_value_error x)"
    by (auto simp: port_name_tlv_def res_iff parse_port_name_value dest!: utf8_encode_raises
        split: sum.splits)
  show "(case hostname_tlv name of
        Inr e \<Rightarrow> tlv_tag e = Known HOSTNAME \<and> decode_str (tlv_value e) = nul_rstrip name
      | Inl x \<Rightarrow> x = UnicodeEncodeError \<and> \<not> is_ascii name)"
    by (auto simp: hostname_tlv_def ascii_encode_def decode_str_encode)
  show "(case ipv4_tlv t addr of
        Inr e \<Rightarrow> (\<exists>q. parse_ipv4 (tlv_value e) = Inr q \<and> ipv4_tlv t q = Inr e)
      | Inl x \<Rightarrow> x = OSError \<or> x = ValueError)"
  proof (cases "inet_aton addr")
    case (Inl x)
    then show ?thesis using inet_aton_raises [of addr x] by (simp add: ipv4_tlv_def)
  next
    case (Inr b)
    then have "length b = 4" by (rule inet_aton_length)
    then show ?thesis using Inr
      by (simp add: ipv4_tlv_def parse_ipv4_def inet_ntoa_def inet_aton_dotted)
  qed
qed

lemma vlan_members_tlv_fits:
  assumes "0 \<le> vlan" "vlan < 65536" "0 \<le> port_count"
    and "\<forall>p \<in> set members \<union> set tagged. 1 \<le> p \<and> p \<le> port_count"
  shows "\<exists>e. vlan_members_tlv vlan members tagged port_count = Inr e
    \<and> tlv_tag e = Known VLAN_MEMBERS
    \<and> length (tlv_value e) = 2 + 2 * bitmap_width port_count
    \<and> parse_vlan_members (tlv_value e) port_count
      = Inr \<lparr>nvm_vlan_id = vlan, nvm_member_ports = set members, nvm_tagged_ports = set tagged\<rparr>"
proof -
  obtain m where "ports_to_bitmap members (bitmap_width port_count) = Inr m"
    "bitmap_to_ports m = set members" "length m = bitmap_width port_count"
    using ports_to_bitmap_fits [of members port_count] assms by auto
  moreover obtain t where "ports_to_bitmap tagged (bitmap_width port_count) = Inr t"
    "bitmap_to_ports t = set tagged" "length t = bitmap_width port_count"
    using ports_to_bitmap_fits [of tagged port_count] assms by auto
  ultimately show ?thesis
    using assms parse_vlan_members_value [of vlan m port_count t]
    by (simp add: vlan_members_tlv_def Let_def)
qed

text \<open>
  C38. A VLAN membership entry for ports within the switch parses back, with the
  same port count, to the VLAN, the members and the tagged ports it was built
  from.
\<close>

theorem vlan_members_roundtrip:
  assumes "0 \<le> vlan" "vlan < 65536" "0 \<le> port_count"
    and "\<forall>p \<in> set members \<union> set tagged. 1 \<le> p \<and> p \<le> port_count"
  shows "res_bind (vlan_members_tlv vlan members tagged port_count)
      (\<lambda>e. parse_vlan_members (tlv_value e) port_count)
    = Inr \<lparr>nvm_vlan_id = vlan, nvm_member_ports = set members, nvm_tagged_ports = set tagged\<rparr>"
  using vlan_members_tlv_fits [OF assms] by auto

theorem vlan_members_roundtrip_witness:
  "res_bind (vlan_members_tlv 90 [1, 10] [10] 10) (\<lambda>e. parse_vlan_members (tlv_value e) 10)
    = Inr \<lparr>nvm_vlan_id = 90, nvm_member_ports = {1, 10}, nvm_tagged_ports = {10}\<rparr>"
  using vlan_members_roundtrip [of 90 10 "[1, 10]" "[10]"] by simp

text \<open>Ports of a bitmap that is joined to another or cut.\<close>

lemma port_byte_shift:
  assumes "1 \<le> p"
  shows "port_byte (p + 8 * int n) = port_byte p + n" "port_bit (p + 8 * int n) = port_bit p"
proof -
  have s: "p + 8 * int n - 1 = (p - 1) + int n * 8" by simp
  have "(p + 8 * int n - 1) div 8 = (p - 1) div 8 + int n" unfolding s by simp
  then show "port_byte (p + 8 * int n) = port_byte p + n"
    using assms by (simp add: port_byte_def nat_add_distrib pos_imp_zdiv_nonneg_iff)
  have "(p + 8 * int n - 1) mod 8 = (p - 1) mod 8" unfolding s by (rule mod_mult_self1)
  then show "port_bit (p + 8 * int n) = port_bit p" by (simp add: port_bit_def)
qed

lemma port_byte_less: "1 \<le> p \<Longrightarrow> port_byte p < n \<longleftrightarrow> p \<le> 8 * int n"
  unfolding port_byte_def by linarith

lemma bitmap_take: "bitmap_to_ports (take n bs) = {p \<in> bitmap_to_ports bs. p \<le> 8 * int n}"
  by (auto simp: bitmap_to_ports_def bitmap_ports_mem has_port_def port_byte_less)

lemma bitmap_drop: "bitmap_to_ports (drop n bs) = {p. 1 \<le> p \<and> p + 8 * int n \<in> bitmap_to_ports bs}"
  by (auto simp: bitmap_to_ports_def bitmap_ports_mem has_port_def port_byte_shift add.commute)

lemma bitmap_append:
  "bitmap_to_ports (a @ b) = bitmap_to_ports a \<union> {p. p - 8 * int (length a) \<in> bitmap_to_ports b}"
proof -
  have "has_port (a @ b) p \<longleftrightarrow> has_port a p \<or> has_port b (p - 8 * int (length a))" for p
  proof (cases "p \<le> 8 * int (length a)")
    case True
    then show ?thesis using port_byte_less [of p "length a"] by (auto simp: has_port_def nth_append)
  next
    case False
    then have "port_byte p = port_byte (p - 8 * int (length a)) + length a"
      "port_bit p = port_bit (p - 8 * int (length a))" "1 \<le> p - 8 * int (length a)" "1 \<le> p"
      using port_byte_shift [of "p - 8 * int (length a)" "length a"] by simp_all
    then show ?thesis by (auto simp: has_port_def nth_append)
  qed
  then show ?thesis by (auto simp: bitmap_to_ports_def bitmap_ports_mem)
qed

text \<open>The ports the bytes that hold the highest of \<open>ps\<close> have room for.\<close>

definition room_for :: "int list \<Rightarrow> int" where
  "room_for ps = 8 * ((Max (insert 0 (set ps)) + 7) div 8)"

lemma room_for_bytes: "\<forall>p \<in> set ps. 1 \<le> p \<Longrightarrow> 8 * int (bytes_for ps) = room_for ps"
proof (induction ps)
  case (Cons p ps)
  have "Max (insert 0 (insert p (set ps))) = max p (Max (insert 0 (set ps)))"
    by (simp add: insert_commute [of 0 p])
  moreover have "8 * int (Suc (port_byte p)) = 8 * ((p + 7) div 8)"
  proof -
    have "1 \<le> p" using Cons.prems by simp
    moreover have "p + 7 = (p - 1) + 1 * 8" by simp
    then have "(p + 7) div 8 = (p - 1) div 8 + 1" by simp
    ultimately show ?thesis by (simp add: port_byte_def pos_imp_zdiv_nonneg_iff)
  qed
  moreover have "8 * ((max a b + 7) div 8) = max (8 * ((a + 7) div 8)) (8 * ((b + 7) div 8))" for a b :: int
    by (cases "a \<le> b") (simp_all add: max_def zdiv_mono1 not_le antisym)
  ultimately show ?case using Cons by (simp add: room_for_def of_nat_max max_mult_distrib_left)
qed (simp add: room_for_def)

text \<open>
  C39. The builder does not check the ports, and this is what the switch reads in the entry it
  builds of any ports from 1 up. With \<open>W\<close> the ports the bitmaps of the switch have room
  for and \<open>G \<ge> W\<close> those the member bitmap grew to, the members above \<open>W\<close> are lost
  as members and become tagged ports, each \<open>W\<close> lower (those above \<open>2 * W\<close> are lost
  altogether), and the tagged ports asked for move up by \<open>G - W\<close>, out of
  sight if they pass \<open>W\<close>. No member above \<open>W\<close> is refused. On an eight-port switch the
  members 1 and 9 with nothing tagged are read as the member 1, tagged.
\<close>

theorem vlan_members_port_beyond_width:
  assumes "0 \<le> vlan" "vlan < 65536" "0 \<le> port_count"
    and "\<forall>p \<in> set members \<union> set tagged. 1 \<le> p"
    and "W = 8 * ((port_count + 7) div 8)" and "G = max W (room_for members)"
  shows "res_bind (vlan_members_tlv vlan members tagged port_count)
      (\<lambda>e. parse_vlan_members (tlv_value e) port_count)
    = Inr \<lparr>nvm_vlan_id = vlan, nvm_member_ports = {p \<in> set members. p \<le> W},
        nvm_tagged_ports = {q. 1 \<le> q \<and> q \<le> W \<and> (q + W \<in> set members \<or> q + W - G \<in> set tagged)}\<rparr>"
proof -
  let ?w = "bitmap_width port_count"
  have W: "W = 8 * int ?w" using assms(3,5) by (simp add: bitmap_width_def)
  obtain m where m: "ports_to_bitmap members ?w = Inr m" "bitmap_to_ports m = set members"
    "length m = max ?w (bytes_for members)"
    using nsdp_bitmap.enc_dec [of members ?w] assms(4) by blast
  obtain t where t: "ports_to_bitmap tagged ?w = Inr t" "bitmap_to_ports t = set tagged" "?w \<le> length t"
    using nsdp_bitmap.enc_dec [of tagged ?w] assms(4) by fastforce
  have G: "G = 8 * int (length m)"
    using room_for_bytes [of members] assms(4,6) by (simp add: m(3) W of_nat_max)
  have gone: "x - G \<notin> set tagged" if "x \<le> W" for x
  proof -
    have "x - G \<le> 0" using that assms(6) by simp
    then have "\<not> 1 \<le> x - G" by simp
    then show ?thesis using assms(4) by blast
  qed
  have "bitmap_to_ports (take ?w (m @ t)) = {p \<in> set members. p \<le> W}"
    unfolding bitmap_take bitmap_append m(2) t(2) using gone by (auto simp flip: W G)
  moreover have "bitmap_to_ports (take ?w (drop ?w (m @ t)))
      = {q. 1 \<le> q \<and> q \<le> W \<and> (q + W \<in> set members \<or> q + W - G \<in> set tagged)}"
    unfolding bitmap_take bitmap_drop bitmap_append m(2) t(2) by (auto simp flip: W G)
  ultimately show ?thesis
    using m t assms(1,2) by (simp add: vlan_members_tlv_def parse_vlan_members_def Let_def)
qed

theorem vlan_members_port_beyond_width_witness:
  "res_bind (vlan_members_tlv 5 [1, 9] [] 8) (\<lambda>e. parse_vlan_members (tlv_value e) 8)
     = Inr \<lparr>nvm_vlan_id = 5, nvm_member_ports = {1}, nvm_tagged_ports = {1}\<rparr>
   \<and> res_bind (vlan_members_tlv 5 [1, 17] [1] 8) (\<lambda>e. parse_vlan_members (tlv_value e) 8)
     = Inr \<lparr>nvm_vlan_id = 5, nvm_member_ports = {1}, nvm_tagged_ports = {}\<rparr>"
proof -
  have r: "room_for [1, 9] = 16" "room_for [1, 17] = 24" by (simp_all add: room_for_def)
  have "{q :: int. 1 \<le> q \<and> q \<le> 8 \<and> (q + 8 = 1 \<or> q + 8 = 9)} = {1}" "{p :: int. (p = 1 \<or> p = 9) \<and> p \<le> 8} = {1}"
    "{q :: int. 1 \<le> q \<and> q \<le> 8 \<and> (q + 8 = 1 \<or> q + 8 = 17 \<or> q - 16 = 1)} = {}" "{p :: int. (p = 1 \<or> p = 17) \<and> p \<le> 8} = {1}"
    by auto
  then show ?thesis
    using vlan_members_port_beyond_width [of 5 8 "[1, 9]" "[]" 8 16] vlan_members_port_beyond_width [of 5 8 "[1, 17]" "[1]" 8 24] r
    by simp
qed

section \<open>Requests are encodable\<close>

lemma packet_ok_read_request:
  "length c = 6 \<Longrightarrow> length s = 6 \<Longrightarrow> 0 \<le> n \<Longrightarrow> n < 65536 \<Longrightarrow> END_OF_MARK \<notin> set tags \<Longrightarrow>
     packet_ok (build_read_request c s n tags)"
  by (auto simp: packet_ok_def build_read_request_eq mk_packet_def)

lemma packet_ok_mk_packet:
  "length c = 6 \<Longrightarrow> length s = 6 \<Longrightarrow> 0 \<le> n \<Longrightarrow> n < 65536 \<Longrightarrow>
   \<forall>e \<in> set es. tlv_ok e \<and> \<not> tag_is (tlv_tag e) END_OF_MARK \<Longrightarrow>
     packet_ok ((mk_packet x c s n)\<lparr>pk_tlvs := es\<rparr>)"
  by (auto simp: packet_ok_def mk_packet_def)

end
