(* ===== verification/Nsdp_Client.thy ===== *)
theory Nsdp_Client
  imports Nsdp_Frames
begin

text \<open>
  The transport-independent client rules (\<open>protocols/nsdp/client.py\<close>) and the
  synchronous UDP client (\<open>transport/sync/nsdp_udp.py\<close>). The operating system's
  socket is the parameter \<open>net\<close>: it takes the request datagram and the state of
  the world and returns the received datagram or the exception of
  \<open>bind\<close>/\<open>sendto\<close>/\<open>recvfrom\<close> (\<open>TimeoutError\<close> when nothing came back).
\<close>

section \<open>Rules on a response\<close>

definition first_tlv_value :: "nsdp_packet \<Rightarrow> tag \<Rightarrow> bytes option" where
  "first_tlv_value packet t =
     map_option tlv_value (find (\<lambda>e. tag_is (tlv_tag e) t) (pk_tlvs packet))"

definition ERROR_DENIED :: int where
  "ERROR_DENIED = 7"

definition ERROR_AUTH_REJECTED :: int where
  "ERROR_AUTH_REJECTED = 13"

definition ERROR_LOCKED :: int where
  "ERROR_LOCKED = 14"

definition check_result :: "nsdp_packet \<Rightarrow> unit py" where
  "check_result packet =
     (if pk_result packet = RESULT_SUCCESS then Inr ()
      else
        let code = error_code packet; attr = pk_error_attr packet in
        if code = ERROR_AUTH_REJECTED \<and> attr = tag_code PASSWORD
        then Inl (NsdpError (NsdpV1Refused code attr))
        else if code = ERROR_DENIED \<or> code = ERROR_AUTH_REJECTED
        then Inl (NsdpError (NsdpBadPassword code attr))
        else if code = ERROR_LOCKED then Inl (NsdpError (NsdpLockedOut code attr))
        else Inl (NsdpError (NsdpRequestFailed (pk_result packet) code attr)))"

section \<open>The synchronous client\<close>

definition DUMMY_MAC :: bytes where
  "DUMMY_MAC = [0, 0, 0, 0, 0, 1]"

definition BROADCAST_MAC :: bytes where
  "BROADCAST_MAC = [0, 0, 0, 0, 0, 0]"

record udp_client =
  uc_client_mac :: bytes
  uc_auth_scheme :: string
  uc_sequence :: int

text \<open>
  \<open>__init__\<close>: a given address, the interface's address, or the dummy one.
  \<open>interface_mac\<close> stands for the sysfs read of \<open>read_interface_mac\<close>.
\<close>

definition check_interface_mac :: "bytes \<Rightarrow> bytes py" where
  "check_interface_mac raw = (if length raw \<noteq> 6 then Inl (NsdpError NsdpInterfaceMac) else Inr raw)"

definition mk_udp_client :: "bytes option \<Rightarrow> (bytes py) option \<Rightarrow> string \<Rightarrow> udp_client py" where
  "mk_udp_client client_mac interface_mac auth_scheme =
     res_bind (case client_mac of
                 Some m \<Rightarrow> Inr m
               | None \<Rightarrow> (case interface_mac of
                            Some r \<Rightarrow> res_bind r check_interface_mac
                          | None \<Rightarrow> Inr DUMMY_MAC)) (\<lambda>m.
     Inr \<lparr>uc_client_mac = m, uc_auth_scheme = auth_scheme, uc_sequence = 0\<rparr>)"

type_synonym 'w net = "bytes \<Rightarrow> 'w \<Rightarrow> bytes py \<times> 'w"
type_synonym ('w, 'a) client_io = "(udp_client \<times> 'w, exn, 'a) io"

definition next_seq :: "('w, int) client_io" where
  "next_seq = (\<lambda>(c, w).
     let n = (uc_sequence c + 1) AND 0xFFFF in (Inr n, (c\<lparr>uc_sequence := n\<rparr>, w)))"

definition RECV_MAX :: nat where
  "RECV_MAX = 4096"

definition exchange :: "'w net \<Rightarrow> nsdp_packet \<Rightarrow> ('w, nsdp_packet) client_io" where
  "exchange net request = (\<lambda>(c, w).
     case encode request of
       Inl e \<Rightarrow> (Inl e, (c, w))
     | Inr bs \<Rightarrow>
         (case net bs w of
            (Inl e, w') \<Rightarrow> (Inl (if e = TimeoutError then NsdpError NsdpTimeout else e), (c, w'))
          | (Inr data, w') \<Rightarrow>
              (case decode (take RECV_MAX data) of
                 Inl e \<Rightarrow> (Inl (if is_value_error e then NsdpError NsdpMalformed else e), (c, w'))
               | Inr p \<Rightarrow> (Inr p, (c, w')))))"

definition client_get :: "(udp_client \<Rightarrow> 'a) \<Rightarrow> ('w, 'a) client_io" where
  "client_get f = (\<lambda>(c, w). (Inr (f c), (c, w)))"

definition client_set :: "(udp_client \<Rightarrow> udp_client) \<Rightarrow> ('w, unit) client_io" where
  "client_set f = (\<lambda>(c, w). (Inr (), (f c, w)))"

definition udp_read :: "'w net \<Rightarrow> tag list \<Rightarrow> ('w, nsdp_packet) client_io" where
  "udp_read net tags =
     io_bind (client_get uc_client_mac) (\<lambda>mac.
     io_bind next_seq (\<lambda>n.
     io_bind (exchange net (build_read_request mac BROADCAST_MAC n tags)) (\<lambda>resp.
     if pk_op resp \<noteq> READ_RESPONSE then io_raise (NsdpError (NsdpWrongOp (op_code (pk_op resp))))
     else io_return resp)))"

definition resolve_scheme :: "'w net \<Rightarrow> ('w, string) client_io" where
  "resolve_scheme net =
     io_bind (client_get uc_auth_scheme) (\<lambda>scheme.
     if scheme = ''v1'' \<or> scheme = ''v2'' then io_return scheme
     else
       io_bind (udp_read net [AUTH_V2_ENCPASS]) (\<lambda>resp.
       let enc = first_tlv_value resp AUTH_V2_ENCPASS;
           scheme' = (if encpass_is_v2 (case enc of Some v \<Rightarrow> v | None \<Rightarrow> []) then ''v2'' else ''v1'') in
       io_bind (client_set (uc_auth_scheme_update (\<lambda>_. scheme'))) (\<lambda>_.
       io_return scheme')))"

definition build_write :: "'w net \<Rightarrow> tlv list \<Rightarrow> ustr \<Rightarrow> ('w, nsdp_packet) client_io" where
  "build_write net tlvs password =
     io_bind (resolve_scheme net) (\<lambda>scheme.
     if scheme = ''v2'' then
       io_bind (udp_read net [AUTH_V2_SALT]) (\<lambda>salt_resp.
       case first_tlv_value salt_resp AUTH_V2_SALT of
         None \<Rightarrow> io_raise (NsdpError NsdpNoSalt)
       | Some salt \<Rightarrow>
           io_bind (io_lift (auth_v2_password password (pk_server_mac salt_resp) salt)) (\<lambda>token.
           io_bind (client_get uc_client_mac) (\<lambda>mac.
           io_bind next_seq (\<lambda>n.
           io_return (build_write_request_v2 mac BROADCAST_MAC n tlvs token)))))
     else
       io_bind (client_get uc_client_mac) (\<lambda>mac.
       io_bind next_seq (\<lambda>n.
       io_lift (build_write_request mac BROADCAST_MAC n password tlvs))))"

definition udp_write :: "'w net \<Rightarrow> tlv list \<Rightarrow> ustr \<Rightarrow> ('w, nsdp_packet) client_io" where
  "udp_write net tlvs password =
     io_bind (build_write net tlvs password) (\<lambda>req.
     io_bind (exchange net req) (\<lambda>resp.
     if pk_op resp \<noteq> WRITE_RESPONSE then io_raise (NsdpError (NsdpWrongOp (op_code (pk_op resp))))
     else io_bind (io_lift (check_result resp)) (\<lambda>_. io_return resp)))"

section \<open>The result check\<close>

lemma error_code_range: "0 \<le> error_code p \<and> error_code p < 256"
proof -
  have "(255 :: int) = mask 8" by (simp add: mask_eq_exp_minus_1)
  then have "error_code p = take_bit 8 (drop_bit 8 (pk_result p))"
    by (simp only: error_code_def take_bit_eq_mask)
  then show ?thesis by (simp add: take_bit_nonnegative take_bit_int_less_exp [of 8, simplified])
qed

lemma check_result_Inr_iff [res_iff]: "check_result p = Inr u \<longleftrightarrow> pk_result p = 0"
  by (auto simp: check_result_def RESULT_SUCCESS_def Let_def)

lemma check_result_raises: "check_result p = Inl e \<Longrightarrow> \<exists>r. e = NsdpError r"
  by (auto simp: check_result_def Let_def split: if_splits)

text \<open>
  A response is accepted exactly when its whole 16-bit result field is 0;
  every other response raises the library's own error, and the error tells a
  scheme mismatch (13 blaming PASSWORD) from a wrong password (7, or 13 on any
  other attribute) from a lockout (14) from everything else.
\<close>

lemma check_result_classifies:
  "(case check_result p of
      Inr _ \<Rightarrow> pk_result p = 0
    | Inl e \<Rightarrow> pk_result p \<noteq> 0 \<and> (\<exists>r. e = NsdpError r
        \<and> (r = NsdpV1Refused 13 10 \<longleftrightarrow> error_code p = 13 \<and> pk_error_attr p = 10)
        \<and> ((\<exists>c a. r = NsdpBadPassword c a) \<longleftrightarrow> error_code p = 7 \<or> (error_code p = 13 \<and> pk_error_attr p \<noteq> 10))
        \<and> ((\<exists>c a. r = NsdpLockedOut c a) \<longleftrightarrow> error_code p = 14)))"
  by (simp add: check_result_def Let_def RESULT_SUCCESS_def ERROR_DENIED_def ERROR_AUTH_REJECTED_def
      ERROR_LOCKED_def)

section \<open>What a run of the client does\<close>

lemma exchange_Inr_iff [res_iff]:
  "exchange net q (c, w) = (Inr p, st) \<longleftrightarrow>
     (\<exists>bs data w'. encode q = Inr bs \<and> net bs w = (Inr data, w') \<and> decode (take RECV_MAX data) = Inr p
        \<and> st = (c, w'))"
  by (auto simp: exchange_def split: sum.splits prod.splits)

lemma exchange_client: "fst (snd (exchange net q (c, w))) = c"
  by (auto simp: exchange_def split: sum.splits prod.splits)

lemma client_state_simps [simp]:
  "next_seq (c, w) = (Inr ((uc_sequence c + 1) AND 0xFFFF),
     (c\<lparr>uc_sequence := (uc_sequence c + 1) AND 0xFFFF\<rparr>, w))"
  "client_get f (c, w) = (Inr (f c), (c, w))"
  "client_set g (c, w) = (Inr (), (g c, w))"
  by (simp_all add: next_seq_def client_get_def client_set_def Let_def)

lemma io_bind_client_simps [simp]:
  "io_bind next_seq k (c, w) = k ((uc_sequence c + 1) AND 0xFFFF)
     (c\<lparr>uc_sequence := (uc_sequence c + 1) AND 0xFFFF\<rparr>, w)"
  "io_bind (client_get f) h (c, w) = h (f c) (c, w)"
  "io_bind (client_set g) j (c, w) = j () (g c, w)"
  by (simp_all add: io_bind_def)

lemma and_FFFF: "0 \<le> n \<Longrightarrow> 0 \<le> n AND (0xFFFF :: int) \<and> n AND 0xFFFF < 65536 \<and> n AND 0xFFFF = n mod 65536"
proof -
  have "(0xFFFF :: int) = mask 16" by (simp add: mask_eq_exp_minus_1)
  then have "n AND 0xFFFF = n mod 65536" by (simp only: take_bit_eq_mask [symmetric] take_bit_eq_mod) simp
  then show ?thesis by simp
qed

lemma udp_read_Inr_iff [res_iff]:
  "udp_read net tags (c, w) = (Inr resp, st) \<longleftrightarrow>
     (let n = (uc_sequence c + 1) AND 0xFFFF; c' = c\<lparr>uc_sequence := n\<rparr> in
      exchange net (build_read_request (uc_client_mac c) BROADCAST_MAC n tags) (c', w) = (Inr resp, st)
      \<and> pk_op resp = READ_RESPONSE)"
  by (cases st) (auto simp: udp_read_def io_bind_Inr_iff Let_def split: if_splits)

definition client_wf :: "udp_client \<Rightarrow> bool" where
  "client_wf c \<longleftrightarrow> length (uc_client_mac c) = 6 \<and> 0 \<le> uc_sequence c \<and> uc_sequence c < 65536"

text \<open>Every operation keeps a well-formed client well formed, also when it raises.\<close>

definition keeps_client :: "('w, 'a) client_io \<Rightarrow> bool" where
  "keeps_client m \<longleftrightarrow> (\<forall>c w. client_wf c \<longrightarrow>
     client_wf (fst (snd (m (c, w)))) \<and> uc_client_mac (fst (snd (m (c, w)))) = uc_client_mac c)"

lemma keeps_client_bind:
  "keeps_client m \<Longrightarrow> (\<And>x. keeps_client (f x)) \<Longrightarrow> keeps_client (io_bind m f)"
  unfolding keeps_client_def io_bind_def
  by (auto split: sum.splits prod.splits) (metis fst_conv snd_conv)+

lemma keeps_client_basic:
  "keeps_client (io_return x)" "keeps_client (io_raise e)" "keeps_client (io_lift r)"
  "keeps_client (client_get f)" "keeps_client next_seq" "keeps_client (exchange net q)"
  "keeps_client (client_set (uc_auth_scheme_update g))"
  using and_FFFF by (auto simp: keeps_client_def client_wf_def exchange_client)

lemma keeps_client_read: "keeps_client (udp_read net tags)"
  unfolding udp_read_def by (intro keeps_client_bind keeps_client_basic) (auto intro: keeps_client_basic)

lemma keeps_client_write: "keeps_client (udp_write net tlvs password)"
  unfolding udp_write_def build_write_def resolve_scheme_def Let_def
  by (intro keeps_client_bind keeps_client_basic keeps_client_read)
    (auto intro!: keeps_client_bind keeps_client_basic keeps_client_read split: option.split)

text \<open>
  C36. The client's own state stays in range: starting from a six-byte address and
  a 16-bit sequence number, every read and every write, whether it returns or
  raises and whatever the network answers, leaves a client that can encode its
  next request, with the same address.
\<close>

theorem client_invariant:
  assumes "client_wf c"
  shows "client_wf (fst (snd (udp_read net tags (c, w))))
    \<and> client_wf (fst (snd (udp_write net tlvs password (c, w))))
    \<and> uc_client_mac (fst (snd (udp_write net tlvs password (c, w)))) = uc_client_mac c
    \<and> (END_OF_MARK \<notin> set tags \<longrightarrow>
        (\<exists>bs. encode (build_read_request (uc_client_mac c) BROADCAST_MAC
            ((uc_sequence c + 1) AND 0xFFFF) tags) = Inr bs))"
proof -
  have "packet_ok (build_read_request (uc_client_mac c) BROADCAST_MAC ((uc_sequence c + 1) AND 0xFFFF) tags)"
    if "END_OF_MARK \<notin> set tags"
    using assms that and_FFFF [of "uc_sequence c + 1"]
    by (intro packet_ok_read_request) (auto simp: client_wf_def BROADCAST_MAC_def)
  then have "END_OF_MARK \<notin> set tags \<longrightarrow> (\<exists>bs. encode (build_read_request (uc_client_mac c) BROADCAST_MAC
      ((uc_sequence c + 1) AND 0xFFFF) tags) = Inr bs)"
    using encode_total by blast
  moreover have "client_wf (fst (snd (udp_read net tags (c, w))))"
    using keeps_client_read [of net tags] assms by (simp add: keeps_client_def)
  moreover have "client_wf (fst (snd (udp_write net tlvs password (c, w))))
      \<and> uc_client_mac (fst (snd (udp_write net tlvs password (c, w)))) = uc_client_mac c"
    using keeps_client_write [of net tlvs password] assms by (simp add: keeps_client_def)
  ultimately show ?thesis by blast
qed

definition sample_client :: udp_client where
  "sample_client = \<lparr>uc_client_mac = DUMMY_MAC, uc_auth_scheme = ''auto'', uc_sequence = 65535\<rparr>"

theorem client_invariant_witness:
  "client_wf (fst (snd (udp_write (\<lambda>bs w. (Inl TimeoutError, w)) [] [] (sample_client, ()))))
   \<and> fst (udp_write (\<lambda>bs w. (Inl TimeoutError, w)) [] [] (sample_client, ())) = Inl (NsdpError NsdpTimeout)"
proof -
  have wf: "client_wf sample_client" by (simp add: client_wf_def sample_client_def DUMMY_MAC_def)
  note inst = client_invariant [OF wf, of "\<lambda>bs w. (Inl TimeoutError, w)" "[AUTH_V2_ENCPASS]" "()" "[]" "[]"]
  then obtain bs where "encode (build_read_request (uc_client_mac sample_client) BROADCAST_MAC
      ((uc_sequence sample_client + 1) AND 0xFFFF) [AUTH_V2_ENCPASS]) = Inr bs"
    by auto
  then have "fst (udp_write (\<lambda>bs w. (Inl TimeoutError, w)) [] [] (sample_client, ())) = Inl (NsdpError NsdpTimeout)"
    by (simp add: udp_write_def build_write_def resolve_scheme_def udp_read_def io_bind_def exchange_def
        sample_client_def)
  with inst show ?thesis by blast
qed

section \<open>What a successful write means\<close>

lemma mk_tlv_inject [simp]: "mk_tlv t v = mk_tlv u v' \<longleftrightarrow> t = u \<and> v = v'"
  by (simp add: mk_tlv_def)

lemma resolve_scheme_Inr:
  assumes "resolve_scheme net (c, w) = (Inr scheme, (c', w'))"
  shows "(scheme = ''v1'' \<or> scheme = ''v2'') \<and> uc_auth_scheme c' = scheme \<and> uc_client_mac c' = uc_client_mac c"
  using assms
  by (auto simp: resolve_scheme_def io_bind_Inr_iff udp_read_Inr_iff exchange_Inr_iff Let_def split: if_splits)

lemma build_write_Inr:
  assumes "build_write net tlvs password (c, w) = (Inr req, (c', w'))"
  shows "pk_op req = WRITE_REQUEST \<and> pk_client_mac req = uc_client_mac c
    \<and> pk_sequence req = uc_sequence c'
    \<and> (\<exists>v. (uc_auth_scheme c' = ''v1'' \<and> encode_password_v1 password = Inr v
             \<and> pk_tlvs req = mk_tlv PASSWORD v # tlvs)
        \<or> (uc_auth_scheme c' = ''v2'' \<and> length v = 8 \<and> pk_tlvs req = mk_tlv AUTH_V2_PASSWORD v # tlvs))"
proof -
  obtain scheme c1 w1 where r: "resolve_scheme net (c, w) = (Inr scheme, (c1, w1))"
    using assms by (auto simp: build_write_def io_bind_Inr_iff)
  note sch = resolve_scheme_Inr [OF r]
  show ?thesis
  proof (cases "scheme = ''v2''")
    case True
    then show ?thesis
      using assms sch r
      by (auto simp: build_write_def io_bind_Inr_iff udp_read_Inr_iff exchange_Inr_iff Let_def
          build_write_request_v2_def mk_packet_def auth_v2_password_Inr_iff split: option.splits)
  next
    case False
    then show ?thesis
      using assms sch r
      by (auto simp: build_write_def io_bind_Inr_iff build_write_request_def mk_packet_def res_bind_Inr_iff)
  qed
qed

text \<open>
  C22. What a successful write means: the last datagram the network returned
  decodes to a WRITE_RESPONSE with result 0, and it answers a WRITE_REQUEST that
  carried exactly the caller's entries, in order, behind one credential entry (the
  v1 ciphertext of the password, or an eight-byte v2 token, as the scheme now
  cached says). The sequence number of the response is not looked at.
\<close>

theorem udp_write_success:
  assumes "udp_write net tlvs password (c, w) = (Inr resp, (c', w'))"
  shows "pk_op resp = WRITE_RESPONSE \<and> pk_result resp = 0
    \<and> (\<exists>req bs w1 data. encode req = Inr bs \<and> net bs w1 = (Inr data, w')
        \<and> decode (take RECV_MAX data) = Inr resp
        \<and> pk_op req = WRITE_REQUEST \<and> pk_sequence req = uc_sequence c'
        \<and> (\<exists>v. (uc_auth_scheme c' = ''v1'' \<and> encode_password_v1 password = Inr v
                 \<and> pk_tlvs req = mk_tlv PASSWORD v # tlvs)
            \<or> (uc_auth_scheme c' = ''v2'' \<and> length v = 8
                 \<and> pk_tlvs req = mk_tlv AUTH_V2_PASSWORD v # tlvs)))"
proof -
  obtain req c1 w1 where b: "build_write net tlvs password (c, w) = (Inr req, (c1, w1))"
    and x: "exchange net req (c1, w1) = (Inr resp, (c', w'))" and op: "pk_op resp = WRITE_RESPONSE"
    and ok: "check_result resp = Inr ()"
    using assms by (auto simp: udp_write_def io_bind_Inr_iff split: if_splits)
  from x obtain bs data where n: "encode req = Inr bs" "net bs w1 = (Inr data, w')"
    "decode (take RECV_MAX data) = Inr resp" and c: "c' = c1"
    by (auto simp: exchange_Inr_iff)
  have "pk_result resp = 0" using ok by (simp add: check_result_Inr_iff)
  with op n build_write_Inr [OF b] show ?thesis unfolding c by blast
qed

lemma udp_write_v1_eq:
  assumes "uc_auth_scheme c = ''v1''" and "encode_password_v1 password = Inr v"
  shows "udp_write net tlvs password (c, w) =
    (let n = (uc_sequence c + 1) AND 0xFFFF;
         req = (mk_packet WRITE_REQUEST (uc_client_mac c) BROADCAST_MAC n)\<lparr>pk_tlvs := mk_tlv PASSWORD v # tlvs\<rparr> in
     io_bind (exchange net req) (\<lambda>resp.
       if pk_op resp \<noteq> WRITE_RESPONSE then io_raise (NsdpError (NsdpWrongOp (op_code (pk_op resp))))
       else io_bind (io_lift (check_result resp)) (\<lambda>_. io_return resp))
       (c\<lparr>uc_sequence := n\<rparr>, w))"
proof -
  have "build_write net tlvs password (c, w) =
     (Inr ((mk_packet WRITE_REQUEST (uc_client_mac c) BROADCAST_MAC ((uc_sequence c + 1) AND 0xFFFF))
            \<lparr>pk_tlvs := mk_tlv PASSWORD v # tlvs\<rparr>),
      (c\<lparr>uc_sequence := (uc_sequence c + 1) AND 0xFFFF\<rparr>, w))"
    using assms by (simp add: build_write_def resolve_scheme_def io_bind_def build_write_request_def)
  then show ?thesis
    unfolding udp_write_def by (simp add: io_bind_run Let_def)
qed

definition canned_reply :: "nsdp_packet \<Rightarrow> unit net" where
  "canned_reply p = (\<lambda>bs w. (encode p, w))"

theorem udp_write_success_witness:
  "\<exists>st. udp_write (canned_reply (mk_packet WRITE_RESPONSE [0, 0, 0, 0, 0, 1] [1, 2, 3, 4, 5, 6] 77))
      [mk_tlv PORT_PVID [1, 0, 90]] (lit ''pw'') (sample_client\<lparr>uc_auth_scheme := ''v1''\<rparr>, ())
    = (Inr (mk_packet WRITE_RESPONSE [0, 0, 0, 0, 0, 1] [1, 2, 3, 4, 5, 6] 77), st)
    \<and> pk_sequence (mk_packet WRITE_RESPONSE [0, 0, 0, 0, 0, 1] [1, 2, 3, 4, 5, 6] 77) \<noteq> uc_sequence (fst st)"
proof -
  let ?p = "mk_packet WRITE_RESPONSE [0, 0, 0, 0, 0, 1] [1, 2, 3, 4, 5, 6] 77"
  let ?c = "sample_client\<lparr>uc_auth_scheme := ''v1''\<rparr>"
  let ?v = "xor_v1 (map of_nat (lit ''pw''))"
  let ?q = "(mk_packet WRITE_REQUEST DUMMY_MAC BROADCAST_MAC 0)\<lparr>pk_tlvs := mk_tlv PASSWORD ?v # [mk_tlv PORT_PVID [1, 0, 90]]\<rparr>"
  have p: "packet_ok ?p" by (simp add: packet_ok_def mk_packet_def)
  obtain bs where bs: "encode ?p = Inr bs" using encode_total [OF p] by blast
  have "length bs = 36" using encode_length [OF p bs] by (simp add: mk_packet_def)
  then have d: "decode (take RECV_MAX bs) = Inr ?p"
    using decode_encoded [OF p bs, of "[]"] by (simp add: RECV_MAX_def)
  have v: "encode_password_v1 (lit ''pw'') = Inr ?v"
    by (simp add: encode_password_v1_def is_ascii_def lit_def)
  have "packet_ok ?q"
    by (intro packet_ok_mk_packet) (simp_all add: DUMMY_MAC_def BROADCAST_MAC_def lit_def)
  then obtain qs where qs: "encode ?q = Inr qs" using encode_total by blast
  have x: "exchange (canned_reply ?p) ?q (?c\<lparr>uc_sequence := 0\<rparr>, ()) = (Inr ?p, (?c\<lparr>uc_sequence := 0\<rparr>, ()))"
    using qs bs d by (simp add: exchange_def canned_reply_def)
  have run: "udp_write (canned_reply ?p) [mk_tlv PORT_PVID [1, 0, 90]] (lit ''pw'') (?c, ())
      = (Inr ?p, (?c\<lparr>uc_sequence := 0\<rparr>, ()))"
    using x udp_write_v1_eq [OF _ v, of ?c "canned_reply ?p" "[mk_tlv PORT_PVID [1, 0, 90]]" "()"]
    by (simp add: sample_client_def Let_def io_bind_def check_result_def mk_packet_def RESULT_SUCCESS_def)
  from udp_write_success [OF run] run show ?thesis
    by (intro exI [of _ "(?c\<lparr>uc_sequence := 0\<rparr>, ())"]) (simp add: mk_packet_def)
qed

end
