(* ===== verification/Nsdp_Async.thy ===== *)
theory Nsdp_Async
  imports Nsdp_Client
begin

text \<open>
  The asynchronous UDP client (\<open>transport/aio/nsdp_udp.py\<close>). Its operations await
  one exchange at a time, so a call is state passing as in the synchronous client;
  the exchange is the parameter \<open>transceive\<close>. The one-shot protocol that resolves
  the awaited future is a fold over the events of the endpoint.
\<close>

section \<open>The one-shot protocol\<close>

datatype datagram_event = Datagram bytes | Socket_error exn

type_synonym future = "(bytes py) option"

definition datagram_received :: "bytes \<Rightarrow> future \<Rightarrow> future" where
  "datagram_received data fut = (case fut of None \<Rightarrow> Some (Inr data) | Some r \<Rightarrow> Some r)"

definition error_received :: "exn \<Rightarrow> future \<Rightarrow> future" where
  "error_received e fut = (case fut of None \<Rightarrow> Some (Inl e) | Some r \<Rightarrow> Some r)"

fun deliver :: "datagram_event \<Rightarrow> future \<Rightarrow> future" where
  "deliver (Datagram data) fut = datagram_received data fut"
| "deliver (Socket_error e) fut = error_received e fut"

text \<open>
  \<open>_udp_transceive\<close>: opening the endpoint may raise; then \<open>wait_for\<close> returns what
  the future holds when the timeout is reached, after the \<open>events\<close> seen until then.
\<close>

definition udp_transceive :: "unit py \<Rightarrow> datagram_event list \<Rightarrow> bytes py" where
  "udp_transceive endpoint events =
     res_bind endpoint (\<lambda>_.
     case fold deliver events None of None \<Rightarrow> Inl TimeoutError | Some r \<Rightarrow> r)"

lemma fold_deliver_Some [simp]: "fold deliver events (Some r) = Some r"
proof (induction events)
  case (Cons e events)
  then show ?case by (cases e) (simp_all add: datagram_received_def error_received_def)
qed simp

text \<open>The first event decides; whatever arrives later is dropped.\<close>

lemma udp_transceive_first:
  "udp_transceive (Inr ()) [] = Inl TimeoutError"
  "udp_transceive (Inr ()) (Datagram d # es) = Inr d"
  "udp_transceive (Inr ()) (Socket_error e # es) = Inl e"
  by (simp_all add: udp_transceive_def datagram_received_def error_received_def)

section \<open>The client\<close>

definition mk_async_udp_client :: "bytes option \<Rightarrow> (bytes py) option \<Rightarrow> string \<Rightarrow> udp_client py" where
  "mk_async_udp_client client_mac interface_mac auth_scheme =
     res_bind (case client_mac of
                 Some m \<Rightarrow> Inr m
               | None \<Rightarrow> (case interface_mac of
                            Some r \<Rightarrow> res_bind r check_interface_mac
                          | None \<Rightarrow> Inr DUMMY_MAC)) (\<lambda>m.
     Inr \<lparr>uc_client_mac = m, uc_auth_scheme = auth_scheme, uc_sequence = 0\<rparr>)"

definition async_next_seq :: "('w, int) client_io" where
  "async_next_seq = (\<lambda>(c, w).
     let n = (uc_sequence c + 1) AND 0xFFFF in (Inr n, (c\<lparr>uc_sequence := n\<rparr>, w)))"

definition async_exchange :: "'w net \<Rightarrow> nsdp_packet \<Rightarrow> ('w, nsdp_packet) client_io" where
  "async_exchange transceive request = (\<lambda>(c, w).
     case encode request of
       Inl e \<Rightarrow> (Inl e, (c, w))
     | Inr bs \<Rightarrow>
         (case transceive bs w of
            (Inl e, w') \<Rightarrow> (Inl (if e = TimeoutError then NsdpError NsdpTimeout else e), (c, w'))
          | (Inr data, w') \<Rightarrow>
              (case decode data of
                 Inl e \<Rightarrow> (Inl (if is_value_error e then NsdpError NsdpMalformed else e), (c, w'))
               | Inr p \<Rightarrow> (Inr p, (c, w')))))"

definition async_udp_read :: "'w net \<Rightarrow> tag list \<Rightarrow> ('w, nsdp_packet) client_io" where
  "async_udp_read transceive tags =
     io_bind (client_get uc_client_mac) (\<lambda>mac.
     io_bind async_next_seq (\<lambda>n.
     io_bind (async_exchange transceive (build_read_request mac BROADCAST_MAC n tags)) (\<lambda>resp.
     if pk_op resp \<noteq> READ_RESPONSE then io_raise (NsdpError (NsdpWrongOp (op_code (pk_op resp))))
     else io_return resp)))"

definition async_resolve_scheme :: "'w net \<Rightarrow> ('w, string) client_io" where
  "async_resolve_scheme transceive =
     io_bind (client_get uc_auth_scheme) (\<lambda>scheme.
     if scheme = ''v1'' \<or> scheme = ''v2'' then io_return scheme
     else
       io_bind (async_udp_read transceive [AUTH_V2_ENCPASS]) (\<lambda>resp.
       let enc = first_tlv_value resp AUTH_V2_ENCPASS;
           scheme' = (if encpass_is_v2 (case enc of Some v \<Rightarrow> v | None \<Rightarrow> []) then ''v2'' else ''v1'') in
       io_bind (client_set (uc_auth_scheme_update (\<lambda>_. scheme'))) (\<lambda>_.
       io_return scheme')))"

definition async_build_write :: "'w net \<Rightarrow> tlv list \<Rightarrow> ustr \<Rightarrow> ('w, nsdp_packet) client_io" where
  "async_build_write transceive tlvs password =
     io_bind (async_resolve_scheme transceive) (\<lambda>scheme.
     if scheme = ''v2'' then
       io_bind (async_udp_read transceive [AUTH_V2_SALT]) (\<lambda>salt_resp.
       case first_tlv_value salt_resp AUTH_V2_SALT of
         None \<Rightarrow> io_raise (NsdpError NsdpNoSalt)
       | Some salt \<Rightarrow>
           io_bind (io_lift (auth_v2_password password (pk_server_mac salt_resp) salt)) (\<lambda>token.
           io_bind (client_get uc_client_mac) (\<lambda>mac.
           io_bind async_next_seq (\<lambda>n.
           io_return (build_write_request_v2 mac BROADCAST_MAC n tlvs token)))))
     else
       io_bind (client_get uc_client_mac) (\<lambda>mac.
       io_bind async_next_seq (\<lambda>n.
       io_lift (build_write_request mac BROADCAST_MAC n password tlvs))))"

definition async_udp_write :: "'w net \<Rightarrow> tlv list \<Rightarrow> ustr \<Rightarrow> ('w, nsdp_packet) client_io" where
  "async_udp_write transceive tlvs password =
     io_bind (async_build_write transceive tlvs password) (\<lambda>req.
     io_bind (async_exchange transceive req) (\<lambda>resp.
     if pk_op resp \<noteq> WRITE_RESPONSE then io_raise (NsdpError (NsdpWrongOp (op_code (pk_op resp))))
     else io_bind (io_lift (check_result resp)) (\<lambda>_. io_return resp)))"

section \<open>The two clients agree\<close>

text \<open>The synchronous client's receive buffer: \<open>recvfrom(4096)\<close> cuts a longer datagram.\<close>

definition truncating :: "'w net \<Rightarrow> 'w net" where
  "truncating net = (\<lambda>bs w. case net bs w of (r, w') \<Rightarrow> (map_sum id (take RECV_MAX) r, w'))"

lemma exchange_truncating: "exchange net q = async_exchange (truncating net) q"
  by (auto simp: fun_eq_iff exchange_def async_exchange_def truncating_def split: sum.splits prod.splits)

lemma async_next_seq_eq: "async_next_seq = next_seq"
  by (simp add: async_next_seq_def next_seq_def)

lemma udp_read_truncating: "udp_read net tags = async_udp_read (truncating net) tags"
  by (simp add: udp_read_def async_udp_read_def async_next_seq_eq exchange_truncating)

lemma build_write_truncating: "build_write net tlvs pw = async_build_write (truncating net) tlvs pw"
  unfolding build_write_def async_build_write_def resolve_scheme_def async_resolve_scheme_def
    async_next_seq_eq udp_read_truncating by simp

lemma truncating_id:
  assumes "\<And>bs w data w'. net bs w = (Inr data, w') \<Longrightarrow> length data \<le> RECV_MAX"
  shows "truncating net = net"
  by (rule ext, rule ext) (use assms in \<open>auto simp: truncating_def split: prod.splits sum.splits\<close>,
      metis assms map_sum.simps sum.exhaust_sel id_apply take_all)

text \<open>
  C24. The synchronous client is the asynchronous one behind a receive buffer of 4096
  bytes: reads, writes and the client's own state agree on every network.
\<close>

theorem sync_is_async_truncated:
  "udp_read net tags = async_udp_read (truncating net) tags
   \<and> udp_write net tlvs pw = async_udp_write (truncating net) tlvs pw
   \<and> mk_udp_client mac imac scheme = mk_async_udp_client mac imac scheme"
  by (simp add: udp_read_truncating udp_write_def async_udp_write_def build_write_truncating
      exchange_truncating mk_udp_client_def mk_async_udp_client_def)

end
