(* ===== verification/Virtual_State.thy ===== *)
theory Virtual_State
  imports Registry
begin

text \<open>
  The authoritative state of a simulated switch (\<open>virtual/state.py\<close>): the
  per-port, per-VLAN, PoE and management records and \<open>VirtualSwitchState\<close> with
  its NSDP, SNMP, switchport and command-line fields, and the PoE operations
  shared by every protocol face. Fields only the web faces render are not kept.
\<close>

record port_sim =
  pt_name :: ustr
  pt_admin :: bool
  pt_link :: bool
  pt_speed :: int
  pt_if_type :: int
  pt_rx_octets :: "int option"
  pt_tx_octets :: "int option"
  pt_rx_ucast :: "int option"
  pt_tx_ucast :: "int option"
  pt_rx_errors :: "int option"
  pt_tx_errors :: "int option"
  pt_switchport_mode :: ustr
  pt_description :: "ustr option"
  pt_flow_control :: bool
  pt_serves_etherlike :: bool
  pt_physical_mode :: ustr

record vlan_sim =
  vl_name :: ustr
  vl_member :: "int set"
  vl_untagged :: "int set"
  vl_configured_only :: "int set"
  vl_static_row :: bool

definition mk_vlan_sim :: "ustr \<Rightarrow> int set \<Rightarrow> int set \<Rightarrow> vlan_sim" where
  "mk_vlan_sim name member untagged =
     \<lparr>vl_name = name, vl_member = member, vl_untagged = untagged, vl_configured_only = {},
      vl_static_row = True\<rparr>"

definition configured :: "vlan_sim \<Rightarrow> int set" where
  "configured v = vl_member v \<union> vl_configured_only v"

record poe_sim =
  pe_admin :: bool
  pe_detect :: int
  pe_power_mw :: int
  pe_cli_status_lag_reads :: int

record mgmt_sim =
  mg_address :: ustr
  mg_netmask :: ustr
  mg_gateway :: ustr
  mg_mode :: ustr

record syslog_collector_sim =
  sc_host :: ustr
  sc_port :: int
  sc_severity :: int
  sc_status :: int
  sc_index :: int

record syslog_sim =
  sy_admin_mode :: int
  sy_local_port :: int
  sy_collectors :: "syslog_collector_sim list"

record sensor_sim =
  ss_kind :: ustr
  ss_instance :: ustr
  ss_raw :: ustr

record entity_sim =
  en_index :: int
  en_phys_class :: int
  en_name :: ustr
  en_descr :: ustr

record mac_sim =
  mc_vlan :: int
  mc_mac_bytes :: "int list"
  mc_bridge_port :: int

record lldp_sim =
  ll_time_mark :: int
  ll_local_port :: int
  ll_rem_idx :: int
  ll_chassis :: ustr
  ll_port_id :: ustr
  ll_port_desc :: ustr
  ll_sys_name :: ustr

text \<open>The record of a certificate deploy the command-line face received.\<close>

record scp_cert_deploy =
  sd_commands :: "ustr list"
  sd_copies :: "(ustr \<times> ustr) list"
  sd_https_disabled :: bool
  sd_https_enabled :: bool
  sd_saved :: bool

definition new_scp_cert_deploy :: scp_cert_deploy where
  "new_scp_cert_deploy =
     \<lparr>sd_commands = [], sd_copies = [], sd_https_disabled = False, sd_https_enabled = False,
      sd_saved = False\<rparr>"

record virtual_switch =
  vs_model_key :: string
  vs_ports :: "(int, port_sim) dict"
  vs_vlans :: "(int, vlan_sim) dict"
  vs_pvids :: "(int, int) dict"
  vs_poe :: "(int, poe_sim) dict"
  vs_mgmt :: mgmt_sim
  vs_model_name :: ustr
  vs_serial :: ustr
  vs_firmware :: ustr
  vs_hostname :: ustr
  vs_nsdp_password :: ustr
  vs_nsdp_auth_version :: int
  vs_nsdp_last_salt :: "bytes option"
  vs_nsdp_auth_failures :: int
  vs_nsdp_qos_engine :: "int option"
  vs_nsdp_port_mirroring_dest :: "int option"
  vs_nsdp_port_mirroring_sources :: "int set"
  vs_nsdp_igmp_snooping_enabled :: "bool option"
  vs_nsdp_igmp_snooping_vlan :: "int option"
  vs_nsdp_broadcast_filtering :: "bool option"
  vs_nsdp_loop_detection :: "bool option"
  vs_nsdp_mac :: bytes
  vs_switchport_mode :: "(int, int) dict"
  vs_switchport_access_vlan :: "(int, int) dict"
  vs_switchport_native_vlan :: "(int, int) dict"
  vs_switchport_allowed_vlans :: "(int, bytes) dict"
  vs_switchport_general_untagged :: "(int, int set) dict"
  vs_switchport_general_tagged :: "(int, int set) dict"
  vs_pdu_egress_writes :: "int set"
  vs_syslog :: syslog_sim
  vs_sensors :: "sensor_sim list"
  vs_entity_components :: "entity_sim list"
  vs_macs :: "mac_sim list"
  vs_bridge_ports :: "(int, int) dict"
  vs_lldp :: "lldp_sim list"
  vs_sys_descr :: ustr
  vs_sys_object_id :: ustr
  vs_dot1d_base_mac_ascii :: bool
  vs_vlan_portlist_width :: "nat option"
  vs_scp_cert_deploy :: "scp_cert_deploy option"
  vs_reboots :: int

definition mk_port_sim :: "ustr \<Rightarrow> bool \<Rightarrow> bool \<Rightarrow> int \<Rightarrow> port_sim" where
  "mk_port_sim name admin link speed =
     \<lparr>pt_name = name, pt_admin = admin, pt_link = link, pt_speed = speed, pt_if_type = 6,
      pt_rx_octets = None, pt_tx_octets = None, pt_rx_ucast = None, pt_tx_ucast = None,
      pt_rx_errors = None, pt_tx_errors = None, pt_switchport_mode = lit ''general'',
      pt_description = None, pt_flow_control = True, pt_serves_etherlike = False,
      pt_physical_mode = lit ''Auto''\<rparr>"

definition mk_virtual_switch :: "string \<Rightarrow> virtual_switch" where
  "mk_virtual_switch key =
     \<lparr>vs_model_key = key, vs_ports = [], vs_vlans = [], vs_pvids = [], vs_poe = [],
      vs_mgmt = \<lparr>mg_address = lit ''0.0.0.0'', mg_netmask = lit ''0.0.0.0'',
                 mg_gateway = lit ''0.0.0.0'', mg_mode = lit ''dhcp''\<rparr>,
      vs_model_name = [], vs_serial = [], vs_firmware = [], vs_hostname = [],
      vs_nsdp_password = lit ''password'', vs_nsdp_auth_version = 1, vs_nsdp_last_salt = None,
      vs_nsdp_auth_failures = 0, vs_nsdp_qos_engine = None, vs_nsdp_port_mirroring_dest = None,
      vs_nsdp_port_mirroring_sources = {}, vs_nsdp_igmp_snooping_enabled = None,
      vs_nsdp_igmp_snooping_vlan = None, vs_nsdp_broadcast_filtering = None,
      vs_nsdp_loop_detection = None, vs_nsdp_mac = [0x28, 0xC6, 0x8E, 0, 0, 1],
      vs_switchport_mode = [], vs_switchport_access_vlan = [], vs_switchport_native_vlan = [],
      vs_switchport_allowed_vlans = [], vs_switchport_general_untagged = [],
      vs_switchport_general_tagged = [], vs_pdu_egress_writes = {},
      vs_syslog = \<lparr>sy_admin_mode = 2, sy_local_port = 514, sy_collectors = []\<rparr>,
      vs_sensors = [], vs_entity_components = [], vs_macs = [], vs_bridge_ports = [],
      vs_lldp = [], vs_sys_descr = [], vs_sys_object_id = [], vs_dot1d_base_mac_ascii = False,
      vs_vlan_portlist_width = None, vs_scp_cert_deploy = None, vs_reboots = 0\<rparr>"

section \<open>PoE\<close>

definition apply_poe_admin :: "int \<Rightarrow> bool \<Rightarrow> virtual_switch \<Rightarrow> virtual_switch" where
  "apply_poe_admin port on s =
     (case dict_get (vs_poe s) port of
        None \<Rightarrow> s
      | Some p \<Rightarrow>
          let was_on = pe_admin p;
              p1 = p\<lparr>pe_admin := on, pe_detect := (if on then 3 else 1)\<rparr>;
              p2 = (if on \<and> \<not> was_on then p1\<lparr>pe_cli_status_lag_reads := 1\<rparr> else p1);
              s1 = s\<lparr>vs_poe := dict_set port p2 (vs_poe s)\<rparr>
          in (case dict_get (vs_ports s1) port of
                Some sim \<Rightarrow> if \<not> on then s1\<lparr>vs_ports := dict_set port (sim\<lparr>pt_link := False\<rparr>) (vs_ports s1)\<rparr> else s1
              | None \<Rightarrow> s1))"

definition apply_poe_reset :: "int \<Rightarrow> virtual_switch \<Rightarrow> virtual_switch" where
  "apply_poe_reset port s =
     (case dict_get (vs_poe s) port of
        None \<Rightarrow> s
      | Some p \<Rightarrow>
          s\<lparr>vs_poe := dict_set port
              (p\<lparr>pe_admin := True, pe_detect := (if pe_power_mw p \<noteq> 0 then 3 else 2)\<rparr>) (vs_poe s)\<rparr>)"

text \<open>What a PoE write does and does not touch: one port, and the link only when switched off.\<close>

lemma apply_poe_admin_frame:
  "vs_vlans (apply_poe_admin port on s) = vs_vlans s"
  "vs_pvids (apply_poe_admin port on s) = vs_pvids s"
  "q \<noteq> port \<Longrightarrow> dict_get (vs_poe (apply_poe_admin port on s)) q = dict_get (vs_poe s) q"
  "q \<noteq> port \<Longrightarrow> dict_get (vs_ports (apply_poe_admin port on s)) q = dict_get (vs_ports s) q"
  by (auto simp: apply_poe_admin_def Let_def split: option.splits)

end
