(* ===== verification/Virtual_Nsdp.thy ===== *)
theory Virtual_Nsdp
  imports Virtual_State Nsdp_Frames
begin

text \<open>
  The NSDP side of the virtual switch: projecting the state onto read entries and
  applying write entries (\<open>nsdp_tlvs\<close>, \<open>apply_nsdp_write\<close> of
  \<open>virtual/state.py\<close>), with the invariant under which every read is answered,
  and the view of the state a client parses out of the answer.
\<close>

section \<open>Reading\<close>

definition speed_bytes :: "(int, int) dict" where
  "speed_bytes = [(10, 0x02), (100, 0x04), (1000, 0x05), (10000, 0x06)]"

definition mbps_to_speed_byte :: "int \<Rightarrow> int" where
  "mbps_to_speed_byte mbps = (case dict_get speed_bytes mbps of Some b \<Rightarrow> b | None \<Rightarrow> 0x00)"

text \<open>\<open>n or 0\<close>\<close>

definition or_zero :: "int option \<Rightarrow> int" where
  "or_zero n = (case n of Some k \<Rightarrow> k | None \<Rightarrow> 0)"

definition bit_byte :: "bool \<Rightarrow> byte" where
  "bit_byte b = (if b then 1 else 0)"

text \<open>One guarded \<open>out.append\<close> block; blocks run in order, the first exception wins.\<close>

definition part :: "bool \<Rightarrow> (tlv list) py \<Rightarrow> (tlv list) py" where
  "part c p = (if c then p else Inr [])"

fun parts :: "(tlv list) py list \<Rightarrow> (tlv list) py" where
  "parts [] = Inr []"
| "parts (p # ps) = res_bind p (\<lambda>ts. res_bind (parts ps) (\<lambda>us. Inr (ts @ us)))"

definition one :: "tag \<Rightarrow> bytes py \<Rightarrow> (tlv list) py" where
  "one t v = res_bind v (\<lambda>b. Inr [mk_tlv t b])"

definition port_status_value :: "int \<times> port_sim \<Rightarrow> bytes py" where
  "port_status_value = (\<lambda>(port, sim).
     res_bind (byte_of port) (\<lambda>p.
     res_bind (byte_of (if pt_link sim then mbps_to_speed_byte (pt_speed sim) else 0x00)) (\<lambda>sp.
     Inr (p @ sp @ [bit_byte (pt_flow_control sim)]))))"

definition port_name_value :: "int \<times> port_sim \<Rightarrow> bytes py" where
  "port_name_value = (\<lambda>(port, sim).
     res_bind (utf8_encode (case pt_description sim of Some d \<Rightarrow> d | None \<Rightarrow> [])) (\<lambda>n.
     res_bind (byte_of port) (\<lambda>p. Inr (p @ n))))"

definition port_statistics_value :: "int \<times> port_sim \<Rightarrow> bytes py" where
  "port_statistics_value = (\<lambda>(port, sim).
     res_bind (byte_of port) (\<lambda>p.
     res_bind (struct_uint 8 (or_zero (pt_rx_octets sim))) (\<lambda>rx.
     res_bind (struct_uint 8 (or_zero (pt_tx_octets sim))) (\<lambda>tx.
     res_bind (struct_uint 8 (or_zero (pt_rx_errors sim))) (\<lambda>er.
     Inr (p @ rx @ tx @ er @ replicate 24 0))))))"

definition vlan_members_value :: "nat \<Rightarrow> int \<times> vlan_sim \<Rightarrow> bytes py" where
  "vlan_members_value width = (\<lambda>(vid, vsim).
     let tagged = vl_member vsim - vl_untagged vsim in
     res_bind (struct_uint 2 vid) (\<lambda>v.
     res_bind (ports_to_bitmap (sorted_list_of_set (vl_member vsim)) width) (\<lambda>m.
     res_bind (ports_to_bitmap (sorted_list_of_set tagged) width) (\<lambda>t.
     Inr (v @ m @ t)))))"

definition port_pvid_value :: "int \<times> int \<Rightarrow> bytes py" where
  "port_pvid_value = (\<lambda>(port, pv).
     res_bind (byte_of port) (\<lambda>p. res_bind (struct_uint 2 pv) (\<lambda>v. Inr (p @ v))))"

definition per_item :: "tag \<Rightarrow> ('a \<Rightarrow> bytes py) \<Rightarrow> 'a list \<Rightarrow> (tlv list) py" where
  "per_item t f xs = res_bind (res_map f xs) (\<lambda>vs. Inr (map (mk_tlv t) vs))"

definition model_text :: "switch_model \<Rightarrow> virtual_switch \<Rightarrow> ustr" where
  "model_text model s = (if vs_model_name s \<noteq> [] then vs_model_name s else lit (m_display_name model))"

text \<open>The entries before and after the salt, whose read draws a fresh challenge.\<close>

definition tlvs_before_salt :: "switch_model \<Rightarrow> bytes \<Rightarrow> tag set \<Rightarrow> virtual_switch \<Rightarrow> (tlv list) py" where
  "tlvs_before_salt model model_bytes tags s =
     parts
       [part (MODEL \<in> tags) (one MODEL (Inr model_bytes)),
        part (MAC \<in> tags) (one MAC (Inr (vs_nsdp_mac s))),
        part (PORT_COUNT \<in> tags) (one PORT_COUNT (byte_of (m_port_count model))),
        part (SERIAL_NUMBER \<in> tags \<and> vs_serial s \<noteq> [])
          (one SERIAL_NUMBER (res_bind (ascii_encode (vs_serial s)) (\<lambda>b. Inr ([1] @ b)))),
        part (HOSTNAME \<in> tags \<and> vs_hostname s \<noteq> []) (one HOSTNAME (ascii_encode (vs_hostname s))),
        part (FIRMWARE_VER_1 \<in> tags \<and> vs_firmware s \<noteq> [])
          (one FIRMWARE_VER_1 (ascii_encode (vs_firmware s))),
        part (AUTH_V2_ENCPASS \<in> tags) (one AUTH_V2_ENCPASS (struct_uint 4 (vs_nsdp_auth_version s)))]"

definition tlvs_after_salt :: "switch_model \<Rightarrow> tag set \<Rightarrow> virtual_switch \<Rightarrow> (tlv list) py" where
  "tlvs_after_salt model tags s =
     (let width = bitmap_width (m_port_count model) in
      parts
       [part (PORT_STATUS \<in> tags) (per_item PORT_STATUS port_status_value (sorted_items (vs_ports s))),
        part (PORT_NAME \<in> tags) (per_item PORT_NAME port_name_value (sorted_items (vs_ports s))),
        part (PORT_STATISTICS \<in> tags)
          (per_item PORT_STATISTICS port_statistics_value (sorted_items (vs_ports s))),
        part (VLAN_MEMBERS \<in> tags)
          (per_item VLAN_MEMBERS (vlan_members_value width) (sorted_items (vs_vlans s))),
        part (PORT_PVID \<in> tags) (per_item PORT_PVID port_pvid_value (sorted_items (vs_pvids s))),
        part (IP_ADDRESS \<in> tags) (one IP_ADDRESS (inet_aton (mg_address (vs_mgmt s)))),
        part (NETMASK \<in> tags) (one NETMASK (inet_aton (mg_netmask (vs_mgmt s)))),
        part (GATEWAY \<in> tags) (one GATEWAY (inet_aton (mg_gateway (vs_mgmt s)))),
        part (DHCP_MODE \<in> tags)
          (one DHCP_MODE (Inr [if mg_mode (vs_mgmt s) = lit ''static'' then 0 else 1])),
        (case vs_nsdp_qos_engine s of None \<Rightarrow> Inr []
         | Some q \<Rightarrow> part (QOS_ENGINE \<in> tags) (one QOS_ENGINE (byte_of q))),
        (case vs_nsdp_port_mirroring_dest s of None \<Rightarrow> Inr []
         | Some d \<Rightarrow> part (PORT_MIRRORING \<in> tags)
             (one PORT_MIRRORING (res_bind (byte_of d) (\<lambda>b.
                res_bind (ports_to_bitmap (sorted_list_of_set (vs_nsdp_port_mirroring_sources s)) width)
                  (\<lambda>m. Inr (b @ m)))))),
        (case vs_nsdp_igmp_snooping_enabled s of None \<Rightarrow> Inr []
         | Some en \<Rightarrow> part (IGMP_SNOOPING \<in> tags)
             (one IGMP_SNOOPING (res_bind (byte_of (or_zero (vs_nsdp_igmp_snooping_vlan s)))
                (\<lambda>v. Inr ([0, bit_byte en, 0] @ v))))),
        (case vs_nsdp_broadcast_filtering s of None \<Rightarrow> Inr []
         | Some b \<Rightarrow> part (BROADCAST_FILTERING \<in> tags) (one BROADCAST_FILTERING (Inr [bit_byte b]))),
        (case vs_nsdp_loop_detection s of None \<Rightarrow> Inr []
         | Some b \<Rightarrow> part (LOOP_DETECTION \<in> tags) (one LOOP_DETECTION (Inr [bit_byte b])))])"

text \<open>\<open>fresh\<close> is what \<open>os.urandom(4)\<close> returns in this call, if it is called.\<close>

definition rotate_salt :: "bytes \<Rightarrow> tag set \<Rightarrow> virtual_switch \<Rightarrow> virtual_switch" where
  "rotate_salt fresh tags s = (if AUTH_V2_SALT \<in> tags then s\<lparr>vs_nsdp_last_salt := Some fresh\<rparr> else s)"

definition nsdp_tlvs :: "bytes \<Rightarrow> tag set \<Rightarrow> (virtual_switch, exn, tlv list) io" where
  "nsdp_tlvs fresh tags s =
     (case get_model (vs_model_key s) of
        Inl e \<Rightarrow> (Inl e, s)
      | Inr model \<Rightarrow>
          case res_bind (ascii_encode (model_text model s))
                 (\<lambda>model_bytes. tlvs_before_salt model model_bytes tags s) of
            Inl e \<Rightarrow> (Inl e, s)
          | Inr out1 \<Rightarrow>
              let s' = rotate_salt fresh tags s;
                  salt = (if AUTH_V2_SALT \<in> tags then [mk_tlv AUTH_V2_SALT fresh] else [])
              in (res_bind (tlvs_after_salt model tags s') (\<lambda>out2. Inr (out1 @ salt @ out2)), s'))"

section \<open>Writing\<close>

definition destroy_vlan :: "int \<Rightarrow> virtual_switch \<Rightarrow> virtual_switch" where
  "destroy_vlan vid s =
     (if dict_get (vs_vlans s) vid \<noteq> None
      then s\<lparr>vs_vlans := dict_pop vid (vs_vlans s),
             vs_pvids := map (\<lambda>(port, pv). (port, if pv = vid then 1 else pv)) (vs_pvids s)\<rparr>
      else s)"

definition with_mgmt :: "(mgmt_sim \<Rightarrow> mgmt_sim) \<Rightarrow> virtual_switch \<Rightarrow> virtual_switch" where
  "with_mgmt f s = s\<lparr>vs_mgmt := f (vs_mgmt s)\<rparr>"

definition apply_nsdp_write :: "tag_ref \<Rightarrow> bytes \<Rightarrow> virtual_switch \<Rightarrow> virtual_switch py" where
  "apply_nsdp_write tag value s =
     res_bind (get_model (vs_model_key s)) (\<lambda>model.
       let is = tag_is tag in
       if is PORT_PVID then
         res_bind (unpack_uint_from 2 value 1) (\<lambda>vid.
         res_bind (byte_at value 0) (\<lambda>port.
         Inr (s\<lparr>vs_pvids := dict_set port vid (vs_pvids s)\<rparr>)))
       else if is VLAN_MEMBERS then
         res_bind (parse_vlan_members value (m_port_count model)) (\<lambda>m.
           let name = (case dict_get (vs_vlans s) (nvm_vlan_id m) of
                         Some existing \<Rightarrow> vl_name existing | None \<Rightarrow> [])
           in Inr (s\<lparr>vs_vlans := dict_set (nvm_vlan_id m)
                        (mk_vlan_sim name (nvm_member_ports m) (untagged_ports m)) (vs_vlans s)\<rparr>))
       else if is VLAN_DESTROY then
         res_bind (unpack_uint_from 2 value 0) (\<lambda>vid. Inr (destroy_vlan vid s))
       else if is PORT_NAME then
         res_bind (byte_at value 0) (\<lambda>port.
           case dict_get (vs_ports s) port of
             None \<Rightarrow> Inr s
           | Some sim \<Rightarrow>
               Inr (s\<lparr>vs_ports := dict_set port
                  (sim\<lparr>pt_description := or_none (nul_rstrip (utf8_decode_replace (drop 1 value)))\<rparr>)
                  (vs_ports s)\<rparr>))
       else if is IP_ADDRESS then
         res_bind (inet_ntoa value) (\<lambda>a. Inr (with_mgmt (mg_address_update (\<lambda>_. a)) s))
       else if is NETMASK then
         res_bind (inet_ntoa value) (\<lambda>a. Inr (with_mgmt (mg_netmask_update (\<lambda>_. a)) s))
       else if is GATEWAY then
         res_bind (inet_ntoa value) (\<lambda>a. Inr (with_mgmt (mg_gateway_update (\<lambda>_. a)) s))
       else if is DHCP_MODE then
         Inr (with_mgmt (mg_mode_update (\<lambda>_.
           if take 1 value = [1] then lit ''dhcp'' else lit ''static'')) s)
       else Inr s)"

fun apply_all :: "(tlv \<Rightarrow> bool) \<Rightarrow> tlv list \<Rightarrow> (virtual_switch, exn, unit) io" where
  "apply_all skip [] s = (Inr (), s)"
| "apply_all skip (e # es) s =
     (if skip e then apply_all skip es s
      else case apply_nsdp_write (tlv_tag e) (tlv_value e) s of
             Inl x \<Rightarrow> (Inl x, s)
           | Inr s' \<Rightarrow> apply_all skip es s')"

section \<open>Well-formed states\<close>

text \<open>
  What a state must satisfy for every read to be answered: the values fit the
  fields they are sent in, the sets are finite and within the VLAN bitmap, the
  texts encode.
\<close>

definition u_fits :: "nat \<Rightarrow> int \<Rightarrow> bool" where
  "u_fits w n \<longleftrightarrow> 0 \<le> n \<and> n < 256 ^ w"

definition text_ok :: "ustr \<Rightarrow> bool" where
  "text_ok t \<longleftrightarrow> is_ascii t \<and> length t \<le> 16000"

definition port_ok :: "int \<times> port_sim \<Rightarrow> bool" where
  "port_ok = (\<lambda>(port, sim). u_fits 1 port
     \<and> u_fits 8 (or_zero (pt_rx_octets sim)) \<and> u_fits 8 (or_zero (pt_tx_octets sim))
     \<and> u_fits 8 (or_zero (pt_rx_errors sim))
     \<and> (case pt_description sim of None \<Rightarrow> True
        | Some d \<Rightarrow> list_all is_scalar d \<and> length d \<le> 16000))"

definition vlan_ok :: "nat \<Rightarrow> int \<times> vlan_sim \<Rightarrow> bool" where
  "vlan_ok w = (\<lambda>(vid, vsim). u_fits 2 vid
     \<and> vl_member vsim \<subseteq> {1..8 * int w} \<and> vl_untagged vsim \<subseteq> vl_member vsim)"

definition pvid_ok :: "int \<times> int \<Rightarrow> bool" where
  "pvid_ok = (\<lambda>(port, pv). u_fits 1 port \<and> u_fits 2 pv)"

definition aton_ok :: "ustr \<Rightarrow> bool" where
  "aton_ok a = (case inet_aton a of Inr _ \<Rightarrow> True | Inl _ \<Rightarrow> False)"

definition mgmt_ok :: "mgmt_sim \<Rightarrow> bool" where
  "mgmt_ok g \<longleftrightarrow> aton_ok (mg_address g) \<and> aton_ok (mg_netmask g) \<and> aton_ok (mg_gateway g)"

definition settings_ok :: "nat \<Rightarrow> virtual_switch \<Rightarrow> bool" where
  "settings_ok w s \<longleftrightarrow>
     u_fits 4 (vs_nsdp_auth_version s)
     \<and> (case vs_nsdp_qos_engine s of None \<Rightarrow> True | Some q \<Rightarrow> u_fits 1 q)
     \<and> (case vs_nsdp_port_mirroring_dest s of None \<Rightarrow> True | Some d \<Rightarrow> u_fits 1 d)
     \<and> vs_nsdp_port_mirroring_sources s \<subseteq> {1..8 * int w}
     \<and> u_fits 1 (or_zero (vs_nsdp_igmp_snooping_vlan s))"

definition identity_ok :: "switch_model \<Rightarrow> virtual_switch \<Rightarrow> bool" where
  "identity_ok m s \<longleftrightarrow> text_ok (model_text m s) \<and> text_ok (vs_serial s) \<and> text_ok (vs_hostname s)
     \<and> text_ok (vs_firmware s) \<and> length (vs_nsdp_mac s) = 6 \<and> u_fits 1 (m_port_count m)"

definition tables_ok :: "nat \<Rightarrow> virtual_switch \<Rightarrow> bool" where
  "tables_ok w s \<longleftrightarrow> dict_wf (vs_ports s) \<and> dict_wf (vs_vlans s) \<and> dict_wf (vs_pvids s)
     \<and> list_all port_ok (vs_ports s) \<and> list_all (vlan_ok w) (vs_vlans s) \<and> list_all pvid_ok (vs_pvids s)"

definition nsdp_wf :: "virtual_switch \<Rightarrow> bool" where
  "nsdp_wf s \<longleftrightarrow> (case get_model (vs_model_key s) of
     Inl _ \<Rightarrow> False
   | Inr m \<Rightarrow> identity_ok m s \<and> tables_ok (bitmap_width (m_port_count m)) s
       \<and> mgmt_ok (vs_mgmt s) \<and> settings_ok (bitmap_width (m_port_count m)) s)"

lemma nsdp_wfE:
  assumes "nsdp_wf s"
  obtains m where "get_model (vs_model_key s) = Inr m" "identity_ok m s"
    "tables_ok (bitmap_width (m_port_count m)) s" "mgmt_ok (vs_mgmt s)"
    "settings_ok (bitmap_width (m_port_count m)) s"
  using assms by (auto simp: nsdp_wf_def split: sum.splits)

section \<open>What one entry says\<close>

definition view_status :: "int \<times> port_sim \<Rightarrow> nsdp_port_status" where
  "view_status = (\<lambda>(port, sim). \<lparr>nps_port_id = port,
     nps_speed = (if pt_link sim then from_byte (mbps_to_speed_byte (pt_speed sim)) else DOWN),
     nps_flow_control = Some (pt_flow_control sim)\<rparr>)"

definition view_name :: "int \<times> port_sim \<Rightarrow> nsdp_port_name" where
  "view_name = (\<lambda>(port, sim). \<lparr>npn_port_id = port,
     npn_name = or_none (nul_rstrip (case pt_description sim of Some d \<Rightarrow> d | None \<Rightarrow> []))\<rparr>)"

definition view_statistics :: "int \<times> port_sim \<Rightarrow> nsdp_port_statistics" where
  "view_statistics = (\<lambda>(port, sim). \<lparr>npt_port_id = port,
     npt_bytes_received = or_zero (pt_rx_octets sim), npt_bytes_sent = or_zero (pt_tx_octets sim),
     npt_crc_errors = or_zero (pt_rx_errors sim)\<rparr>)"

definition view_vlan :: "int \<times> vlan_sim \<Rightarrow> nsdp_vlan_membership" where
  "view_vlan = (\<lambda>(vid, vsim). \<lparr>nvm_vlan_id = vid, nvm_member_ports = vl_member vsim,
     nvm_tagged_ports = vl_member vsim - vl_untagged vsim\<rparr>)"

definition view_pvid :: "int \<times> int \<Rightarrow> nsdp_port_pvid" where
  "view_pvid = (\<lambda>(port, pv). \<lparr>npp_port_id = port, npp_vlan_id = pv\<rparr>)"

lemma u_fits_1: "u_fits (Suc 0) n \<longleftrightarrow> 0 \<le> n \<and> n < 256" and u_fits_2: "u_fits 2 n \<longleftrightarrow> 0 \<le> n \<and> n < 65536"
  by (simp_all add: u_fits_def)

lemma mbps_to_speed_byte_range: "0 \<le> mbps_to_speed_byte n \<and> mbps_to_speed_byte n < 256"
  by (auto simp: mbps_to_speed_byte_def speed_bytes_def dict_get_def split: option.splits if_splits)

lemma from_byte_0 [simp]: "from_byte 0 = DOWN"
  by (simp add: from_byte_def link_speeds_def)

lemma bit_byte_nonzero [simp]: "bit_byte b \<noteq> 0 \<longleftrightarrow> b" "bit_byte b = 0 \<longleftrightarrow> \<not> b"
  by (simp_all add: bit_byte_def)

lemma port_status_value_ok:
  assumes "port_ok x"
  shows "\<exists>v. port_status_value x = Inr v \<and> parse_port_status v = Inr (view_status x) \<and> length v = 3"
proof -
  obtain port sim where x: "x = (port, sim)" by (cases x)
  then have "0 \<le> port" "port < 256" using assms by (simp_all add: port_ok_def u_fits_1)
  then show ?thesis
    using mbps_to_speed_byte_range [of "pt_speed sim"]
    by (simp add: x port_status_value_def parse_port_status_def view_status_def)
qed

lemma utf8_char_length: "length (utf8_char c) \<le> 4"
  by (simp add: utf8_char_def)

lemma utf8_encode_scalar:
  assumes "list_all is_scalar d"
  shows "\<exists>b. utf8_encode d = Inr b \<and> length b \<le> 4 * length d"
proof -
  have "(\<Sum>c \<leftarrow> d. length (utf8_char c)) \<le> 4 * length d"
    by (induction d) (use utf8_char_length in \<open>auto intro: add_mono\<close>)
  then show ?thesis
    using assms by (auto simp: utf8_encode_def list_all_iff length_concat comp_def)
qed

lemma port_name_value_ok:
  assumes "port_ok x"
  shows "\<exists>v. port_name_value x = Inr v \<and> parse_port_name v = Inr (view_name x) \<and> length v < 65536"
proof -
  obtain port sim where x: "x = (port, sim)" by (cases x)
  let ?d = "case pt_description sim of Some d \<Rightarrow> d | None \<Rightarrow> []"
  have p: "0 \<le> port" "port < 256" using assms by (simp_all add: x port_ok_def u_fits_1)
  have d: "list_all is_scalar ?d" "length ?d \<le> 16000"
    using assms by (auto simp: x port_ok_def split: option.splits)
  obtain b where b: "utf8_encode ?d = Inr b" "length b \<le> 4 * length ?d"
    using utf8_encode_scalar [OF d(1)] by blast
  have "parse_port_name (word_of_int port # b)
      = Inr \<lparr>npn_port_id = port, npn_name = or_none (nul_rstrip ?d)\<rparr>"
    using p b(1) by (rule parse_port_name_value)
  with p b d(2) show ?thesis by (simp add: x port_name_value_def view_name_def)
qed

lemma port_statistics_value_ok:
  assumes "port_ok x"
  shows "\<exists>v. port_statistics_value x = Inr v \<and> parse_port_statistics v = Inr (view_statistics x)
    \<and> length v = 49"
proof -
  obtain port sim where x: "x = (port, sim)" by (cases x)
  then have "0 \<le> port" "port < 256" "u_fits 8 (or_zero (pt_rx_octets sim))"
    "u_fits 8 (or_zero (pt_tx_octets sim))" "u_fits 8 (or_zero (pt_rx_errors sim))"
    using assms by (simp_all add: port_ok_def u_fits_1)
  then show ?thesis
    by (simp add: x port_statistics_value_def parse_port_statistics_def view_statistics_def u_fits_def)
qed

lemma set_to_bitmap:
  assumes "A \<subseteq> {1..8 * int w}"
  shows "\<exists>b. ports_to_bitmap (sorted_list_of_set A) w = Inr b \<and> bitmap_to_ports b = A \<and> length b = w"
proof -
  have fin: "finite A" using assms by (rule finite_subset) simp
  moreover have "\<forall>p \<in> A. 1 \<le> p \<and> p \<le> 8 * int w" using assms by auto
  ultimately show ?thesis using nsdp_bitmap.enc_fits [of "sorted_list_of_set A" w] by simp
qed

lemma vlan_members_value_ok:
  assumes "vlan_ok w x" and w: "w = bitmap_width n"
  shows "\<exists>v. vlan_members_value w x = Inr v \<and> parse_vlan_members v n = Inr (view_vlan x)
    \<and> length v = 2 + 2 * w"
proof -
  obtain vid vsim where x: "x = (vid, vsim)" by (cases x)
  then have v: "0 \<le> vid" "vid < 65536" and m: "vl_member vsim \<subseteq> {1..8 * int w}"
    using assms by (simp_all add: vlan_ok_def u_fits_2)
  obtain a where a: "ports_to_bitmap (sorted_list_of_set (vl_member vsim)) w = Inr a"
    "bitmap_to_ports a = vl_member vsim" "length a = w"
    using set_to_bitmap [OF m] by blast
  have "vl_member vsim - vl_untagged vsim \<subseteq> {1..8 * int w}" using m by blast
  then obtain b where b: "ports_to_bitmap (sorted_list_of_set (vl_member vsim - vl_untagged vsim)) w = Inr b"
    "bitmap_to_ports b = vl_member vsim - vl_untagged vsim" "length b = w"
    using set_to_bitmap by blast
  show ?thesis
    using v a b parse_vlan_members_value [of vid a n b]
    by (simp add: x vlan_members_value_def view_vlan_def Let_def w)
qed

lemma port_pvid_value_ok:
  assumes "pvid_ok x"
  shows "\<exists>v. port_pvid_value x = Inr v \<and> parse_port_pvid v = Inr (view_pvid x) \<and> length v = 3"
proof -
  obtain port pv where x: "x = (port, pv)" by (cases x)
  then show ?thesis
    using assms parse_port_pvid_value [of port pv]
    by (simp add: pvid_ok_def u_fits_1 u_fits_2 port_pvid_value_def view_pvid_def)
qed

end
