(* ===== verification/Virtual_Nsdp_View.thy ===== *)
theory Virtual_Nsdp_View
  imports Virtual_Nsdp
begin

text \<open>
  What a client learns from the virtual switch: on a well-formed state a read is
  answered with exactly the requested sections, and parsing the answer gives the
  view of the state; writes keep the state well formed.
\<close>

section \<open>The answer of a well-formed state\<close>

definition sect :: "bool \<Rightarrow> 'a list \<Rightarrow> 'a list" where
  "sect c xs = (if c then xs else [])"

lemma part_ok [simp]: "part c (Inr xs) = Inr (sect c xs)"
  by (simp add: part_def sect_def)

lemma set_sect [simp]: "set (sect c xs) = (if c then set xs else {})"
  by (simp add: sect_def)

lemma filter_sect [simp]: "filter P (sect c xs) = sect c (filter P xs)"
  by (simp add: sect_def)

lemma sect_Nil [simp]: "sect c [] = []"
  by (simp add: sect_def)

definition ascii_of :: "ustr \<Rightarrow> bytes" where
  "ascii_of t = map of_nat t"

lemma ascii_encode_text_ok: "text_ok t \<Longrightarrow> ascii_encode t = Inr (ascii_of t)"
  by (simp add: text_ok_def ascii_of_def)

lemma decode_str_ascii_of: "text_ok t \<Longrightarrow> decode_str (ascii_of t) = nul_rstrip t"
  using decode_str_encode ascii_encode_text_ok by blast

definition answer_before :: "switch_model \<Rightarrow> tag set \<Rightarrow> virtual_switch \<Rightarrow> tlv list" where
  "answer_before m tags s =
     sect (MODEL \<in> tags) [mk_tlv MODEL (ascii_of (model_text m s))]
     @ sect (MAC \<in> tags) [mk_tlv MAC (vs_nsdp_mac s)]
     @ sect (PORT_COUNT \<in> tags) [mk_tlv PORT_COUNT [word_of_int (m_port_count m)]]
     @ sect (SERIAL_NUMBER \<in> tags \<and> vs_serial s \<noteq> []) [mk_tlv SERIAL_NUMBER (1 # ascii_of (vs_serial s))]
     @ sect (HOSTNAME \<in> tags \<and> vs_hostname s \<noteq> []) [mk_tlv HOSTNAME (ascii_of (vs_hostname s))]
     @ sect (FIRMWARE_VER_1 \<in> tags \<and> vs_firmware s \<noteq> []) [mk_tlv FIRMWARE_VER_1 (ascii_of (vs_firmware s))]
     @ sect (AUTH_V2_ENCPASS \<in> tags) [mk_tlv AUTH_V2_ENCPASS (be_bytes 4 (vs_nsdp_auth_version s))]"

definition answer_tables :: "switch_model \<Rightarrow> tag set \<Rightarrow> virtual_switch \<Rightarrow> tlv list" where
  "answer_tables m tags s =
     sect (PORT_STATUS \<in> tags)
       (map (\<lambda>x. mk_tlv PORT_STATUS (res_the (port_status_value x))) (sorted_items (vs_ports s)))
     @ sect (PORT_NAME \<in> tags)
       (map (\<lambda>x. mk_tlv PORT_NAME (res_the (port_name_value x))) (sorted_items (vs_ports s)))
     @ sect (PORT_STATISTICS \<in> tags)
       (map (\<lambda>x. mk_tlv PORT_STATISTICS (res_the (port_statistics_value x))) (sorted_items (vs_ports s)))
     @ sect (VLAN_MEMBERS \<in> tags)
       (map (\<lambda>x. mk_tlv VLAN_MEMBERS (res_the (vlan_members_value (bitmap_width (m_port_count m)) x)))
         (sorted_items (vs_vlans s)))
     @ sect (PORT_PVID \<in> tags)
       (map (\<lambda>x. mk_tlv PORT_PVID (res_the (port_pvid_value x))) (sorted_items (vs_pvids s)))"

definition answer_settings :: "switch_model \<Rightarrow> tag set \<Rightarrow> virtual_switch \<Rightarrow> tlv list" where
  "answer_settings m tags s =
     sect (IP_ADDRESS \<in> tags) [mk_tlv IP_ADDRESS (res_the (inet_aton (mg_address (vs_mgmt s))))]
     @ sect (NETMASK \<in> tags) [mk_tlv NETMASK (res_the (inet_aton (mg_netmask (vs_mgmt s))))]
     @ sect (GATEWAY \<in> tags) [mk_tlv GATEWAY (res_the (inet_aton (mg_gateway (vs_mgmt s))))]
     @ sect (DHCP_MODE \<in> tags) [mk_tlv DHCP_MODE [if mg_mode (vs_mgmt s) = lit ''static'' then 0 else 1]]
     @ (case vs_nsdp_qos_engine s of None \<Rightarrow> []
        | Some q \<Rightarrow> sect (QOS_ENGINE \<in> tags) [mk_tlv QOS_ENGINE [word_of_int q]])
     @ (case vs_nsdp_port_mirroring_dest s of None \<Rightarrow> []
        | Some d \<Rightarrow> sect (PORT_MIRRORING \<in> tags) [mk_tlv PORT_MIRRORING (word_of_int d #
            res_the (ports_to_bitmap (sorted_list_of_set (vs_nsdp_port_mirroring_sources s))
              (bitmap_width (m_port_count m))))])
     @ (case vs_nsdp_igmp_snooping_enabled s of None \<Rightarrow> []
        | Some en \<Rightarrow> sect (IGMP_SNOOPING \<in> tags) [mk_tlv IGMP_SNOOPING
            [0, bit_byte en, 0, word_of_int (or_zero (vs_nsdp_igmp_snooping_vlan s))]])
     @ (case vs_nsdp_broadcast_filtering s of None \<Rightarrow> []
        | Some b \<Rightarrow> sect (BROADCAST_FILTERING \<in> tags) [mk_tlv BROADCAST_FILTERING [bit_byte b]])
     @ (case vs_nsdp_loop_detection s of None \<Rightarrow> []
        | Some b \<Rightarrow> sect (LOOP_DETECTION \<in> tags) [mk_tlv LOOP_DETECTION [bit_byte b]])"

definition answer :: "bytes \<Rightarrow> switch_model \<Rightarrow> tag set \<Rightarrow> virtual_switch \<Rightarrow> tlv list" where
  "answer fresh m tags s =
     answer_before m tags s @ sect (AUTH_V2_SALT \<in> tags) [mk_tlv AUTH_V2_SALT fresh]
     @ answer_tables m tags s @ answer_settings m tags s"

lemma per_item_ok:
  assumes "\<And>x. x \<in> set xs \<Longrightarrow> \<exists>v. f x = Inr v"
  shows "per_item t f xs = Inr (map (\<lambda>x. mk_tlv t (res_the (f x))) xs)"
proof -
  have "res_map f xs = Inr (map (\<lambda>x. res_the (f x)) xs)"
    using assms by (intro res_map_total) force
  then show ?thesis by (simp add: per_item_def comp_def)
qed

lemma tables_ok_items:
  assumes "tables_ok w s"
  shows "x \<in> set (vs_ports s) \<Longrightarrow> port_ok x" "y \<in> set (vs_vlans s) \<Longrightarrow> vlan_ok w y"
    "z \<in> set (vs_pvids s) \<Longrightarrow> pvid_ok z"
  using assms by (auto simp: tables_ok_def list_all_iff)

lemma before_salt_ok:
  assumes "identity_ok m s" "u_fits 4 (vs_nsdp_auth_version s)"
  shows "tlvs_before_salt m (ascii_of (model_text m s)) tags s = Inr (answer_before m tags s)"
  using assms
  by (simp add: tlvs_before_salt_def answer_before_def identity_ok_def ascii_encode_text_ok one_def
      u_fits_1 u_fits_def)

lemma aton_ok_iff: "aton_ok a \<longleftrightarrow> inet_aton a = Inr (res_the (inet_aton a))"
  by (auto simp: aton_ok_def split: sum.splits)

lemma after_salt_ok:
  assumes t: "tables_ok (bitmap_width (m_port_count m)) s" and g: "mgmt_ok (vs_mgmt s)"
    and c: "settings_ok (bitmap_width (m_port_count m)) s"
  shows "tlvs_after_salt m tags s = Inr (answer_tables m tags s @ answer_settings m tags s)"
proof -
  let ?w = "bitmap_width (m_port_count m)"
  note items = tables_ok_items [OF t]
  have tabs: "per_item PORT_STATUS port_status_value (sorted_items (vs_ports s))
        = Inr (map (\<lambda>x. mk_tlv PORT_STATUS (res_the (port_status_value x))) (sorted_items (vs_ports s)))"
    "per_item PORT_NAME port_name_value (sorted_items (vs_ports s))
        = Inr (map (\<lambda>x. mk_tlv PORT_NAME (res_the (port_name_value x))) (sorted_items (vs_ports s)))"
    "per_item PORT_STATISTICS port_statistics_value (sorted_items (vs_ports s))
        = Inr (map (\<lambda>x. mk_tlv PORT_STATISTICS (res_the (port_statistics_value x))) (sorted_items (vs_ports s)))"
    "per_item VLAN_MEMBERS (vlan_members_value ?w) (sorted_items (vs_vlans s))
        = Inr (map (\<lambda>x. mk_tlv VLAN_MEMBERS (res_the (vlan_members_value ?w x))) (sorted_items (vs_vlans s)))"
    "per_item PORT_PVID port_pvid_value (sorted_items (vs_pvids s))
        = Inr (map (\<lambda>x. mk_tlv PORT_PVID (res_the (port_pvid_value x))) (sorted_items (vs_pvids s)))"
    using items port_status_value_ok port_name_value_ok port_statistics_value_ok
      vlan_members_value_ok [OF _ refl] port_pvid_value_ok
    by (auto intro!: per_item_ok) (metis)+
  obtain a1 a2 a3 where aton: "inet_aton (mg_address (vs_mgmt s)) = Inr a1"
    "inet_aton (mg_netmask (vs_mgmt s)) = Inr a2" "inet_aton (mg_gateway (vs_mgmt s)) = Inr a3"
    using g by (auto simp: mgmt_ok_def aton_ok_def split: sum.splits)
  obtain b where b: "ports_to_bitmap (sorted_list_of_set (vs_nsdp_port_mirroring_sources s)) ?w = Inr b"
    using set_to_bitmap [of "vs_nsdp_port_mirroring_sources s" ?w] c by (auto simp: settings_ok_def)
  have q: "(case vs_nsdp_qos_engine s of None \<Rightarrow> Inr [] | Some q \<Rightarrow> part d (one QOS_ENGINE (byte_of q)))
      = Inr (case vs_nsdp_qos_engine s of None \<Rightarrow> [] | Some q \<Rightarrow> sect d [mk_tlv QOS_ENGINE [word_of_int q]])" for d
    using c by (auto simp: settings_ok_def one_def u_fits_1 split: option.splits)
  have r: "(case vs_nsdp_port_mirroring_dest s of None \<Rightarrow> Inr []
       | Some x \<Rightarrow> part d (one PORT_MIRRORING (res_bind (byte_of x) (\<lambda>y. Inr (y @ b)))))
      = Inr (case vs_nsdp_port_mirroring_dest s of None \<Rightarrow> []
       | Some x \<Rightarrow> sect d [mk_tlv PORT_MIRRORING (word_of_int x # b)])" for d
    using c by (auto simp: settings_ok_def one_def u_fits_1 split: option.splits)
  have i: "byte_of (or_zero (vs_nsdp_igmp_snooping_vlan s)) = Inr [word_of_int (or_zero (vs_nsdp_igmp_snooping_vlan s))]"
    using c by (simp add: settings_ok_def u_fits_1)
  have i': "(case vs_nsdp_igmp_snooping_enabled s of None \<Rightarrow> Inr []
       | Some en \<Rightarrow> part d (one IGMP_SNOOPING (Inr ([0, bit_byte en, 0] @ v))))
      = Inr (case vs_nsdp_igmp_snooping_enabled s of None \<Rightarrow> []
       | Some en \<Rightarrow> sect d [mk_tlv IGMP_SNOOPING ([0, bit_byte en, 0] @ v)])" for d v
    by (simp add: one_def split: option.splits)
  have flag: "(case x of None \<Rightarrow> Inr [] | Some y \<Rightarrow> part d (one t (Inr [bit_byte y])))
      = Inr (case x of None \<Rightarrow> [] | Some y \<Rightarrow> sect d [mk_tlv t [bit_byte y]])" for d t x
    by (simp add: one_def split: option.splits)
  show ?thesis
    unfolding tlvs_after_salt_def Let_def tabs part_ok aton b res_bind_simps q r i i' flag
    by (simp add: answer_tables_def answer_settings_def one_def aton b cong: option.case_cong)
qed

lemma after_salt_rotate: "tlvs_after_salt m tags (rotate_salt fresh tags' s) = tlvs_after_salt m tags s"
  by (cases s) (simp only: rotate_salt_def tlvs_after_salt_def virtual_switch.update_convs
      virtual_switch.select_convs split: if_split, simp)

lemma nsdp_tlvs_ok:
  assumes "get_model (vs_model_key s) = Inr m" "nsdp_wf s"
  shows "nsdp_tlvs fresh tags s = (Inr (answer fresh m tags s), rotate_salt fresh tags s)"
proof -
  have w: "identity_ok m s" "tables_ok (bitmap_width (m_port_count m)) s" "mgmt_ok (vs_mgmt s)"
    "settings_ok (bitmap_width (m_port_count m)) s"
    using assms by (auto simp: nsdp_wf_def)
  then have "ascii_encode (model_text m s) = Inr (ascii_of (model_text m s))" "u_fits 4 (vs_nsdp_auth_version s)"
    by (simp_all add: identity_ok_def ascii_encode_text_ok settings_ok_def)
  moreover have "tlvs_after_salt m tags (rotate_salt fresh tags s) = Inr (answer_tables m tags s @ answer_settings m tags s)"
    unfolding after_salt_rotate by (rule after_salt_ok [OF w(2-4)])
  ultimately show ?thesis
    using assms(1) before_salt_ok [OF w(1)]
    by (simp add: nsdp_tlvs_def Let_def answer_def sect_def)
qed

section \<open>Parsing the answer\<close>

text \<open>The state as the client sees it: the requested fields, texts without trailing NULs.\<close>

definition view_text :: "bool \<Rightarrow> ustr \<Rightarrow> ustr option" where
  "view_text c t = (if c \<and> t \<noteq> [] then Some (nul_rstrip t) else None)"

definition view_addr :: "bool \<Rightarrow> ustr \<Rightarrow> ustr option" where
  "view_addr c a = (if c then Some (dotted (res_the (inet_aton a))) else None)"

definition device_view :: "tag set \<Rightarrow> switch_model \<Rightarrow> virtual_switch \<Rightarrow> nsdp_device" where
  "device_view tags m s =
     \<lparr>nd_model = nul_rstrip (model_text m s),
      nd_mac = colon_join (map hex2 (vs_nsdp_mac s)),
      nd_hostname = view_text (HOSTNAME \<in> tags) (vs_hostname s),
      nd_ip = view_addr (IP_ADDRESS \<in> tags) (mg_address (vs_mgmt s)),
      nd_netmask = view_addr (NETMASK \<in> tags) (mg_netmask (vs_mgmt s)),
      nd_gateway = view_addr (GATEWAY \<in> tags) (mg_gateway (vs_mgmt s)),
      nd_firmware_version = view_text (FIRMWARE_VER_1 \<in> tags) (vs_firmware s),
      nd_dhcp_enabled = (if DHCP_MODE \<in> tags then Some (mg_mode (vs_mgmt s) \<noteq> lit ''static'') else None),
      nd_port_count = (if PORT_COUNT \<in> tags then Some (m_port_count m) else None),
      nd_serial_number = view_text (SERIAL_NUMBER \<in> tags) (vs_serial s),
      nd_vlan_engine = None,
      nd_port_status = sect (PORT_STATUS \<in> tags) (map view_status (sorted_items (vs_ports s))),
      nd_port_names = sect (PORT_NAME \<in> tags) (map view_name (sorted_items (vs_ports s))),
      nd_port_statistics = sect (PORT_STATISTICS \<in> tags) (map view_statistics (sorted_items (vs_ports s))),
      nd_vlan_members = sect (VLAN_MEMBERS \<in> tags) (map view_vlan (sorted_items (vs_vlans s))),
      nd_port_pvids = sect (PORT_PVID \<in> tags) (map view_pvid (sorted_items (vs_pvids s))),
      nd_qos_engine = (if QOS_ENGINE \<in> tags then vs_nsdp_qos_engine s else None),
      nd_port_mirroring = (case vs_nsdp_port_mirroring_dest s of None \<Rightarrow> None
        | Some d \<Rightarrow> if PORT_MIRRORING \<in> tags
            then Some \<lparr>npm_destination_port = d, npm_source_ports = vs_nsdp_port_mirroring_sources s\<rparr>
            else None),
      nd_igmp_snooping = (case vs_nsdp_igmp_snooping_enabled s of None \<Rightarrow> None
        | Some en \<Rightarrow> if IGMP_SNOOPING \<in> tags
            then Some \<lparr>nis_enabled = en,
              nis_vlan_id = (let v = or_zero (vs_nsdp_igmp_snooping_vlan s) in if v = 0 then None else Some v)\<rparr>
            else None),
      nd_broadcast_filtering = (if BROADCAST_FILTERING \<in> tags then vs_nsdp_broadcast_filtering s else None),
      nd_loop_detection = (if LOOP_DETECTION \<in> tags then vs_nsdp_loop_detection s else None)\<rparr>"

lemma device_step_settings:
  "device_step pc a (mk_tlv FIRMWARE_VER_1 v) = Inr (with_dev a (nd_firmware_version_update (\<lambda>_. Some (decode_str v))))"
  "device_step pc a (mk_tlv SERIAL_NUMBER v)
     = res_bind (parse_serial v) (\<lambda>t. Inr (with_dev a (nd_serial_number_update (\<lambda>_. Some t))))"
  "device_step pc a (mk_tlv QOS_ENGINE [b]) = Inr (with_dev a (nd_qos_engine_update (\<lambda>_. Some (uint b))))"
  "device_step pc a (mk_tlv PORT_MIRRORING v)
     = res_bind (parse_port_mirroring v) (\<lambda>x. Inr (with_dev a (nd_port_mirroring_update (\<lambda>_. Some x))))"
  "device_step pc a (mk_tlv IGMP_SNOOPING v)
     = res_bind (parse_igmp_snooping v) (\<lambda>x. Inr (with_dev a (nd_igmp_snooping_update (\<lambda>_. Some x))))"
  "device_step pc a (mk_tlv BROADCAST_FILTERING [b])
     = Inr (with_dev a (nd_broadcast_filtering_update (\<lambda>_. Some (b \<noteq> 0))))"
  "device_step pc a (mk_tlv LOOP_DETECTION [b]) = Inr (with_dev a (nd_loop_detection_update (\<lambda>_. Some (b \<noteq> 0))))"
  "device_step pc a (mk_tlv AUTH_V2_ENCPASS v) = Inr a"
  "device_step pc a (mk_tlv AUTH_V2_SALT v) = Inr a"
  by (simp_all add: device_step_def)

text \<open>A section that is not sent updates nothing.\<close>

lemma same_update:
  "nd_hostname_update (\<lambda>x. x) d = d" "nd_ip_update (\<lambda>x. x) d = d" "nd_netmask_update (\<lambda>x. x) d = d"
  "nd_gateway_update (\<lambda>x. x) d = d" "nd_firmware_version_update (\<lambda>x. x) d = d"
  "nd_dhcp_enabled_update (\<lambda>x. x) d = d" "nd_port_count_update (\<lambda>x. x) d = d"
  "nd_serial_number_update (\<lambda>x. x) d = d" "nd_port_status_update (\<lambda>x. x) d = d"
  "nd_port_names_update (\<lambda>x. x) d = d" "nd_port_statistics_update (\<lambda>x. x) d = d"
  "nd_vlan_members_update (\<lambda>x. x) d = d" "nd_port_pvids_update (\<lambda>x. x) d = d"
  "nd_qos_engine_update (\<lambda>x. x) d = d" "nd_port_mirroring_update (\<lambda>x. x) d = d"
  "nd_igmp_snooping_update (\<lambda>x. x) d = d" "nd_broadcast_filtering_update (\<lambda>x. x) d = d"
  "nd_loop_detection_update (\<lambda>x. x) d = d"
  by (cases d; simp)+

lemma with_dev_same: "(\<And>d. f d = d) \<Longrightarrow> with_dev a f = a"
  by (cases a) (simp add: with_dev_def)

lemma with_dev_tables_same:
  "with_dev a (nd_port_status_update (\<lambda>x. x)) = a" "with_dev a (nd_port_names_update (\<lambda>x. x)) = a"
  "with_dev a (nd_port_statistics_update (\<lambda>x. x)) = a" "with_dev a (nd_vlan_members_update (\<lambda>x. x)) = a"
  "with_dev a (nd_port_pvids_update (\<lambda>x. x)) = a"
  by (simp_all add: with_dev_def same_update)

lemmas loop_eval = sect_def device_step_mk_tlv device_step_settings with_dev_same same_update

lemma loop_before:
  assumes "identity_ok m s"
  shows "device_loop pc (answer_before m tags s) empty_acc =
    Inr \<lparr>da_model = (if MODEL \<in> tags then Some (nul_rstrip (model_text m s)) else None),
        da_mac = (if MAC \<in> tags then Some (colon_join (map hex2 (vs_nsdp_mac s))) else None),
        da_dev = empty_device
          \<lparr>nd_port_count := if PORT_COUNT \<in> tags then Some (m_port_count m) else None,
           nd_serial_number := view_text (SERIAL_NUMBER \<in> tags) (vs_serial s),
           nd_hostname := view_text (HOSTNAME \<in> tags) (vs_hostname s),
           nd_firmware_version := view_text (FIRMWARE_VER_1 \<in> tags) (vs_firmware s)\<rparr>\<rparr>"
proof -
  have t: "text_ok (model_text m s)" "text_ok (vs_serial s)" "text_ok (vs_hostname s)" "text_ok (vs_firmware s)"
    and mac: "parse_mac (vs_nsdp_mac s) = Inr (colon_join (map hex2 (vs_nsdp_mac s)))"
    and pc: "0 \<le> m_port_count m" "m_port_count m < 256"
    using assms by (simp_all add: identity_ok_def parse_mac_def u_fits_1)
  have serial: "parse_serial (1 # ascii_of (vs_serial s)) = Inr (nul_rstrip (vs_serial s))"
    using t(2) by (simp add: parse_serial_def decode_str_ascii_of)
  show ?thesis
    unfolding answer_before_def device_loop_append
    using t mac pc serial
    by (simp add: loop_eval decode_str_ascii_of view_text_def empty_acc_def empty_device_def with_dev_def)
qed

lemma loop_tables:
  assumes t: "tables_ok (bitmap_width (m_port_count m)) s"
    and pc: "VLAN_MEMBERS \<in> tags \<longrightarrow> bitmap_width pc = bitmap_width (m_port_count m)"
  shows "device_loop pc (answer_tables m tags s) a = Inr (with_dev a (\<lambda>d. d
     \<lparr>nd_port_status := nd_port_status d @ sect (PORT_STATUS \<in> tags) (map view_status (sorted_items (vs_ports s))),
      nd_port_names := nd_port_names d @ sect (PORT_NAME \<in> tags) (map view_name (sorted_items (vs_ports s))),
      nd_port_statistics := nd_port_statistics d
        @ sect (PORT_STATISTICS \<in> tags) (map view_statistics (sorted_items (vs_ports s))),
      nd_vlan_members := nd_vlan_members d @ sect (VLAN_MEMBERS \<in> tags) (map view_vlan (sorted_items (vs_vlans s))),
      nd_port_pvids := nd_port_pvids d @ sect (PORT_PVID \<in> tags) (map view_pvid (sorted_items (vs_pvids s)))\<rparr>))"
proof -
  let ?w = "bitmap_width (m_port_count m)"
  note items = tables_ok_items [OF t]
  have v1: "parse_port_status (res_the (port_status_value x)) = Inr (view_status x)" if "x \<in> set (sorted_items (vs_ports s))" for x
    using port_status_value_ok [OF items(1)] that unfolding set_sorted_items by (metis res_the_Inr)
  have v2: "parse_port_name (res_the (port_name_value x)) = Inr (view_name x)" if "x \<in> set (sorted_items (vs_ports s))" for x
    using port_name_value_ok [OF items(1)] that unfolding set_sorted_items by (metis res_the_Inr)
  have v3: "parse_port_statistics (res_the (port_statistics_value x)) = Inr (view_statistics x)" if "x \<in> set (sorted_items (vs_ports s))" for x
    using port_statistics_value_ok [OF items(1)] that unfolding set_sorted_items by (metis res_the_Inr)
  have v5: "parse_port_pvid (res_the (port_pvid_value x)) = Inr (view_pvid x)" if "x \<in> set (sorted_items (vs_pvids s))" for x
    using port_pvid_value_ok [OF items(3)] that unfolding set_sorted_items by (metis res_the_Inr)
  have 1: "device_loop pc (sect c (map (\<lambda>x. mk_tlv PORT_STATUS (res_the (port_status_value x))) (sorted_items (vs_ports s)))) a
      = Inr (with_dev a (nd_port_status_update (\<lambda>ys. ys @ sect c (map view_status (sorted_items (vs_ports s))))))" for a c
    using device_loop_port_status [where xs = "sorted_items (vs_ports s)" and f = "\<lambda>x. res_the (port_status_value x)"
        and g = view_status, OF v1]
    by (cases c) (simp_all add: sect_def with_dev_tables_same)
  have 2: "device_loop pc (sect c (map (\<lambda>x. mk_tlv PORT_NAME (res_the (port_name_value x))) (sorted_items (vs_ports s)))) a
      = Inr (with_dev a (nd_port_names_update (\<lambda>ys. ys @ sect c (map view_name (sorted_items (vs_ports s))))))" for a c
    using device_loop_port_names [where xs = "sorted_items (vs_ports s)" and f = "\<lambda>x. res_the (port_name_value x)"
        and g = view_name, OF v2]
    by (cases c) (simp_all add: sect_def with_dev_tables_same)
  have 3: "device_loop pc (sect c (map (\<lambda>x. mk_tlv PORT_STATISTICS (res_the (port_statistics_value x))) (sorted_items (vs_ports s)))) a
      = Inr (with_dev a (nd_port_statistics_update (\<lambda>ys. ys @ sect c (map view_statistics (sorted_items (vs_ports s))))))" for a c
    using device_loop_port_statistics [where xs = "sorted_items (vs_ports s)" and f = "\<lambda>x. res_the (port_statistics_value x)"
        and g = view_statistics, OF v3]
    by (cases c) (simp_all add: sect_def with_dev_tables_same)
  have 4: "device_loop pc (sect (VLAN_MEMBERS \<in> tags) (map (\<lambda>x. mk_tlv VLAN_MEMBERS (res_the (vlan_members_value ?w x))) (sorted_items (vs_vlans s)))) a
      = Inr (with_dev a (nd_vlan_members_update (\<lambda>ys. ys @ sect (VLAN_MEMBERS \<in> tags) (map view_vlan (sorted_items (vs_vlans s))))))" for a
  proof (cases "VLAN_MEMBERS \<in> tags")
    case True
    have v4: "parse_vlan_members (res_the (vlan_members_value ?w x)) pc = Inr (view_vlan x)"
      if x: "x \<in> set (sorted_items (vs_vlans s))" for x
    proof -
      have "vlan_ok ?w x" using x by (intro items(2)) simp
      from vlan_members_value_ok [OF this pc [rule_format, OF True, symmetric]] show ?thesis
        by (elim exE conjE) (simp only: res_the_Inr)
    qed
    show ?thesis
      using device_loop_vlan_members [where xs = "sorted_items (vs_vlans s)" and g = view_vlan
          and f = "\<lambda>x. res_the (vlan_members_value ?w x)", OF v4] True by (simp add: sect_def)
  qed (simp add: sect_def with_dev_tables_same)
  have 5: "device_loop pc (sect c (map (\<lambda>x. mk_tlv PORT_PVID (res_the (port_pvid_value x))) (sorted_items (vs_pvids s)))) a
      = Inr (with_dev a (nd_port_pvids_update (\<lambda>ys. ys @ sect c (map view_pvid (sorted_items (vs_pvids s))))))" for a c
    using device_loop_port_pvids [where xs = "sorted_items (vs_pvids s)" and f = "\<lambda>x. res_the (port_pvid_value x)"
        and g = view_pvid, OF v5]
    by (cases c) (simp_all add: sect_def with_dev_tables_same)
  show ?thesis
    unfolding answer_tables_def device_loop_append 1 2 3 4 5 res_bind_simps with_dev_with_dev
    by (intro arg_cong [where f = "\<lambda>u. Inr (with_dev a u)"] ext nsdp_device.equality) simp_all
qed

lemma loop_settings:
  assumes g: "mgmt_ok (vs_mgmt s)" and c: "settings_ok (bitmap_width (m_port_count m)) s"
  shows "device_loop pc (answer_settings m tags s) a = Inr (with_dev a (\<lambda>d. d
     \<lparr>nd_ip := if IP_ADDRESS \<in> tags then view_addr True (mg_address (vs_mgmt s)) else nd_ip d,
      nd_netmask := if NETMASK \<in> tags then view_addr True (mg_netmask (vs_mgmt s)) else nd_netmask d,
      nd_gateway := if GATEWAY \<in> tags then view_addr True (mg_gateway (vs_mgmt s)) else nd_gateway d,
      nd_dhcp_enabled := if DHCP_MODE \<in> tags then Some (mg_mode (vs_mgmt s) \<noteq> lit ''static'') else nd_dhcp_enabled d,
      nd_qos_engine := (case nd_qos_engine (device_view tags m s) of None \<Rightarrow> nd_qos_engine d | Some x \<Rightarrow> Some x),
      nd_port_mirroring := (case nd_port_mirroring (device_view tags m s) of None \<Rightarrow> nd_port_mirroring d | Some x \<Rightarrow> Some x),
      nd_igmp_snooping := (case nd_igmp_snooping (device_view tags m s) of None \<Rightarrow> nd_igmp_snooping d | Some x \<Rightarrow> Some x),
      nd_broadcast_filtering := (case nd_broadcast_filtering (device_view tags m s) of None \<Rightarrow> nd_broadcast_filtering d | Some x \<Rightarrow> Some x),
      nd_loop_detection := (case nd_loop_detection (device_view tags m s) of None \<Rightarrow> nd_loop_detection d | Some x \<Rightarrow> Some x)\<rparr>))"
proof -
  obtain a1 a2 a3 where aton: "inet_aton (mg_address (vs_mgmt s)) = Inr a1"
    "inet_aton (mg_netmask (vs_mgmt s)) = Inr a2" "inet_aton (mg_gateway (vs_mgmt s)) = Inr a3"
    using g by (auto simp: mgmt_ok_def aton_ok_def split: sum.splits)
  then have p: "parse_ipv4 a1 = Inr (dotted a1)" "parse_ipv4 a2 = Inr (dotted a2)" "parse_ipv4 a3 = Inr (dotted a3)"
    using inet_aton_length by (auto simp: parse_ipv4_def inet_ntoa_def)
  obtain b where b: "ports_to_bitmap (sorted_list_of_set (vs_nsdp_port_mirroring_sources s))
      (bitmap_width (m_port_count m)) = Inr b" "bitmap_to_ports b = vs_nsdp_port_mirroring_sources s"
    using set_to_bitmap [of "vs_nsdp_port_mirroring_sources s" "bitmap_width (m_port_count m)"] c
    by (auto simp: settings_ok_def)
  have q: "device_loop pc (case vs_nsdp_qos_engine s of None \<Rightarrow> []
        | Some q \<Rightarrow> sect (QOS_ENGINE \<in> tags) [mk_tlv QOS_ENGINE [word_of_int q]]) a
      = Inr (with_dev a (nd_qos_engine_update (\<lambda>o1. case nd_qos_engine (device_view tags m s) of None \<Rightarrow> o1 | Some x \<Rightarrow> Some x)))" for a
    using c by (auto simp: loop_eval device_view_def settings_ok_def u_fits_1 split: option.splits)
  have r: "device_loop pc (case vs_nsdp_port_mirroring_dest s of None \<Rightarrow> []
        | Some x \<Rightarrow> sect (PORT_MIRRORING \<in> tags) [mk_tlv PORT_MIRRORING (word_of_int x # b)]) a
      = Inr (with_dev a (nd_port_mirroring_update (\<lambda>o1. case nd_port_mirroring (device_view tags m s) of None \<Rightarrow> o1 | Some x \<Rightarrow> Some x)))" for a
    using c b by (auto simp: loop_eval device_view_def settings_ok_def u_fits_1 parse_port_mirroring_def split: option.splits)
  have i: "device_loop pc (case vs_nsdp_igmp_snooping_enabled s of None \<Rightarrow> []
        | Some en \<Rightarrow> sect (IGMP_SNOOPING \<in> tags) [mk_tlv IGMP_SNOOPING
            [0, bit_byte en, 0, word_of_int (or_zero (vs_nsdp_igmp_snooping_vlan s))]]) a
      = Inr (with_dev a (nd_igmp_snooping_update (\<lambda>o1. case nd_igmp_snooping (device_view tags m s) of None \<Rightarrow> o1 | Some x \<Rightarrow> Some x)))" for a
  proof -
    let ?v = "or_zero (vs_nsdp_igmp_snooping_vlan s)"
    have "0 \<le> ?v" "?v < 256" using c by (simp_all add: settings_ok_def u_fits_1)
    moreover from this have "(word_of_int ?v :: byte) = 0 \<longleftrightarrow> ?v = 0"
      by (metis uint_of_int_byte uint_0_eq word_of_int_0)
    ultimately show ?thesis
      by (auto simp: loop_eval device_view_def parse_igmp_snooping_def Let_def split: option.splits)
  qed
  have bc: "device_loop pc (case vs_nsdp_broadcast_filtering s of None \<Rightarrow> []
        | Some b \<Rightarrow> sect (BROADCAST_FILTERING \<in> tags) [mk_tlv BROADCAST_FILTERING [bit_byte b]]) a
      = Inr (with_dev a (nd_broadcast_filtering_update (\<lambda>o1. case nd_broadcast_filtering (device_view tags m s) of None \<Rightarrow> o1 | Some x \<Rightarrow> Some x)))" for a
    by (auto simp: loop_eval device_view_def split: option.splits)
  have ld: "device_loop pc (case vs_nsdp_loop_detection s of None \<Rightarrow> []
        | Some b \<Rightarrow> sect (LOOP_DETECTION \<in> tags) [mk_tlv LOOP_DETECTION [bit_byte b]]) a
      = Inr (with_dev a (nd_loop_detection_update (\<lambda>o1. case nd_loop_detection (device_view tags m s) of None \<Rightarrow> o1 | Some x \<Rightarrow> Some x)))" for a
    by (auto simp: loop_eval device_view_def split: option.splits)
  have ip: "device_loop pc (sect d [mk_tlv IP_ADDRESS a1]) a
      = Inr (with_dev a (nd_ip_update (\<lambda>o1. if d then Some (dotted a1) else o1)))"
    "device_loop pc (sect d [mk_tlv NETMASK a2]) a
      = Inr (with_dev a (nd_netmask_update (\<lambda>o1. if d then Some (dotted a2) else o1)))"
    "device_loop pc (sect d [mk_tlv GATEWAY a3]) a
      = Inr (with_dev a (nd_gateway_update (\<lambda>o1. if d then Some (dotted a3) else o1)))"
    "device_loop pc (sect d [mk_tlv DHCP_MODE [if st then 0 else 1]]) a
      = Inr (with_dev a (nd_dhcp_enabled_update (\<lambda>o1. if d then Some (\<not> st) else o1)))" for a d st
    using p by (auto simp: loop_eval)
  show ?thesis
    unfolding answer_settings_def device_loop_append aton b(1) res_the_Inr ip q r i bc ld res_bind_simps
      with_dev_with_dev view_addr_def
    by (intro arg_cong [where f = "\<lambda>u. Inr (with_dev a u)"] ext nsdp_device.equality) simp_all
qed

section \<open>Reads tell the truth\<close>

lemma foldl_port_count_skip:
  "\<forall>e \<in> set es. \<not> tag_is (tlv_tag e) PORT_COUNT \<Longrightarrow>
   foldl (\<lambda>n e. if tag_is (tlv_tag e) PORT_COUNT \<and> tlv_value e \<noteq> [] then uint (tlv_value e ! 0) else n) n es = n"
  by (induction es arbitrary: n) auto

lemma answer_tables_tags: "e \<in> set (answer_tables m tags s) \<Longrightarrow>
   \<exists>t \<in> tags. tlv_tag e = Known t \<and> t \<in> {PORT_STATUS, PORT_NAME, PORT_STATISTICS, VLAN_MEMBERS, PORT_PVID}"
  by (auto simp: answer_tables_def split: if_splits)

lemma answer_settings_tags: "e \<in> set (answer_settings m tags s) \<Longrightarrow>
   \<exists>t \<in> tags. tlv_tag e = Known t \<and> t \<in> {IP_ADDRESS, NETMASK, GATEWAY, DHCP_MODE, QOS_ENGINE,
     PORT_MIRRORING, IGMP_SNOOPING, BROADCAST_FILTERING, LOOP_DETECTION}"
  by (auto simp: answer_settings_def split: if_splits option.splits)

lemma answer_before_tags: "e \<in> set (answer_before m tags s) \<Longrightarrow>
   \<exists>t \<in> tags. tlv_tag e = Known t \<and> t \<in> {MODEL, MAC, PORT_COUNT, SERIAL_NUMBER, HOSTNAME,
     FIRMWARE_VER_1, AUTH_V2_ENCPASS}"
  unfolding answer_before_def set_append by (elim UnE) (simp_all split: if_splits)

lemma answer_tags: "e \<in> set (answer fresh m tags s) \<Longrightarrow> \<exists>t \<in> tags. tlv_tag e = Known t"
  unfolding answer_def set_append
  by (elim UnE) (drule answer_before_tags, blast, simp split: if_splits, drule answer_tables_tags, blast,
      drule answer_settings_tags, blast)

lemma learn_port_count_answer:
  assumes "identity_ok m s"
  shows "learn_port_count (answer fresh m tags s) = (if PORT_COUNT \<in> tags then m_port_count m else 8)"
proof -
  have "0 \<le> m_port_count m" "m_port_count m < 256" using assms by (simp_all add: identity_ok_def u_fits_1)
  moreover have "\<not> tag_is (tlv_tag e) PORT_COUNT"
    if "e \<in> set (answer_tables m tags s) \<union> set (answer_settings m tags s)" for e
    using that answer_tables_tags [of e m tags s] answer_settings_tags [of e m tags s] by auto
  ultimately show ?thesis
    by (simp add: learn_port_count_def answer_def answer_before_def foldl_port_count_skip sect_def)
qed

lemma with_dev_acc:
  "with_dev \<lparr>da_model = x, da_mac = y, da_dev = d\<rparr> f = \<lparr>da_model = x, da_mac = y, da_dev = f d\<rparr>"
  by (simp add: with_dev_def)

lemma finish_device_Some:
  "parse_mac sm = Inr mac \<Longrightarrow>
   finish_device sm \<lparr>da_model = Some x, da_mac = (if c then Some mac else None), da_dev = d\<rparr>
     = Inr (d\<lparr>nd_model := x, nd_mac := mac\<rparr>)"
  by (simp add: finish_device_def)

lemma option_keep: "(case x of None \<Rightarrow> None | Some y \<Rightarrow> Some y) = x"
  by (cases x) simp_all

lemma parse_answer:
  assumes w: "nsdp_wf s" and m: "get_model (vs_model_key s) = Inr m" and "MODEL \<in> tags"
    and vlan: "VLAN_MEMBERS \<in> tags \<longrightarrow> PORT_COUNT \<in> tags"
    and p: "pk_tlvs p = answer fresh m tags s" "pk_server_mac p = vs_nsdp_mac s"
  shows "parse_device p = Inr (device_view tags m s)"
proof -
  have ok: "identity_ok m s" "tables_ok (bitmap_width (m_port_count m)) s" "mgmt_ok (vs_mgmt s)"
    "settings_ok (bitmap_width (m_port_count m)) s"
    using w m by (auto simp: nsdp_wf_def)
  define pc where "pc = learn_port_count (answer fresh m tags s)"
  have pcw: "VLAN_MEMBERS \<in> tags \<longrightarrow> bitmap_width pc = bitmap_width (m_port_count m)"
    using vlan by (simp add: pc_def learn_port_count_answer [OF ok(1)])
  have salt: "device_loop pc (sect (AUTH_V2_SALT \<in> tags) [mk_tlv AUTH_V2_SALT fresh]) a = Inr a" for a
    by (simp add: sect_def device_step_settings)
  have mac: "parse_mac (vs_nsdp_mac s) = Inr (colon_join (map hex2 (vs_nsdp_mac s)))"
    using ok(1) by (simp add: parse_mac_def identity_ok_def)
  have "parse_device p = res_bind (device_loop pc (answer fresh m tags s) empty_acc) (finish_device (vs_nsdp_mac s))"
    by (simp add: parse_device_def p pc_def)
  also have "\<dots> = Inr (device_view tags m s)"
    unfolding answer_def device_loop_append loop_before [OF ok(1)] res_bind_simps salt
      loop_tables [OF ok(2) pcw] loop_settings [OF ok(3,4)] with_dev_with_dev
      if_P [OF \<open>MODEL \<in> tags\<close>] with_dev_acc finish_device_Some [OF mac]
    by (rule arg_cong [where f = Inr], rule nsdp_device.equality)
      (simp_all add: device_view_def empty_device_def view_addr_def option_keep cong: option.case_cong)
  finally show ?thesis .
qed

section \<open>Answers fit the wire\<close>

lemma text_ok_length: "text_ok t \<Longrightarrow> length (ascii_of t) < 65000"
  by (simp add: text_ok_def ascii_of_def)

lemma answer_encodable:
  assumes w: "nsdp_wf s" and m: "get_model (vs_model_key s) = Inr m" and f: "length fresh < 65536"
    and e: "e \<in> set (answer fresh m tags s)"
  shows "tlv_ok e"
proof -
  let ?w = "bitmap_width (m_port_count m)"
  have ok: "identity_ok m s" "tables_ok ?w s" "mgmt_ok (vs_mgmt s)" "settings_ok ?w s"
    using w m by (auto simp: nsdp_wf_def)
  have "0 \<le> m_port_count m" "m_port_count m < 256"
    using ok(1) by (simp_all add: identity_ok_def u_fits_1)
  then have w32: "?w \<le> 32" unfolding bitmap_width_def by linarith
  note items = tables_ok_items [OF ok(2)]
  from e consider "e \<in> set (answer_before m tags s)" | "e = mk_tlv AUTH_V2_SALT fresh"
    | "e \<in> set (answer_tables m tags s)" | "e \<in> set (answer_settings m tags s)"
    by (auto simp: answer_def split: if_splits)
  then show ?thesis
  proof cases
    case 1
    have t: "length (ascii_of (model_text m s)) < 65000" "length (ascii_of (vs_serial s)) < 65000"
      "length (ascii_of (vs_hostname s)) < 65000" "length (ascii_of (vs_firmware s)) < 65000"
      "length (vs_nsdp_mac s) = 6"
      using ok(1) text_ok_length by (auto simp: identity_ok_def)
    from 1 show ?thesis
      unfolding answer_before_def set_append by (elim UnE) (use t in \<open>simp_all split: if_splits\<close>)
  next
    case 2
    then show ?thesis using f by simp
  next
    case 3
    have "length (res_the (port_status_value x)) < 65536" "length (res_the (port_name_value x)) < 65536"
      "length (res_the (port_statistics_value x)) < 65536" if "x \<in> set (vs_ports s)" for x
      using port_status_value_ok [OF items(1) [OF that]] port_name_value_ok [OF items(1) [OF that]]
        port_statistics_value_ok [OF items(1) [OF that]] by auto
    moreover have "length (res_the (vlan_members_value ?w x)) < 65536" if x: "x \<in> set (vs_vlans s)" for x
    proof -
      obtain v where "vlan_members_value ?w x = Inr v" "length v = 2 + 2 * ?w"
        using vlan_members_value_ok [OF items(2) [OF x] refl] by blast
      then show ?thesis using w32 by simp
    qed
    moreover have "length (res_the (port_pvid_value x)) < 65536" if "x \<in> set (vs_pvids s)" for x
      using port_pvid_value_ok [OF items(3) [OF that]] by auto
    ultimately show ?thesis
      using 3 unfolding answer_tables_def set_append
      by (elim UnE) (auto split: if_splits)
  next
    case 4
    obtain a1 a2 a3 where aton: "inet_aton (mg_address (vs_mgmt s)) = Inr a1"
      "inet_aton (mg_netmask (vs_mgmt s)) = Inr a2" "inet_aton (mg_gateway (vs_mgmt s)) = Inr a3"
      using ok(3) by (auto simp: mgmt_ok_def aton_ok_def split: sum.splits)
    then have "length a1 = 4" "length a2 = 4" "length a3 = 4" using inet_aton_length by blast+
    moreover obtain b where "ports_to_bitmap (sorted_list_of_set (vs_nsdp_port_mirroring_sources s)) ?w = Inr b"
      "length b = ?w"
      using set_to_bitmap [of "vs_nsdp_port_mirroring_sources s" ?w] ok(4) by (auto simp: settings_ok_def)
    ultimately show ?thesis
      using 4 w32 unfolding answer_settings_def set_append aton
      by (elim UnE) (auto split: if_splits option.splits)
  qed
qed

section \<open>Writes keep the state well formed\<close>

lemma nsdp_wf_key_cong:
  assumes "nsdp_wf s" and "get_model (vs_model_key s) = Inr m"
    and "vs_model_key s' = vs_model_key s" "identity_ok m s'" "tables_ok (bitmap_width (m_port_count m)) s'"
    "mgmt_ok (vs_mgmt s')" "settings_ok (bitmap_width (m_port_count m)) s'"
  shows "nsdp_wf s'"
  using assms by (simp add: nsdp_wf_def)

lemma unpack2_fits: "unpack_uint_from 2 v off = Inr n \<Longrightarrow> u_fits 2 n"
proof -
  assume "unpack_uint_from 2 v off = Inr n"
  then have "n = be_int (take 2 (drop off v))" "length (take 2 (drop off v)) = 2"
    by (auto simp: unpack_uint_from_def split: if_splits)
  then show ?thesis using be_int_upper [of "take 2 (drop off v)"] by (simp add: u_fits_2)
qed

lemma byte_at_fits: "byte_at v i = Inr n \<Longrightarrow> u_fits (Suc 0) n"
  by (auto simp: byte_at_def u_fits_1 split: if_splits)

lemma parse_vlan_members_vlan_ok:
  assumes "parse_vlan_members v n = Inr x"
  shows "vlan_ok (bitmap_width n) (nvm_vlan_id x, mk_vlan_sim name (nvm_member_ports x) (untagged_ports x))"
proof -
  let ?w = "bitmap_width n"
  have "p \<le> 8 * int ?w" if "p \<in> bitmap_to_ports (take ?w v')" for p v'
    using bitmap_to_ports_range [OF that] by (simp add: min_def split: if_splits)
  moreover have "1 \<le> p" if "p \<in> bitmap_to_ports v'" for p v'
    using bitmap_to_ports_range [OF that] by simp
  moreover have "u_fits 2 (nvm_vlan_id x)"
    using assms by (auto simp: parse_vlan_members_def Let_def res_iff simp del: unpack_uint_from_ok
        dest: unpack2_fits split: if_splits)
  ultimately show ?thesis
    using assms
    by (auto simp: parse_vlan_members_def Let_def res_iff vlan_ok_def mk_vlan_sim_def untagged_ports_def
        split: if_splits)
qed

lemma utf8_loop_length: "length (utf8_loop bs) \<le> length bs"
  by (induction bs rule: utf8_loop.induct) (auto simp: le_diff_conv)

lemma description_ok:
  assumes "length v \<le> 16000"
  shows "list_all is_scalar (nul_rstrip (utf8_decode_replace v))
    \<and> length (nul_rstrip (utf8_decode_replace v)) \<le> 16000"
proof -
  have "set (nul_rstrip (utf8_decode_replace v)) \<subseteq> set (utf8_decode_replace v)"
    unfolding nul_rstrip_def by (auto dest: set_dropWhileD)
  then have "list_all is_scalar (nul_rstrip (utf8_decode_replace v))"
    using utf8_loop_scalar by (auto simp: list_all_iff utf8_decode_replace_def)
  moreover have "length (nul_rstrip (utf8_decode_replace v)) \<le> length (utf8_decode_replace v)"
    unfolding nul_rstrip_def by (simp add: length_dropWhile_le [of _ "rev x" for x, simplified])
  moreover have "length (utf8_decode_replace v) \<le> length v"
    using utf8_loop_length [of "map unat v"] by (simp add: utf8_decode_replace_def)
  ultimately show ?thesis using assms by simp
qed

lemma inet_ntoa_aton_ok: "inet_ntoa v = Inr a \<Longrightarrow> aton_ok a"
  by (auto simp: inet_ntoa_def aton_ok_def inet_aton_dotted split: if_splits)

lemma frame:
  "identity_ok m (s\<lparr>vs_pvids := a\<rparr>) = identity_ok m s" "settings_ok w (s\<lparr>vs_pvids := a\<rparr>) = settings_ok w s"
  "identity_ok m (s\<lparr>vs_vlans := b\<rparr>) = identity_ok m s" "settings_ok w (s\<lparr>vs_vlans := b\<rparr>) = settings_ok w s"
  "identity_ok m (s\<lparr>vs_ports := c\<rparr>) = identity_ok m s" "settings_ok w (s\<lparr>vs_ports := c\<rparr>) = settings_ok w s"
  "identity_ok m (s\<lparr>vs_mgmt := d\<rparr>) = identity_ok m s" "settings_ok w (s\<lparr>vs_mgmt := d\<rparr>) = settings_ok w s"
  "identity_ok m (s\<lparr>vs_nsdp_last_salt := e\<rparr>) = identity_ok m s"
  "settings_ok w (s\<lparr>vs_nsdp_last_salt := e\<rparr>) = settings_ok w s"
  "identity_ok m (s\<lparr>vs_nsdp_auth_failures := f\<rparr>) = identity_ok m s"
  "settings_ok w (s\<lparr>vs_nsdp_auth_failures := f\<rparr>) = settings_ok w s"
  unfolding identity_ok_def model_text_def settings_ok_def by simp_all

lemma nsdp_wf_auth_frame [simp]:
  "nsdp_wf (s\<lparr>vs_nsdp_last_salt := e\<rparr>) = nsdp_wf s"
  "nsdp_wf (s\<lparr>vs_nsdp_auth_failures := f\<rparr>) = nsdp_wf s"
  by (simp_all add: nsdp_wf_def frame tables_ok_def cong: sum.case_cong)

lemma apply_nsdp_write_wf:
  assumes w: "nsdp_wf s" and len: "length val \<le> 16000" and ap: "apply_nsdp_write t val s = Inr s'"
  shows "nsdp_wf s'"
proof -
  obtain m where m: "get_model (vs_model_key s) = Inr m" and ok: "identity_ok m s"
    "tables_ok (bitmap_width (m_port_count m)) s" "mgmt_ok (vs_mgmt s)"
    "settings_ok (bitmap_width (m_port_count m)) s"
    using w by (rule nsdp_wfE)
  let ?w = "bitmap_width (m_port_count m)"
  note keep = nsdp_wf_key_cong [OF w m]
  have pvid: "nsdp_wf (s\<lparr>vs_pvids := dict_set p v (vs_pvids s)\<rparr>)"
    if "u_fits (Suc 0) p" "u_fits 2 v" for p v
    using ok that by (intro keep) (simp_all add: frame tables_ok_def, simp add: pvid_ok_def)
  have vlan: "nsdp_wf (s\<lparr>vs_vlans := dict_set v x (vs_vlans s)\<rparr>)" if "vlan_ok ?w (v, x)" for v x
    using ok that by (intro keep) (simp_all add: frame tables_ok_def)
  have mgmt: "nsdp_wf (with_mgmt f s)" if "mgmt_ok (f (vs_mgmt s))" for f
    using ok that by (intro keep) (simp_all add: with_mgmt_def frame tables_ok_def)
  have destroy: "nsdp_wf (destroy_vlan v s)" for v
  proof -
    have "list_all pvid_ok (map (\<lambda>(port, pv). (port, if pv = v then 1 else pv)) (vs_pvids s))"
      using ok(2) by (auto simp: tables_ok_def list_all_iff pvid_ok_def u_fits_2)
    then show ?thesis
      using ok w by (cases "dict_get (vs_vlans s) v = None")
        (auto simp: destroy_vlan_def frame tables_ok_def intro!: keep)
  qed
  have name: "nsdp_wf (s\<lparr>vs_ports := dict_set p (sim\<lparr>pt_description := or_none (nul_rstrip (utf8_decode_replace v))\<rparr>) (vs_ports s)\<rparr>)"
    if "dict_get (vs_ports s) p = Some sim" "length v \<le> 16000" for p sim v
  proof -
    have "port_ok (p, sim)" using ok(2) that(1) by (auto simp: tables_ok_def dest: list_all_dict_get)
    then have "port_ok (p, sim\<lparr>pt_description := or_none (nul_rstrip (utf8_decode_replace v))\<rparr>)"
      using description_ok [OF that(2)] by (auto simp: port_ok_def or_none_def)
    then show ?thesis
      using ok by (intro keep) (simp_all add: frame tables_ok_def)
  qed
  have len1: "length (drop 1 val) \<le> 16000" using len by simp
  show ?thesis
    using ap w ok(3) len1 unpack2_fits [of val] byte_at_fits [of val] inet_ntoa_aton_ok [of val]
      parse_vlan_members_vlan_ok [of val "m_port_count m"]
    by (auto simp: apply_nsdp_write_def m Let_def res_iff mgmt_ok_def simp del: unpack_uint_from_ok byte_at_ok
        split: if_splits option.splits intro!: pvid vlan mgmt destroy name)
qed

section \<open>The two contracts\<close>

definition sample_switch :: virtual_switch where
  "sample_switch = (mk_virtual_switch ''gs110emx'')
     \<lparr>vs_ports := [(1, mk_port_sim (lit ''g1'') True True 1000), (2, mk_port_sim (lit ''g2'') True False 0)],
      vs_vlans := [(1, mk_vlan_sim [] {1, 2} {1, 2}), (90, mk_vlan_sim [] {2} {})],
      vs_pvids := [(1, 1), (2, 1)], vs_hostname := lit ''switch''\<rparr>"

lemma get_model_gs110emx: "get_model ''gs110emx'' = Inr gs110emx"
  using get_model_registered [of gs110emx] by (simp add: registered_def model_defs)

lemma aton_ok_zero: "aton_ok (lit ''0.0.0.0'')"
proof -
  have "dotted [0, 0, 0, 0] = lit ''0.0.0.0''" by (simp add: dotted_def lit_def show_nat.simps [of 0])
  then show ?thesis using inet_aton_dotted [of "[0, 0, 0, 0]"] by (simp add: aton_ok_def)
qed

lemma sample_switch_wf: "nsdp_wf sample_switch"
proof -
  have w: "bitmap_width (m_port_count gs110emx) = 2"
    by (simp add: model_defs bitmap_width_def)
  have "identity_ok gs110emx sample_switch"
    by (simp add: identity_ok_def model_text_def sample_switch_def mk_virtual_switch_def text_ok_def
        is_ascii_def lit_def model_defs u_fits_1)
  moreover have "tables_ok 2 sample_switch"
    by (simp add: tables_ok_def sample_switch_def mk_virtual_switch_def dict_wf_def port_ok_def vlan_ok_def
        pvid_ok_def mk_port_sim_def mk_vlan_sim_def u_fits_def or_zero_def)
  moreover have "mgmt_ok (vs_mgmt sample_switch)"
    using aton_ok_zero by (simp add: mgmt_ok_def sample_switch_def mk_virtual_switch_def)
  moreover have "settings_ok 2 sample_switch"
    by (simp add: settings_ok_def sample_switch_def mk_virtual_switch_def u_fits_def or_zero_def)
  ultimately show ?thesis
    using get_model_gs110emx w by (simp add: nsdp_wf_def sample_switch_def mk_virtual_switch_def)
qed



text \<open>
  No accepted write can make the switch unreadable: applying any entry of up
  to 16000 bytes (a request datagram has at most 4096) to a well-formed state
  gives a well-formed state, on which every read is answered again.
\<close>

lemma nsdp_write_keeps_readable:
  assumes "nsdp_wf s" and "length v \<le> 16000" and "apply_nsdp_write t v s = Inr s'"
  shows "nsdp_wf s' \<and> (\<exists>ts. fst (nsdp_tlvs fresh tags s') = Inr ts)"
proof -
  have w: "nsdp_wf s'" using assms by (rule apply_nsdp_write_wf)
  then obtain m where "get_model (vs_model_key s') = Inr m" by (rule nsdp_wfE)
  with w show ?thesis by (simp add: nsdp_tlvs_ok)
qed

lemma nsdp_write_keeps_readable_witness:
  "\<exists>s'. apply_nsdp_write (Known VLAN_DESTROY) [0, 90] sample_switch = Inr s' \<and> nsdp_wf s'"
proof -
  have m: "get_model (vs_model_key sample_switch) = Inr gs110emx"
    using get_model_gs110emx by (simp add: sample_switch_def mk_virtual_switch_def)
  have "apply_nsdp_write (Known VLAN_DESTROY) [0, 90] sample_switch = Inr (destroy_vlan 90 sample_switch)"
    by (simp add: apply_nsdp_write_def m Let_def be_int_def)
  moreover from this have "nsdp_wf (destroy_vlan 90 sample_switch)"
    using nsdp_write_keeps_readable [OF sample_switch_wf, of "[0, 90]" "Known VLAN_DESTROY"] by simp
  ultimately show ?thesis by blast
qed

end
