(* ===== verification/Virtual_Face.thy ===== *)
theory Virtual_Face
  imports Virtual_Nsdp_View
begin

text \<open>
  The UDP responder of the virtual switch (\<open>virtual/faces/nsdp.py\<close>): reads, the
  two write-authentication schemes, the lockout, and one turn of the serving
  loop. The states it can reach are an inductive relation.
\<close>

definition V2_ESCALATE_AT :: int where
  "V2_ESCALATE_AT = 3"

definition V2_SILENCE_AT :: int where
  "V2_SILENCE_AT = 5"

definition WRITE_ONLY_TAGS :: "tag set" where
  "WRITE_ONLY_TAGS = {AUTH_V2_PASSWORD}"

text \<open>\<open>{t.tag for t in req.tlvs if isinstance(t.tag, Tag)}\<close>\<close>

definition known_tags :: "tlv list \<Rightarrow> tag set" where
  "known_tags es = set (concat (map (\<lambda>e. case tlv_tag e of Known t \<Rightarrow> [t] | Raw _ \<Rightarrow> []) es))"

definition read_response :: "bytes \<Rightarrow> nsdp_packet \<Rightarrow> (virtual_switch, exn, nsdp_packet) io" where
  "read_response fresh req s =
     (let tags = known_tags (pk_tlvs req);
          resp = mk_packet READ_RESPONSE (pk_client_mac req) (vs_nsdp_mac s) (pk_sequence req);
          write_only = WRITE_ONLY_TAGS \<inter> tags
      in if write_only \<noteq> {}
         then (Inr (resp\<lparr>pk_result := RESULT_READONLY, pk_error_attr := tag_code (the_elem write_only)\<rparr>), s)
         else case nsdp_tlvs fresh tags s of
                (Inl e, s') \<Rightarrow> (Inl e, s')
              | (Inr ts, s') \<Rightarrow>
                  (Inr (if ts = [] \<and> length (pk_tlvs req) = 1
                            \<and> \<not> tag_is (tlv_tag (pk_tlvs req ! 0)) END_OF_MARK
                        then resp\<lparr>pk_tlvs := ts, pk_result := RESULT_READONLY,
                                  pk_error_attr := tag_int (tlv_tag (pk_tlvs req ! 0))\<rparr>
                        else resp\<lparr>pk_tlvs := ts\<rparr>), s'))"

definition write_resp :: "nsdp_packet \<Rightarrow> virtual_switch \<Rightarrow> int \<Rightarrow> int \<Rightarrow> nsdp_packet" where
  "write_resp req s result attr =
     (mk_packet WRITE_RESPONSE (pk_client_mac req) (vs_nsdp_mac s) (pk_sequence req))
       \<lparr>pk_result := result, pk_error_attr := attr\<rparr>"

definition write_response_v1 :: "nsdp_packet \<Rightarrow> (virtual_switch, exn, nsdp_packet option) io" where
  "write_response_v1 req s =
     (case encode_password_v1 (vs_nsdp_password s) of
        Inl e \<Rightarrow> (Inl e, s)
      | Inr expected \<Rightarrow>
          let password_ok = list_ex (\<lambda>e. tag_is (tlv_tag e) PASSWORD \<and> tlv_value e = expected) (pk_tlvs req)
          in if \<not> password_ok
             then (Inr (Some (write_resp req s RESULT_BAD_PASSWORD (tag_code PASSWORD))), s)
             else case apply_all (\<lambda>e. tag_is (tlv_tag e) PASSWORD) (pk_tlvs req) s of
                    (Inl e, s') \<Rightarrow> (Inl e, s')
                  | (Inr _, s') \<Rightarrow> (Inr (Some (write_resp req s RESULT_SUCCESS 0)), s'))"

definition first_value :: "tlv list \<Rightarrow> tag \<Rightarrow> bytes option" where
  "first_value es t = map_option tlv_value (find (\<lambda>e. tag_is (tlv_tag e) t) es)"

text \<open>The token the stored challenge asks for; none before the first challenge.\<close>

definition expected_token :: "virtual_switch \<Rightarrow> (bytes option) py" where
  "expected_token s =
     (case vs_nsdp_last_salt s of
        None \<Rightarrow> Inr None
      | Some salt \<Rightarrow> res_bind (auth_v2_password (vs_nsdp_password s) (vs_nsdp_mac s) salt) (\<lambda>t. Inr (Some t)))"

definition write_response_v2 :: "nsdp_packet \<Rightarrow> (virtual_switch, exn, nsdp_packet option) io" where
  "write_response_v2 req s =
     (if vs_nsdp_auth_failures s > V2_SILENCE_AT then (Inr None, s)
      else
        let token = first_value (pk_tlvs req) AUTH_V2_PASSWORD in
        case expected_token s of
          Inl e \<Rightarrow> (Inl e, s)
        | Inr expected \<Rightarrow>
            if token = None \<or> expected = None \<or> token \<noteq> expected
            then
              let s' = s\<lparr>vs_nsdp_auth_failures := vs_nsdp_auth_failures s + 1\<rparr>;
                  result = (if vs_nsdp_auth_failures s' > V2_ESCALATE_AT then RESULT_LOCKED_V2
                            else RESULT_BAD_PASSWORD_V2);
                  attr = (if pk_tlvs req \<noteq> [] then tag_int (tlv_tag (pk_tlvs req ! 0)) else 0)
              in (Inr (Some (write_resp req s result attr)), s')
            else case apply_all (\<lambda>e. tag_is (tlv_tag e) AUTH_V2_PASSWORD) (pk_tlvs req) s of
                   (Inl e, s') \<Rightarrow> (Inl e, s')
                 | (Inr _, s') \<Rightarrow>
                     (Inr (Some (write_resp req s RESULT_SUCCESS 0)), s'\<lparr>vs_nsdp_auth_failures := 0\<rparr>))"

definition write_response :: "nsdp_packet \<Rightarrow> (virtual_switch, exn, nsdp_packet option) io" where
  "write_response req s =
     (if vs_nsdp_auth_version s = ENCPASS_V2 then write_response_v2 req s else write_response_v1 req s)"

definition handle_request :: "bytes \<Rightarrow> bytes \<Rightarrow> (virtual_switch, exn, nsdp_packet option) io" where
  "handle_request fresh data s =
     (case decode data of
        Inl e \<Rightarrow> (Inl e, s)
      | Inr req \<Rightarrow>
          if pk_op req = READ_REQUEST then
            (case read_response fresh req s of (Inl e, s') \<Rightarrow> (Inl e, s') | (Inr p, s') \<Rightarrow> (Inr (Some p), s'))
          else if pk_op req = WRITE_REQUEST then write_response req s
          else (Inr None, s))"

text \<open>
  One turn of \<open>_serve\<close>: at most 4096 bytes are received; a \<open>ValueError\<close> drops the
  request, any other exception ends the thread; a datagram UDP cannot carry is an
  \<open>OSError\<close>, which is suppressed.
\<close>

datatype served_reply = Reply bytes | No_reply | Thread_dead exn

definition UDP_MAX :: nat where
  "UDP_MAX = 65507"

definition serve_one :: "bytes \<Rightarrow> bytes \<Rightarrow> virtual_switch \<Rightarrow> served_reply \<times> virtual_switch" where
  "serve_one fresh datagram s =
     (case handle_request fresh (take 4096 datagram) s of
        (Inl e, s') \<Rightarrow> (if is_value_error e then No_reply else Thread_dead e, s')
      | (Inr None, s') \<Rightarrow> (No_reply, s')
      | (Inr (Some p), s') \<Rightarrow>
          ((case encode p of
              Inl e \<Rightarrow> if is_os_error e then No_reply else Thread_dead e
            | Inr bs \<Rightarrow> if length bs \<le> UDP_MAX then Reply bs else No_reply), s'))"

inductive served :: "virtual_switch \<Rightarrow> virtual_switch \<Rightarrow> bool" where
  start: "served s s"
| step: "served s t \<Longrightarrow> serve_one fresh datagram t = (reply, u) \<Longrightarrow> served s u"

inductive_cases serve_stepE: "served s t"

section \<open>What a write may change\<close>

text \<open>
  A write entry touches the PVIDs, the VLANs, the ports and the management
  address: any observation of the state that these four do not determine is
  unchanged.
\<close>

lemma apply_nsdp_write_frame:
  assumes "apply_nsdp_write t v s = Inr u"
    and upd: "\<And>x w. obs (w\<lparr>vs_pvids := x\<rparr>) = obs w" "\<And>x w. obs (w\<lparr>vs_vlans := x\<rparr>) = obs w"
      "\<And>x w. obs (w\<lparr>vs_ports := x\<rparr>) = obs w" "\<And>x w. obs (w\<lparr>vs_mgmt := x\<rparr>) = obs w"
  shows "obs u = obs s"
proof -
  have [simp]: "obs (destroy_vlan vid s) = obs s" "obs (with_mgmt f s) = obs s" for vid f
    by (simp_all add: destroy_vlan_def with_mgmt_def upd)
  obtain m where "get_model (vs_model_key s) = Inr m"
    using assms(1) by (auto simp: apply_nsdp_write_def res_iff)
  with assms(1) show ?thesis
    by (simp add: apply_nsdp_write_def Let_def del: unpack_uint_from_ok byte_at_ok
        split: if_split_asm option.split_asm)
      (auto simp: res_iff upd simp del: unpack_uint_from_ok byte_at_ok split: option.split_asm)
qed

lemma apply_all_frame:
  "snd (apply_all skip es s) = s' \<Longrightarrow> vs_model_key s' = vs_model_key s
     \<and> vs_nsdp_auth_version s' = vs_nsdp_auth_version s
     \<and> vs_nsdp_auth_failures s' = vs_nsdp_auth_failures s \<and> vs_nsdp_last_salt s' = vs_nsdp_last_salt s
     \<and> vs_nsdp_password s' = vs_nsdp_password s \<and> vs_nsdp_mac s' = vs_nsdp_mac s"
proof (induction es arbitrary: s)
  case (Cons e es)
  have one: "vs_model_key u = vs_model_key s \<and> vs_nsdp_auth_version u = vs_nsdp_auth_version s
     \<and> vs_nsdp_auth_failures u = vs_nsdp_auth_failures s \<and> vs_nsdp_last_salt u = vs_nsdp_last_salt s
     \<and> vs_nsdp_password u = vs_nsdp_password s \<and> vs_nsdp_mac u = vs_nsdp_mac s"
    if "apply_nsdp_write (tlv_tag e) (tlv_value e) s = Inr u" for u
    using apply_nsdp_write_frame [OF that, of "\<lambda>w. (vs_model_key w, vs_nsdp_auth_version w,
        vs_nsdp_auth_failures w, vs_nsdp_last_salt w, vs_nsdp_password w, vs_nsdp_mac w)"]
    by simp
  show ?case
  proof (cases "skip e")
    case True
    with Cons show ?thesis by simp
  next
    case False
    show ?thesis
    proof (cases "apply_nsdp_write (tlv_tag e) (tlv_value e) s")
      case (Inl x)
      with False Cons.prems show ?thesis by simp
    next
      case (Inr u)
      with False Cons.prems one [OF Inr] Cons.IH [of u] show ?thesis by simp
    qed
  qed
qed simp

lemma apply_all_wf:
  "nsdp_wf s \<Longrightarrow> \<forall>e \<in> set es. length (tlv_value e) \<le> 16000 \<Longrightarrow> nsdp_wf (snd (apply_all skip es s))"
proof (induction es arbitrary: s)
  case (Cons e es)
  then show ?case
    using apply_nsdp_write_wf [of s "tlv_value e" "tlv_tag e"]
    by (cases "apply_nsdp_write (tlv_tag e) (tlv_value e) s") auto
qed simp

section \<open>Authentication\<close>

text \<open>What a write request must carry to be applied in the state \<open>s\<close>.\<close>

definition authentic :: "nsdp_packet \<Rightarrow> virtual_switch \<Rightarrow> bool" where
  "authentic req s \<longleftrightarrow>
     (if vs_nsdp_auth_version s = ENCPASS_V2
      then vs_nsdp_auth_failures s \<le> V2_SILENCE_AT
        \<and> (case vs_nsdp_last_salt s of None \<Rightarrow> False
           | Some salt \<Rightarrow> (case auth_v2_password (vs_nsdp_password s) (vs_nsdp_mac s) salt of
               Inl _ \<Rightarrow> False
             | Inr tok \<Rightarrow> first_value (pk_tlvs req) AUTH_V2_PASSWORD = Some tok))
      else (case encode_password_v1 (vs_nsdp_password s) of Inl _ \<Rightarrow> False
            | Inr c \<Rightarrow> \<exists>e \<in> set (pk_tlvs req). tag_is (tlv_tag e) PASSWORD \<and> tlv_value e = c))"

lemma result_codes [simp]:
  "RESULT_BAD_PASSWORD \<noteq> RESULT_SUCCESS" "RESULT_BAD_PASSWORD_V2 \<noteq> RESULT_SUCCESS"
  "RESULT_LOCKED_V2 \<noteq> RESULT_SUCCESS"
  by (simp_all add: RESULT_BAD_PASSWORD_def RESULT_BAD_PASSWORD_V2_def RESULT_LOCKED_V2_def RESULT_SUCCESS_def)

lemma write_resp_sel [simp]:
  "pk_op (write_resp req s r a) = WRITE_RESPONSE" "pk_result (write_resp req s r a) = r"
  "pk_error_attr (write_resp req s r a) = a" "pk_tlvs (write_resp req s r a) = []"
  "pk_sequence (write_resp req s r a) = pk_sequence req"
  "pk_client_mac (write_resp req s r a) = pk_client_mac req"
  "pk_server_mac (write_resp req s r a) = vs_nsdp_mac s"
  by (simp_all add: write_resp_def mk_packet_def)

lemma refused_v1:
  assumes "vs_nsdp_auth_version s \<noteq> ENCPASS_V2" and "\<not> authentic req s"
  shows "write_response req s =
    (case encode_password_v1 (vs_nsdp_password s) of Inl e \<Rightarrow> (Inl e, s)
     | Inr _ \<Rightarrow> (Inr (Some (write_resp req s RESULT_BAD_PASSWORD (tag_code PASSWORD))), s))"
  using assms
  by (auto simp: write_response_def write_response_v1_def authentic_def list_ex_iff split: sum.splits)

definition v2_refusal :: "nsdp_packet \<Rightarrow> virtual_switch \<Rightarrow> nsdp_packet option" where
  "v2_refusal req s =
     (if vs_nsdp_auth_failures s > V2_SILENCE_AT then None
      else Some (write_resp req s
        (if vs_nsdp_auth_failures s \<ge> V2_ESCALATE_AT then RESULT_LOCKED_V2 else RESULT_BAD_PASSWORD_V2)
        (if pk_tlvs req = [] then 0 else tag_int (tlv_tag (pk_tlvs req ! 0)))))"

lemma refused_v2:
  assumes v2: "vs_nsdp_auth_version s = ENCPASS_V2" and no: "\<not> authentic req s"
    and ex: "expected_token s = Inr ex"
  shows "write_response req s =
    (Inr (v2_refusal req s),
     s\<lparr>vs_nsdp_auth_failures := vs_nsdp_auth_failures s
        + (if vs_nsdp_auth_failures s > V2_SILENCE_AT then 0 else 1)\<rparr>)"
proof (cases "vs_nsdp_auth_failures s > V2_SILENCE_AT")
  case True
  then show ?thesis by (simp add: write_response_def v2 write_response_v2_def v2_refusal_def)
next
  case False
  have "first_value (pk_tlvs req) AUTH_V2_PASSWORD = None \<or> ex = None
      \<or> first_value (pk_tlvs req) AUTH_V2_PASSWORD \<noteq> ex"
    using no ex v2 False
    by (auto simp: authentic_def expected_token_def res_iff split: option.splits sum.splits)
  with False show ?thesis
    by (auto simp: write_response_def v2 write_response_v2_def v2_refusal_def ex Let_def)
qed

lemma expected_token_raises_frame:
  "vs_nsdp_auth_version s = ENCPASS_V2 \<Longrightarrow> expected_token s = Inl e \<Longrightarrow>
   vs_nsdp_auth_failures s \<le> V2_SILENCE_AT \<Longrightarrow> write_response req s = (Inl e, s)"
  by (simp add: write_response_def write_response_v2_def)

text \<open>
  C21. A write without the credential changes nothing. Unless the request carries
  the version 1 ciphertext of the switch's password, or (version 2, not locked
  out) the token of the last challenge handed out, no configuration changes, no
  success is reported, and the one effect is that a version 2 failure is counted.
\<close>

theorem write_needs_credential:
  assumes "\<not> authentic req s"
  shows "(case write_response req s of
      (Inr (Some p), s') \<Rightarrow> pk_result p \<noteq> RESULT_SUCCESS
        \<and> s' = s\<lparr>vs_nsdp_auth_failures := vs_nsdp_auth_failures s
                  + (if vs_nsdp_auth_version s = ENCPASS_V2 then 1 else 0)\<rparr>
    | (_, s') \<Rightarrow> s' = s)"
proof (cases "vs_nsdp_auth_version s = ENCPASS_V2")
  case False
  with refused_v1 [OF False assms] show ?thesis by (simp split: sum.splits)
next
  case True
  show ?thesis
  proof (cases "expected_token s")
    case (Inr ex)
    from refused_v2 [OF True assms Inr] show ?thesis
      using True by (auto simp: v2_refusal_def)
  next
    case (Inl e)
    show ?thesis
    proof (cases "vs_nsdp_auth_failures s > V2_SILENCE_AT")
      case True2: True
      then show ?thesis using True by (simp add: write_response_def write_response_v2_def)
    next
      case False
      with expected_token_raises_frame [OF True Inl] show ?thesis by simp
    qed
  qed
qed

definition v2_switch :: virtual_switch where
  "v2_switch = sample_switch\<lparr>vs_nsdp_auth_version := 16\<rparr>"

theorem write_needs_credential_witness:
  "write_response (mk_packet WRITE_REQUEST [0, 0, 0, 0, 0, 1] [0, 0, 0, 0, 0, 0] 9) v2_switch
     = (Inr (Some (write_resp (mk_packet WRITE_REQUEST [0, 0, 0, 0, 0, 1] [0, 0, 0, 0, 0, 0] 9) v2_switch
          RESULT_BAD_PASSWORD_V2 0)), v2_switch\<lparr>vs_nsdp_auth_failures := 1\<rparr>)"
proof -
  let ?r = "mk_packet WRITE_REQUEST [0, 0, 0, 0, 0, 1] [0, 0, 0, 0, 0, 0] 9"
  have s: "vs_nsdp_auth_version v2_switch = ENCPASS_V2" "vs_nsdp_last_salt v2_switch = None"
    "vs_nsdp_auth_failures v2_switch = 0" "pk_tlvs ?r = []"
    by (simp_all add: v2_switch_def sample_switch_def mk_virtual_switch_def ENCPASS_V2_def mk_packet_def)
  then have "\<not> authentic ?r v2_switch" by (simp add: authentic_def)
  from write_needs_credential [OF this] s show ?thesis
    by (auto simp: write_response_def write_response_v2_def expected_token_def first_value_def Let_def
        V2_SILENCE_AT_def V2_ESCALATE_AT_def)
qed

section \<open>The lockout\<close>

text \<open>
  The shape of the lockout. On a version 2 switch the n-th consecutive wrong
  write (counting from 1) is refused with error 13 up to the third, with error 14
  up to the sixth, and not answered at all from the seventh on; the refusal blames
  the first entry of the request.
\<close>

fun refuse_all :: "nsdp_packet list \<Rightarrow> virtual_switch \<Rightarrow> nsdp_packet option py list \<times> virtual_switch" where
  "refuse_all [] s = ([], s)"
| "refuse_all (q # qs) s =
     (let (r, s') = write_response q s; (rs, s'') = refuse_all qs s' in (r # rs, s''))"

lemma lockout_shape:
  assumes "vs_nsdp_auth_version s = ENCPASS_V2" and "vs_nsdp_auth_failures s = 0"
    and ex: "expected_token s = Inr ex" and n: "n = length qs"
    and wrong: "\<forall>q \<in> set qs. ex = None \<or> first_value (pk_tlvs q) AUTH_V2_PASSWORD \<noteq> ex"
  shows "map (map_sum id (map_option pk_result)) (fst (refuse_all qs s))
       = map (\<lambda>k. Inr (if k < 3 then Some RESULT_BAD_PASSWORD_V2
                       else if k < 6 then Some RESULT_LOCKED_V2 else None)) [0..<n]
    \<and> snd (refuse_all qs s) = s\<lparr>vs_nsdp_auth_failures := int (min n 6)\<rparr>"
proof -
  have run: "map (map_sum id (map_option pk_result)) (fst (refuse_all qs u))
       = map (\<lambda>k. Inr (if k < 3 then Some RESULT_BAD_PASSWORD_V2
                       else if k < 6 then Some RESULT_LOCKED_V2 else None)) [i..<i + length qs]
    \<and> snd (refuse_all qs u) = s\<lparr>vs_nsdp_auth_failures := int (min (i + length qs) 6)\<rparr>"
    if "u = s\<lparr>vs_nsdp_auth_failures := int (min i 6)\<rparr>" for u i
    using that wrong unfolding n
  proof (induction qs arbitrary: u i)
    case Nil
    then show ?case by simp
  next
    case (Cons q qs)
    have u: "vs_nsdp_auth_version u = ENCPASS_V2" "vs_nsdp_auth_failures u = int (min i 6)"
      using assms(1) Cons.prems(1) by simp_all
    have eu: "expected_token u = Inr ex" using ex Cons.prems(1)
      by (cases "vs_nsdp_last_salt s") (simp_all add: expected_token_def)
    have "\<not> authentic q u"
      using Cons.prems(2) u(1) eu
      by (auto simp: authentic_def expected_token_def res_iff split: option.splits sum.splits)
    then have w: "write_response q u = (Inr (v2_refusal q u), s\<lparr>vs_nsdp_auth_failures := int (min (Suc i) 6)\<rparr>)"
      using refused_v2 [OF u(1) _ eu] u(2) Cons.prems(1) by (auto simp: V2_SILENCE_AT_def)
    have r: "map_option pk_result (v2_refusal q u)
        = (if i < 3 then Some RESULT_BAD_PASSWORD_V2 else if i < 6 then Some RESULT_LOCKED_V2 else None)"
      using u(2) by (simp add: v2_refusal_def V2_SILENCE_AT_def V2_ESCALATE_AT_def)
    from Cons.IH [OF refl, of "Suc i"] Cons.prems(2) show ?case
      by (simp add: w r upt_conv_Cons case_prod_beta del: upt_Suc)
  qed
  have "s = s\<lparr>vs_nsdp_auth_failures := int (min 0 6)\<rparr>" using assms(2) by simp
  from run [OF this] n show ?thesis by simp
qed

lemma lockout_shape_witness:
  "map (map_sum id (map_option pk_result))
     (fst (refuse_all (replicate 8 (mk_packet WRITE_REQUEST [0, 0, 0, 0, 0, 1] [0, 0, 0, 0, 0, 0] 9)) v2_switch))
   = [Inr (Some 0x0D00), Inr (Some 0x0D00), Inr (Some 0x0D00), Inr (Some 0x0E00), Inr (Some 0x0E00),
      Inr (Some 0x0E00), Inr None, Inr None]"
proof -
  let ?qs = "replicate 8 (mk_packet WRITE_REQUEST [0, 0, 0, 0, 0, 1] [0, 0, 0, 0, 0, 0] 9)"
  have "vs_nsdp_auth_version v2_switch = ENCPASS_V2" "vs_nsdp_auth_failures v2_switch = 0"
    "expected_token v2_switch = Inr None"
    by (simp_all add: v2_switch_def sample_switch_def mk_virtual_switch_def ENCPASS_V2_def expected_token_def)
  from lockout_shape [OF this, of 8 ?qs] show ?thesis
    by (simp add: upt_rec RESULT_BAD_PASSWORD_V2_def RESULT_LOCKED_V2_def)
qed

text \<open>Nothing gets through once the failures exceed the silence threshold.\<close>

lemma read_response_state: "snd (read_response fresh req s) = s \<or>
   snd (read_response fresh req s) = s\<lparr>vs_nsdp_last_salt := Some fresh\<rparr>"
  by (auto simp: read_response_def nsdp_tlvs_def rotate_salt_def Let_def split: sum.splits prod.splits)

lemma serve_one_state: "snd (serve_one fresh d s) = snd (handle_request fresh (take 4096 d) s)"
  by (auto simp: serve_one_def split: prod.splits sum.splits option.splits)

lemma handle_request_state:
  "snd (handle_request fresh data s) =
     (case decode data of Inl _ \<Rightarrow> s
      | Inr req \<Rightarrow> if pk_op req = READ_REQUEST then snd (read_response fresh req s)
          else if pk_op req = WRITE_REQUEST then snd (write_response req s) else s)"
  by (auto simp: handle_request_def split: sum.splits prod.splits)

lemma locked_step:
  assumes "vs_nsdp_auth_version s = ENCPASS_V2" and "vs_nsdp_auth_failures s > V2_SILENCE_AT"
  shows "\<exists>salt. snd (serve_one fresh d s) = s\<lparr>vs_nsdp_last_salt := salt\<rparr>"
proof -
  have same: "\<exists>salt. s = s\<lparr>vs_nsdp_last_salt := salt\<rparr>"
    by (intro exI [of _ "vs_nsdp_last_salt s"]) simp
  have wr: "write_response q s = (Inr None, s)" for q
    using assms by (simp add: write_response_def write_response_v2_def)
  have rd: "\<exists>salt. snd (read_response fresh q s) = s\<lparr>vs_nsdp_last_salt := salt\<rparr>" for q
    using read_response_state [of fresh q s] same by auto
  show ?thesis
    unfolding serve_one_state handle_request_state
    using same rd by (simp add: wr split: sum.split)
qed

text \<open>
  C35. The lockout never ends: once a version 2 switch has counted more than five
  consecutive failures, no sequence of datagrams, not even writes with the right
  token, changes anything but the challenge, and no write is ever answered again.
\<close>

theorem lockout_is_permanent:
  assumes "served s t" and "vs_nsdp_auth_version s = ENCPASS_V2"
    and "vs_nsdp_auth_failures s > V2_SILENCE_AT"
  shows "t = s\<lparr>vs_nsdp_last_salt := vs_nsdp_last_salt t\<rparr> \<and> write_response req t = (Inr None, t)"
proof -
  have "\<exists>salt. t = s\<lparr>vs_nsdp_last_salt := salt\<rparr>"
    using assms
  proof (induction rule: served.induct)
    case (start s)
    then show ?case by (intro exI [of _ "vs_nsdp_last_salt s"]) simp
  next
    case (step s t fresh d reply u)
    then obtain salt where t: "t = s\<lparr>vs_nsdp_last_salt := salt\<rparr>" by blast
    then have "\<exists>x. snd (serve_one fresh d t) = t\<lparr>vs_nsdp_last_salt := x\<rparr>"
      using step.prems by (intro locked_step) simp_all
    with step.hyps t show ?case by auto
  qed
  then obtain salt where "t = s\<lparr>vs_nsdp_last_salt := salt\<rparr>" by blast
  with assms(2,3) show ?thesis by (simp add: write_response_def write_response_v2_def)
qed

definition locked_switch :: virtual_switch where
  "locked_switch = v2_switch\<lparr>vs_nsdp_auth_failures := 6\<rparr>"

theorem lockout_is_permanent_witness:
  "served locked_switch (snd (serve_one [1, 2, 3, 4] [0x4E, 0x53] locked_switch))
   \<and> write_response sample_packet (snd (serve_one [1, 2, 3, 4] [0x4E, 0x53] locked_switch))
     = (Inr None, snd (serve_one [1, 2, 3, 4] [0x4E, 0x53] locked_switch))"
proof -
  have "served locked_switch (snd (serve_one [1, 2, 3, 4] [0x4E, 0x53] locked_switch))"
    by (rule served.step [OF served.start surjective_pairing])
  moreover have "vs_nsdp_auth_version locked_switch = ENCPASS_V2" "vs_nsdp_auth_failures locked_switch > V2_SILENCE_AT"
    by (simp_all add: locked_switch_def v2_switch_def ENCPASS_V2_def V2_SILENCE_AT_def)
  ultimately show ?thesis using lockout_is_permanent by blast
qed

section \<open>Invariants of the serving loop\<close>

lemma tlv_decode_length: "tlv_decode d = Inr (e, k) \<Longrightarrow> length (tlv_value e) \<le> length d"
  by (auto simp: tlv_decode_def Let_def split: if_splits)

lemma decode_tlvs_length:
  "decode_tlvs data off = Inr ts \<Longrightarrow> e \<in> set ts \<Longrightarrow> length (tlv_value e) \<le> length data"
proof (induction data off arbitrary: ts rule: decode_tlvs.induct)
  case (1 data off)
  note IH = "1.IH" [OF _ _ refl]
  show ?case
  proof (cases "off + 4 \<le> length data")
    case False
    with "1.prems" show ?thesis by (simp add: decode_tlvs.simps [of data off])
  next
    case True
    then obtain x k where x: "tlv_decode (drop off data) = Inr (x, k)"
      using "1.prems"(1) by (cases "tlv_decode (drop off data)") (auto simp: decode_tlvs.simps [of data off])
    have "length (tlv_value x) \<le> length data" using tlv_decode_length [OF x] by simp
    then show ?thesis
      using True x "1.prems" IH [OF True x]
      by (auto simp: decode_tlvs.simps [of data off] res_iff split: if_splits)
  qed
qed

lemma decode_value_length:
  "decode data = Inr p \<Longrightarrow> e \<in> set (pk_tlvs p) \<Longrightarrow> length (tlv_value e) \<le> length data"
  by (auto simp: decode_def res_iff dest: decode_tlvs_length split: if_splits)

definition same_identity :: "virtual_switch \<Rightarrow> virtual_switch \<Rightarrow> bool" where
  "same_identity s t \<longleftrightarrow> vs_model_key t = vs_model_key s \<and> vs_nsdp_password t = vs_nsdp_password s
     \<and> vs_nsdp_auth_version t = vs_nsdp_auth_version s \<and> vs_nsdp_mac t = vs_nsdp_mac s"

definition failures_ok :: "virtual_switch \<Rightarrow> bool" where
  "failures_ok s \<longleftrightarrow> 0 \<le> vs_nsdp_auth_failures s \<and> vs_nsdp_auth_failures s \<le> V2_SILENCE_AT + 1"

lemma same_identity_refl [simp]: "same_identity s s"
  and same_identity_auth [simp]: "same_identity s (t\<lparr>vs_nsdp_last_salt := x\<rparr>) = same_identity s t"
  "same_identity s (t\<lparr>vs_nsdp_auth_failures := f\<rparr>) = same_identity s t"
  by (simp_all add: same_identity_def)

lemma same_identity_trans: "same_identity s t \<Longrightarrow> same_identity t u \<Longrightarrow> same_identity s u"
  by (simp add: same_identity_def)

lemma apply_all_keeps:
  assumes "nsdp_wf s" "failures_ok s" "\<forall>e \<in> set es. length (tlv_value e) \<le> 16000"
  shows "nsdp_wf (snd (apply_all skip es s)) \<and> failures_ok (snd (apply_all skip es s))
    \<and> same_identity s (snd (apply_all skip es s))"
  using apply_all_wf [OF assms(1,3)] apply_all_frame [OF refl, of skip es s] assms(2)
  by (auto simp: failures_ok_def same_identity_def)

lemma write_response_v1_state:
  "snd (write_response_v1 q s) = s
   \<or> snd (write_response_v1 q s) = snd (apply_all (\<lambda>e. tag_is (tlv_tag e) PASSWORD) (pk_tlvs q) s)"
  unfolding write_response_v1_def Let_def by (simp split: sum.split prod.split)

lemma write_response_v2_state:
  "(let a = apply_all (\<lambda>e. tag_is (tlv_tag e) AUTH_V2_PASSWORD) (pk_tlvs q) s; u = snd (write_response_v2 q s) in
     u = s \<or> u = snd a \<or> u = (snd a)\<lparr>vs_nsdp_auth_failures := 0\<rparr>
     \<or> (vs_nsdp_auth_failures s \<le> V2_SILENCE_AT
        \<and> u = s\<lparr>vs_nsdp_auth_failures := vs_nsdp_auth_failures s + 1\<rparr>))"
proof -
  let ?a = "apply_all (\<lambda>e. tag_is (tlv_tag e) AUTH_V2_PASSWORD) (pk_tlvs q) s"
  let ?tok = "first_value (pk_tlvs q) AUTH_V2_PASSWORD"
  consider "vs_nsdp_auth_failures s > V2_SILENCE_AT"
    | e where "vs_nsdp_auth_failures s \<le> V2_SILENCE_AT" "expected_token s = Inl e"
    | ex where "vs_nsdp_auth_failures s \<le> V2_SILENCE_AT" "expected_token s = Inr ex"
        "?tok = None \<or> ex = None \<or> ?tok \<noteq> ex"
    | ex where "vs_nsdp_auth_failures s \<le> V2_SILENCE_AT" "expected_token s = Inr ex"
        "\<not> (?tok = None \<or> ex = None \<or> ?tok \<noteq> ex)"
    by (meson not_less sum.exhaust)
  then show ?thesis
  proof cases
    case 4
    then obtain t where "expected_token s = Inr (Some t)" "?tok = Some t" by auto
    with 4(1) have w: "write_response_v2 q s = (case ?a of (Inl e, s') \<Rightarrow> (Inl e, s')
        | (Inr _, s') \<Rightarrow> (Inr (Some (write_resp q s RESULT_SUCCESS 0)), s'\<lparr>vs_nsdp_auth_failures := 0\<rparr>))"
      by (simp add: write_response_v2_def)
    obtain r u where a: "?a = (r, u)" by (cases ?a)
    show ?thesis
    proof (cases r)
      case (Inl e)
      then have "snd (write_response_v2 q s) = u" unfolding w a by simp
      then show ?thesis by (simp only: Let_def a snd_conv simp_thms)
    next
      case (Inr x)
      then have "snd (write_response_v2 q s) = u\<lparr>vs_nsdp_auth_failures := 0\<rparr>" unfolding w a by simp
      then show ?thesis by (simp only: Let_def a snd_conv simp_thms)
    qed
  next
    case 3
    then have "snd (write_response_v2 q s) = s\<lparr>vs_nsdp_auth_failures := vs_nsdp_auth_failures s + 1\<rparr>"
      by (simp add: write_response_v2_def)
    with 3(1) show ?thesis by (simp only: Let_def simp_thms)
  next
    case 2
    then have "snd (write_response_v2 q s) = s" by (simp add: write_response_v2_def)
    then show ?thesis by (simp only: Let_def simp_thms)
  next
    case 1
    then have "snd (write_response_v2 q s) = s" by (simp add: write_response_v2_def)
    then show ?thesis by (simp only: Let_def simp_thms)
  qed
qed

lemma write_response_keeps:
  assumes "nsdp_wf s" "failures_ok s" "\<forall>e \<in> set (pk_tlvs q). length (tlv_value e) \<le> 16000"
  shows "nsdp_wf (snd (write_response q s)) \<and> failures_ok (snd (write_response q s))
    \<and> same_identity s (snd (write_response q s))"
proof (cases "vs_nsdp_auth_version s = ENCPASS_V2")
  case False
  then have "snd (write_response q s) = snd (write_response_v1 q s)" by (simp add: write_response_def)
  with write_response_v1_state [of q s] apply_all_keeps [OF assms] assms(1,2) show ?thesis by auto
next
  case True
  then have "snd (write_response q s) = snd (write_response_v2 q s)" by (simp add: write_response_def)
  moreover have "failures_ok (t\<lparr>vs_nsdp_auth_failures := 0\<rparr>)" for t
    by (simp add: failures_ok_def V2_SILENCE_AT_def)
  moreover have "vs_nsdp_auth_failures s \<le> V2_SILENCE_AT \<Longrightarrow>
      failures_ok (s\<lparr>vs_nsdp_auth_failures := vs_nsdp_auth_failures s + 1\<rparr>)"
    using assms(2) by (simp add: failures_ok_def)
  ultimately show ?thesis
    using write_response_v2_state [of q s] apply_all_keeps [OF assms] assms(1,2) by (auto simp: Let_def)
qed

lemma serve_one_keeps:
  assumes "nsdp_wf s" "failures_ok s"
  shows "nsdp_wf (snd (serve_one fresh d s)) \<and> failures_ok (snd (serve_one fresh d s))
    \<and> same_identity s (snd (serve_one fresh d s))"
proof (cases "decode (take 4096 d)")
  case (Inl e)
  with assms show ?thesis by (simp add: serve_one_state handle_request_state)
next
  case (Inr q)
  have "length (tlv_value e) \<le> 16000" if "e \<in> set (pk_tlvs q)" for e
    using decode_value_length [OF Inr that] by simp
  then have wr: "nsdp_wf (snd (write_response q s)) \<and> failures_ok (snd (write_response q s))
      \<and> same_identity s (snd (write_response q s))"
    using assms by (intro write_response_keeps) auto
  have rd: "nsdp_wf (snd (read_response fresh q s)) \<and> failures_ok (snd (read_response fresh q s))
      \<and> same_identity s (snd (read_response fresh q s))"
    using read_response_state [of fresh q s] assms by (auto simp: failures_ok_def)
  show ?thesis
    using Inr wr rd assms by (simp add: serve_one_state handle_request_state)
qed

text \<open>
  C20. Whatever is sent to it, in whatever order, a well-formed switch stays well
  formed: in every state the serving loop can reach, reads are answered, the
  failure count stays within 0..6, and model, password, authentication version and
  address are the ones it started with.
\<close>

theorem served_invariant:
  assumes "served s t" and "nsdp_wf s" and "failures_ok s"
  shows "nsdp_wf t \<and> failures_ok t \<and> same_identity s t
    \<and> (\<exists>ts. fst (nsdp_tlvs fresh tags t) = Inr ts)"
proof -
  have "nsdp_wf t \<and> failures_ok t \<and> same_identity s t"
    using assms
  proof (induction rule: served.induct)
    case (start s)
    then show ?case by simp
  next
    case (step s t fresh d reply u)
    then have "nsdp_wf t" "failures_ok t" "same_identity s t" by auto
    with serve_one_keeps [of t fresh d] step.hyps(2) show ?case
      by (auto intro: same_identity_trans)
  qed
  moreover from this obtain m where "get_model (vs_model_key t) = Inr m" by (auto elim: nsdp_wfE)
  ultimately show ?thesis by (simp add: nsdp_tlvs_ok)
qed

theorem served_invariant_witness:
  "nsdp_wf (snd (serve_one [1, 2, 3, 4] [0x4E, 0x53] v2_switch))
   \<and> failures_ok (snd (serve_one [1, 2, 3, 4] [0x4E, 0x53] v2_switch))"
proof -
  have "served v2_switch (snd (serve_one [1, 2, 3, 4] [0x4E, 0x53] v2_switch))"
    by (rule served.step [OF served.start surjective_pairing])
  moreover have "nsdp_wf v2_switch"
  proof -
    have "get_model (vs_model_key sample_switch) = Inr gs110emx"
      using get_model_gs110emx by (simp add: sample_switch_def mk_virtual_switch_def)
    with sample_switch_wf show ?thesis
      by (auto simp: nsdp_wf_def v2_switch_def identity_ok_def model_text_def tables_ok_def settings_ok_def u_fits_def)
  qed
  moreover have "failures_ok v2_switch"
    by (simp add: failures_ok_def v2_switch_def sample_switch_def mk_virtual_switch_def V2_SILENCE_AT_def)
  ultimately show ?thesis using served_invariant by blast
qed

text \<open>
  C27. One short entry ends the responder. A request with the right version 1
  password and a PORT_PVID entry too short for its VLAN field makes
  \<open>apply_nsdp_write\<close> raise \<open>struct.error\<close>, which the serving loop does not catch:
  the thread dies without an answer, and the entries before it stay applied.
\<close>

theorem short_entry_kills_face:
  assumes m: "get_model (vs_model_key s) = Inr m" and v1: "vs_nsdp_auth_version s \<noteq> ENCPASS_V2"
    and v: "encode_password_v1 (vs_nsdp_password s) = Inr v"
    and q: "decode (take 4096 d) = Inr q" "pk_op q = WRITE_REQUEST"
      "pk_tlvs q = [mk_tlv PASSWORD v, mk_tlv DHCP_MODE [1], mk_tlv PORT_PVID [b]]"
  shows "serve_one fresh d s = (Thread_dead StructError, with_mgmt (mg_mode_update (\<lambda>_. lit ''dhcp'')) s)"
proof -
  let ?u = "with_mgmt (mg_mode_update (\<lambda>_. lit ''dhcp'')) s"
  have "get_model (vs_model_key ?u) = Inr m" using m by (simp add: with_mgmt_def)
  then have short: "apply_nsdp_write (Known PORT_PVID) [b] ?u = Inl StructError"
    by (simp add: apply_nsdp_write_def unpack_uint_from_def)
  have "apply_nsdp_write (Known DHCP_MODE) [1] s = Inr ?u"
    using m by (simp add: apply_nsdp_write_def)
  then have "apply_all (\<lambda>e. tag_is (tlv_tag e) PASSWORD) (pk_tlvs q) s = (Inl StructError, ?u)"
    using short by (simp add: q(3))
  then have "write_response q s = (Inl StructError, ?u)"
    using v1 v by (simp add: write_response_def write_response_v1_def q(3))
  then show ?thesis
    using q(1,2) by (simp add: serve_one_def handle_request_def is_value_error_def)
qed

theorem short_entry_kills_face_witness:
  "\<exists>d. fst (serve_one [] d sample_switch) = Thread_dead StructError"
proof -
  let ?v = "xor_v1 (map of_nat (lit ''password''))"
  let ?q = "(mk_packet WRITE_REQUEST [0, 0, 0, 0, 0, 1] [0, 0, 0, 0, 0, 0] 1)
      \<lparr>pk_tlvs := [mk_tlv PASSWORD ?v, mk_tlv DHCP_MODE [1], mk_tlv PORT_PVID [1]]\<rparr>"
  have ok: "packet_ok ?q" by (intro packet_ok_mk_packet) (auto simp: lit_def)
  then obtain d where d: "encode ?q = Inr d" using encode_total by blast
  have "length d \<le> 4096" using encode_length [OF ok d] by (simp add: lit_def)
  then have dec: "decode (take 4096 d) = Inr ?q" using decode_encoded [OF ok d, of "[]"] by simp
  have s: "get_model (vs_model_key sample_switch) = Inr gs110emx" "vs_nsdp_auth_version sample_switch \<noteq> ENCPASS_V2"
    "vs_nsdp_password sample_switch = lit ''password''"
    using get_model_gs110emx by (simp_all add: sample_switch_def mk_virtual_switch_def ENCPASS_V2_def)
  have "encode_password_v1 (vs_nsdp_password sample_switch) = Inr ?v"
    by (simp add: s(3) encode_password_v1_def ascii_encode_def is_ascii_def lit_def)
  from short_entry_kills_face [OF s(1,2) this dec, of 1 "[]"]
  have "fst (serve_one [] d sample_switch) = Thread_dead StructError" by (simp add: mk_packet_def)
  then show ?thesis by blast
qed

end
