(* ===== verification/Nsdp_Read.thy ===== *)
theory Nsdp_Read
  imports Nsdp_Client Registry
begin

text \<open>
  The reader over an NSDP client (\<open>nsdp_read.py\<close>): which tags each operation asks
  for and how the parsed device becomes the shared records. The client is a
  parameter, the \<open>read\<close> method of the \<open>NsdpClient\<close> protocol class; the state it
  keeps and the network it talks to are the state of the monad.
\<close>

type_synonym 'w read_client = "tag list \<Rightarrow> ('w, exn, nsdp_packet) io"

definition require_nsdp :: "switch_model \<Rightarrow> unit py" where
  "require_nsdp model = (if NSDP \<notin> m_backends model then Inl UnsupportedCapabilityError else Inr ())"

definition FULL_DEVICE_TAGS :: "tag list" where
  "FULL_DEVICE_TAGS = [MODEL, MAC, HOSTNAME, PORT_NAME, IP_ADDRESS, NETMASK, GATEWAY,
     FIRMWARE_VER_1, DHCP_MODE, PORT_COUNT, SERIAL_NUMBER, VLAN_ENGINE, PORT_STATUS,
     PORT_STATISTICS, VLAN_MEMBERS, PORT_PVID, QOS_ENGINE, PORT_MIRRORING, IGMP_SNOOPING,
     BROADCAST_FILTERING, LOOP_DETECTION]"

definition with_model :: "tag list \<Rightarrow> tag list" where
  "with_model tags = (if MODEL \<in> set tags then tags else MODEL # tags)"

section \<open>From the device to the shared records\<close>

definition ports_of_device :: "nsdp_device \<Rightarrow> port_status list" where
  "ports_of_device dev =
     (let labels = dict_of (map (\<lambda>n. (npn_port_id n, npn_name n)) (nd_port_names dev)) in
      map (\<lambda>s. \<lparr>st_port = nps_port_id s, st_name = None, st_admin_enabled = True,
                st_link_up = (nps_speed s \<noteq> DOWN),
                st_speed_mbps = (let v = speed_mbps (nps_speed s) in if v = 0 then None else Some v),
                st_description = (case dict_get labels (nps_port_id s) of Some l \<Rightarrow> l | None \<Rightarrow> None),
                st_full_duplex = None, st_flow_control = None, st_speed_config = None,
                st_oper_status = None\<rparr>)
        (nd_port_status dev))"

definition stats_of_device :: "nsdp_device \<Rightarrow> port_stats list" where
  "stats_of_device dev =
     map (\<lambda>s. \<lparr>ct_port = npt_port_id s, ct_rx_bytes = Some (npt_bytes_received s),
               ct_tx_bytes = Some (npt_bytes_sent s), ct_rx_packets = None, ct_tx_packets = None,
               ct_rx_errors = Some (npt_crc_errors s), ct_tx_errors = None\<rparr>)
       (nd_port_statistics dev)"

definition vlans_of_device :: "nsdp_device \<Rightarrow> vlan_info list" where
  "vlans_of_device dev =
     map (\<lambda>m. \<lparr>vi_vlan_id = nvm_vlan_id m, vi_name = None, vi_member_ports = nvm_member_ports m,
               vi_tagged_ports = nvm_tagged_ports m, vi_untagged_ports = untagged_ports m\<rparr>)
       (nd_vlan_members dev)"

text \<open>\<open>str.upper()\<close>, exact on ASCII: the device address is always hexadecimal digits and colons.\<close>

definition upper :: "ustr \<Rightarrow> ustr" where
  "upper s = map ascii_upper_char s"

definition mgmt_of_device :: "nsdp_device \<Rightarrow> mgmt_ip_config" where
  "mgmt_of_device dev =
     \<lparr>ip_mode_of = (case nd_dhcp_enabled dev of
                      None \<Rightarrow> IpUnknown | Some on \<Rightarrow> if on then IpDhcp else IpStatic),
      ip_address = nd_ip dev, ip_netmask = nd_netmask dev, ip_gateway = nd_gateway dev,
      ip_base_mac = Some (upper (nd_mac dev))\<rparr>"

section \<open>The operations\<close>

definition read_device :: "'w read_client \<Rightarrow> tag list \<Rightarrow> ('w, exn, nsdp_device) io" where
  "read_device rd tags = io_bind (rd (with_model tags)) (\<lambda>p. io_lift (parse_device p))"

definition get_ports :: "'w read_client \<Rightarrow> ('w, exn, port_status list) io" where
  "get_ports rd = io_bind (read_device rd [PORT_COUNT, PORT_STATUS, PORT_NAME])
     (\<lambda>d. io_return (ports_of_device d))"

definition get_stats :: "'w read_client \<Rightarrow> ('w, exn, port_stats list) io" where
  "get_stats rd = io_bind (read_device rd [PORT_STATISTICS]) (\<lambda>d. io_return (stats_of_device d))"

definition get_vlans :: "'w read_client \<Rightarrow> ('w, exn, vlan_info list) io" where
  "get_vlans rd = io_bind (read_device rd [PORT_COUNT, VLAN_MEMBERS]) (\<lambda>d. io_return (vlans_of_device d))"

definition get_pvids :: "'w read_client \<Rightarrow> ('w, exn, (int \<times> int) list) io" where
  "get_pvids rd = io_bind (read_device rd [PORT_PVID])
     (\<lambda>d. io_return (map (\<lambda>p. (npp_port_id p, npp_vlan_id p)) (nd_port_pvids d)))"

definition get_hostname :: "'w read_client \<Rightarrow> ('w, exn, ustr) io" where
  "get_hostname rd = io_bind (read_device rd [HOSTNAME])
     (\<lambda>d. io_return (case nd_hostname d of Some h \<Rightarrow> h | None \<Rightarrow> []))"

definition get_mgmt_ip :: "'w read_client \<Rightarrow> ('w, exn, mgmt_ip_config) io" where
  "get_mgmt_ip rd = io_bind (read_device rd [IP_ADDRESS, NETMASK, GATEWAY, DHCP_MODE])
     (\<lambda>d. io_return (mgmt_of_device d))"

definition get_device :: "'w read_client \<Rightarrow> ('w, exn, nsdp_device) io" where
  "get_device rd = read_device rd FULL_DEVICE_TAGS"

text \<open>
  The reads no NSDP tag carries are refused by name, before anything is sent.
\<close>

definition get_macs :: "('w, exn, 'a list) io" where
  "get_macs = io_raise UnsupportedCapabilityError"

definition get_lldp :: "('w, exn, 'a list) io" where
  "get_lldp = io_raise UnsupportedCapabilityError"

definition get_sensors :: "('w, exn, 'a list) io" where
  "get_sensors = io_raise UnsupportedCapabilityError"

definition get_poe :: "('w, exn, poe_status list) io" where
  "get_poe = io_raise UnsupportedCapabilityError"

definition get_users :: "('w, exn, 'a list) io" where
  "get_users = io_raise UnsupportedCapabilityError"

definition get_services :: "('w, exn, 'a list) io" where
  "get_services = io_raise UnsupportedCapabilityError"

definition get_syslog :: "('w, exn, 'a) io" where
  "get_syslog = io_raise UnsupportedCapabilityError"

section \<open>The asynchronous reader\<close>

text \<open>
  \<open>AsyncNsdpReader\<close>: its operations await one read each, so a call is the same
  state passing over the asynchronous client's \<open>read\<close>.
\<close>

definition async_read_device :: "'w read_client \<Rightarrow> tag list \<Rightarrow> ('w, exn, nsdp_device) io" where
  "async_read_device rd tags = io_bind (rd (with_model tags)) (\<lambda>p. io_lift (parse_device p))"

definition async_get_ports :: "'w read_client \<Rightarrow> ('w, exn, port_status list) io" where
  "async_get_ports rd = io_bind (async_read_device rd [PORT_COUNT, PORT_STATUS, PORT_NAME])
     (\<lambda>d. io_return (ports_of_device d))"

definition async_get_stats :: "'w read_client \<Rightarrow> ('w, exn, port_stats list) io" where
  "async_get_stats rd = io_bind (async_read_device rd [PORT_STATISTICS])
     (\<lambda>d. io_return (stats_of_device d))"

definition async_get_vlans :: "'w read_client \<Rightarrow> ('w, exn, vlan_info list) io" where
  "async_get_vlans rd = io_bind (async_read_device rd [PORT_COUNT, VLAN_MEMBERS])
     (\<lambda>d. io_return (vlans_of_device d))"

definition async_get_pvids :: "'w read_client \<Rightarrow> ('w, exn, (int \<times> int) list) io" where
  "async_get_pvids rd = io_bind (async_read_device rd [PORT_PVID])
     (\<lambda>d. io_return (map (\<lambda>p. (npp_port_id p, npp_vlan_id p)) (nd_port_pvids d)))"

definition async_get_hostname :: "'w read_client \<Rightarrow> ('w, exn, ustr) io" where
  "async_get_hostname rd = io_bind (async_read_device rd [HOSTNAME])
     (\<lambda>d. io_return (case nd_hostname d of Some h \<Rightarrow> h | None \<Rightarrow> []))"

definition async_get_mgmt_ip :: "'w read_client \<Rightarrow> ('w, exn, mgmt_ip_config) io" where
  "async_get_mgmt_ip rd = io_bind (async_read_device rd [IP_ADDRESS, NETMASK, GATEWAY, DHCP_MODE])
     (\<lambda>d. io_return (mgmt_of_device d))"

definition async_get_device :: "'w read_client \<Rightarrow> ('w, exn, nsdp_device) io" where
  "async_get_device rd = async_read_device rd FULL_DEVICE_TAGS"

lemmas async_reader_defs = async_read_device_def async_get_ports_def async_get_stats_def
  async_get_vlans_def async_get_pvids_def async_get_hostname_def async_get_mgmt_ip_def
  async_get_device_def

lemmas reader_defs = read_device_def get_ports_def get_stats_def get_vlans_def get_pvids_def
  get_hostname_def get_mgmt_ip_def get_device_def

text \<open>The asynchronous reader runs the synchronous one over its client.\<close>

lemma async_reader_eq:
  "async_get_ports rd = get_ports rd" "async_get_stats rd = get_stats rd"
  "async_get_vlans rd = get_vlans rd" "async_get_pvids rd = get_pvids rd"
  "async_get_hostname rd = get_hostname rd" "async_get_mgmt_ip rd = get_mgmt_ip rd"
  "async_get_device rd = get_device rd"
  by (simp_all add: async_reader_defs reader_defs)

section \<open>What a read always does\<close>

lemma with_model_MODEL: "MODEL \<in> set (with_model tags)"
  by (simp add: with_model_def)

lemma with_model_idem: "with_model (with_model tags) = with_model tags"
  by (simp add: with_model_def)

text \<open>A read that returns has parsed the answer to one request, which asked for MODEL.\<close>

lemma read_device_Inr_iff [res_iff]:
  "read_device rd tags w = (Inr d, w') \<longleftrightarrow>
     (\<exists>p. rd (with_model tags) w = (Inr p, w') \<and> parse_device p = Inr d)"
  by (auto simp: read_device_def res_iff)

lemma get_pvids_Inr_iff [res_iff]:
  "get_pvids rd w = (Inr ps, w') \<longleftrightarrow>
     (\<exists>d. read_device rd [PORT_PVID] w = (Inr d, w')
        \<and> ps = map (\<lambda>p. (npp_port_id p, npp_vlan_id p)) (nd_port_pvids d))"
  by (auto simp: get_pvids_def io_bind_Inr_iff)

end
