(* ===== verification/Nsdp_Write.thy ===== *)
theory Nsdp_Write
  imports Nsdp_Read
begin

text \<open>
  The writer over an NSDP client (\<open>nsdp_write.py\<close>). Every operation is guarded,
  reads the state before, sends one write request, and reads again to verify. The
  client's \<open>read\<close> and \<open>write\<close> methods are parameters.
\<close>

type_synonym 'w write_client = "tlv list \<Rightarrow> ustr \<Rightarrow> ('w, exn, nsdp_packet) io"

text \<open>What the writer keeps: the model, the password and the protected ports.\<close>

record nsdp_writer =
  nw_model :: switch_model
  nw_password :: ustr
  nw_protected_ports :: "int set"

definition mk_nsdp_writer :: "switch_model \<Rightarrow> ustr \<Rightarrow> int set \<Rightarrow> nsdp_writer py" where
  "mk_nsdp_writer model password protected_ports =
     res_bind (require_nsdp model) (\<lambda>_.
     Inr \<lparr>nw_model = model, nw_password = password, nw_protected_ports = protected_ports\<rparr>)"

section \<open>Read-modify-write of a VLAN's members\<close>

definition members_after :: "vlan_info option \<Rightarrow> int \<Rightarrow> vlan_mode \<Rightarrow> int set \<times> int set" where
  "members_after current port mode =
     (let members = (case current of Some v \<Rightarrow> vi_member_ports v | None \<Rightarrow> {});
          tagged = (case current of Some v \<Rightarrow> vi_tagged_ports v | None \<Rightarrow> {})
      in if mode = VlanExcluded then (members - {port}, tagged - {port})
         else (insert port members, if mode = VlanTagged then insert port tagged else tagged - {port}))"

definition membership_ok :: "vlan_info option \<Rightarrow> int \<Rightarrow> vlan_mode \<Rightarrow> bool" where
  "membership_ok after port mode =
     (case after of
        None \<Rightarrow> mode = VlanExcluded
      | Some v \<Rightarrow>
          if mode = VlanExcluded then port \<notin> vi_member_ports v
          else port \<in> vi_member_ports v \<and> ((port \<in> vi_tagged_ports v) = (mode = VlanTagged)))"

section \<open>The operations\<close>

definition guard :: "nsdp_writer \<Rightarrow> int \<Rightarrow> bool \<Rightarrow> unit py" where
  "guard W port force =
     (if port \<in> nw_protected_ports W \<and> \<not> force then Inl ProtectedPortError else Inr ())"

definition vlan_lookup :: "'w read_client \<Rightarrow> int \<Rightarrow> ('w, exn, vlan_info option) io" where
  "vlan_lookup rd vlan = io_bind (get_vlans rd) (\<lambda>vs. io_return (find (\<lambda>v. vi_vlan_id v = vlan) vs))"

definition require_vlan_exists :: "'w read_client \<Rightarrow> int \<Rightarrow> ('w, exn, unit) io" where
  "require_vlan_exists rd vlan =
     io_bind (vlan_lookup rd vlan) (\<lambda>v. io_when_raise (v = None) (NsdpError (NsdpNoVlan vlan)))"

definition set_hostname ::
  "'w read_client \<Rightarrow> 'w write_client \<Rightarrow> nsdp_writer \<Rightarrow> ustr \<Rightarrow> bool \<Rightarrow> ('w, exn, unit) io" where
  "set_hostname rd wr W name force =
     (if strip name = [] then io_raise ValueError
      else
        io_bind (get_hostname rd) (\<lambda>before.
        io_bind (io_lift (hostname_tlv name)) (\<lambda>e.
        io_bind (wr [e] (nw_password W)) (\<lambda>_.
        io_bind (get_hostname rd) (\<lambda>after.
        io_when_raise (after \<noteq> name) (WriteVerificationError (EvText before) (EvText after)))))))"

definition descriptions :: "port_status list \<Rightarrow> (int, ustr option) dict" where
  "descriptions ps = dict_of (map (\<lambda>p. (st_port p, st_description p)) ps)"

text \<open>\<open>d.get(port)\<close> of a dictionary whose values may be \<open>None\<close>.\<close>

definition get_or_none :: "(int, 'a option) dict \<Rightarrow> int \<Rightarrow> 'a option" where
  "get_or_none d k = (case dict_get d k of Some v \<Rightarrow> v | None \<Rightarrow> None)"

definition set_port_description ::
  "'w read_client \<Rightarrow> 'w write_client \<Rightarrow> nsdp_writer \<Rightarrow> int \<Rightarrow> ustr \<Rightarrow> bool \<Rightarrow> ('w, exn, unit) io" where
  "set_port_description rd wr W port description force =
     io_bind (io_lift (guard W port force)) (\<lambda>_.
     io_bind (get_ports rd) (\<lambda>ps.
     let before = descriptions ps in
     io_bind (io_lift (port_name_tlv port description)) (\<lambda>e.
     io_bind (wr [e] (nw_password W)) (\<lambda>_.
     io_bind (get_ports rd) (\<lambda>ps'.
     let after = descriptions ps'; want = or_none description in
     io_when_raise (get_or_none after port \<noteq> want)
       (WriteVerificationError (ev_text (get_or_none before port)) (ev_text (get_or_none after port))))))))"

definition set_pvid ::
  "'w read_client \<Rightarrow> 'w write_client \<Rightarrow> nsdp_writer \<Rightarrow> int \<Rightarrow> int \<Rightarrow> bool \<Rightarrow> ('w, exn, unit) io" where
  "set_pvid rd wr W port vlan force =
     io_bind (io_lift (guard W port force)) (\<lambda>_.
     io_bind (require_vlan_exists rd vlan) (\<lambda>_.
     io_bind (get_pvids rd) (\<lambda>ps.
     let before = dict_of ps in
     io_bind (io_lift (pvid_tlv port vlan)) (\<lambda>e.
     io_bind (wr [e] (nw_password W)) (\<lambda>_.
     io_bind (get_pvids rd) (\<lambda>ps'.
     let after = dict_of ps' in
     io_when_raise (dict_get after port \<noteq> Some vlan)
       (WriteVerificationError (ev_int (dict_get before port)) (ev_int (dict_get after port)))))))))"

text \<open>
  The member sets reach the frame builder in increasing order; the bitmap does not
  depend on the order (lemma \<open>ports_to_bitmap_order\<close> below).
\<close>

definition set_vlan_membership ::
  "'w read_client \<Rightarrow> 'w write_client \<Rightarrow> nsdp_writer \<Rightarrow> int \<Rightarrow> int \<Rightarrow> vlan_mode \<Rightarrow> bool \<Rightarrow> ('w, exn, unit) io" where
  "set_vlan_membership rd wr W vlan port mode force =
     io_bind (io_lift (guard W port force)) (\<lambda>_.
     io_bind (vlan_lookup rd vlan) (\<lambda>before.
     let (members, tagged) = members_after before port mode in
     io_bind (io_lift (vlan_members_tlv vlan (sorted_list_of_set members) (sorted_list_of_set tagged)
       (m_port_count (nw_model W)))) (\<lambda>e.
     io_bind (wr [e] (nw_password W)) (\<lambda>_.
     io_bind (vlan_lookup rd vlan) (\<lambda>after.
     io_when_raise (\<not> membership_ok after port mode)
       (WriteVerificationError (ev_vlan before) (ev_vlan after)))))))"

definition set_mgmt_ip ::
  "'w read_client \<Rightarrow> 'w write_client \<Rightarrow> nsdp_writer \<Rightarrow> ustr \<Rightarrow> ustr \<Rightarrow> ustr \<Rightarrow> bool \<Rightarrow> ('w, exn, unit) io" where
  "set_mgmt_ip rd wr W address netmask gateway force =
     (if \<not> force then io_raise ProtectedPortError
      else
        io_bind (get_mgmt_ip rd) (\<lambda>before.
        io_bind (io_lift (ipv4_tlv IP_ADDRESS address)) (\<lambda>a.
        io_bind (io_lift (ipv4_tlv NETMASK netmask)) (\<lambda>n.
        io_bind (io_lift (ipv4_tlv GATEWAY gateway)) (\<lambda>g.
        io_bind (wr [a, n, g] (nw_password W)) (\<lambda>_.
        io_bind (get_mgmt_ip rd) (\<lambda>after.
        io_when_raise
          ((ip_address after, ip_netmask after, ip_gateway after) \<noteq> (Some address, Some netmask, Some gateway))
          (WriteVerificationError (ev_mgmt before) (ev_mgmt after)))))))))"

definition create_vlan ::
  "'w read_client \<Rightarrow> 'w write_client \<Rightarrow> nsdp_writer \<Rightarrow> int \<Rightarrow> ustr \<Rightarrow> bool \<Rightarrow> ('w, exn, unit) io" where
  "create_vlan rd wr W vlan name force =
     io_bind (get_vlans rd) (\<lambda>vs.
     if list_ex (\<lambda>v. vi_vlan_id v = vlan) vs then io_return ()
     else
       io_bind (io_lift (vlan_members_tlv vlan [] [] (m_port_count (nw_model W)))) (\<lambda>e.
       io_bind (wr [e] (nw_password W)) (\<lambda>_.
       io_bind (get_vlans rd) (\<lambda>after.
       io_when_raise (\<not> list_ex (\<lambda>v. vi_vlan_id v = vlan) after)
         (WriteVerificationError EvNone (EvInts (map vi_vlan_id after)))))))"

definition delete_vlan ::
  "'w read_client \<Rightarrow> 'w write_client \<Rightarrow> nsdp_writer \<Rightarrow> int \<Rightarrow> bool \<Rightarrow> ('w, exn, unit) io" where
  "delete_vlan rd wr W vlan force =
     (if \<not> force then io_raise ProtectedPortError
      else
        io_bind (get_vlans rd) (\<lambda>vs.
        let before = map vi_vlan_id vs in
        io_bind (io_lift (vlan_destroy_tlv vlan)) (\<lambda>e.
        io_bind (wr [e] (nw_password W)) (\<lambda>_.
        io_bind (get_vlans rd) (\<lambda>vs'.
        let after = map vi_vlan_id vs' in
        io_when_raise (vlan \<in> set after) (WriteVerificationError (EvInts before) (EvInts after)))))))"

text \<open>What no NSDP tag can set is refused by name, before anything is sent.\<close>

definition set_poe :: "int \<Rightarrow> bool \<Rightarrow> bool \<Rightarrow> ('w, exn, unit) io" where
  "set_poe port on force = io_raise UnsupportedCapabilityError"

definition cycle_poe :: "int \<Rightarrow> bool \<Rightarrow> ('w, exn, unit) io" where
  "cycle_poe port force = io_raise UnsupportedCapabilityError"

definition clear_poe_fault :: "int \<Rightarrow> bool \<Rightarrow> ('w, exn, unit) io" where
  "clear_poe_fault port force = io_raise UnsupportedCapabilityError"

definition set_port_enabled :: "int \<Rightarrow> bool \<Rightarrow> bool \<Rightarrow> ('w, exn, unit) io" where
  "set_port_enabled port enabled force = io_raise UnsupportedCapabilityError"

definition set_port_speed :: "int \<Rightarrow> port_speed \<Rightarrow> bool \<Rightarrow> ('w, exn, unit) io" where
  "set_port_speed port speed force = io_raise UnsupportedCapabilityError"

definition set_flow_control :: "int \<Rightarrow> bool \<Rightarrow> bool \<Rightarrow> ('w, exn, unit) io" where
  "set_flow_control port enabled force = io_raise UnsupportedCapabilityError"

definition add_syslog_collector :: "ustr \<Rightarrow> int \<Rightarrow> int \<Rightarrow> bool \<Rightarrow> ('w, exn, unit) io" where
  "add_syslog_collector host port severity force = io_raise UnsupportedCapabilityError"

definition remove_syslog_collector :: "ustr \<Rightarrow> bool \<Rightarrow> ('w, exn, unit) io" where
  "remove_syslog_collector host force = io_raise UnsupportedCapabilityError"

definition set_syslog_enabled :: "bool \<Rightarrow> bool \<Rightarrow> ('w, exn, unit) io" where
  "set_syslog_enabled enabled force = io_raise UnsupportedCapabilityError"

section \<open>The asynchronous writer\<close>

text \<open>
  \<open>AsyncNsdpWriter\<close>, over the asynchronous client and reader. It is written out
  beside the synchronous writer in the code, and so here: the two differ in
  \<open>set_hostname\<close>.
\<close>

definition async_vlan_lookup :: "'w read_client \<Rightarrow> int \<Rightarrow> ('w, exn, vlan_info option) io" where
  "async_vlan_lookup rd vlan = io_bind (async_get_vlans rd) (\<lambda>vs. io_return (find (\<lambda>v. vi_vlan_id v = vlan) vs))"

definition async_require_vlan_exists :: "'w read_client \<Rightarrow> int \<Rightarrow> ('w, exn, unit) io" where
  "async_require_vlan_exists rd vlan =
     io_bind (async_vlan_lookup rd vlan) (\<lambda>v. io_when_raise (v = None) (NsdpError (NsdpNoVlan vlan)))"

definition async_set_port_description ::
  "'w read_client \<Rightarrow> 'w write_client \<Rightarrow> nsdp_writer \<Rightarrow> int \<Rightarrow> ustr \<Rightarrow> bool \<Rightarrow> ('w, exn, unit) io" where
  "async_set_port_description rd wr W port description force =
     io_bind (io_lift (guard W port force)) (\<lambda>_.
     io_bind (async_get_ports rd) (\<lambda>ps.
     let before = descriptions ps in
     io_bind (io_lift (port_name_tlv port description)) (\<lambda>e.
     io_bind (wr [e] (nw_password W)) (\<lambda>_.
     io_bind (async_get_ports rd) (\<lambda>ps'.
     let after = descriptions ps'; want = or_none description in
     io_when_raise (get_or_none after port \<noteq> want)
       (WriteVerificationError (ev_text (get_or_none before port)) (ev_text (get_or_none after port))))))))"

definition async_set_pvid ::
  "'w read_client \<Rightarrow> 'w write_client \<Rightarrow> nsdp_writer \<Rightarrow> int \<Rightarrow> int \<Rightarrow> bool \<Rightarrow> ('w, exn, unit) io" where
  "async_set_pvid rd wr W port vlan force =
     io_bind (io_lift (guard W port force)) (\<lambda>_.
     io_bind (async_require_vlan_exists rd vlan) (\<lambda>_.
     io_bind (async_get_pvids rd) (\<lambda>ps.
     let before = dict_of ps in
     io_bind (io_lift (pvid_tlv port vlan)) (\<lambda>e.
     io_bind (wr [e] (nw_password W)) (\<lambda>_.
     io_bind (async_get_pvids rd) (\<lambda>ps'.
     let after = dict_of ps' in
     io_when_raise (dict_get after port \<noteq> Some vlan)
       (WriteVerificationError (ev_int (dict_get before port)) (ev_int (dict_get after port)))))))))"

definition async_set_vlan_membership ::
  "'w read_client \<Rightarrow> 'w write_client \<Rightarrow> nsdp_writer \<Rightarrow> int \<Rightarrow> int \<Rightarrow> vlan_mode \<Rightarrow> bool \<Rightarrow> ('w, exn, unit) io" where
  "async_set_vlan_membership rd wr W vlan port mode force =
     io_bind (io_lift (guard W port force)) (\<lambda>_.
     io_bind (async_vlan_lookup rd vlan) (\<lambda>before.
     let (members, tagged) = members_after before port mode in
     io_bind (io_lift (vlan_members_tlv vlan (sorted_list_of_set members) (sorted_list_of_set tagged)
       (m_port_count (nw_model W)))) (\<lambda>e.
     io_bind (wr [e] (nw_password W)) (\<lambda>_.
     io_bind (async_vlan_lookup rd vlan) (\<lambda>after.
     io_when_raise (\<not> membership_ok after port mode)
       (WriteVerificationError (ev_vlan before) (ev_vlan after)))))))"

definition async_set_mgmt_ip ::
  "'w read_client \<Rightarrow> 'w write_client \<Rightarrow> nsdp_writer \<Rightarrow> ustr \<Rightarrow> ustr \<Rightarrow> ustr \<Rightarrow> bool \<Rightarrow> ('w, exn, unit) io" where
  "async_set_mgmt_ip rd wr W address netmask gateway force =
     (if \<not> force then io_raise ProtectedPortError
      else
        io_bind (async_get_mgmt_ip rd) (\<lambda>before.
        io_bind (io_lift (ipv4_tlv IP_ADDRESS address)) (\<lambda>a.
        io_bind (io_lift (ipv4_tlv NETMASK netmask)) (\<lambda>n.
        io_bind (io_lift (ipv4_tlv GATEWAY gateway)) (\<lambda>g.
        io_bind (wr [a, n, g] (nw_password W)) (\<lambda>_.
        io_bind (async_get_mgmt_ip rd) (\<lambda>after.
        io_when_raise
          ((ip_address after, ip_netmask after, ip_gateway after) \<noteq> (Some address, Some netmask, Some gateway))
          (WriteVerificationError (ev_mgmt before) (ev_mgmt after)))))))))"

definition async_create_vlan ::
  "'w read_client \<Rightarrow> 'w write_client \<Rightarrow> nsdp_writer \<Rightarrow> int \<Rightarrow> ustr \<Rightarrow> bool \<Rightarrow> ('w, exn, unit) io" where
  "async_create_vlan rd wr W vlan name force =
     io_bind (async_get_vlans rd) (\<lambda>vs.
     if list_ex (\<lambda>v. vi_vlan_id v = vlan) vs then io_return ()
     else
       io_bind (io_lift (vlan_members_tlv vlan [] [] (m_port_count (nw_model W)))) (\<lambda>e.
       io_bind (wr [e] (nw_password W)) (\<lambda>_.
       io_bind (async_get_vlans rd) (\<lambda>after.
       io_when_raise (\<not> list_ex (\<lambda>v. vi_vlan_id v = vlan) after)
         (WriteVerificationError EvNone (EvInts (map vi_vlan_id after)))))))"

definition async_delete_vlan ::
  "'w read_client \<Rightarrow> 'w write_client \<Rightarrow> nsdp_writer \<Rightarrow> int \<Rightarrow> bool \<Rightarrow> ('w, exn, unit) io" where
  "async_delete_vlan rd wr W vlan force =
     (if \<not> force then io_raise ProtectedPortError
      else
        io_bind (async_get_vlans rd) (\<lambda>vs.
        let before = map vi_vlan_id vs in
        io_bind (io_lift (vlan_destroy_tlv vlan)) (\<lambda>e.
        io_bind (wr [e] (nw_password W)) (\<lambda>_.
        io_bind (async_get_vlans rd) (\<lambda>vs'.
        let after = map vi_vlan_id vs' in
        io_when_raise (vlan \<in> set after) (WriteVerificationError (EvInts before) (EvInts after)))))))"

text \<open>The host name is not written, where the synchronous writer writes it.\<close>

definition async_set_hostname :: "ustr \<Rightarrow> bool \<Rightarrow> ('w, exn, unit) io" where
  "async_set_hostname name force = io_raise UnsupportedCapabilityError"

definition async_set_poe :: "int \<Rightarrow> bool \<Rightarrow> bool \<Rightarrow> ('w, exn, unit) io" where
  "async_set_poe port on force = io_raise UnsupportedCapabilityError"

definition async_cycle_poe :: "int \<Rightarrow> bool \<Rightarrow> ('w, exn, unit) io" where
  "async_cycle_poe port force = io_raise UnsupportedCapabilityError"

definition async_clear_poe_fault :: "int \<Rightarrow> bool \<Rightarrow> ('w, exn, unit) io" where
  "async_clear_poe_fault port force = io_raise UnsupportedCapabilityError"

definition async_set_port_enabled :: "int \<Rightarrow> bool \<Rightarrow> bool \<Rightarrow> ('w, exn, unit) io" where
  "async_set_port_enabled port enabled force = io_raise UnsupportedCapabilityError"

definition async_set_port_speed :: "int \<Rightarrow> port_speed \<Rightarrow> bool \<Rightarrow> ('w, exn, unit) io" where
  "async_set_port_speed port speed force = io_raise UnsupportedCapabilityError"

definition async_set_flow_control :: "int \<Rightarrow> bool \<Rightarrow> bool \<Rightarrow> ('w, exn, unit) io" where
  "async_set_flow_control port enabled force = io_raise UnsupportedCapabilityError"

definition async_add_syslog_collector :: "ustr \<Rightarrow> int \<Rightarrow> int \<Rightarrow> bool \<Rightarrow> ('w, exn, unit) io" where
  "async_add_syslog_collector host port severity force = io_raise UnsupportedCapabilityError"

definition async_remove_syslog_collector :: "ustr \<Rightarrow> bool \<Rightarrow> ('w, exn, unit) io" where
  "async_remove_syslog_collector host force = io_raise UnsupportedCapabilityError"

definition async_set_syslog_enabled :: "bool \<Rightarrow> bool \<Rightarrow> ('w, exn, unit) io" where
  "async_set_syslog_enabled enabled force = io_raise UnsupportedCapabilityError"

lemmas writer_defs = set_hostname_def set_port_description_def set_pvid_def set_vlan_membership_def
  set_mgmt_ip_def create_vlan_def delete_vlan_def

lemmas refusal_defs = set_poe_def cycle_poe_def clear_poe_fault_def set_port_enabled_def
  set_port_speed_def set_flow_control_def add_syslog_collector_def remove_syslog_collector_def
  set_syslog_enabled_def

lemmas async_refusal_defs = async_set_poe_def async_cycle_poe_def async_clear_poe_fault_def
  async_set_port_enabled_def async_set_port_speed_def async_set_flow_control_def
  async_add_syslog_collector_def async_remove_syslog_collector_def async_set_syslog_enabled_def
  async_set_hostname_def

section \<open>Member sets\<close>

text \<open>
  The order a set is iterated in does not matter: two lists of ports with the same
  elements, all at least 1, give the same bitmap.
\<close>

lemmas ports_to_bitmap_order = nsdp_bitmap.enc_cong

text \<open>One membership change moves one port and leaves the invariant tagged within members.\<close>

lemma members_after_effect:
  assumes "members_after cur port mode = (ms, ts)"
  shows "(port \<in> ms) = (mode \<noteq> VlanExcluded)" "(port \<in> ts) = (mode = VlanTagged)"
    and "q \<noteq> port \<Longrightarrow> q \<in> ms \<longleftrightarrow> (case cur of Some v \<Rightarrow> q \<in> vi_member_ports v | None \<Rightarrow> False)"
    and "q \<noteq> port \<Longrightarrow> q \<in> ts \<longleftrightarrow> (case cur of Some v \<Rightarrow> q \<in> vi_tagged_ports v | None \<Rightarrow> False)"
  using assms by (cases mode; force simp: members_after_def Let_def split: option.splits)+

lemma members_after_tagged:
  "members_after cur port mode = (ms, ts) \<Longrightarrow>
     (case cur of Some v \<Rightarrow> vi_tagged_ports v \<subseteq> vi_member_ports v | None \<Rightarrow> True) \<Longrightarrow> ts \<subseteq> ms"
  by (cases mode) (auto simp: members_after_def Let_def split: option.splits if_splits)

lemma membership_ok_after:
  assumes "members_after cur port mode = (vi_member_ports v, vi_tagged_ports v)"
  shows "membership_ok (Some v) port mode"
  using members_after_effect(1,2) [OF assms] by (cases mode) (auto simp: membership_ok_def)

section \<open>Verification after the write\<close>

text \<open>
  The run ended with a write of \<open>es\<close> that the client reported as a success,
  followed by one observation that satisfies \<open>P\<close>.
\<close>

definition wrote_then ::
  "'w write_client \<Rightarrow> ustr \<Rightarrow> tlv list \<Rightarrow> ('w, exn, 'a) io \<Rightarrow> ('a \<Rightarrow> bool) \<Rightarrow> 'w \<Rightarrow> bool" where
  "wrote_then wr pw es look P w' \<longleftrightarrow>
     (\<exists>resp w1 w2 a. wr es pw w1 = (Inr resp, w2) \<and> look w2 = (Inr a, w') \<and> P a)"

lemma wrote_thenI:
  "wr es pw w1 = (Inr resp, w2) \<Longrightarrow> look w2 = (Inr a, w') \<Longrightarrow> P a \<Longrightarrow> wrote_then wr pw es look P w'"
  by (auto simp: wrote_then_def)

lemma io_when_raise_Inr_iff [res_iff]: "io_when_raise c e w = (Inr u, w') \<longleftrightarrow> \<not> c \<and> w' = w"
  by auto

lemma io_lift_Inr_iff [res_iff]: "io_lift r w = (Inr x, w') \<longleftrightarrow> r = Inr x \<and> w' = w"
  by auto

lemma guard_Inr_iff [res_iff]: "guard W port force = Inr u \<longleftrightarrow> force \<or> port \<notin> nw_protected_ports W"
  by (auto simp: guard_def)

text \<open>What holds of the state a normal return leaves.\<close>

definition on_return :: "('e, unit) res \<times> 'w \<Rightarrow> ('w \<Rightarrow> bool) \<Rightarrow> bool" where
  "on_return r P = (case r of (Inl _, _) \<Rightarrow> True | (Inr _, w') \<Rightarrow> P w')"

lemma on_returnI: "(\<And>w'. r = (Inr (), w') \<Longrightarrow> P w') \<Longrightarrow> on_return r P"
  by (auto simp: on_return_def split: prod.split sum.split)

lemma ex_unit: "(\<exists>x :: unit. P x) \<longleftrightarrow> P ()"
  by (metis (full_types) old.unit.exhaust)

lemma set_pvid_Inr:
  "set_pvid rd wr W port vlan force w = (Inr (), w') \<Longrightarrow> guard W port force = Inr ()
   \<and> (\<exists>e. pvid_tlv port vlan = Inr e \<and> wrote_then wr (nw_password W) [e] (get_pvids rd)
        (\<lambda>ps. dict_get (dict_of ps) port = Some vlan) w')"
  unfolding set_pvid_def Let_def io_bind_Inr_iff io_lift_Inr_iff io_when_raise_Inr_iff ex_unit
  by (blast intro: wrote_thenI)

lemma set_port_description_Inr:
  "set_port_description rd wr W port d force w = (Inr (), w') \<Longrightarrow> guard W port force = Inr ()
   \<and> (\<exists>e. port_name_tlv port d = Inr e \<and> wrote_then wr (nw_password W) [e] (get_ports rd)
        (\<lambda>ps. get_or_none (descriptions ps) port = or_none d) w')"
  unfolding set_port_description_def Let_def io_bind_Inr_iff io_lift_Inr_iff io_when_raise_Inr_iff ex_unit
  by (blast intro: wrote_thenI)

definition membership_frame :: "nsdp_writer \<Rightarrow> int \<Rightarrow> int \<Rightarrow> vlan_mode \<Rightarrow> vlan_info option \<Rightarrow> tlv py" where
  "membership_frame W vlan port mode before =
     (let (ms, ts) = members_after before port mode in
      vlan_members_tlv vlan (sorted_list_of_set ms) (sorted_list_of_set ts) (m_port_count (nw_model W)))"

lemma set_vlan_membership_frame:
  "set_vlan_membership rd wr W vlan port mode force =
     io_bind (io_lift (guard W port force)) (\<lambda>_.
     io_bind (vlan_lookup rd vlan) (\<lambda>before.
     io_bind (io_lift (membership_frame W vlan port mode before)) (\<lambda>e.
     io_bind (wr [e] (nw_password W)) (\<lambda>_.
     io_bind (vlan_lookup rd vlan) (\<lambda>after.
     io_when_raise (\<not> membership_ok after port mode)
       (WriteVerificationError (ev_vlan before) (ev_vlan after)))))))"
  by (simp add: set_vlan_membership_def membership_frame_def case_prod_beta Let_def)

lemma set_vlan_membership_Inr:
  "set_vlan_membership rd wr W vlan port mode force w = (Inr (), w') \<Longrightarrow> guard W port force = Inr ()
   \<and> (\<exists>before w1 e. vlan_lookup rd vlan w = (Inr before, w1) \<and> membership_frame W vlan port mode before = Inr e
        \<and> wrote_then wr (nw_password W) [e] (vlan_lookup rd vlan) (\<lambda>v. membership_ok v port mode) w')"
  unfolding set_vlan_membership_frame io_bind_Inr_iff io_lift_Inr_iff io_when_raise_Inr_iff ex_unit
  by (blast intro: wrote_thenI)

lemma set_hostname_Inr:
  "set_hostname rd wr W name force w = (Inr (), w') \<Longrightarrow> strip name \<noteq> []
   \<and> (\<exists>e. hostname_tlv name = Inr e \<and> wrote_then wr (nw_password W) [e] (get_hostname rd)
        (\<lambda>h. h = name) w')"
  unfolding set_hostname_def
  by (cases "strip name = []")
    (simp_all add: io_bind_Inr_iff io_lift_Inr_iff io_when_raise_Inr_iff del: io_lift_app io_when_raise_app,
     blast intro: wrote_thenI)

lemma set_mgmt_ip_Inr:
  "set_mgmt_ip rd wr W a n g force w = (Inr (), w') \<Longrightarrow> force
   \<and> (\<exists>x y z. ipv4_tlv IP_ADDRESS a = Inr x \<and> ipv4_tlv NETMASK n = Inr y \<and> ipv4_tlv GATEWAY g = Inr z
      \<and> wrote_then wr (nw_password W) [x, y, z] (get_mgmt_ip rd)
        (\<lambda>c. ip_address c = Some a \<and> ip_netmask c = Some n \<and> ip_gateway c = Some g) w')"
  unfolding set_mgmt_ip_def
  by (cases force)
    (simp_all add: io_bind_Inr_iff io_lift_Inr_iff io_when_raise_Inr_iff del: io_lift_app io_when_raise_app,
     blast intro: wrote_thenI)

lemma create_vlan_Inr:
  "create_vlan rd wr W vlan name force w = (Inr (), w') \<Longrightarrow>
     \<exists>vs w1. get_vlans rd w = (Inr vs, w1)
       \<and> (if list_ex (\<lambda>v. vi_vlan_id v = vlan) vs then w' = w1
          else \<exists>e. vlan_members_tlv vlan [] [] (m_port_count (nw_model W)) = Inr e
            \<and> wrote_then wr (nw_password W) [e] (get_vlans rd) (list_ex (\<lambda>v. vi_vlan_id v = vlan)) w')"
  unfolding create_vlan_def io_bind_Inr_iff [of "get_vlans rd"]
  by (elim exE conjE, split if_split_asm)
    (auto simp: io_bind_Inr_iff io_lift_Inr_iff io_when_raise_Inr_iff simp del: io_lift_app io_when_raise_app
      intro: wrote_thenI)

lemma delete_vlan_Inr:
  "delete_vlan rd wr W vlan force w = (Inr (), w') \<Longrightarrow> force
   \<and> (\<exists>e. vlan_destroy_tlv vlan = Inr e \<and> wrote_then wr (nw_password W) [e] (get_vlans rd)
        (\<lambda>vs. vlan \<notin> vi_vlan_id ` set vs) w')"
  unfolding delete_vlan_def Let_def
  by (cases force)
    (simp_all add: io_bind_Inr_iff io_lift_Inr_iff io_when_raise_Inr_iff del: io_lift_app io_when_raise_app,
     blast intro: wrote_thenI)

text \<open>
  C12. A write that returns was verified: for every writing operation, whatever the
  client and the switch do, a normal return means that the guard let it through,
  that the client reported the write of exactly the entries for the arguments as a
  success, and that the read made after it showed the value asked for, in the state
  the operation leaves. One return makes no write: \<open>create_vlan\<close> of a VLAN its
  first read already shows ends with that read.
\<close>

theorem writes_are_verified:
  "on_return (set_pvid rd wr W port vlan force w) (\<lambda>w'.
      guard W port force = Inr ()
      \<and> (\<exists>e. pvid_tlv port vlan = Inr e \<and> wrote_then wr (nw_password W) [e] (get_pvids rd)
            (\<lambda>ps. dict_get (dict_of ps) port = Some vlan) w'))
   \<and> on_return (set_vlan_membership rd wr W vlan port mode force w) (\<lambda>w'.
      guard W port force = Inr ()
      \<and> (\<exists>before w1 e. vlan_lookup rd vlan w = (Inr before, w1)
            \<and> membership_frame W vlan port mode before = Inr e
            \<and> wrote_then wr (nw_password W) [e] (vlan_lookup rd vlan) (\<lambda>v. membership_ok v port mode) w'))
   \<and> on_return (set_port_description rd wr W port d force w) (\<lambda>w'.
      guard W port force = Inr ()
      \<and> (\<exists>e. port_name_tlv port d = Inr e \<and> wrote_then wr (nw_password W) [e] (get_ports rd)
            (\<lambda>ps. get_or_none (descriptions ps) port = or_none d) w'))
   \<and> on_return (set_hostname rd wr W name force w) (\<lambda>w'. strip name \<noteq> []
      \<and> (\<exists>e. hostname_tlv name = Inr e \<and> wrote_then wr (nw_password W) [e] (get_hostname rd)
            (\<lambda>h. h = name) w'))
   \<and> on_return (set_mgmt_ip rd wr W a n g force w) (\<lambda>w'. force
      \<and> (\<exists>x y z. ipv4_tlv IP_ADDRESS a = Inr x \<and> ipv4_tlv NETMASK n = Inr y \<and> ipv4_tlv GATEWAY g = Inr z
            \<and> wrote_then wr (nw_password W) [x, y, z] (get_mgmt_ip rd)
            (\<lambda>c. ip_address c = Some a \<and> ip_netmask c = Some n \<and> ip_gateway c = Some g) w'))
   \<and> on_return (create_vlan rd wr W vlan name force w) (\<lambda>w'.
      \<exists>vs w1. get_vlans rd w = (Inr vs, w1)
      \<and> (if list_ex (\<lambda>v. vi_vlan_id v = vlan) vs then w' = w1
         else \<exists>e. vlan_members_tlv vlan [] [] (m_port_count (nw_model W)) = Inr e
           \<and> wrote_then wr (nw_password W) [e] (get_vlans rd) (list_ex (\<lambda>v. vi_vlan_id v = vlan)) w'))
   \<and> on_return (delete_vlan rd wr W vlan force w) (\<lambda>w'. force
      \<and> (\<exists>e. vlan_destroy_tlv vlan = Inr e \<and> wrote_then wr (nw_password W) [e] (get_vlans rd)
            (\<lambda>vs. vlan \<notin> vi_vlan_id ` set vs) w'))"
  by (intro conjI; rule on_returnI)
    (erule set_pvid_Inr set_vlan_membership_Inr set_port_description_Inr set_hostname_Inr
        set_mgmt_ip_Inr create_vlan_Inr delete_vlan_Inr)+

text \<open>
  C13. A protected port is not touched: without \<open>force\<close> the operations on it raise
  \<open>ProtectedPortError\<close>, and the address write and the VLAN deletion, which can cut
  off any port, raise it whatever ports are protected, none included; nothing is
  sent or read first.
\<close>

theorem protected_port_untouched:
  "(port \<in> nw_protected_ports W \<longrightarrow>
        set_pvid rd wr W port vlan False w = (Inl ProtectedPortError, w)
      \<and> set_vlan_membership rd wr W vlan port mode False w = (Inl ProtectedPortError, w)
      \<and> set_port_description rd wr W port d False w = (Inl ProtectedPortError, w))
    \<and> set_mgmt_ip rd wr W a n g False w = (Inl ProtectedPortError, w)
    \<and> delete_vlan rd wr W vlan False w = (Inl ProtectedPortError, w)"
  by (simp add: writer_defs guard_def)

definition sample_writer :: nsdp_writer where
  "sample_writer = \<lparr>nw_model = gs110emx, nw_password = lit ''pw'', nw_protected_ports = {10}\<rparr>"

theorem protected_port_untouched_witness:
  "set_pvid (\<lambda>_ n. (Inl TimeoutError, Suc n)) (\<lambda>_ _ n. (Inl TimeoutError, Suc n)) sample_writer 10 1 False 0
     = (Inl ProtectedPortError, 0)"
proof -
  have "10 \<in> nw_protected_ports sample_writer" by (simp add: sample_writer_def)
  then show ?thesis by (rule protected_port_untouched [THEN conjunct1, THEN mp, THEN conjunct1])
qed

text \<open>
  C26. The asynchronous writer does what the synchronous one does, operation by
  operation and over any client, refusals included, with one exception: it never
  sets a host name.
\<close>

theorem async_writer_matches:
  "async_set_pvid rd wr W port vlan force = set_pvid rd wr W port vlan force
   \<and> async_set_vlan_membership rd wr W vlan port mode force = set_vlan_membership rd wr W vlan port mode force
   \<and> async_set_port_description rd wr W port d force = set_port_description rd wr W port d force
   \<and> async_set_mgmt_ip rd wr W a n g force = set_mgmt_ip rd wr W a n g force
   \<and> async_create_vlan rd wr W vlan name force = create_vlan rd wr W vlan name force
   \<and> async_delete_vlan rd wr W vlan force = delete_vlan rd wr W vlan force
   \<and> async_set_poe port on force w = set_poe port on force w
   \<and> async_set_port_speed port speed force w = set_port_speed port speed force w
   \<and> async_set_hostname name force w = (Inl UnsupportedCapabilityError, w)"
  unfolding writer_defs async_set_pvid_def async_set_vlan_membership_def async_set_port_description_def
    async_set_mgmt_ip_def async_create_vlan_def async_delete_vlan_def async_require_vlan_exists_def
    require_vlan_exists_def async_vlan_lookup_def vlan_lookup_def async_reader_eq
    refusal_defs async_refusal_defs
  by simp

end
