(* ===== verification/Nsdp_Session.thy ===== *)
theory Nsdp_Session
  imports Nsdp_Write Virtual_Nsdp_View
begin

text \<open>
  What the reader and the writer need of a client and the switch behind it, as a
  locale: reads show the state, an accepted write applies its entries. Inside it,
  every operation of the reader returns the state and every operation of the
  writer takes the switch to the state its name promises.
\<close>

section \<open>Entries a client can send\<close>

definition tlvs_size :: "tlv list \<Rightarrow> nat" where
  "tlvs_size es = (\<Sum>e \<leftarrow> es. 4 + length (tlv_value e))"

lemma tlvs_size_simps [simp]:
  "tlvs_size [] = 0" "tlvs_size (e # es) = 4 + length (tlv_value e) + tlvs_size es"
  "tlvs_size (es @ fs) = tlvs_size es + tlvs_size fs"
  by (simp_all add: tlvs_size_def)

text \<open>Entries a writer may send: encodable, no credential, no end marker, within the datagram.\<close>

definition plain :: "tlv list \<Rightarrow> bool" where
  "plain es \<longleftrightarrow> tlvs_size es \<le> 3000 \<and> list_all (\<lambda>e. tlv_ok e \<and> \<not> tag_is (tlv_tag e) PASSWORD
     \<and> \<not> tag_is (tlv_tag e) AUTH_V2_PASSWORD \<and> \<not> tag_is (tlv_tag e) END_OF_MARK) es"

section \<open>What the operations return\<close>

text \<open>The records the reader makes of the tables of a switch.\<close>

definition port_record :: "int \<times> port_sim \<Rightarrow> port_status" where
  "port_record x = \<lparr>st_port = fst x, st_name = None, st_admin_enabled = True,
     st_link_up = (nps_speed (view_status x) \<noteq> DOWN),
     st_speed_mbps = (let v = speed_mbps (nps_speed (view_status x)) in if v = 0 then None else Some v),
     st_description = npn_name (view_name x), st_full_duplex = None, st_flow_control = None,
     st_speed_config = None, st_oper_status = None\<rparr>"

definition vlan_record :: "int \<times> vlan_sim \<Rightarrow> vlan_info" where
  "vlan_record x = \<lparr>vi_vlan_id = fst x, vi_name = None, vi_member_ports = vl_member (snd x),
     vi_tagged_ports = vl_member (snd x) - vl_untagged (snd x),
     vi_untagged_ports = vl_member (snd x) \<inter> vl_untagged (snd x)\<rparr>"

definition stat_record :: "int \<times> port_sim \<Rightarrow> port_stats" where
  "stat_record x = \<lparr>ct_port = fst x, ct_rx_bytes = Some (or_zero (pt_rx_octets (snd x))),
     ct_tx_bytes = Some (or_zero (pt_tx_octets (snd x))), ct_rx_packets = None, ct_tx_packets = None,
     ct_rx_errors = Some (or_zero (pt_rx_errors (snd x))), ct_tx_errors = None\<rparr>"

text \<open>An address is shown as the four octets the switch keeps, in decimal.\<close>

definition shown_addr :: "ustr \<Rightarrow> ustr" where
  "shown_addr a = dotted (res_the (inet_aton a))"

definition mgmt_record :: "virtual_switch \<Rightarrow> mgmt_ip_config" where
  "mgmt_record s = \<lparr>ip_mode_of = (if mg_mode (vs_mgmt s) = lit ''static'' then IpStatic else IpDhcp),
     ip_address = Some (shown_addr (mg_address (vs_mgmt s))), ip_netmask = Some (shown_addr (mg_netmask (vs_mgmt s))),
     ip_gateway = Some (shown_addr (mg_gateway (vs_mgmt s))),
     ip_base_mac = Some (upper (colon_join (map hex2 (vs_nsdp_mac s))))\<rparr>"

lemma view_ids [simp]:
  "nps_port_id (view_status x) = fst x" "npn_port_id (view_name x) = fst x"
  "nvm_vlan_id (view_vlan z) = fst z" "npp_port_id (view_pvid y) = fst y" "npp_vlan_id (view_pvid y) = snd y"
  by (simp_all add: view_status_def view_name_def view_vlan_def view_pvid_def case_prod_beta)

lemma vlans_of_view: "vlans_of_device (dev\<lparr>nd_vlan_members := map view_vlan xs\<rparr>) = map vlan_record xs"
  by (auto simp: vlans_of_device_def vlan_record_def view_vlan_def untagged_ports_def)

lemma ports_of_view:
  assumes "dict_wf xs"
  shows "ports_of_device (dev\<lparr>nd_port_status := map view_status xs, nd_port_names := map view_name xs\<rparr>)
    = map port_record xs"
proof -
  let ?l = "map (\<lambda>x. (fst x, npn_name (view_name x))) xs"
  have wf: "dict_wf ?l" using assms by (simp add: dict_wf_def comp_def)
  have "dict_get (dict_of ?l) (fst x) = Some (npn_name (view_name x))" if "x \<in> set xs" for x
    using that wf by (simp add: dict_get_dict_of_wf flip: dict_get_in)
  then show ?thesis
    by (simp add: ports_of_device_def port_record_def Let_def comp_def)
qed

lemma find_sorted_items:
  "dict_wf d \<Longrightarrow> find (\<lambda>v. vi_vlan_id v = k) (map vlan_record (sorted_items d))
     = map_option (\<lambda>v. vlan_record (k, v)) (dict_get d k)"
proof -
  assume wf: "dict_wf d"
  have "find (\<lambda>v. vi_vlan_id v = k) (map vlan_record xs) = map_option (\<lambda>v. vlan_record (k, v)) (map_of xs k)" for xs
    by (induction xs) (auto simp: vlan_record_def)
  then show ?thesis using wf by (simp add: dict_get_def)
qed

lemma dict_of_sorted_items: "dict_wf d \<Longrightarrow> dict_get (dict_of (sorted_items d)) k = dict_get d k"
  by (simp add: dict_get_dict_of_wf) (simp add: dict_get_def)

section \<open>The contract\<close>

locale nsdp_session =
  fixes rd :: "'w read_client" and wr :: "'w write_client"
    and pw :: ustr and m :: switch_model
    and ok :: "'w \<Rightarrow> bool" and sw :: "'w \<Rightarrow> virtual_switch" and small :: "virtual_switch \<Rightarrow> bool"
  assumes read_law: "ok w \<Longrightarrow> MODEL \<in> set tags \<Longrightarrow> set tags \<subseteq> set FULL_DEVICE_TAGS \<Longrightarrow> distinct tags \<Longrightarrow>
      (VLAN_MEMBERS \<in> set tags \<longrightarrow> PORT_COUNT \<in> set tags) \<Longrightarrow>
      \<exists>p w'. rd tags w = (Inr p, w') \<and> parse_device p = Inr (device_view (set tags) m (sw w))
        \<and> ok w' \<and> sw w' = sw w"
    and write_law: "ok w \<Longrightarrow> plain es \<Longrightarrow> apply_all (\<lambda>_. False) es (sw w) = (Inr (), s') \<Longrightarrow> small s' \<Longrightarrow>
      \<exists>p w'. wr es pw w = (Inr p, w') \<and> ok w' \<and> sw w' = s'"
    and wf_law: "ok w \<Longrightarrow> get_model (vs_model_key (sw w)) = Inr m \<and> nsdp_wf (sw w)"
begin

lemma state_ok:
  assumes "ok w"
  shows "identity_ok m (sw w)" "tables_ok (bitmap_width (m_port_count m)) (sw w)" "mgmt_ok (vs_mgmt (sw w))"
    "dict_wf (vs_ports (sw w))" "dict_wf (vs_vlans (sw w))" "dict_wf (vs_pvids (sw w))"
    "get_model (vs_model_key (sw w)) = Inr m"
  using wf_law [OF assms] by (auto simp: nsdp_wf_def tables_ok_def)

lemma read_device_ok:
  assumes "ok w" "MODEL \<notin> set tags" "set tags \<subseteq> set FULL_DEVICE_TAGS" "distinct tags"
    "VLAN_MEMBERS \<in> set tags \<longrightarrow> PORT_COUNT \<in> set tags"
  shows "\<exists>w'. read_device rd tags w = (Inr (device_view (insert MODEL (set tags)) m (sw w)), w')
    \<and> ok w' \<and> sw w' = sw w"
proof -
  have "MODEL \<in> set FULL_DEVICE_TAGS" by (simp add: FULL_DEVICE_TAGS_def)
  then show ?thesis
    using read_law [of w "MODEL # tags"] assms
    by (auto simp: read_device_def with_model_def io_bind_run)
qed

lemma get_ports_ok:
  assumes "ok w"
  shows "\<exists>w'. get_ports rd w = (Inr (map port_record (sorted_items (vs_ports (sw w)))), w') \<and> ok w' \<and> sw w' = sw w"
proof -
  let ?d = "device_view {MODEL, PORT_COUNT, PORT_STATUS, PORT_NAME} m (sw w)"
  have "ports_of_device ?d = map port_record (sorted_items (vs_ports (sw w)))"
    using ports_of_view [of "sorted_items (vs_ports (sw w))" ?d] state_ok(4) [OF assms]
    by (simp add: device_view_def sect_def)
  then show ?thesis
    using read_device_ok [OF assms, of "[PORT_COUNT, PORT_STATUS, PORT_NAME]"]
    by (auto simp: get_ports_def io_bind_run FULL_DEVICE_TAGS_def)
qed

lemma get_vlans_ok:
  assumes "ok w"
  shows "\<exists>w'. get_vlans rd w = (Inr (map vlan_record (sorted_items (vs_vlans (sw w)))), w') \<and> ok w' \<and> sw w' = sw w"
proof -
  let ?d = "device_view {MODEL, PORT_COUNT, VLAN_MEMBERS} m (sw w)"
  have "vlans_of_device ?d = map vlan_record (sorted_items (vs_vlans (sw w)))"
    using vlans_of_view [of "sorted_items (vs_vlans (sw w))" ?d] by (simp add: device_view_def sect_def)
  then show ?thesis
    using read_device_ok [OF assms, of "[PORT_COUNT, VLAN_MEMBERS]"]
    by (auto simp: get_vlans_def io_bind_run FULL_DEVICE_TAGS_def)
qed

lemma get_pvids_ok:
  assumes "ok w"
  shows "\<exists>w'. get_pvids rd w = (Inr (sorted_items (vs_pvids (sw w))), w') \<and> ok w' \<and> sw w' = sw w"
  using read_device_ok [OF assms, of "[PORT_PVID]"]
  by (auto simp: get_pvids_def io_bind_run FULL_DEVICE_TAGS_def device_view_def sect_def comp_def)

lemma get_hostname_ok:
  assumes "ok w"
  shows "\<exists>w'. get_hostname rd w = (Inr (nul_rstrip (vs_hostname (sw w))), w') \<and> ok w' \<and> sw w' = sw w"
  using read_device_ok [OF assms, of "[HOSTNAME]"]
  by (auto simp: get_hostname_def io_bind_run FULL_DEVICE_TAGS_def device_view_def view_text_def nul_rstrip_def)

lemma get_stats_ok:
  assumes "ok w"
  shows "\<exists>w'. get_stats rd w = (Inr (map stat_record (sorted_items (vs_ports (sw w)))), w') \<and> ok w' \<and> sw w' = sw w"
  using read_device_ok [OF assms, of "[PORT_STATISTICS]"]
  by (auto simp: get_stats_def stats_of_device_def stat_record_def io_bind_run FULL_DEVICE_TAGS_def device_view_def
      sect_def view_statistics_def case_prod_beta)

lemma get_mgmt_ip_ok:
  assumes "ok w"
  shows "\<exists>w'. get_mgmt_ip rd w = (Inr (mgmt_record (sw w)), w') \<and> ok w' \<and> sw w' = sw w"
proof -
  have "mgmt_of_device (device_view {MODEL, IP_ADDRESS, NETMASK, GATEWAY, DHCP_MODE} m s) = mgmt_record s" for s
    by (simp add: mgmt_of_device_def mgmt_record_def device_view_def view_addr_def shown_addr_def)
  then show ?thesis
    using read_device_ok [OF assms, of "[IP_ADDRESS, NETMASK, GATEWAY, DHCP_MODE]"]
    by (auto simp: get_mgmt_ip_def io_bind_run FULL_DEVICE_TAGS_def)
qed

lemma get_device_ok:
  assumes "ok w"
  shows "\<exists>w'. get_device rd w = (Inr (device_view (set FULL_DEVICE_TAGS) m (sw w)), w') \<and> ok w' \<and> sw w' = sw w"
proof -
  have "MODEL \<in> set FULL_DEVICE_TAGS" "PORT_COUNT \<in> set FULL_DEVICE_TAGS" "distinct FULL_DEVICE_TAGS"
    by (simp_all add: FULL_DEVICE_TAGS_def)
  then show ?thesis
    using read_law [OF assms, of FULL_DEVICE_TAGS]
    by (auto simp: get_device_def read_device_def with_model_def io_bind_run)
qed

lemma vlan_lookup_ok:
  assumes "ok w"
  shows "\<exists>w'. vlan_lookup rd vlan w
      = (Inr (map_option (\<lambda>v. vlan_record (vlan, v)) (dict_get (vs_vlans (sw w)) vlan)), w') \<and> ok w' \<and> sw w' = sw w"
  using get_vlans_ok [OF assms] state_ok(5) [OF assms]
  by (auto simp: vlan_lookup_def io_bind_run find_sorted_items)

text \<open>One entry, written and applied.\<close>

lemma write_one:
  assumes "ok w" "tlv_ok e" "tlv_tag e = Known t" "t \<notin> {PASSWORD, AUTH_V2_PASSWORD, END_OF_MARK}"
    and "length (tlv_value e) \<le> 2000" "apply_nsdp_write (tlv_tag e) (tlv_value e) (sw w) = Inr s'" "small s'"
  shows "\<exists>p w'. wr [e] pw w = (Inr p, w') \<and> ok w' \<and> sw w' = s'"
  using assms by (intro write_law) (auto simp: plain_def)

text \<open>\<open>set_pvid\<close> of a VLAN the switch has, and of one it does not have.\<close>

lemma set_pvid_ok:
  assumes w: "ok w" and W: "nw_password W = pw" "force \<or> port \<notin> nw_protected_ports W"
    and port: "0 \<le> port" "port < 256" and vlan: "dict_get (vs_vlans (sw w)) vlan \<noteq> None"
    and s': "s' = (sw w)\<lparr>vs_pvids := dict_set port vlan (vs_pvids (sw w))\<rparr>" "small s'"
  shows "\<exists>w'. set_pvid rd wr W port vlan force w = (Inr (), w') \<and> ok w' \<and> sw w' = s'"
proof -
  have v: "0 \<le> vlan" "vlan < 65536"
    using state_ok(2,5) [OF w] vlan list_all_dict_get [of _ "vs_vlans (sw w)" vlan]
    by (fastforce simp: tables_ok_def vlan_ok_def u_fits_2)+
  let ?e = "mk_tlv PORT_PVID (word_of_int port # be_bytes 2 vlan)"
  have e: "pvid_tlv port vlan = Inr ?e" using port v by (simp add: pvid_tlv_def)
  obtain w1 where w1: "vlan_lookup rd vlan w
      = (Inr (map_option (\<lambda>v. vlan_record (vlan, v)) (dict_get (vs_vlans (sw w)) vlan)), w1)" "ok w1" "sw w1 = sw w"
    using vlan_lookup_ok [OF w] by blast
  obtain w2 where w2: "get_pvids rd w1 = (Inr (sorted_items (vs_pvids (sw w))), w2)" "ok w2" "sw w2 = sw w"
    using get_pvids_ok [OF w1(2)] w1(3) by auto
  have "apply_nsdp_write (Known PORT_PVID) (tlv_value ?e) (sw w) = Inr s'"
    using state_ok(7) [OF w] port v by (simp add: apply_nsdp_write_def s'(1))
  then obtain p w3 where w3: "wr [?e] pw w2 = (Inr p, w3)" "ok w3" "sw w3 = s'"
    using write_one [OF w2(2), of ?e PORT_PVID s'] w2(3) s'(2) by auto
  obtain w4 where w4: "get_pvids rd w3 = (Inr (sorted_items (vs_pvids s')), w4)" "ok w4" "sw w4 = s'"
    using get_pvids_ok [OF w3(2)] w3(3) by auto
  have "dict_get (dict_of (sorted_items (vs_pvids s'))) port = Some vlan"
    using state_ok(6) [OF w] by (subst dict_of_sorted_items) (simp_all add: s'(1))
  then show ?thesis
    using W w1(1) w2(1) w3(1) w4 e vlan
    by (auto simp: set_pvid_def require_vlan_exists_def guard_def io_bind_run Let_def)
qed

lemma set_pvid_no_vlan:
  assumes w: "ok w" and W: "force \<or> port \<notin> nw_protected_ports W" and "dict_get (vs_vlans (sw w)) vlan = None"
  shows "\<exists>w'. set_pvid rd wr W port vlan force w = (Inl (NsdpError (NsdpNoVlan vlan)), w') \<and> ok w' \<and> sw w' = sw w"
proof -
  obtain w1 where "vlan_lookup rd vlan w = (Inr None, w1)" "ok w1" "sw w1 = sw w"
    using vlan_lookup_ok [OF w, of vlan] assms(3) by auto
  then show ?thesis
    using W by (auto simp: set_pvid_def require_vlan_exists_def guard_def io_bind_run)
qed

text \<open>A membership entry the writer builds, applied: the VLAN has exactly these members.\<close>

lemma members_frame_ok:
  assumes w: "ok w" and vlan: "0 \<le> vlan" "vlan < 65536"
    and ms: "ms \<subseteq> {1..8 * int (bitmap_width (m_port_count m))}" and ts: "ts \<subseteq> ms"
  defines "s' \<equiv> (sw w)\<lparr>vs_vlans := dict_set vlan
      (mk_vlan_sim (case dict_get (vs_vlans (sw w)) vlan of Some v \<Rightarrow> vl_name v | None \<Rightarrow> []) ms (ms - ts))
      (vs_vlans (sw w))\<rparr>"
  shows "\<exists>e. vlan_members_tlv vlan (sorted_list_of_set ms) (sorted_list_of_set ts) (m_port_count m) = Inr e
    \<and> tlv_ok e \<and> tlv_tag e = Known VLAN_MEMBERS \<and> length (tlv_value e) \<le> 2000
    \<and> apply_nsdp_write (tlv_tag e) (tlv_value e) (sw w) = Inr s'"
proof -
  let ?w = "bitmap_width (m_port_count m)"
  have "m_port_count m < 256" using state_ok(1) [OF w] by (simp add: identity_ok_def u_fits_1)
  then have w32: "?w \<le> 32" unfolding bitmap_width_def by linarith
  have ts': "ts \<subseteq> {1..8 * int ?w}" using ms ts by blast
  obtain a where a: "ports_to_bitmap (sorted_list_of_set ms) ?w = Inr a" "bitmap_to_ports a = ms" "length a = ?w"
    using set_to_bitmap [OF ms] by blast
  obtain b where b: "ports_to_bitmap (sorted_list_of_set ts) ?w = Inr b" "bitmap_to_ports b = ts" "length b = ?w"
    using set_to_bitmap [OF ts'] by blast
  have "parse_vlan_members (be_bytes 2 vlan @ a @ b) (m_port_count m)
      = Inr \<lparr>nvm_vlan_id = vlan, nvm_member_ports = ms, nvm_tagged_ports = ts\<rparr>"
    using parse_vlan_members_value [of vlan a "m_port_count m" b] a b vlan by simp
  then show ?thesis
    using a b vlan w32 state_ok(7) [OF w]
    by (simp add: vlan_members_tlv_def Let_def apply_nsdp_write_def s'_def untagged_ports_def)
qed

lemma set_vlan_membership_ok:
  assumes w: "ok w" and W: "nw_password W = pw" "nw_model W = m" "force \<or> port \<notin> nw_protected_ports W"
    and vlan: "0 \<le> vlan" "vlan < 65536" and port: "1 \<le> port" "port \<le> 8 * int (bitmap_width (m_port_count m))"
    and ma: "members_after (map_option (\<lambda>v. vlan_record (vlan, v)) (dict_get (vs_vlans (sw w)) vlan)) port mode = (ms, ts)"
    and s': "s' = (sw w)\<lparr>vs_vlans := dict_set vlan
      (mk_vlan_sim (case dict_get (vs_vlans (sw w)) vlan of Some v \<Rightarrow> vl_name v | None \<Rightarrow> []) ms (ms - ts))
      (vs_vlans (sw w))\<rparr>" "small s'"
  shows "\<exists>w'. set_vlan_membership rd wr W vlan port mode force w = (Inr (), w') \<and> ok w' \<and> sw w' = s'"
proof -
  let ?cur = "map_option (\<lambda>v. vlan_record (vlan, v)) (dict_get (vs_vlans (sw w)) vlan)"
  have "vl_member v \<subseteq> {1..8 * int (bitmap_width (m_port_count m))}" if "dict_get (vs_vlans (sw w)) vlan = Some v" for v
    using state_ok(2) [OF w] list_all_dict_get [OF _ that, of "vlan_ok (bitmap_width (m_port_count m))"]
    by (simp add: tables_ok_def vlan_ok_def)
  then have ms: "ms \<subseteq> {1..8 * int (bitmap_width (m_port_count m))}"
    using ma port by (auto simp: members_after_def Let_def vlan_record_def split: option.splits if_splits)
  have ts: "ts \<subseteq> ms"
    using members_after_tagged [OF ma] by (auto simp: vlan_record_def split: option.splits)
  obtain e where e: "vlan_members_tlv vlan (sorted_list_of_set ms) (sorted_list_of_set ts) (m_port_count m) = Inr e"
    "tlv_ok e" "tlv_tag e = Known VLAN_MEMBERS" "length (tlv_value e) \<le> 2000"
    "apply_nsdp_write (tlv_tag e) (tlv_value e) (sw w) = Inr s'"
    using members_frame_ok [OF w vlan ms ts] s'(1) by auto
  obtain w1 where w1: "vlan_lookup rd vlan w = (Inr ?cur, w1)" "ok w1" "sw w1 = sw w"
    using vlan_lookup_ok [OF w] by blast
  obtain p w2 where w2: "wr [e] pw w1 = (Inr p, w2)" "ok w2" "sw w2 = s'"
    using write_one [OF w1(2) e(2,3) _ e(4)] e(5) w1(3) s'(2) by auto
  let ?new = "vlan_record (vlan, mk_vlan_sim (case dict_get (vs_vlans (sw w)) vlan of Some v \<Rightarrow> vl_name v | None \<Rightarrow> []) ms (ms - ts))"
  obtain w3 where w3: "vlan_lookup rd vlan w2 = (Inr (Some ?new), w3)" "ok w3" "sw w3 = s'"
    using vlan_lookup_ok [OF w2(2), of vlan] w2(3) s'(1) by auto
  have "(ms, ts) = (vi_member_ports ?new, vi_tagged_ports ?new)"
    using ts by (auto simp: vlan_record_def mk_vlan_sim_def)
  then have "membership_ok (Some ?new) port mode"
    using ma by (intro membership_ok_after [of ?cur]) simp
  then show ?thesis
    using W w1(1) w2(1) w3 e(1) ma
    by (auto simp: set_vlan_membership_def guard_def io_bind_run)
qed

lemma create_vlan_ok:
  assumes w: "ok w" and W: "nw_password W = pw" "nw_model W = m" and vlan: "0 \<le> vlan" "vlan < 65536"
    and s': "s' = (if dict_get (vs_vlans (sw w)) vlan = None
        then (sw w)\<lparr>vs_vlans := dict_set vlan (mk_vlan_sim [] {} {}) (vs_vlans (sw w))\<rparr> else sw w)" "small s'"
  shows "\<exists>w'. create_vlan rd wr W vlan name force w = (Inr (), w') \<and> ok w' \<and> sw w' = s'"
proof -
  have ex: "list_ex (\<lambda>v. vi_vlan_id v = vlan) (map vlan_record (sorted_items (vs_vlans s)))
      \<longleftrightarrow> dict_get (vs_vlans s) vlan \<noteq> None" if "dict_wf (vs_vlans s)" for s
    using that by (auto simp: list_ex_iff vlan_record_def dict_get_in [symmetric] dict_get_def map_of_eq_None_iff
        image_iff)
  obtain w1 where w1: "get_vlans rd w = (Inr (map vlan_record (sorted_items (vs_vlans (sw w)))), w1)"
    "ok w1" "sw w1 = sw w"
    using get_vlans_ok [OF w] by blast
  show ?thesis
  proof (cases "dict_get (vs_vlans (sw w)) vlan = None")
    case False
    then show ?thesis
      using w1 ex [OF state_ok(5) [OF w]] s'(1) by (auto simp: create_vlan_def io_bind_run)
  next
    case True
    obtain e where e: "vlan_members_tlv vlan [] [] (m_port_count m) = Inr e"
      "tlv_ok e" "tlv_tag e = Known VLAN_MEMBERS" "length (tlv_value e) \<le> 2000"
      "apply_nsdp_write (tlv_tag e) (tlv_value e) (sw w) = Inr s'"
      using members_frame_ok [OF w vlan, of "{}" "{}"] s'(1) True by auto
    obtain p w2 where w2: "wr [e] pw w1 = (Inr p, w2)" "ok w2" "sw w2 = s'"
      using write_one [OF w1(2) e(2,3) _ e(4)] e(5) w1(3) s'(2) by auto
    obtain w3 where w3: "get_vlans rd w2 = (Inr (map vlan_record (sorted_items (vs_vlans s'))), w3)" "ok w3" "sw w3 = s'"
      using get_vlans_ok [OF w2(2)] w2(3) by auto
    have "dict_get (vs_vlans s') vlan \<noteq> None" using True by (simp add: s'(1))
    then have "list_ex (\<lambda>v. vi_vlan_id v = vlan) (map vlan_record (sorted_items (vs_vlans s')))"
      using ex [of s'] state_ok(5) [OF w3(2)] w3(3) by simp
    then show ?thesis
      using True W w1(1) w2(1) w3 e(1) ex [OF state_ok(5) [OF w]]
      by (auto simp: create_vlan_def io_bind_run)
  qed
qed

lemma delete_vlan_ok:
  assumes w: "ok w" and W: "nw_password W = pw" and vlan: "0 \<le> vlan" "vlan < 65536"
    and small: "small (destroy_vlan vlan (sw w))"
  shows "\<exists>w'. delete_vlan rd wr W vlan True w = (Inr (), w') \<and> ok w' \<and> sw w' = destroy_vlan vlan (sw w)"
proof -
  let ?s = "destroy_vlan vlan (sw w)" and ?e = "mk_tlv VLAN_DESTROY (be_bytes 2 vlan)"
  obtain w1 where w1: "get_vlans rd w = (Inr (map vlan_record (sorted_items (vs_vlans (sw w)))), w1)"
    "ok w1" "sw w1 = sw w"
    using get_vlans_ok [OF w] by blast
  have e: "vlan_destroy_tlv vlan = Inr ?e" using vlan by (simp add: vlan_destroy_tlv_def)
  have "apply_nsdp_write (Known VLAN_DESTROY) (tlv_value ?e) (sw w) = Inr ?s"
    using state_ok(7) [OF w] vlan by (simp add: apply_nsdp_write_def)
  then obtain p w2 where w2: "wr [?e] pw w1 = (Inr p, w2)" "ok w2" "sw w2 = ?s"
    using write_one [OF w1(2), of ?e VLAN_DESTROY ?s] w1(3) small by auto
  obtain w3 where w3: "get_vlans rd w2 = (Inr (map vlan_record (sorted_items (vs_vlans ?s))), w3)" "ok w3" "sw w3 = ?s"
    using get_vlans_ok [OF w2(2)] w2(3) by auto
  have "dict_get (vs_vlans ?s) vlan = None" by (simp add: destroy_vlan_def)
  then have "vlan \<notin> set (map vi_vlan_id (map vlan_record (sorted_items (vs_vlans ?s))))"
    by (auto simp: vlan_record_def dict_get_def map_of_eq_None_iff)
  then show ?thesis
    using W w1(1) w2(1) w3 e by (auto simp: delete_vlan_def io_bind_run Let_def)
qed

text \<open>
  The virtual switch answers the host name but does not take a new one, so a rename
  is sent, accepted, and reported as not verified.
\<close>

lemma set_hostname_ignored:
  assumes w: "ok w" and W: "nw_password W = pw" and name: "is_ascii name" "strip name \<noteq> []" "length name \<le> 2000"
    and small: "small (sw w)"
  shows "\<exists>w'. set_hostname rd wr W name force w
      = (if nul_rstrip (vs_hostname (sw w)) = name then Inr ()
         else Inl (WriteVerificationError (EvText (nul_rstrip (vs_hostname (sw w))))
                     (EvText (nul_rstrip (vs_hostname (sw w))))), w')
    \<and> ok w' \<and> sw w' = sw w"
proof -
  let ?e = "mk_tlv HOSTNAME (map of_nat name)" and ?h = "nul_rstrip (vs_hostname (sw w))"
  have e: "hostname_tlv name = Inr ?e" using name by (simp add: hostname_tlv_def ascii_encode_def)
  obtain w1 where w1: "get_hostname rd w = (Inr ?h, w1)" "ok w1" "sw w1 = sw w"
    using get_hostname_ok [OF w] by blast
  have "apply_nsdp_write (Known HOSTNAME) (tlv_value ?e) (sw w) = Inr (sw w)"
    using state_ok(7) [OF w] by (simp add: apply_nsdp_write_def)
  then obtain p w2 where w2: "wr [?e] pw w1 = (Inr p, w2)" "ok w2" "sw w2 = sw w"
    using write_one [OF w1(2), of ?e HOSTNAME "sw w"] w1(3) small name by auto
  obtain w3 where "get_hostname rd w2 = (Inr ?h, w3)" "ok w3" "sw w3 = sw w"
    using get_hostname_ok [OF w2(2)] w2(3) by auto
  then show ?thesis
    using W w1(1) w2(1) e name(2) by (auto simp: set_hostname_def io_bind_run)
qed

lemma set_port_description_ok:
  assumes w: "ok w" and W: "nw_password W = pw" "force \<or> port \<notin> nw_protected_ports W"
    and sim: "dict_get (vs_ports (sw w)) port = Some sim"
    and d: "list_all is_scalar d" "length d \<le> 400" "nul_rstrip d = d"
    and s': "s' = (sw w)\<lparr>vs_ports := dict_set port (sim\<lparr>pt_description := or_none d\<rparr>) (vs_ports (sw w))\<rparr>" "small s'"
  shows "\<exists>w'. set_port_description rd wr W port d force w = (Inr (), w') \<and> ok w' \<and> sw w' = s'"
proof -
  have port: "0 \<le> port" "port < 256"
    using state_ok(2) [OF w] list_all_dict_get [OF _ sim, of port_ok]
    by (simp_all add: tables_ok_def port_ok_def u_fits_1)
  obtain b where b: "utf8_encode d = Inr b" "length b \<le> 4 * length d"
    using utf8_encode_scalar [OF d(1)] by blast
  let ?e = "mk_tlv PORT_NAME (word_of_int port # b)"
  have e: "port_name_tlv port d = Inr ?e" using port b by (simp add: port_name_tlv_def)
  obtain w1 where w1: "get_ports rd w = (Inr (map port_record (sorted_items (vs_ports (sw w)))), w1)" "ok w1" "sw w1 = sw w"
    using get_ports_ok [OF w] by blast
  have "utf8_decode_replace b = d" using b(1) by (rule utf8_roundtrip)
  then have "apply_nsdp_write (Known PORT_NAME) (tlv_value ?e) (sw w) = Inr s'"
    using state_ok(7) [OF w] port sim d(3) by (simp add: apply_nsdp_write_def s'(1))
  then obtain p w2 where w2: "wr [?e] pw w1 = (Inr p, w2)" "ok w2" "sw w2 = s'"
    using write_one [OF w1(2), of ?e PORT_NAME s'] w1(3) b(2) d(2) s'(2) by auto
  obtain w3 where w3: "get_ports rd w2 = (Inr (map port_record (sorted_items (vs_ports s'))), w3)" "ok w3" "sw w3 = s'"
    using get_ports_ok [OF w2(2)] w2(3) by auto
  let ?l = "map (\<lambda>x. (fst x, st_description (port_record x))) (sorted_items (vs_ports s'))"
  let ?new = "(port, sim\<lparr>pt_description := or_none d\<rparr>)"
  have wfs: "dict_wf (vs_ports s')" using state_ok(4) [OF w3(2)] w3(3) by simp
  then have wf: "dict_wf ?l"
    using dict_wf_sorted_items [of "vs_ports s'"] by (simp only: dict_wf_def map_map comp_def fst_conv)
  have "dict_get (vs_ports s') port = Some (snd ?new)" by (simp add: s'(1))
  then have "?new \<in> set (sorted_items (vs_ports s'))" using wfs by (simp add: dict_get_in)
  then have "(port, st_description (port_record ?new)) \<in> set ?l" by force
  moreover have "(case or_none d of Some x \<Rightarrow> x | None \<Rightarrow> []) = d" by (simp add: or_none_def)
  then have "st_description (port_record ?new) = or_none d"
    using d(3) by (simp add: port_record_def view_name_def)
  ultimately have "dict_get (dict_of ?l) port = Some (or_none d)"
    using wf by (simp only: dict_get_dict_of_wf dict_get_in)
  moreover have "descriptions (map port_record (sorted_items (vs_ports s'))) = dict_of ?l"
    by (simp add: descriptions_def comp_def port_record_def)
  ultimately have "get_or_none (descriptions (map port_record (sorted_items (vs_ports s')))) port = or_none d"
    by (simp only: get_or_none_def option.case)
  then show ?thesis
    using W w1(1) w2(1) w3 e by (auto simp: set_port_description_def guard_def io_bind_run Let_def)
qed

lemma set_mgmt_ip_ok:
  assumes w: "ok w" and W: "nw_password W = pw"
    and quads: "\<exists>x. inet_aton a = Inr x \<and> dotted x = a" "\<exists>x. inet_aton n = Inr x \<and> dotted x = n"
      "\<exists>x. inet_aton g = Inr x \<and> dotted x = g"
    and s': "s' = (sw w)\<lparr>vs_mgmt := (vs_mgmt (sw w))\<lparr>mg_address := a, mg_netmask := n, mg_gateway := g\<rparr>\<rparr>" "small s'"
  shows "\<exists>w'. set_mgmt_ip rd wr W a n g True w = (Inr (), w') \<and> ok w' \<and> sw w' = s'"
proof -
  obtain x y z where q: "inet_aton a = Inr x" "dotted x = a" "inet_aton n = Inr y" "dotted y = n"
    "inet_aton g = Inr z" "dotted z = g"
    using quads by blast
  then have l: "length x = 4" "length y = 4" "length z = 4" using inet_aton_length by blast+
  let ?es = "[mk_tlv IP_ADDRESS x, mk_tlv NETMASK y, mk_tlv GATEWAY z]"
  obtain g1 w1 where w1: "get_mgmt_ip rd w = (Inr g1, w1)" "ok w1" "sw w1 = sw w" using get_mgmt_ip_ok [OF w] by blast
  have "apply_all (\<lambda>_. False) ?es (sw w) = (Inr (), s')"
    using state_ok(7) [OF w] q l by (simp add: apply_nsdp_write_def inet_ntoa_def with_mgmt_def s'(1))
  moreover have "plain ?es" using l by (simp add: plain_def)
  ultimately obtain p w2 where w2: "wr ?es pw w1 = (Inr p, w2)" "ok w2" "sw w2 = s'"
    using write_law [OF w1(2), of ?es s'] w1(3) s'(2) by auto
  obtain w3 where w3: "get_mgmt_ip rd w2 = (Inr (mgmt_record s'), w3)" "ok w3" "sw w3 = s'"
    using get_mgmt_ip_ok [OF w2(2)] w2(3) by auto
  have "(ip_address (mgmt_record s'), ip_netmask (mgmt_record s'), ip_gateway (mgmt_record s')) = (Some a, Some n, Some g)"
    using q by (simp add: mgmt_record_def shown_addr_def s'(1))
  then show ?thesis
    using W w1(1) w2(1) w3 q by (auto simp: set_mgmt_ip_def io_bind_run ipv4_tlv_def)
qed

end

end
