(* ===== verification/Nsdp_System.thy ===== *)
theory Nsdp_System
  imports Virtual_Face Nsdp_Session
begin

text \<open>
  The library against the virtual switch: the UDP client's exchange answered by
  the serving loop of the NSDP face, and the reader and writer on top. What the
  writer needs of a client is a locale; the closed system is its instance.
\<close>

section \<open>The network between client and face\<close>

text \<open>
  The world of the client: the switch behind the face, whether the serving thread
  is alive, and the challenges \<open>os.urandom(4)\<close> will return, one per turn. A request
  that is not answered is a timeout.
\<close>

record face_world =
  fw_switch :: virtual_switch
  fw_alive :: bool
  fw_salts :: "nat \<Rightarrow> bytes"
  fw_turn :: nat

definition face_net :: "face_world net" where
  "face_net bs w =
     (if \<not> fw_alive w then (Inl TimeoutError, w)
      else case serve_one (fw_salts w (fw_turn w)) bs (fw_switch w) of
             (reply, s') \<Rightarrow>
               let w' = w\<lparr>fw_switch := s', fw_turn := Suc (fw_turn w)\<rparr> in
               (case reply of
                  Reply r \<Rightarrow> (Inr r, w')
                | No_reply \<Rightarrow> (Inl TimeoutError, w')
                | Thread_dead e \<Rightarrow> (Inl TimeoutError, w'\<lparr>fw_alive := False\<rparr>)))"

definition packet_size :: "nsdp_packet \<Rightarrow> nat" where
  "packet_size p = 36 + (\<Sum>e \<leftarrow> pk_tlvs p. 4 + length (tlv_value e))"

text \<open>One exchange with a live face that answers: what the client decodes is what was answered.\<close>

lemma exchange_face:
  assumes "packet_ok q" "packet_size q \<le> 4096" "fw_alive w"
    and h: "\<And>bs. encode q = Inr bs \<Longrightarrow>
        handle_request (fw_salts w (fw_turn w)) bs (fw_switch w) = (Inr (Some p), s')"
    and p: "packet_ok p" "packet_size p \<le> 4096"
  shows "exchange face_net q (c, w) = (Inr p, (c, w\<lparr>fw_switch := s', fw_turn := Suc (fw_turn w)\<rparr>))"
proof -
  obtain bs where bs: "encode q = Inr bs" using encode_total assms(1) by blast
  have "length bs \<le> 4096" using encode_length [OF assms(1) bs] assms(2) by (simp add: packet_size_def)
  then have hb: "handle_request (fw_salts w (fw_turn w)) (take 4096 bs) (fw_switch w) = (Inr (Some p), s')"
    using h [OF bs] by simp
  obtain rs where rs: "encode p = Inr rs" using encode_total p(1) by blast
  have l: "length rs \<le> 4096" using encode_length [OF p(1) rs] p(2) by (simp add: packet_size_def)
  have "decode (take RECV_MAX rs) = Inr p"
    using decode_encoded [OF p(1) rs, of "[]"] l by (simp add: RECV_MAX_def)
  moreover have "serve_one (fw_salts w (fw_turn w)) bs (fw_switch w) = (Reply rs, s')"
    using hb rs l by (simp add: serve_one_def UDP_MAX_def)
  ultimately show ?thesis
    using bs assms(3) by (simp add: exchange_def face_net_def Let_def)
qed

section \<open>Answers that fit a datagram\<close>

text \<open>
  The synchronous client receives at most 4096 bytes, so a switch it can read is one
  whose answer to every tag at once fits; then every answer does.
\<close>

lemma packet_size_eq [simp]: "packet_size (p\<lparr>pk_tlvs := es\<rparr>) = 36 + tlvs_size es"
  by (simp add: packet_size_def tlvs_size_def)

definition full_answer :: "switch_model \<Rightarrow> virtual_switch \<Rightarrow> tlv list" where
  "full_answer m s = answer (replicate 4 0) m UNIV s"

definition fits :: "virtual_switch \<Rightarrow> bool" where
  "fits s = (case get_model (vs_model_key s) of
     Inl _ \<Rightarrow> False | Inr m \<Rightarrow> 36 + tlvs_size (full_answer m s) \<le> 4096)"

lemma sect_mono: "(c \<Longrightarrow> d) \<Longrightarrow> tlvs_size (sect c xs) \<le> tlvs_size (sect d xs)"
  by (auto simp: sect_def)

lemma answer_size:
  assumes "length fresh = 4"
  shows "tlvs_size (answer fresh m tags s) \<le> tlvs_size (full_answer m s)"
proof -
  have "tlvs_size (answer_before m tags s) \<le> tlvs_size (answer_before m UNIV s)"
    unfolding answer_before_def tlvs_size_simps by (intro add_mono sect_mono) auto
  moreover have "tlvs_size (answer_tables m tags s) \<le> tlvs_size (answer_tables m UNIV s)"
    unfolding answer_tables_def tlvs_size_simps by (intro add_mono sect_mono) auto
  moreover have "tlvs_size (answer_settings m tags s) \<le> tlvs_size (answer_settings m UNIV s)"
    unfolding answer_settings_def tlvs_size_simps
    by (intro add_mono sect_mono) (auto intro: sect_mono split: option.split)
  moreover have "tlvs_size (sect c [mk_tlv AUTH_V2_SALT fresh]) \<le> tlvs_size (sect True [mk_tlv AUTH_V2_SALT (replicate 4 0)])"
    for c using assms by (simp add: sect_def)
  ultimately show ?thesis
    unfolding full_answer_def answer_def tlvs_size_simps by (simp add: add_mono)
qed

lemma known_tags_request [simp]: "known_tags (map (\<lambda>t. mk_tlv t []) tags) = set tags"
  by (induction tags) (auto simp: known_tags_def)

lemma tlvs_size_request: "tlvs_size (map (\<lambda>t. mk_tlv t []) tags) = 4 * length tags"
  by (induction tags) auto

section \<open>A read over the network\<close>

text \<open>The answer packet of the face to a read of \<open>tags\<close>.\<close>

definition read_answer :: "udp_client \<Rightarrow> face_world \<Rightarrow> switch_model \<Rightarrow> tag set \<Rightarrow> nsdp_packet" where
  "read_answer c w m tags =
     (mk_packet READ_RESPONSE (uc_client_mac c) (vs_nsdp_mac (fw_switch w)) ((uc_sequence c + 1) AND 0xFFFF))
       \<lparr>pk_tlvs := answer (fw_salts w (fw_turn w)) m tags (fw_switch w)\<rparr>"

definition after_read :: "tag set \<Rightarrow> udp_client \<times> face_world \<Rightarrow> udp_client \<times> face_world" where
  "after_read tags = (\<lambda>(c, w).
     (c\<lparr>uc_sequence := (uc_sequence c + 1) AND 0xFFFF\<rparr>,
      w\<lparr>fw_switch := rotate_salt (fw_salts w (fw_turn w)) tags (fw_switch w), fw_turn := Suc (fw_turn w)\<rparr>))"

text \<open>The conditions every step of a session needs.\<close>

definition session :: "switch_model \<Rightarrow> udp_client \<times> face_world \<Rightarrow> bool" where
  "session m = (\<lambda>(c, w). client_wf c \<and> fw_alive w \<and> (\<forall>i. length (fw_salts w i) = 4)
     \<and> nsdp_wf (fw_switch w) \<and> get_model (vs_model_key (fw_switch w)) = Inr m \<and> fits (fw_switch w))"

text \<open>The challenge and the failure count are not configuration: no answer shows them.\<close>

lemma answer_auth_frame [simp]:
  "answer fresh m tags (s\<lparr>vs_nsdp_last_salt := x\<rparr>) = answer fresh m tags s"
  "answer fresh m tags (s\<lparr>vs_nsdp_auth_failures := f\<rparr>) = answer fresh m tags s"
  unfolding answer_def answer_before_def answer_tables_def answer_settings_def model_text_def
  by (simp_all cong: option.case_cong)

lemma fits_auth_frame [simp]:
  "fits (s\<lparr>vs_nsdp_last_salt := x\<rparr>) = fits s" "fits (s\<lparr>vs_nsdp_auth_failures := f\<rparr>) = fits s"
  by (simp_all add: fits_def full_answer_def cong: sum.case_cong)

lemma rotate_salt_frame [simp]:
  "vs_model_key (rotate_salt f tags s) = vs_model_key s" "nsdp_wf (rotate_salt f tags s) = nsdp_wf s"
  "fits (rotate_salt f tags s) = fits s" "vs_nsdp_password (rotate_salt f tags s) = vs_nsdp_password s"
  "vs_nsdp_auth_version (rotate_salt f tags s) = vs_nsdp_auth_version s"
  "vs_nsdp_auth_failures (rotate_salt f tags s) = vs_nsdp_auth_failures s"
  "vs_nsdp_mac (rotate_salt f tags s) = vs_nsdp_mac s"
  by (simp_all add: rotate_salt_def)

lemma session_after_read:
  assumes "session m (c, w)"
  shows "session m (after_read tags (c, w))"
  using assms and_FFFF [of "uc_sequence c + 1"]
  by (simp add: session_def after_read_def client_wf_def)

lemma answer_nonempty:
  "MODEL \<in> tags \<or> AUTH_V2_ENCPASS \<in> tags \<or> AUTH_V2_SALT \<in> tags \<Longrightarrow> answer fresh m tags s \<noteq> []"
  by (auto simp: answer_def answer_before_def sect_def)

lemma handle_read:
  assumes ss: "session m (c, w)" and q: "packet_ok q" "encode q = Inr bs"
    and req: "q = build_read_request (uc_client_mac c) BROADCAST_MAC ((uc_sequence c + 1) AND 0xFFFF) tags"
    and ne: "MODEL \<in> set tags \<or> AUTH_V2_ENCPASS \<in> set tags \<or> AUTH_V2_SALT \<in> set tags"
    and wo: "AUTH_V2_PASSWORD \<notin> set tags"
  shows "handle_request (fw_salts w (fw_turn w)) bs (fw_switch w)
    = (Inr (Some (read_answer c w m (set tags))),
       rotate_salt (fw_salts w (fw_turn w)) (set tags) (fw_switch w))"
proof -
  have d: "decode bs = Inr q" using decode_encoded [OF q, of "[]"] by simp
  have k: "pk_op q = READ_REQUEST" "pk_client_mac q = uc_client_mac c" "known_tags (pk_tlvs q) = set tags"
    "pk_sequence q = (uc_sequence c + 1) AND 0xFFFF"
    by (simp_all add: req build_read_request_eq mk_packet_def)
  have "nsdp_tlvs (fw_salts w (fw_turn w)) (set tags) (fw_switch w)
      = (Inr (answer (fw_salts w (fw_turn w)) m (set tags) (fw_switch w)),
         rotate_salt (fw_salts w (fw_turn w)) (set tags) (fw_switch w))"
    using ss by (intro nsdp_tlvs_ok) (simp_all add: session_def)
  then have "read_response (fw_salts w (fw_turn w)) q (fw_switch w)
      = (Inr (read_answer c w m (set tags)), rotate_salt (fw_salts w (fw_turn w)) (set tags) (fw_switch w))"
    using answer_nonempty [OF ne] wo
    by (simp add: read_response_def Let_def k WRITE_ONLY_TAGS_def read_answer_def)
  then show ?thesis by (simp add: handle_request_def d k)
qed

lemma read_answer_ok:
  assumes ss: "session m (c, w)" and e: "END_OF_MARK \<notin> tags"
  shows "packet_ok (read_answer c w m tags)" "packet_size (read_answer c w m tags) \<le> 4096"
proof -
  have s: "length (fw_salts w (fw_turn w)) = 4" "nsdp_wf (fw_switch w)"
    "get_model (vs_model_key (fw_switch w)) = Inr m" "length (uc_client_mac c) = 6" "0 \<le> uc_sequence c"
    "length (vs_nsdp_mac (fw_switch w)) = 6" "fits (fw_switch w)"
    using ss by (auto simp: session_def client_wf_def nsdp_wf_def identity_ok_def)
  have "\<not> tag_is (tlv_tag x) END_OF_MARK" if "x \<in> set (answer f m tags s)" for x f s
    using answer_tags [OF that] e by auto
  moreover have "tlv_ok x" if "x \<in> set (answer (fw_salts w (fw_turn w)) m tags (fw_switch w))" for x
    by (rule answer_encodable [OF s(2,3) _ that]) (simp add: s(1))
  ultimately show "packet_ok (read_answer c w m tags)"
    using s and_FFFF [of "uc_sequence c + 1"]
    unfolding read_answer_def by (intro packet_ok_mk_packet) auto
  show "packet_size (read_answer c w m tags) \<le> 4096"
    using s answer_size [OF s(1), of m tags "fw_switch w"] by (simp add: read_answer_def fits_def)
qed

lemma udp_read_face:
  assumes ss: "session m (c, w)" and len: "length tags \<le> 900"
    and ne: "MODEL \<in> set tags \<or> AUTH_V2_ENCPASS \<in> set tags \<or> AUTH_V2_SALT \<in> set tags"
    and no: "END_OF_MARK \<notin> set tags" "AUTH_V2_PASSWORD \<notin> set tags"
  shows "udp_read face_net tags (c, w) = (Inr (read_answer c w m (set tags)), after_read (set tags) (c, w))"
proof -
  let ?n = "(uc_sequence c + 1) AND 0xFFFF"
  let ?q = "build_read_request (uc_client_mac c) BROADCAST_MAC ?n tags"
  have c: "length (uc_client_mac c) = 6" "0 \<le> uc_sequence c" and al: "fw_alive w"
    using ss by (simp_all add: session_def client_wf_def)
  have q: "packet_ok ?q"
    using c no and_FFFF [of "uc_sequence c + 1"] by (intro packet_ok_read_request) (auto simp: BROADCAST_MAC_def)
  moreover have "packet_size ?q \<le> 4096"
    using len by (simp add: build_read_request_eq tlvs_size_request)
  ultimately have "exchange face_net ?q (c\<lparr>uc_sequence := ?n\<rparr>, w)
      = (Inr (read_answer c w m (set tags)),
         (c\<lparr>uc_sequence := ?n\<rparr>, w\<lparr>fw_switch := rotate_salt (fw_salts w (fw_turn w)) (set tags) (fw_switch w),
            fw_turn := Suc (fw_turn w)\<rparr>))"
    by (intro exchange_face al handle_read [OF ss q _ refl ne no(2)] read_answer_ok [OF ss no(1)])
  then show ?thesis
    by (simp add: udp_read_def io_bind_run after_read_def) (simp add: read_answer_def mk_packet_def)
qed

lemma parse_read_answer:
  assumes "session m (c, w)" "MODEL \<in> tags" "VLAN_MEMBERS \<in> tags \<longrightarrow> PORT_COUNT \<in> tags"
  shows "parse_device (read_answer c w m tags) = Inr (device_view tags m (fw_switch w))"
  using assms by (intro parse_answer) (auto simp: session_def read_answer_def mk_packet_def)

section \<open>A write over the network\<close>

text \<open>The configuration of a switch: its state without the challenge and the failure count.\<close>

definition config :: "virtual_switch \<Rightarrow> virtual_switch" where
  "config s = s\<lparr>vs_nsdp_last_salt := None, vs_nsdp_auth_failures := 0\<rparr>"

definition with_auth :: "bytes option \<Rightarrow> int \<Rightarrow> virtual_switch \<Rightarrow> virtual_switch" where
  "with_auth salt f s = s\<lparr>vs_nsdp_last_salt := salt, vs_nsdp_auth_failures := f\<rparr>"

lemma config_simps [simp]:
  "vs_model_key (config s) = vs_model_key s" "nsdp_wf (config s) = nsdp_wf s" "fits (config s) = fits s"
  "config (config s) = config s" "config (rotate_salt f tags s) = config s"
  "config (with_auth salt n s) = config s"
  "config (s\<lparr>vs_nsdp_auth_failures := n\<rparr>) = config s" "config (s\<lparr>vs_nsdp_last_salt := x\<rparr>) = config s"
  "vs_nsdp_password (config s) = vs_nsdp_password s" "vs_nsdp_auth_version (config s) = vs_nsdp_auth_version s"
  "vs_nsdp_mac (config s) = vs_nsdp_mac s"
  by (simp_all add: config_def with_auth_def rotate_salt_def)

lemma with_auth_config: "s = with_auth (vs_nsdp_last_salt s) (vs_nsdp_auth_failures s) (config s)"
  by (simp add: with_auth_def config_def)

text \<open>Write entries and the authentication state do not interfere.\<close>

lemma apply_nsdp_write_commute:
  assumes "\<And>w. vs_model_key (upd w) = vs_model_key w" "\<And>w. vs_pvids (upd w) = vs_pvids w"
    "\<And>w. vs_vlans (upd w) = vs_vlans w" "\<And>w. vs_ports (upd w) = vs_ports w" "\<And>w. vs_mgmt (upd w) = vs_mgmt w"
    "\<And>x w. (upd w)\<lparr>vs_pvids := x\<rparr> = upd (w\<lparr>vs_pvids := x\<rparr>)" "\<And>x w. (upd w)\<lparr>vs_vlans := x\<rparr> = upd (w\<lparr>vs_vlans := x\<rparr>)"
    "\<And>x w. (upd w)\<lparr>vs_ports := x\<rparr> = upd (w\<lparr>vs_ports := x\<rparr>)" "\<And>x w. (upd w)\<lparr>vs_mgmt := x\<rparr> = upd (w\<lparr>vs_mgmt := x\<rparr>)"
  shows "apply_nsdp_write t v (upd s) = map_sum id upd (apply_nsdp_write t v s)"
  by (simp add: apply_nsdp_write_def Let_def destroy_vlan_def with_mgmt_def assms res_bind_def
      split: sum.split option.split)

lemma apply_nsdp_write_auth:
  "apply_nsdp_write t v (with_auth salt f s) = map_sum id (with_auth salt f) (apply_nsdp_write t v s)"
  by (rule apply_nsdp_write_commute) (simp_all add: with_auth_def)

lemma apply_all_auth:
  "apply_all skip es (with_auth salt f s) = map_prod id (with_auth salt f) (apply_all skip es s)"
proof (induction es arbitrary: s)
  case (Cons e es)
  then show ?case
    by (cases "apply_nsdp_write (tlv_tag e) (tlv_value e) s") (simp_all add: apply_nsdp_write_auth)
qed simp

lemma apply_all_skip_none:
  "list_all (\<lambda>e. \<not> skip e) es \<Longrightarrow> apply_all skip es s = apply_all (\<lambda>_. False) es s"
  by (induction es arbitrary: s) (auto split: sum.split)

lemma apply_all_plain:
  assumes "plain es" and ap: "apply_all (\<lambda>_. False) es (config s) = (Inr (), s')"
    and "tt = PASSWORD \<or> tt = AUTH_V2_PASSWORD"
  shows "apply_all (\<lambda>e. tag_is (tlv_tag e) tt) (mk_tlv tt v # es) s
    = (Inr (), with_auth (vs_nsdp_last_salt s) (vs_nsdp_auth_failures s) s')"
proof -
  have "list_all (\<lambda>e. \<not> tag_is (tlv_tag e) tt) es"
    using assms(1,3) by (auto simp: plain_def list_all_iff)
  then have "apply_all (\<lambda>e. tag_is (tlv_tag e) tt) (mk_tlv tt v # es) s = apply_all (\<lambda>_. False) es s"
    by (simp add: apply_all_skip_none)
  also have "\<dots> = apply_all (\<lambda>_. False) es (with_auth (vs_nsdp_last_salt s) (vs_nsdp_auth_failures s) (config s))"
    by (simp flip: with_auth_config)
  finally show ?thesis by (simp add: apply_all_auth ap)
qed

lemma apply_all_config:
  assumes "apply_all skip es (config s) = (Inr (), s')"
  shows "config s' = s'" "vs_model_key s' = vs_model_key s" "vs_nsdp_password s' = vs_nsdp_password s"
    "vs_nsdp_auth_version s' = vs_nsdp_auth_version s"
  using apply_all_frame [of skip es "config s" s'] assms by (simp_all add: config_def)

text \<open>What links a client to a switch it can write to: the right password, a scheme that is
  known or still to be probed, and no lockout.\<close>

definition scheme_of :: "virtual_switch \<Rightarrow> string" where
  "scheme_of s = (if vs_nsdp_auth_version s = ENCPASS_V2 then ''v2'' else ''v1'')"

definition linked :: "ustr \<Rightarrow> switch_model \<Rightarrow> udp_client \<times> face_world \<Rightarrow> bool" where
  "linked pw m = (\<lambda>(c, w). session m (c, w) \<and> vs_nsdp_password (fw_switch w) = pw
     \<and> is_ascii pw \<and> length pw \<le> 900
     \<and> (uc_auth_scheme c = scheme_of (fw_switch w) \<or> uc_auth_scheme c \<notin> {''v1'', ''v2''})
     \<and> (vs_nsdp_auth_version (fw_switch w) = ENCPASS_V2 \<longrightarrow> vs_nsdp_auth_failures (fw_switch w) \<le> V2_SILENCE_AT))"

definition switch_of :: "udp_client \<times> face_world \<Rightarrow> virtual_switch" where
  "switch_of = (\<lambda>(c, w). config (fw_switch w))"

lemma linked_after_read: "linked pw m cw \<Longrightarrow> linked pw m (after_read tags cw)"
  using session_after_read [of m "fst cw" "snd cw" tags]
  by (cases cw) (simp add: linked_def after_read_def scheme_of_def)

lemma switch_of_after_read [simp]: "switch_of (after_read tags cw) = switch_of cw"
  by (cases cw) (simp add: switch_of_def after_read_def)

lemma first_tlv_value_answer:
  "first_tlv_value (read_answer c w m {AUTH_V2_ENCPASS}) AUTH_V2_ENCPASS
     = Some (be_bytes 4 (vs_nsdp_auth_version (fw_switch w)))"
  "first_tlv_value (read_answer c w m {AUTH_V2_SALT}) AUTH_V2_SALT = Some (fw_salts w (fw_turn w))"
  by (simp_all add: first_tlv_value_def read_answer_def answer_def answer_before_def sect_def)

lemma resolve_scheme_face:
  assumes "linked pw m (c, w)"
  shows "\<exists>c' w'. resolve_scheme face_net (c, w) = (Inr (scheme_of (fw_switch w)), (c', w'))
    \<and> linked pw m (c', w') \<and> switch_of (c', w') = switch_of (c, w)
    \<and> uc_auth_scheme c' = scheme_of (fw_switch w)"
proof (cases "uc_auth_scheme c \<in> {''v1'', ''v2''}")
  case True
  then have "uc_auth_scheme c = scheme_of (fw_switch w)" using assms by (auto simp: linked_def)
  with True assms show ?thesis by (auto simp: resolve_scheme_def)
next
  case False
  have ss: "session m (c, w)" using assms by (simp add: linked_def)
  have v: "0 \<le> vs_nsdp_auth_version (fw_switch w)" "vs_nsdp_auth_version (fw_switch w) < 2 ^ 32"
    using ss by (auto simp: session_def nsdp_wf_def settings_ok_def u_fits_def)
  let ?cw = "after_read {AUTH_V2_ENCPASS} (c, w)"
  let ?c' = "(fst ?cw)\<lparr>uc_auth_scheme := scheme_of (fw_switch w)\<rparr>"
  have "udp_read face_net [AUTH_V2_ENCPASS] (c, w) = (Inr (read_answer c w m {AUTH_V2_ENCPASS}), ?cw)"
    using udp_read_face [OF ss, of "[AUTH_V2_ENCPASS]"] by simp
  then have "resolve_scheme face_net (c, w) = (Inr (scheme_of (fw_switch w)), (?c', snd ?cw))"
    using False v
    by (cases ?cw) (simp add: resolve_scheme_def io_bind_run first_tlv_value_answer encpass_is_v2_u32
        scheme_of_def Let_def mod_pos_pos_trivial)
  moreover have "linked pw m (?c', snd ?cw)"
    using linked_after_read [OF assms, of "{AUTH_V2_ENCPASS}"]
    by (simp add: linked_def after_read_def session_def client_wf_def scheme_of_def)
  moreover have "switch_of (?c', snd ?cw) = switch_of (c, w)"
    by (simp add: switch_of_def after_read_def)
  ultimately show ?thesis
    by (intro exI [of _ ?c'] exI [of _ "snd ?cw"] conjI) simp_all
qed

text \<open>The request and the reply of one accepted write.\<close>

lemma request_ok:
  assumes "length mac = 6" "0 \<le> n" "n < 65536" "plain es" "tt = PASSWORD \<or> tt = AUTH_V2_PASSWORD" "length v \<le> 900"
  defines "q \<equiv> (mk_packet WRITE_REQUEST mac BROADCAST_MAC n)\<lparr>pk_tlvs := mk_tlv tt v # es\<rparr>"
  shows "packet_ok q" "packet_size q \<le> 4096"
proof -
  show "packet_ok q"
    using assms(1-6) unfolding q_def
    by (intro packet_ok_mk_packet) (auto simp: BROADCAST_MAC_def plain_def list_all_iff)
  show "packet_size q \<le> 4096"
    using assms(4,6) by (simp add: q_def plain_def)
qed

lemma handle_write:
  assumes "packet_ok q" "encode q = Inr bs" "pk_op q = WRITE_REQUEST"
  shows "handle_request fresh bs s = write_response q s"
  using decode_encoded [OF assms(1,2), of "[]"] assms(3) by (simp add: handle_request_def)

lemma exchange_write:
  assumes ss: "session m (c, w)" and c: "length (uc_client_mac c) = 6" and n: "0 \<le> n" "n < 65536"
    and pl: "plain es" and cred: "tt = PASSWORD \<or> tt = AUTH_V2_PASSWORD" "length v \<le> 900"
    and r: "0 \<le> r" "r < 65536" "0 \<le> a" "a < 65536"
    and wr: "\<And>q. pk_tlvs q = mk_tlv tt v # es \<Longrightarrow> write_response q (fw_switch w)
        = (Inr (Some (write_resp q (fw_switch w) r a)), s')"
  defines "q \<equiv> (mk_packet WRITE_REQUEST (uc_client_mac c) BROADCAST_MAC n)\<lparr>pk_tlvs := mk_tlv tt v # es\<rparr>"
  shows "exchange face_net q (c, w)
    = (Inr (write_resp q (fw_switch w) r a), (c, w\<lparr>fw_switch := s', fw_turn := Suc (fw_turn w)\<rparr>))"
proof (rule exchange_face)
  show "fw_alive w" using ss by (simp add: session_def)
  show ok: "packet_ok q" and "packet_size q \<le> 4096"
    unfolding q_def using request_ok [OF c n pl cred] by blast+
  have mac: "length (vs_nsdp_mac (fw_switch w)) = 6"
    using ss by (auto simp: session_def nsdp_wf_def identity_ok_def)
  then show "packet_ok (write_resp q (fw_switch w) r a)"
    using c n r by (auto simp: packet_ok_def write_resp_def q_def mk_packet_def)
  show "packet_size (write_resp q (fw_switch w) r a) \<le> 4096"
    by (simp add: write_resp_def packet_size_def mk_packet_def)
  fix bs
  assume "encode q = Inr bs"
  moreover have "pk_op q = WRITE_REQUEST" by (simp add: q_def mk_packet_def)
  ultimately show "handle_request (fw_salts w (fw_turn w)) bs (fw_switch w)
      = (Inr (Some (write_resp q (fw_switch w) r a)), s')"
    using wr [of q] handle_write [OF ok] by (simp add: q_def)
qed

text \<open>A request the face does not answer is a timeout.\<close>

lemma exchange_write_silent:
  assumes ss: "session m (c, w)" and c: "length (uc_client_mac c) = 6" and n: "0 \<le> n" "n < 65536"
    and pl: "plain es" and cred: "tt = PASSWORD \<or> tt = AUTH_V2_PASSWORD" "length v \<le> 900"
    and wr: "\<And>q. pk_tlvs q = mk_tlv tt v # es \<Longrightarrow> write_response q (fw_switch w) = (Inr None, s')"
  defines "q \<equiv> (mk_packet WRITE_REQUEST (uc_client_mac c) BROADCAST_MAC n)\<lparr>pk_tlvs := mk_tlv tt v # es\<rparr>"
  shows "exchange face_net q (c, w)
    = (Inl (NsdpError NsdpTimeout), (c, w\<lparr>fw_switch := s', fw_turn := Suc (fw_turn w)\<rparr>))"
proof -
  have ok: "packet_ok q" "packet_size q \<le> 4096" "pk_op q = WRITE_REQUEST"
    unfolding q_def using request_ok [OF c n pl cred] by (simp_all add: mk_packet_def)
  obtain bs where bs: "encode q = Inr bs" using encode_total ok(1) by blast
  have "length bs \<le> 4096" using encode_length [OF ok(1) bs] ok(2) by (simp add: packet_size_def)
  then have "serve_one (fw_salts w (fw_turn w)) bs (fw_switch w) = (No_reply, s')"
    using wr [of q] handle_write [OF ok(1) bs ok(3)] by (simp add: serve_one_def q_def)
  then show ?thesis
    using bs ss by (simp add: exchange_def face_net_def session_def Let_def)
qed

lemma write_resp_fields:
  "pk_op (write_resp q s r a) = WRITE_RESPONSE" "pk_result (write_resp q s r a) = r"
  by (simp_all add: write_resp_def mk_packet_def)

lemma accepted_v1:
  assumes "vs_nsdp_auth_version s \<noteq> ENCPASS_V2" "encode_password_v1 (vs_nsdp_password s) = Inr v"
    and "plain es" "apply_all (\<lambda>_. False) es (config s) = (Inr (), s')" "pk_tlvs q = mk_tlv PASSWORD v # es"
  shows "write_response q s = (Inr (Some (write_resp q s RESULT_SUCCESS 0)),
    with_auth (vs_nsdp_last_salt s) (vs_nsdp_auth_failures s) s')"
  using assms apply_all_plain [OF assms(3,4), of PASSWORD v]
  by (simp add: write_response_def write_response_v1_def Let_def)

lemma accepted_v2:
  assumes "vs_nsdp_auth_version s = ENCPASS_V2" "vs_nsdp_auth_failures s \<le> V2_SILENCE_AT"
    and "vs_nsdp_last_salt s = Some salt" "auth_v2_password (vs_nsdp_password s) (vs_nsdp_mac s) salt = Inr v"
    and "plain es" "apply_all (\<lambda>_. False) es (config s) = (Inr (), s')"
    and "pk_tlvs q = mk_tlv AUTH_V2_PASSWORD v # es"
  shows "write_response q s = (Inr (Some (write_resp q s RESULT_SUCCESS 0)), with_auth (Some salt) 0 s')"
proof -
  have "first_value (pk_tlvs q) AUTH_V2_PASSWORD = Some v" using assms(7) by (simp add: first_value_def)
  moreover have "expected_token s = Inr (Some v)" using assms(3,4) by (simp add: expected_token_def)
  moreover note apply_all_plain [OF assms(5,6), of AUTH_V2_PASSWORD v]
  ultimately show ?thesis
    using assms(1-3,7) by (simp add: write_response_def write_response_v2_def with_auth_def)
qed

lemma linked_written:
  assumes "linked pw m (c, w)" "apply_all (\<lambda>_. False) es (config (fw_switch w)) = (Inr (), s')"
    and "plain es" "fits s'" "client_wf c'" "uc_auth_scheme c' = scheme_of (fw_switch w)"
    and "vs_nsdp_auth_version (fw_switch w) = ENCPASS_V2 \<Longrightarrow> f \<le> V2_SILENCE_AT"
  shows "linked pw m (c', w\<lparr>fw_switch := with_auth salt f s', fw_turn := t\<rparr>)
    \<and> switch_of (c', w\<lparr>fw_switch := with_auth salt f s', fw_turn := t\<rparr>) = s'"
proof -
  note keep = apply_all_config [OF assms(2)]
  have "nsdp_wf (snd (apply_all (\<lambda>_. False) es (config (fw_switch w))))"
  proof (rule apply_all_wf)
    show "nsdp_wf (config (fw_switch w))" using assms(1) by (simp add: linked_def session_def)
    have "length (tlv_value e) \<le> tlvs_size es" if "e \<in> set es" for e
      using that by (induction es) auto
    then show "\<forall>e \<in> set es. length (tlv_value e) \<le> 16000"
      using assms(3) by (fastforce simp: plain_def)
  qed
  then have w: "nsdp_wf s'" by (simp add: assms(2))
  have same: "nsdp_wf (with_auth salt f s') = nsdp_wf s'" "fits (with_auth salt f s') = fits s'"
    by (simp_all add: with_auth_def)
  show ?thesis
    using assms w keep
    by (auto simp: linked_def session_def same switch_of_def scheme_of_def with_auth_def)
qed

lemma udp_write_v1_face:
  assumes lk: "linked pw m (c, w)" and sch: "uc_auth_scheme c = scheme_of (fw_switch w)"
    and v: "vs_nsdp_auth_version (fw_switch w) \<noteq> ENCPASS_V2" and pl: "plain es"
    and ap: "apply_all (\<lambda>_. False) es (switch_of (c, w)) = (Inr (), s')" and f: "fits s'"
  shows "\<exists>resp c' w'. udp_write face_net es pw (c, w) = (Inr resp, (c', w'))
    \<and> linked pw m (c', w') \<and> switch_of (c', w') = s'"
proof -
  let ?n = "(uc_sequence c + 1) AND 0xFFFF" and ?s = "fw_switch w" and ?v = "xor_v1 (map of_nat pw)"
  let ?c = "c\<lparr>uc_sequence := ?n\<rparr>"
  let ?u = "with_auth (vs_nsdp_last_salt ?s) (vs_nsdp_auth_failures ?s) s'"
  let ?q = "(mk_packet WRITE_REQUEST (uc_client_mac ?c) BROADCAST_MAC ?n)\<lparr>pk_tlvs := mk_tlv PASSWORD ?v # es\<rparr>"
  have k: "client_wf c" "is_ascii pw" "length pw \<le> 900" "vs_nsdp_password ?s = pw"
    using lk by (auto simp: linked_def session_def)
  have n: "0 \<le> ?n" "?n < 65536" using and_FFFF [of "uc_sequence c + 1"] k(1) by (simp_all add: client_wf_def)
  have ss: "session m (?c, w)" using lk n by (simp add: linked_def session_def client_wf_def)
  have e: "encode_password_v1 pw = Inr ?v"
    using k(2) by (simp add: encode_password_v1_def ascii_encode_def)
  have ap': "apply_all (\<lambda>_. False) es (config ?s) = (Inr (), s')" using ap by (simp add: switch_of_def)
  have "exchange face_net ?q (?c, w)
      = (Inr (write_resp ?q ?s RESULT_SUCCESS 0), (?c, w\<lparr>fw_switch := ?u, fw_turn := Suc (fw_turn w)\<rparr>))"
    using k e ap' pl n
    by (intro exchange_write [OF ss] accepted_v1 [OF v]) (auto simp: client_wf_def RESULT_SUCCESS_def)
  then have "udp_write face_net es pw (c, w) = (Inr (write_resp ?q ?s RESULT_SUCCESS 0),
      (?c, w\<lparr>fw_switch := ?u, fw_turn := Suc (fw_turn w)\<rparr>))"
    using sch v e
    by (simp add: udp_write_v1_eq scheme_of_def Let_def io_bind_run write_resp_fields check_result_def)
  moreover have "linked pw m (?c, w\<lparr>fw_switch := ?u, fw_turn := Suc (fw_turn w)\<rparr>)
      \<and> switch_of (?c, w\<lparr>fw_switch := ?u, fw_turn := Suc (fw_turn w)\<rparr>) = s'"
    using ss sch v by (intro linked_written [OF lk ap' pl f]) (auto simp: session_def)
  ultimately show ?thesis by blast
qed

lemma udp_write_v2_face:
  assumes lk: "linked pw m (c, w)" and sch: "uc_auth_scheme c = scheme_of (fw_switch w)"
    and v: "vs_nsdp_auth_version (fw_switch w) = ENCPASS_V2" and pl: "plain es"
    and ap: "apply_all (\<lambda>_. False) es (switch_of (c, w)) = (Inr (), s')" and f: "fits s'"
  shows "\<exists>resp c' w'. udp_write face_net es pw (c, w) = (Inr resp, (c', w'))
    \<and> linked pw m (c', w') \<and> switch_of (c', w') = s'"
proof -
  have ss: "session m (c, w)" using lk by (simp add: linked_def)
  let ?salt = "fw_salts w (fw_turn w)"
  obtain c1 w1 where cw1: "after_read {AUTH_V2_SALT} (c, w) = (c1, w1)" by (cases "after_read {AUTH_V2_SALT} (c, w)")
  let ?n = "(uc_sequence c1 + 1) AND 0xFFFF" and ?s = "fw_switch w1" and ?c = "c1\<lparr>uc_sequence := (uc_sequence c1 + 1) AND 0xFFFF\<rparr>"
  let ?v = "v2_token ?salt (vs_nsdp_mac (fw_switch w)) (v2_key (map of_nat pw))"
  let ?q = "(mk_packet WRITE_REQUEST (uc_client_mac ?c) BROADCAST_MAC ?n)\<lparr>pk_tlvs := mk_tlv AUTH_V2_PASSWORD ?v # es\<rparr>"
  have rd: "udp_read face_net [AUTH_V2_SALT] (c, w) = (Inr (read_answer c w m {AUTH_V2_SALT}), (c1, w1))"
    using udp_read_face [OF ss, of "[AUTH_V2_SALT]"] cw1 by simp
  have lk1: "linked pw m (c1, w1)" using linked_after_read [OF lk, of "{AUTH_V2_SALT}"] cw1 by simp
  have s1: "?s = (fw_switch w)\<lparr>vs_nsdp_last_salt := Some ?salt\<rparr>" "uc_auth_scheme c1 = uc_auth_scheme c"
    using cw1 by (auto simp: after_read_def rotate_salt_def)
  have k: "client_wf c1" "is_ascii pw" "vs_nsdp_password ?s = pw" "length ?salt = 4"
    "length (vs_nsdp_mac (fw_switch w)) = 6" "vs_nsdp_auth_failures ?s \<le> V2_SILENCE_AT"
    using lk lk1 v by (auto simp: linked_def session_def nsdp_wf_def identity_ok_def s1)
  have n: "0 \<le> ?n" "?n < 65536" using and_FFFF [of "uc_sequence c1 + 1"] k(1) by (simp_all add: client_wf_def)
  have ss1: "session m (?c, w1)" using lk1 n by (simp add: linked_def session_def client_wf_def)
  have tok: "auth_v2_password pw (vs_nsdp_mac (fw_switch w)) ?salt = Inr ?v"
    using k by (simp add: auth_v2_password_Inr_iff)
  have ap': "apply_all (\<lambda>_. False) es (config ?s) = (Inr (), s')" using ap by (simp add: switch_of_def s1)
  have "exchange face_net ?q (?c, w1) = (Inr (write_resp ?q ?s RESULT_SUCCESS 0),
      (?c, w1\<lparr>fw_switch := with_auth (Some ?salt) 0 s', fw_turn := Suc (fw_turn w1)\<rparr>))"
  proof (rule exchange_write [OF ss1 _ n pl])
    show "length (uc_client_mac ?c) = 6" using k(1) by (simp add: client_wf_def)
    show "length ?v \<le> 900" by (simp add: v2_token_def)
    fix q :: nsdp_packet
    assume "pk_tlvs q = mk_tlv AUTH_V2_PASSWORD ?v # es"
    with k v tok ap' pl show "write_response q ?s
        = (Inr (Some (write_resp q ?s RESULT_SUCCESS 0)), with_auth (Some ?salt) 0 s')"
      by (intro accepted_v2 [of _ _ ?v]) (simp_all add: s1)
  qed (simp_all add: RESULT_SUCCESS_def)
  moreover have "build_write face_net es pw (c, w) = (Inr ?q, (?c, w1))"
    using rd sch v tok
    by (simp add: build_write_def resolve_scheme_def scheme_of_def io_bind_run first_tlv_value_answer
        build_write_request_v2_def) (simp add: read_answer_def mk_packet_def io_bind_run)
  ultimately have "udp_write face_net es pw (c, w) = (Inr (write_resp ?q ?s RESULT_SUCCESS 0),
      (?c, w1\<lparr>fw_switch := with_auth (Some ?salt) 0 s', fw_turn := Suc (fw_turn w1)\<rparr>))"
    by (simp add: udp_write_def io_bind_run write_resp_fields check_result_def)
  moreover have "linked pw m (?c, w1\<lparr>fw_switch := with_auth (Some ?salt) 0 s', fw_turn := Suc (fw_turn w1)\<rparr>)
      \<and> switch_of (?c, w1\<lparr>fw_switch := with_auth (Some ?salt) 0 s', fw_turn := Suc (fw_turn w1)\<rparr>) = s'"
    using ss1 sch s1 v
    by (intro linked_written [OF lk1 ap' pl f]) (auto simp: session_def scheme_of_def V2_SILENCE_AT_def)
  ultimately show ?thesis by blast
qed

lemma udp_write_resolve:
  assumes r: "resolve_scheme net (c, w) = (Inr sch, (c1, w1))" and "uc_auth_scheme c1 = sch"
    and sch: "sch = ''v1'' \<or> sch = ''v2''"
  shows "udp_write net es pw (c, w) = udp_write net es pw (c1, w1)"
proof -
  have "resolve_scheme net (c1, w1) = (Inr sch, (c1, w1))" using assms by (auto simp: resolve_scheme_def)
  with r have "build_write net es pw (c, w) = build_write net es pw (c1, w1)"
    by (simp add: build_write_def io_bind_run)
  then show ?thesis by (simp add: udp_write_def io_bind_def)
qed

text \<open>Whatever the scheme: a plain write of entries the switch can apply applies them.\<close>

lemma udp_write_face:
  assumes lk: "linked pw m cw" and pl: "plain es"
    and ap: "apply_all (\<lambda>_. False) es (switch_of cw) = (Inr (), s')" and f: "fits s'"
  shows "\<exists>resp cw'. udp_write face_net es pw cw = (Inr resp, cw') \<and> linked pw m cw' \<and> switch_of cw' = s'"
proof -
  obtain c w where cw: "cw = (c, w)" by (cases cw)
  obtain c1 w1 where r: "resolve_scheme face_net (c, w) = (Inr (scheme_of (fw_switch w)), (c1, w1))"
    and lk1: "linked pw m (c1, w1)" and same: "switch_of (c1, w1) = switch_of (c, w)"
    and sch: "uc_auth_scheme c1 = scheme_of (fw_switch w)"
    using resolve_scheme_face lk unfolding cw by blast
  have "config (fw_switch w1) = config (fw_switch w)" using same by (simp add: switch_of_def)
  then have "vs_nsdp_auth_version (fw_switch w1) = vs_nsdp_auth_version (fw_switch w)"
    by (metis config_simps(10))
  then have sch1: "uc_auth_scheme c1 = scheme_of (fw_switch w1)" by (simp add: sch scheme_of_def)
  have ap1: "apply_all (\<lambda>_. False) es (switch_of (c1, w1)) = (Inr (), s')" using ap same cw by simp
  have "udp_write face_net es pw (c, w) = udp_write face_net es pw (c1, w1)"
    using udp_write_resolve [OF r sch] by (simp add: scheme_of_def)
  then show ?thesis
    using udp_write_v1_face [OF lk1 sch1 _ pl ap1 f] udp_write_v2_face [OF lk1 sch1 _ pl ap1 f]
    unfolding cw by fastforce
qed

section \<open>Switches that fit\<close>

text \<open>A bound on the answer to every tag at once, from the number of rows and the texts.\<close>

lemma tlvs_size_map_le:
  "(\<And>x. x \<in> set xs \<Longrightarrow> length (f x) \<le> k) \<Longrightarrow> tlvs_size (map (\<lambda>x. mk_tlv t (f x)) xs) \<le> (4 + k) * length xs"
  by (induction xs) (auto intro: add_mono)

lemma ascii_of_length [simp]: "length (ascii_of t) = length t"
  by (simp add: ascii_of_def)

lemma port_name_value_length:
  assumes "port_ok x" and d: "\<forall>d. pt_description (snd x) = Some d \<longrightarrow> length d \<le> k"
  shows "length (res_the (port_name_value x)) \<le> 1 + 4 * k"
proof -
  let ?d = "case pt_description (snd x) of Some d \<Rightarrow> d | None \<Rightarrow> []"
  have "list_all is_scalar ?d" "0 \<le> fst x" "fst x < 256"
    using assms(1) by (auto simp: port_ok_def case_prod_beta u_fits_1 split: option.splits)
  moreover obtain b where "utf8_encode ?d = Inr b" "length b \<le> 4 * length ?d"
    using utf8_encode_scalar [OF calculation(1)] by blast
  moreover have "length ?d \<le> k" using d by (auto split: option.split)
  ultimately show ?thesis by (simp add: port_name_value_def case_prod_beta)
qed

lemma full_answer_bound:
  assumes wf: "nsdp_wf s" "get_model (vs_model_key s) = Inr m"
    and d: "\<forall>x \<in> set (vs_ports s). \<forall>d. pt_description (snd x) = Some d \<longrightarrow> length d \<le> k"
    and w: "w = bitmap_width (m_port_count m)"
  shows "tlvs_size (full_answer m s) \<le> 105 + length (model_text m s) + length (vs_serial s)
    + length (vs_hostname s) + length (vs_firmware s) + w
    + (65 + 4 * k) * length (vs_ports s) + (6 + 2 * w) * length (vs_vlans s) + 7 * length (vs_pvids s)"
proof -
  have ok: "identity_ok m s" "tables_ok w s" "mgmt_ok (vs_mgmt s)" "settings_ok w s"
    using wf by (auto simp: nsdp_wf_def w)
  note items = tables_ok_items [OF ok(2)]
  have before: "tlvs_size (answer_before m UNIV s) \<le> 40 + length (model_text m s) + length (vs_serial s)
      + length (vs_hostname s) + length (vs_firmware s)"
    using ok(1) by (simp add: answer_before_def sect_def identity_ok_def)
  have "length (res_the (port_status_value x)) \<le> 3" "length (res_the (port_name_value x)) \<le> 1 + 4 * k"
    "length (res_the (port_statistics_value x)) \<le> 49" if "x \<in> set (sorted_items (vs_ports s))" for x
    using port_status_value_ok [OF items(1)] port_name_value_length [OF items(1), of x k]
      port_statistics_value_ok [OF items(1)] d that by fastforce+
  then have "tlvs_size (map (\<lambda>x. mk_tlv PORT_STATUS (res_the (port_status_value x))) (sorted_items (vs_ports s))) \<le> 7 * length (vs_ports s)"
    "tlvs_size (map (\<lambda>x. mk_tlv PORT_NAME (res_the (port_name_value x))) (sorted_items (vs_ports s))) \<le> (5 + 4 * k) * length (vs_ports s)"
    "tlvs_size (map (\<lambda>x. mk_tlv PORT_STATISTICS (res_the (port_statistics_value x))) (sorted_items (vs_ports s))) \<le> 53 * length (vs_ports s)"
    using tlvs_size_map_le [of "sorted_items (vs_ports s)" _ 3] tlvs_size_map_le [of "sorted_items (vs_ports s)" _ "1 + 4 * k"]
      tlvs_size_map_le [of "sorted_items (vs_ports s)" _ 49] by fastforce+
  moreover have "length (res_the (vlan_members_value w x)) \<le> 2 + 2 * w" if "x \<in> set (sorted_items (vs_vlans s))" for x
    using vlan_members_value_ok [OF items(2) w] that by fastforce
  then have "tlvs_size (map (\<lambda>x. mk_tlv VLAN_MEMBERS (res_the (vlan_members_value w x))) (sorted_items (vs_vlans s)))
      \<le> (6 + 2 * w) * length (vs_vlans s)"
    using tlvs_size_map_le [of "sorted_items (vs_vlans s)" _ "2 + 2 * w"] by fastforce
  moreover have "length (res_the (port_pvid_value x)) \<le> 3" if "x \<in> set (sorted_items (vs_pvids s))" for x
    using port_pvid_value_ok [OF items(3)] that by fastforce
  then have "tlvs_size (map (\<lambda>x. mk_tlv PORT_PVID (res_the (port_pvid_value x))) (sorted_items (vs_pvids s)))
      \<le> 7 * length (vs_pvids s)"
    using tlvs_size_map_le [of "sorted_items (vs_pvids s)" _ 3] by fastforce
  ultimately have tables: "tlvs_size (answer_tables m UNIV s)
      \<le> (65 + 4 * k) * length (vs_ports s) + (6 + 2 * w) * length (vs_vlans s) + 7 * length (vs_pvids s)"
    unfolding answer_tables_def tlvs_size_simps w [symmetric] by (simp add: sect_def algebra_simps)
  obtain a1 a2 a3 where aton: "inet_aton (mg_address (vs_mgmt s)) = Inr a1"
    "inet_aton (mg_netmask (vs_mgmt s)) = Inr a2" "inet_aton (mg_gateway (vs_mgmt s)) = Inr a3"
    using ok(3) by (auto simp: mgmt_ok_def aton_ok_def split: sum.splits)
  then have l: "length a1 = 4" "length a2 = 4" "length a3 = 4" using inet_aton_length by blast+
  obtain b where b: "ports_to_bitmap (sorted_list_of_set (vs_nsdp_port_mirroring_sources s)) w = Inr b" "length b = w"
    using set_to_bitmap [of "vs_nsdp_port_mirroring_sources s" w] ok(4) by (auto simp: settings_ok_def)
  have settings: "tlvs_size (answer_settings m UNIV s) \<le> 57 + w"
    unfolding answer_settings_def tlvs_size_simps aton w [symmetric]
    by (simp add: sect_def l b split: option.split)
  show ?thesis
    using before tables settings by (simp add: full_answer_def answer_def sect_def)
qed

section \<open>The closed system meets the contract\<close>

lemma device_view_config [simp]: "device_view tags m (config s) = device_view tags m s"
  by (simp add: device_view_def config_def model_text_def cong: option.case_cong if_cong)

lemma FULL_DEVICE_TAGS_props:
  "length FULL_DEVICE_TAGS = 21" "END_OF_MARK \<notin> set FULL_DEVICE_TAGS" "AUTH_V2_PASSWORD \<notin> set FULL_DEVICE_TAGS"
  by (simp_all add: FULL_DEVICE_TAGS_def)

interpretation system: nsdp_session "udp_read face_net" "udp_write face_net" pw m "linked pw m" switch_of fits
  for pw m
proof unfold_locales
  fix cw tags
  assume lk: "linked pw m cw" and t: "MODEL \<in> set tags" "set tags \<subseteq> set FULL_DEVICE_TAGS" "distinct tags"
    "VLAN_MEMBERS \<in> set tags \<longrightarrow> PORT_COUNT \<in> set tags"
  obtain c w where cw: "cw = (c, w)" by (cases cw)
  have ss: "session m (c, w)" using lk by (simp add: linked_def cw)
  have "length tags \<le> 21"
    using t(2,3) card_mono [OF finite_set t(2)] card_length [of FULL_DEVICE_TAGS]
    by (simp add: distinct_card FULL_DEVICE_TAGS_props)
  moreover have "END_OF_MARK \<notin> set tags" "AUTH_V2_PASSWORD \<notin> set tags"
    using t(2) FULL_DEVICE_TAGS_props by blast+
  ultimately have "udp_read face_net tags (c, w) = (Inr (read_answer c w m (set tags)), after_read (set tags) (c, w))"
    using t(1) by (intro udp_read_face [OF ss]) auto
  moreover have "parse_device (read_answer c w m (set tags)) = Inr (device_view (set tags) m (switch_of cw))"
    using parse_read_answer [OF ss t(1,4)] by (simp add: switch_of_def cw)
  ultimately show "\<exists>p w'. udp_read face_net tags cw = (Inr p, w')
      \<and> parse_device p = Inr (device_view (set tags) m (switch_of cw)) \<and> linked pw m w' \<and> switch_of w' = switch_of cw"
    using linked_after_read [OF lk] by (auto simp: cw)
next
  fix cw es s'
  assume "linked pw m cw" "plain es" "apply_all (\<lambda>_. False) es (switch_of cw) = (Inr (), s')" "fits s'"
  then show "\<exists>p w'. udp_write face_net es pw cw = (Inr p, w') \<and> linked pw m w' \<and> switch_of w' = s'"
    by (rule udp_write_face)
next
  fix cw
  assume "linked pw m cw"
  then show "get_model (vs_model_key (switch_of cw)) = Inr m \<and> nsdp_wf (switch_of cw)"
    by (cases cw) (simp add: linked_def session_def switch_of_def)
qed

text \<open>A session to apply the theorems to: a version 2 switch, a client that still has to probe.\<close>

definition sample_world :: face_world where
  "sample_world = \<lparr>fw_switch = sample_switch\<lparr>vs_nsdp_auth_version := ENCPASS_V2\<rparr>, fw_alive = True,
     fw_salts = (\<lambda>i. be_bytes 4 (int i)), fw_turn = 0\<rparr>"

text \<open>The sample switch with other VLANs and PVIDs.\<close>

definition sample_tables :: "int \<Rightarrow> (int, vlan_sim) dict \<Rightarrow> (int, int) dict \<Rightarrow> virtual_switch" where
  "sample_tables ver vl pv = sample_switch\<lparr>vs_nsdp_auth_version := ver, vs_vlans := vl, vs_pvids := pv\<rparr>"

lemma sample_tables_ok:
  assumes "u_fits 4 ver" "dict_wf vl" "dict_wf pv" "list_all (vlan_ok 2) vl" "list_all pvid_ok pv" "length vl \<le> 20" "length pv \<le> 10"
  shows "nsdp_wf (sample_tables ver vl pv)" "fits (sample_tables ver vl pv)"
proof -
  let ?s = "sample_tables ver vl pv"
  have k: "vs_model_key ?s = ''gs110emx''" "vs_model_key sample_switch = ''gs110emx''"
    by (simp_all add: sample_tables_def sample_switch_def mk_virtual_switch_def)
  have w: "bitmap_width (m_port_count gs110emx) = 2" by (simp add: model_defs bitmap_width_def)
  have "settings_ok 2 ?s" "mgmt_ok (vs_mgmt ?s)" "tables_ok 2 ?s" "identity_ok gs110emx ?s"
    using sample_switch_wf get_model_gs110emx w k assms
    by (auto simp: nsdp_wf_def settings_ok_def tables_ok_def identity_ok_def model_text_def
        sample_tables_def)
  then show wf: "nsdp_wf ?s" using get_model_gs110emx w k by (simp add: nsdp_wf_def)
  have "tlvs_size (full_answer gs110emx ?s) \<le> 105 + length (model_text gs110emx ?s) + length (vs_serial ?s)
    + length (vs_hostname ?s) + length (vs_firmware ?s) + 2
    + (65 + 4 * 0) * length (vs_ports ?s) + (6 + 2 * 2) * length (vs_vlans ?s) + 7 * length (vs_pvids ?s)"
    using wf get_model_gs110emx k w
    by (intro full_answer_bound) (auto simp: sample_tables_def sample_switch_def mk_virtual_switch_def mk_port_sim_def)
  also have "\<dots> \<le> 4000"
    using assms(6,7)
    by (simp add: model_text_def sample_tables_def sample_switch_def mk_virtual_switch_def lit_def model_defs)
  finally show "fits ?s" using get_model_gs110emx k by (simp add: fits_def)
qed

lemma sample_world_tables:
  "fw_switch sample_world = sample_tables ENCPASS_V2 [(1, mk_vlan_sim [] {1, 2} {1, 2}), (90, mk_vlan_sim [] {2} {})] [(1, 1), (2, 1)]"
  by (simp add: sample_world_def sample_tables_def sample_switch_def)

lemma switch_of_sample:
  "switch_of (sample_client, sample_world)
     = sample_tables ENCPASS_V2 [(1, mk_vlan_sim [] {1, 2} {1, 2}), (90, mk_vlan_sim [] {2} {})] [(1, 1), (2, 1)]"
  by (simp add: switch_of_def sample_world_tables config_def sample_tables_def sample_switch_def mk_virtual_switch_def)

lemma sample_tables_updates:
  "(sample_tables ver vl pv)\<lparr>vs_pvids := pv'\<rparr> = sample_tables ver vl pv'"
  "(sample_tables ver vl pv)\<lparr>vs_vlans := vl'\<rparr> = sample_tables ver vl' pv"
  "vs_vlans (sample_tables ver vl pv) = vl" "vs_pvids (sample_tables ver vl pv) = pv"
  "vs_hostname (sample_tables ver vl pv) = lit ''switch''"
  by (simp_all add: sample_tables_def sample_switch_def)

lemma sample_linked: "linked (lit ''password'') gs110emx (sample_client, sample_world)"
proof -
  let ?s = "fw_switch sample_world"
  have "nsdp_wf ?s" "fits ?s"
    unfolding sample_world_tables
    by (rule sample_tables_ok; simp add: dict_wf_def vlan_ok_def pvid_ok_def mk_vlan_sim_def u_fits_def ENCPASS_V2_def)+
  moreover have "vs_model_key ?s = ''gs110emx''" "vs_nsdp_password ?s = lit ''password''" "vs_nsdp_auth_failures ?s = 0"
    "fw_alive sample_world" "\<forall>i. length (fw_salts sample_world i) = 4"
    by (simp_all add: sample_world_def sample_switch_def mk_virtual_switch_def)
  ultimately show ?thesis
    using get_model_gs110emx
    by (simp add: linked_def session_def client_wf_def sample_client_def DUMMY_MAC_def lit_def is_ascii_def
        V2_SILENCE_AT_def scheme_of_def)
qed

text \<open>
  C1. End to end, reads tell the truth: over the UDP client and against the virtual
  switch, whichever authentication it uses, every reader operation that NSDP has a tag
  for returns the table of the switch it is named after, and changes no
  configuration: the ports, the counters, the VLANs, the PVIDs, the host name, the
  management address, and all of them at once (\<open>get_device\<close>). The other operations
  of the reader raise without a request and are not of this statement.
\<close>

theorem system_reads:
  assumes "linked pw m cw"
  shows "(\<exists>cw'. get_ports (udp_read face_net) cw
            = (Inr (map port_record (sorted_items (vs_ports (switch_of cw)))), cw') \<and> switch_of cw' = switch_of cw)
    \<and> (\<exists>cw'. get_vlans (udp_read face_net) cw
            = (Inr (map vlan_record (sorted_items (vs_vlans (switch_of cw)))), cw') \<and> switch_of cw' = switch_of cw)
    \<and> (\<exists>cw'. get_pvids (udp_read face_net) cw
            = (Inr (sorted_items (vs_pvids (switch_of cw))), cw') \<and> switch_of cw' = switch_of cw)
    \<and> (\<exists>cw'. get_hostname (udp_read face_net) cw
            = (Inr (nul_rstrip (vs_hostname (switch_of cw))), cw') \<and> switch_of cw' = switch_of cw)
    \<and> (\<exists>cw'. get_stats (udp_read face_net) cw
            = (Inr (map stat_record (sorted_items (vs_ports (switch_of cw)))), cw') \<and> switch_of cw' = switch_of cw)
    \<and> (\<exists>cw'. get_mgmt_ip (udp_read face_net) cw
            = (Inr (mgmt_record (switch_of cw)), cw') \<and> switch_of cw' = switch_of cw)
    \<and> (\<exists>cw'. get_device (udp_read face_net) cw
            = (Inr (device_view (set FULL_DEVICE_TAGS) m (switch_of cw)), cw') \<and> switch_of cw' = switch_of cw)"
  using system.get_ports_ok [OF assms] system.get_vlans_ok [OF assms] system.get_pvids_ok [OF assms]
    system.get_hostname_ok [OF assms] system.get_stats_ok [OF assms] system.get_mgmt_ip_ok [OF assms]
    system.get_device_ok [OF assms] by blast

theorem system_reads_witness:
  "(\<exists>cw. get_pvids (udp_read face_net) (sample_client, sample_world) = (Inr [(1, 1), (2, 1)], cw))
   \<and> (\<exists>cw. get_hostname (udp_read face_net) (sample_client, sample_world) = (Inr (lit ''switch''), cw))"
  using system_reads [OF sample_linked]
  by (auto simp: switch_of_sample sample_tables_updates sorted_items_def nul_rstrip_def lit_def)

text \<open>
  C5. End to end, a PVID write does exactly what it says: for a VLAN the switch has,
  \<open>set_pvid\<close> through the UDP client returns and the configuration differs in that
  one PVID; for any other VLAN it raises \<open>NsdpError\<close> and changes nothing. The session
  can go on in both cases. The switch here is the virtual one, and it is laxer than
  the comment in \<open>NsdpWriter.set_pvid\<close> says a live one is: there the port must
  already be a member of the VLAN, else the write is refused; neither
  \<open>_require_vlan_exists\<close> nor \<open>apply_nsdp_write\<close> looks at the members, and the witness
  has the write succeed on a port outside the VLAN.
\<close>

theorem system_set_pvid:
  assumes lk: "linked pw m cw" and W: "nw_password W = pw" "force \<or> port \<notin> nw_protected_ports W"
    and port: "0 \<le> port" "port < 256"
    and s': "s' = (switch_of cw)\<lparr>vs_pvids := dict_set port vlan (vs_pvids (switch_of cw))\<rparr>" "fits s'"
  shows "\<exists>r cw'. set_pvid (udp_read face_net) (udp_write face_net) W port vlan force cw = (r, cw')
    \<and> linked pw m cw'
    \<and> (if dict_get (vs_vlans (switch_of cw)) vlan \<noteq> None then r = Inr () \<and> switch_of cw' = s'
       else r = Inl (NsdpError (NsdpNoVlan vlan)) \<and> switch_of cw' = switch_of cw)"
  using system.set_pvid_ok [OF lk W port _ s'] system.set_pvid_no_vlan [OF lk W(2), of vlan]
  by (cases "dict_get (vs_vlans (switch_of cw)) vlan = None") fastforce+

definition open_writer :: nsdp_writer where
  "open_writer = \<lparr>nw_model = gs110emx, nw_password = lit ''password'', nw_protected_ports = {}\<rparr>"

theorem system_set_pvid_witness:
  "(\<exists>cw. set_pvid (udp_read face_net) (udp_write face_net) open_writer 2 90 False (sample_client, sample_world)
       = (Inr (), cw) \<and> vs_pvids (switch_of cw) = [(1, 1), (2, 90)])
   \<and> (\<exists>cw v. set_pvid (udp_read face_net) (udp_write face_net) open_writer 1 90 False (sample_client, sample_world)
       = (Inr (), cw) \<and> vs_pvids (switch_of cw) = [(1, 90), (2, 1)]
       \<and> dict_get (vs_vlans (switch_of cw)) 90 = Some v \<and> 1 \<notin> vl_member v)
   \<and> fst (set_pvid (udp_read face_net) (udp_write face_net) open_writer 2 91 False (sample_client, sample_world))
       = Inl (NsdpError (NsdpNoVlan 91))"
proof -
  let ?vl = "[(1, mk_vlan_sim [] {1, 2} {1, 2}), (90, mk_vlan_sim [] {2} {})]"
  have f: "fits (sample_tables ENCPASS_V2 ?vl [(1, u), (2, v)])" if "u = 1 \<or> u = 90" "v = 1 \<or> v = 90 \<or> v = 91" for u v
    using that by (intro sample_tables_ok) (auto simp: dict_wf_def vlan_ok_def pvid_ok_def mk_vlan_sim_def u_fits_def ENCPASS_V2_def)
  have set: "dict_set 2 v [(1, 1), (2, 1)] = [(1 :: int, 1), (2, v)]" "dict_set 1 v [(1, 1), (2, 1)] = [(1 :: int, v), (2, 1)]"
    for v :: int
    by (simp_all add: dict_set_def)
  note at = system_set_pvid [OF sample_linked, of open_writer False 2 _ 90]
    system_set_pvid [OF sample_linked, of open_writer False 2 _ 91] system_set_pvid [OF sample_linked, of open_writer False 1 _ 90]
  note sample = open_writer_def switch_of_sample sample_tables_updates set dict_get_def
  have "\<exists>cw. set_pvid (udp_read face_net) (udp_write face_net) open_writer 1 90 False (sample_client, sample_world)
      = (Inr (), cw) \<and> switch_of cw = sample_tables ENCPASS_V2 ?vl [(1, 90), (2, 1)]"
    using at(3) [OF _ _ _ _ refl] f [of 90 1] by (auto simp: sample)
  then have "\<exists>cw v. set_pvid (udp_read face_net) (udp_write face_net) open_writer 1 90 False (sample_client, sample_world)
       = (Inr (), cw) \<and> vs_pvids (switch_of cw) = [(1, 90), (2, 1)]
       \<and> dict_get (vs_vlans (switch_of cw)) 90 = Some v \<and> 1 \<notin> vl_member v"
    by (auto simp: sample_tables_updates dict_get_def mk_vlan_sim_def)
  then show ?thesis
    using at(1) [OF _ _ _ _ refl] at(2) [OF _ _ _ _ refl] f [of 1 90] f [of 1 91] by (auto simp: sample)
qed



section \<open>The wrong password\<close>

lemma refuse_v1:
  assumes "vs_nsdp_auth_version s \<noteq> ENCPASS_V2" "encode_password_v1 (vs_nsdp_password s) = Inr x" "v \<noteq> x"
    and "plain es" "pk_tlvs q = mk_tlv PASSWORD v # es"
  shows "write_response q s = (Inr (Some (write_resp q s RESULT_BAD_PASSWORD (tag_code PASSWORD))), s)"
proof -
  have "\<not> authentic q s"
    using assms by (auto simp: authentic_def plain_def list_all_iff)
  then show ?thesis using refused_v1 [OF assms(1)] assms(2) by simp
qed

text \<open>
  A wrong version 1 password is told apart end to end: the write raises the
  bad-password error (code 7 blaming PASSWORD) after one exchange, and the switch
  is exactly as it was.
\<close>

lemma wrong_password_v1:
  assumes ss: "session m (c, w)" and sch: "uc_auth_scheme c = ''v1''"
    and v: "vs_nsdp_auth_version (fw_switch w) \<noteq> ENCPASS_V2"
    and pw: "is_ascii pw" "length pw \<le> 900" "encode_password_v1 (vs_nsdp_password (fw_switch w)) = Inr x"
      "encode_password_v1 pw \<noteq> Inr x"
    and pl: "plain es"
  shows "\<exists>c' w'. udp_write face_net es pw (c, w) = (Inl (NsdpError (NsdpBadPassword 7 10)), (c', w'))
    \<and> session m (c', w') \<and> fw_switch w' = fw_switch w"
proof -
  let ?n = "(uc_sequence c + 1) AND 0xFFFF" and ?v = "xor_v1 (map of_nat pw)" and ?s = "fw_switch w"
  let ?c = "c\<lparr>uc_sequence := ?n\<rparr>"
  let ?q = "(mk_packet WRITE_REQUEST (uc_client_mac ?c) BROADCAST_MAC ?n)\<lparr>pk_tlvs := mk_tlv PASSWORD ?v # es\<rparr>"
  have wf: "client_wf c" using ss by (simp add: session_def)
  have n: "0 \<le> ?n" "?n < 65536" using and_FFFF [of "uc_sequence c + 1"] wf by (simp_all add: client_wf_def)
  have ss1: "session m (?c, w)" using ss n by (simp add: session_def client_wf_def)
  have e: "encode_password_v1 pw = Inr ?v" using pw(1) by (simp add: encode_password_v1_def ascii_encode_def)
  have x: "exchange face_net ?q (?c, w) = (Inr (write_resp ?q ?s RESULT_BAD_PASSWORD (tag_code PASSWORD)),
      (?c, w\<lparr>fw_switch := ?s, fw_turn := Suc (fw_turn w)\<rparr>))"
    using wf n pl pw e
    by (intro exchange_write [OF ss1] refuse_v1 [OF v pw(3)]) (auto simp: client_wf_def RESULT_BAD_PASSWORD_def)
  have "udp_write face_net es pw (c, w)
      = (Inl (NsdpError (NsdpBadPassword 7 10)), (?c, w\<lparr>fw_switch := ?s, fw_turn := Suc (fw_turn w)\<rparr>))"
    using sch e x
    by (simp add: udp_write_v1_eq Let_def io_bind_run check_result_def RESULT_BAD_PASSWORD_def RESULT_SUCCESS_def
        error_code_def ERROR_AUTH_REJECTED_def ERROR_DENIED_def)
  moreover have "session m (?c, w\<lparr>fw_switch := ?s, fw_turn := Suc (fw_turn w)\<rparr>)"
    using ss1 by (simp add: session_def)
  ultimately show ?thesis by (intro exI conjI) (assumption, assumption, simp)
qed

text \<open>The error a client sees at each step of the lockout: bad password, locked out, silence.\<close>

definition v2_refused_as :: "int \<Rightarrow> nsdp_reason" where
  "v2_refused_as failures =
     (if failures > V2_SILENCE_AT then NsdpTimeout
      else if failures \<ge> V2_ESCALATE_AT then NsdpLockedOut 14 (tag_code AUTH_V2_PASSWORD)
      else NsdpBadPassword 13 (tag_code AUTH_V2_PASSWORD))"

lemma refused_password_v2:
  assumes ss: "session m (c, w)" and sch: "uc_auth_scheme c = ''v2''"
    and v: "vs_nsdp_auth_version (fw_switch w) = ENCPASS_V2"
    and pw: "is_ascii pw" "is_ascii (vs_nsdp_password (fw_switch w))"
      "\<not> interchangeable pw (vs_nsdp_password (fw_switch w))"
    and pl: "plain es"
  shows "\<exists>c' w'. udp_write face_net es pw (c, w)
      = (Inl (NsdpError (v2_refused_as (vs_nsdp_auth_failures (fw_switch w)))), (c', w'))
    \<and> session m (c', w') \<and> config (fw_switch w') = config (fw_switch w)
    \<and> vs_nsdp_auth_failures (fw_switch w') = vs_nsdp_auth_failures (fw_switch w)
        + (if vs_nsdp_auth_failures (fw_switch w) > V2_SILENCE_AT then 0 else 1)"
proof -
  let ?salt = "fw_salts w (fw_turn w)" and ?mac = "vs_nsdp_mac (fw_switch w)" and ?f = "vs_nsdp_auth_failures (fw_switch w)"
  obtain c1 w1 where cw1: "after_read {AUTH_V2_SALT} (c, w) = (c1, w1)" by (cases "after_read {AUTH_V2_SALT} (c, w)")
  let ?n = "(uc_sequence c1 + 1) AND 0xFFFF" and ?s = "fw_switch w1" and ?c = "c1\<lparr>uc_sequence := (uc_sequence c1 + 1) AND 0xFFFF\<rparr>"
  let ?v = "v2_token ?salt ?mac (v2_key (map of_nat pw))"
  let ?x = "v2_token ?salt ?mac (v2_key (map of_nat (vs_nsdp_password (fw_switch w))))"
  let ?q = "(mk_packet WRITE_REQUEST (uc_client_mac ?c) BROADCAST_MAC ?n)\<lparr>pk_tlvs := mk_tlv AUTH_V2_PASSWORD ?v # es\<rparr>"
  let ?s' = "?s\<lparr>vs_nsdp_auth_failures := ?f + (if ?f > V2_SILENCE_AT then 0 else 1)\<rparr>"
  let ?w' = "w1\<lparr>fw_switch := ?s', fw_turn := Suc (fw_turn w1)\<rparr>"
  have rd: "udp_read face_net [AUTH_V2_SALT] (c, w) = (Inr (read_answer c w m {AUTH_V2_SALT}), (c1, w1))"
    using udp_read_face [OF ss, of "[AUTH_V2_SALT]"] cw1 by simp
  have ss1: "session m (c1, w1)" using session_after_read [OF ss, of "{AUTH_V2_SALT}"] cw1 by simp
  have s1: "?s = (fw_switch w)\<lparr>vs_nsdp_last_salt := Some ?salt\<rparr>" "uc_auth_scheme c1 = uc_auth_scheme c"
    using cw1 by (auto simp: after_read_def rotate_salt_def)
  have k: "client_wf c1" "length ?salt = 4" "length ?mac = 6"
    using ss ss1 by (auto simp: session_def nsdp_wf_def identity_ok_def)
  have n: "0 \<le> ?n" "?n < 65536" using and_FFFF [of "uc_sequence c1 + 1"] k(1) by (simp_all add: client_wf_def)
  have ss2: "session m (?c, w1)" using ss1 n by (simp add: session_def client_wf_def)
  have c: "length (uc_client_mac ?c) = 6" using k(1) by (simp add: client_wf_def)
  have x: "auth_v2_password (vs_nsdp_password (fw_switch w)) ?mac ?salt = Inr ?x"
    using k pw by (simp add: auth_v2_password_Inr_iff)
  then have "expected_token ?s = Inr (Some ?x)" by (simp add: expected_token_def s1)
  moreover have "auth_v2_password pw ?mac ?salt = Inr ?v" using k pw by (simp add: auth_v2_password_Inr_iff)
  ultimately have tok: "auth_v2_password pw ?mac ?salt = Inr ?v" "expected_token ?s = Inr (Some ?x)" by simp_all
  have wr: "write_response q ?s = (Inr (v2_refusal q ?s), ?s')" if "pk_tlvs q = mk_tlv AUTH_V2_PASSWORD ?v # es" for q
  proof -
    have "first_value (pk_tlvs q) AUTH_V2_PASSWORD = Some ?v" using that by (simp add: first_value_def)
    then have "\<not> authentic q ?s" using x v pw(3) by (simp add: authentic_def s1 v2_token_eq_iff)
    from refused_v2 [OF _ this tok(2)] v show ?thesis by (simp add: s1)
  qed
  have len: "length ?v \<le> 900" by (simp add: v2_token_def)
  have b: "build_write face_net es pw (c, w) = (Inr ?q, (?c, w1))"
    using rd sch tok(1)
    by (simp add: build_write_def resolve_scheme_def io_bind_run first_tlv_value_answer
        build_write_request_v2_def) (simp add: read_answer_def mk_packet_def io_bind_run)
  have "udp_write face_net es pw (c, w) = (Inl (NsdpError (v2_refused_as ?f)), (?c, ?w'))"
  proof (cases "?f > V2_SILENCE_AT")
    case True
    then have "exchange face_net ?q (?c, w1) = (Inl (NsdpError NsdpTimeout), (?c, ?w'))"
      using wr by (intro exchange_write_silent [OF ss2 c n pl _ len]) (simp_all add: v2_refusal_def s1)
    with b True show ?thesis by (simp add: udp_write_def io_bind_run v2_refused_as_def)
  next
    case False
    let ?r = "if ?f \<ge> V2_ESCALATE_AT then RESULT_LOCKED_V2 else RESULT_BAD_PASSWORD_V2"
    have "exchange face_net ?q (?c, w1) = (Inr (write_resp ?q ?s ?r (tag_code AUTH_V2_PASSWORD)), (?c, ?w'))"
      using False wr
      by (intro exchange_write [OF ss2 c n pl _ len])
        (simp_all add: v2_refusal_def s1 RESULT_LOCKED_V2_def RESULT_BAD_PASSWORD_V2_def)
    with b False show ?thesis
      by (simp add: udp_write_def io_bind_run check_result_def v2_refused_as_def RESULT_SUCCESS_def
          error_code_def ERROR_AUTH_REJECTED_def ERROR_DENIED_def ERROR_LOCKED_def
          RESULT_LOCKED_V2_def RESULT_BAD_PASSWORD_V2_def)
  qed
  moreover have "session m (?c, ?w')" using ss2 by (simp add: session_def)
  moreover have "config ?s' = config (fw_switch w)" by (simp add: s1 config_def)
  ultimately show ?thesis by (intro exI conjI) (assumption, assumption, simp_all)
qed

lemma interchangeable_write:
  assumes "uc_auth_scheme c = ''v2''" "interchangeable pw pw'" "is_ascii pw" "is_ascii pw'"
  shows "udp_write net es pw (c, w) = udp_write net es pw' (c, w)"
proof -
  have "resolve_scheme net (c, w) = (Inr ''v2'', (c, w))" using assms(1) by (simp add: resolve_scheme_def)
  moreover have token: "auth_v2_password pw = auth_v2_password pw'"
    by (intro ext) (rule interchangeable_token [OF assms(2-4)])
  ultimately have "build_write net es pw (c, w) = build_write net es pw' (c, w)"
    unfolding build_write_def token by (simp add: io_bind_run)
  then show ?thesis by (simp add: udp_write_def io_bind_def)
qed

text \<open>The same sample switch with version 1 authentication, and a client with the wrong password.\<close>

definition v1_world :: face_world where
  "v1_world = sample_world\<lparr>fw_switch := sample_tables ENCPASS_V1 [(1, mk_vlan_sim [] {1, 2} {1, 2})] [(1, 1)]\<rparr>"

lemma v1_session: "session gs110emx (sample_client\<lparr>uc_auth_scheme := x\<rparr>, v1_world)"
proof -
  let ?s = "sample_tables ENCPASS_V1 [(1, mk_vlan_sim [] {1, 2} {1, 2})] [(1, 1)]"
  have "nsdp_wf ?s" "fits ?s"
    by (rule sample_tables_ok; simp add: dict_wf_def vlan_ok_def pvid_ok_def mk_vlan_sim_def u_fits_def ENCPASS_V1_def)+
  moreover have "vs_model_key ?s = ''gs110emx''"
    by (simp add: sample_tables_def sample_switch_def mk_virtual_switch_def)
  ultimately show ?thesis
    using get_model_gs110emx
    by (simp add: session_def v1_world_def sample_world_def client_wf_def sample_client_def DUMMY_MAC_def)
qed

lemma wrong_password_v1_witness:
  "fst (udp_write face_net [reboot_tlv] (lit ''x'') (sample_client\<lparr>uc_auth_scheme := ''v1''\<rparr>, v1_world))
     = Inl (NsdpError (NsdpBadPassword 7 10))"
proof -
  have pw: "vs_nsdp_password (fw_switch v1_world) = lit ''password''" "vs_nsdp_auth_version (fw_switch v1_world) \<noteq> ENCPASS_V2"
    by (simp_all add: v1_world_def sample_tables_def sample_switch_def mk_virtual_switch_def ENCPASS_V1_def ENCPASS_V2_def)
  obtain x where x: "encode_password_v1 (lit ''password'') = Inr x" "length x = 8"
    by (simp add: encode_password_v1_def ascii_encode_def is_ascii_def lit_def)
  then have "encode_password_v1 (lit ''x'') \<noteq> Inr x"
    by (auto simp: encode_password_v1_def ascii_encode_def is_ascii_def lit_def dest: arg_cong [where f = length])
  moreover have "plain [reboot_tlv]" "is_ascii (lit ''x'')" "length (lit ''x'') \<le> 900"
    by (simp_all add: plain_def reboot_tlv_def is_ascii_def lit_def)
  ultimately show ?thesis
    using wrong_password_v1 [OF v1_session, of "''v1''" "lit ''x''" x "[reboot_tlv]"] pw x(1) by auto
qed

text \<open>
  C23. A version 2 password that is not the switch's, end to end. The scheme cannot tell
  every password from the right one: one that is \<open>interchangeable\<close> with it (the same eight
  sums of its characters, as \<open>passwodr\<close> for \<open>password\<close>) writes exactly as the right one
  does. Any other is refused: depending on how many writes failed before, the write raises the
  bad-password error, then the lockout error, then a timeout; the configuration is
  untouched and the failure is counted unless the switch is already silent.
\<close>

theorem wrong_password_v2:
  assumes "session m (c, w)" and "uc_auth_scheme c = ''v2''"
    and "vs_nsdp_auth_version (fw_switch w) = ENCPASS_V2"
    and "is_ascii pw" and "is_ascii (vs_nsdp_password (fw_switch w))" and "plain es"
  shows "if interchangeable pw (vs_nsdp_password (fw_switch w))
    then udp_write face_net es pw (c, w) = udp_write face_net es (vs_nsdp_password (fw_switch w)) (c, w)
    else \<exists>c' w'. udp_write face_net es pw (c, w)
        = (Inl (NsdpError (v2_refused_as (vs_nsdp_auth_failures (fw_switch w)))), (c', w'))
      \<and> session m (c', w') \<and> config (fw_switch w') = config (fw_switch w)
      \<and> vs_nsdp_auth_failures (fw_switch w') = vs_nsdp_auth_failures (fw_switch w)
          + (if vs_nsdp_auth_failures (fw_switch w) > V2_SILENCE_AT then 0 else 1)"
  using refused_password_v2 [OF assms(1-5) _ assms(6)] interchangeable_write [OF assms(2) _ assms(4,5)]
  by (cases "interchangeable pw (vs_nsdp_password (fw_switch w))") auto

theorem wrong_password_v2_witness:
  "fst (udp_write face_net [reboot_tlv] (lit ''x'') (sample_client\<lparr>uc_auth_scheme := ''v2''\<rparr>, sample_world))
     = Inl (NsdpError (NsdpBadPassword 13 26))
   \<and> udp_write face_net [reboot_tlv] (lit ''passwodr'') (sample_client\<lparr>uc_auth_scheme := ''v2''\<rparr>, sample_world)
     = udp_write face_net [reboot_tlv] (lit ''password'') (sample_client\<lparr>uc_auth_scheme := ''v2''\<rparr>, sample_world)"
proof -
  have ss: "session gs110emx (sample_client\<lparr>uc_auth_scheme := ''v2''\<rparr>, sample_world)"
    using sample_linked by (simp add: linked_def session_def client_wf_def)
  have w: "vs_nsdp_password (fw_switch sample_world) = lit ''password''" "vs_nsdp_auth_failures (fw_switch sample_world) = 0"
    "vs_nsdp_auth_version (fw_switch sample_world) = ENCPASS_V2"
    by (simp_all add: sample_world_def sample_switch_def mk_virtual_switch_def)
  have pl: "plain [reboot_tlv]" by (simp add: plain_def reboot_tlv_def)
  have a: "is_ascii (lit ''x'')" "is_ascii (lit ''password'')" "is_ascii (lit ''passwodr'')" by (simp_all add: is_ascii_def lit_def)
  have x: "\<not> interchangeable (lit ''x'') (lit ''password'')"
    by (simp add: interchangeable_def v2_sums_def v2_key_def lit_def)
  show ?thesis
    using wrong_password_v2 [OF ss _ w(3) a(1) _ pl] wrong_password_v2 [OF ss _ w(3) a(3) _ pl]
      interchangeable_example x a(2) w(1,2)
    by (auto simp: v2_refused_as_def V2_SILENCE_AT_def V2_ESCALATE_AT_def)
qed

section \<open>Renaming\<close>

text \<open>
  C28. A Plus switch cannot be renamed against the virtual switch: the write of a new
  host name is accepted by the face and ignored by its state, so \<open>set_hostname\<close>
  raises \<open>WriteVerificationError\<close> with the old name as both before and after.
\<close>

theorem system_rename_not_taken:
  assumes lk: "linked pw m cw" and W: "nw_password W = pw"
    and name: "is_ascii name" "strip name \<noteq> []" "length name \<le> 2000" "name \<noteq> nul_rstrip (vs_hostname (switch_of cw))"
  shows "\<exists>cw'. set_hostname (udp_read face_net) (udp_write face_net) W name force cw
      = (Inl (WriteVerificationError (EvText (nul_rstrip (vs_hostname (switch_of cw))))
                (EvText (nul_rstrip (vs_hostname (switch_of cw))))), cw')
    \<and> switch_of cw' = switch_of cw"
proof -
  have "fits (switch_of cw)" using lk by (cases cw) (simp add: linked_def session_def switch_of_def)
  from system.set_hostname_ignored [OF lk W name(1-3) this] name(4) show ?thesis by fastforce
qed

theorem system_rename_not_taken_witness:
  "fst (set_hostname (udp_read face_net) (udp_write face_net) open_writer (lit ''core'') False (sample_client, sample_world))
     = Inl (WriteVerificationError (EvText (lit ''switch'')) (EvText (lit ''switch'')))"
proof -
  have h: "nul_rstrip (vs_hostname (switch_of (sample_client, sample_world))) = lit ''switch''"
    by (simp add: switch_of_sample sample_tables_updates nul_rstrip_def lit_def)
  show ?thesis
    using system_rename_not_taken [OF sample_linked, of open_writer "lit ''core''" False] h
    by (auto simp: open_writer_def is_ascii_def lit_def strip_def is_space_def)
qed

end
