(* ===== verification/Snmp_Oids.thy ===== *)
theory Snmp_Oids
  imports Registry Py_Text
begin

text \<open>
  Object identifiers (\<open>protocols/snmp/oids.py\<close>) as the code handles them: dotted
  decimal strings, compared by prefix and indexed by what follows the prefix. The
  lemmas read such a string back as its list of numbers, which is how every later
  proof tells two columns apart.
\<close>

section \<open>Numbers and suffixes\<close>

text \<open>
  \<open>str.isdigit\<close> and \<open>int\<close> of such a string. An identifier that came over the wire
  consists of ASCII digits and dots only.
\<close>

definition isdigit :: "ustr \<Rightarrow> bool" where
  "isdigit s \<longleftrightarrow> s \<noteq> [] \<and> list_all is_digit s"

definition dec_val :: "ustr \<Rightarrow> int" where
  "dec_val s = int (digits_val 10 (map (\<lambda>d. d - 48) s))"

definition suffix_of :: "ustr \<Rightarrow> ustr \<Rightarrow> ustr option" where
  "suffix_of base oid =
     (let prefix = base @ [46]
      in if take (length prefix) oid = prefix then Some (drop (length prefix) oid) else None)"

text \<open>\<open>".".join(parts)\<close>\<close>

definition dot_join :: "ustr list \<Rightarrow> ustr" where
  "dot_join ps = (case ps of [] \<Rightarrow> [] | p # qs \<Rightarrow> p @ concat (map (\<lambda>q. 46 # q) qs))"

definition oid_tail :: "ustr \<Rightarrow> ustr \<Rightarrow> int option" where
  "oid_tail base oid =
     (case suffix_of base oid of
        Some t \<Rightarrow> if isdigit t then Some (dec_val t) else None
      | None \<Rightarrow> None)"

text \<open>The instance of a column: \<open>f"{base}.{index}"\<close>.\<close>

definition col :: "ustr \<Rightarrow> int \<Rightarrow> ustr" where
  "col base i = base @ 46 # show_int i"

fun dots :: "nat list \<Rightarrow> ustr" where
  "dots [] = []"
| "dots [x] = show_nat x"
| "dots (x # y # ys) = show_nat x @ 46 # dots (y # ys)"

lemma dots_Cons: "xs \<noteq> [] \<Longrightarrow> dots (x # xs) = show_nat x @ 46 # dots xs"
  by (cases xs) auto

lemma dots_append: "xs \<noteq> [] \<Longrightarrow> ys \<noteq> [] \<Longrightarrow> dots (xs @ ys) = dots xs @ 46 # dots ys"
  by (induction xs rule: dots.induct) (auto simp: dots_Cons)

lemma no_dot_show_nat: "46 \<notin> set (show_nat n)"
  using show_nat_digits digit_chars by blast

lemma show_nat_inject [simp]: "show_nat a = show_nat b \<longleftrightarrow> a = b"
  using digits_val_show_nat by metis

lemma split_dots: "xs \<noteq> [] \<Longrightarrow> split_on 46 (dots xs) = map show_nat xs"
  by (induction xs rule: dots.induct) (auto simp: split_on_append split_on_single no_dot_show_nat)

lemma dots_inject: "xs \<noteq> [] \<Longrightarrow> ys \<noteq> [] \<Longrightarrow> dots xs = dots ys \<longleftrightarrow> xs = ys"
proof
  assume xs: "xs \<noteq> []" "ys \<noteq> []" and "dots xs = dots ys"
  then have "map show_nat xs = map show_nat ys" using split_dots by metis
  then show "xs = ys" by (rule map_injective) (simp add: inj_def)
qed simp

lemma split_on_dots_append:
  "xs \<noteq> [] \<Longrightarrow> split_on 46 (dots xs @ 46 # t) = map show_nat xs @ split_on 46 t"
  by (induction xs rule: dots.induct) (auto simp: split_on_append no_dot_show_nat)

lemma suffix_of_Some: "suffix_of base oid = Some t \<longleftrightarrow> oid = base @ 46 # t"
proof -
  have "oid = base @ 46 # t" if "take (length (base @ [46])) oid = base @ [46]"
      "t = drop (length (base @ [46])) oid"
  proof -
    from that have "oid = (base @ [46]) @ t" by (metis append_take_drop_id)
    then show ?thesis by simp
  qed
  then show ?thesis by (auto simp: suffix_of_def Let_def)
qed

text \<open>Which column an identifier belongs to, on its numbers.\<close>

lemma suffix_of_dots:
  assumes "ys \<noteq> []" "xs \<noteq> []"
  shows "suffix_of (dots ys) (dots xs) =
    (if take (length ys) xs = ys \<and> length ys < length xs then Some (dots (drop (length ys) xs)) else None)"
proof (cases "take (length ys) xs = ys \<and> length ys < length xs")
  case True
  then have "xs = ys @ drop (length ys) xs" "drop (length ys) xs \<noteq> []"
    by (metis append_take_drop_id) (use True in simp)
  then have "dots xs = dots ys @ 46 # dots (drop (length ys) xs)"
    using assms dots_append by metis
  with True show ?thesis by (simp add: suffix_of_Some)
next
  case False
  have "suffix_of (dots ys) (dots xs) = None"
  proof (rule ccontr)
    assume "suffix_of (dots ys) (dots xs) \<noteq> None"
    then obtain t where t: "dots xs = dots ys @ 46 # t"
      by (auto simp: suffix_of_Some)
    have "map show_nat xs = map show_nat ys @ split_on 46 t"
      using split_dots [OF assms(2)] split_on_dots_append [OF assms(1), of t] t by simp
    moreover have "split_on 46 t \<noteq> []" by (cases t) (auto split: list.splits)
    ultimately obtain us vs where u: "xs = us @ vs" "map show_nat us = map show_nat ys" "vs \<noteq> []"
      by (metis append_eq_map_conv map_is_Nil_conv)
    then have "us = ys" using map_injective [of show_nat us ys] by (auto simp: inj_def)
    with u False show False by simp
  qed
  with False show ?thesis by simp
qed

lemma isdigit_show_nat [simp]: "isdigit (show_nat n)"
  using show_nat_digits by (simp add: isdigit_def list_all_iff)

lemma dec_val_show_nat [simp]: "dec_val (show_nat n) = int n"
  by (simp add: dec_val_def digits_val_show_nat)

lemma not_isdigit_dot: "46 \<in> set s \<Longrightarrow> \<not> isdigit s"
  by (force simp: isdigit_def list_all_iff is_digit_def)

lemma oid_tail_dots:
  assumes "ys \<noteq> []" "xs \<noteq> []"
  shows "oid_tail (dots ys) (dots xs) =
    (if take (length ys) xs = ys \<and> length xs = Suc (length ys) then Some (int (last xs)) else None)"
proof (cases "take (length ys) xs = ys \<and> length ys < length xs")
  case True
  define zs where "zs = drop (length ys) xs"
  have z: "zs \<noteq> []" "length zs = length xs - length ys" "last zs = last xs"
    using True by (auto simp: zs_def last_drop)
  have tail: "oid_tail (dots ys) (dots xs) = (if isdigit (dots zs) then Some (dec_val (dots zs)) else None)"
    using True by (simp add: oid_tail_def suffix_of_dots [OF assms] zs_def)
  show ?thesis
  proof (cases "length zs = 1")
    case True1: True
    then obtain a where "zs = [a]" by (auto simp: length_Suc_conv)
    with z True show ?thesis by (simp add: tail)
  next
    case False
    with z obtain a b cs where "zs = a # b # cs" by (cases zs; cases "tl zs") auto
    then have "\<not> isdigit (dots zs)" by (intro not_isdigit_dot) simp
    with False z show ?thesis by (simp add: tail) linarith
  qed
next
  case False
  then show ?thesis by (auto simp: oid_tail_def suffix_of_dots [OF assms])
qed

lemma col_dots: "base \<noteq> [] \<Longrightarrow> col (dots base) (int n) = dots (base @ [n])"
  by (simp add: col_def show_int_def dots_append)

lemma oid_tail_col [simp]: "oid_tail base (col base (int n)) = Some (int n)"
proof -
  have "suffix_of base (col base (int n)) = Some (show_nat n)"
    by (simp add: suffix_of_Some col_def show_int_def)
  then show ?thesis by (simp add: oid_tail_def)
qed

text \<open>An index below 0 prints a minus sign, which is no digit.\<close>

lemma oid_tail_col_neg: "i < 0 \<Longrightarrow> oid_tail base (col base i) = None"
proof -
  assume "i < 0"
  then have "suffix_of base (col base i) = Some (45 # show_nat (nat (- i)))"
    by (simp add: suffix_of_Some col_def show_int_def)
  then show ?thesis by (simp add: oid_tail_def isdigit_def is_digit_def)
qed

section \<open>The identifiers\<close>

definition SYS_DESCR :: ustr where "SYS_DESCR = lit ''1.3.6.1.2.1.1.1.0''"
definition SYS_OBJECT_ID :: ustr where "SYS_OBJECT_ID = lit ''1.3.6.1.2.1.1.2.0''"
definition SYS_NAME :: ustr where "SYS_NAME = lit ''1.3.6.1.2.1.1.5.0''"
definition IF_TYPE :: ustr where "IF_TYPE = lit ''1.3.6.1.2.1.2.2.1.3''"
definition IF_ADMIN_STATUS :: ustr where "IF_ADMIN_STATUS = lit ''1.3.6.1.2.1.2.2.1.7''"
definition IF_OPER_STATUS :: ustr where "IF_OPER_STATUS = lit ''1.3.6.1.2.1.2.2.1.8''"
definition IF_IN_ERRORS :: ustr where "IF_IN_ERRORS = lit ''1.3.6.1.2.1.2.2.1.14''"
definition IF_OUT_ERRORS :: ustr where "IF_OUT_ERRORS = lit ''1.3.6.1.2.1.2.2.1.20''"
definition IF_NAME :: ustr where "IF_NAME = lit ''1.3.6.1.2.1.31.1.1.1.1''"
definition IF_HC_IN_OCTETS :: ustr where "IF_HC_IN_OCTETS = lit ''1.3.6.1.2.1.31.1.1.1.6''"
definition IF_HC_IN_UCAST :: ustr where "IF_HC_IN_UCAST = lit ''1.3.6.1.2.1.31.1.1.1.7''"
definition IF_HC_OUT_OCTETS :: ustr where "IF_HC_OUT_OCTETS = lit ''1.3.6.1.2.1.31.1.1.1.10''"
definition IF_HC_OUT_UCAST :: ustr where "IF_HC_OUT_UCAST = lit ''1.3.6.1.2.1.31.1.1.1.11''"
definition IF_HIGH_SPEED :: ustr where "IF_HIGH_SPEED = lit ''1.3.6.1.2.1.31.1.1.1.15''"
definition IF_ALIAS :: ustr where "IF_ALIAS = lit ''1.3.6.1.2.1.31.1.1.1.18''"
definition DOT3_STATS_DUPLEX_STATUS :: ustr where "DOT3_STATS_DUPLEX_STATUS = lit ''1.3.6.1.2.1.10.7.2.1.19''"
definition DOT3_PAUSE_ADMIN_MODE :: ustr where "DOT3_PAUSE_ADMIN_MODE = lit ''1.3.6.1.2.1.10.7.10.1.1''"
definition DOT3_PAUSE_OPER_MODE :: ustr where "DOT3_PAUSE_OPER_MODE = lit ''1.3.6.1.2.1.10.7.10.1.2''"
definition DOT1D_BASE_BRIDGE_ADDRESS :: ustr where "DOT1D_BASE_BRIDGE_ADDRESS = lit ''1.3.6.1.2.1.17.1.1''"
definition DOT1D_BASE_PORT_IF_INDEX :: ustr where "DOT1D_BASE_PORT_IF_INDEX = lit ''1.3.6.1.2.1.17.1.4.1.2''"
definition DOT1Q_TP_FDB_PORT :: ustr where "DOT1Q_TP_FDB_PORT = lit ''1.3.6.1.2.1.17.7.1.2.2.1.2''"
definition DOT1Q_VLAN_STATIC_NAME :: ustr where "DOT1Q_VLAN_STATIC_NAME = lit ''1.3.6.1.2.1.17.7.1.4.3.1.1''"
definition DOT1Q_VLAN_STATIC_EGRESS :: ustr where "DOT1Q_VLAN_STATIC_EGRESS = lit ''1.3.6.1.2.1.17.7.1.4.3.1.2''"
definition DOT1Q_VLAN_STATIC_UNTAGGED :: ustr where "DOT1Q_VLAN_STATIC_UNTAGGED = lit ''1.3.6.1.2.1.17.7.1.4.3.1.4''"
definition DOT1Q_VLAN_CURRENT_EGRESS :: ustr where "DOT1Q_VLAN_CURRENT_EGRESS = lit ''1.3.6.1.2.1.17.7.1.4.2.1.4''"
definition DOT1Q_VLAN_CURRENT_UNTAGGED :: ustr where "DOT1Q_VLAN_CURRENT_UNTAGGED = lit ''1.3.6.1.2.1.17.7.1.4.2.1.5''"
definition DOT1Q_VLAN_STATUS :: ustr where "DOT1Q_VLAN_STATUS = lit ''1.3.6.1.2.1.17.7.1.4.2.1.6''"
definition DOT1Q_PVID :: ustr where "DOT1Q_PVID = lit ''1.3.6.1.2.1.17.7.1.4.5.1.1''"
definition DOT1Q_VLAN_STATIC_ROW_STATUS :: ustr where "DOT1Q_VLAN_STATIC_ROW_STATUS = lit ''1.3.6.1.2.1.17.7.1.4.3.1.5''"
definition FASTPATH_SWITCHPORT_MODE :: ustr where "FASTPATH_SWITCHPORT_MODE = lit ''1.3.6.1.4.1.4526.10.1.2.8.37.1.2''"
definition FASTPATH_SWITCHPORT_ACCESS_VLAN :: ustr where "FASTPATH_SWITCHPORT_ACCESS_VLAN = lit ''1.3.6.1.4.1.4526.10.1.2.8.37.1.3''"
definition FASTPATH_SWITCHPORT_NATIVE_VLAN :: ustr where "FASTPATH_SWITCHPORT_NATIVE_VLAN = lit ''1.3.6.1.4.1.4526.10.1.2.8.37.1.4''"
definition FASTPATH_SWITCHPORT_ALLOWED_VLANS :: ustr where "FASTPATH_SWITCHPORT_ALLOWED_VLANS = lit ''1.3.6.1.4.1.4526.10.1.2.8.37.1.6''"
definition FASTPATH_SWITCHPORT_UNTAGGED_VLANS :: ustr where "FASTPATH_SWITCHPORT_UNTAGGED_VLANS = lit ''1.3.6.1.4.1.4526.10.1.2.8.37.1.7''"
definition FASTPATH_SWITCHPORT_TAGGED_VLANS :: ustr where "FASTPATH_SWITCHPORT_TAGGED_VLANS = lit ''1.3.6.1.4.1.4526.10.1.2.8.37.1.8''"
definition ENT_PHYSICAL_DESCR :: ustr where "ENT_PHYSICAL_DESCR = lit ''1.3.6.1.2.1.47.1.1.1.1.2''"
definition ENT_PHYSICAL_CLASS :: ustr where "ENT_PHYSICAL_CLASS = lit ''1.3.6.1.2.1.47.1.1.1.1.5''"
definition ENT_PHYSICAL_NAME :: ustr where "ENT_PHYSICAL_NAME = lit ''1.3.6.1.2.1.47.1.1.1.1.7''"
definition LLDP_REM_TABLE :: ustr where "LLDP_REM_TABLE = lit ''1.0.8802.1.1.2.1.4.1''"
definition PETH_PSE_PORT_TABLE :: ustr where "PETH_PSE_PORT_TABLE = lit ''1.3.6.1.2.1.105.1.1.1''"
definition IP_ADENT_ADDR :: ustr where "IP_ADENT_ADDR = lit ''1.3.6.1.2.1.4.20.1.1''"
definition IP_ADENT_IFINDEX :: ustr where "IP_ADENT_IFINDEX = lit ''1.3.6.1.2.1.4.20.1.2''"
definition IP_ADENT_NETMASK :: ustr where "IP_ADENT_NETMASK = lit ''1.3.6.1.2.1.4.20.1.3''"
definition IP_ADDRESS_IFINDEX :: ustr where "IP_ADDRESS_IFINDEX = lit ''1.3.6.1.2.1.4.34.1.3''"
definition IP_ROUTE_DEST :: ustr where "IP_ROUTE_DEST = lit ''1.3.6.1.2.1.4.21.1.1''"
definition IP_ROUTE_NEXTHOP :: ustr where "IP_ROUTE_NEXTHOP = lit ''1.3.6.1.2.1.4.21.1.7''"
definition DHCP_MODE_OID_SUFFIX :: ustr where "DHCP_MODE_OID_SUFFIX = lit ''99.1''"

definition PETH_PSE_PORT_ADMIN :: ustr where
  "PETH_PSE_PORT_ADMIN = PETH_PSE_PORT_TABLE @ lit ''.3''"

definition PETH_PSE_PORT_DETECT :: ustr where
  "PETH_PSE_PORT_DETECT = PETH_PSE_PORT_TABLE @ lit ''.6''"

definition ROW_STATUS_CREATE_AND_GO :: int where "ROW_STATUS_CREATE_AND_GO = 4"
definition ROW_STATUS_DESTROY :: int where "ROW_STATUS_DESTROY = 6"
definition ROW_STATUS_ACTIVE :: int where "ROW_STATUS_ACTIVE = 1"
definition ROW_STATUS_NOT_IN_SERVICE :: int where "ROW_STATUS_NOT_IN_SERVICE = 2"
definition SWITCHPORT_MODE_ACCESS :: int where "SWITCHPORT_MODE_ACCESS = 1"
definition SWITCHPORT_MODE_TRUNK :: int where "SWITCHPORT_MODE_TRUNK = 2"
definition SWITCHPORT_MODE_GENERAL :: int where "SWITCHPORT_MODE_GENERAL = 3"
definition SWITCHPORT_VLAN_BITMAP_BYTES :: nat where "SWITCHPORT_VLAN_BITMAP_BYTES = 512"
definition ENT_CLASS_POWER_SUPPLY :: int where "ENT_CLASS_POWER_SUPPLY = 6"
definition ENT_CLASS_FAN :: int where "ENT_CLASS_FAN = 7"

lemmas int_consts = ROW_STATUS_CREATE_AND_GO_def ROW_STATUS_DESTROY_def ROW_STATUS_ACTIVE_def
    ROW_STATUS_NOT_IN_SERVICE_def SWITCHPORT_MODE_ACCESS_def SWITCHPORT_MODE_TRUNK_def
    SWITCHPORT_MODE_GENERAL_def SWITCHPORT_VLAN_BITMAP_BYTES_def ENT_CLASS_POWER_SUPPLY_def
    ENT_CLASS_FAN_def

text \<open>The same identifiers as numbers.\<close>

lemma oid_dots:
  "SYS_DESCR = dots [1, 3, 6, 1, 2, 1, 1, 1, 0]"
  "SYS_OBJECT_ID = dots [1, 3, 6, 1, 2, 1, 1, 2, 0]"
  "SYS_NAME = dots [1, 3, 6, 1, 2, 1, 1, 5, 0]"
  "IF_TYPE = dots [1, 3, 6, 1, 2, 1, 2, 2, 1, 3]"
  "IF_ADMIN_STATUS = dots [1, 3, 6, 1, 2, 1, 2, 2, 1, 7]"
  "IF_OPER_STATUS = dots [1, 3, 6, 1, 2, 1, 2, 2, 1, 8]"
  "IF_IN_ERRORS = dots [1, 3, 6, 1, 2, 1, 2, 2, 1, 14]"
  "IF_OUT_ERRORS = dots [1, 3, 6, 1, 2, 1, 2, 2, 1, 20]"
  "IF_NAME = dots [1, 3, 6, 1, 2, 1, 31, 1, 1, 1, 1]"
  "IF_HC_IN_OCTETS = dots [1, 3, 6, 1, 2, 1, 31, 1, 1, 1, 6]"
  "IF_HC_IN_UCAST = dots [1, 3, 6, 1, 2, 1, 31, 1, 1, 1, 7]"
  "IF_HC_OUT_OCTETS = dots [1, 3, 6, 1, 2, 1, 31, 1, 1, 1, 10]"
  "IF_HC_OUT_UCAST = dots [1, 3, 6, 1, 2, 1, 31, 1, 1, 1, 11]"
  "IF_HIGH_SPEED = dots [1, 3, 6, 1, 2, 1, 31, 1, 1, 1, 15]"
  "IF_ALIAS = dots [1, 3, 6, 1, 2, 1, 31, 1, 1, 1, 18]"
  "DOT3_STATS_DUPLEX_STATUS = dots [1, 3, 6, 1, 2, 1, 10, 7, 2, 1, 19]"
  "DOT3_PAUSE_ADMIN_MODE = dots [1, 3, 6, 1, 2, 1, 10, 7, 10, 1, 1]"
  "DOT3_PAUSE_OPER_MODE = dots [1, 3, 6, 1, 2, 1, 10, 7, 10, 1, 2]"
  "DOT1D_BASE_BRIDGE_ADDRESS = dots [1, 3, 6, 1, 2, 1, 17, 1, 1]"
  "DOT1D_BASE_PORT_IF_INDEX = dots [1, 3, 6, 1, 2, 1, 17, 1, 4, 1, 2]"
  "DOT1Q_TP_FDB_PORT = dots [1, 3, 6, 1, 2, 1, 17, 7, 1, 2, 2, 1, 2]"
  "DOT1Q_VLAN_STATIC_NAME = dots [1, 3, 6, 1, 2, 1, 17, 7, 1, 4, 3, 1, 1]"
  "DOT1Q_VLAN_STATIC_EGRESS = dots [1, 3, 6, 1, 2, 1, 17, 7, 1, 4, 3, 1, 2]"
  "DOT1Q_VLAN_STATIC_UNTAGGED = dots [1, 3, 6, 1, 2, 1, 17, 7, 1, 4, 3, 1, 4]"
  "DOT1Q_VLAN_CURRENT_EGRESS = dots [1, 3, 6, 1, 2, 1, 17, 7, 1, 4, 2, 1, 4]"
  "DOT1Q_VLAN_CURRENT_UNTAGGED = dots [1, 3, 6, 1, 2, 1, 17, 7, 1, 4, 2, 1, 5]"
  "DOT1Q_VLAN_STATUS = dots [1, 3, 6, 1, 2, 1, 17, 7, 1, 4, 2, 1, 6]"
  "DOT1Q_PVID = dots [1, 3, 6, 1, 2, 1, 17, 7, 1, 4, 5, 1, 1]"
  "DOT1Q_VLAN_STATIC_ROW_STATUS = dots [1, 3, 6, 1, 2, 1, 17, 7, 1, 4, 3, 1, 5]"
  "FASTPATH_SWITCHPORT_MODE = dots [1, 3, 6, 1, 4, 1, 4526, 10, 1, 2, 8, 37, 1, 2]"
  "FASTPATH_SWITCHPORT_ACCESS_VLAN = dots [1, 3, 6, 1, 4, 1, 4526, 10, 1, 2, 8, 37, 1, 3]"
  "FASTPATH_SWITCHPORT_NATIVE_VLAN = dots [1, 3, 6, 1, 4, 1, 4526, 10, 1, 2, 8, 37, 1, 4]"
  "FASTPATH_SWITCHPORT_ALLOWED_VLANS = dots [1, 3, 6, 1, 4, 1, 4526, 10, 1, 2, 8, 37, 1, 6]"
  "FASTPATH_SWITCHPORT_UNTAGGED_VLANS = dots [1, 3, 6, 1, 4, 1, 4526, 10, 1, 2, 8, 37, 1, 7]"
  "FASTPATH_SWITCHPORT_TAGGED_VLANS = dots [1, 3, 6, 1, 4, 1, 4526, 10, 1, 2, 8, 37, 1, 8]"
  "ENT_PHYSICAL_DESCR = dots [1, 3, 6, 1, 2, 1, 47, 1, 1, 1, 1, 2]"
  "ENT_PHYSICAL_CLASS = dots [1, 3, 6, 1, 2, 1, 47, 1, 1, 1, 1, 5]"
  "ENT_PHYSICAL_NAME = dots [1, 3, 6, 1, 2, 1, 47, 1, 1, 1, 1, 7]"
  "LLDP_REM_TABLE = dots [1, 0, 8802, 1, 1, 2, 1, 4, 1]"
  "PETH_PSE_PORT_TABLE = dots [1, 3, 6, 1, 2, 1, 105, 1, 1, 1]"
  "IP_ADENT_ADDR = dots [1, 3, 6, 1, 2, 1, 4, 20, 1, 1]"
  "IP_ADENT_IFINDEX = dots [1, 3, 6, 1, 2, 1, 4, 20, 1, 2]"
  "IP_ADENT_NETMASK = dots [1, 3, 6, 1, 2, 1, 4, 20, 1, 3]"
  "IP_ADDRESS_IFINDEX = dots [1, 3, 6, 1, 2, 1, 4, 34, 1, 3]"
  "IP_ROUTE_DEST = dots [1, 3, 6, 1, 2, 1, 4, 21, 1, 1]"
  "IP_ROUTE_NEXTHOP = dots [1, 3, 6, 1, 2, 1, 4, 21, 1, 7]"
  "PETH_PSE_PORT_ADMIN = dots [1, 3, 6, 1, 2, 1, 105, 1, 1, 1, 3]"
  "PETH_PSE_PORT_DETECT = dots [1, 3, 6, 1, 2, 1, 105, 1, 1, 1, 6]"
  by (simp_all add: SYS_DESCR_def SYS_OBJECT_ID_def SYS_NAME_def IF_TYPE_def IF_ADMIN_STATUS_def
    IF_OPER_STATUS_def IF_IN_ERRORS_def IF_OUT_ERRORS_def IF_NAME_def IF_HC_IN_OCTETS_def
    IF_HC_IN_UCAST_def IF_HC_OUT_OCTETS_def IF_HC_OUT_UCAST_def IF_HIGH_SPEED_def IF_ALIAS_def
    DOT3_STATS_DUPLEX_STATUS_def DOT3_PAUSE_ADMIN_MODE_def DOT3_PAUSE_OPER_MODE_def
    DOT1D_BASE_BRIDGE_ADDRESS_def DOT1D_BASE_PORT_IF_INDEX_def DOT1Q_TP_FDB_PORT_def
    DOT1Q_VLAN_STATIC_NAME_def DOT1Q_VLAN_STATIC_EGRESS_def DOT1Q_VLAN_STATIC_UNTAGGED_def
    DOT1Q_VLAN_CURRENT_EGRESS_def DOT1Q_VLAN_CURRENT_UNTAGGED_def DOT1Q_VLAN_STATUS_def
    DOT1Q_PVID_def DOT1Q_VLAN_STATIC_ROW_STATUS_def FASTPATH_SWITCHPORT_MODE_def
    FASTPATH_SWITCHPORT_ACCESS_VLAN_def FASTPATH_SWITCHPORT_NATIVE_VLAN_def
    FASTPATH_SWITCHPORT_ALLOWED_VLANS_def FASTPATH_SWITCHPORT_UNTAGGED_VLANS_def
    FASTPATH_SWITCHPORT_TAGGED_VLANS_def ENT_PHYSICAL_DESCR_def ENT_PHYSICAL_CLASS_def
    ENT_PHYSICAL_NAME_def LLDP_REM_TABLE_def PETH_PSE_PORT_TABLE_def IP_ADENT_ADDR_def
    IP_ADENT_IFINDEX_def IP_ADENT_NETMASK_def IP_ADDRESS_IFINDEX_def IP_ROUTE_DEST_def
    IP_ROUTE_NEXTHOP_def PETH_PSE_PORT_ADMIN_def PETH_PSE_PORT_DETECT_def lit_def show_nat.simps)


section \<open>The vendor subtree\<close>

record vendor_oids =
  vo_base :: ustr
  vo_poe_power_mw :: ustr
  vo_box_fan :: ustr
  vo_box_psu_power :: ustr
  vo_box_temp :: ustr
  vo_dhcp_mode_unverified :: ustr
  vo_syslog_admin_mode :: ustr
  vo_syslog_local_port :: ustr
  vo_syslog_host_addr :: ustr
  vo_syslog_host_port :: ustr
  vo_syslog_host_severity :: ustr
  vo_syslog_host_status :: ustr
  vo_mgmt_write_addr_unverified :: ustr
  vo_mgmt_write_netmask_unverified :: ustr
  vo_mgmt_write_gateway_unverified :: ustr

definition has_vendor_oids :: "switch_model \<Rightarrow> bool" where
  "has_vendor_oids m \<longleftrightarrow> m_snmp_vendor_base m \<noteq> None"

definition vendor_oids_of :: "switch_model \<Rightarrow> vendor_oids py" where
  "vendor_oids_of m =
     (case m_snmp_vendor_base m of
        None \<Rightarrow> Inl UnsupportedCapabilityError
      | Some b \<Rightarrow>
          let base = lit b in
          Inr \<lparr>vo_base = base,
               vo_poe_power_mw = base @ lit ''.15.1.1.1.2'',
               vo_box_fan = base @ lit ''.43.1.6.1.4'',
               vo_box_psu_power = base @ lit ''.43.1.8.1.5'',
               vo_box_temp = base @ lit ''.43.1.15.1.3'',
               vo_dhcp_mode_unverified = base @ lit ''.'' @ DHCP_MODE_OID_SUFFIX,
               vo_syslog_admin_mode = base @ lit ''.14.1.4.1.0'',
               vo_syslog_local_port = base @ lit ''.14.1.4.3.0'',
               vo_syslog_host_addr = base @ lit ''.14.1.4.5.1.3'',
               vo_syslog_host_port = base @ lit ''.14.1.4.5.1.4'',
               vo_syslog_host_severity = base @ lit ''.14.1.4.5.1.5'',
               vo_syslog_host_status = base @ lit ''.14.1.4.5.1.7'',
               vo_mgmt_write_addr_unverified = base @ lit ''.98.1'',
               vo_mgmt_write_netmask_unverified = base @ lit ''.98.2'',
               vo_mgmt_write_gateway_unverified = base @ lit ''.98.3''\<rparr>)"

text \<open>\<open>vendor_oids(model) if has_vendor_oids(model) else None\<close>\<close>

definition vendor_opt :: "switch_model \<Rightarrow> vendor_oids option" where
  "vendor_opt m = (if has_vendor_oids m then (case vendor_oids_of m of Inr v \<Rightarrow> Some v | Inl _ \<Rightarrow> None) else None)"

definition unimplemented_roots :: "switch_model \<Rightarrow> ustr list" where
  "unimplemented_roots m =
     (if m_poe_port_count m > 0 then []
      else PETH_PSE_PORT_TABLE #
        (case vendor_opt m of Some v \<Rightarrow> [vo_poe_power_mw v] | None \<Rightarrow> []))"

definition is_oid_implemented :: "switch_model \<Rightarrow> ustr \<Rightarrow> bool" where
  "is_oid_implemented m oid =
     (let dotted_oid = dropWhile (\<lambda>c. c = 46) oid
      in list_all (\<lambda>root. \<not> (dotted_oid = root \<or> suffix_of root dotted_oid \<noteq> None)) (unimplemented_roots m))"

lemma vendor_oids_of_total: "has_vendor_oids m \<Longrightarrow> \<exists>v. vendor_oids_of m = Inr v \<and> vendor_opt m = Some v"
  by (auto simp: has_vendor_oids_def vendor_oids_of_def vendor_opt_def Let_def)

lemma vendor_opt_None [simp]: "vendor_opt m = None \<longleftrightarrow> \<not> has_vendor_oids m"
  by (auto simp: vendor_opt_def has_vendor_oids_def vendor_oids_of_def Let_def split: option.splits)

text \<open>The two vendor bases of the registry, as numbers.\<close>

definition base_nums :: "nat list \<Rightarrow> bool" where
  "base_nums ns \<longleftrightarrow> ns = [1, 3, 6, 1, 4, 1, 4526, 10] \<or> ns = [1, 3, 6, 1, 4, 1, 4526, 11]"

definition vendor_wf :: "switch_model \<Rightarrow> bool" where
  "vendor_wf m \<longleftrightarrow> m_snmp_vendor_base m \<in> {None, Some FM_BASE, Some SMP_BASE}"

lemma lit_base: "lit FM_BASE = dots [1, 3, 6, 1, 4, 1, 4526, 10]" "lit SMP_BASE = dots [1, 3, 6, 1, 4, 1, 4526, 11]"
  by (simp_all add: FM_BASE_def SMP_BASE_def lit_def show_nat.simps)

lemma lit_vendor_suffixes:
  "lit ''.15.1.1.1.2'' = 46 # dots [15, 1, 1, 1, 2]"
  "lit ''.43.1.6.1.4'' = 46 # dots [43, 1, 6, 1, 4]"
  "lit ''.43.1.8.1.5'' = 46 # dots [43, 1, 8, 1, 5]"
  "lit ''.43.1.15.1.3'' = 46 # dots [43, 1, 15, 1, 3]"
  "lit ''.'' @ DHCP_MODE_OID_SUFFIX = 46 # dots [99, 1]"
  "lit ''.14.1.4.1.0'' = 46 # dots [14, 1, 4, 1, 0]"
  "lit ''.14.1.4.3.0'' = 46 # dots [14, 1, 4, 3, 0]"
  "lit ''.14.1.4.5.1.3'' = 46 # dots [14, 1, 4, 5, 1, 3]"
  "lit ''.14.1.4.5.1.4'' = 46 # dots [14, 1, 4, 5, 1, 4]"
  "lit ''.14.1.4.5.1.5'' = 46 # dots [14, 1, 4, 5, 1, 5]"
  "lit ''.14.1.4.5.1.7'' = 46 # dots [14, 1, 4, 5, 1, 7]"
  "lit ''.98.1'' = 46 # dots [98, 1]"
  "lit ''.98.2'' = 46 # dots [98, 2]"
  "lit ''.98.3'' = 46 # dots [98, 3]"
  by (simp_all add: lit_def show_nat.simps DHCP_MODE_OID_SUFFIX_def)

declare dots.simps [simp del]

lemma vendor_opt_dots:
  assumes "vendor_wf m" "vendor_opt m = Some v"
  obtains ns where "base_nums ns" "vo_base v = dots ns"
    "vo_poe_power_mw v = dots (ns @ [15, 1, 1, 1, 2])"
    "vo_box_fan v = dots (ns @ [43, 1, 6, 1, 4])"
    "vo_box_psu_power v = dots (ns @ [43, 1, 8, 1, 5])"
    "vo_box_temp v = dots (ns @ [43, 1, 15, 1, 3])"
    "vo_dhcp_mode_unverified v = dots (ns @ [99, 1])"
    "vo_syslog_admin_mode v = dots (ns @ [14, 1, 4, 1, 0])"
    "vo_syslog_local_port v = dots (ns @ [14, 1, 4, 3, 0])"
    "vo_syslog_host_addr v = dots (ns @ [14, 1, 4, 5, 1, 3])"
    "vo_syslog_host_port v = dots (ns @ [14, 1, 4, 5, 1, 4])"
    "vo_syslog_host_severity v = dots (ns @ [14, 1, 4, 5, 1, 5])"
    "vo_syslog_host_status v = dots (ns @ [14, 1, 4, 5, 1, 7])"
    "vo_mgmt_write_addr_unverified v = dots (ns @ [98, 1])"
    "vo_mgmt_write_netmask_unverified v = dots (ns @ [98, 2])"
    "vo_mgmt_write_gateway_unverified v = dots (ns @ [98, 3])"
proof -
  from assms obtain b where b: "m_snmp_vendor_base m = Some b" "b = FM_BASE \<or> b = SMP_BASE"
    by (auto simp: vendor_wf_def vendor_opt_def has_vendor_oids_def split: if_splits)
  obtain ns where ns: "base_nums ns" "lit b = dots ns" "ns \<noteq> []"
  proof (cases "b = FM_BASE")
    case True
    show ?thesis
      by (rule that [of "[1, 3, 6, 1, 4, 1, 4526, 10]"]) (simp_all add: base_nums_def True lit_base)
  next
    case False
    with b have "b = SMP_BASE" by simp
    show ?thesis
      by (rule that [of "[1, 3, 6, 1, 4, 1, 4526, 11]"])
        (simp_all add: base_nums_def \<open>b = SMP_BASE\<close> lit_base)
  qed
  have v: "vendor_oids_of m = Inr v"
    using assms(2) b by (auto simp: vendor_opt_def has_vendor_oids_def vendor_oids_of_def Let_def)
  have app: "dots ns @ 46 # dots ys = dots (ns @ ys)" if "ys \<noteq> []" for ys
    using dots_append [OF ns(3) that] by simp
  note eqs = v [unfolded vendor_oids_of_def b option.case Let_def ns(2) lit_vendor_suffixes, simplified app
      list.distinct not_False_eq_True, THEN sum.inject(2) [THEN iffD1], symmetric]
  show thesis
    by (rule that [OF ns(1)]) (simp_all only: eqs vendor_oids.select_convs app list.distinct not_False_eq_True)
qed

lemma MODELS_vendor_wf: "get_model k = Inr m \<Longrightarrow> vendor_wf m"
  using get_model_in [of k m] by (auto simp: registered_def model_defs vendor_wf_def)

end
