(* ===== verification/Snmp_Parse.thy ===== *)
theory Snmp_Parse
  imports Snmp_Oids Bitmap
begin

text \<open>
  SNMP rows and the parsers over them (\<open>protocols/snmp/client.py\<close>,
  \<open>protocols/snmp/parse.py\<close>): a walk is a list of rows, a parser reads the
  columns it needs into dictionaries and raises \<open>SnmpError\<close> on a row that is
  present and malformed.
\<close>

section \<open>Rows\<close>

text \<open>A value is \<open>int | str | bytes\<close>; \<open>octets\<close> is the part that is not an integer.\<close>

datatype octets = Raw bytes | Text ustr
datatype snmp_value = VInt int | VOct octets

record snmp_row =
  sr_oid :: ustr
  sr_value :: snmp_value
  sr_type :: ustr

abbreviation mk_row :: "ustr \<Rightarrow> snmp_value \<Rightarrow> ustr \<Rightarrow> snmp_row" where
  "mk_row oid v ty \<equiv> \<lparr>sr_oid = oid, sr_value = v, sr_type = ty\<rparr>"

definition ABSENT_TYPES :: "ustr set" where
  "ABSENT_TYPES = {lit ''NOSUCHOBJECT'', lit ''NOSUCHINSTANCE'', lit ''ENDOFMIBVIEW''}"

definition full_oid :: "ustr \<Rightarrow> ustr \<Rightarrow> ustr" where
  "full_oid oid oid_index =
     (let o1 = dropWhile (\<lambda>c. c = 46) oid in if oid_index \<noteq> [] then o1 @ 46 # oid_index else o1)"

text \<open>\<open>str(value)\<close>; of a \<open>bytes\<close> object it is the literal \<open>b'...'\<close> with its escapes.\<close>

definition repr_byte :: "nat \<Rightarrow> nat \<Rightarrow> ustr" where
  "repr_byte q c =
     (if c = 92 \<or> c = q then [92, c]
      else if c = 9 then [92, 116] else if c = 10 then [92, 110] else if c = 13 then [92, 114]
      else if c < 32 \<or> 127 \<le> c then [92, 120, hex_digit (c div 16), hex_digit (c mod 16)]
      else [c])"

definition bytes_repr :: "bytes \<Rightarrow> ustr" where
  "bytes_repr bs =
     (let cs = map unat bs; q = (if 39 \<in> set cs \<and> 34 \<notin> set cs then 34 else 39)
      in [98, q] @ concat (map (repr_byte q) cs) @ [q])"

fun str_value :: "snmp_value \<Rightarrow> ustr" where
  "str_value (VOct (Raw bs)) = bytes_repr bs"
| "str_value (VOct (Text s)) = s"
| "str_value (VInt n) = show_int n"

section \<open>Python's \<open>int()\<close>\<close>

text \<open>
  White space around, one sign, digits with single underscores between them; on
  \<open>bytes\<close> the same over ASCII. (Digits outside ASCII are not read as digits here.)
\<close>

definition int_of_text :: "ustr \<Rightarrow> int py" where
  "int_of_text s =
     (let t = strip s;
          neg = (t \<noteq> [] \<and> hd t = 45);
          u = (if t \<noteq> [] \<and> (hd t = 45 \<or> hd t = 43) then tl t else t);
          parts = split_on 95 u
      in if list_all isdigit parts
         then Inr (if neg then - dec_val (concat parts) else dec_val (concat parts))
         else Inl ValueError)"

fun value_int :: "snmp_value \<Rightarrow> int py" where
  "value_int (VInt n) = Inr n"
| "value_int (VOct (Text s)) = int_of_text s"
| "value_int (VOct (Raw bs)) =
     (if list_all (\<lambda>b. unat b < 128) bs then int_of_text (map unat bs) else Inl ValueError)"

text \<open>What follows is what the round trip through \<open>str(n)\<close> needs.\<close>

lemma digits_no: "list_all is_digit s \<Longrightarrow> 95 \<notin> set s \<and> list_all (\<lambda>c. \<not> is_space c) s"
  by (force simp: list_all_iff is_digit_def is_space_def)

lemma dropWhile_none: "list_all (\<lambda>c. \<not> P c) s \<Longrightarrow> dropWhile P s = s"
  by (cases s) auto

lemma strip_none: "list_all (\<lambda>c. \<not> is_space c) s \<Longrightarrow> strip s = s"
  by (simp add: strip_def dropWhile_none list_all_rev)

lemma show_nat_list_all: "list_all is_digit (show_nat n)"
  using show_nat_digits by (auto simp: list_all_iff)

lemma hd_show_nat: "is_digit (hd (show_nat n))"
  using show_nat_digits [of "hd (show_nat n)" n] by simp

lemma int_of_text_digits:
  assumes "isdigit s"
  shows "int_of_text s = Inr (dec_val s)"
proof -
  have s: "list_all is_digit s" "s \<noteq> []" using assms by (auto simp: isdigit_def)
  note d = digits_no [OF s(1)]
  have "is_digit (hd s)" using s by (auto simp: list_all_iff)
  then have "hd s \<noteq> 45" "hd s \<noteq> 43" by (auto simp: is_digit_def)
  then show ?thesis
    using d assms by (simp add: int_of_text_def strip_none split_on_single Let_def)
qed

lemma int_of_text_show_int [simp]: "int_of_text (show_int n) = Inr n"
proof (cases "n < 0")
  case False
  then show ?thesis by (simp add: show_int_def int_of_text_digits)
next
  case True
  let ?d = "show_nat (nat (- n))"
  note d = digits_no [OF show_nat_list_all, of "nat (- n)"]
  have "strip (45 # ?d) = 45 # ?d"
    using d by (intro strip_none) (simp add: is_space_def)
  then show ?thesis
    using True d by (simp add: show_int_def int_of_text_def split_on_single Let_def)
qed

lemma value_int_raises: "value_int v = Inl e \<Longrightarrow> e = ValueError"
  by (induction v rule: value_int.induct) (auto simp: int_of_text_def Let_def split: if_splits)

section \<open>Columns\<close>

fun index_int_loop :: "ustr \<Rightarrow> snmp_row list \<Rightarrow> (int, int) dict \<Rightarrow> (int, int) dict py" where
  "index_int_loop base [] out = Inr out"
| "index_int_loop base (row # rows) out =
     (case suffix_of base (sr_oid row) of
        None \<Rightarrow> index_int_loop base rows out
      | Some suffix \<Rightarrow>
          if 46 \<in> set suffix then index_int_loop base rows out
          else (case int_of_text suffix of
                  Inl _ \<Rightarrow> Inl (SnmpError SnmpBadIndex)
                | Inr idx \<Rightarrow>
                    (case value_int (sr_value row) of
                       Inl _ \<Rightarrow> Inl (SnmpError SnmpBadValue)
                     | Inr v \<Rightarrow> index_int_loop base rows (dict_set idx v out))))"

definition index_int_column :: "snmp_row list \<Rightarrow> ustr \<Rightarrow> (int, int) dict py" where
  "index_int_column rows base = index_int_loop base rows []"

fun index_str_loop :: "ustr \<Rightarrow> snmp_row list \<Rightarrow> (int, ustr) dict \<Rightarrow> (int, ustr) dict py" where
  "index_str_loop base [] out = Inr out"
| "index_str_loop base (row # rows) out =
     (case suffix_of base (sr_oid row) of
        None \<Rightarrow> index_str_loop base rows out
      | Some suffix \<Rightarrow>
          if 46 \<in> set suffix then index_str_loop base rows out
          else (case int_of_text suffix of
                  Inl _ \<Rightarrow> Inl (SnmpError SnmpBadIndex)
                | Inr idx \<Rightarrow>
                    (case sr_value row of
                       VOct (Raw bs) \<Rightarrow> index_str_loop base rows (dict_set idx (utf8_decode_replace bs) out)
                     | VOct (Text s) \<Rightarrow> index_str_loop base rows (dict_set idx s out)
                     | VInt _ \<Rightarrow> Inl (SnmpError SnmpBadValue))))"

definition index_str_column :: "snmp_row list \<Rightarrow> ustr \<Rightarrow> (int, ustr) dict py" where
  "index_str_column rows base = index_str_loop base rows []"

definition ETHERNET_CSMACD :: int where
  "ETHERNET_CSMACD = 6"

definition physical_ports :: "snmp_row list \<Rightarrow> int set option py" where
  "physical_ports if_types =
     res_bind (index_int_column if_types IF_TYPE) (\<lambda>type_map.
       Inr (if type_map = [] then None
            else Some {idx \<in> set (map fst type_map). dict_get type_map idx = Some ETHERNET_CSMACD}))"

section \<open>VLANs\<close>

definition latin1_encode :: "ustr \<Rightarrow> bytes py" where
  "latin1_encode s = (if list_all (\<lambda>c. c < 256) s then Inr (map of_nat s) else Inl UnicodeEncodeError)"

definition latin1_decode :: "bytes \<Rightarrow> ustr" where
  "latin1_decode bs = map unat bs"

fun decode_port_bitmap :: "octets \<Rightarrow> int set py" where
  "decode_port_bitmap (Raw bs) = Inr (set (bitmap_ports bs))"
| "decode_port_bitmap (Text s) =
     (case latin1_encode s of
        Inr bs \<Rightarrow> Inr (set (bitmap_ports bs))
      | Inl _ \<Rightarrow> Inl (SnmpError SnmpBadBitmap))"

fun vlan_bitmap_loop :: "ustr \<Rightarrow> snmp_row list \<Rightarrow> (int, octets) dict \<Rightarrow> (int, octets) dict py" where
  "vlan_bitmap_loop base [] out = Inr out"
| "vlan_bitmap_loop base (row # rows) out =
     (case suffix_of base (sr_oid row) of
        None \<Rightarrow> vlan_bitmap_loop base rows out
      | Some s \<Rightarrow>
          if \<not> isdigit s then Inl (SnmpError SnmpBadIndex)
          else (case sr_value row of
                  VInt _ \<Rightarrow> Inl (SnmpError SnmpBadBitmap)
                | VOct b \<Rightarrow> vlan_bitmap_loop base rows (dict_set (dec_val s) b out)))"

definition vlan_bitmap_map :: "snmp_row list \<Rightarrow> ustr \<Rightarrow> (int, octets) dict py" where
  "vlan_bitmap_map rows base = vlan_bitmap_loop base rows []"

fun current_vlan_bitmap_loop :: "ustr \<Rightarrow> snmp_row list \<Rightarrow> (int, octets) dict \<Rightarrow> (int, octets) dict py" where
  "current_vlan_bitmap_loop base [] out = Inr out"
| "current_vlan_bitmap_loop base (row # rows) out =
     (case suffix_of base (sr_oid row) of
        None \<Rightarrow> current_vlan_bitmap_loop base rows out
      | Some s \<Rightarrow>
          let parts = split_on 46 s in
          if length parts \<noteq> 2 \<or> \<not> list_all isdigit parts then Inl (SnmpError SnmpBadIndex)
          else (case sr_value row of
                  VInt _ \<Rightarrow> Inl (SnmpError SnmpBadBitmap)
                | VOct b \<Rightarrow> current_vlan_bitmap_loop base rows (dict_set (dec_val (parts ! 1)) b out)))"

definition current_vlan_bitmap_map :: "snmp_row list \<Rightarrow> ustr \<Rightarrow> (int, octets) dict py" where
  "current_vlan_bitmap_map rows base = current_vlan_bitmap_loop base rows []"

definition dict_keys :: "('k, 'v) dict \<Rightarrow> 'k set" where
  "dict_keys d = set (map fst d)"

definition get_or :: "'v \<Rightarrow> ('k, 'v) dict \<Rightarrow> 'k \<Rightarrow> 'v" where
  "get_or x d k = (case dict_get d k of Some v \<Rightarrow> v | None \<Rightarrow> x)"

definition opt_or_none :: "ustr option \<Rightarrow> ustr option" where
  "opt_or_none s = (if s = Some [] then None else s)"

definition ports_of :: "int set option \<Rightarrow> octets \<Rightarrow> int set py" where
  "ports_of physical bitmap =
     res_bind (decode_port_bitmap bitmap) (\<lambda>decoded.
       Inr (case physical of None \<Rightarrow> decoded | Some keep \<Rightarrow> decoded \<inter> keep))"

definition parse_vlans ::
    "snmp_row list \<Rightarrow> snmp_row list \<Rightarrow> snmp_row list \<Rightarrow> snmp_row list \<Rightarrow> snmp_row list \<Rightarrow> snmp_row list
      \<Rightarrow> vlan_info list py" where
  "parse_vlans names egress untagged if_types current_egress current_untagged =
     res_bind (physical_ports if_types) (\<lambda>physical.
     res_bind (index_str_column names DOT1Q_VLAN_STATIC_NAME) (\<lambda>name_map.
     res_bind (vlan_bitmap_map egress DOT1Q_VLAN_STATIC_EGRESS) (\<lambda>egress_map.
     res_bind (vlan_bitmap_map untagged DOT1Q_VLAN_STATIC_UNTAGGED) (\<lambda>untag_map.
     res_bind (current_vlan_bitmap_map current_egress DOT1Q_VLAN_CURRENT_EGRESS) (\<lambda>cur_egress_map.
     res_bind (current_vlan_bitmap_map current_untagged DOT1Q_VLAN_CURRENT_UNTAGGED) (\<lambda>cur_untag_map.
       res_map (\<lambda>vid.
          let static_row = (vid \<in> dict_keys name_map) in
          res_bind (ports_of physical (if static_row then get_or (Text []) egress_map vid
                                       else get_or (Text []) cur_egress_map vid)) (\<lambda>member.
          res_bind (ports_of physical (if static_row then get_or (Text []) untag_map vid
                                       else get_or (Text []) cur_untag_map vid)) (\<lambda>untag.
            Inr \<lparr>vi_vlan_id = vid, vi_name = opt_or_none (dict_get name_map vid),
                 vi_member_ports = member, vi_tagged_ports = member - untag,
                 vi_untagged_ports = untag\<rparr>)))
         (sorted_list_of_set (dict_keys name_map \<union> dict_keys cur_egress_map))))))))"

definition parse_pvids :: "snmp_row list \<Rightarrow> snmp_row list \<Rightarrow> (int \<times> int) list py" where
  "parse_pvids rows if_types =
     res_bind (index_int_column rows DOT1Q_PVID) (\<lambda>pvids.
     res_bind (physical_ports if_types) (\<lambda>physical.
       Inr (case physical of
              None \<Rightarrow> sorted_items pvids
            | Some keep \<Rightarrow> sorted_items (filter (\<lambda>(bp, v). bp \<in> keep) pvids))))"

end
