(* ===== verification/Snmp_Write.thy ===== *)
theory Snmp_Write
  imports Snmp_Parse
begin

text \<open>
  What a SET carries and the read-modify-write of the Q-BRIDGE bitmaps
  (\<open>protocols/snmp/write.py\<close>), and the 512-byte VLAN bitmaps of the switchport
  table (the helpers at the head of \<open>snmp_write.py\<close>): changing one port or one
  VLAN leaves every other bit, and the width, alone.
\<close>

section \<open>Variable bindings\<close>

definition SET_TYPE_LETTERS :: "string set" where
  "SET_TYPE_LETTERS = {''i'', ''u'', ''s'', ''x'', ''a''}"

record set_varbind =
  sv_oid :: ustr
  sv_value :: snmp_value
  sv_letter :: string

text \<open>The dataclass constructor, with the check of \<open>__post_init__\<close>.\<close>

definition mk_set_varbind :: "ustr \<Rightarrow> snmp_value \<Rightarrow> string \<Rightarrow> set_varbind py" where
  "mk_set_varbind oid v letter =
     (if letter \<notin> SET_TYPE_LETTERS then Inl ValueError
      else Inr \<lparr>sv_oid = oid, sv_value = v, sv_letter = letter\<rparr>)"

abbreviation varbind :: "ustr \<Rightarrow> snmp_value \<Rightarrow> string \<Rightarrow> set_varbind" where
  "varbind oid v letter \<equiv> \<lparr>sv_oid = oid, sv_value = v, sv_letter = letter\<rparr>"

text \<open>The letters the code writes pass the check, so its constructor calls are \<open>varbind\<close>.\<close>

lemma mk_set_varbind_known [simp]:
  "mk_set_varbind oid v ''i'' = Inr (varbind oid v ''i'')"
  "mk_set_varbind oid v ''u'' = Inr (varbind oid v ''u'')"
  "mk_set_varbind oid v ''s'' = Inr (varbind oid v ''s'')"
  "mk_set_varbind oid v ''x'' = Inr (varbind oid v ''x'')"
  "mk_set_varbind oid v ''a'' = Inr (varbind oid v ''a'')"
  by (simp_all add: mk_set_varbind_def SET_TYPE_LETTERS_def)

definition POE_ADMIN_COLUMN :: ustr where
  "POE_ADMIN_COLUMN = PETH_PSE_PORT_TABLE @ lit ''.3.1''"

definition poe_admin_oid :: "int \<Rightarrow> ustr" where
  "poe_admin_oid port = col POE_ADMIN_COLUMN port"

section \<open>Port bitmaps\<close>

definition encode_port_bitmap :: "int set \<Rightarrow> nat \<Rightarrow> bytes py" where
  "encode_port_bitmap ports width_bytes = set_ports (replicate width_bytes 0) (sorted_list_of_set ports)"

fun octets_width :: "octets \<Rightarrow> nat py" where
  "octets_width (Raw bs) = Inr (length bs)"
| "octets_width (Text s) = res_bind (latin1_encode s) (\<lambda>bs. Inr (length bs))"

definition set_port_bit :: "octets \<Rightarrow> int \<Rightarrow> bool \<Rightarrow> nat option \<Rightarrow> bytes py" where
  "set_port_bit current port present width_bytes =
     res_bind (octets_width current) (\<lambda>current_width.
     res_bind (decode_port_bitmap current) (\<lambda>ports.
       let ports' = (if present then insert port ports else ports - {port});
           target_width = max 8 (max current_width (case width_bytes of Some w \<Rightarrow> w | None \<Rightarrow> 0))
       in encode_port_bitmap ports' target_width))"

definition membership_bitmaps ::
    "vlan_mode \<Rightarrow> int \<Rightarrow> octets \<Rightarrow> octets \<Rightarrow> nat option \<Rightarrow> (bytes \<times> bytes) py" where
  "membership_bitmaps mode port egress untagged width_bytes =
     (let in_egress = (mode = VlanUntagged \<or> mode = VlanTagged);
          in_untagged = (mode = VlanUntagged)
      in res_bind (set_port_bit egress port in_egress width_bytes) (\<lambda>e.
         res_bind (set_port_bit untagged port in_untagged width_bytes) (\<lambda>u. Inr (e, u))))"

definition vlan_bitmap_width :: "switch_model \<Rightarrow> nat" where
  "vlan_bitmap_width m = max 8 (nat ((m_port_count m + 7) div 8))"

lemma encode_port_bitmap_ok:
  assumes "finite S" "\<forall>p \<in> S. 1 \<le> p"
  shows "\<exists>bs. encode_port_bitmap S w = Inr bs \<and> set (bitmap_ports bs) = S \<and> w \<le> length bs"
  using msb.rmw [OF assms, of w] by (auto simp: encode_port_bitmap_def)

text \<open>The octets, wherever they came from, and the ports they name.\<close>

definition octets_of :: "octets \<Rightarrow> bytes" where
  "octets_of b = (case b of Raw bs \<Rightarrow> bs | Text s \<Rightarrow> map of_nat s)"

definition octets_ok :: "octets \<Rightarrow> bool" where
  "octets_ok b \<longleftrightarrow> (case b of Raw bs \<Rightarrow> True | Text s \<Rightarrow> list_all (\<lambda>c. c < 256) s)"

lemma decode_octets: "octets_ok b \<Longrightarrow> decode_port_bitmap b = Inr (set (bitmap_ports (octets_of b)))"
  by (cases b) (auto simp: octets_ok_def octets_of_def latin1_encode_def)

lemma decode_not_ok: "\<not> octets_ok b \<Longrightarrow> decode_port_bitmap b = Inl (SnmpError SnmpBadBitmap)"
  by (cases b) (auto simp: octets_ok_def latin1_encode_def)

lemma width_octets: "octets_ok b \<Longrightarrow> octets_width b = Inr (length (octets_of b))"
  by (cases b) (auto simp: octets_ok_def octets_of_def latin1_encode_def)

text \<open>
  Read-modify-write of one port: every other port keeps its membership, and the
  result is at least as wide as what was read.
\<close>

lemma set_port_bit_ok:
  assumes "octets_ok b" "1 \<le> port"
  shows "\<exists>bs. set_port_bit b port present w = Inr bs \<and>
    set (bitmap_ports bs) = (if present then insert port (set (bitmap_ports (octets_of b)))
                              else set (bitmap_ports (octets_of b)) - {port}) \<and>
    length (octets_of b) \<le> length bs"
proof -
  let ?P = "set (bitmap_ports (octets_of b))"
  let ?S = "if present then insert port ?P else ?P - {port}"
  let ?W = "max 8 (max (length (octets_of b)) (case w of Some w \<Rightarrow> w | None \<Rightarrow> 0))"
  have "\<forall>p \<in> ?S. 1 \<le> p" using assms(2) msb.dec_range by auto
  moreover have "finite ?S" by simp
  ultimately obtain bs where bs: "encode_port_bitmap ?S ?W = Inr bs" "set (bitmap_ports bs) = ?S" "?W \<le> length bs"
    using encode_port_bitmap_ok by blast
  have "set_port_bit b port present w = encode_port_bitmap ?S ?W"
    using assms(1) by (simp add: set_port_bit_def width_octets decode_octets Let_def)
  with bs(1) have "set_port_bit b port present w = Inr bs" by (simp only:)
  moreover have "length (octets_of b) \<le> length bs"
    using bs(3) by (rule le_trans [rotated]) simp
  ultimately show ?thesis using bs(2) by blast
qed

lemma membership_bitmaps_ok:
  assumes "octets_ok e" "octets_ok u" "1 \<le> port"
  shows "\<exists>e' u'. membership_bitmaps mode port e u w = Inr (e', u') \<and>
    set (bitmap_ports e') = (if mode = VlanExcluded then set (bitmap_ports (octets_of e)) - {port}
                              else insert port (set (bitmap_ports (octets_of e)))) \<and>
    set (bitmap_ports u') = (if mode = VlanUntagged then insert port (set (bitmap_ports (octets_of u)))
                              else set (bitmap_ports (octets_of u)) - {port}) \<and>
    length (octets_of e) \<le> length e' \<and> length (octets_of u) \<le> length u'"
proof -
  obtain e' where "set_port_bit e port (mode = VlanUntagged \<or> mode = VlanTagged) w = Inr e'"
    "set (bitmap_ports e') = (if mode = VlanUntagged \<or> mode = VlanTagged
        then insert port (set (bitmap_ports (octets_of e))) else set (bitmap_ports (octets_of e)) - {port})"
    "length (octets_of e) \<le> length e'"
    using set_port_bit_ok [OF assms(1,3)] by metis
  moreover obtain u' where "set_port_bit u port (mode = VlanUntagged) w = Inr u'"
    "set (bitmap_ports u') = (if mode = VlanUntagged
        then insert port (set (bitmap_ports (octets_of u))) else set (bitmap_ports (octets_of u)) - {port})"
    "length (octets_of u) \<le> length u'"
    using set_port_bit_ok [OF assms(2,3)] by metis
  ultimately show ?thesis by (cases mode) (simp_all add: membership_bitmaps_def)
qed

section \<open>VLAN bitmaps\<close>

text \<open>
  \<open>data[(vlan - 1) // 8] |= mask\<close> on a buffer that does not grow: an index past
  the end is \<open>IndexError\<close>, a negative one counts from the end.
\<close>

definition bit_index :: "bytes \<Rightarrow> int \<Rightarrow> nat py" where
  "bit_index data vlan =
     (let j = (vlan - 1) div 8; i = (if j < 0 then int (length data) + j else j)
      in if i < 0 \<or> int (length data) \<le> i then Inl IndexError else Inr (nat i))"

definition set_vlan_bit :: "bytes \<Rightarrow> int \<Rightarrow> bytes py" where
  "set_vlan_bit data vlan =
     res_bind (bit_index data vlan) (\<lambda>i.
       Inr (data[i := (data ! i) OR bit_mask (nat ((vlan - 1) mod 8))]))"

definition clear_vlan_bit :: "bytes \<Rightarrow> int \<Rightarrow> bytes py" where
  "clear_vlan_bit data vlan =
     res_bind (bit_index data vlan) (\<lambda>i.
       Inr (data[i := (data ! i) AND NOT (bit_mask (nat ((vlan - 1) mod 8)))]))"

fun res_fold :: "('s \<Rightarrow> 'a \<Rightarrow> ('e, 's) res) \<Rightarrow> 's \<Rightarrow> 'a list \<Rightarrow> ('e, 's) res" where
  "res_fold f s [] = Inr s"
| "res_fold f s (x # xs) = res_bind (f s x) (\<lambda>s'. res_fold f s' xs)"

definition vlan_bitmap :: "int set \<Rightarrow> bytes py" where
  "vlan_bitmap vlans =
     res_fold set_vlan_bit (replicate SWITCHPORT_VLAN_BITMAP_BYTES 0) (sorted_list_of_set vlans)"

definition decode_vlan_bitmap :: "bytes \<Rightarrow> int set" where
  "decode_vlan_bitmap bitmap = set (bitmap_ports bitmap)"

definition edit_vlan_bits :: "bytes \<Rightarrow> int set \<Rightarrow> int set \<Rightarrow> bytes py" where
  "edit_vlan_bits bitmap add remove =
     (let highest = (if add \<union> remove = {} then 1 else Max (add \<union> remove));
          need = max ((highest - 1) div 8 + 1) (int SWITCHPORT_VLAN_BITMAP_BYTES);
          data = (if int (length bitmap) < need
                  then bitmap @ replicate (nat (need - int (length bitmap))) 0 else bitmap)
      in res_bind (res_fold set_vlan_bit data (sorted_list_of_set add)) (\<lambda>data'.
           res_fold clear_vlan_bit data' (sorted_list_of_set remove)))"

lemma bit_index_ok:
  "1 \<le> v \<Longrightarrow> v \<le> 8 * int (length data) \<Longrightarrow> bit_index data v = Inr (port_byte v)"
  by (auto simp: bit_index_def Let_def port_byte_def pos_imp_zdiv_nonneg_iff)

lemma set_vlan_bit_ok:
  assumes "1 \<le> v" "v \<le> 8 * int (length data)"
  shows "\<exists>d. set_vlan_bit data v = Inr d \<and> length d = length data
    \<and> (\<forall>q. has_port d q \<longleftrightarrow> q = v \<or> has_port data q)"
proof -
  have lt: "port_byte v < length data" "(v - 1) div 8 = int (port_byte v)"
    using assms by (auto simp: port_byte_def pos_imp_zdiv_nonneg_iff)
  have "set_vlan_bit data v = set_port data v"
    using lt assms by (simp add: set_vlan_bit_def bit_index_ok set_port_def grow_to_eq Let_def)
  with set_port_ok [OF assms(1), of data] lt show ?thesis by auto
qed

lemma bit_mask_bit: "k < 8 \<Longrightarrow> bit (bit_mask k) n \<longleftrightarrow> n = 7 - k"
  using bit_or_mask [of k 0 n] by simp

lemma clear_vlan_bit_ok:
  assumes v: "1 \<le> v" "v \<le> 8 * int (length data)"
  shows "\<exists>d. clear_vlan_bit data v = Inr d \<and> length d = length data
    \<and> (\<forall>q. has_port d q \<longleftrightarrow> q \<noteq> v \<and> has_port data q)"
proof -
  let ?i = "port_byte v" and ?k = "nat ((v - 1) mod 8)"
  let ?d = "data[?i := (data ! ?i) AND NOT (bit_mask ?k)]"
  have i: "?i < length data" using assms by (auto simp: port_byte_def)
  have k: "?k < 8" by simp
  have "has_port ?d q \<longleftrightarrow> q \<noteq> v \<and> has_port data q" for q
  proof (cases "port_byte q = ?i")
    case False
    then show ?thesis by (auto simp: has_port_def)
  next
    case True
    have inj: "1 \<le> q \<Longrightarrow> port_bit q = 7 - ?k \<Longrightarrow> q = v"
      using port_pos_inject [OF v(1) _ True] by (simp add: port_bit_def)
    have "port_bit q < 8" by (simp add: port_bit_def)
    then have "bit (?d ! ?i) (port_bit q) \<longleftrightarrow> bit (data ! ?i) (port_bit q) \<and> port_bit q \<noteq> 7 - ?k"
      using i k by (simp add: bit_and_iff bit_not_iff possible_bit_word bit_mask_bit)
    moreover have "port_bit v = 7 - ?k" by (simp add: port_bit_def)
    ultimately show ?thesis
      using True i inj v by (auto simp: has_port_def)
  qed
  with i v show ?thesis by (simp add: clear_vlan_bit_def bit_index_ok)
qed

lemma res_fold_set_bits:
  "\<forall>v \<in> set vs. 1 \<le> v \<and> v \<le> 8 * int (length data) \<Longrightarrow>
   \<exists>d. res_fold set_vlan_bit data vs = Inr d \<and> length d = length data
     \<and> (\<forall>q. has_port d q \<longleftrightarrow> q \<in> set vs \<or> has_port data q)"
proof (induction vs arbitrary: data)
  case (Cons v vs)
  obtain d where "set_vlan_bit data v = Inr d" "length d = length data"
    "\<And>q. has_port d q \<longleftrightarrow> q = v \<or> has_port data q"
    using set_vlan_bit_ok [of v data] Cons.prems by auto
  with Cons.IH [of d] Cons.prems show ?case by auto
qed simp

lemma res_fold_clear_bits:
  "\<forall>v \<in> set vs. 1 \<le> v \<and> v \<le> 8 * int (length data) \<Longrightarrow>
   \<exists>d. res_fold clear_vlan_bit data vs = Inr d \<and> length d = length data
     \<and> (\<forall>q. has_port d q \<longleftrightarrow> q \<notin> set vs \<and> has_port data q)"
proof (induction vs arbitrary: data)
  case (Cons v vs)
  obtain d where "clear_vlan_bit data v = Inr d" "length d = length data"
    "\<And>q. has_port d q \<longleftrightarrow> q \<noteq> v \<and> has_port data q"
    using clear_vlan_bit_ok [of v data] Cons.prems by auto
  with Cons.IH [of d] Cons.prems show ?case by auto
qed simp

lemma vlan_bitmap_ok:
  assumes "finite S" "\<forall>v \<in> S. 1 \<le> v \<and> v \<le> 4096"
  shows "\<exists>bs. vlan_bitmap S = Inr bs \<and> length bs = 512 \<and> decode_vlan_bitmap bs = S"
proof -
  have "\<forall>v \<in> set (sorted_list_of_set S). 1 \<le> v \<and> v \<le> 8 * int (length (replicate 512 (0 :: byte)))"
    using assms by simp
  from res_fold_set_bits [OF this] assms(1) show ?thesis
    by (auto simp: vlan_bitmap_def decode_vlan_bitmap_def int_consts bitmap_ports_mem)
qed

lemma edit_vlan_bits_ok:
  assumes "finite A" "finite R" "\<forall>v \<in> A \<union> R. 1 \<le> v"
  shows "\<exists>bs. edit_vlan_bits b A R = Inr bs \<and> decode_vlan_bitmap bs = decode_vlan_bitmap b \<union> A - R
    \<and> length b \<le> length bs"
proof -
  define need where "need = max (((if A \<union> R = {} then 1 else Max (A \<union> R)) - 1) div 8 + 1) (int 512)"
  define data where "data = (if int (length b) < need
      then b @ replicate (nat (need - int (length b))) 0 else b)"
  have ge: "need \<le> int (length data)" "length b \<le> length data" by (auto simp: data_def)
  have range: "1 \<le> v \<and> v \<le> 8 * int (length data)" if "v \<in> A \<union> R" for v
  proof -
    have "v \<le> Max (A \<union> R)" "A \<union> R \<noteq> {}" using that assms by auto
    then have "(v - 1) div 8 \<le> (Max (A \<union> R) - 1) div 8" by (intro zdiv_mono1) auto
    moreover have "need = max ((Max (A \<union> R) - 1) div 8 + 1) (int 512)"
      using \<open>A \<union> R \<noteq> {}\<close> by (simp only: need_def if_False)
    ultimately have "(v - 1) div 8 + 1 \<le> need" by linarith
    with ge have "(v - 1) div 8 + 1 \<le> int (length data)" by linarith
    then show ?thesis using assms that by force
  qed
  have same: "has_port data q \<longleftrightarrow> has_port b q" for q
    by (auto simp: data_def has_port_def nth_append)
  obtain d where d: "res_fold set_vlan_bit data (sorted_list_of_set A) = Inr d" "length d = length data"
    "\<And>q. has_port d q \<longleftrightarrow> q \<in> A \<or> has_port data q"
    using res_fold_set_bits [of "sorted_list_of_set A" data] range assms by auto
  obtain d' where "res_fold clear_vlan_bit d (sorted_list_of_set R) = Inr d'" "length d' = length d"
    "\<And>q. has_port d' q \<longleftrightarrow> q \<notin> R \<and> has_port d q"
    using res_fold_clear_bits [of "sorted_list_of_set R" d] range assms d(2) by auto
  moreover have "edit_vlan_bits b A R =
      res_bind (res_fold set_vlan_bit data (sorted_list_of_set A))
        (\<lambda>d. res_fold clear_vlan_bit d (sorted_list_of_set R))"
    by (simp add: edit_vlan_bits_def Let_def need_def data_def int_consts)
  ultimately show ?thesis
    using d same ge by (auto simp: decode_vlan_bitmap_def bitmap_ports_mem)
qed

end
