(* ===== verification/Snmp_Plan.thy ===== *)
theory Snmp_Plan
  imports Snmp_Write
begin

text \<open>
  Planning a VLAN membership change on the FASTPATH switchport table
  (\<open>_port_membership\<close>, \<open>_plan_switchport_membership\<close> and
  \<open>_switchport_divergence\<close> of \<open>snmp_write.py\<close>), against the abstract
  specification of the change: which VLANs the port is to be tagged and untagged
  in afterwards.
\<close>

section \<open>The code\<close>

definition DEFAULT_VLAN :: int where
  "DEFAULT_VLAN = 1"

definition port_membership :: "vlan_info list \<Rightarrow> int \<Rightarrow> int set \<times> int set" where
  "port_membership vlans port =
     ({vi_vlan_id v | v. v \<in> set vlans \<and> port \<in> vi_tagged_ports v},
      {vi_vlan_id v | v. v \<in> set vlans \<and> port \<in> vi_untagged_ports v})"

record switchport_plan =
  sp_untagged_vlan :: int
  sp_tagged_vlans :: "int set"
  sp_varbinds :: "set_varbind list"

definition want_tagged :: "vlan_mode \<Rightarrow> int \<Rightarrow> int set \<Rightarrow> int set" where
  "want_tagged mode vlan current_tagged =
     (if mode = VlanTagged then insert vlan current_tagged else current_tagged - {vlan})"

definition want_untagged :: "vlan_mode \<Rightarrow> int \<Rightarrow> int set \<Rightarrow> int set" where
  "want_untagged mode vlan current_untagged =
     (if mode = VlanTagged then current_untagged - {vlan}
      else if mode = VlanUntagged then {vlan}
      else current_untagged - {vlan})"

definition plan_switchport_membership ::
    "int \<Rightarrow> int \<Rightarrow> vlan_mode \<Rightarrow> int option \<Rightarrow> bytes \<Rightarrow> int set \<Rightarrow> int set \<Rightarrow> int set \<Rightarrow> switchport_plan py" where
  "plan_switchport_membership vlan port mode current_mode current_allowed current_tagged
       current_untagged existing_vlans =
     (let wt = want_tagged mode vlan current_tagged;
          wu = want_untagged mode vlan current_untagged
      in if card wu > 1 then Inl UnsupportedCapabilityError
         else if wu = {} \<and> DEFAULT_VLAN \<in> wt then Inl UnsupportedCapabilityError
         else
           let untagged_vlan = (if wu \<noteq> {} then the_elem wu else DEFAULT_VLAN)
           in if wt \<noteq> {} then
                res_bind
                  (if current_mode = Some SWITCHPORT_MODE_TRUNK
                   then edit_vlan_bits current_allowed (insert untagged_vlan wt)
                          (existing_vlans - wt - {untagged_vlan})
                   else vlan_bitmap (insert untagged_vlan wt)) (\<lambda>allowed.
                Inr \<lparr>sp_untagged_vlan = untagged_vlan, sp_tagged_vlans = wt,
                     sp_varbinds =
                       [varbind (col FASTPATH_SWITCHPORT_ALLOWED_VLANS port) (VOct (Raw allowed)) ''x'',
                        varbind (col FASTPATH_SWITCHPORT_NATIVE_VLAN port) (VInt untagged_vlan) ''u'',
                        varbind (col FASTPATH_SWITCHPORT_MODE port) (VInt SWITCHPORT_MODE_TRUNK) ''i'']\<rparr>)
              else
                Inr \<lparr>sp_untagged_vlan = untagged_vlan, sp_tagged_vlans = wt,
                     sp_varbinds =
                       [varbind (col FASTPATH_SWITCHPORT_ACCESS_VLAN port) (VInt untagged_vlan) ''u'',
                        varbind (col FASTPATH_SWITCHPORT_MODE port) (VInt SWITCHPORT_MODE_ACCESS) ''i'']\<rparr>)"

text \<open>\<open>None\<close> when the read-back agrees with the plan, otherwise which check failed.\<close>

datatype divergence = VlanDisappeared | UntaggedDiffers | TaggedDiffers

definition switchport_divergence ::
    "switchport_plan \<Rightarrow> int \<Rightarrow> int \<Rightarrow> vlan_info list \<Rightarrow> divergence option" where
  "switchport_divergence plan vlan port after =
     (if \<not> (\<exists>v \<in> set after. vi_vlan_id v = vlan) then Some VlanDisappeared
      else
        let (got_tagged, got_untagged) = port_membership after port
        in if got_untagged \<noteq> {sp_untagged_vlan plan} then Some UntaggedDiffers
           else if got_tagged \<noteq> sp_tagged_vlans plan then Some TaggedDiffers
           else None)"

section \<open>What is asked for\<close>

text \<open>
  The specification, VLAN by VLAN and apart from the code's set operations. A port's
  membership is the pair of the VLANs it is tagged and untagged in; in each VLAN it has
  one role. A request gives it the role asked for in one VLAN and leaves its role in every
  other, but that a port made untagged in one VLAN leaves the VLAN it was untagged in;
  a port left untagged nowhere falls back to the default VLAN.
\<close>

type_synonym membership = "int set \<times> int set"

datatype port_role = AsTagged | AsUntagged | NoMember

definition role_in :: "membership \<Rightarrow> int \<Rightarrow> port_role" where
  "role_in m v = (if v \<in> fst m then AsTagged else if v \<in> snd m then AsUntagged else NoMember)"

fun asked_role :: "vlan_mode \<Rightarrow> port_role" where
  "asked_role VlanTagged = AsTagged"
| "asked_role VlanUntagged = AsUntagged"
| "asked_role VlanExcluded = NoMember"

definition requested_role :: "vlan_mode \<Rightarrow> int \<Rightarrow> membership \<Rightarrow> int \<Rightarrow> port_role" where
  "requested_role mode vlan m v =
     (if v = vlan then asked_role mode
      else if asked_role mode = AsUntagged \<and> role_in m v = AsUntagged then NoMember
      else role_in m v)"

definition request :: "vlan_mode \<Rightarrow> int \<Rightarrow> membership \<Rightarrow> membership" where
  "request mode vlan m =
     ({v. requested_role mode vlan m v = AsTagged}, {v. requested_role mode vlan m v = AsUntagged})"

definition settle :: "membership \<Rightarrow> membership" where
  "settle m = (fst m, if snd m = {} then {DEFAULT_VLAN} else snd m)"

text \<open>The membership states one untagged VLAN per port can express.\<close>

definition expressible :: "membership \<Rightarrow> bool" where
  "expressible m \<longleftrightarrow> card (snd m) \<le> 1 \<and> (snd m = {} \<longrightarrow> DEFAULT_VLAN \<notin> fst m)"

lemma request_disjoint: "fst (request mode vlan m) \<inter> snd (request mode vlan m) = {}"
  by (auto simp: request_def)

lemma request_within:
  "fst (request mode vlan m) \<subseteq> insert vlan (fst m)" "snd (request mode vlan m) \<subseteq> insert vlan (snd m)"
  by (auto simp: request_def requested_role_def role_in_def split: if_splits)

lemma request_subset:
  assumes "fst m \<union> snd m \<subseteq> E" "vlan \<in> E"
  shows "fst (request mode vlan m) \<union> snd (request mode vlan m) \<subseteq> E"
  using assms request_within [of mode vlan m] by blast

lemma request_finite:
  "finite (fst m) \<Longrightarrow> finite (snd m) \<Longrightarrow> finite (fst (request mode vlan m)) \<and> finite (snd (request mode vlan m))"
  using request_within [of mode vlan m] by (auto dest: finite_subset)

text \<open>The sets the code computes are the roles asked for, for a port that is not both tagged
  and untagged in one VLAN.\<close>

lemma request_want:
  assumes "T \<inter> U = {}"
  shows "request mode vlan (T, U) = (want_tagged mode vlan T, want_untagged mode vlan U)"
  using assms
  by (cases mode) (auto simp: request_def requested_role_def role_in_def want_tagged_def want_untagged_def split: if_splits)

section \<open>What a plan says\<close>

text \<open>The columns a plan writes, in order: the data first, the mode selector last.\<close>

datatype switchport_set =
    SetAllowed bytes
  | SetNative int
  | SetAccess int
  | SetMode int

fun set_of :: "int \<Rightarrow> switchport_set \<Rightarrow> set_varbind" where
  "set_of port (SetAllowed b) = varbind (col FASTPATH_SWITCHPORT_ALLOWED_VLANS port) (VOct (Raw b)) ''x''"
| "set_of port (SetNative v) = varbind (col FASTPATH_SWITCHPORT_NATIVE_VLAN port) (VInt v) ''u''"
| "set_of port (SetAccess v) = varbind (col FASTPATH_SWITCHPORT_ACCESS_VLAN port) (VInt v) ''u''"
| "set_of port (SetMode v) = varbind (col FASTPATH_SWITCHPORT_MODE port) (VInt v) ''i''"

lemma plan_refused:
  assumes "T \<inter> U = {}" "\<not> expressible (request mode vlan (T, U))"
  shows "plan_switchport_membership vlan port mode cm ca T U E = Inl UnsupportedCapabilityError"
  using assms
  by (auto simp: plan_switchport_membership_def expressible_def request_want Let_def)

lemma the_elem_card:
  assumes "finite A" "card A \<le> 1" "A \<noteq> {}"
  shows "A = {the_elem A}"
proof -
  have "0 < card A" using assms(1,3) by (simp add: card_gt_0_iff)
  with assms(2) have "card A = 1" by linarith
  then show ?thesis by (metis card_1_singletonE the_elem_eq)
qed

text \<open>
  A plan exists for every expressible request over VLANs in range. In trunk mode
  the allowed list restricted to the VLANs that exist is the wanted membership.
\<close>

lemma plan_ok:
  assumes fin: "finite T" "finite U" "finite E" and sub: "T \<union> U \<subseteq> E" and v: "vlan \<in> E"
    and range: "\<forall>v \<in> E. 1 \<le> v \<and> v \<le> 4096" and one: "DEFAULT_VLAN \<in> E"
    and disj: "T \<inter> U = {}" and ex: "expressible (request mode vlan (T, U))"
  obtains u sets where
    "settle (request mode vlan (T, U)) = (want_tagged mode vlan T, {u})" "u \<in> E" "u \<notin> want_tagged mode vlan T"
    "plan_switchport_membership vlan port mode cm ca T U E =
       Inr \<lparr>sp_untagged_vlan = u, sp_tagged_vlans = want_tagged mode vlan T,
            sp_varbinds = map (set_of port) sets\<rparr>"
    "(want_tagged mode vlan T = {} \<and> sets = [SetAccess u, SetMode SWITCHPORT_MODE_ACCESS]) \<or>
     (\<exists>b. sets = [SetAllowed b, SetNative u, SetMode SWITCHPORT_MODE_TRUNK]
        \<and> decode_vlan_bitmap b \<inter> E - {u} = want_tagged mode vlan T)"
proof -
  let ?wt = "want_tagged mode vlan T" and ?wu = "want_untagged mode vlan U"
  note want = request_want [OF disj, of mode vlan]
  define u where "u = (if ?wu \<noteq> {} then the_elem ?wu else DEFAULT_VLAN)"
  have fin': "finite ?wt" "finite ?wu"
    using request_finite [of "(T, U)" mode vlan] fin by (simp_all add: want)
  have c: "card ?wu \<le> 1" "?wu = {} \<Longrightarrow> DEFAULT_VLAN \<notin> ?wt"
    using ex by (auto simp: expressible_def want)
  have wu: "?wu = {u}" if "?wu \<noteq> {}"
    using the_elem_card [OF fin'(2) c(1) that] that by (simp add: u_def)
  have settle: "settle (request mode vlan (T, U)) = (?wt, {u})"
    using wu by (cases "?wu = {}") (simp_all add: settle_def want u_def)
  have subs: "?wt \<subseteq> E" "?wu \<subseteq> E"
    using request_subset [of "(T, U)" E vlan mode] sub v by (simp_all add: want)
  have uE: "u \<in> E"
    using wu subs one by (cases "?wu = {}") (auto simp: u_def)
  have ut: "u \<notin> ?wt"
    using request_disjoint [of mode vlan "(T, U)"] wu c(2)
    by (cases "?wu = {}") (auto simp: want u_def)
  have not_refused: "\<not> card ?wu > 1" "\<not> (?wu = {} \<and> DEFAULT_VLAN \<in> ?wt)"
    using c by auto
  show thesis
  proof (cases "?wt = {}")
    case True
    then have "plan_switchport_membership vlan port mode cm ca T U E =
       Inr \<lparr>sp_untagged_vlan = u, sp_tagged_vlans = ?wt,
            sp_varbinds = map (set_of port) [SetAccess u, SetMode SWITCHPORT_MODE_ACCESS]\<rparr>"
      using not_refused unfolding plan_switchport_membership_def Let_def u_def by simp
    with True show thesis using that [OF settle uE ut] by blast
  next
    case False
    let ?A = "insert u ?wt" and ?R = "E - ?wt - {u}"
    have A: "finite ?A" "?A \<subseteq> E" using fin' uE subs by auto
    obtain b where b: "(if cm = Some SWITCHPORT_MODE_TRUNK then edit_vlan_bits ca ?A ?R else vlan_bitmap ?A) = Inr b"
      "decode_vlan_bitmap b \<inter> E - {u} = ?wt"
    proof (cases "cm = Some SWITCHPORT_MODE_TRUNK")
      case True
      have "finite ?R" "\<forall>v \<in> ?A \<union> ?R. 1 \<le> v" using fin range A by auto
      with edit_vlan_bits_ok [OF A(1), of ?R ca] obtain b where
        "edit_vlan_bits ca ?A ?R = Inr b" "decode_vlan_bitmap b = decode_vlan_bitmap ca \<union> ?A - ?R" by blast
      with True that show thesis using subs ut by auto
    next
      case False
      have "\<forall>v \<in> ?A. 1 \<le> v \<and> v \<le> 4096" using range A by auto
      with vlan_bitmap_ok [OF A(1)] obtain b where
        "vlan_bitmap ?A = Inr b" "decode_vlan_bitmap b = ?A" by blast
      with False that show thesis using subs ut by auto
    qed
    have "plan_switchport_membership vlan port mode cm ca T U E =
       Inr \<lparr>sp_untagged_vlan = u, sp_tagged_vlans = ?wt,
            sp_varbinds = map (set_of port) [SetAllowed b, SetNative u, SetMode SWITCHPORT_MODE_TRUNK]\<rparr>"
      using not_refused False b(1) unfolding plan_switchport_membership_def Let_def u_def [symmetric] by simp
    with b(2) show thesis using that [OF settle uE ut] by blast
  qed
qed

text \<open>The check after the write passes exactly when the port's membership is the planned one.\<close>

lemma divergence_None:
  "switchport_divergence plan vlan port after = None \<longleftrightarrow>
     vlan \<in> vi_vlan_id ` set after \<and>
     port_membership after port = (sp_tagged_vlans plan, {sp_untagged_vlan plan})"
  by (cases "port_membership after port") (auto simp: switchport_divergence_def)

end
