(* ===== verification/Virtual_Switchport.thy ===== *)
theory Virtual_Switchport
  imports Virtual_State Snmp_Plan
begin

text \<open>
  The switchport table of the virtual switch (\<open>virtual/state.py\<close>): the defaults
  of a port's row, the recomputation of VLAN membership from a row, the rule that
  makes the Q-BRIDGE egress column read-only, and the folding of an accepted
  egress write back into the rows.
\<close>

section \<open>Bitmaps of VLANs\<close>

definition all_vlans_bitmap :: "bytes py" where
  "all_vlans_bitmap = res_fold set_vlan_bit (replicate SWITCHPORT_VLAN_BITMAP_BYTES 0) [1..4093]"

definition vlan_bitmap_bytes :: "int set \<Rightarrow> bytes py" where
  "vlan_bitmap_bytes vlans =
     res_fold set_vlan_bit (replicate SWITCHPORT_VLAN_BITMAP_BYTES 0) (sorted_list_of_set vlans)"

definition vlans_in_bitmap :: "bytes \<Rightarrow> int set" where
  "vlans_in_bitmap bitmap = set (bitmap_ports bitmap)"

lemma all_vlans_bitmap_ok:
  "\<exists>b. all_vlans_bitmap = Inr b \<and> length b = 512 \<and> vlans_in_bitmap b = {1..4093}"
proof -
  have "\<forall>v \<in> set [1..4093]. 1 \<le> v \<and> v \<le> 8 * int (length (replicate 512 (0 :: byte)))" by simp
  from res_fold_set_bits [OF this] show ?thesis
    by (auto simp: all_vlans_bitmap_def int_consts vlans_in_bitmap_def bitmap_ports_mem)
qed

section \<open>The rows\<close>

text \<open>\<open>dict.setdefault\<close>, and a subscript whose key the caller has just set.\<close>

definition dict_setdefault :: "'k \<Rightarrow> 'v \<Rightarrow> ('k, 'v) dict \<Rightarrow> ('k, 'v) dict" where
  "dict_setdefault k v d = (if dict_get d k = None then dict_set k v d else d)"

definition dict_at :: "('k, 'v) dict \<Rightarrow> 'k \<Rightarrow> 'v" where
  "dict_at d k = the (dict_get d k)"

lemma dict_get_setdefault [simp]:
  "dict_get (dict_setdefault k v d) k' =
     (if k' = k \<and> dict_get d k = None then Some v else dict_get d k')"
  by (auto simp: dict_setdefault_def)

lemma dict_wf_setdefault [simp]: "dict_wf d \<Longrightarrow> dict_wf (dict_setdefault k v d)"
  by (simp add: dict_setdefault_def)

definition switchport_model :: "switch_model \<Rightarrow> bool" where
  "switchport_model m \<longleftrightarrow> m_snmp_vlan_write m = ''fastpath_switchport''"

definition switchport_defaults :: "int \<Rightarrow> virtual_switch \<Rightarrow> virtual_switch" where
  "switchport_defaults port s =
     s\<lparr>vs_switchport_mode := dict_setdefault port SWITCHPORT_MODE_ACCESS (vs_switchport_mode s),
       vs_switchport_access_vlan := dict_setdefault port 1 (vs_switchport_access_vlan s),
       vs_switchport_native_vlan := dict_setdefault port 1 (vs_switchport_native_vlan s),
       vs_switchport_allowed_vlans :=
         dict_setdefault port (res_the all_vlans_bitmap) (vs_switchport_allowed_vlans s),
       vs_switchport_general_untagged := dict_setdefault port {1} (vs_switchport_general_untagged s),
       vs_switchport_general_tagged := dict_setdefault port {} (vs_switchport_general_tagged s)\<rparr>"

definition ensure_rows :: "virtual_switch \<Rightarrow> virtual_switch" where
  "ensure_rows s = foldl (\<lambda>s port. switchport_defaults port s) s (map fst (vs_ports s))"

definition access_mode_ports :: "virtual_switch \<Rightarrow> int list \<times> virtual_switch" where
  "access_mode_ports s =
     (let s1 = ensure_rows s
      in ([p. (p, m) \<leftarrow> vs_switchport_mode s1, m = SWITCHPORT_MODE_ACCESS], s1))"

definition reject_if_readonly_qbridge :: "switch_model \<Rightarrow> virtual_switch \<Rightarrow> unit py \<times> virtual_switch" where
  "reject_if_readonly_qbridge m s =
     (if \<not> switchport_model m then (Inr (), s)
      else let (access, s1) = access_mode_ports s
           in (if access \<noteq> [] then Inl CommitFailedError else Inr (), s1))"

text \<open>What a port's row makes the port: its untagged and its tagged VLANs.\<close>

definition row_membership :: "virtual_switch \<Rightarrow> int \<Rightarrow> int set \<times> int set" where
  "row_membership s port =
     (let mode = dict_at (vs_switchport_mode s) port in
      if mode = SWITCHPORT_MODE_ACCESS then ({dict_at (vs_switchport_access_vlan s) port}, {})
      else if mode = SWITCHPORT_MODE_TRUNK then
        (let native = dict_at (vs_switchport_native_vlan s) port;
             allowed = vlans_in_bitmap (dict_at (vs_switchport_allowed_vlans s) port)
         in ({native}, allowed \<inter> set (map fst (vs_vlans s)) - {native}))
      else (let untagged = dict_at (vs_switchport_general_untagged s) port
            in (untagged, dict_at (vs_switchport_general_tagged s) port - untagged)))"

definition row_pvids :: "virtual_switch \<Rightarrow> int \<Rightarrow> (int, int) dict" where
  "row_pvids s port =
     (let mode = dict_at (vs_switchport_mode s) port in
      if mode = SWITCHPORT_MODE_ACCESS
      then dict_set port (dict_at (vs_switchport_access_vlan s) port) (vs_pvids s)
      else if mode = SWITCHPORT_MODE_TRUNK
      then dict_set port (dict_at (vs_switchport_native_vlan s) port) (vs_pvids s)
      else vs_pvids s)"

definition place_port :: "int \<Rightarrow> int set \<Rightarrow> int set \<Rightarrow> int \<Rightarrow> vlan_sim \<Rightarrow> vlan_sim" where
  "place_port port untagged tagged vid v =
     (if vid \<in> untagged then v\<lparr>vl_member := insert port (vl_member v), vl_untagged := insert port (vl_untagged v)\<rparr>
      else if vid \<in> tagged then v\<lparr>vl_member := insert port (vl_member v), vl_untagged := vl_untagged v - {port}\<rparr>
      else v\<lparr>vl_member := vl_member v - {port}, vl_untagged := vl_untagged v - {port}\<rparr>)"

definition apply_switchport :: "int \<Rightarrow> virtual_switch \<Rightarrow> virtual_switch" where
  "apply_switchport port s =
     (let s1 = switchport_defaults port s;
          (untagged, tagged) = row_membership s1 port
      in s1\<lparr>vs_pvids := row_pvids s1 port,
            vs_vlans := map (\<lambda>(vid, v). (vid, place_port port untagged tagged vid v)) (vs_vlans s1)\<rparr>)"

text \<open>One step of the loop of \<open>_reconcile_qbridge_membership\<close>, and the loop.\<close>

definition reconcile_port :: "int \<Rightarrow> int set \<Rightarrow> virtual_switch \<Rightarrow> int \<Rightarrow> unit py \<times> virtual_switch" where
  "reconcile_port vid incoming s port =
     (let s1 = switchport_defaults port s;
          mode = dict_at (vs_switchport_mode s1) port
      in if mode = SWITCHPORT_MODE_TRUNK then
           (let allowed = vlans_in_bitmap (dict_at (vs_switchport_allowed_vlans s1) port);
                allowed' = (if port \<in> incoming then insert vid allowed else allowed - {vid})
            in case vlan_bitmap_bytes allowed' of
                 Inl e \<Rightarrow> (Inl e, s1)
               | Inr b \<Rightarrow> (Inr (), apply_switchport port
                   (s1\<lparr>vs_switchport_allowed_vlans := dict_set port b (vs_switchport_allowed_vlans s1)\<rparr>)))
         else if mode = SWITCHPORT_MODE_GENERAL then
           (let u = dict_at (vs_switchport_general_untagged s1) port;
                t = dict_at (vs_switchport_general_tagged s1) port
            in (Inr (), apply_switchport port
                 (if port \<in> incoming
                  then s1\<lparr>vs_switchport_general_untagged := dict_set port (insert vid u) (vs_switchport_general_untagged s1)\<rparr>
                  else s1\<lparr>vs_switchport_general_untagged := dict_set port (u - {vid}) (vs_switchport_general_untagged s1),
                          vs_switchport_general_tagged := dict_set port (t - {vid}) (vs_switchport_general_tagged s1)\<rparr>)))
         else (Inr (), apply_switchport port s1))"

fun reconcile_loop :: "int \<Rightarrow> int set \<Rightarrow> virtual_switch \<Rightarrow> int list \<Rightarrow> unit py \<times> virtual_switch" where
  "reconcile_loop vid incoming s [] = (Inr (), s)"
| "reconcile_loop vid incoming s (port # ports) =
     (case reconcile_port vid incoming s port of
        (Inl e, s1) \<Rightarrow> (Inl e, s1)
      | (Inr _, s1) \<Rightarrow> reconcile_loop vid incoming s1 ports)"

definition reconcile_qbridge_membership :: "int \<Rightarrow> int set \<Rightarrow> virtual_switch \<Rightarrow> unit py \<times> virtual_switch" where
  "reconcile_qbridge_membership vid incoming s = reconcile_loop vid incoming s (map fst (vs_ports s))"

section \<open>Writing one column of a row\<close>

text \<open>The four writable columns of \<open>apply_write\<close>, after the value is converted.\<close>

definition write_switchport :: "int \<Rightarrow> switchport_set \<Rightarrow> virtual_switch \<Rightarrow> unit py \<times> virtual_switch" where
  "write_switchport port w s =
     (case w of
        SetMode n \<Rightarrow> (Inr (), apply_switchport port (s\<lparr>vs_switchport_mode := dict_set port n (vs_switchport_mode s)\<rparr>))
      | SetAccess n \<Rightarrow>
          (Inr (), apply_switchport port (s\<lparr>vs_switchport_access_vlan := dict_set port n (vs_switchport_access_vlan s)\<rparr>))
      | SetNative n \<Rightarrow>
          if n \<notin> set (map fst (vs_vlans s)) then (Inl CommitFailedError, s)
          else (Inr (), apply_switchport port (s\<lparr>vs_switchport_native_vlan := dict_set port n (vs_switchport_native_vlan s)\<rparr>))
      | SetAllowed b \<Rightarrow>
          (Inr (), apply_switchport port (s\<lparr>vs_switchport_allowed_vlans := dict_set port b (vs_switchport_allowed_vlans s)\<rparr>)))"

fun write_switchports :: "int \<Rightarrow> switchport_set list \<Rightarrow> virtual_switch \<Rightarrow> unit py \<times> virtual_switch" where
  "write_switchports port [] s = (Inr (), s)"
| "write_switchports port (w # ws) s =
     (case write_switchport port w s of
        (Inl e, s1) \<Rightarrow> (Inl e, s1)
      | (Inr _, s1) \<Rightarrow> write_switchports port ws s1)"

section \<open>What a write does to the membership\<close>

definition vlan_ids :: "virtual_switch \<Rightarrow> int set" where
  "vlan_ids s = set (map fst (vs_vlans s))"

definition state_membership :: "virtual_switch \<Rightarrow> int \<Rightarrow> membership" where
  "state_membership s port =
     ({vid. case dict_get (vs_vlans s) vid of None \<Rightarrow> False
            | Some v \<Rightarrow> port \<in> vl_member v \<and> port \<notin> vl_untagged v},
      {vid. case dict_get (vs_vlans s) vid of None \<Rightarrow> False | Some v \<Rightarrow> port \<in> vl_untagged v})"

lemma dict_get_map_keyed: "dict_get (map (\<lambda>(k, v). (k, f k v)) d) k = map_option (f k) (dict_get d k)"
  by (induction d) (auto simp: dict_get_def)

lemma keys_map_keyed: "map fst (map (\<lambda>(k, v). (k, f k v)) d) = map fst d"
  by (induction d) auto

lemma dict_get_None: "dict_get d k = None \<longleftrightarrow> k \<notin> fst ` set d"
  by (simp add: dict_get_def map_of_eq_None_iff)

lemma dict_get_Some_key: "dict_get d k = Some v \<Longrightarrow> k \<in> fst ` set d"
  using dict_get_None [of d k] by auto

lemma defaults_frame [simp]:
  "vs_vlans (switchport_defaults p s) = vs_vlans s"
  "vs_pvids (switchport_defaults p s) = vs_pvids s"
  "vs_ports (switchport_defaults p s) = vs_ports s"
  "vs_model_key (switchport_defaults p s) = vs_model_key s"
  by (simp_all add: switchport_defaults_def)

lemma apply_switchport_vlans:
  "vs_vlans (apply_switchport p s) =
     map (\<lambda>(vid, v). (vid, place_port p (fst (row_membership (switchport_defaults p s) p))
                                    (snd (row_membership (switchport_defaults p s) p)) vid v)) (vs_vlans s)"
  by (simp add: apply_switchport_def Let_def split: prod.splits)

lemma apply_switchport_rows [simp]:
  "vs_switchport_mode (apply_switchport p s) = vs_switchport_mode (switchport_defaults p s)"
  "vs_switchport_access_vlan (apply_switchport p s) = vs_switchport_access_vlan (switchport_defaults p s)"
  "vs_switchport_native_vlan (apply_switchport p s) = vs_switchport_native_vlan (switchport_defaults p s)"
  "vs_switchport_allowed_vlans (apply_switchport p s) = vs_switchport_allowed_vlans (switchport_defaults p s)"
  "vs_ports (apply_switchport p s) = vs_ports s"
  "vs_model_key (apply_switchport p s) = vs_model_key s"
  by (simp_all add: apply_switchport_def Let_def split: prod.splits)

lemma vlan_ids_apply [simp]: "vlan_ids (apply_switchport p s) = vlan_ids s"
  by (simp only: vlan_ids_def apply_switchport_vlans keys_map_keyed)

text \<open>The port is placed where its row says, among the VLANs that exist.\<close>

lemma apply_switchport_membership:
  assumes "row_membership (switchport_defaults p s) p = (u, t)" "t \<inter> u = {}"
  shows "state_membership (apply_switchport p s) p = (t \<inter> vlan_ids s, u \<inter> vlan_ids s)"
proof -
  have get: "dict_get (vs_vlans (apply_switchport p s)) vid = map_option (place_port p u t vid) (dict_get (vs_vlans s) vid)"
    for vid by (simp only: apply_switchport_vlans dict_get_map_keyed assms(1) fst_conv snd_conv)
  have "(case dict_get (vs_vlans (apply_switchport p s)) vid of None \<Rightarrow> False
          | Some v \<Rightarrow> p \<in> vl_member v \<and> p \<notin> vl_untagged v) \<longleftrightarrow> vid \<in> t \<inter> vlan_ids s"
    "(case dict_get (vs_vlans (apply_switchport p s)) vid of None \<Rightarrow> False
          | Some v \<Rightarrow> p \<in> vl_untagged v) \<longleftrightarrow> vid \<in> u \<inter> vlan_ids s" for vid
    using assms(2) dict_get_None [of "vs_vlans s" vid]
    by (cases "dict_get (vs_vlans s) vid"; auto simp: get place_port_def vlan_ids_def)+
  then show ?thesis unfolding state_membership_def by (simp add: Int_def)
qed

text \<open>No other port is touched, in any VLAN.\<close>

lemma apply_switchport_other:
  assumes "q \<noteq> p"
  shows "state_membership (apply_switchport p s) q = state_membership s q"
proof -
  have "q \<in> vl_member (place_port p u t vid v) \<longleftrightarrow> q \<in> vl_member v"
    "q \<in> vl_untagged (place_port p u t vid v) \<longleftrightarrow> q \<in> vl_untagged v" for u t vid v
    using assms by (auto simp: place_port_def)
  then show ?thesis
    by (simp add: state_membership_def apply_switchport_vlans dict_get_map_keyed option.case_eq_if option.map_sel)
qed

lemma state_membership_upd [simp]:
  "state_membership (s\<lparr>vs_switchport_mode := a\<rparr>) = state_membership s"
  "state_membership (s\<lparr>vs_switchport_access_vlan := a\<rparr>) = state_membership s"
  "state_membership (s\<lparr>vs_switchport_native_vlan := a\<rparr>) = state_membership s"
  "state_membership (s\<lparr>vs_switchport_allowed_vlans := b\<rparr>) = state_membership s"
  by (simp_all add: state_membership_def fun_eq_iff)

lemma vlan_ids_upd [simp]:
  "vlan_ids (s\<lparr>vs_switchport_mode := a\<rparr>) = vlan_ids s"
  "vlan_ids (s\<lparr>vs_switchport_access_vlan := a\<rparr>) = vlan_ids s"
  "vlan_ids (s\<lparr>vs_switchport_native_vlan := a\<rparr>) = vlan_ids s"
  "vlan_ids (s\<lparr>vs_switchport_allowed_vlans := b\<rparr>) = vlan_ids s"
  by (simp_all add: vlan_ids_def)

lemma write_switchport_frame:
  assumes "write_switchport p w s = (r, s')"
  shows "vlan_ids s' = vlan_ids s \<and> (q \<noteq> p \<longrightarrow> state_membership s' q = state_membership s q)"
  using assms apply_switchport_other [of q p]
  by (cases w) (auto simp: write_switchport_def split: if_splits)

lemma write_switchports_frame:
  "write_switchports p ws s = (r, s') \<Longrightarrow>
     vlan_ids s' = vlan_ids s \<and> (q \<noteq> p \<longrightarrow> state_membership s' q = state_membership s q)"
proof (induction ws arbitrary: s)
  case (Cons w ws)
  obtain r1 s1 where w: "write_switchport p w s = (r1, s1)" by fastforce
  show ?case
  proof (cases r1)
    case (Inl e)
    with Cons.prems w write_switchport_frame [OF w, of q] show ?thesis by auto
  next
    case (Inr x)
    then have "write_switchports p ws s1 = (r, s')" using Cons.prems w by simp
    from Cons.IH [OF this] write_switchport_frame [OF w, of q] show ?thesis by auto
  qed
qed auto

lemma access_row_written:
  "\<exists>s'. write_switchports p [SetAccess u, SetMode SWITCHPORT_MODE_ACCESS] s = (Inr (), s')
     \<and> state_membership s' p = ({}, {u} \<inter> vlan_ids s)"
proof -
  let ?s1 = "apply_switchport p (s\<lparr>vs_switchport_access_vlan := dict_set p u (vs_switchport_access_vlan s)\<rparr>)"
  let ?s2 = "?s1\<lparr>vs_switchport_mode := dict_set p SWITCHPORT_MODE_ACCESS (vs_switchport_mode ?s1)\<rparr>"
  have "row_membership (switchport_defaults p ?s2) p = ({u}, {})"
    by (simp add: row_membership_def switchport_defaults_def dict_at_def)
  from apply_switchport_membership [OF this]
  have "state_membership (apply_switchport p ?s2) p = ({}, {u} \<inter> vlan_ids s)" by simp
  then show ?thesis by (simp add: write_switchport_def)
qed

lemma trunk_row_written:
  assumes u: "u \<in> vlan_ids s"
  shows "\<exists>s'. write_switchports p [SetAllowed b, SetNative u, SetMode SWITCHPORT_MODE_TRUNK] s = (Inr (), s')
     \<and> state_membership s' p = (vlans_in_bitmap b \<inter> vlan_ids s - {u}, {u})"
proof -
  let ?s1 = "apply_switchport p (s\<lparr>vs_switchport_allowed_vlans := dict_set p b (vs_switchport_allowed_vlans s)\<rparr>)"
  let ?s2 = "apply_switchport p (?s1\<lparr>vs_switchport_native_vlan := dict_set p u (vs_switchport_native_vlan ?s1)\<rparr>)"
  let ?s3 = "?s2\<lparr>vs_switchport_mode := dict_set p SWITCHPORT_MODE_TRUNK (vs_switchport_mode ?s2)\<rparr>"
  have ids: "vlan_ids ?s1 = vlan_ids s" "vlan_ids ?s3 = vlan_ids s" by simp_all
  have row: "row_membership (switchport_defaults p ?s3) p = ({u}, vlans_in_bitmap b \<inter> vlan_ids ?s3 - {u})"
    by (simp add: row_membership_def switchport_defaults_def dict_at_def int_consts vlan_ids_def)
  have "(vlans_in_bitmap b \<inter> vlan_ids ?s3 - {u}) \<inter> {u} = {}" by auto
  from apply_switchport_membership [OF row this]
  have "state_membership (apply_switchport p ?s3) p = (vlans_in_bitmap b \<inter> vlan_ids s - {u}, {u})"
    using u unfolding ids by auto
  moreover have "write_switchports p [SetAllowed b, SetNative u, SetMode SWITCHPORT_MODE_TRUNK] s
      = (Inr (), apply_switchport p ?s3)"
    using u ids(1) by (simp add: write_switchport_def vlan_ids_def)
  ultimately show ?thesis by blast
qed

text \<open>
  The plan, applied column by column, takes the port to the membership that was
  asked for and leaves every other port alone.
\<close>

lemma plan_applied:
  assumes T: "state_membership s port = (T, U)" and fin: "finite (vlan_ids s)"
    and range: "\<forall>v \<in> vlan_ids s. 1 \<le> v \<and> v \<le> 4096" and one: "DEFAULT_VLAN \<in> vlan_ids s"
    and v: "vlan \<in> vlan_ids s" and ex: "expressible (request mode vlan (T, U))"
  obtains plan sets s' where
    "plan_switchport_membership vlan port mode cm ca T U (vlan_ids s) = Inr plan"
    "settle (request mode vlan (T, U)) = (sp_tagged_vlans plan, {sp_untagged_vlan plan})"
    "sp_varbinds plan = map (set_of port) sets"
    "write_switchports port sets s = (Inr (), s')"
    "state_membership s' port = settle (request mode vlan (T, U))"
    "vlan_ids s' = vlan_ids s" "\<forall>q. q \<noteq> port \<longrightarrow> state_membership s' q = state_membership s q"
    "\<forall>n. SetAccess n \<in> set sets \<or> SetNative n \<in> set sets \<longrightarrow> n \<in> vlan_ids s"
    "\<forall>n. SetMode n \<in> set sets \<longrightarrow> n = SWITCHPORT_MODE_ACCESS \<or> n = SWITCHPORT_MODE_TRUNK"
proof -
  have sub: "T \<union> U \<subseteq> vlan_ids s" "T \<inter> U = {}"
    using T by (auto simp: state_membership_def vlan_ids_def split: option.splits dest: dict_get_Some_key)
  then have finTU: "finite T" "finite U" using fin by (auto intro: finite_subset)
  obtain u sets where u: "settle (request mode vlan (T, U)) = (want_tagged mode vlan T, {u})" "u \<in> vlan_ids s"
    and plan: "plan_switchport_membership vlan port mode cm ca T U (vlan_ids s) =
       Inr \<lparr>sp_untagged_vlan = u, sp_tagged_vlans = want_tagged mode vlan T,
            sp_varbinds = map (set_of port) sets\<rparr>"
    and sets: "(want_tagged mode vlan T = {} \<and> sets = [SetAccess u, SetMode SWITCHPORT_MODE_ACCESS]) \<or>
     (\<exists>b. sets = [SetAllowed b, SetNative u, SetMode SWITCHPORT_MODE_TRUNK]
        \<and> decode_vlan_bitmap b \<inter> vlan_ids s - {u} = want_tagged mode vlan T)"
    by (rule plan_ok [OF finTU fin sub(1) v range one sub(2) ex, of port cm ca]) (rule that; assumption)
  have "\<exists>s'. write_switchports port sets s = (Inr (), s') \<and> state_membership s' port = (want_tagged mode vlan T, {u})"
    using sets
  proof
    assume a: "want_tagged mode vlan T = {} \<and> sets = [SetAccess u, SetMode SWITCHPORT_MODE_ACCESS]"
    then show ?thesis using access_row_written [of port u s] u(2) by auto
  next
    assume "\<exists>b. sets = [SetAllowed b, SetNative u, SetMode SWITCHPORT_MODE_TRUNK]
        \<and> decode_vlan_bitmap b \<inter> vlan_ids s - {u} = want_tagged mode vlan T"
    then obtain b where b: "sets = [SetAllowed b, SetNative u, SetMode SWITCHPORT_MODE_TRUNK]"
      "vlans_in_bitmap b \<inter> vlan_ids s - {u} = want_tagged mode vlan T"
      by (auto simp: decode_vlan_bitmap_def vlans_in_bitmap_def)
    show ?thesis
      using trunk_row_written [OF u(2), of port b] unfolding b .
  qed
  then obtain s' where s': "write_switchports port sets s = (Inr (), s')"
    "state_membership s' port = (want_tagged mode vlan T, {u})" by blast
  show thesis
    by (rule that [OF plan, of sets s'])
      (use u s' write_switchports_frame [OF s'(1)] sets in auto)
qed

end
