(* ===== verification/Virtual_Snmp.thy ===== *)
theory Virtual_Snmp
  imports Virtual_Switchport
begin

text \<open>
  The write side of the virtual switch's SNMP agent: \<open>apply_write\<close>,
  \<open>is_writable_oid\<close> and the snapshot of \<open>virtual/state.py\<close>. A handler that matches
  the identifier ends the call, as each \<open>return\<close> of the source does.
\<close>

section \<open>Handlers\<close>

type_synonym state_action = "virtual_switch \<Rightarrow> unit py \<times> virtual_switch"

definition try_int :: "snmp_value \<Rightarrow> (int \<Rightarrow> state_action) \<Rightarrow> state_action" where
  "try_int value f s = (case value_int value of Inl e \<Rightarrow> (Inl e, s) | Inr n \<Rightarrow> f n s)"

fun as_bytes :: "snmp_value \<Rightarrow> bytes py" where
  "as_bytes (VOct (Raw bs)) = Inr bs"
| "as_bytes (VOct (Text s)) = latin1_encode s"
| "as_bytes (VInt n) = byte_of n"

fun as_text :: "snmp_value \<Rightarrow> ustr" where
  "as_text (VOct (Raw bs)) = latin1_decode bs"
| "as_text (VOct (Text s)) = s"
| "as_text (VInt n) = show_int n"

definition write_admin :: "int \<Rightarrow> snmp_value \<Rightarrow> state_action" where
  "write_admin port value =
     try_int value (\<lambda>n s.
       (Inr (), s\<lparr>vs_ports := dict_set port
          ((dict_at (vs_ports s) port)\<lparr>pt_admin := (n = 1),
             pt_link := (if n \<noteq> 1 then False else pt_link (dict_at (vs_ports s) port))\<rparr>) (vs_ports s)\<rparr>))"

definition write_alias :: "int \<Rightarrow> snmp_value \<Rightarrow> state_action" where
  "write_alias port value s =
     (Inr (), s\<lparr>vs_ports := dict_set port
        ((dict_at (vs_ports s) port)\<lparr>pt_description := opt_or_none (Some (as_text value))\<rparr>) (vs_ports s)\<rparr>)"

definition write_poe_admin :: "int \<Rightarrow> snmp_value \<Rightarrow> state_action" where
  "write_poe_admin port value = try_int value (\<lambda>n s. (Inr (), apply_poe_admin port (n = 1) s))"

definition write_pvid :: "int \<Rightarrow> snmp_value \<Rightarrow> state_action" where
  "write_pvid port value =
     try_int value (\<lambda>n s. (Inr (), s\<lparr>vs_pvids := dict_set port n (vs_pvids s)\<rparr>))"

definition set_vlan :: "int \<Rightarrow> (vlan_sim \<Rightarrow> vlan_sim) \<Rightarrow> virtual_switch \<Rightarrow> virtual_switch" where
  "set_vlan vid f s = s\<lparr>vs_vlans := dict_set vid (f (dict_at (vs_vlans s) vid)) (vs_vlans s)\<rparr>"

definition write_egress :: "switch_model \<Rightarrow> int \<Rightarrow> snmp_value \<Rightarrow> state_action" where
  "write_egress m vid value s =
     (case reject_if_readonly_qbridge m s of
        (Inl e, s1) \<Rightarrow> (Inl e, s1)
      | (Inr _, s1) \<Rightarrow>
          (case as_bytes value of
             Inl e \<Rightarrow> (Inl e, s1)
           | Inr bs \<Rightarrow>
               let incoming = set (bitmap_ports bs) in
               if switchport_model m then reconcile_qbridge_membership vid incoming s1
               else
                 let s2 = (if m_snmp_split_writes m
                           then (let added = incoming - vl_member (dict_at (vs_vlans s1) vid)
                                 in (set_vlan vid (\<lambda>v. v\<lparr>vl_untagged := vl_untagged v \<union> added\<rparr>) s1)
                                      \<lparr>vs_pdu_egress_writes := insert vid (vs_pdu_egress_writes s1)\<rparr>)
                           else s1)
                 in (Inr (), set_vlan vid (\<lambda>v. v\<lparr>vl_member := incoming\<rparr>) s2)))"

definition write_untagged :: "switch_model \<Rightarrow> int \<Rightarrow> snmp_value \<Rightarrow> state_action" where
  "write_untagged m vid value s =
     (if switchport_model m then (Inr (), s)
      else if vid \<in> vs_pdu_egress_writes s then (Inr (), s)
      else case as_bytes value of
             Inl e \<Rightarrow> (Inl e, s)
           | Inr bs \<Rightarrow> (Inr (), set_vlan vid (\<lambda>v. v\<lparr>vl_untagged := set (bitmap_ports bs)\<rparr>) s))"

definition write_switchport_mode :: "int \<Rightarrow> snmp_value \<Rightarrow> state_action" where
  "write_switchport_mode port value = try_int value (\<lambda>n. write_switchport port (SetMode n))"

definition write_access_vlan :: "int \<Rightarrow> snmp_value \<Rightarrow> state_action" where
  "write_access_vlan port value = try_int value (\<lambda>n. write_switchport port (SetAccess n))"

definition write_native_vlan :: "int \<Rightarrow> snmp_value \<Rightarrow> state_action" where
  "write_native_vlan port value = try_int value (\<lambda>n. write_switchport port (SetNative n))"

definition write_allowed_vlans :: "int \<Rightarrow> snmp_value \<Rightarrow> state_action" where
  "write_allowed_vlans port value s =
     (case as_bytes value of Inl e \<Rightarrow> (Inl e, s) | Inr bs \<Rightarrow> write_switchport port (SetAllowed bs) s)"

definition refuse_vlan_creation :: "switch_model \<Rightarrow> unit py" where
  "refuse_vlan_creation m = (if \<not> m_snmp_can_create_vlan m then Inl InconsistentValueError else Inr ())"

definition write_row_status :: "switch_model \<Rightarrow> int \<Rightarrow> snmp_value \<Rightarrow> state_action" where
  "write_row_status m vid value =
     try_int value (\<lambda>n s.
       if n = ROW_STATUS_DESTROY then (Inr (), s\<lparr>vs_vlans := dict_pop vid (vs_vlans s)\<rparr>)
       else if vid \<notin> dict_keys (vs_vlans s) then
         (case refuse_vlan_creation m of
            Inl e \<Rightarrow> (Inl e, s)
          | Inr _ \<Rightarrow>
              if n = ROW_STATUS_CREATE_AND_GO
              then (Inr (), s\<lparr>vs_vlans := dict_set vid (mk_vlan_sim [] {} {}) (vs_vlans s)\<rparr>)
              else (Inr (), s))
       else (Inr (), s))"

definition write_vlan_name :: "switch_model \<Rightarrow> int \<Rightarrow> snmp_value \<Rightarrow> state_action" where
  "write_vlan_name m vid value s =
     (let name = as_text value in
      if vid \<in> dict_keys (vs_vlans s) then (Inr (), set_vlan vid (\<lambda>v. v\<lparr>vl_name := name\<rparr>) s)
      else (case refuse_vlan_creation m of
              Inl e \<Rightarrow> (Inl e, s)
            | Inr _ \<Rightarrow> (Inr (), s\<lparr>vs_vlans := dict_set vid (mk_vlan_sim name {} {}) (vs_vlans s)\<rparr>)))"

definition write_syslog_admin :: "snmp_value \<Rightarrow> state_action" where
  "write_syslog_admin value =
     try_int value (\<lambda>n s. (Inr (), s\<lparr>vs_syslog := (vs_syslog s)\<lparr>sy_admin_mode := n\<rparr>\<rparr>))"

text \<open>\<open>next(c for c in collectors if c.index == index)\<close>, then \<open>list.remove\<close> of that row.\<close>

definition write_syslog_status :: "int \<Rightarrow> snmp_value \<Rightarrow> state_action" where
  "write_syslog_status index value s =
     (case find (\<lambda>c. sc_index c = index) (sy_collectors (vs_syslog s)) of
        None \<Rightarrow> (Inl InconsistentValueError, s)
      | Some row \<Rightarrow>
          try_int value (\<lambda>n s.
            if n = 6
            then (Inr (), s\<lparr>vs_syslog := (vs_syslog s)\<lparr>sy_collectors := remove1 row (sy_collectors (vs_syslog s))\<rparr>\<rparr>)
            else
              (Inr (), s\<lparr>vs_syslog := (vs_syslog s)\<lparr>sy_collectors :=
                 (let cs = sy_collectors (vs_syslog s);
                      i = length (takeWhile (\<lambda>c. sc_index c \<noteq> index) cs)
                  in cs[i := row\<lparr>sc_status := n\<rparr>])\<rparr>\<rparr>)) s)"

section \<open>Dispatch\<close>

fun first_some :: "'a option list \<Rightarrow> 'a option" where
  "first_some [] = None"
| "first_some (Some x # xs) = Some x"
| "first_some (None # xs) = first_some xs"

text \<open>A column whose instance must satisfy a condition for the handler to apply.\<close>

definition column :: "ustr \<Rightarrow> ustr \<Rightarrow> (int \<Rightarrow> bool) \<Rightarrow> (int \<Rightarrow> 'a) \<Rightarrow> 'a option" where
  "column base oid cond f =
     (case oid_tail base oid of Some i \<Rightarrow> if cond i then Some (f i) else None | None \<Rightarrow> None)"

definition scalar :: "ustr \<Rightarrow> ustr \<Rightarrow> 'a \<Rightarrow> 'a option" where
  "scalar base oid a = (if oid = base then Some a else None)"

definition standard_handlers ::
    "switch_model \<Rightarrow> virtual_switch \<Rightarrow> ustr \<Rightarrow> snmp_value \<Rightarrow> state_action option list" where
  "standard_handlers m s oid value =
     [column IF_ADMIN_STATUS oid (\<lambda>p. p \<in> dict_keys (vs_ports s)) (\<lambda>p. write_admin p value),
      column IF_ALIAS oid (\<lambda>p. p \<in> dict_keys (vs_ports s)) (\<lambda>p. write_alias p value),
      column POE_ADMIN_COLUMN oid (\<lambda>p. True) (\<lambda>p. write_poe_admin p value),
      column DOT1Q_PVID oid (\<lambda>p. True) (\<lambda>p. write_pvid p value),
      column DOT1Q_VLAN_STATIC_EGRESS oid (\<lambda>v. v \<in> dict_keys (vs_vlans s)) (\<lambda>v. write_egress m v value),
      column DOT1Q_VLAN_STATIC_UNTAGGED oid (\<lambda>v. v \<in> dict_keys (vs_vlans s)) (\<lambda>v. write_untagged m v value)]"

definition switchport_handlers ::
    "switch_model \<Rightarrow> ustr \<Rightarrow> snmp_value \<Rightarrow> state_action option list" where
  "switchport_handlers m oid value =
     [column FASTPATH_SWITCHPORT_MODE oid (\<lambda>p. switchport_model m) (\<lambda>p. write_switchport_mode p value),
      column FASTPATH_SWITCHPORT_ACCESS_VLAN oid (\<lambda>p. switchport_model m) (\<lambda>p. write_access_vlan p value),
      column FASTPATH_SWITCHPORT_NATIVE_VLAN oid (\<lambda>p. switchport_model m) (\<lambda>p. write_native_vlan p value),
      column FASTPATH_SWITCHPORT_ALLOWED_VLANS oid (\<lambda>p. switchport_model m) (\<lambda>p. write_allowed_vlans p value),
      column FASTPATH_SWITCHPORT_TAGGED_VLANS oid (\<lambda>p. switchport_model m) (\<lambda>p s. (Inl NotWritableError, s)),
      column FASTPATH_SWITCHPORT_UNTAGGED_VLANS oid (\<lambda>p. switchport_model m) (\<lambda>p s. (Inl NotWritableError, s)),
      column DOT1Q_VLAN_STATIC_ROW_STATUS oid (\<lambda>v. True) (\<lambda>v. write_row_status m v value),
      column DOT1Q_VLAN_STATIC_NAME oid (\<lambda>v. True) (\<lambda>v. write_vlan_name m v value)]"

definition vendor_handlers ::
    "vendor_oids \<Rightarrow> ustr \<Rightarrow> snmp_value \<Rightarrow> state_action option list" where
  "vendor_handlers v oid value =
     [scalar (vo_mgmt_write_addr_unverified v) oid
        (\<lambda>s. (Inr (), s\<lparr>vs_mgmt := (vs_mgmt s)\<lparr>mg_address := str_value value\<rparr>\<rparr>)),
      scalar (vo_mgmt_write_netmask_unverified v) oid
        (\<lambda>s. (Inr (), s\<lparr>vs_mgmt := (vs_mgmt s)\<lparr>mg_netmask := str_value value\<rparr>\<rparr>)),
      scalar (vo_mgmt_write_gateway_unverified v) oid
        (\<lambda>s. (Inr (), s\<lparr>vs_mgmt := (vs_mgmt s)\<lparr>mg_gateway := str_value value\<rparr>\<rparr>)),
      scalar (vo_dhcp_mode_unverified v @ lit ''.0'') oid
        (try_int value (\<lambda>n s. (Inr (), s\<lparr>vs_mgmt := (vs_mgmt s)\<lparr>mg_mode :=
           (if n = 2 then lit ''static'' else lit ''dhcp'')\<rparr>\<rparr>))),
      scalar (vo_syslog_admin_mode v) oid (write_syslog_admin value),
      column (vo_syslog_host_status v) oid (\<lambda>i. True) (\<lambda>i. write_syslog_status i value)]"

definition apply_write :: "ustr \<Rightarrow> snmp_value \<Rightarrow> state_action" where
  "apply_write oid value s =
     (case get_model (vs_model_key s) of
        Inl e \<Rightarrow> (Inl e, s)
      | Inr m \<Rightarrow>
          (case first_some (standard_handlers m s oid value @ switchport_handlers m oid value
                  @ (case vendor_opt m of Some v \<Rightarrow> vendor_handlers v oid value | None \<Rightarrow> [])) of
             Some act \<Rightarrow> act s
           | None \<Rightarrow> (Inr (), s)))"

definition is_col :: "ustr \<Rightarrow> ustr \<Rightarrow> bool" where
  "is_col base oid \<longleftrightarrow> oid_tail base oid \<noteq> None"

definition is_writable_oid :: "switch_model \<Rightarrow> ustr \<Rightarrow> bool" where
  "is_writable_oid m oid \<longleftrightarrow>
     is_col IF_ADMIN_STATUS oid \<or> is_col IF_ALIAS oid \<or> is_col POE_ADMIN_COLUMN oid
     \<or> is_col DOT1Q_PVID oid \<or> is_col DOT1Q_VLAN_STATIC_EGRESS oid \<or> is_col DOT1Q_VLAN_STATIC_UNTAGGED oid
     \<or> is_col DOT1Q_VLAN_STATIC_ROW_STATUS oid \<or> is_col DOT1Q_VLAN_STATIC_NAME oid
     \<or> (switchport_model m \<and>
         (is_col FASTPATH_SWITCHPORT_MODE oid \<or> is_col FASTPATH_SWITCHPORT_ACCESS_VLAN oid
          \<or> is_col FASTPATH_SWITCHPORT_NATIVE_VLAN oid \<or> is_col FASTPATH_SWITCHPORT_ALLOWED_VLANS oid
          \<or> is_col FASTPATH_SWITCHPORT_TAGGED_VLANS oid \<or> is_col FASTPATH_SWITCHPORT_UNTAGGED_VLANS oid))
     \<or> (case vendor_opt m of
          None \<Rightarrow> False
        | Some v \<Rightarrow> oid \<in> {vo_mgmt_write_addr_unverified v, vo_mgmt_write_netmask_unverified v,
                          vo_mgmt_write_gateway_unverified v}
            \<or> oid = vo_syslog_admin_mode v \<or> is_col (vo_syslog_host_status v) oid
            \<or> oid = vo_dhcp_mode_unverified v @ lit ''.0'')"

section \<open>One PDU\<close>

text \<open>
  \<open>snapshot\<close> marks a PDU boundary and copies the state; \<open>restore\<close> copies every
  field back. The face maps an exception of \<open>apply_write\<close> to the SNMP error status
  of its class.
\<close>

definition snapshot :: "virtual_switch \<Rightarrow> virtual_switch" where
  "snapshot s = s\<lparr>vs_pdu_egress_writes := {}\<rparr>"

datatype smi_error = SmiNotWritable | SmiCommitFailed | SmiInconsistentValue | SmiWrongValue

definition smi_of :: "exn \<Rightarrow> smi_error" where
  "smi_of e = (case e of
      CommitFailedError \<Rightarrow> SmiCommitFailed
    | NotWritableError \<Rightarrow> SmiNotWritable
    | InconsistentValueError \<Rightarrow> SmiInconsistentValue
    | _ \<Rightarrow> SmiWrongValue)"

fun write_loop ::
    "switch_model \<Rightarrow> nat \<Rightarrow> (ustr \<times> snmp_value) list \<Rightarrow> virtual_switch
      \<Rightarrow> (smi_error \<times> nat, unit) res \<times> virtual_switch" where
  "write_loop m idx [] s = (Inr (), s)"
| "write_loop m idx ((oid, value) # vbs) s =
     (if \<not> is_writable_oid m oid then (Inl (SmiNotWritable, idx), s)
      else case apply_write oid value s of
             (Inl e, s1) \<Rightarrow> (Inl (smi_of e, idx), s1)
           | (Inr _, s1) \<Rightarrow> write_loop m (Suc idx) vbs s1)"

definition write_pdu ::
    "switch_model \<Rightarrow> (ustr \<times> snmp_value) list \<Rightarrow> virtual_switch
      \<Rightarrow> (smi_error \<times> nat, unit) res \<times> virtual_switch" where
  "write_pdu m vbs s =
     (let s0 = snapshot s in
      case write_loop m 0 vbs s0 of
        (Inl e, _) \<Rightarrow> (Inl e, s0)
      | (Inr x, s1) \<Rightarrow> (Inr x, s1))"

text \<open>A PDU is applied as a whole or not at all.\<close>

lemma write_pdu_atomic:
  "write_pdu m vbs s = (Inl e, s') \<Longrightarrow> s' = snapshot s"
  by (auto simp: write_pdu_def Let_def split: sum.splits prod.splits)

section \<open>Which handler an identifier reaches\<close>

lemma column_dots:
  "ys \<noteq> [] \<Longrightarrow> xs \<noteq> [] \<Longrightarrow> column (dots ys) (dots xs) cond f =
    (if take (length ys) xs = ys \<and> length xs = Suc (length ys)
     then (if cond (int (last xs)) then Some (f (int (last xs))) else None) else None)"
  by (simp add: column_def oid_tail_dots)

lemma is_col_dots:
  "ys \<noteq> [] \<Longrightarrow> xs \<noteq> [] \<Longrightarrow> is_col (dots ys) (dots xs) \<longleftrightarrow> take (length ys) xs = ys \<and> length xs = Suc (length ys)"
  by (simp add: is_col_def oid_tail_dots)

lemma poe_admin_dots: "POE_ADMIN_COLUMN = dots [1, 3, 6, 1, 2, 1, 105, 1, 1, 1, 3, 1]"
  by (simp add: POE_ADMIN_COLUMN_def PETH_PSE_PORT_TABLE_def lit_def show_nat.simps dots.simps)

lemmas dispatch = apply_write_def standard_handlers_def switchport_handlers_def
  column_dots is_col_dots oid_dots col_dots poe_admin_dots

lemma apply_write_switchport:
  assumes "get_model (vs_model_key s) = Inr m" "switchport_model m"
  shows "apply_write (sv_oid (set_of (int p) w)) (sv_value (set_of (int p) w)) s = write_switchport (int p) w s"
  using assms
  by (cases w)
    (simp_all add: dispatch write_switchport_mode_def write_access_vlan_def write_native_vlan_def
      write_allowed_vlans_def try_int_def)

lemma switchport_writable:
  "switchport_model m \<Longrightarrow> is_writable_oid m (sv_oid (set_of (int p) w))"
  by (cases w) (simp_all add: is_writable_oid_def dispatch)

end
