(* ===== verification/Virtual_Mib.thy ===== *)
theory Virtual_Mib
  imports Virtual_Snmp "HOL-Library.List_Lexorder"
begin

text \<open>
  The read side of the virtual switch's SNMP agent: \<open>oid_map\<close> of
  \<open>virtual/state.py\<close> section by section, and the sorted view of it that answers
  GET and GETNEXT (\<open>virtual/faces/mibview.py\<close>).
\<close>

section \<open>The projection\<close>

datatype mib_type = TInteger | TGauge32 | TCounter32 | TCounter64 | TIpAddr | TOctets | TOid

type_synonym mib_value = "mib_type \<times> ustr"
type_synonym mib_entry = "ustr \<times> mib_value"

definition state_encode_port_bitmap :: "int set \<Rightarrow> nat \<Rightarrow> ustr py" where
  "state_encode_port_bitmap ports width_bytes =
     res_bind (encode_port_bitmap ports width_bytes) (\<lambda>b. Inr (latin1_decode b))"

text \<open>\<open>x or y\<close> of strings, and of the optional width.\<close>

definition str_or :: "ustr \<Rightarrow> ustr \<Rightarrow> ustr" where
  "str_or x y = (if x = [] then y else x)"

definition vlan_width :: "switch_model \<Rightarrow> virtual_switch \<Rightarrow> nat" where
  "vlan_width m s =
     (case vs_vlan_portlist_width s of Some w \<Rightarrow> if w \<noteq> 0 then w else vlan_bitmap_width m
      | None \<Rightarrow> vlan_bitmap_width m)"

abbreviation num :: "int \<Rightarrow> ustr" where "num \<equiv> show_int"

definition flag :: "bool \<Rightarrow> ustr" where
  "flag b = (if b then lit ''1'' else lit ''2'')"

definition system_entries :: "switch_model \<Rightarrow> virtual_switch \<Rightarrow> mib_entry list" where
  "system_entries m s =
     [(col DOT1D_BASE_BRIDGE_ADDRESS 0, TOctets,
        (if vs_dot1d_base_mac_ascii s then colon_join (map hex2_upper (vs_nsdp_mac s)) else latin1_decode (vs_nsdp_mac s))),
      (SYS_DESCR, TOctets, str_or (vs_sys_descr s) (lit ''Netgear '' @ lit (m_display_name m))),
      (SYS_OBJECT_ID, TOid, str_or (vs_sys_object_id s)
         (case vendor_opt m of Some v \<Rightarrow> vo_base v @ lit ''.1'' | None \<Rightarrow> lit ''1.3.6.1.2.1'')),
      (SYS_NAME, TOctets, vs_hostname s)]"

definition collector_entries :: "vendor_oids \<Rightarrow> syslog_collector_sim \<Rightarrow> mib_entry list" where
  "collector_entries v c =
     [(col (vo_base v @ lit ''.14.1.4.5.1.2'') (sc_index c), TInteger, lit ''1''),
      (col (vo_base v @ lit ''.14.1.4.5.1.3'') (sc_index c), TOctets, sc_host c),
      (col (vo_base v @ lit ''.14.1.4.5.1.4'') (sc_index c), TGauge32, num (sc_port c)),
      (col (vo_base v @ lit ''.14.1.4.5.1.5'') (sc_index c), TInteger, num (sc_severity c)),
      (col (vo_base v @ lit ''.14.1.4.5.1.7'') (sc_index c), TInteger, num (sc_status c))]"

definition syslog_entries :: "vendor_oids option \<Rightarrow> virtual_switch \<Rightarrow> mib_entry list" where
  "syslog_entries vo s =
     (case vo of
        None \<Rightarrow> []
      | Some v \<Rightarrow>
          [(vo_base v @ lit ''.14.1.4.1.0'', TInteger, num (sy_admin_mode (vs_syslog s))),
           (vo_base v @ lit ''.14.1.4.3.0'', TGauge32, num (sy_local_port (vs_syslog s)))]
          @ concat (map (collector_entries v) (sy_collectors (vs_syslog s))))"

definition counter_entry :: "ustr \<Rightarrow> mib_type \<Rightarrow> int \<Rightarrow> int option \<Rightarrow> mib_entry list" where
  "counter_entry base ty port val = (case val of Some n \<Rightarrow> [(col base port, ty, num n)] | None \<Rightarrow> [])"

definition port_entries :: "int \<times> port_sim \<Rightarrow> mib_entry list" where
  "port_entries = (\<lambda>(port, sim).
     [(col IF_ADMIN_STATUS port, TInteger, flag (pt_admin sim)),
      (col IF_OPER_STATUS port, TInteger, flag (pt_link sim)),
      (col IF_HIGH_SPEED port, TGauge32, num (pt_speed sim)),
      (col IF_TYPE port, TInteger, num (pt_if_type sim)),
      (col IF_NAME port, TOctets, pt_name sim)]
     @ (if pt_serves_etherlike sim
        then [(col DOT3_STATS_DUPLEX_STATUS port, TInteger, if pt_link sim then lit ''3'' else lit ''1''),
              (col DOT3_PAUSE_OPER_MODE port, TInteger, if pt_flow_control sim then lit ''4'' else lit ''1''),
              (col DOT3_PAUSE_ADMIN_MODE port, TInteger, if pt_flow_control sim then lit ''4'' else lit ''1'')]
        else [])
     @ (case pt_description sim of Some d \<Rightarrow> [(col IF_ALIAS port, TOctets, d)] | None \<Rightarrow> [])
     @ counter_entry IF_HC_IN_OCTETS TCounter64 port (pt_rx_octets sim)
     @ counter_entry IF_HC_OUT_OCTETS TCounter64 port (pt_tx_octets sim)
     @ counter_entry IF_HC_IN_UCAST TCounter64 port (pt_rx_ucast sim)
     @ counter_entry IF_HC_OUT_UCAST TCounter64 port (pt_tx_ucast sim)
     @ counter_entry IF_IN_ERRORS TCounter32 port (pt_rx_errors sim)
     @ counter_entry IF_OUT_ERRORS TCounter32 port (pt_tx_errors sim))"

definition switchport_entries :: "virtual_switch \<Rightarrow> int \<Rightarrow> mib_entry list py" where
  "switchport_entries s port =
     res_bind (vlan_bitmap_bytes (dict_at (vs_switchport_general_tagged s) port)) (\<lambda>tagged.
     res_bind (vlan_bitmap_bytes (dict_at (vs_switchport_general_untagged s) port)) (\<lambda>untagged.
       Inr [(col FASTPATH_SWITCHPORT_MODE port, TInteger, num (dict_at (vs_switchport_mode s) port)),
            (col FASTPATH_SWITCHPORT_ACCESS_VLAN port, TGauge32, num (dict_at (vs_switchport_access_vlan s) port)),
            (col FASTPATH_SWITCHPORT_NATIVE_VLAN port, TGauge32, num (dict_at (vs_switchport_native_vlan s) port)),
            (col FASTPATH_SWITCHPORT_ALLOWED_VLANS port, TOctets,
               latin1_decode (dict_at (vs_switchport_allowed_vlans s) port)),
            (col FASTPATH_SWITCHPORT_TAGGED_VLANS port, TOctets, latin1_decode tagged),
            (col FASTPATH_SWITCHPORT_UNTAGGED_VLANS port, TOctets, latin1_decode untagged)]))"

definition vlan_entries :: "nat \<Rightarrow> int \<times> vlan_sim \<Rightarrow> mib_entry list py" where
  "vlan_entries width = (\<lambda>(vid, v).
     res_bind (state_encode_port_bitmap (vl_member v) width) (\<lambda>member.
     res_bind (state_encode_port_bitmap (vl_untagged v) width) (\<lambda>untagged.
     res_bind (state_encode_port_bitmap (configured v) width) (\<lambda>static_egress.
       Inr ([(col (DOT1Q_VLAN_CURRENT_EGRESS @ lit ''.0'') vid, TOctets, member),
             (col (DOT1Q_VLAN_CURRENT_UNTAGGED @ lit ''.0'') vid, TOctets, untagged),
             (col (DOT1Q_VLAN_STATUS @ lit ''.0'') vid, TInteger, if vl_static_row v then lit ''2'' else lit ''1'')]
            @ (if \<not> vl_static_row v then []
               else [(col DOT1Q_VLAN_STATIC_NAME vid, TOctets, vl_name v),
                     (col DOT1Q_VLAN_STATIC_EGRESS vid, TOctets, static_egress),
                     (col DOT1Q_VLAN_STATIC_UNTAGGED vid, TOctets, untagged)]))))))"

definition pvid_entries :: "virtual_switch \<Rightarrow> mib_entry list" where
  "pvid_entries s = map (\<lambda>(port, pv). (col DOT1Q_PVID port, TGauge32, num pv)) (vs_pvids s)"

definition poe_entries :: "vendor_oids option \<Rightarrow> int \<times> poe_sim \<Rightarrow> mib_entry list" where
  "poe_entries vo = (\<lambda>(port, p).
     [(col (PETH_PSE_PORT_TABLE @ lit ''.3.1'') port, TInteger, flag (pe_admin p)),
      (col (PETH_PSE_PORT_TABLE @ lit ''.6.1'') port, TInteger, num (pe_detect p))]
     @ (case vo of Some v \<Rightarrow> [(col (vo_poe_power_mw v @ lit ''.1'') port, TGauge32, num (pe_power_mw p))] | None \<Rightarrow> []))"

definition sensor_entries :: "vendor_oids option \<Rightarrow> sensor_sim list \<Rightarrow> mib_entry list py" where
  "sensor_entries vo sensors =
     (case vo of
        None \<Rightarrow> Inr []
      | Some v \<Rightarrow>
          res_map (\<lambda>ss.
            (case dict_get [(lit ''fan'', vo_box_fan v), (lit ''power'', vo_box_psu_power v),
                            (lit ''temperature'', vo_box_temp v)] (ss_kind ss) of
               None \<Rightarrow> Inl KeyError
             | Some base \<Rightarrow> Inr (base @ lit ''.'' @ ss_instance ss, TOctets, ss_raw ss))) sensors)"

definition entity_entries :: "entity_sim \<Rightarrow> mib_entry list" where
  "entity_entries e =
     [(col ENT_PHYSICAL_CLASS (en_index e), TInteger, num (en_phys_class e)),
      (col ENT_PHYSICAL_NAME (en_index e), TOctets, en_name e),
      (col ENT_PHYSICAL_DESCR (en_index e), TOctets, en_descr e)]"

definition mac_entry_of :: "mac_sim \<Rightarrow> mib_entry" where
  "mac_entry_of c =
     (col DOT1Q_TP_FDB_PORT (mc_vlan c) @ lit ''.'' @ dot_join (map show_int (mc_mac_bytes c)),
      TInteger, num (mc_bridge_port c))"

definition lldp_entries :: "lldp_sim \<Rightarrow> mib_entry list" where
  "lldp_entries nb =
     (let idx = dot_join [num (ll_time_mark nb), num (ll_local_port nb), num (ll_rem_idx nb)] in
      [(LLDP_REM_TABLE @ lit ''.1.5.'' @ idx, TOctets, ll_chassis nb),
       (LLDP_REM_TABLE @ lit ''.1.7.'' @ idx, TOctets, ll_port_id nb),
       (LLDP_REM_TABLE @ lit ''.1.8.'' @ idx, TOctets, ll_port_desc nb),
       (LLDP_REM_TABLE @ lit ''.1.9.'' @ idx, TOctets, ll_sys_name nb)])"

definition mgmt_entries :: "vendor_oids option \<Rightarrow> mgmt_sim \<Rightarrow> mib_entry list" where
  "mgmt_entries vo g =
     [(IP_ADENT_ADDR @ lit ''.'' @ mg_address g, TIpAddr, mg_address g),
      (IP_ADENT_NETMASK @ lit ''.'' @ mg_address g, TIpAddr, mg_netmask g),
      (IP_ROUTE_DEST @ lit ''.0.0.0.0'', TIpAddr, lit ''0.0.0.0''),
      (IP_ROUTE_NEXTHOP @ lit ''.0.0.0.0'', TIpAddr, mg_gateway g)]
     @ (case vo of
          Some v \<Rightarrow> [(vo_dhcp_mode_unverified v @ lit ''.0'', TInteger,
                      if mg_mode g = lit ''static'' then lit ''2'' else lit ''1'')]
        | None \<Rightarrow> [])"

text \<open>
  The entries in the order they are stored, over a state whose switchport rows are
  seeded; and \<open>oid_map\<close>, which seeds them on the way.
\<close>

definition oid_entries :: "switch_model \<Rightarrow> virtual_switch \<Rightarrow> mib_entry list py" where
  "oid_entries m s =
     (let vo = vendor_opt m in
      res_bind (if switchport_model m then res_map (switchport_entries s) (map fst (vs_ports s)) else Inr [])
        (\<lambda>rows.
      res_bind (res_map (vlan_entries (vlan_width m s)) (vs_vlans s)) (\<lambda>vlans.
      res_bind (sensor_entries vo (vs_sensors s)) (\<lambda>sensors.
        Inr (system_entries m s
             @ syslog_entries vo s
             @ concat (map port_entries (vs_ports s))
             @ concat rows
             @ concat vlans
             @ pvid_entries s
             @ concat (map (poe_entries vo) (vs_poe s))
             @ sensors
             @ concat (map entity_entries (vs_entity_components s))
             @ map mac_entry_of (vs_macs s)
             @ map (\<lambda>(bp, ifx). (col DOT1D_BASE_PORT_IF_INDEX bp, TInteger, num ifx)) (vs_bridge_ports s)
             @ concat (map lldp_entries (vs_lldp s))
             @ mgmt_entries vo (vs_mgmt s))))))"

definition oid_map :: "switch_model \<Rightarrow> virtual_switch \<Rightarrow> (ustr, mib_value) dict py \<times> virtual_switch" where
  "oid_map m s =
     (let s1 = (if switchport_model m then ensure_rows s else s)
      in (res_bind (oid_entries m s1) (\<lambda>es. Inr (dict_of es)), s1))"

section \<open>The sorted view\<close>

type_synonym mib_row = "int list \<times> mib_value"

definition oid_to_tuple :: "ustr \<Rightarrow> int list py" where
  "oid_to_tuple oid = res_map int_of_text (split_on 46 (dropWhile (\<lambda>c. c = 46) oid))"

definition load_view :: "(ustr, mib_value) dict \<Rightarrow> mib_row list py" where
  "load_view d =
     res_bind (res_map (\<lambda>(oid, v). res_bind (oid_to_tuple oid) (\<lambda>t. Inr (t, v))) d)
       (\<lambda>entries. Inr (sort_key fst entries))"

text \<open>\<open>bisect_left\<close> and \<open>bisect_right\<close> on a sorted list.\<close>

definition bisect_left :: "'a::linorder list \<Rightarrow> 'a \<Rightarrow> nat" where
  "bisect_left xs x = length (takeWhile (\<lambda>y. y < x) xs)"

definition bisect_right :: "'a::linorder list \<Rightarrow> 'a \<Rightarrow> nat" where
  "bisect_right xs x = length (takeWhile (\<lambda>y. y \<le> x) xs)"

definition view_get :: "mib_row list \<Rightarrow> int list \<Rightarrow> mib_row option" where
  "view_get view oid =
     (let i = bisect_left (map fst view) oid
      in if i < length view \<and> fst (view ! i) = oid then Some (view ! i) else None)"

definition view_get_next :: "mib_row list \<Rightarrow> int list \<Rightarrow> mib_row option" where
  "view_get_next view oid =
     (let i = bisect_right (map fst view) oid
      in if i < length view then Some (view ! i) else None)"

end
