(* ===== verification/Snmp_Client.thy ===== *)
theory Snmp_Client
  imports Snmp_Write
begin

text \<open>
  The client the SNMP readers and writers are given (\<open>SnmpWriteClient\<close> of
  \<open>protocols/snmp/client.py\<close>), over a world \<open>'w\<close> it reads and changes.
\<close>

record 'w snmp_client =
  cl_get :: "ustr list \<Rightarrow> ('w, exn, snmp_row list) io"
  cl_walk :: "ustr \<Rightarrow> ('w, exn, snmp_row list) io"
  cl_set_many :: "set_varbind list \<Rightarrow> ('w, exn, unit) io"

definition cl_set :: "'w snmp_client \<Rightarrow> set_varbind \<Rightarrow> ('w, exn, unit) io" where
  "cl_set c vb = cl_set_many c [vb]"

end
