(* ===== verification/Snmp_Agent.thy ===== *)
theory Snmp_Agent
  imports Virtual_Mib Snmp_Client
begin

text \<open>
  The SNMP agent around a virtual switch (\<open>virtual/faces/snmp.py\<close>) and the client
  that talks to it (\<open>transport/aio/snmp_pysnmp.py\<close>). pysnmp carries the messages:
  what is modelled of it is that a request reaches the agent's callbacks and their
  answer comes back, a value in the range of its SMI type unchanged, and that a
  walk repeats GETNEXT until an identifier leaves the subtree.
\<close>

section \<open>Values on the wire\<close>

text \<open>Printable octets arrive as text, anything else as bytes; the empty string is text.\<close>

definition printable :: "byte \<Rightarrow> bool" where
  "printable b \<longleftrightarrow> 0x20 \<le> unat b \<and> unat b < 0x7F"

definition octet_value :: "bytes \<Rightarrow> octets \<times> ustr" where
  "octet_value raw =
     (if raw = [] \<or> list_all printable raw then (Text (map unat raw), lit ''STRING'')
      else (Raw raw, lit ''Hex-STRING''))"

text \<open>The ranges of the SMI integer types (RFC 2578).\<close>

definition smi_int :: "int \<Rightarrow> int \<Rightarrow> ustr \<Rightarrow> int py" where
  "smi_int lo hi v =
     res_bind (int_of_text v) (\<lambda>n. if lo \<le> n \<and> n \<le> hi then Inr n else Inl ValueError)"

text \<open>A dotted quad of decimal numbers, and a dotted identifier.\<close>

definition smi_ip :: "ustr \<Rightarrow> ustr py" where
  "smi_ip v =
     res_bind (res_map int_of_text (split_on 46 v)) (\<lambda>ns.
       if length ns = 4 \<and> list_all (\<lambda>n. 0 \<le> n \<and> n < 256) ns
       then Inr (dot_join (map show_int ns)) else Inl ValueError)"

definition smi_oid :: "ustr \<Rightarrow> ustr py" where
  "smi_oid v = res_bind (oid_to_tuple v) (\<lambda>ns. Inr (dot_join (map show_int ns)))"

text \<open>
  \<open>_to_smi_value\<close> on the agent's side and \<open>_normalize_varbind\<close> on the client's: the
  value and the type token of a row.
\<close>

definition read_value :: "mib_value \<Rightarrow> (snmp_value \<times> ustr) py" where
  "read_value tv =
     (case tv of (ty, v) \<Rightarrow>
       case ty of
         TInteger \<Rightarrow> res_bind (smi_int (-2147483648) 2147483647 v) (\<lambda>n. Inr (VInt n, lit ''INTEGER''))
       | TGauge32 \<Rightarrow> res_bind (smi_int 0 4294967295 v) (\<lambda>n. Inr (VInt n, lit ''Gauge32''))
       | TCounter32 \<Rightarrow> res_bind (smi_int 0 4294967295 v) (\<lambda>n. Inr (VInt n, lit ''Counter32''))
       | TCounter64 \<Rightarrow> res_bind (smi_int 0 18446744073709551615 v) (\<lambda>n. Inr (VInt n, lit ''Counter64''))
       | TIpAddr \<Rightarrow> res_bind (smi_ip v) (\<lambda>a. Inr (VOct (Text a), lit ''IpAddress''))
       | TOctets \<Rightarrow> res_bind (latin1_encode v) (\<lambda>bs.
           Inr (VOct (fst (octet_value bs)), snd (octet_value bs)))
       | TOid \<Rightarrow> res_bind (smi_oid v) (\<lambda>a. Inr (VOct (Text a), lit ''OID'')))"

text \<open>
  \<open>_to_set_value\<close> and \<open>_from_smi_value\<close>: what \<open>apply_write\<close> is given for a binding.
\<close>

definition smi_range :: "int \<Rightarrow> int \<Rightarrow> snmp_value \<Rightarrow> snmp_value py" where
  "smi_range lo hi v =
     res_bind (value_int v) (\<lambda>n. if lo \<le> n \<and> n \<le> hi then Inr (VInt n) else Inl ValueError)"

definition set_value :: "set_varbind \<Rightarrow> snmp_value py" where
  "set_value vb =
     (if sv_letter vb = ''i'' then smi_range (-2147483648) 2147483647 (sv_value vb)
      else if sv_letter vb = ''u'' then smi_range 0 4294967295 (sv_value vb)
      else if sv_letter vb = ''a'' then
        res_bind (smi_ip (str_value (sv_value vb))) (\<lambda>a. Inr (VOct (Text a)))
      else if sv_letter vb = ''s'' \<or> sv_letter vb = ''x'' then
        (case sv_value vb of
           VOct (Raw bs) \<Rightarrow> Inr (VOct (Raw bs))
         | v \<Rightarrow> res_bind (latin1_encode (str_value v)) (\<lambda>bs. Inr (VOct (Raw bs))))
      else Inl (SnmpError SnmpFailed))"

section \<open>The agent\<close>

record snmp_agent =
  ag_state :: virtual_switch
  ag_view :: "mib_row list"

text \<open>\<open>StateMibView.rebuild\<close>; \<open>oid_map\<close> seeds switchport rows on the way.\<close>

definition rebuild :: "switch_model \<Rightarrow> snmp_agent \<Rightarrow> unit py \<times> snmp_agent" where
  "rebuild m a =
     (case oid_map m (ag_state a) of
        (r, s1) \<Rightarrow>
          (case res_bind r load_view of
             Inl e \<Rightarrow> (Inl e, a\<lparr>ag_state := s1\<rparr>)
           | Inr view \<Rightarrow> (Inr (), \<lparr>ag_state = s1, ag_view = view\<rparr>)))"

definition nums_str :: "int list \<Rightarrow> ustr" where
  "nums_str ns = dot_join (map show_int ns)"

datatype read_answer = NoSuchObject | NoSuchInstance | EndOfMib | Answer mib_row

definition read_variable :: "switch_model \<Rightarrow> mib_row list \<Rightarrow> int list \<Rightarrow> read_answer" where
  "read_variable m view oid =
     (if \<not> is_oid_implemented m (nums_str oid) then NoSuchObject
      else case view_get view oid of None \<Rightarrow> NoSuchInstance | Some e \<Rightarrow> Answer e)"

definition read_next_variable :: "switch_model \<Rightarrow> mib_row list \<Rightarrow> int list \<Rightarrow> read_answer" where
  "read_next_variable m view oid =
     (if \<not> is_oid_implemented m (nums_str oid) then NoSuchObject
      else case view_get_next view oid of None \<Rightarrow> EndOfMib | Some e \<Rightarrow> Answer e)"

definition write_variables ::
    "switch_model \<Rightarrow> (ustr \<times> snmp_value) list \<Rightarrow> snmp_agent \<Rightarrow> unit py \<times> snmp_agent" where
  "write_variables m vbs a =
     (case write_pdu m vbs (ag_state a) of
        (Inl (e, idx), s1) \<Rightarrow> (Inl (SnmpError SnmpRefused), a\<lparr>ag_state := s1\<rparr>)
      | (Inr _, s1) \<Rightarrow>
          (case rebuild m (a\<lparr>ag_state := s1\<rparr>) of
             (Inl e, a1) \<Rightarrow> (Inl (SnmpError SnmpFailed), a1)
           | (Inr _, a1) \<Rightarrow> (Inr (), a1)))"

text \<open>\<open>bisect_right\<close> finds an identifier past the one it is given, so a walk ends.\<close>

lemma view_get_next_greater: "view_get_next view oid = Some e \<Longrightarrow> oid < fst e \<and> e \<in> set view"
proof -
  assume a: "view_get_next view oid = Some e"
  let ?i = "length (takeWhile (\<lambda>y. y \<le> oid) (map fst view))"
  have i: "?i < length (map fst view)" "e = view ! ?i"
    using a by (auto simp: view_get_next_def bisect_right_def Let_def split: if_splits)
  have "\<not> map fst view ! ?i \<le> oid" by (rule nth_length_takeWhile [OF i(1)])
  with i show ?thesis by auto
qed

function walk_from :: "switch_model \<Rightarrow> mib_row list \<Rightarrow> int list \<Rightarrow> int list \<Rightarrow> mib_row list" where
  "walk_from m view base oid =
     (case read_next_variable m view oid of
        Answer e \<Rightarrow>
          if take (length base) (fst e) = base then e # walk_from m view base (fst e) else []
      | _ \<Rightarrow> [])"
  by pat_completeness auto
termination
proof (relation "measure (\<lambda>(m, view, base, oid). card {e \<in> set view. oid < fst e})")
  fix m view and base oid :: "int list" and e
  assume "read_next_variable m view oid = Answer e"
  then have "view_get_next view oid = Some e"
    by (auto simp: read_next_variable_def split: if_splits option.splits)
  note e = view_get_next_greater [OF this]
  have "{x \<in> set view. fst e < fst x} \<subset> {x \<in> set view. oid < fst x}"
    using e by (auto intro: less_trans)
  then have "card {x \<in> set view. fst e < fst x} < card {x \<in> set view. oid < fst x}"
    by (intro psubset_card_mono) auto
  then show "((m, view, base, fst e), m, view, base, oid) \<in> measure (\<lambda>(m, view, base, oid). card {e \<in> set view. oid < fst e})"
    by simp
qed simp

declare walk_from.simps [simp del]

section \<open>The client of an agent\<close>

definition row_of :: "mib_row \<Rightarrow> snmp_row py" where
  "row_of e = res_bind (read_value (snd e)) (\<lambda>(v, ty). Inr (mk_row (nums_str (fst e)) v ty))"

text \<open>Whatever fails on the way reaches the caller as \<open>SnmpError\<close>.\<close>

definition as_snmp_error :: "'a py \<Rightarrow> 'a py" where
  "as_snmp_error r = (case r of
      Inl (SnmpError x) \<Rightarrow> Inl (SnmpError x) | Inl _ \<Rightarrow> Inl (SnmpError SnmpFailed) | Inr x \<Rightarrow> Inr x)"

definition agent_model :: "snmp_agent \<Rightarrow> switch_model py" where
  "agent_model a = get_model (vs_model_key (ag_state a))"

definition get_one :: "switch_model \<Rightarrow> mib_row list \<Rightarrow> ustr \<Rightarrow> snmp_row py" where
  "get_one m view oid =
     res_bind (oid_to_tuple oid) (\<lambda>ns.
       case read_variable m view ns of
         Answer e \<Rightarrow> row_of e
       | _ \<Rightarrow> Inl (SnmpError SnmpAbsent))"

definition agent_get :: "ustr list \<Rightarrow> (snmp_agent, exn, snmp_row list) io" where
  "agent_get oids a =
     (as_snmp_error (res_bind (agent_model a) (\<lambda>m. res_map (get_one m (ag_view a)) oids)), a)"

definition agent_walk :: "ustr \<Rightarrow> (snmp_agent, exn, snmp_row list) io" where
  "agent_walk base a =
     (as_snmp_error (res_bind (agent_model a) (\<lambda>m.
        res_bind (oid_to_tuple base) (\<lambda>ns. res_map row_of (walk_from m (ag_view a) ns ns)))), a)"

definition agent_set_many :: "set_varbind list \<Rightarrow> (snmp_agent, exn, unit) io" where
  "agent_set_many vbs a =
     (if vbs = [] then (Inr (), a)
      else
        (case res_bind (agent_model a) (\<lambda>m.
                res_bind (res_map (\<lambda>vb. res_bind (set_value vb) (\<lambda>v. Inr (sv_oid vb, v))) vbs) (\<lambda>ps. Inr (m, ps))) of
           Inl e \<Rightarrow> (as_snmp_error (Inl e), a)
         | Inr (m, ps) \<Rightarrow> write_variables m ps a))"

definition agent_client :: "snmp_agent snmp_client" where
  "agent_client = \<lparr>cl_get = agent_get, cl_walk = agent_walk, cl_set_many = agent_set_many\<rparr>"

end
