(* ===== verification/Snmp_View.thy ===== *)
theory Snmp_View
  imports Snmp_Agent
begin

text \<open>
  What a walk of the agent returns: the entries of the projection under the base,
  in the order of their numbers. The entries are told apart by their columns, so
  a later proof only looks at the sections that share a root with its column.
\<close>

section \<open>Subtrees\<close>

abbreviation below :: "'a list \<Rightarrow> 'a list \<Rightarrow> bool" where
  "below base oid \<equiv> take (length base) oid = base"

lemma under_interval:
  fixes base :: "int list"
  assumes "base \<le> a" "\<not> below base a" "a \<le> x"
  shows "\<not> below base x"
  using assms
proof (induction base arbitrary: a x)
  case (Cons b bs)
  then obtain c cs where a: "a = c # cs" by (cases a) auto
  show ?case
  proof (cases x)
    case (Cons y ys)
    with Cons.prems a Cons.IH [of cs ys] show ?thesis by auto
  qed simp
qed simp

lemma under_greater: "below base x \<Longrightarrow> x \<noteq> base \<Longrightarrow> base < (x :: int list)"
proof (induction base arbitrary: x)
  case Nil
  then show ?case by (cases x) auto
next
  case (Cons b bs)
  then show ?case by (cases x) auto
qed

lemma sorted_dropWhile:
  fixes xs :: "('a::linorder \<times> 'b) list"
  assumes "sorted_wrt (<) (map fst xs)"
  shows "dropWhile (\<lambda>e. fst e \<le> k) xs = filter (\<lambda>e. k < fst e) xs"
  using assms
proof (induction xs)
  case (Cons x xs)
  then show ?case by (cases "fst x \<le> k") (auto intro!: filter_True [symmetric])
qed simp

lemma sorted_next:
  fixes xs :: "('a::linorder \<times> 'b) list"
  assumes srt: "sorted_wrt (<) (map fst xs)" and eq: "filter (\<lambda>e. k < fst e) xs = e # r"
  shows "filter (\<lambda>x. fst e < fst x) xs = r"
proof -
  have "k < fst e" using eq by (metis (mono_tags, lifting) filter_eq_ConsD)
  then have "filter (\<lambda>x. fst e < fst x) xs = filter (\<lambda>x. fst e < fst x) (filter (\<lambda>e. k < fst e) xs)"
    by (auto intro!: filter_cong)
  also have "\<dots> = filter (\<lambda>x. fst e < fst x) r" by (simp add: eq)
  also have "\<dots> = r"
  proof (rule filter_True)
    have "sorted_wrt (<) (map fst (filter (\<lambda>e. k < fst e) xs))"
      using srt by (simp add: sorted_wrt_map sorted_wrt_filter)
    then show "\<forall>x \<in> set r. fst e < fst x" by (simp add: eq)
  qed
  finally show ?thesis .
qed

lemma view_get_next_filter:
  assumes "sorted_wrt (<) (map fst view)"
  shows "view_get_next view oid =
    (case filter (\<lambda>e. oid < fst e) view of [] \<Rightarrow> None | e # _ \<Rightarrow> Some e)"
proof -
  define t where "t = takeWhile (\<lambda>e. fst e \<le> oid) view"
  have len: "bisect_right (map fst view) oid = length t"
    by (simp add: bisect_right_def takeWhile_map comp_def t_def)
  have split: "view = t @ filter (\<lambda>e. oid < fst e) view"
    unfolding sorted_dropWhile [OF assms, symmetric] by (simp add: t_def)
  show ?thesis
  proof (cases "filter (\<lambda>e. oid < fst e) view")
    case Nil
    with split have "length view = length t" by (simp only: append_Nil2)
    with Nil show ?thesis by (simp add: view_get_next_def len)
  next
    case (Cons e r)
    with split have v: "view = t @ e # r" by (simp only:)
    then have "length t < length view" "view ! length t = e" by (simp_all only: nth_append_length) simp
    with Cons show ?thesis by (simp add: view_get_next_def len)
  qed
qed

text \<open>A walk returns exactly the rows below its base, and ends.\<close>

lemma walk_from_eq:
  assumes "sorted_wrt (<) (map fst view)" "base \<le> oid"
    and "is_oid_implemented m (nums_str oid)"
    and "\<And>e. e \<in> set view \<Longrightarrow> below base (fst e) \<Longrightarrow> is_oid_implemented m (nums_str (fst e))"
  shows "walk_from m view base oid = filter (\<lambda>e. below base (fst e) \<and> oid < fst e) view"
  using assms
proof (induction m view base oid rule: walk_from.induct)
  case (1 m view base oid)
  note next_eq = view_get_next_filter [OF 1(2), of oid]
  show ?case
  proof (cases "filter (\<lambda>e. oid < fst e) view")
    case Nil
    then have "filter (\<lambda>e. below base (fst e) \<and> oid < fst e) view = []"
      by (auto simp: filter_empty_conv)
    moreover have "read_next_variable m view oid = EndOfMib"
      using Nil 1(4) next_eq by (simp add: read_next_variable_def)
    ultimately show ?thesis
      by (simp add: walk_from.simps [of m view base oid])
  next
    case (Cons e r)
    note r = Cons sorted_next [OF 1(2) Cons]
    have split: "filter (\<lambda>e. below base (fst e) \<and> oid < fst e) view = filter (\<lambda>e. below base (fst e)) (e # r)"
      unfolding r(1) [symmetric] by (simp add: conj_commute)
    have e: "e \<in> set view" "oid < fst e" using arg_cong [OF r(1), of set] by auto
    have next_e: "read_next_variable m view oid = Answer e"
      using 1(4) Cons next_eq by (simp add: read_next_variable_def)
    show ?thesis
    proof (cases "below base (fst e)")
      case True
      have "walk_from m view base (fst e) = filter (\<lambda>x. below base (fst x) \<and> fst e < fst x) view"
      proof (rule 1(1) [OF next_e True 1(2)])
        show "base \<le> fst e" using 1(3) e(2) by simp
        show "is_oid_implemented m (nums_str (fst e))" using 1(5) [OF e(1) True] .
      qed (rule 1(5))
      also have "\<dots> = filter (\<lambda>x. below base (fst x)) r"
        unfolding r(2) [symmetric] by (simp add: conj_commute)
      finally show ?thesis
        unfolding split walk_from.simps [of m view base oid] next_e using True by simp
    next
      case False
      have "\<not> below base (fst x)" if "x \<in> set r" for x
      proof (rule under_interval [OF _ False])
        show "base \<le> fst e" using 1(3) e(2) by simp
        have "x \<in> set (filter (\<lambda>x. fst e < fst x) view)" using that r(2) by simp
        then show "fst e \<le> fst x" by (simp add: less_imp_le)
      qed
      then have "filter (\<lambda>x. below base (fst x)) (e # r) = []"
        using False by (auto simp: filter_empty_conv)
      then show ?thesis
        unfolding split walk_from.simps [of m view base oid] next_e using False by simp
    qed
  qed
qed

section \<open>Numbers of an identifier\<close>

lemma show_int_nat [simp]: "show_int (int n) = show_nat n"
  by (simp add: show_int_def)

lemma dot_join_dots: "dot_join (map show_nat xs) = dots xs"
  by (induction xs rule: dots.induct) (simp_all add: dot_join_def dots.simps)

lemma nums_str_dots [simp]: "nums_str (map int xs) = dots xs"
  by (simp add: nums_str_def comp_def dot_join_dots)

lemma dots_hd: "xs \<noteq> [] \<Longrightarrow> \<exists>c cs. dots xs = c # cs \<and> is_digit c"
proof -
  assume "xs \<noteq> []"
  then obtain x ys where "xs = x # ys" by (cases xs) auto
  then have "\<exists>t. dots xs = show_nat x @ t" by (cases ys) (auto simp: dots.simps)
  moreover obtain c cs where "show_nat x = c # cs" "is_digit c"
    using hd_show_nat [of x] by (cases "show_nat x") auto
  ultimately show ?thesis by auto
qed

lemma int_of_text_show_nat [simp]: "int_of_text (show_nat n) = Inr (int n)"
  by (simp add: int_of_text_digits)

lemma oid_to_tuple_dots [simp]: "xs \<noteq> [] \<Longrightarrow> oid_to_tuple (dots xs) = Inr (map int xs)"
proof -
  assume xs: "xs \<noteq> []"
  obtain c cs where "dots xs = c # cs" "is_digit c" using dots_hd [OF xs] by blast
  then have "dropWhile (\<lambda>c. c = 46) (dots xs) = dots xs" by (auto simp: is_digit_def)
  moreover have "res_map int_of_text (map show_nat xs) = Inr (map int xs)"
    by (induction xs) auto
  ultimately show ?thesis by (simp add: oid_to_tuple_def split_dots [OF xs])
qed

section \<open>Entries by column\<close>

definition column_of :: "nat list \<Rightarrow> mib_entry list \<Rightarrow> mib_entry list" where
  "column_of base es = filter (\<lambda>e. suffix_of (dots base) (fst e) \<noteq> None) es"

lemma column_of_simps [simp]:
  "column_of b [] = []"
  "column_of b (es @ fs) = column_of b es @ column_of b fs"
  "column_of b (e # es) = (if suffix_of (dots b) (fst e) \<noteq> None then [e] else []) @ column_of b es"
  by (simp_all add: column_of_def)

lemma column_of_concat: "column_of b (concat ess) = concat (map (column_of b) ess)"
  by (induction ess) auto

text \<open>Every identifier is a dotted list of numbers.\<close>

definition dotted_oid :: "ustr \<Rightarrow> bool" where
  "dotted_oid o' \<longleftrightarrow> (\<exists>xs. xs \<noteq> [] \<and> o' = dots xs)"

definition tuple_of :: "ustr \<Rightarrow> int list" where
  "tuple_of o' = res_the (oid_to_tuple o')"

lemma tuple_of_dots [simp]: "xs \<noteq> [] \<Longrightarrow> tuple_of (dots xs) = map int xs"
  by (simp add: tuple_of_def)

lemma tuple_of_inject: "dotted_oid a \<Longrightarrow> dotted_oid b \<Longrightarrow> tuple_of a = tuple_of b \<Longrightarrow> a = b"
  unfolding dotted_oid_def by (metis list.inj_map_strong of_nat_eq_iff tuple_of_dots)

lemma nums_str_tuple [simp]: "dotted_oid a \<Longrightarrow> nums_str (tuple_of a) = a"
  by (auto simp: dotted_oid_def)

lemma take_map_int: "take n (map int xs) = map int ys \<longleftrightarrow> take n xs = ys"
  by (simp add: take_map inj_map_eq_map inj_on_def)

lemma under_tuple:
  assumes "dotted_oid a" "base \<noteq> []"
  shows "below (map int base) (tuple_of a) \<and> map int base < tuple_of a \<longleftrightarrow> suffix_of (dots base) a \<noteq> None"
proof -
  obtain xs where xs: "xs \<noteq> []" "a = dots xs" using assms(1) by (auto simp: dotted_oid_def)
  have "suffix_of (dots base) a \<noteq> None \<longleftrightarrow> below base xs \<and> length base < length xs"
    using suffix_of_dots [OF assms(2) xs(1)] xs(2) by simp
  moreover have "below (map int base) (map int xs) \<longleftrightarrow> below base xs"
    by (simp add: take_map_int)
  moreover have "map int base < map int xs \<longleftrightarrow> length base < length xs" if "below base xs"
  proof
    assume "map int base < map int xs"
    show "length base < length xs"
    proof (rule ccontr)
      assume "\<not> length base < length xs"
      then have "xs = base" using that by simp
      with \<open>map int base < map int xs\<close> show False by simp
    qed
  next
    assume l: "length base < length xs"
    then have "map int xs \<noteq> map int base" by (auto dest: map_injective simp: inj_on_def)
    moreover have "below (map int base) (map int xs)" using that by (simp add: take_map_int)
    ultimately show "map int base < map int xs" by (intro under_greater)
  qed
  ultimately show ?thesis using xs by auto
qed

text \<open>Filtering a dictionary by its keys.\<close>

lemma dict_set_filter:
  "filter (\<lambda>e. P (fst e)) (dict_set k v d) =
     (if P k then dict_set k v (filter (\<lambda>e. P (fst e)) d) else filter (\<lambda>e. P (fst e)) d)"
  unfolding dict_set_def by (induction d) auto

lemma dict_of_filter: "filter (\<lambda>e. P (fst e)) (dict_of es) = dict_of (filter (\<lambda>e. P (fst e)) es)"
proof (induction es rule: rev_induct)
  case (snoc e es)
  then show ?case by (cases e) (simp add: dict_of_snoc dict_set_filter)
qed (simp add: dict_of_def)

lemma dict_wf_dict_of [simp]: "dict_wf (dict_of es)"
proof (induction es rule: rev_induct)
  case (snoc e es)
  then show ?case by (cases e) (simp add: dict_of_snoc)
qed (simp add: dict_of_def)

lemma dict_set_new: "k \<notin> fst ` set d \<Longrightarrow> dict_set k v d = d @ [(k, v)]"
  unfolding dict_set_def by (induction d) auto

lemma dict_of_distinct: "distinct (map fst es) \<Longrightarrow> dict_of es = es"
proof (induction es rule: rev_induct)
  case (snoc e es)
  then show ?case by (cases e) (simp add: dict_of_snoc dict_set_new)
qed (simp add: dict_of_def)

lemma set_dict_of_keys: "fst ` set (dict_of es) = fst ` set es"
proof (induction es rule: rev_induct)
  case (snoc e es)
  have "fst ` set (dict_set k v d) = insert k (fst ` set d)" for k and v :: 'b and d :: "('a \<times> 'b) list"
    unfolding dict_set_def by (induction d) auto
  with snoc show ?case by (cases e) (simp add: dict_of_snoc)
qed (simp add: dict_of_def)

section \<open>The view of a projection\<close>

definition dotted_entries :: "mib_entry list \<Rightarrow> bool" where
  "dotted_entries es \<longleftrightarrow> list_all (\<lambda>e. dotted_oid (fst e)) es"

definition view_of :: "mib_entry list \<Rightarrow> mib_row list" where
  "view_of es = sort_key fst (map (\<lambda>(a, v). (tuple_of a, v)) (dict_of es))"

lemma load_view_of:
  assumes "dotted_entries es"
  shows "load_view (dict_of es) = Inr (view_of es)"
proof -
  have "oid_to_tuple (fst e) = Inr (tuple_of (fst e))" if "e \<in> set (dict_of es)" for e
  proof -
    have "fst e \<in> fst ` set es" using that set_dict_of_keys [of es] by (metis imageI)
    then have "dotted_oid (fst e)" using assms by (auto simp: dotted_entries_def list_all_iff)
    then show ?thesis by (auto simp: dotted_oid_def)
  qed
  then have "res_map (\<lambda>(oid, v). res_bind (oid_to_tuple oid) (\<lambda>t. Inr (t, v))) (dict_of es)
      = Inr (map (\<lambda>(a, v). (tuple_of a, v)) (dict_of es))"
    by (intro res_map_total) auto
  then show ?thesis by (simp add: load_view_def view_of_def)
qed

lemma view_of_sorted:
  assumes "dotted_entries es"
  shows "sorted_wrt (<) (map fst (view_of es))"
proof -
  have "inj_on tuple_of (fst ` set (dict_of es))"
    using assms tuple_of_inject unfolding set_dict_of_keys dotted_entries_def list_all_iff inj_on_def by blast
  then have "distinct (map fst (map (\<lambda>(a, v). (tuple_of a, v)) (dict_of es)))"
    using dict_wf_dict_of [of es]
    by (simp add: dict_wf_def comp_def case_prod_beta distinct_map inj_on_def)
  moreover have "mset (map fst (sort_key fst xs)) = mset (map fst xs)" for xs :: "mib_row list"
    by simp
  ultimately have "distinct (map fst (view_of es))"
    unfolding view_of_def using mset_eq_imp_distinct_iff by blast
  moreover have "sorted (map fst (view_of es))"
    by (simp add: view_of_def)
  ultimately show ?thesis by (simp add: strict_sorted_iff)
qed

text \<open>
  The rows of a walk: the entries of the column, sorted by their numbers, each with
  its value as the client sees it.
\<close>

definition sorted_column :: "nat list \<Rightarrow> mib_entry list \<Rightarrow> mib_entry list" where
  "sorted_column base es = sort_key (\<lambda>e. tuple_of (fst e)) (column_of base es)"

definition read_of :: "mib_value \<Rightarrow> snmp_value \<times> ustr" where
  "read_of v = res_the (read_value v)"

definition read_row :: "mib_entry \<Rightarrow> snmp_row" where
  "read_row e = mk_row (fst e) (fst (read_of (snd e))) (snd (read_of (snd e)))"

definition readable :: "mib_entry list \<Rightarrow> bool" where
  "readable es \<longleftrightarrow> list_all (\<lambda>e. \<exists>x. read_value (snd e) = Inr x) es"

lemma sort_key_map: "sort_key f (map g xs) = map g (sort_key (\<lambda>x. f (g x)) xs)"
proof -
  have "insort_key f (g x) (map g ys) = map g (insort_key (\<lambda>x. f (g x)) x ys)" for x ys
    by (induction ys) auto
  then show ?thesis by (induction xs) auto
qed

lemma filter_view_of:
  assumes d: "dotted_entries es" and b: "base \<noteq> []" and dist: "distinct (map fst (column_of base es))"
  shows "filter (\<lambda>e. below (map int base) (fst e) \<and> map int base < fst e) (view_of es) =
    map (\<lambda>(a, v). (tuple_of a, v)) (sorted_column base es)"
proof -
  have "dotted_oid (fst e)" if "e \<in> set (dict_of es)" for e
    using that set_dict_of_keys [of es] d by (metis (no_types, lifting) dotted_entries_def image_iff list_all_iff)
  then have eq: "filter (\<lambda>e. below (map int base) (tuple_of (fst e)) \<and> map int base < tuple_of (fst e)) (dict_of es)
      = filter (\<lambda>e. suffix_of (dots base) (fst e) \<noteq> None) (dict_of es)"
    using under_tuple [OF _ b] by (intro filter_cong) auto
  have "filter (\<lambda>e. below (map int base) (fst e) \<and> map int base < fst e) (view_of es) =
      sort_key fst (map (\<lambda>(a, v). (tuple_of a, v))
        (filter (\<lambda>e. below (map int base) (tuple_of (fst e)) \<and> map int base < tuple_of (fst e)) (dict_of es)))"
    unfolding view_of_def filter_sort filter_map by (simp add: comp_def case_prod_beta)
  also have "\<dots> = sort_key fst (map (\<lambda>(a, v). (tuple_of a, v)) (column_of base es))"
  proof -
    have "filter (\<lambda>e. suffix_of (dots base) (fst e) \<noteq> None) (dict_of es) = dict_of (column_of base es)"
      unfolding column_of_def by (rule dict_of_filter)
    then show ?thesis unfolding eq by (simp only: dict_of_distinct [OF dist])
  qed
  also have "\<dots> = map (\<lambda>(a, v). (tuple_of a, v)) (sorted_column base es)"
    unfolding sorted_column_def sort_key_map by (simp only: case_prod_beta fst_conv)
  finally show ?thesis .
qed

section \<open>A walk of the agent\<close>

definition compat :: "nat list \<Rightarrow> nat list \<Rightarrow> bool" where
  "compat a b \<longleftrightarrow> below a b \<or> below b a"

text \<open>Every entry's identifier continues one of the roots.\<close>

definition rooted :: "nat list list \<Rightarrow> mib_entry list \<Rightarrow> bool" where
  "rooted roots es \<longleftrightarrow>
     list_all (\<lambda>e. \<exists>r xs. r \<in> set roots \<and> xs \<noteq> [] \<and> below r xs \<and> fst e = dots xs) es"

lemma rooted_simps [simp]:
  "rooted roots []"
  "rooted roots (es @ fs) \<longleftrightarrow> rooted roots es \<and> rooted roots fs"
  by (simp_all add: rooted_def)

lemma rooted_Cons: "rooted roots (e # es) \<longleftrightarrow>
    (\<exists>r xs. r \<in> set roots \<and> xs \<noteq> [] \<and> below r xs \<and> fst e = dots xs) \<and> rooted roots es"
  by (simp add: rooted_def)

lemma rooted_concat: "(\<And>es. es \<in> set ess \<Longrightarrow> rooted roots es) \<Longrightarrow> rooted roots (concat ess)"
  by (induction ess) auto

lemma rooted_dotted: "rooted roots es \<Longrightarrow> dotted_entries es"
  by (auto simp: rooted_def dotted_entries_def dotted_oid_def list_all_iff)

lemma below_compat: "below r xs \<Longrightarrow> below b xs \<Longrightarrow> compat r b"
proof -
  assume r: "below r xs" and b: "below b xs"
  have "take (length r) (take (length b) xs) = take (length b) (take (length r) xs)"
    by (simp add: min.commute)
  then have "take (length r) b = take (length b) r" using r b by simp
  then show ?thesis
    unfolding compat_def by (cases "length r \<le> length b") (simp_all add: nat_le_linear)
qed

lemma rooted_column:
  assumes "rooted roots es" "base \<noteq> []" "list_all (\<lambda>r. \<not> compat r base) roots"
  shows "column_of base es = []"
proof -
  have "suffix_of (dots base) (fst e) = None" if "e \<in> set es" for e
  proof -
    have "\<exists>r xs. r \<in> set roots \<and> xs \<noteq> [] \<and> below r xs \<and> fst e = dots xs"
      using assms(1) that unfolding rooted_def list_all_iff by (rule bspec)
    then obtain r xs where e: "r \<in> set roots" "xs \<noteq> []" "below r xs" "fst e = dots xs"
      by (elim exE conjE)
    then have "\<not> below base xs" using assms(3) below_compat by (auto simp: list_all_iff)
    then show ?thesis by (simp add: e(4) suffix_of_dots [OF assms(2) e(2)])
  qed
  then show ?thesis by (auto simp: column_of_def filter_empty_conv)
qed

lemma implemented_below:
  assumes vw: "vendor_wf m" and x: "below base xs" "xs \<noteq> []"
    and p: "\<not> compat [1, 3, 6, 1, 2, 1, 105, 1, 1, 1] base"
    and v: "\<And>ns. base_nums ns \<Longrightarrow> \<not> compat (ns @ [15, 1, 1, 1, 2]) base"
  shows "is_oid_implemented m (dots xs)"
proof -
  obtain c cs where "dots xs = c # cs" "is_digit c" using dots_hd [OF x(2)] by blast
  then have d: "dropWhile (\<lambda>c. c = 46) (dots xs) = dots xs" by (auto simp: is_digit_def)
  have clear: "\<not> (dots xs = dots r \<or> suffix_of (dots r) (dots xs) \<noteq> None)" if "\<not> compat r base" "r \<noteq> []" for r
  proof -
    have "\<not> below r xs" using that(1) x(1) below_compat by blast
    then show ?thesis using that(2) x(2) by (auto simp: suffix_of_dots dots_inject)
  qed
  have "list_all (\<lambda>root. \<not> (dots xs = root \<or> suffix_of root (dots xs) \<noteq> None)) (unimplemented_roots m)"
  proof (cases "vendor_opt m")
    case None
    show ?thesis unfolding unimplemented_roots_def None using clear [OF p] by (simp add: oid_dots)
  next
    case (Some vo)
    from vw Some show ?thesis
    proof (rule vendor_opt_dots)
      fix ns
      assume "base_nums ns" "vo_poe_power_mw vo = dots (ns @ [15, 1, 1, 1, 2])"
      then show ?thesis
        unfolding unimplemented_roots_def Some using clear [OF p] clear [OF v] by (simp add: oid_dots)
    qed
  qed
  then show ?thesis by (simp add: is_oid_implemented_def d Let_def)
qed

definition serves :: "switch_model \<Rightarrow> mib_entry list \<Rightarrow> snmp_agent \<Rightarrow> bool" where
  "serves m es a \<longleftrightarrow> agent_model a = Inr m \<and> vendor_wf m \<and> dotted_entries es \<and> ag_view a = view_of es"

lemma set_sorted_column [simp]: "set (sorted_column base es) = set (column_of base es)"
  by (simp add: sorted_column_def)

lemma agent_walk_rows:
  assumes s: "serves m es a" and b: "base \<noteq> []" and dist: "distinct (map fst (column_of base es))"
    and rd: "readable (column_of base es)"
    and p: "\<not> compat [1, 3, 6, 1, 2, 1, 105, 1, 1, 1] base"
    and v: "\<And>ns. base_nums ns \<Longrightarrow> \<not> compat (ns @ [15, 1, 1, 1, 2]) base"
  shows "agent_walk (dots base) a = (Inr (map read_row (sorted_column base es)), a)"
proof -
  have m: "agent_model a = Inr m" and vw: "vendor_wf m" and d: "dotted_entries es" and vi: "ag_view a = view_of es"
    using s by (simp_all add: serves_def)
  have bimp: "is_oid_implemented m (nums_str (map int base))"
    using implemented_below [OF vw _ b p v] by simp
  have imp: "is_oid_implemented m (nums_str (fst e))"
    if e: "e \<in> set (view_of es)" "below (map int base) (fst e)" for e
  proof -
    obtain o' x where x: "(o', x) \<in> set (dict_of es)" "e = (tuple_of o', x)"
      using e(1) by (auto simp: view_of_def)
    then have o': "o' \<in> fst ` set (dict_of es)" "fst e = tuple_of o'" by force+
    then have "dotted_oid o'" using d set_dict_of_keys [of es] by (auto simp: dotted_entries_def list_all_iff)
    then obtain xs where xs: "xs \<noteq> []" "o' = dots xs" by (auto simp: dotted_oid_def)
    then have "below base xs" using e(2) o'(2) by (simp add: take_map_int)
    then show ?thesis using implemented_below [OF vw _ xs(1) p v] xs o'(2) by simp
  qed
  have "walk_from m (view_of es) (map int base) (map int base) =
      map (\<lambda>(a, v). (tuple_of a, v)) (sorted_column base es)"
    using walk_from_eq [OF view_of_sorted [OF d] order.refl bimp imp] filter_view_of [OF d b dist] by simp
  moreover have "res_map row_of (map (\<lambda>(a, v). (tuple_of a, v)) (sorted_column base es)) =
      Inr (map read_row (sorted_column base es))"
  proof -
    have "row_of (tuple_of (fst e), snd e) = Inr (read_row e)" if "e \<in> set (sorted_column base es)" for e
    proof -
      have e: "e \<in> set (column_of base es)" using that by simp
      then have "dotted_oid (fst e)" using d by (auto simp: dotted_entries_def list_all_iff column_of_def)
      moreover obtain x where "read_value (snd e) = Inr x" using rd e by (auto simp: readable_def list_all_iff)
      ultimately show ?thesis by (cases x) (simp add: row_of_def read_row_def read_of_def)
    qed
    then have "res_map (\<lambda>e. row_of (tuple_of (fst e), snd e)) (sorted_column base es) =
        Inr (map read_row (sorted_column base es))"
      by (rule res_map_total)
    moreover have "res_map row_of (map g xs) = res_map (\<lambda>e. row_of (g e)) xs" for g :: "mib_entry \<Rightarrow> mib_row" and xs
      by (induction xs) auto
    ultimately show ?thesis by (simp add: case_prod_beta)
  qed
  ultimately show ?thesis
    using b by (simp add: agent_walk_def m vi as_snmp_error_def)
qed

end
