(* ===== verification/Snmp_Columns.thy ===== *)
theory Snmp_Columns
  imports Snmp_View
begin

text \<open>
  The projection of a well-formed virtual switch as a plain list of entries, section
  by section, and the entries of one column of it: the sections whose roots are
  incompatible with the column have none.
\<close>

section \<open>Well-formed states\<close>

definition ports_ok :: "int set \<Rightarrow> bool" where
  "ports_ok ps \<longleftrightarrow> finite ps \<and> (\<forall>p \<in> ps. 1 \<le> p)"

definition vlan_sim_ok :: "vlan_sim \<Rightarrow> bool" where
  "vlan_sim_ok v \<longleftrightarrow> ports_ok (vl_member v) \<and> ports_ok (vl_untagged v) \<and> ports_ok (vl_configured_only v)"

definition vlan_range :: "int set \<Rightarrow> bool" where
  "vlan_range vs \<longleftrightarrow> finite vs \<and> (\<forall>v \<in> vs. 1 \<le> v \<and> v \<le> 4096)"

definition sensor_ok :: "sensor_sim \<Rightarrow> bool" where
  "sensor_ok x \<longleftrightarrow> ss_kind x \<in> {lit ''fan'', lit ''power'', lit ''temperature''} \<and> dotted_oid (ss_instance x)"

text \<open>What the identifiers of a projection are made of: indices from 0, dotted suffixes.\<close>

definition indices_ok :: "virtual_switch \<Rightarrow> bool" where
  "indices_ok s \<longleftrightarrow>
     list_all (\<lambda>(p, _). 0 \<le> p) (vs_ports s) \<and> list_all (\<lambda>(v, _). 0 \<le> v) (vs_vlans s)
     \<and> list_all (\<lambda>(p, _). 0 \<le> p) (vs_pvids s) \<and> list_all (\<lambda>(p, _). 0 \<le> p) (vs_poe s)
     \<and> list_all (\<lambda>(p, _). 0 \<le> p) (vs_bridge_ports s)
     \<and> list_all (\<lambda>c. 0 \<le> sc_index c) (sy_collectors (vs_syslog s))
     \<and> list_all sensor_ok (vs_sensors s)
     \<and> list_all (\<lambda>e. 0 \<le> en_index e) (vs_entity_components s)
     \<and> list_all (\<lambda>c. 0 \<le> mc_vlan c \<and> mc_mac_bytes c \<noteq> [] \<and> list_all (\<lambda>b. 0 \<le> b) (mc_mac_bytes c)) (vs_macs s)
     \<and> list_all (\<lambda>n. 0 \<le> ll_time_mark n \<and> 0 \<le> ll_local_port n \<and> 0 \<le> ll_rem_idx n) (vs_lldp s)
     \<and> dotted_oid (mg_address (vs_mgmt s))"

definition tables_wf :: "virtual_switch \<Rightarrow> bool" where
  "tables_wf s \<longleftrightarrow> dict_wf (vs_ports s) \<and> dict_wf (vs_vlans s) \<and> dict_wf (vs_pvids s) \<and> dict_wf (vs_poe s)
     \<and> list_all (\<lambda>(_, v). vlan_sim_ok v) (vs_vlans s)"

definition rows_wf :: "virtual_switch \<Rightarrow> bool" where
  "rows_wf s \<longleftrightarrow> (\<forall>p \<in> dict_keys (vs_ports s).
     vlan_range (dict_at (vs_switchport_general_tagged s) p) \<and> vlan_range (dict_at (vs_switchport_general_untagged s) p))"

definition mib_wf :: "switch_model \<Rightarrow> virtual_switch \<Rightarrow> bool" where
  "mib_wf m s \<longleftrightarrow> vendor_wf m \<and> indices_ok s \<and> tables_wf s \<and> (switchport_model m \<longrightarrow> rows_wf s)"

section \<open>The sections, as lists\<close>

definition bitmap_of :: "int set \<Rightarrow> nat \<Rightarrow> bytes" where
  "bitmap_of ps w = res_the (encode_port_bitmap ps w)"

lemma bitmap_of_ok:
  assumes "ports_ok ps"
  shows "encode_port_bitmap ps w = Inr (bitmap_of ps w)" "set (bitmap_ports (bitmap_of ps w)) = ps"
    "w \<le> length (bitmap_of ps w)"
  using encode_port_bitmap_ok [of ps w] assms by (auto simp: ports_ok_def bitmap_of_def)

definition vlan_rows :: "nat \<Rightarrow> int \<times> vlan_sim \<Rightarrow> mib_entry list" where
  "vlan_rows w = (\<lambda>(vid, v).
     [(col (DOT1Q_VLAN_CURRENT_EGRESS @ lit ''.0'') vid, TOctets, latin1_decode (bitmap_of (vl_member v) w)),
      (col (DOT1Q_VLAN_CURRENT_UNTAGGED @ lit ''.0'') vid, TOctets, latin1_decode (bitmap_of (vl_untagged v) w)),
      (col (DOT1Q_VLAN_STATUS @ lit ''.0'') vid, TInteger, if vl_static_row v then lit ''2'' else lit ''1'')]
     @ (if \<not> vl_static_row v then []
        else [(col DOT1Q_VLAN_STATIC_NAME vid, TOctets, vl_name v),
              (col DOT1Q_VLAN_STATIC_EGRESS vid, TOctets, latin1_decode (bitmap_of (configured v) w)),
              (col DOT1Q_VLAN_STATIC_UNTAGGED vid, TOctets, latin1_decode (bitmap_of (vl_untagged v) w))]))"

lemma vlan_entries_eq: "vlan_sim_ok v \<Longrightarrow> vlan_entries w (vid, v) = Inr (vlan_rows w (vid, v))"
proof -
  assume v: "vlan_sim_ok v"
  then have "ports_ok (configured v)" by (auto simp: vlan_sim_ok_def ports_ok_def configured_def)
  with v show ?thesis
    by (simp add: vlan_entries_def vlan_rows_def vlan_sim_ok_def state_encode_port_bitmap_def bitmap_of_ok)
qed

definition vlan_octets :: "int set \<Rightarrow> bytes" where
  "vlan_octets vs = res_the (vlan_bitmap_bytes vs)"

lemma vlan_octets_ok: "vlan_range vs \<Longrightarrow> vlan_bitmap_bytes vs = Inr (vlan_octets vs)"
  using vlan_bitmap_ok [of vs] by (auto simp: vlan_range_def vlan_octets_def vlan_bitmap_def vlan_bitmap_bytes_def)

definition switchport_rows :: "virtual_switch \<Rightarrow> int \<Rightarrow> mib_entry list" where
  "switchport_rows s port =
     [(col FASTPATH_SWITCHPORT_MODE port, TInteger, num (dict_at (vs_switchport_mode s) port)),
      (col FASTPATH_SWITCHPORT_ACCESS_VLAN port, TGauge32, num (dict_at (vs_switchport_access_vlan s) port)),
      (col FASTPATH_SWITCHPORT_NATIVE_VLAN port, TGauge32, num (dict_at (vs_switchport_native_vlan s) port)),
      (col FASTPATH_SWITCHPORT_ALLOWED_VLANS port, TOctets,
         latin1_decode (dict_at (vs_switchport_allowed_vlans s) port)),
      (col FASTPATH_SWITCHPORT_TAGGED_VLANS port, TOctets,
         latin1_decode (vlan_octets (dict_at (vs_switchport_general_tagged s) port))),
      (col FASTPATH_SWITCHPORT_UNTAGGED_VLANS port, TOctets,
         latin1_decode (vlan_octets (dict_at (vs_switchport_general_untagged s) port)))]"

definition sensor_base :: "vendor_oids \<Rightarrow> sensor_sim \<Rightarrow> ustr" where
  "sensor_base v x =
     (if ss_kind x = lit ''fan'' then vo_box_fan v
      else if ss_kind x = lit ''power'' then vo_box_psu_power v else vo_box_temp v)"

definition sensor_rows :: "vendor_oids option \<Rightarrow> sensor_sim list \<Rightarrow> mib_entry list" where
  "sensor_rows vo xs =
     (case vo of None \<Rightarrow> []
      | Some v \<Rightarrow> map (\<lambda>x. (sensor_base v x @ lit ''.'' @ ss_instance x, TOctets, ss_raw x)) xs)"

definition mib_list :: "switch_model \<Rightarrow> virtual_switch \<Rightarrow> mib_entry list" where
  "mib_list m s =
     (let vo = vendor_opt m in
      system_entries m s
      @ syslog_entries vo s
      @ concat (map port_entries (vs_ports s))
      @ (if switchport_model m then concat (map (switchport_rows s) (map fst (vs_ports s))) else [])
      @ concat (map (vlan_rows (vlan_width m s)) (vs_vlans s))
      @ pvid_entries s
      @ concat (map (poe_entries vo) (vs_poe s))
      @ sensor_rows vo (vs_sensors s)
      @ concat (map entity_entries (vs_entity_components s))
      @ map mac_entry_of (vs_macs s)
      @ map (\<lambda>(bp, ifx). (col DOT1D_BASE_PORT_IF_INDEX bp, TInteger, num ifx)) (vs_bridge_ports s)
      @ concat (map lldp_entries (vs_lldp s))
      @ mgmt_entries vo (vs_mgmt s))"

lemma oid_entries_eq:
  assumes "mib_wf m s"
  shows "oid_entries m s = Inr (mib_list m s)"
proof -
  have rows: "(if switchport_model m then res_map (switchport_entries s) (map fst (vs_ports s)) else Inr [])
      = Inr (if switchport_model m then map (switchport_rows s) (map fst (vs_ports s)) else [])"
  proof (cases "switchport_model m")
    case True
    have "switchport_entries s p = Inr (switchport_rows s p)" if p: "p \<in> set (map fst (vs_ports s))" for p
    proof -
      have "rows_wf s" "p \<in> dict_keys (vs_ports s)"
        using assms True p unfolding mib_wf_def dict_keys_def by simp_all
      then have "vlan_range (dict_at (vs_switchport_general_tagged s) p)"
        "vlan_range (dict_at (vs_switchport_general_untagged s) p)"
        unfolding rows_wf_def by simp_all
      then show ?thesis by (simp add: switchport_entries_def switchport_rows_def vlan_octets_ok)
    qed
    then have "res_map (switchport_entries s) (map fst (vs_ports s)) = Inr (map (switchport_rows s) (map fst (vs_ports s)))"
      by (rule res_map_total)
    with True show ?thesis by simp
  qed simp
  have vlans: "res_map (vlan_entries w) (vs_vlans s) = Inr (map (vlan_rows w) (vs_vlans s))" for w
    using assms vlan_entries_eq
    by (intro res_map_total) (auto simp: mib_wf_def tables_wf_def list_all_iff)
  have sensors: "sensor_entries vo (vs_sensors s) = Inr (sensor_rows vo (vs_sensors s))" for vo
  proof (cases vo)
    case (Some v)
    have ne: "lit ''fan'' \<noteq> lit ''power''" "lit ''fan'' \<noteq> lit ''temperature''" "lit ''power'' \<noteq> lit ''temperature''"
      by (simp_all add: lit_def)
    have "(case dict_get [(lit ''fan'', vo_box_fan v), (lit ''power'', vo_box_psu_power v),
               (lit ''temperature'', vo_box_temp v)] (ss_kind x) of
             None \<Rightarrow> Inl KeyError
           | Some base \<Rightarrow> Inr (base @ lit ''.'' @ ss_instance x, TOctets, ss_raw x))
        = Inr (sensor_base v x @ lit ''.'' @ ss_instance x, TOctets, ss_raw x)" if "x \<in> set (vs_sensors s)" for x
    proof -
      have "ss_kind x = lit ''fan'' \<or> ss_kind x = lit ''power'' \<or> ss_kind x = lit ''temperature''"
        using assms that by (auto simp: mib_wf_def indices_ok_def sensor_ok_def list_all_iff)
      then show ?thesis using ne by (auto simp: dict_get_def sensor_base_def)
    qed
    with Some show ?thesis unfolding sensor_entries_def sensor_rows_def by (simp add: res_map_total)
  qed (simp add: sensor_entries_def sensor_rows_def)
  show ?thesis
    unfolding oid_entries_def mib_list_def Let_def rows vlans sensors by simp
qed

section \<open>The roots of each section\<close>

lemma rooted_dots [simp]:
  "xs \<noteq> [] \<Longrightarrow> rooted roots ((dots xs, v) # es) \<longleftrightarrow> list_ex (\<lambda>r. below r xs) roots \<and> rooted roots es"
  unfolding rooted_Cons list_ex_iff by (auto simp: dots_inject)

lemma rooted_single [simp]: "xs \<noteq> [] \<Longrightarrow> rooted roots [(dots xs, v)] \<longleftrightarrow> list_ex (\<lambda>r. below r xs) roots"
  by simp

lemma col_nonneg: "base \<noteq> [] \<Longrightarrow> 0 \<le> i \<Longrightarrow> col (dots base) i = dots (base @ [nat i])"
  using col_dots [of base "nat i"] by simp

lemma dots_tail: "xs \<noteq> [] \<Longrightarrow> ys \<noteq> [] \<Longrightarrow> dots xs @ 46 # dots ys = dots (xs @ ys)"
  by (simp add: dots_append)

lemma dots_tail_dot: "xs \<noteq> [] \<Longrightarrow> ys \<noteq> [] \<Longrightarrow> zs \<noteq> [] \<Longrightarrow>
    dots xs @ 46 # dots ys @ 46 # dots zs = dots (xs @ ys @ zs)"
  by (simp add: dots_append)

lemma dot_join_nonneg: "list_all (\<lambda>n. 0 \<le> n) ns \<Longrightarrow> dot_join (map show_int ns) = dots (map nat ns)"
proof -
  assume "list_all (\<lambda>n. 0 \<le> n) ns"
  then have "map show_int ns = map show_nat (map nat ns)" by (auto simp: list_all_iff show_int_def)
  then show ?thesis by (simp only: dot_join_dots)
qed

lemma suffix_lits:
  "lit ''.0'' = 46 # dots [0]" "lit ''.3.1'' = 46 # dots [3, 1]" "lit ''.6.1'' = 46 # dots [6, 1]"
  "lit ''.1'' = 46 # dots [1]" "lit ''.0.0.0.0'' = 46 # dots [0, 0, 0, 0]"
  "lit ''.14.1.4.5.1.2'' = 46 # dots [14, 1, 4, 5, 1, 2]"
  by (simp_all add: lit_def show_nat.simps dots.simps)

lemma lldp_lits:
  "lit ''.1.5.'' = 46 # dots [1, 5] @ [46]" "lit ''.1.7.'' = 46 # dots [1, 7] @ [46]"
  "lit ''.1.8.'' = 46 # dots [1, 8] @ [46]" "lit ''.1.9.'' = 46 # dots [1, 9] @ [46]" "lit ''.'' = [46]"
  by (simp_all add: lit_def show_nat.simps dots.simps)

lemmas oid_eval = oid_dots col_nonneg dots_tail dots_tail_dot suffix_lits lldp_lits lit_vendor_suffixes

text \<open>Sections are told apart from every walked column by their roots.\<close>

definition roots_system :: "nat list list" where
  "roots_system = [[1, 3, 6, 1, 2, 1, 1], [1, 3, 6, 1, 2, 1, 17, 1, 1]]"

definition roots_syslog :: "nat list list" where
  "roots_syslog = [[1, 3, 6, 1, 4, 1, 4526, 10, 14], [1, 3, 6, 1, 4, 1, 4526, 11, 14]]"

definition roots_ports :: "nat list list" where
  "roots_ports = [[1, 3, 6, 1, 2, 1, 2, 2], [1, 3, 6, 1, 2, 1, 31], [1, 3, 6, 1, 2, 1, 10, 7]]"

definition roots_switchport :: "nat list list" where
  "roots_switchport = [[1, 3, 6, 1, 4, 1, 4526, 10, 1, 2, 8, 37]]"

definition roots_vlans :: "nat list list" where
  "roots_vlans = [[1, 3, 6, 1, 2, 1, 17, 7, 1, 4, 2, 1], [1, 3, 6, 1, 2, 1, 17, 7, 1, 4, 3, 1]]"

definition roots_pvids :: "nat list list" where
  "roots_pvids = [[1, 3, 6, 1, 2, 1, 17, 7, 1, 4, 5]]"

definition roots_poe :: "nat list list" where
  "roots_poe = [[1, 3, 6, 1, 2, 1, 105], [1, 3, 6, 1, 4, 1, 4526, 10, 15], [1, 3, 6, 1, 4, 1, 4526, 11, 15]]"

definition roots_sensors :: "nat list list" where
  "roots_sensors = [[1, 3, 6, 1, 4, 1, 4526, 10, 43], [1, 3, 6, 1, 4, 1, 4526, 11, 43]]"

definition roots_entities :: "nat list list" where
  "roots_entities = [[1, 3, 6, 1, 2, 1, 47]]"

definition roots_macs :: "nat list list" where
  "roots_macs = [[1, 3, 6, 1, 2, 1, 17, 7, 1, 2]]"

definition roots_bridge :: "nat list list" where
  "roots_bridge = [[1, 3, 6, 1, 2, 1, 17, 1, 4]]"

definition roots_lldp :: "nat list list" where
  "roots_lldp = [[1, 0, 8802]]"

definition roots_mgmt :: "nat list list" where
  "roots_mgmt = [[1, 3, 6, 1, 2, 1, 4], [1, 3, 6, 1, 4, 1, 4526, 10, 99], [1, 3, 6, 1, 4, 1, 4526, 11, 99]]"

lemmas roots_defs = roots_system_def roots_syslog_def roots_ports_def roots_switchport_def roots_vlans_def roots_pvids_def roots_poe_def roots_sensors_def roots_entities_def roots_macs_def roots_bridge_def roots_lldp_def roots_mgmt_def

lemma rooted_system: "vendor_wf m \<Longrightarrow> rooted roots_system (system_entries m s)"
  by (simp add: system_entries_def roots_defs oid_eval)

lemma rooted_ports:
  "0 \<le> p \<Longrightarrow> rooted roots_ports (port_entries (p, sim))"
  by (simp add: port_entries_def counter_entry_def roots_defs oid_eval split: option.splits)

lemma rooted_switchport:
  "0 \<le> p \<Longrightarrow> rooted roots_switchport (switchport_rows s p)"
  by (simp add: switchport_rows_def roots_defs oid_eval)

lemma rooted_vlan:
  "0 \<le> vid \<Longrightarrow> rooted roots_vlans (vlan_rows w (vid, v))"
  by (simp add: vlan_rows_def roots_defs oid_eval)

lemma rooted_pvids:
  "list_all (\<lambda>(p, _). 0 \<le> p) (vs_pvids s) \<Longrightarrow> rooted roots_pvids (pvid_entries s)"
  unfolding pvid_entries_def rooted_def list_all_iff by (force simp: roots_defs oid_eval)


lemma rooted_poe:
  assumes "vendor_wf m" "0 \<le> p"
  shows "rooted roots_poe
    (poe_entries (vendor_opt m) (p, x))"
proof (cases "vendor_opt m")
  case None
  then show ?thesis unfolding poe_entries_def None using assms(2) by (simp add: roots_defs oid_eval)
next
  case (Some v)
  show ?thesis
  proof (rule vendor_opt_dots [OF assms(1) Some])
    fix ns
    assume "base_nums ns" "vo_poe_power_mw v = dots (ns @ [15, 1, 1, 1, 2])"
    then show ?thesis unfolding poe_entries_def Some using assms(2) by (auto simp: roots_defs oid_eval base_nums_def roots_defs)
  qed
qed

lemma rooted_syslog:
  assumes "vendor_wf m" "list_all (\<lambda>c. 0 \<le> sc_index c) (sy_collectors (vs_syslog s))"
  shows "rooted roots_syslog (syslog_entries (vendor_opt m) s)"
proof (cases "vendor_opt m")
  case None
  then show ?thesis unfolding syslog_entries_def None by simp
next
  case (Some v)
  show ?thesis
  proof (rule vendor_opt_dots [OF assms(1) Some])
    fix ns
    assume v: "base_nums ns" "vo_base v = dots ns"
    have "rooted roots_syslog (collector_entries v c)"
      if "c \<in> set (sy_collectors (vs_syslog s))" for c
    proof -
      have "0 \<le> sc_index c" using assms(2) that by (auto simp: list_all_iff)
      with v show ?thesis by (auto simp: collector_entries_def roots_defs oid_eval base_nums_def roots_defs)
    qed
    with v show ?thesis
      unfolding syslog_entries_def Some by (auto simp: roots_defs oid_eval base_nums_def intro!: rooted_concat)
  qed
qed

lemma rooted_sensors:
  assumes "vendor_wf m" "list_all sensor_ok (vs_sensors s)"
  shows "rooted roots_sensors
    (sensor_rows (vendor_opt m) (vs_sensors s))"
proof (cases "vendor_opt m")
  case None
  then show ?thesis unfolding sensor_rows_def None by simp
next
  case (Some v)
  show ?thesis
  proof (rule vendor_opt_dots [OF assms(1) Some])
    fix ns
    assume v: "base_nums ns" "vo_box_fan v = dots (ns @ [43, 1, 6, 1, 4])"
      "vo_box_psu_power v = dots (ns @ [43, 1, 8, 1, 5])" "vo_box_temp v = dots (ns @ [43, 1, 15, 1, 3])"
    have "\<exists>r xs. r \<in> set roots_sensors
        \<and> xs \<noteq> [] \<and> below r xs \<and> sensor_base v x @ lit ''.'' @ ss_instance x = dots xs"
      if "x \<in> set (vs_sensors s)" for x
    proof -
      have "sensor_ok x" using assms(2) that by (simp add: list_all_iff)
      then obtain zs where zs: "zs \<noteq> []" "ss_instance x = dots zs"
        by (auto simp: sensor_ok_def dotted_oid_def)
      have "sensor_base v x \<in> (\<lambda>ys. dots (ns @ 43 # ys)) ` {[1, 6, 1, 4], [1, 8, 1, 5], [1, 15, 1, 3]}"
        using v by (simp add: sensor_base_def)
      then obtain ys where ys: "ys \<noteq> []" "sensor_base v x = dots (ns @ 43 # ys)" by auto
      have "sensor_base v x @ lit ''.'' @ ss_instance x = dots ((ns @ 43 # ys) @ zs)"
        using dots_append [of "ns @ 43 # ys" zs] zs ys by (simp add: lldp_lits)
      moreover have "\<exists>r \<in> set roots_sensors. below r ((ns @ 43 # ys) @ zs)"
        using v(1) by (auto simp: base_nums_def roots_defs)
      ultimately show ?thesis by blast
    qed
    then show ?thesis
      unfolding sensor_rows_def Some rooted_def by (simp add: list_all_iff)
  qed
qed

lemma rooted_entity: "0 \<le> en_index e \<Longrightarrow> rooted roots_entities (entity_entries e)"
  by (simp add: entity_entries_def roots_defs oid_eval)

lemma rooted_mac:
  assumes "0 \<le> mc_vlan c" "mc_mac_bytes c \<noteq> []" "list_all (\<lambda>b. 0 \<le> b) (mc_mac_bytes c)"
  shows "rooted roots_macs [mac_entry_of c]"
  using assms by (simp add: mac_entry_of_def roots_defs oid_eval dot_join_nonneg)

lemma rooted_bridge:
  "list_all (\<lambda>(p, _). 0 \<le> p) (vs_bridge_ports s) \<Longrightarrow> rooted roots_bridge
     (map (\<lambda>(bp, ifx). (col DOT1D_BASE_PORT_IF_INDEX bp, TInteger, num ifx)) (vs_bridge_ports s))"
  unfolding rooted_def list_all_iff by (force simp: roots_defs oid_eval)

lemma rooted_lldp:
  "0 \<le> ll_time_mark n \<Longrightarrow> 0 \<le> ll_local_port n \<Longrightarrow> 0 \<le> ll_rem_idx n \<Longrightarrow> rooted roots_lldp (lldp_entries n)"
  using dot_join_nonneg [of "[ll_time_mark n, ll_local_port n, ll_rem_idx n]"]
  by (simp add: lldp_entries_def roots_defs oid_eval Let_def)

lemma rooted_mgmt:
  assumes "vendor_wf m" "dotted_oid (mg_address g)"
  shows "rooted roots_mgmt
    (mgmt_entries (vendor_opt m) g)"
proof -
  obtain zs where zs: "zs \<noteq> []" "mg_address g = dots zs" using assms(2) by (auto simp: dotted_oid_def)
  show ?thesis
  proof (cases "vendor_opt m")
    case None
    then show ?thesis unfolding mgmt_entries_def None using zs by (simp add: roots_defs oid_eval)
  next
    case (Some v)
    show ?thesis
    proof (rule vendor_opt_dots [OF assms(1) Some])
      fix ns
      assume "base_nums ns" "vo_dhcp_mode_unverified v = dots (ns @ [99, 1])"
      then show ?thesis unfolding mgmt_entries_def Some using zs by (auto simp: roots_defs oid_eval base_nums_def roots_defs)
    qed
  qed
qed


section \<open>Columns of the whole projection\<close>

definition sections :: "switch_model \<Rightarrow> virtual_switch \<Rightarrow> (nat list list \<times> mib_entry list) list" where
  "sections m s =
     (let vo = vendor_opt m in
      [(roots_system, system_entries m s),
       (roots_syslog, syslog_entries vo s),
       (roots_ports,
        concat (map port_entries (vs_ports s))),
       (roots_switchport,
        if switchport_model m then concat (map (switchport_rows s) (map fst (vs_ports s))) else []),
       (roots_vlans,
        concat (map (vlan_rows (vlan_width m s)) (vs_vlans s))),
       (roots_pvids, pvid_entries s),
       (roots_poe,
        concat (map (poe_entries vo) (vs_poe s))),
       (roots_sensors, sensor_rows vo (vs_sensors s)),
       (roots_entities, concat (map entity_entries (vs_entity_components s))),
       (roots_macs, map mac_entry_of (vs_macs s)),
       (roots_bridge,
        map (\<lambda>(bp, ifx). (col DOT1D_BASE_PORT_IF_INDEX bp, TInteger, num ifx)) (vs_bridge_ports s)),
       (roots_lldp, concat (map lldp_entries (vs_lldp s))),
       (roots_mgmt,
        mgmt_entries vo (vs_mgmt s))])"

lemma mib_list_sections: "mib_list m s = concat (map snd (sections m s))"
  by (simp add: mib_list_def sections_def Let_def)

lemma rooted_map_concat:
  "(\<And>x. x \<in> set xs \<Longrightarrow> rooted roots (f x)) \<Longrightarrow> rooted roots (concat (map f xs))"
  by (intro rooted_concat) auto

lemma rooted_map: "(\<And>x. x \<in> set xs \<Longrightarrow> rooted roots [f x]) \<Longrightarrow> rooted roots (map f xs)"
  by (induction xs) (auto simp: rooted_Cons)

lemma sections_rooted:
  assumes "mib_wf m s"
  shows "list_all (\<lambda>(r, es). rooted r es) (sections m s)"
proof -
  have vw: "vendor_wf m" and i: "indices_ok s" using assms by (simp_all add: mib_wf_def)
  have ports: "0 \<le> p" if "(p, sim) \<in> set (vs_ports s)" for p sim
    using i that by (force simp: indices_ok_def list_all_iff)
  show ?thesis
    unfolding sections_def Let_def list.pred_inject prod.case
    using i unfolding indices_ok_def
    by (intro conjI TrueI rooted_system [OF vw] rooted_syslog [OF vw] rooted_sensors [OF vw]
        rooted_mgmt [OF vw] rooted_pvids rooted_bridge rooted_map_concat rooted_map)
      (auto simp: list_all_iff intro: rooted_ports rooted_switchport [OF ports] rooted_vlan rooted_poe [OF vw]
        rooted_entity rooted_mac rooted_lldp intro!: rooted_map_concat)
qed

lemma mib_dotted: "mib_wf m s \<Longrightarrow> dotted_entries (mib_list m s)"
proof -
  assume "mib_wf m s"
  from sections_rooted [OF this] have "dotted_entries es" if "(r, es) \<in> set (sections m s)" for r es
    using that rooted_dotted [of r es] by (force simp: list_all_iff)
  then show ?thesis
    unfolding mib_list_sections by (force simp: dotted_entries_def list_all_iff)
qed

lemma column_sections:
  assumes "mib_wf m s" "base \<noteq> []"
  shows "column_of base (mib_list m s) =
    concat (map (\<lambda>(r, es). if list_all (\<lambda>r. \<not> compat r base) r then [] else column_of base es) (sections m s))"
proof -
  have "column_of base es = (if list_all (\<lambda>r. \<not> compat r base) r then [] else column_of base es)"
    if "(r, es) \<in> set (sections m s)" for r es
    using sections_rooted [OF assms(1)] that rooted_column [OF _ assms(2)] by (auto simp: list_all_iff)
  then have "map (column_of base \<circ> snd) (sections m s)
      = map (\<lambda>(r, es). if list_all (\<lambda>r. \<not> compat r base) r then [] else column_of base es) (sections m s)"
    by (intro map_cong) auto
  then show ?thesis by (simp only: mib_list_sections column_of_concat map_map)
qed

end
