(* ===== verification/Snmp_Parsers.thy ===== *)
theory Snmp_Parsers
  imports Snmp_Parse Registry "HOL-Library.List_Lexorder" "HOL-Library.Product_Lexorder"
begin

text \<open>
  The parsers of \<open>protocols/snmp/parse.py\<close> beyond VLANs: port status and counters,
  the MAC table, LLDP neighbours, PoE, sensors, syslog, the management address, and
  the identification of a model. A row that is present and malformed raises
  \<open>SnmpError\<close>; an absent row is \<open>None\<close>, never a value made up.
\<close>

section \<open>Port status and counters\<close>

text \<open>\<open>x or None\<close> for an optional integer: 0 is no value.\<close>

definition int_or_none :: "int option \<Rightarrow> int option" where
  "int_or_none n = (if n = Some 0 then None else n)"

definition only_physical :: "int set option \<Rightarrow> int list \<Rightarrow> int list" where
  "only_physical physical ports =
     (case physical of None \<Rightarrow> ports | Some keep \<Rightarrow> filter (\<lambda>p. p \<in> keep) ports)"

definition DUPLEX_STATUS :: "(int, bool) dict" where
  "DUPLEX_STATUS = [(2, False), (3, True)]"

definition parse_port_status ::
    "snmp_row list \<Rightarrow> snmp_row list \<Rightarrow> snmp_row list \<Rightarrow> snmp_row list \<Rightarrow> snmp_row list \<Rightarrow> snmp_row list
      \<Rightarrow> snmp_row list \<Rightarrow> snmp_row list \<Rightarrow> port_status list py" where
  "parse_port_status admin oper speed names aliases if_types duplex pause =
     res_bind (index_int_column admin IF_ADMIN_STATUS) (\<lambda>admin_map.
     res_bind (index_int_column oper IF_OPER_STATUS) (\<lambda>oper_map.
     res_bind (index_int_column speed IF_HIGH_SPEED) (\<lambda>speed_map.
     res_bind (index_str_column names IF_NAME) (\<lambda>name_map.
     res_bind (index_str_column aliases IF_ALIAS) (\<lambda>alias_map.
     res_bind (index_int_column duplex DOT3_STATS_DUPLEX_STATUS) (\<lambda>duplex_map.
     res_bind (index_int_column pause DOT3_PAUSE_OPER_MODE) (\<lambda>pause_map.
     res_bind (physical_ports if_types) (\<lambda>physical.
       Inr (map (\<lambda>p.
              let link_up = (dict_get oper_map p = Some 1) in
              \<lparr>st_port = p,
               st_name = opt_or_none (dict_get name_map p),
               st_admin_enabled = (dict_get admin_map p = Some 1),
               st_link_up = link_up,
               st_speed_mbps = (if link_up then int_or_none (dict_get speed_map p) else None),
               st_description = opt_or_none (dict_get alias_map p),
               st_full_duplex = dict_get DUPLEX_STATUS (get_or 0 duplex_map p),
               st_flow_control = map_option (\<lambda>mode. mode \<noteq> 1) (dict_get pause_map p),
               st_speed_config = None,
               st_oper_status = dict_get oper_map p\<rparr>)
            (only_physical physical (sorted_list_of_set (dict_keys admin_map \<union> dict_keys oper_map))))))))))))"

definition parse_port_stats ::
    "snmp_row list \<Rightarrow> snmp_row list \<Rightarrow> snmp_row list \<Rightarrow> snmp_row list \<Rightarrow> snmp_row list \<Rightarrow> snmp_row list
      \<Rightarrow> snmp_row list \<Rightarrow> port_stats list py" where
  "parse_port_stats in_octets out_octets in_ucast out_ucast in_errors out_errors if_types =
     res_bind (index_int_column in_octets IF_HC_IN_OCTETS) (\<lambda>rx_b.
     res_bind (index_int_column out_octets IF_HC_OUT_OCTETS) (\<lambda>tx_b.
     res_bind (index_int_column in_ucast IF_HC_IN_UCAST) (\<lambda>rx_p.
     res_bind (index_int_column out_ucast IF_HC_OUT_UCAST) (\<lambda>tx_p.
     res_bind (index_int_column in_errors IF_IN_ERRORS) (\<lambda>rx_e.
     res_bind (index_int_column out_errors IF_OUT_ERRORS) (\<lambda>tx_e.
     res_bind (physical_ports if_types) (\<lambda>physical.
       Inr (map (\<lambda>p.
              \<lparr>ct_port = p, ct_rx_bytes = dict_get rx_b p, ct_tx_bytes = dict_get tx_b p,
               ct_rx_packets = dict_get rx_p p, ct_tx_packets = dict_get tx_p p,
               ct_rx_errors = dict_get rx_e p, ct_tx_errors = dict_get tx_e p\<rparr>)
            (only_physical physical (sorted_list_of_set
               (dict_keys rx_b \<union> dict_keys tx_b \<union> dict_keys rx_p \<union> dict_keys tx_p
                \<union> dict_keys rx_e \<union> dict_keys tx_e)))))))))))"

section \<open>MAC addresses\<close>

fun hex_upper :: "nat \<Rightarrow> ustr" where
  "hex_upper n = (if n < 16 then [hex_digit_upper n] else hex_upper (n div 16) @ [hex_digit_upper (n mod 16)])"

declare hex_upper.simps [simp del]

text \<open>\<open>f"{n:02X}"\<close>: at least two characters, the sign counted.\<close>

definition format_02X :: "int \<Rightarrow> ustr" where
  "format_02X n =
     (let ds = hex_upper (nat \<bar>n\<bar>) in
      if n < 0 then 45 # ds else replicate (2 - length ds) 48 @ ds)"

definition format_mac_bytes :: "ustr list \<Rightarrow> ustr py" where
  "format_mac_bytes byte_strs =
     res_bind (res_map int_of_text byte_strs) (\<lambda>ns. Inr (colon_join (map format_02X ns)))"

fun format_mac_octetstring :: "snmp_value \<Rightarrow> ustr option" where
  "format_mac_octetstring (VOct (Raw bs)) =
     (if length bs = 6 then Some (colon_join (map hex2_upper bs)) else None)"
| "format_mac_octetstring (VOct (Text s)) =
     (if length s = 6 then Some (colon_join (map (\<lambda>c. format_02X (int c)) s)) else None)"
| "format_mac_octetstring (VInt n) = None"

text \<open>\<open>int(p, 16)\<close>: white space around, one sign, an optional \<open>0x\<close>, single underscores.\<close>

definition hex_of_text :: "ustr \<Rightarrow> int py" where
  "hex_of_text s =
     (let t = strip s;
          neg = (t \<noteq> [] \<and> hd t = 45);
          u = (if t \<noteq> [] \<and> (hd t = 45 \<or> hd t = 43) then tl t else t);
          prefixed = (2 \<le> length u \<and> u ! 0 = 48 \<and> (u ! 1 = 120 \<or> u ! 1 = 88));
          v = (if prefixed then drop 2 u else u);
          w = (if prefixed \<and> v \<noteq> [] \<and> hd v = 95 then tl v else v);
          parts = split_on 95 w;
          n = int (digits_val 16 (map (\<lambda>c. the (hex_val c)) (concat parts)))
      in if list_all (\<lambda>p. p \<noteq> [] \<and> list_all (\<lambda>c. hex_val c \<noteq> None) p) parts
         then Inr (if neg then - n else n) else Inl ValueError)"

definition mac_from_ascii_text :: "snmp_value \<Rightarrow> ustr option" where
  "mac_from_ascii_text value =
     (case value of
        VOct (Text s) \<Rightarrow>
          (let parts = split_on 58 s in
           if length parts \<noteq> 6 then None
           else (case res_map hex_of_text parts of
                   Inl _ \<Rightarrow> None
                 | Inr octets \<Rightarrow>
                     if list_all (\<lambda>p. length p = 2) parts \<and> list_all (\<lambda>n. 0 \<le> n \<and> n \<le> 255) octets
                     then Some (colon_join (map format_02X octets)) else None))
      | _ \<Rightarrow> None)"

fun parse_base_mac :: "snmp_row list \<Rightarrow> ustr option py" where
  "parse_base_mac [] = Inr None"
| "parse_base_mac (row # rows) =
     (if suffix_of DOT1D_BASE_BRIDGE_ADDRESS (sr_oid row) = None then parse_base_mac rows
      else (case format_mac_octetstring (sr_value row) of
              Some mac \<Rightarrow> Inr (Some mac)
            | None \<Rightarrow>
                (case mac_from_ascii_text (sr_value row) of
                   Some mac \<Rightarrow> Inr (Some mac)
                 | None \<Rightarrow> Inl (SnmpError SnmpBadValue))))"

definition parse_fdb_row :: "(int, int) dict \<Rightarrow> snmp_row \<Rightarrow> ustr \<Rightarrow> mac_entry py" where
  "parse_fdb_row bridge_to_if row suffix =
     (let parts = split_on 46 suffix in
      if length parts \<noteq> 7 then Inl (SnmpError SnmpBadIndex)
      else (case int_of_text (parts ! 0) of
              Inl _ \<Rightarrow> Inl (SnmpError SnmpBadIndex)
            | Inr vlan_id \<Rightarrow>
                (case value_int (sr_value row) of
                   Inl _ \<Rightarrow> Inl (SnmpError SnmpBadValue)
                 | Inr bridge_port \<Rightarrow>
                     res_bind (format_mac_bytes (tl parts)) (\<lambda>mac.
                       Inr \<lparr>me_mac = mac, me_port = get_or bridge_port bridge_to_if bridge_port,
                            me_vlan_id = Some vlan_id\<rparr>))))"

fun parse_fdb :: "(int, int) dict \<Rightarrow> snmp_row list \<Rightarrow> mac_entry list py" where
  "parse_fdb bridge_to_if [] = Inr []"
| "parse_fdb bridge_to_if (row # rows) =
     (case suffix_of DOT1Q_TP_FDB_PORT (sr_oid row) of
        None \<Rightarrow> parse_fdb bridge_to_if rows
      | Some suffix \<Rightarrow>
          res_bind (parse_fdb_row bridge_to_if row suffix) (\<lambda>e.
          res_bind (parse_fdb bridge_to_if rows) (\<lambda>es. Inr (e # es))))"

definition parse_macs :: "snmp_row list \<Rightarrow> snmp_row list \<Rightarrow> mac_entry list py" where
  "parse_macs fdb bridge_ports =
     res_bind (index_int_column bridge_ports DOT1D_BASE_PORT_IF_INDEX) (\<lambda>bridge_to_if.
     res_bind (parse_fdb bridge_to_if fdb) (\<lambda>es.
       Inr (sort_key (\<lambda>e. (me_port e, me_mac e)) es)))"

section \<open>LLDP\<close>

text \<open>\<open>str.isprintable()\<close>, exact on Latin-1.\<close>

definition is_printable_char :: "nat \<Rightarrow> bool" where
  "is_printable_char c \<longleftrightarrow> 32 \<le> c \<and> \<not> (127 \<le> c \<and> c \<le> 160) \<and> c \<noteq> 173"

fun column_text :: "snmp_value \<Rightarrow> ustr" where
  "column_text (VOct (Raw bs)) = utf8_decode_replace bs"
| "column_text (VOct (Text s)) = s"
| "column_text (VInt n) = show_int n"

definition format_chassis_id :: "snmp_value \<Rightarrow> ustr" where
  "format_chassis_id v = (case format_mac_octetstring v of Some mac \<Rightarrow> mac | None \<Rightarrow> str_value v)"

definition format_port_id :: "snmp_value \<Rightarrow> ustr" where
  "format_port_id v =
     (let mac = (case v of
                   VOct (Raw bs) \<Rightarrow> format_mac_octetstring v
                 | VOct (Text s) \<Rightarrow>
                     if list_all is_printable_char s then None else format_mac_octetstring v
                 | VInt n \<Rightarrow> None)
      in case mac of Some t \<Rightarrow> t | None \<Rightarrow> column_text v)"

fun truthy :: "snmp_value \<Rightarrow> bool" where
  "truthy (VInt n) \<longleftrightarrow> n \<noteq> 0"
| "truthy (VOct (Raw bs)) \<longleftrightarrow> bs \<noteq> []"
| "truthy (VOct (Text s)) \<longleftrightarrow> s \<noteq> []"

type_synonym lldp_group = "(ustr \<times> ustr \<times> ustr, (int, snmp_value) dict) dict"

fun group_lldp :: "snmp_row list \<Rightarrow> lldp_group \<Rightarrow> lldp_group py" where
  "group_lldp [] out = Inr out"
| "group_lldp (row # rows) out =
     (case suffix_of (LLDP_REM_TABLE @ lit ''.1'') (sr_oid row) of
        None \<Rightarrow> group_lldp rows out
      | Some suffix \<Rightarrow>
          let parts = split_on 46 suffix in
          if length parts \<noteq> 4 then Inl (SnmpError SnmpBadIndex)
          else (case int_of_text (parts ! 0) of
                  Inl _ \<Rightarrow> Inl (SnmpError SnmpBadIndex)
                | Inr column \<Rightarrow>
                    let key = (parts ! 1, parts ! 2, parts ! 3) in
                    group_lldp rows (dict_set key (dict_set column (sr_value row) (get_or [] out key)) out)))"

fun lldp_neighbors :: "lldp_group \<Rightarrow> lldp_neighbor list py" where
  "lldp_neighbors [] = Inr []"
| "lldp_neighbors ((key, cols) # rest) =
     (let chassis = get_or (VOct (Text [])) cols 5;
          port_id = get_or (VOct (Text [])) cols 7;
          port_desc = get_or (VOct (Text [])) cols 8;
          sys_name = get_or (VOct (Text [])) cols 9
      in if \<not> (truthy chassis \<or> truthy port_id \<or> truthy port_desc \<or> truthy sys_name)
         then lldp_neighbors rest
         else (case int_of_text (fst (snd key)) of
                 Inl _ \<Rightarrow> Inl (SnmpError SnmpBadIndex)
               | Inr lp \<Rightarrow>
                   res_bind (lldp_neighbors rest) (\<lambda>ns.
                     Inr (\<lparr>ln_local_port = lp,
                           ln_remote_sys_name = opt_or_none (Some (column_text sys_name)),
                           ln_remote_port_desc = opt_or_none (Some (column_text port_desc)),
                           ln_remote_chassis_id = opt_or_none (Some (format_chassis_id chassis)),
                           ln_remote_port_id = opt_or_none (Some (format_port_id port_id))\<rparr> # ns))))"

definition parse_lldp :: "snmp_row list \<Rightarrow> lldp_neighbor list py" where
  "parse_lldp rows =
     res_bind (group_lldp rows []) (\<lambda>grouped.
     res_bind (lldp_neighbors grouped) (\<lambda>ns. Inr (sort_key ln_local_port ns)))"

section \<open>PoE\<close>

definition DETECT_MAP :: "(int, poe_detect) dict" where
  "DETECT_MAP = [(1, PoeDisabled), (2, PoeSearching), (3, PoeDelivering), (4, PoeFault)]"

type_synonym poe_cols = "(int \<times> int, (int, int) dict) dict"

fun poe_columns :: "snmp_row list \<Rightarrow> poe_cols \<Rightarrow> poe_cols py" where
  "poe_columns [] out = Inr out"
| "poe_columns (row # rows) out =
     (case suffix_of PETH_PSE_PORT_TABLE (sr_oid row) of
        None \<Rightarrow> poe_columns rows out
      | Some suffix \<Rightarrow>
          let parts = split_on 46 suffix in
          if length parts \<noteq> 3 then poe_columns rows out
          else res_bind (int_of_text (parts ! 0)) (\<lambda>column.
                 if column \<noteq> 3 \<and> column \<noteq> 6 then poe_columns rows out
                 else (case res_bind (int_of_text (parts ! 1)) (\<lambda>group.
                              res_bind (int_of_text (parts ! 2)) (\<lambda>port.
                              res_bind (value_int (sr_value row)) (\<lambda>v. Inr ((group, port), v)))) of
                         Inl _ \<Rightarrow> Inl (SnmpError SnmpBadValue)
                       | Inr (key, v) \<Rightarrow>
                           poe_columns rows (dict_set key (dict_set column v (get_or [] out key)) out))))"

definition power_by_port :: "snmp_row list \<Rightarrow> (int, int) dict" where
  "power_by_port rows =
     foldl (\<lambda>mw row.
       (case (value_int (sr_value row), int_of_text (last (split_on 46 (sr_oid row)))) of
          (Inr v, Inr port) \<Rightarrow> dict_set port v mw
        | _ \<Rightarrow> mw)) [] rows"

definition poe_status_of :: "(int, int) dict \<Rightarrow> (int \<times> int) \<times> (int, int) dict \<Rightarrow> poe_status py" where
  "poe_status_of mw = (\<lambda>((group, port), c).
     (case dict_get c 3 of
        None \<Rightarrow> Inl (SnmpError (SnmpMissingColumn port 3))
      | Some admin \<Rightarrow>
          (case dict_get c 6 of
             None \<Rightarrow> Inl (SnmpError (SnmpMissingColumn port 6))
           | Some detect \<Rightarrow>
               Inr \<lparr>poe_port = port, poe_admin_enabled = (admin = 1),
                    poe_detect_state = get_or PoeUnknown DETECT_MAP detect,
                    poe_power_mw = dict_get mw port\<rparr>)))"

definition parse_poe :: "snmp_row list \<Rightarrow> snmp_row list \<Rightarrow> poe_status list py" where
  "parse_poe status power_mw =
     res_bind (poe_columns status []) (\<lambda>cols.
       res_map (poe_status_of (power_by_port power_mw)) (sorted_items cols))"

section \<open>Sensors\<close>

fun box_sensors_of :: "ustr \<Rightarrow> ustr \<Rightarrow> snmp_row list \<Rightarrow> sensor list py" where
  "box_sensors_of kind unit [] = Inr []"
| "box_sensors_of kind unit (row # rows) =
     (if sr_value row = VOct (Text (lit ''Not Supported'')) then box_sensors_of kind unit rows
      else (case value_int (sr_value row) of
              Inl _ \<Rightarrow> Inl (SnmpError SnmpBadValue)
            | Inr v \<Rightarrow>
                res_bind (box_sensors_of kind unit rows) (\<lambda>ss.
                  Inr (\<lparr>sn_name = kind @ last (split_on 46 (sr_oid row)), sn_kind = kind,
                        sn_value = Reading v, sn_unit = unit\<rparr> # ss))))"

definition parse_box_sensors :: "(ustr \<times> ustr \<times> snmp_row list) list \<Rightarrow> sensor list py" where
  "parse_box_sensors rows_by_kind =
     res_bind (res_map (\<lambda>(kind, unit, rows). box_sensors_of kind unit rows) rows_by_kind)
       (\<lambda>sss. Inr (concat sss))"

text \<open>\<open>s.replace(old, new)\<close> for a non-empty \<open>old\<close>: left to right, not overlapping.\<close>

function str_replace :: "ustr \<Rightarrow> ustr \<Rightarrow> ustr \<Rightarrow> ustr" where
  "str_replace old new s =
     (case s of
        [] \<Rightarrow> []
      | c # cs \<Rightarrow>
          if old \<noteq> [] \<and> take (length old) s = old then new @ str_replace old new (drop (length old) s)
          else c # str_replace old new cs)"
  by pat_completeness auto
termination
  by (relation "measure (\<lambda>(old, new, s). length s)") auto

declare str_replace.simps [simp del]

definition canon_sensor_name :: "ustr \<Rightarrow> ustr" where
  "canon_sensor_name name =
     str_replace (lit ''PowerSupply'') (lit ''PS'') (str_replace (lit ''Power Supply'') (lit ''PS'') name)"

definition SENSOR_KIND_OF :: "(int, ustr) dict" where
  "SENSOR_KIND_OF = [(ENT_CLASS_POWER_SUPPLY, lit ''power''), (ENT_CLASS_FAN, lit ''fan'')]"

definition entity_sensor :: "(int, ustr) dict \<Rightarrow> (int, ustr) dict \<Rightarrow> int \<Rightarrow> ustr \<Rightarrow> sensor" where
  "entity_sensor names descrs idx kind =
     (let name = (case opt_or_none (dict_get names idx) of
                    Some n \<Rightarrow> n
                  | None \<Rightarrow> (case opt_or_none (dict_get descrs idx) of Some d \<Rightarrow> d | None \<Rightarrow> kind @ show_int idx))
      in \<lparr>sn_name = canon_sensor_name name, sn_kind = kind, sn_value = NoReading,
          sn_unit = lit ''inventory''\<rparr>)"

definition parse_entity_sensors ::
    "snmp_row list \<Rightarrow> snmp_row list \<Rightarrow> snmp_row list \<Rightarrow> sensor list py" where
  "parse_entity_sensors class_rows name_rows descr_rows =
     res_bind (index_str_column name_rows ENT_PHYSICAL_NAME) (\<lambda>names.
     res_bind (index_str_column descr_rows ENT_PHYSICAL_DESCR) (\<lambda>descrs.
     res_bind (index_int_column class_rows ENT_PHYSICAL_CLASS) (\<lambda>classes.
       Inr (concat (map (\<lambda>(idx, c).
              (case dict_get SENSOR_KIND_OF c of
                 None \<Rightarrow> [] | Some kind \<Rightarrow> [entity_sensor names descrs idx kind]))
            (sorted_items classes))))))"

section \<open>The management address\<close>

fun ip_str :: "snmp_row \<Rightarrow> ustr py" where
  "ip_str row = (case sr_value row of VOct (Text s) \<Rightarrow> Inr s | _ \<Rightarrow> Inl (SnmpError SnmpBadValue))"

fun ipv4_from_rfc4293_index :: "snmp_row list \<Rightarrow> ustr option" where
  "ipv4_from_rfc4293_index [] = None"
| "ipv4_from_rfc4293_index (row # rows) =
     (case suffix_of IP_ADDRESS_IFINDEX (sr_oid row) of
        None \<Rightarrow> ipv4_from_rfc4293_index rows
      | Some suffix \<Rightarrow>
          let parts = split_on 46 suffix in
          if length parts < 6 \<or> parts ! 0 \<noteq> lit ''1'' \<or> parts ! 1 \<noteq> lit ''4''
          then ipv4_from_rfc4293_index rows
          else let ip = dot_join (take 4 (drop 2 parts)) in
               if ip = lit ''127.0.0.1'' then ipv4_from_rfc4293_index rows else Some ip)"

fun first_address :: "snmp_row list \<Rightarrow> (ustr \<times> ustr) option py" where
  "first_address [] = Inr None"
| "first_address (row # rows) =
     (case suffix_of IP_ADENT_ADDR (sr_oid row) of
        None \<Rightarrow> first_address rows
      | Some idx \<Rightarrow>
          if sr_value row = VOct (Text (lit ''127.0.0.1'')) then first_address rows
          else res_bind (ip_str row) (\<lambda>ip. Inr (Some (ip, idx))))"

fun exact_ip :: "ustr \<Rightarrow> snmp_row list \<Rightarrow> ustr option py" where
  "exact_ip want [] = Inr None"
| "exact_ip want (row # rows) =
     (if sr_oid row = want then res_bind (ip_str row) (\<lambda>ip. Inr (Some ip)) else exact_ip want rows)"

fun default_gateway :: "(ustr, snmp_value) dict \<Rightarrow> snmp_row list \<Rightarrow> ustr option py" where
  "default_gateway dests [] = Inr None"
| "default_gateway dests (row # rows) =
     (case suffix_of IP_ROUTE_NEXTHOP (sr_oid row) of
        None \<Rightarrow> default_gateway dests rows
      | Some idx \<Rightarrow>
          if dict_get dests idx = Some (VOct (Text (lit ''0.0.0.0'')))
          then res_bind (ip_str row) (\<lambda>ip. Inr (Some ip))
          else default_gateway dests rows)"

definition dhcp_mode_of :: "snmp_row list \<Rightarrow> ip_mode" where
  "dhcp_mode_of rows =
     (case rows of
        [] \<Rightarrow> IpUnknown
      | row # _ \<Rightarrow>
          (case value_int (sr_value row) of
             Inl _ \<Rightarrow> IpUnknown
           | Inr n \<Rightarrow> if n = 1 then IpDhcp else if n = 2 then IpStatic else IpUnknown))"

definition parse_mgmt_ip ::
    "snmp_row list \<Rightarrow> snmp_row list \<Rightarrow> snmp_row list \<Rightarrow> snmp_row list \<Rightarrow> snmp_row list \<Rightarrow> snmp_row list
      \<Rightarrow> snmp_row list \<Rightarrow> mgmt_ip_config py" where
  "parse_mgmt_ip addr netmask route_dest route_nexthop dhcp base_mac addr_rfc4293 =
     res_bind (first_address addr) (\<lambda>found.
     res_bind (case found of
                 None \<Rightarrow> Inr None
               | Some (ip, idx) \<Rightarrow> exact_ip (IP_ADENT_NETMASK @ lit ''.'' @ idx) netmask) (\<lambda>mask.
     let dests = dict_of (map (\<lambda>r. (drop (length IP_ROUTE_DEST + 1) (sr_oid r), sr_value r)) route_dest) in
     res_bind (default_gateway dests route_nexthop) (\<lambda>gateway.
     res_bind (parse_base_mac base_mac) (\<lambda>mac.
       Inr \<lparr>ip_mode_of = dhcp_mode_of dhcp,
            ip_address = (case found of Some (ip, idx) \<Rightarrow> Some ip
                          | None \<Rightarrow> ipv4_from_rfc4293_index addr_rfc4293),
            ip_netmask = mask, ip_gateway = gateway, ip_base_mac = mac\<rparr>))))"

section \<open>Remote logging\<close>

definition ADMIN_ENABLED :: int where "ADMIN_ENABLED = 1"
definition HOST_STATUS_ACTIVE :: int where "HOST_STATUS_ACTIVE = 1"

fun first_int :: "snmp_row list \<Rightarrow> int option" where
  "first_int [] = None"
| "first_int (row # rows) = (case sr_value row of VInt n \<Rightarrow> Some n | _ \<Rightarrow> first_int rows)"

definition parse_syslog ::
    "snmp_row list \<Rightarrow> snmp_row list \<Rightarrow> snmp_row list \<Rightarrow> snmp_row list \<Rightarrow> snmp_row list \<Rightarrow> snmp_row list
      \<Rightarrow> ustr \<Rightarrow> ustr \<Rightarrow> ustr \<Rightarrow> ustr \<Rightarrow> syslog_config py" where
  "parse_syslog admin_mode local_port host_addr host_port host_severity host_status
      addr_base port_base severity_base status_base =
     res_bind (index_str_column host_addr addr_base) (\<lambda>addresses.
     res_bind (index_int_column host_port port_base) (\<lambda>ports.
     res_bind (index_int_column host_severity severity_base) (\<lambda>severities.
     res_bind (index_int_column host_status status_base) (\<lambda>statuses.
       Inr \<lparr>sg_enabled = (first_int admin_mode = Some ADMIN_ENABLED),
            sg_local_port = (case first_int local_port of None \<Rightarrow> 0 | Some n \<Rightarrow> n),
            sg_servers =
              map (\<lambda>(index, address).
                \<lparr>sl_host = address, sl_port = get_or 0 ports index,
                 sl_severity = get_or 0 severities index,
                 sl_active = (dict_get statuses index = Some HOST_STATUS_ACTIVE),
                 sl_index = Some index\<rparr>)
              (filter (\<lambda>(index, address). strip address \<noteq> []) (sorted_items addresses))\<rparr>))))"

section \<open>System scalars\<close>

fun scalar_text :: "snmp_row list \<Rightarrow> ustr \<Rightarrow> ustr option py" where
  "scalar_text [] oid = Inr None"
| "scalar_text (row # rows) oid =
     (if sr_oid row \<noteq> oid then scalar_text rows oid
      else (case sr_value row of
              VOct (Raw bs) \<Rightarrow> Inr (Some (utf8_decode_replace bs))
            | VOct (Text s) \<Rightarrow> Inr (Some s)
            | VInt _ \<Rightarrow> Inl (SnmpError SnmpBadValue)))"

definition parse_hostname :: "snmp_row list \<Rightarrow> ustr py" where
  "parse_hostname rows =
     res_bind (scalar_text rows SYS_NAME) (\<lambda>v.
       case v of None \<Rightarrow> Inl (SnmpError SnmpAbsent) | Some name \<Rightarrow> Inr name)"

definition parse_system_info :: "snmp_row list \<Rightarrow> (ustr option \<times> ustr option) py" where
  "parse_system_info rows =
     res_bind (scalar_text rows SYS_DESCR) (\<lambda>descr.
     res_bind (scalar_text rows SYS_OBJECT_ID) (\<lambda>oid. Inr (descr, oid)))"

section \<open>Identifying a model\<close>

text \<open>
  \<open>str.upper()\<close>, exact for the code points whose upper case is ASCII; the others are
  left as they are, so that they differ from every ASCII token as they do in Python.
\<close>

definition upper_char :: "nat \<Rightarrow> ustr" where
  "upper_char c =
     (if c = 223 then lit ''SS'' else if c = 305 then lit ''I'' else if c = 383 then lit ''S''
      else if c = 64256 then lit ''FF'' else if c = 64257 then lit ''FI'' else if c = 64258 then lit ''FL''
      else if c = 64259 then lit ''FFI'' else if c = 64260 then lit ''FFL''
      else if c = 64261 \<or> c = 64262 then lit ''ST'' else [ascii_upper_char c])"

definition to_upper :: "ustr \<Rightarrow> ustr" where
  "to_upper s = concat (map upper_char s)"

text \<open>\<open>s.split()\<close>: the words between white space, none of them empty.\<close>

definition split_words :: "ustr \<Rightarrow> ustr list" where
  "split_words s =
     filter (\<lambda>w. w \<noteq> []) (split_on 32 (map (\<lambda>c. if is_space c then 32 else c) s))"

text \<open>\<open>string.punctuation\<close> without the hyphen.\<close>

definition is_edge_punctuation :: "nat \<Rightarrow> bool" where
  "is_edge_punctuation c \<longleftrightarrow>
     (33 \<le> c \<and> c \<le> 47 \<and> c \<noteq> 45) \<or> (58 \<le> c \<and> c \<le> 64) \<or> (91 \<le> c \<and> c \<le> 96) \<or> (123 \<le> c \<and> c \<le> 126)"

definition strip_punctuation :: "ustr \<Rightarrow> ustr" where
  "strip_punctuation s = rev (dropWhile is_edge_punctuation (rev (dropWhile is_edge_punctuation s)))"

definition model_match_tokens :: "switch_model \<Rightarrow> ustr list" where
  "model_match_tokens model =
     (let name = lit (m_display_name model);
          tokens =
            (if 40 \<in> set name \<and> last name = 41
             then [strip (takeWhile (\<lambda>c. c \<noteq> 40) name),
                   strip (butlast (tl (dropWhile (\<lambda>c. c \<noteq> 40) name)))]
             else [strip name])
      in filter (\<lambda>t. t \<noteq> []) (to_upper (lit (m_key model)) # tokens))"

definition candidate_tokens :: "ustr \<Rightarrow> ustr list" where
  "candidate_tokens sys_descr = map (\<lambda>w. to_upper (strip_punctuation w)) (split_words sys_descr)"

definition SYSOBJECTID_MODELS :: "(ustr, string) dict" where
  "SYSOBJECTID_MODELS = [(lit ''1.3.6.1.4.1.4526.100.10.19'', ''gsm7228ps'')]"

definition detect_model_from_sysobjectid :: "ustr option \<Rightarrow> (string, switch_model) dict \<Rightarrow> string option" where
  "detect_model_from_sysobjectid sys_object_id models =
     (case opt_or_none sys_object_id of
        None \<Rightarrow> None
      | Some oid \<Rightarrow>
          (case dict_get SYSOBJECTID_MODELS oid of
             None \<Rightarrow> None
           | Some key \<Rightarrow> if key \<in> dict_keys models then Some key else None))"

definition detect_model_from_sysdescr :: "ustr option \<Rightarrow> (string, switch_model) dict \<Rightarrow> string option" where
  "detect_model_from_sysdescr sys_descr models =
     (case opt_or_none sys_descr of
        None \<Rightarrow> None
      | Some t \<Rightarrow>
          let candidates = candidate_tokens t;
              matches = remdups (map m_key (filter
                (\<lambda>model. list_ex (\<lambda>token. to_upper token \<in> set candidates) (model_match_tokens model))
                (map snd models)))
          in (case matches of [k] \<Rightarrow> Some k | _ \<Rightarrow> None))"

definition detected_model_of :: "snmp_row list \<Rightarrow> detected_model py" where
  "detected_model_of rows =
     res_bind (parse_system_info rows) (\<lambda>(sys_descr, sys_object_id).
       Inr \<lparr>dm_key = (case detect_model_from_sysobjectid sys_object_id MODELS of
                        Some k \<Rightarrow> Some k
                      | None \<Rightarrow> detect_model_from_sysdescr sys_descr MODELS),
            dm_sys_descr = sys_descr, dm_sys_object_id = sys_object_id\<rparr>)"

text \<open>A text names a model when one of its words is one of the model's names.\<close>

definition named_in :: "ustr \<Rightarrow> switch_model \<Rightarrow> bool" where
  "named_in t m \<longleftrightarrow> list_ex (\<lambda>token. to_upper token \<in> set (candidate_tokens t)) (model_match_tokens m)"

lemma remdups_single: "remdups xs = [k] \<longleftrightarrow> set xs = {k}"
proof
  assume "remdups xs = [k]"
  then have "set (remdups xs) = {k}" by simp
  then show "set xs = {k}" by simp
next
  assume "set xs = {k}"
  then have "set (remdups xs) = {k}" "length (remdups xs) = 1"
    by (simp_all add: length_remdups_card_conv)
  then show "remdups xs = [k]" by (cases "remdups xs") auto
qed

lemma single_case: "(case xs of [k] \<Rightarrow> Some k | _ \<Rightarrow> None) = Some k \<longleftrightarrow> xs = [k]"
  by (auto split: list.splits)

lemma detect_sysdescr_iff:
  "detect_model_from_sysdescr (Some t) models = Some k \<longleftrightarrow>
     t \<noteq> [] \<and> m_key ` {m \<in> snd ` set models. named_in t m} = {k}"
proof (cases "t = []")
  case False
  let ?ms = "map m_key (filter (named_in t) (map snd models))"
  have "detect_model_from_sysdescr (Some t) models = Some k \<longleftrightarrow> remdups ?ms = [k]"
    using False unfolding detect_model_from_sysdescr_def named_in_def
    by (simp add: opt_or_none_def single_case Let_def)
  also have "\<dots> \<longleftrightarrow> set ?ms = {k}" by (rule remdups_single)
  also have "set ?ms = m_key ` {m \<in> snd ` set models. named_in t m}" by auto
  finally show ?thesis using False by simp
qed (simp add: detect_model_from_sysdescr_def opt_or_none_def)

lemma registered_inj: "a \<in> set registered \<Longrightarrow> b \<in> set registered \<Longrightarrow> m_key a = m_key b \<Longrightarrow> a = b"
  using get_model_registered by (metis sum.inject(2))


lemmas word_eval = candidate_tokens_def split_words_def strip_punctuation_def is_edge_punctuation_def to_upper_def upper_char_def text_eval
lemma words_gs110emx: "candidate_tokens (lit ''GS110EMX - 8-port 10G'') = map lit [''GS110EMX'', ''-'', ''8-PORT'', ''10G'']"
  by (simp add: word_eval)
lemma words_gs305epp: "candidate_tokens (lit ''GS305EPP'') = map lit [''GS305EPP'']" by (simp add: word_eval)
lemma registered_tokens: "map model_match_tokens registered = map (map lit) [[''M4300-24X'', ''M4300-24X'', ''XSM4324CS''],
  [''M4300-16X'', ''M4300-16X'', ''XSM4316''],
  [''GSM7252PS'', ''GSM7252PS''], [''GSM7228PS'', ''GSM7228PS'', ''S3300''],
  [''GS110EMX'', ''GS110EMX''], [''GS305EP'', ''GS305EP''], [''M7300'', ''M7300-24XF''], [''XS748T'', ''XS748T''], [''GS728TPP'', ''GS728TPP''], [''GS105PE'', ''GS105PE'']]"
  by (simp add: registered_def model_defs model_match_tokens_def word_eval Let_def)

text \<open>
  A model is only ever identified from \<open>sysDescr\<close> by name: the answer is a
  registry key exactly when that model is the only registered one with a name equal,
  up to case and the punctuation at its edges, to a whole word of the text. A word
  that extends a registered name (a different product), a text that names two models
  and one that names none all give no answer.
\<close>

lemma model_identified:
  "detect_model_from_sysdescr (Some t) MODELS = Some k \<longleftrightarrow>
     (\<exists>m \<in> set registered. m_key m = k \<and> named_in t m \<and> (\<forall>m' \<in> set registered. named_in t m' \<longrightarrow> m' = m))"
proof -
  have ne: "t \<noteq> []" if "named_in t m" for m
    using that by (auto simp: named_in_def candidate_tokens_def split_words_def list_ex_iff)
  have "snd ` set MODELS = set registered" by (simp add: MODELS_def image_image)
  then have "detect_model_from_sysdescr (Some t) MODELS = Some k \<longleftrightarrow>
      t \<noteq> [] \<and> m_key ` {m \<in> set registered. named_in t m} = {k}"
    by (simp add: detect_sysdescr_iff)
  also have "\<dots> \<longleftrightarrow> (\<exists>m \<in> set registered. m_key m = k \<and> named_in t m
      \<and> (\<forall>m' \<in> set registered. named_in t m' \<longrightarrow> m' = m))"
  proof
    assume a: "t \<noteq> [] \<and> m_key ` {m \<in> set registered. named_in t m} = {k}"
    then have "k \<in> m_key ` {m \<in> set registered. named_in t m}" by simp
    then obtain m where m: "m \<in> set registered" "named_in t m" "m_key m = k" by blast
    moreover have "m' = m" if "m' \<in> set registered" "named_in t m'" for m'
    proof (rule registered_inj [OF that(1) m(1)])
      have "m_key m' \<in> m_key ` {m \<in> set registered. named_in t m}" using that by simp
      then show "m_key m' = m_key m" using a m(3) by simp
    qed
    ultimately show "\<exists>m \<in> set registered. m_key m = k \<and> named_in t m
      \<and> (\<forall>m' \<in> set registered. named_in t m' \<longrightarrow> m' = m)" by blast
  qed (use ne in auto)
  finally show ?thesis .
qed

lemma model_identified_witness:
  "detect_model_from_sysdescr (Some (lit ''GS110EMX - 8-port 10G'')) MODELS = Some ''gs110emx''
   \<and> detect_model_from_sysdescr (Some (lit ''GS305EPP'')) MODELS \<noteq> Some ''gs305ep''"
proof
  have names: "map (named_in t) registered =
      map (list_ex (\<lambda>token. to_upper token \<in> set (candidate_tokens t))) (map model_match_tokens registered)" for t
    by (simp add: named_in_def comp_def)
  have "map (named_in (lit ''GS110EMX - 8-port 10G'')) registered = map (\<lambda>m. m_key m = ''gs110emx'') registered"
    unfolding names words_gs110emx registered_tokens by (simp add: word_eval registered_def model_defs)
  then have a: "named_in (lit ''GS110EMX - 8-port 10G'') m = (m_key m = ''gs110emx'')" if "m \<in> set registered" for m
    using that by (simp add: map_eq_conv)
  have g: "gs110emx \<in> set registered" "m_key gs110emx = ''gs110emx''"
    by (simp_all add: registered_def gs110emx_def mk_model_def)
  show "detect_model_from_sysdescr (Some (lit ''GS110EMX - 8-port 10G'')) MODELS = Some ''gs110emx''"
    using a g registered_inj unfolding model_identified by (intro bexI [of _ gs110emx]) auto
  have "map (named_in (lit ''GS305EPP'')) registered = map (\<lambda>m. False) registered"
    unfolding names words_gs305epp registered_tokens by (simp add: word_eval registered_def)
  then have "\<not> named_in (lit ''GS305EPP'') m" if "m \<in> set registered" for m
    using that by (simp add: map_eq_conv)
  then show "detect_model_from_sysdescr (Some (lit ''GS305EPP'')) MODELS \<noteq> Some ''gs305ep''"
    unfolding model_identified by blast
qed
section \<open>Chassis identifiers\<close>

text \<open>
  A chassis identifier of the network-address kind (family 1 and the four bytes of
  10.1.5.13) arrives as five octets, and is shown as the Python literal of a bytes
  object; a six-letter name is shown as a MAC address.
\<close>

lemma chassis_id_literal:
  "format_chassis_id (VOct (Raw [1, 10, 1, 5, 13])) =
     lit ''b'' @ [39] @ concat (map (\<lambda>s. 92 # lit s) [''x01'', ''n'', ''x01'', ''x05'', ''r'']) @ [39]"
  by (simp add: format_chassis_id_def bytes_repr_def repr_byte_def hex_digit_def lit_def)

lemma chassis_id_name:
  "format_chassis_id (VOct (Text (lit ''switch''))) = lit ''73:77:69:74:63:68''"
  by (simp add: format_chassis_id_def format_02X_def hex_upper.simps hex_digit_upper_def lit_def)

end
