(* ===== verification/Snmp_Reader.thy ===== *)
theory Snmp_Reader
  imports Snmp_Parsers Snmp_Client
begin

text \<open>
  The SNMP reader (\<open>snmp_read.py\<close>): which columns each operation walks, in which
  order, and which parser it gives them to. The client is a parameter; every
  operation is a sequence of its calls, so a failed call ends the operation.
\<close>

definition snmp_require :: "switch_model \<Rightarrow> unit py" where
  "snmp_require model = (if SNMP \<notin> m_backends model then Inl UnsupportedCapabilityError else Inr ())"

definition read_system_info :: "'w snmp_client \<Rightarrow> ('w, exn, detected_model) io" where
  "read_system_info cl = io_bind (cl_get cl [SYS_DESCR, SYS_OBJECT_ID]) (\<lambda>rows. io_lift (detected_model_of rows))"

definition snmp_get_ports :: "'w snmp_client \<Rightarrow> ('w, exn, port_status list) io" where
  "snmp_get_ports cl =
     io_bind (cl_walk cl IF_ADMIN_STATUS) (\<lambda>admin.
     io_bind (cl_walk cl IF_OPER_STATUS) (\<lambda>oper.
     io_bind (cl_walk cl IF_HIGH_SPEED) (\<lambda>speed.
     io_bind (cl_walk cl IF_NAME) (\<lambda>names.
     io_bind (cl_walk cl IF_ALIAS) (\<lambda>aliases.
     io_bind (cl_walk cl IF_TYPE) (\<lambda>if_types.
     io_bind (cl_walk cl DOT3_STATS_DUPLEX_STATUS) (\<lambda>duplex.
     io_bind (cl_walk cl DOT3_PAUSE_OPER_MODE) (\<lambda>pause.
       io_lift (parse_port_status admin oper speed names aliases if_types duplex pause)))))))))"

definition snmp_get_stats :: "'w snmp_client \<Rightarrow> ('w, exn, port_stats list) io" where
  "snmp_get_stats cl =
     io_bind (cl_walk cl IF_HC_IN_OCTETS) (\<lambda>in_octets.
     io_bind (cl_walk cl IF_HC_OUT_OCTETS) (\<lambda>out_octets.
     io_bind (cl_walk cl IF_HC_IN_UCAST) (\<lambda>in_ucast.
     io_bind (cl_walk cl IF_HC_OUT_UCAST) (\<lambda>out_ucast.
     io_bind (cl_walk cl IF_IN_ERRORS) (\<lambda>in_errors.
     io_bind (cl_walk cl IF_OUT_ERRORS) (\<lambda>out_errors.
     io_bind (cl_walk cl IF_TYPE) (\<lambda>if_types.
       io_lift (parse_port_stats in_octets out_octets in_ucast out_ucast in_errors out_errors if_types))))))))"

definition snmp_get_vlans :: "'w snmp_client \<Rightarrow> ('w, exn, vlan_info list) io" where
  "snmp_get_vlans cl =
     io_bind (cl_walk cl DOT1Q_VLAN_STATIC_NAME) (\<lambda>names.
     io_bind (cl_walk cl DOT1Q_VLAN_STATIC_EGRESS) (\<lambda>egress.
     io_bind (cl_walk cl DOT1Q_VLAN_STATIC_UNTAGGED) (\<lambda>untagged.
     io_bind (cl_walk cl IF_TYPE) (\<lambda>if_types.
     io_bind (cl_walk cl DOT1Q_VLAN_CURRENT_EGRESS) (\<lambda>current_egress.
     io_bind (cl_walk cl DOT1Q_VLAN_CURRENT_UNTAGGED) (\<lambda>current_untagged.
       io_lift (parse_vlans names egress untagged if_types current_egress current_untagged)))))))"

definition snmp_get_pvids :: "'w snmp_client \<Rightarrow> ('w, exn, (int \<times> int) list) io" where
  "snmp_get_pvids cl =
     io_bind (cl_walk cl DOT1Q_PVID) (\<lambda>rows.
     io_bind (cl_walk cl IF_TYPE) (\<lambda>if_types. io_lift (parse_pvids rows if_types)))"

definition snmp_get_lldp :: "'w snmp_client \<Rightarrow> ('w, exn, lldp_neighbor list) io" where
  "snmp_get_lldp cl = io_bind (cl_walk cl LLDP_REM_TABLE) (\<lambda>rows. io_lift (parse_lldp rows))"

definition snmp_get_macs :: "'w snmp_client \<Rightarrow> ('w, exn, mac_entry list) io" where
  "snmp_get_macs cl =
     io_bind (cl_walk cl DOT1Q_TP_FDB_PORT) (\<lambda>fdb.
     io_bind (cl_walk cl DOT1D_BASE_PORT_IF_INDEX) (\<lambda>bridge_ports. io_lift (parse_macs fdb bridge_ports)))"

text \<open>A column of the vendor subtree, or no rows on a model that has no such subtree.\<close>

definition vendor_walk ::
    "'w snmp_client \<Rightarrow> switch_model \<Rightarrow> (vendor_oids \<Rightarrow> ustr) \<Rightarrow> ('w, exn, snmp_row list) io" where
  "vendor_walk cl model column =
     (if has_vendor_oids model
      then io_bind (io_lift (vendor_oids_of model)) (\<lambda>v. cl_walk cl (column v))
      else io_return [])"

definition snmp_get_poe :: "'w snmp_client \<Rightarrow> switch_model \<Rightarrow> ('w, exn, poe_status list) io" where
  "snmp_get_poe cl model =
     (if m_poe_port_count model = 0 then io_raise UnsupportedCapabilityError
      else
        io_bind (vendor_walk cl model vo_poe_power_mw) (\<lambda>power.
        io_bind (cl_walk cl PETH_PSE_PORT_ADMIN) (\<lambda>admin.
        io_bind (cl_walk cl PETH_PSE_PORT_DETECT) (\<lambda>detect.
          io_lift (parse_poe (admin @ detect) power)))))"

definition snmp_get_sensors :: "'w snmp_client \<Rightarrow> switch_model \<Rightarrow> ('w, exn, sensor list) io" where
  "snmp_get_sensors cl model =
     (if \<not> has_vendor_oids model then
        io_bind (cl_walk cl ENT_PHYSICAL_CLASS) (\<lambda>classes.
        io_bind (cl_walk cl ENT_PHYSICAL_NAME) (\<lambda>names.
        io_bind (cl_walk cl ENT_PHYSICAL_DESCR) (\<lambda>descrs.
          io_lift (parse_entity_sensors classes names descrs))))
      else
        io_bind (io_lift (vendor_oids_of model)) (\<lambda>v.
        io_bind (cl_walk cl (vo_box_fan v)) (\<lambda>fan.
        io_bind (cl_walk cl (vo_box_psu_power v)) (\<lambda>power.
        io_bind (cl_walk cl (vo_box_temp v)) (\<lambda>temp.
          if fan = [] \<and> power = [] \<and> temp = [] then io_raise UnsupportedCapabilityError
          else io_lift (parse_box_sensors
            [(lit ''fan'', lit ''RPM'', fan), (lit ''power'', lit ''W'', power),
             (lit ''temperature'', lit ''C'', temp)]))))))"

definition snmp_get_mgmt_ip :: "'w snmp_client \<Rightarrow> switch_model \<Rightarrow> ('w, exn, mgmt_ip_config) io" where
  "snmp_get_mgmt_ip cl model =
     io_bind (vendor_walk cl model vo_dhcp_mode_unverified) (\<lambda>dhcp.
     io_bind (cl_walk cl IP_ADENT_ADDR) (\<lambda>addr.
     io_bind (cl_walk cl IP_ADENT_NETMASK) (\<lambda>netmask.
     io_bind (cl_walk cl IP_ROUTE_DEST) (\<lambda>route_dest.
     io_bind (cl_walk cl IP_ROUTE_NEXTHOP) (\<lambda>route_nexthop.
     io_bind (cl_walk cl DOT1D_BASE_BRIDGE_ADDRESS) (\<lambda>base_mac.
     io_bind (cl_walk cl IP_ADDRESS_IFINDEX) (\<lambda>addr_rfc4293.
       io_lift (parse_mgmt_ip addr netmask route_dest route_nexthop dhcp base_mac addr_rfc4293))))))))"

definition snmp_get_hostname :: "'w snmp_client \<Rightarrow> ('w, exn, ustr) io" where
  "snmp_get_hostname cl = io_bind (cl_get cl [SYS_NAME]) (\<lambda>rows. io_lift (parse_hostname rows))"

definition snmp_get_syslog :: "'w snmp_client \<Rightarrow> switch_model \<Rightarrow> ('w, exn, syslog_config) io" where
  "snmp_get_syslog cl model =
     (if \<not> has_vendor_oids model then io_raise UnsupportedCapabilityError
      else
        io_bind (io_lift (vendor_oids_of model)) (\<lambda>vo.
        io_bind (cl_get cl [vo_syslog_admin_mode vo]) (\<lambda>admin_mode.
        io_bind (cl_get cl [vo_syslog_local_port vo]) (\<lambda>local_port.
        io_bind (cl_walk cl (vo_syslog_host_addr vo)) (\<lambda>host_addr.
        io_bind (cl_walk cl (vo_syslog_host_port vo)) (\<lambda>host_port.
        io_bind (cl_walk cl (vo_syslog_host_severity vo)) (\<lambda>host_severity.
        io_bind (cl_walk cl (vo_syslog_host_status vo)) (\<lambda>host_status.
          io_lift (parse_syslog admin_mode local_port host_addr host_port host_severity host_status
            (vo_syslog_host_addr vo) (vo_syslog_host_port vo) (vo_syslog_host_severity vo)
            (vo_syslog_host_status vo))))))))))"

definition snmp_get_system_info :: "'w snmp_client \<Rightarrow> ('w, exn, detected_model) io" where
  "snmp_get_system_info cl = read_system_info cl"

definition snmp_get_users :: "('w, exn, 'a list) io" where
  "snmp_get_users = io_raise UnsupportedCapabilityError"

definition snmp_get_services :: "('w, exn, 'a list) io" where
  "snmp_get_services = io_raise UnsupportedCapabilityError"

end
