(* ===== verification/Snmp_Rows.thy ===== *)
theory Snmp_Rows
  imports Snmp_Columns Snmp_Reader
begin

text \<open>
  From the entries of a column to the rows a walk returns and back through the column
  parsers of the reader: a column that holds a table indexed by one number is read
  back as that table, in the order of its indices.
\<close>

section \<open>Sorting by identifier is sorting by index\<close>

lemma insort_key_same:
  "(\<And>y. y \<in> set xs \<Longrightarrow> f x \<le> f y \<longleftrightarrow> g x \<le> g y) \<Longrightarrow> insort_key f x xs = insort_key g x xs"
  by (induction xs) auto

lemma sort_key_same:
  "(\<And>x y. x \<in> set xs \<Longrightarrow> y \<in> set xs \<Longrightarrow> f x \<le> f y \<longleftrightarrow> g x \<le> g y) \<Longrightarrow> sort_key f xs = sort_key g xs"
proof (induction xs)
  case (Cons x xs)
  then have "sort_key f xs = sort_key g xs" by simp
  then show ?case using Cons.prems by (auto intro: insort_key_same)
qed simp

lemma snoc_le_snoc [simp]: "xs @ [a] \<le> xs @ [b] \<longleftrightarrow> a \<le> (b :: 'a :: linorder)"
  by (induction xs) auto

lemma sort_col_rows:
  assumes "base \<noteq> []" "list_all (\<lambda>(i, _). 0 \<le> i) ps"
  shows "sort_key (\<lambda>e. tuple_of (fst e)) (map (\<lambda>(i, x). (col (dots base) i, f x)) ps) =
    map (\<lambda>(i, x). (col (dots base) i, f x)) (sorted_items ps)"
proof -
  have key: "tuple_of (col (dots base) i) = map int base @ [i]" if "0 \<le> i" for i
    using that assms(1) by (simp add: col_nonneg)
  have "sort_key (\<lambda>x. tuple_of (fst (case x of (i, x) \<Rightarrow> (col (dots base) i, f x)))) ps = sort_key fst ps"
  proof (rule sort_key_same)
    fix a b assume "a \<in> set ps" "b \<in> set ps"
    then have "0 \<le> fst a" "0 \<le> fst b" using assms(2) by (auto simp: list_all_iff)
    then show "(tuple_of (fst (case a of (i, x) \<Rightarrow> (col (dots base) i, f x)))
        \<le> tuple_of (fst (case b of (i, x) \<Rightarrow> (col (dots base) i, f x)))) = (fst a \<le> fst b)"
      by (simp add: case_prod_beta key)
  qed
  then show ?thesis unfolding sort_key_map sorted_items_def by simp
qed


section \<open>A walked column\<close>

text \<open>The range of an integer type, and what a text value becomes for the reader.\<close>

fun int_range :: "mib_type \<Rightarrow> int \<Rightarrow> bool" where
  "int_range TInteger n \<longleftrightarrow> -2147483648 \<le> n \<and> n \<le> 2147483647"
| "int_range TGauge32 n \<longleftrightarrow> 0 \<le> n \<and> n \<le> 4294967295"
| "int_range TCounter32 n \<longleftrightarrow> 0 \<le> n \<and> n \<le> 4294967295"
| "int_range TCounter64 n \<longleftrightarrow> 0 \<le> n \<and> n \<le> 18446744073709551615"
| "int_range _ n \<longleftrightarrow> False"

lemma read_int: "int_range ty n \<Longrightarrow> \<exists>t. read_value (ty, num n) = Inr (VInt n, t)"
  by (cases ty) (auto simp: read_value_def smi_int_def)

definition wire_value :: "bytes \<Rightarrow> snmp_value" where
  "wire_value bs = VOct (fst (octet_value bs))"

lemma read_octets: "list_all (\<lambda>c. c < 256) s \<Longrightarrow>
    read_value (TOctets, s) = Inr (wire_value (map of_nat s), snd (octet_value (map of_nat s)))"
  by (simp add: read_value_def latin1_encode_def wire_value_def)

lemma read_latin1: "read_value (TOctets, latin1_decode bs) = Inr (wire_value bs, snd (octet_value bs))"
proof -
  have "list_all (\<lambda>c. c < 256) (latin1_decode bs)" by (simp add: latin1_decode_def list_all_iff)
  moreover have "map of_nat (latin1_decode bs) = bs" by (simp add: latin1_decode_def comp_def)
  ultimately show ?thesis by (simp add: read_octets)
qed

text \<open>The values of a column, by index.\<close>

definition table_rows :: "ustr \<Rightarrow> (int \<times> mib_value) list \<Rightarrow> snmp_row list" where
  "table_rows base ps = map (\<lambda>(i, v). mk_row (col base i) (fst (read_of v)) (snd (read_of v))) ps"

definition table_ok :: "(int \<times> mib_value) list \<Rightarrow> bool" where
  "table_ok ps \<longleftrightarrow> dict_wf ps \<and> list_all (\<lambda>(i, v). 0 \<le> i \<and> (\<exists>x. read_value v = Inr x)) ps"

lemma col_inject: "0 \<le> i \<Longrightarrow> 0 \<le> j \<Longrightarrow> base \<noteq> [] \<Longrightarrow> col (dots base) i = col (dots base) j \<longleftrightarrow> i = j"
  by (auto simp: col_nonneg dots_inject)

lemma agent_walk_table:
  assumes s: "serves m es a" and b: "base \<noteq> []"
    and c: "column_of base es = map (\<lambda>(i, v). (col (dots (base @ ext)) i, v)) ps" and ok: "table_ok ps"
    and p: "\<not> compat [1, 3, 6, 1, 2, 1, 105, 1, 1, 1] base"
    and v: "\<And>ns. base_nums ns \<Longrightarrow> \<not> compat (ns @ [15, 1, 1, 1, 2]) base"
  shows "agent_walk (dots base) a = (Inr (table_rows (dots (base @ ext)) (sorted_items ps)), a)"
proof -
  have b': "base @ ext \<noteq> []" using b by simp
  have pos: "list_all (\<lambda>(i, _). 0 \<le> i) ps" using ok by (auto simp: table_ok_def list_all_iff)
  have "distinct (map fst (column_of base es))"
  proof -
    have "inj_on (\<lambda>i. col (dots (base @ ext)) i) (fst ` set ps)"
    proof (rule inj_onI)
      fix i j assume ij: "i \<in> fst ` set ps" "j \<in> fst ` set ps" "col (dots (base @ ext)) i = col (dots (base @ ext)) j"
      then have "0 \<le> i" "0 \<le> j" using pos by (auto simp: list_all_iff)
      then show "i = j" using col_inject [OF _ _ b'] ij(3) by blast
    qed
    moreover have "distinct (map fst ps)" using ok by (simp add: table_ok_def dict_wf_def)
    ultimately have "distinct (map (\<lambda>i. col (dots (base @ ext)) i) (map fst ps))"
      unfolding distinct_map [of _ "map fst ps"] set_map by blast
    moreover have "map fst (column_of base es) = map (\<lambda>i. col (dots (base @ ext)) i) (map fst ps)"
      by (simp add: c comp_def case_prod_beta)
    ultimately show ?thesis by (simp only:)
  qed
  moreover have "readable (column_of base es)"
    using ok by (auto simp: c readable_def table_ok_def list_all_iff)
  ultimately have "agent_walk (dots base) a = (Inr (map read_row (sorted_column base es)), a)"
    by (rule agent_walk_rows [OF s b _ _ p v])
  also have "map read_row (sorted_column base es) = table_rows (dots (base @ ext)) (sorted_items ps)"
    unfolding sorted_column_def c sort_col_rows [OF b' pos, of "\<lambda>v. v"]
    by (simp add: table_rows_def read_row_def case_prod_beta)
  finally show ?thesis .
qed

text \<open>The parsers over such rows give the table back.\<close>

lemma suffix_of_col: "0 \<le> i \<Longrightarrow> suffix_of base (col base i) = Some (show_nat (nat i))"
  by (simp add: suffix_of_Some col_def show_int_def)

lemma sorted_items_map:
  fixes ps :: "('k::linorder \<times> 'b) list"
  shows "sorted_items (map (\<lambda>(i, x). (i, f x)) ps) = map (\<lambda>(i, x). (i, f x)) (sorted_items ps)"
proof -
  have "(\<lambda>p. fst (case p of (i, x) \<Rightarrow> (i, f x))) = (fst :: 'k \<times> 'b \<Rightarrow> 'k)" by auto
  then show ?thesis unfolding sorted_items_def sort_key_map by simp
qed

lemma dict_set_append: "dict_wf (d @ (k, v) # ps) \<Longrightarrow> dict_set k v d = d @ [(k, v)]"
  by (rule dict_set_new) (auto simp: dict_wf_def)

lemma table_rows_Cons: "table_rows base ((i, v) # ps) = mk_row (col base i) (fst (read_of v)) (snd (read_of v)) # table_rows base ps"
  by (simp add: table_rows_def)

lemma dict_wf_move: "dict_wf (d @ (k, v) # ps) \<Longrightarrow> dict_wf ((d @ [(k, w)]) @ ps)"
  by (simp add: dict_wf_def)

text \<open>Integer columns.\<close>

definition int_table :: "mib_type \<Rightarrow> (int \<times> int) list \<Rightarrow> (int \<times> mib_value) list" where
  "int_table ty qs = map (\<lambda>(i, n). (i, ty, num n)) qs"

definition ints_ok :: "mib_type \<Rightarrow> (int \<times> int) list \<Rightarrow> bool" where
  "ints_ok ty qs \<longleftrightarrow> dict_wf qs \<and> list_all (\<lambda>(i, n). 0 \<le> i \<and> int_range ty n) qs"

lemma table_ok_int: "ints_ok ty qs \<Longrightarrow> table_ok (int_table ty qs)"
proof -
  assume a: "ints_ok ty qs"
  then have "dict_wf (int_table ty qs)"
    by (simp add: ints_ok_def int_table_def dict_wf_def comp_def case_prod_beta)
  with a show ?thesis
    using read_int [of ty] by (fastforce simp: table_ok_def ints_ok_def int_table_def list_all_iff)
qed

lemma index_int_rows:
  "list_all (\<lambda>(i, n). 0 \<le> i \<and> int_range ty n) qs \<Longrightarrow> dict_wf (d @ qs) \<Longrightarrow>
     index_int_loop base (table_rows base (int_table ty qs)) d = Inr (d @ qs)"
proof (induction qs arbitrary: d)
  case Nil
  then show ?case by (simp add: table_rows_def int_table_def)
next
  case (Cons q qs)
  obtain i n where q: "q = (i, n)" by (cases q)
  have i: "0 \<le> i" "int_range ty n" using Cons.prems(1) q by simp_all
  obtain t where "read_value (ty, num n) = Inr (VInt n, t)" using read_int [OF i(2)] by blast
  then have "read_of (ty, num n) = (VInt n, t)" by (simp add: read_of_def)
  moreover have "dict_set i n d = d @ [(i, n)]" "dict_wf ((d @ [(i, n)]) @ qs)"
    using Cons.prems(2) q dict_set_append dict_wf_move by metis+
  ultimately show ?case
    using Cons.IH [of "d @ [(i, n)]"] Cons.prems(1) i q
    by (simp add: table_rows_Cons int_table_def suffix_of_col no_dot_show_nat)
qed

lemma index_int_table:
  "ints_ok ty qs \<Longrightarrow> index_int_column (table_rows base (sorted_items (int_table ty qs))) base = Inr (sorted_items qs)"
proof -
  assume a: "ints_ok ty qs"
  have "sorted_items (int_table ty qs) = int_table ty (sorted_items qs)"
    unfolding int_table_def by (rule sorted_items_map)
  moreover have "list_all (\<lambda>(i, n). 0 \<le> i \<and> int_range ty n) (sorted_items qs)" "dict_wf ([] @ sorted_items qs)"
    using a by (simp_all add: ints_ok_def list_all_iff)
  ultimately show ?thesis unfolding index_int_column_def by (simp add: index_int_rows)
qed

text \<open>Text columns: ASCII text is read back as it is.\<close>

definition text_table :: "(int \<times> ustr) list \<Rightarrow> (int \<times> mib_value) list" where
  "text_table qs = map (\<lambda>(i, t). (i, TOctets, t)) qs"

definition texts_ok :: "(int \<times> ustr) list \<Rightarrow> bool" where
  "texts_ok qs \<longleftrightarrow> dict_wf qs \<and> list_all (\<lambda>(i, t). 0 \<le> i \<and> is_ascii t) qs"

lemma ascii_small: "is_ascii t \<Longrightarrow> list_all (\<lambda>c. c < 256) t"
  by (force simp: is_ascii_def list_all_iff)

lemma ascii_utf8: "is_ascii t \<Longrightarrow> utf8_decode_replace (map of_nat t) = t"
proof -
  assume a: "is_ascii t"
  then have "concat (map utf8_char t) = t"
    by (induction t) (auto simp: is_ascii_def utf8_char_def)
  moreover have "\<forall>c \<in> set t. is_scalar c" using a by (force simp: is_ascii_def is_scalar_def)
  ultimately have "utf8_encode t = Inr (map of_nat t)" by (simp add: utf8_encode_def list_all_iff)
  then show ?thesis by (rule utf8_roundtrip)
qed

lemma wire_text: "is_ascii t \<Longrightarrow>
    wire_value (map of_nat t) = VOct (Text t) \<or> wire_value (map of_nat t) = VOct (Raw (map of_nat t))"
proof -
  assume "is_ascii t"
  then have "map (unat \<circ> (of_nat :: nat \<Rightarrow> byte)) t = t" by (intro map_idI) (force simp: is_ascii_def)
  then show ?thesis by (auto simp: wire_value_def octet_value_def)
qed

lemma table_ok_text: "texts_ok qs \<Longrightarrow> table_ok (text_table qs)"
proof -
  assume a: "texts_ok qs"
  then have "dict_wf (text_table qs)"
    by (simp add: texts_ok_def text_table_def dict_wf_def comp_def case_prod_beta)
  with a show ?thesis
    using read_octets ascii_small by (fastforce simp: table_ok_def texts_ok_def text_table_def list_all_iff)
qed

lemma index_str_rows:
  "list_all (\<lambda>(i, t). 0 \<le> i \<and> is_ascii t) qs \<Longrightarrow> dict_wf (d @ qs) \<Longrightarrow>
     index_str_loop base (table_rows base (text_table qs)) d = Inr (d @ qs)"
proof (induction qs arbitrary: d)
  case Nil
  then show ?case by (simp add: table_rows_def text_table_def)
next
  case (Cons q qs)
  obtain i t where q: "q = (i, t)" by (cases q)
  have i: "0 \<le> i" "is_ascii t" using Cons.prems(1) q by simp_all
  have v: "fst (read_of (TOctets, t)) = wire_value (map of_nat t)"
    by (simp add: read_of_def read_octets [OF ascii_small [OF i(2)]])
  have "dict_set i t d = d @ [(i, t)]" "dict_wf ((d @ [(i, t)]) @ qs)"
    using Cons.prems(2) q dict_set_append dict_wf_move by metis+
  then show ?case
    using Cons.IH [of "d @ [(i, t)]"] Cons.prems(1) i q wire_text [OF i(2)]
    by (auto simp: table_rows_Cons text_table_def suffix_of_col no_dot_show_nat v ascii_utf8)
qed

lemma index_str_table:
  "texts_ok qs \<Longrightarrow> index_str_column (table_rows base (sorted_items (text_table qs))) base = Inr (sorted_items qs)"
proof -
  assume a: "texts_ok qs"
  have "sorted_items (text_table qs) = text_table (sorted_items qs)"
    unfolding text_table_def by (rule sorted_items_map)
  moreover have "list_all (\<lambda>(i, t). 0 \<le> i \<and> is_ascii t) (sorted_items qs)" "dict_wf ([] @ sorted_items qs)"
    using a by (simp_all add: texts_ok_def list_all_iff)
  ultimately show ?thesis unfolding index_str_column_def by (simp add: index_str_rows)
qed


text \<open>Port lists: the octets of a column, whatever form they take on the wire.\<close>

definition octets_table :: "(int \<times> bytes) list \<Rightarrow> (int \<times> mib_value) list" where
  "octets_table qs = map (\<lambda>(i, bs). (i, TOctets, latin1_decode bs)) qs"

definition wire_octets :: "bytes \<Rightarrow> octets" where
  "wire_octets bs = fst (octet_value bs)"

definition octets_index :: "(int \<times> bytes) list \<Rightarrow> bool" where
  "octets_index qs \<longleftrightarrow> dict_wf qs \<and> list_all (\<lambda>(i, _). 0 \<le> i) qs"

lemma table_ok_octets: "octets_index qs \<Longrightarrow> table_ok (octets_table qs)"
proof -
  assume a: "octets_index qs"
  then have "dict_wf (octets_table qs)"
    by (simp add: octets_index_def octets_table_def dict_wf_def comp_def case_prod_beta)
  with a show ?thesis
    using read_latin1 by (fastforce simp: table_ok_def octets_index_def octets_table_def list_all_iff)
qed

lemma decode_wire_octets [simp]: "decode_port_bitmap (wire_octets bs) = Inr (set (bitmap_ports bs))"
proof (cases "bs = [] \<or> list_all printable bs")
  case True
  have "list_all (\<lambda>c. c < 256) (map unat bs)" by (simp add: list_all_iff)
  with True show ?thesis by (simp add: wire_octets_def octet_value_def latin1_encode_def comp_def)
qed (auto simp: wire_octets_def octet_value_def)

lemma read_octets_entry: "fst (read_of (TOctets, latin1_decode bs)) = VOct (wire_octets bs)"
  by (simp add: read_of_def read_latin1 wire_value_def wire_octets_def)

lemma vlan_bitmap_rows:
  "list_all (\<lambda>(i, _). 0 \<le> i) qs \<Longrightarrow> dict_wf (d @ map (\<lambda>(i, bs). (i, wire_octets bs)) qs) \<Longrightarrow>
     vlan_bitmap_loop base (table_rows base (octets_table qs)) d = Inr (d @ map (\<lambda>(i, bs). (i, wire_octets bs)) qs)"
proof (induction qs arbitrary: d)
  case Nil
  then show ?case by (simp add: table_rows_def octets_table_def)
next
  case (Cons q qs)
  obtain i bs where q: "q = (i, bs)" by (cases q)
  have i: "0 \<le> i" using Cons.prems(1) q by simp
  have "dict_wf (d @ (i, wire_octets bs) # map (\<lambda>(i, bs). (i, wire_octets bs)) qs)"
    using Cons.prems(2) q by simp
  then have "dict_set i (wire_octets bs) d = d @ [(i, wire_octets bs)]"
    "dict_wf ((d @ [(i, wire_octets bs)]) @ map (\<lambda>(i, bs). (i, wire_octets bs)) qs)"
    using dict_set_append dict_wf_move by metis+
  then show ?case
    using Cons.IH [of "d @ [(i, wire_octets bs)]"] Cons.prems(1) i q
    by (simp add: table_rows_Cons octets_table_def suffix_of_col read_octets_entry)
qed

lemma vlan_bitmap_table:
  "octets_index qs \<Longrightarrow> vlan_bitmap_map (table_rows base (sorted_items (octets_table qs))) base
     = Inr (map (\<lambda>(i, bs). (i, wire_octets bs)) (sorted_items qs))"
proof -
  assume a: "octets_index qs"
  have "sorted_items (octets_table qs) = octets_table (sorted_items qs)"
    unfolding octets_table_def by (rule sorted_items_map)
  moreover have "list_all (\<lambda>(i, _). 0 \<le> i) (sorted_items qs)"
    "dict_wf ([] @ map (\<lambda>(i, bs). (i, wire_octets bs)) (sorted_items qs))"
    using a by (simp_all add: octets_index_def list_all_iff)
  ultimately show ?thesis unfolding vlan_bitmap_map_def by (simp add: vlan_bitmap_rows)
qed

lemma current_bitmap_rows:
  assumes "b \<noteq> []"
  shows "list_all (\<lambda>(i, _). 0 \<le> i) qs \<Longrightarrow> dict_wf (d @ map (\<lambda>(i, bs). (i, wire_octets bs)) qs) \<Longrightarrow>
     current_vlan_bitmap_loop (dots b) (table_rows (dots (b @ [0])) (octets_table qs)) d
       = Inr (d @ map (\<lambda>(i, bs). (i, wire_octets bs)) qs)"
proof (induction qs arbitrary: d)
  case Nil
  then show ?case by (simp add: table_rows_def octets_table_def)
next
  case (Cons q qs)
  obtain i bs where q: "q = (i, bs)" by (cases q)
  have i: "0 \<le> i" using Cons.prems(1) q by simp
  have "dict_wf (d @ (i, wire_octets bs) # map (\<lambda>(i, bs). (i, wire_octets bs)) qs)"
    using Cons.prems(2) q by simp
  then have "dict_set i (wire_octets bs) d = d @ [(i, wire_octets bs)]"
    "dict_wf ((d @ [(i, wire_octets bs)]) @ map (\<lambda>(i, bs). (i, wire_octets bs)) qs)"
    using dict_set_append dict_wf_move by metis+
  moreover have "suffix_of (dots b) (col (dots (b @ [0])) i) = Some (dots [0, nat i])"
    using assms i by (simp add: col_nonneg suffix_of_dots)
  moreover have "split_on 46 (dots [0, nat i]) = [show_nat 0, show_nat (nat i)]"
    by (simp add: split_dots)
  ultimately show ?case
    using Cons.IH [of "d @ [(i, wire_octets bs)]"] Cons.prems(1) i q
    by (simp add: table_rows_Cons octets_table_def read_octets_entry Let_def)
qed

lemma current_bitmap_table:
  "b \<noteq> [] \<Longrightarrow> octets_index qs \<Longrightarrow>
     current_vlan_bitmap_map (table_rows (dots (b @ [0])) (sorted_items (octets_table qs))) (dots b)
       = Inr (map (\<lambda>(i, bs). (i, wire_octets bs)) (sorted_items qs))"
proof -
  assume b: "b \<noteq> []" and a: "octets_index qs"
  have "sorted_items (octets_table qs) = octets_table (sorted_items qs)"
    unfolding octets_table_def by (rule sorted_items_map)
  moreover have "list_all (\<lambda>(i, _). 0 \<le> i) (sorted_items qs)"
    "dict_wf ([] @ map (\<lambda>(i, bs). (i, wire_octets bs)) (sorted_items qs))"
    using a by (simp_all add: octets_index_def list_all_iff)
  ultimately show ?thesis unfolding current_vlan_bitmap_map_def by (simp add: current_bitmap_rows [OF b])
qed

end
