(* ===== verification/Snmp_Tables.thy ===== *)
theory Snmp_Tables
  imports Snmp_Rows
begin

text \<open>
  The columns of the virtual switch that the reader's port and VLAN operations walk:
  which entries of the projection each one holds, the rows its walk returns, and the
  table the column parser makes of them.
\<close>

section \<open>The columns of the ports\<close>

lemma concat_if: "concat (map (\<lambda>x. if P x then [f x] else []) xs) = map f (filter P xs)"
  by (induction xs) auto

lemma concat_single: "concat (map (\<lambda>x. [f x]) xs) = map f xs"
  by (induction xs) auto

lemma concat_option: "concat (map (\<lambda>x. case g x of Some d \<Rightarrow> [f x d] | None \<Rightarrow> []) xs) =
    map (\<lambda>x. f x (the (g x))) (filter (\<lambda>x. g x \<noteq> None) xs)"
  by (induction xs) (auto split: option.splits)

lemmas column_eval = column_sections sections_def roots_defs compat_def Let_def column_of_concat comp_def

definition flag_int :: "bool \<Rightarrow> int" where
  "flag_int b = (if b then 1 else 2)"

lemma num_small: "num 1 = lit ''1''" "num 2 = lit ''2''" "num 3 = lit ''3''" "num 4 = lit ''4''"
  by (simp_all add: show_int_def show_nat.simps lit_def)

lemma flag_num: "flag b = num (flag_int b)"
  by (simp add: flag_def flag_int_def num_small)

lemma flag_range: "-2147483648 \<le> flag_int b" "flag_int b \<le> 2147483647"
  by (simp_all add: flag_int_def)

lemma column_port_entries:
  assumes "0 \<le> p"
  shows
    "column_of [1, 3, 6, 1, 2, 1, 2, 2, 1, 7] (port_entries (p, x)) = [(col IF_ADMIN_STATUS p, TInteger, num (flag_int (pt_admin x)))]"
    "column_of [1, 3, 6, 1, 2, 1, 2, 2, 1, 8] (port_entries (p, x)) = [(col IF_OPER_STATUS p, TInteger, num (flag_int (pt_link x)))]"
    "column_of [1, 3, 6, 1, 2, 1, 31, 1, 1, 1, 15] (port_entries (p, x)) = [(col IF_HIGH_SPEED p, TGauge32, num (pt_speed x))]"
    "column_of [1, 3, 6, 1, 2, 1, 2, 2, 1, 3] (port_entries (p, x)) = [(col IF_TYPE p, TInteger, num (pt_if_type x))]"
    "column_of [1, 3, 6, 1, 2, 1, 31, 1, 1, 1, 1] (port_entries (p, x)) = [(col IF_NAME p, TOctets, pt_name x)]"
    "column_of [1, 3, 6, 1, 2, 1, 31, 1, 1, 1, 18] (port_entries (p, x)) =
       (case pt_description x of Some d \<Rightarrow> [(col IF_ALIAS p, TOctets, d)] | None \<Rightarrow> [])"
    "column_of [1, 3, 6, 1, 2, 1, 10, 7, 2, 1, 19] (port_entries (p, x)) =
       (if pt_serves_etherlike x then [(col DOT3_STATS_DUPLEX_STATUS p, TInteger, num (if pt_link x then 3 else 1))] else [])"
    "column_of [1, 3, 6, 1, 2, 1, 10, 7, 10, 1, 2] (port_entries (p, x)) =
       (if pt_serves_etherlike x then [(col DOT3_PAUSE_OPER_MODE p, TInteger, num (if pt_flow_control x then 4 else 1))] else [])"
  using assms
  by (simp_all add: port_entries_def counter_entry_def oid_eval suffix_of_dots flag_num num_small split: option.splits)

lemma column_vlan_rows:
  assumes "0 \<le> vid"
  shows
    "column_of [1, 3, 6, 1, 2, 1, 17, 7, 1, 4, 3, 1, 1] (vlan_rows w (vid, v)) =
       (if vl_static_row v then [(col DOT1Q_VLAN_STATIC_NAME vid, TOctets, vl_name v)] else [])"
    "column_of [1, 3, 6, 1, 2, 1, 17, 7, 1, 4, 3, 1, 2] (vlan_rows w (vid, v)) =
       (if vl_static_row v then [(col DOT1Q_VLAN_STATIC_EGRESS vid, TOctets, latin1_decode (bitmap_of (configured v) w))] else [])"
    "column_of [1, 3, 6, 1, 2, 1, 17, 7, 1, 4, 3, 1, 4] (vlan_rows w (vid, v)) =
       (if vl_static_row v then [(col DOT1Q_VLAN_STATIC_UNTAGGED vid, TOctets, latin1_decode (bitmap_of (vl_untagged v) w))] else [])"
    "column_of [1, 3, 6, 1, 2, 1, 17, 7, 1, 4, 2, 1, 4] (vlan_rows w (vid, v)) =
       [(col (dots ([1, 3, 6, 1, 2, 1, 17, 7, 1, 4, 2, 1, 4] @ [0])) vid, TOctets, latin1_decode (bitmap_of (vl_member v) w))]"
    "column_of [1, 3, 6, 1, 2, 1, 17, 7, 1, 4, 2, 1, 5] (vlan_rows w (vid, v)) =
       [(col (dots ([1, 3, 6, 1, 2, 1, 17, 7, 1, 4, 2, 1, 5] @ [0])) vid, TOctets, latin1_decode (bitmap_of (vl_untagged v) w))]"
  using assms by (simp_all add: vlan_rows_def oid_eval suffix_of_dots)


lemma concat_table:
  assumes "\<And>p x. (p, x) \<in> set ps \<Longrightarrow> F (p, x) = (if P x then [(c p, h x)] else [])"
  shows "concat (map F ps) = map (\<lambda>(i, v). (c i, v)) (map (\<lambda>(p, x). (p, h x)) (filter (\<lambda>(_, x). P x) ps))"
  using assms
proof (induction ps)
  case (Cons q ps)
  obtain p x where "q = (p, x)" by (cases q)
  with Cons.prems [of p x] Cons.IH Cons.prems show ?case by simp
qed simp

definition port_table :: "(port_sim \<Rightarrow> bool) \<Rightarrow> (port_sim \<Rightarrow> 'a) \<Rightarrow> virtual_switch \<Rightarrow> (int \<times> 'a) list" where
  "port_table P f s = map (\<lambda>(p, x). (p, f x)) (filter (\<lambda>(_, x). P x) (vs_ports s))"

definition vlan_table :: "(vlan_sim \<Rightarrow> bool) \<Rightarrow> (vlan_sim \<Rightarrow> 'a) \<Rightarrow> virtual_switch \<Rightarrow> (int \<times> 'a) list" where
  "vlan_table P f s = map (\<lambda>(v, x). (v, f x)) (filter (\<lambda>(_, x). P x) (vs_vlans s))"

lemma mib_nonneg:
  assumes "mib_wf m s"
  shows "(p, x) \<in> set (vs_ports s) \<Longrightarrow> 0 \<le> p" "(vid, v) \<in> set (vs_vlans s) \<Longrightarrow> 0 \<le> vid"
    "(p, n) \<in> set (vs_pvids s) \<Longrightarrow> 0 \<le> p"
  using assms by (force simp: mib_wf_def indices_ok_def list_all_iff)+

definition port_bases :: "nat list set" where
  "port_bases = {[1, 3, 6, 1, 2, 1, 2, 2, 1, 7], [1, 3, 6, 1, 2, 1, 2, 2, 1, 8], [1, 3, 6, 1, 2, 1, 31, 1, 1, 1, 15],
      [1, 3, 6, 1, 2, 1, 2, 2, 1, 3], [1, 3, 6, 1, 2, 1, 31, 1, 1, 1, 1], [1, 3, 6, 1, 2, 1, 31, 1, 1, 1, 18],
      [1, 3, 6, 1, 2, 1, 10, 7, 2, 1, 19], [1, 3, 6, 1, 2, 1, 10, 7, 10, 1, 2]}"

definition vlan_bases :: "nat list set" where
  "vlan_bases = {[1, 3, 6, 1, 2, 1, 17, 7, 1, 4, 3, 1, 1], [1, 3, 6, 1, 2, 1, 17, 7, 1, 4, 3, 1, 2],
      [1, 3, 6, 1, 2, 1, 17, 7, 1, 4, 3, 1, 4], [1, 3, 6, 1, 2, 1, 17, 7, 1, 4, 2, 1, 4], [1, 3, 6, 1, 2, 1, 17, 7, 1, 4, 2, 1, 5]}"

lemma column_of_ports:
  assumes "mib_wf m s"
    and "base \<in> port_bases"
  shows "column_of base (mib_list m s) = concat (map (\<lambda>x. column_of base (port_entries x)) (vs_ports s))"
  using assms(2) unfolding port_bases_def vlan_bases_def by (elim insertE emptyE; hypsubst) (simp_all add: column_eval assms(1))

lemma column_of_vlans:
  assumes "mib_wf m s"
    and "base \<in> vlan_bases"
  shows "column_of base (mib_list m s) = concat (map (\<lambda>x. column_of base (vlan_rows (vlan_width m s) x)) (vs_vlans s))"
  using assms(2) unfolding port_bases_def vlan_bases_def by (elim insertE emptyE; hypsubst) (simp_all add: column_eval assms(1))


section \<open>An agent whose view is up to date\<close>

definition agent_ok :: "switch_model \<Rightarrow> snmp_agent \<Rightarrow> bool" where
  "agent_ok m a \<longleftrightarrow> agent_model a = Inr m \<and> mib_wf m (ag_state a) \<and> ag_view a = view_of (mib_list m (ag_state a))"

lemma agent_ok_serves: "agent_ok m a \<Longrightarrow> serves m (mib_list m (ag_state a)) a"
  using mib_dotted by (auto simp: agent_ok_def serves_def mib_wf_def)

text \<open>Values that fit their SMI types, and text that is ASCII.\<close>

definition wire_ok :: "virtual_switch \<Rightarrow> bool" where
  "wire_ok s \<longleftrightarrow>
     list_all (\<lambda>(_, x). int_range TGauge32 (pt_speed x) \<and> int_range TInteger (pt_if_type x) \<and> is_ascii (pt_name x)
       \<and> is_ascii (case pt_description x of Some d \<Rightarrow> d | None \<Rightarrow> [])) (vs_ports s)
     \<and> list_all (\<lambda>(_, v). is_ascii (vl_name v)) (vs_vlans s)
     \<and> list_all (\<lambda>(_, n). int_range TGauge32 n) (vs_pvids s)"

lemma dict_wf_filter [simp]: "dict_wf ps \<Longrightarrow> dict_wf (filter Q ps)"
  unfolding dict_wf_def by (simp add: distinct_map_filter)

lemma port_table_ok:
  assumes "mib_wf m s"
  shows "dict_wf (port_table P f s)" "list_all (\<lambda>(i, _). 0 \<le> i) (port_table P f s)"
  using assms mib_nonneg [OF assms]
  by (auto simp: mib_wf_def tables_wf_def port_table_def list_all_iff)

lemma vlan_table_ok:
  assumes "mib_wf m s"
  shows "dict_wf (vlan_table P f s)" "list_all (\<lambda>(i, _). 0 \<le> i) (vlan_table P f s)"
  using assms mib_nonneg [OF assms]
  by (auto simp: mib_wf_def tables_wf_def vlan_table_def list_all_iff)

lemma table_column:
  "map (\<lambda>(i, v). (c i, v)) (map (\<lambda>(p, x). (p, (ty, num (f x)))) ps) =
     map (\<lambda>(i, v). (c i, v)) (int_table ty (map (\<lambda>(p, x). (p, f x)) ps))"
  "map (\<lambda>(i, v). (c i, v)) (map (\<lambda>(p, x). (p, (TOctets, g x))) ps) =
     map (\<lambda>(i, v). (c i, v)) (text_table (map (\<lambda>(p, x). (p, g x)) ps))"
  "map (\<lambda>(i, v). (c i, v)) (map (\<lambda>(p, x). (p, (TOctets, latin1_decode (h x)))) ps) =
     map (\<lambda>(i, v). (c i, v)) (octets_table (map (\<lambda>(p, x). (p, h x)) ps))"
  by (simp_all add: int_table_def text_table_def octets_table_def case_prod_beta comp_def)

lemma ints_port_table:
  assumes "mib_wf m s" "\<And>p x. (p, x) \<in> set (vs_ports s) \<Longrightarrow> P x \<Longrightarrow> int_range ty (f x)"
  shows "ints_ok ty (port_table P f s)"
  using port_table_ok [OF assms(1), of P f] assms(2)
  by (auto simp: ints_ok_def list_all_iff port_table_def)

lemma texts_port_table:
  assumes "mib_wf m s" "\<And>p x. (p, x) \<in> set (vs_ports s) \<Longrightarrow> P x \<Longrightarrow> is_ascii (f x)"
  shows "texts_ok (port_table P f s)"
  using port_table_ok [OF assms(1), of P f] assms(2)
  by (auto simp: texts_ok_def list_all_iff port_table_def)

lemma octets_vlan_table: "mib_wf m s \<Longrightarrow> octets_index (vlan_table P f s)"
  unfolding octets_index_def using vlan_table_ok [of m s P f] by blast

lemma texts_vlan_table: "mib_wf m s \<Longrightarrow> wire_ok s \<Longrightarrow> texts_ok (vlan_table P vl_name s)"
  using vlan_table_ok [of m s P vl_name]
  by (auto simp: texts_ok_def wire_ok_def list_all_iff vlan_table_def)

text \<open>The walks of the reader.\<close>

lemma walk_ports:
  assumes a: "agent_ok m a"
    and base: "base \<in> port_bases"
    and col: "\<And>p x. (p, x) \<in> set (vs_ports (ag_state a)) \<Longrightarrow>
      column_of base (port_entries (p, x)) = (if P x then [(col (dots base) p, h x)] else [])"
    and ok: "table_ok (port_table P h (ag_state a))"
  shows "agent_walk (dots base) a = (Inr (table_rows (dots base) (sorted_items (port_table P h (ag_state a)))), a)"
proof -
  have wf: "mib_wf m (ag_state a)" using a by (simp add: agent_ok_def)
  have "column_of base (mib_list m (ag_state a)) =
      map (\<lambda>(i, v). (col (dots (base @ [])) i, v)) (port_table P h (ag_state a))"
    unfolding column_of_ports [OF wf base] port_table_def
    by (subst concat_table [where P = P and c = "col (dots base)" and h = h]) (use col in simp_all)
  moreover have "base \<noteq> []" "\<not> compat [1, 3, 6, 1, 2, 1, 105, 1, 1, 1] base"
      "\<And>ns. base_nums ns \<Longrightarrow> \<not> compat (ns @ [15, 1, 1, 1, 2]) base"
    using base unfolding port_bases_def vlan_bases_def by (elim insertE emptyE; hypsubst; auto simp: compat_def base_nums_def)+
  ultimately show ?thesis
    using agent_walk_table [OF agent_ok_serves [OF a] _ _ ok, of base "[]"] by simp
qed


lemma walk_vlans:
  assumes a: "agent_ok m a"
    and base: "base \<in> vlan_bases"
    and col: "\<And>vid v. (vid, v) \<in> set (vs_vlans (ag_state a)) \<Longrightarrow>
      column_of base (vlan_rows (vlan_width m (ag_state a)) (vid, v)) = (if P v then [(col (dots (base @ ext)) vid, h v)] else [])"
    and ok: "table_ok (vlan_table P h (ag_state a))"
  shows "agent_walk (dots base) a = (Inr (table_rows (dots (base @ ext)) (sorted_items (vlan_table P h (ag_state a)))), a)"
proof -
  have wf: "mib_wf m (ag_state a)" using a by (simp add: agent_ok_def)
  have "column_of base (mib_list m (ag_state a)) =
      map (\<lambda>(i, v). (col (dots (base @ ext)) i, v)) (vlan_table P h (ag_state a))"
    unfolding column_of_vlans [OF wf base] vlan_table_def
    by (subst concat_table [where P = P and c = "col (dots (base @ ext))" and h = h]) (use col in simp_all)
  moreover have "base \<noteq> []" "\<not> compat [1, 3, 6, 1, 2, 1, 105, 1, 1, 1] base"
      "\<And>ns. base_nums ns \<Longrightarrow> \<not> compat (ns @ [15, 1, 1, 1, 2]) base"
    using base unfolding port_bases_def vlan_bases_def by (elim insertE emptyE; hypsubst; auto simp: compat_def base_nums_def)+
  ultimately show ?thesis
    using agent_walk_table [OF agent_ok_serves [OF a] _ _ ok, of base ext] by simp
qed

lemma port_table_fold:
  "port_table P (\<lambda>x. (ty, num (f x))) s = int_table ty (port_table P f s)"
  "port_table P (\<lambda>x. (TOctets, g x)) s = text_table (port_table P g s)"
  by (simp_all add: port_table_def int_table_def text_table_def case_prod_beta comp_def)

lemma vlan_table_fold:
  "vlan_table Q (\<lambda>x. (TOctets, g x)) s = text_table (vlan_table Q g s)"
  "vlan_table Q (\<lambda>x. (TOctets, latin1_decode (h x))) s = octets_table (vlan_table Q h s)"
  by (simp_all add: vlan_table_def text_table_def octets_table_def case_prod_beta comp_def)

lemma wire_ok_ports:
  assumes "wire_ok s" "(p, x) \<in> set (vs_ports s)"
  shows "int_range TGauge32 (pt_speed x)" "int_range TInteger (pt_if_type x)" "is_ascii (pt_name x)"
    "pt_description x = Some d \<Longrightarrow> is_ascii d"
  using assms by (force simp: wire_ok_def list_all_iff)+

text \<open>What each walk gives, and what the column parser of the reader makes of it.\<close>

lemma walk_int_port_column:
  assumes a: "agent_ok m a"
    and base: "base \<in> port_bases"
    and col: "\<And>p x. (p, x) \<in> set (vs_ports (ag_state a)) \<Longrightarrow>
      column_of base (port_entries (p, x)) = (if P x then [(col (dots base) p, ty, num (f x))] else [])"
    and ok: "\<And>p x. (p, x) \<in> set (vs_ports (ag_state a)) \<Longrightarrow> P x \<Longrightarrow> int_range ty (f x)"
  shows "\<exists>rows. agent_walk (dots base) a = (Inr rows, a)
    \<and> index_int_column rows (dots base) = Inr (sorted_items (port_table P f (ag_state a)))"
proof -
  have wf: "mib_wf m (ag_state a)" using a by (simp add: agent_ok_def)
  have ints: "ints_ok ty (port_table P f (ag_state a))"
    using ints_port_table [OF wf] ok by blast
  have t: "table_ok (port_table P (\<lambda>x. (ty, num (f x))) (ag_state a))"
    unfolding port_table_fold by (rule table_ok_int [OF ints])
  note w = walk_ports [OF a base col t]
  show ?thesis
    using w index_int_table [OF ints] unfolding port_table_fold by blast
qed

lemma walk_text_port_column:
  assumes a: "agent_ok m a"
    and base: "base \<in> port_bases"
    and col: "\<And>p x. (p, x) \<in> set (vs_ports (ag_state a)) \<Longrightarrow>
      column_of base (port_entries (p, x)) = (if P x then [(col (dots base) p, TOctets, f x)] else [])"
    and ok: "\<And>p x. (p, x) \<in> set (vs_ports (ag_state a)) \<Longrightarrow> P x \<Longrightarrow> is_ascii (f x)"
  shows "\<exists>rows. agent_walk (dots base) a = (Inr rows, a)
    \<and> index_str_column rows (dots base) = Inr (sorted_items (port_table P f (ag_state a)))"
proof -
  have wf: "mib_wf m (ag_state a)" using a by (simp add: agent_ok_def)
  have texts: "texts_ok (port_table P f (ag_state a))"
    using texts_port_table [OF wf] ok by blast
  have t: "table_ok (port_table P (\<lambda>x. (TOctets, f x)) (ag_state a))"
    unfolding port_table_fold by (rule table_ok_text [OF texts])
  note w = walk_ports [OF a base col t]
  show ?thesis
    using w index_str_table [OF texts] unfolding port_table_fold by blast
qed


lemmas port_entries_at = column_port_entries [OF mib_nonneg(1) [where x = x], where x = x] for x
lemmas vlan_rows_at = column_vlan_rows [OF mib_nonneg(2) [where v = v], where v = v] for v

lemma port_columns:
  assumes a: "agent_ok m a" and w: "wire_ok (ag_state a)"
  shows
    "\<exists>rows. agent_walk IF_ADMIN_STATUS a = (Inr rows, a) \<and> index_int_column rows IF_ADMIN_STATUS =
       Inr (sorted_items (port_table (\<lambda>_. True) (\<lambda>x. flag_int (pt_admin x)) (ag_state a)))"
    "\<exists>rows. agent_walk IF_OPER_STATUS a = (Inr rows, a) \<and> index_int_column rows IF_OPER_STATUS =
       Inr (sorted_items (port_table (\<lambda>_. True) (\<lambda>x. flag_int (pt_link x)) (ag_state a)))"
    "\<exists>rows. agent_walk IF_HIGH_SPEED a = (Inr rows, a) \<and> index_int_column rows IF_HIGH_SPEED =
       Inr (sorted_items (port_table (\<lambda>_. True) pt_speed (ag_state a)))"
    "\<exists>rows. agent_walk IF_TYPE a = (Inr rows, a) \<and> index_int_column rows IF_TYPE =
       Inr (sorted_items (port_table (\<lambda>_. True) pt_if_type (ag_state a)))"
    "\<exists>rows. agent_walk IF_NAME a = (Inr rows, a) \<and> index_str_column rows IF_NAME =
       Inr (sorted_items (port_table (\<lambda>_. True) pt_name (ag_state a)))"
    "\<exists>rows. agent_walk IF_ALIAS a = (Inr rows, a) \<and> index_str_column rows IF_ALIAS =
       Inr (sorted_items (port_table (\<lambda>x. pt_description x \<noteq> None) (\<lambda>x. the (pt_description x)) (ag_state a)))"
    "\<exists>rows. agent_walk DOT3_STATS_DUPLEX_STATUS a = (Inr rows, a) \<and> index_int_column rows DOT3_STATS_DUPLEX_STATUS =
       Inr (sorted_items (port_table pt_serves_etherlike (\<lambda>x. if pt_link x then 3 else 1) (ag_state a)))"
    "\<exists>rows. agent_walk DOT3_PAUSE_OPER_MODE a = (Inr rows, a) \<and> index_int_column rows DOT3_PAUSE_OPER_MODE =
       Inr (sorted_items (port_table pt_serves_etherlike (\<lambda>x. if pt_flow_control x then 4 else 1) (ag_state a)))"
proof -
  have wf: "mib_wf m (ag_state a)" using a by (simp add: agent_ok_def)
  note entries = port_entries_at [OF wf]
  note ok = wire_ok_ports [OF w]
  show "\<exists>rows. agent_walk IF_ADMIN_STATUS a = (Inr rows, a) \<and> index_int_column rows IF_ADMIN_STATUS =
       Inr (sorted_items (port_table (\<lambda>_. True) (\<lambda>x. flag_int (pt_admin x)) (ag_state a)))"
    unfolding oid_dots
    by (rule walk_int_port_column [OF a, where ty = TInteger])
      (simp_all add: port_bases_def entries oid_dots flag_range del: One_nat_def)
  show "\<exists>rows. agent_walk IF_OPER_STATUS a = (Inr rows, a) \<and> index_int_column rows IF_OPER_STATUS =
       Inr (sorted_items (port_table (\<lambda>_. True) (\<lambda>x. flag_int (pt_link x)) (ag_state a)))"
    unfolding oid_dots
    by (rule walk_int_port_column [OF a, where ty = TInteger])
      (simp_all add: port_bases_def entries oid_dots flag_range del: One_nat_def)
  show "\<exists>rows. agent_walk IF_HIGH_SPEED a = (Inr rows, a) \<and> index_int_column rows IF_HIGH_SPEED =
       Inr (sorted_items (port_table (\<lambda>_. True) pt_speed (ag_state a)))"
    unfolding oid_dots
    by (rule walk_int_port_column [OF a, where ty = TGauge32])
      (simp_all add: port_bases_def entries oid_dots ok del: int_range.simps One_nat_def)
  show "\<exists>rows. agent_walk IF_TYPE a = (Inr rows, a) \<and> index_int_column rows IF_TYPE =
       Inr (sorted_items (port_table (\<lambda>_. True) pt_if_type (ag_state a)))"
    unfolding oid_dots
    by (rule walk_int_port_column [OF a, where ty = TInteger])
      (simp_all add: port_bases_def entries oid_dots ok del: int_range.simps One_nat_def)
  show "\<exists>rows. agent_walk IF_NAME a = (Inr rows, a) \<and> index_str_column rows IF_NAME =
       Inr (sorted_items (port_table (\<lambda>_. True) pt_name (ag_state a)))"
    unfolding oid_dots
    by (rule walk_text_port_column [OF a]) (simp_all add: port_bases_def entries oid_dots ok del: One_nat_def)
  show "\<exists>rows. agent_walk IF_ALIAS a = (Inr rows, a) \<and> index_str_column rows IF_ALIAS =
       Inr (sorted_items (port_table (\<lambda>x. pt_description x \<noteq> None) (\<lambda>x. the (pt_description x)) (ag_state a)))"
    unfolding oid_dots
    by (rule walk_text_port_column [OF a])
      (use ok(4) in \<open>auto simp: port_bases_def entries oid_dots simp del: One_nat_def split: option.splits\<close>)
  show "\<exists>rows. agent_walk DOT3_STATS_DUPLEX_STATUS a = (Inr rows, a) \<and> index_int_column rows DOT3_STATS_DUPLEX_STATUS =
       Inr (sorted_items (port_table pt_serves_etherlike (\<lambda>x. if pt_link x then 3 else 1) (ag_state a)))"
    unfolding oid_dots
    by (rule walk_int_port_column [OF a, where ty = TInteger]) (simp_all add: port_bases_def entries oid_dots del: One_nat_def)
  show "\<exists>rows. agent_walk DOT3_PAUSE_OPER_MODE a = (Inr rows, a) \<and> index_int_column rows DOT3_PAUSE_OPER_MODE =
       Inr (sorted_items (port_table pt_serves_etherlike (\<lambda>x. if pt_flow_control x then 4 else 1) (ag_state a)))"
    unfolding oid_dots
    by (rule walk_int_port_column [OF a, where ty = TInteger]) (simp_all add: port_bases_def entries oid_dots del: One_nat_def)
qed

lemma vlan_columns:
  assumes a: "agent_ok m a" and w: "wire_ok (ag_state a)"
  defines "W \<equiv> vlan_width m (ag_state a)"
  shows
    "\<exists>rows. agent_walk DOT1Q_VLAN_STATIC_NAME a = (Inr rows, a) \<and> index_str_column rows DOT1Q_VLAN_STATIC_NAME =
       Inr (sorted_items (vlan_table vl_static_row vl_name (ag_state a)))"
    "\<exists>rows. agent_walk DOT1Q_VLAN_STATIC_EGRESS a = (Inr rows, a) \<and> vlan_bitmap_map rows DOT1Q_VLAN_STATIC_EGRESS =
       Inr (map (\<lambda>(i, bs). (i, wire_octets bs)) (sorted_items (vlan_table vl_static_row (\<lambda>v. bitmap_of (configured v) W) (ag_state a))))"
    "\<exists>rows. agent_walk DOT1Q_VLAN_STATIC_UNTAGGED a = (Inr rows, a) \<and> vlan_bitmap_map rows DOT1Q_VLAN_STATIC_UNTAGGED =
       Inr (map (\<lambda>(i, bs). (i, wire_octets bs)) (sorted_items (vlan_table vl_static_row (\<lambda>v. bitmap_of (vl_untagged v) W) (ag_state a))))"
    "\<exists>rows. agent_walk DOT1Q_VLAN_CURRENT_EGRESS a = (Inr rows, a) \<and> current_vlan_bitmap_map rows DOT1Q_VLAN_CURRENT_EGRESS =
       Inr (map (\<lambda>(i, bs). (i, wire_octets bs)) (sorted_items (vlan_table (\<lambda>_. True) (\<lambda>v. bitmap_of (vl_member v) W) (ag_state a))))"
    "\<exists>rows. agent_walk DOT1Q_VLAN_CURRENT_UNTAGGED a = (Inr rows, a) \<and> current_vlan_bitmap_map rows DOT1Q_VLAN_CURRENT_UNTAGGED =
       Inr (map (\<lambda>(i, bs). (i, wire_octets bs)) (sorted_items (vlan_table (\<lambda>_. True) (\<lambda>v. bitmap_of (vl_untagged v) W) (ag_state a))))"
proof -
  have wf: "mib_wf m (ag_state a)" using a by (simp add: agent_ok_def)
  note rows = vlan_rows_at [OF wf]
  note texts = texts_vlan_table [OF wf w, of vl_static_row]
  have t: "table_ok (vlan_table vl_static_row (\<lambda>v. (TOctets, vl_name v)) (ag_state a))"
    unfolding vlan_table_fold by (rule table_ok_text [OF texts])
  have o': "table_ok (vlan_table P (\<lambda>v. (TOctets, latin1_decode (f v))) (ag_state a))" for P f
    unfolding vlan_table_fold(2) by (rule table_ok_octets [OF octets_vlan_table [OF wf]])
  note oi = octets_vlan_table [OF wf]
  have walk_name: "agent_walk DOT1Q_VLAN_STATIC_NAME a = (Inr (table_rows (dots ([1, 3, 6, 1, 2, 1, 17, 7, 1, 4, 3, 1, 1] @ []))
      (sorted_items (vlan_table vl_static_row (\<lambda>v. (TOctets, vl_name v)) (ag_state a)))), a)"
    unfolding oid_dots by (rule walk_vlans [OF a _ _ t]) (simp_all add: vlan_bases_def rows oid_dots del: One_nat_def)
  show "\<exists>rows. agent_walk DOT1Q_VLAN_STATIC_NAME a = (Inr rows, a) \<and> index_str_column rows DOT1Q_VLAN_STATIC_NAME =
       Inr (sorted_items (vlan_table vl_static_row vl_name (ag_state a)))"
    using walk_name index_str_table [OF texts] unfolding vlan_table_fold oid_dots by auto
  have "agent_walk DOT1Q_VLAN_STATIC_EGRESS a = (Inr (table_rows (dots ([1, 3, 6, 1, 2, 1, 17, 7, 1, 4, 3, 1, 2] @ [])) (sorted_items
      (vlan_table vl_static_row (\<lambda>v. (TOctets, latin1_decode (bitmap_of (configured v) W))) (ag_state a)))), a)"
    unfolding oid_dots by (rule walk_vlans [OF a _ _ o']) (simp_all add: vlan_bases_def rows oid_dots W_def del: One_nat_def)
  then show "\<exists>rows. agent_walk DOT1Q_VLAN_STATIC_EGRESS a = (Inr rows, a) \<and> vlan_bitmap_map rows DOT1Q_VLAN_STATIC_EGRESS =
       Inr (map (\<lambda>(i, bs). (i, wire_octets bs)) (sorted_items (vlan_table vl_static_row (\<lambda>v. bitmap_of (configured v) W) (ag_state a))))"
    using vlan_bitmap_table [OF oi] unfolding vlan_table_fold(2) oid_dots append_Nil2 by blast
  have "agent_walk DOT1Q_VLAN_STATIC_UNTAGGED a = (Inr (table_rows (dots ([1, 3, 6, 1, 2, 1, 17, 7, 1, 4, 3, 1, 4] @ [])) (sorted_items
      (vlan_table vl_static_row (\<lambda>v. (TOctets, latin1_decode (bitmap_of (vl_untagged v) W))) (ag_state a)))), a)"
    unfolding oid_dots by (rule walk_vlans [OF a _ _ o']) (simp_all add: vlan_bases_def rows oid_dots W_def del: One_nat_def)
  then show "\<exists>rows. agent_walk DOT1Q_VLAN_STATIC_UNTAGGED a = (Inr rows, a) \<and> vlan_bitmap_map rows DOT1Q_VLAN_STATIC_UNTAGGED =
       Inr (map (\<lambda>(i, bs). (i, wire_octets bs)) (sorted_items (vlan_table vl_static_row (\<lambda>v. bitmap_of (vl_untagged v) W) (ag_state a))))"
    using vlan_bitmap_table [OF oi] unfolding vlan_table_fold(2) oid_dots append_Nil2 by blast
  have "agent_walk DOT1Q_VLAN_CURRENT_EGRESS a = (Inr (table_rows (dots ([1, 3, 6, 1, 2, 1, 17, 7, 1, 4, 2, 1, 4] @ [0])) (sorted_items
      (vlan_table (\<lambda>_. True) (\<lambda>v. (TOctets, latin1_decode (bitmap_of (vl_member v) W))) (ag_state a)))), a)"
    unfolding oid_dots by (rule walk_vlans [OF a _ _ o']) (simp_all add: vlan_bases_def rows W_def del: One_nat_def)
  then show "\<exists>rows. agent_walk DOT1Q_VLAN_CURRENT_EGRESS a = (Inr rows, a) \<and> current_vlan_bitmap_map rows DOT1Q_VLAN_CURRENT_EGRESS =
       Inr (map (\<lambda>(i, bs). (i, wire_octets bs)) (sorted_items (vlan_table (\<lambda>_. True) (\<lambda>v. bitmap_of (vl_member v) W) (ag_state a))))"
    using current_bitmap_table [OF _ oi, of "[1, 3, 6, 1, 2, 1, 17, 7, 1, 4, 2, 1, 4]"]
    unfolding vlan_table_fold(2) oid_dots by blast
  have "agent_walk DOT1Q_VLAN_CURRENT_UNTAGGED a = (Inr (table_rows (dots ([1, 3, 6, 1, 2, 1, 17, 7, 1, 4, 2, 1, 5] @ [0])) (sorted_items
      (vlan_table (\<lambda>_. True) (\<lambda>v. (TOctets, latin1_decode (bitmap_of (vl_untagged v) W))) (ag_state a)))), a)"
    unfolding oid_dots by (rule walk_vlans [OF a _ _ o']) (simp_all add: vlan_bases_def rows W_def del: One_nat_def)
  then show "\<exists>rows. agent_walk DOT1Q_VLAN_CURRENT_UNTAGGED a = (Inr rows, a) \<and> current_vlan_bitmap_map rows DOT1Q_VLAN_CURRENT_UNTAGGED =
       Inr (map (\<lambda>(i, bs). (i, wire_octets bs)) (sorted_items (vlan_table (\<lambda>_. True) (\<lambda>v. bitmap_of (vl_untagged v) W) (ag_state a))))"
    using current_bitmap_table [OF _ oi, of "[1, 3, 6, 1, 2, 1, 17, 7, 1, 4, 2, 1, 5]"]
    unfolding vlan_table_fold(2) oid_dots by blast
qed

end
