(* ===== verification/Snmp_Readback.thy ===== *)
theory Snmp_Readback
  imports Snmp_Tables
begin

text \<open>
  What the SNMP reader (\<open>snmp_read.py\<close>) makes of the virtual switch it is pointed at:
  ports, VLANs and PVIDs are reported exactly as the device holds them, through the
  projection to a MIB, the walks of the agent and the parsers of the client.
\<close>

section \<open>What the reader is to report\<close>

definition physical_of :: "virtual_switch \<Rightarrow> int set option" where
  "physical_of s =
     (if vs_ports s = [] then None
      else Some (fst ` set (filter (\<lambda>(_, x). pt_if_type x = ETHERNET_CSMACD) (vs_ports s))))"

definition seen_ports :: "virtual_switch \<Rightarrow> int set \<Rightarrow> int set" where
  "seen_ports s ps = (case physical_of s of None \<Rightarrow> ps | Some keep \<Rightarrow> ps \<inter> keep)"

definition reported_vlan :: "virtual_switch \<Rightarrow> int \<times> vlan_sim \<Rightarrow> vlan_info" where
  "reported_vlan s = (\<lambda>(vid, v).
     let member = seen_ports s (if vl_static_row v then configured v else vl_member v);
         untag = seen_ports s (vl_untagged v)
     in \<lparr>vi_vlan_id = vid, vi_name = (if vl_static_row v then opt_or_none (Some (vl_name v)) else None),
         vi_member_ports = member, vi_tagged_ports = member - untag, vi_untagged_ports = untag\<rparr>)"

definition reported_vlans :: "virtual_switch \<Rightarrow> vlan_info list" where
  "reported_vlans s = map (reported_vlan s) (sorted_items (vs_vlans s))"

definition reported_pvids :: "virtual_switch \<Rightarrow> (int \<times> int) list" where
  "reported_pvids s =
     (case physical_of s of None \<Rightarrow> sorted_items (vs_pvids s)
      | Some keep \<Rightarrow> sorted_items (filter (\<lambda>(p, _). p \<in> keep) (vs_pvids s)))"

definition reported_port :: "int \<times> port_sim \<Rightarrow> port_status" where
  "reported_port = (\<lambda>(p, x).
     \<lparr>st_port = p, st_name = opt_or_none (Some (pt_name x)), st_admin_enabled = pt_admin x,
      st_link_up = pt_link x, st_speed_mbps = (if pt_link x then int_or_none (Some (pt_speed x)) else None),
      st_description = opt_or_none (pt_description x),
      st_full_duplex = (if pt_serves_etherlike x \<and> pt_link x then Some True else None),
      st_flow_control = (if pt_serves_etherlike x then Some (pt_flow_control x) else None),
      st_speed_config = None, st_oper_status = Some (flag_int (pt_link x))\<rparr>)"

definition reported_ports :: "virtual_switch \<Rightarrow> port_status list" where
  "reported_ports s = map reported_port
     (filter (\<lambda>(_, x). pt_if_type x = ETHERNET_CSMACD) (sorted_items (vs_ports s)))"

section \<open>Looking up in a table\<close>

lemma dict_get_table:
  "dict_get (map (\<lambda>(p, x). (p, f x)) (filter (\<lambda>(_, x). P x) d)) k =
     (case map_of (filter (\<lambda>(_, x). P x) d) k of Some x \<Rightarrow> Some (f x) | None \<Rightarrow> None)"
  unfolding dict_get_map_values by (simp add: dict_get_def map_option_case)

lemma map_of_filter_value:
  "dict_wf d \<Longrightarrow> map_of (filter (\<lambda>(_, x). P x) d) k =
     (case map_of d k of Some x \<Rightarrow> if P x then Some x else None | None \<Rightarrow> None)"
  by (induction d) (auto simp: dict_wf_def map_of_eq_None_iff image_iff split: option.splits)

lemma sorted_keys:
  fixes d :: "('k::linorder, 'v) dict"
  assumes "dict_wf d"
  shows "sorted_list_of_set (set (map fst d)) = map fst (sorted_items d)"
proof -
  have "sorted (map fst (sorted_items d))" by (simp add: sorted_items_def)
  moreover have "distinct (map fst (sorted_items d))"
    using dict_wf_sorted_items [of d] assms by (simp add: dict_wf_def)
  moreover have "set (map fst (sorted_items d)) = set (map fst d)" by simp
  ultimately show ?thesis by (metis sorted_list_of_set.idem_if_sorted_distinct)
qed

lemma get_port_table:
  assumes "mib_wf m s"
  shows "dict_get (sorted_items (port_table P f s)) p =
    (case dict_get (vs_ports s) p of Some x \<Rightarrow> if P x then Some (f x) else None | None \<Rightarrow> None)"
proof -
  have "dict_wf (vs_ports s)" using assms by (simp add: mib_wf_def tables_wf_def)
  moreover have "dict_get (sorted_items (port_table P f s)) p = dict_get (port_table P f s) p"
    unfolding dict_get_def by (subst map_of_sorted_items) (use port_table_ok [OF assms] in auto)
  ultimately show ?thesis
    unfolding port_table_def dict_get_table by (auto simp: map_of_filter_value dict_get_def split: option.splits)
qed

lemma get_vlan_table:
  assumes "mib_wf m s"
  shows "dict_get (sorted_items (vlan_table P f s)) p =
    (case dict_get (vs_vlans s) p of Some x \<Rightarrow> if P x then Some (f x) else None | None \<Rightarrow> None)"
proof -
  have "dict_wf (vs_vlans s)" using assms by (simp add: mib_wf_def tables_wf_def)
  moreover have "dict_get (sorted_items (vlan_table P f s)) p = dict_get (vlan_table P f s) p"
    unfolding dict_get_def by (subst map_of_sorted_items) (use vlan_table_ok [OF assms] in auto)
  ultimately show ?thesis
    unfolding vlan_table_def dict_get_table by (auto simp: map_of_filter_value dict_get_def split: option.splits)
qed


lemma dict_keys_sorted [simp]: "dict_keys (sorted_items d) = dict_keys d"
  by (simp add: dict_keys_def)

lemma physical_read:
  assumes a: "agent_ok m a" and w: "wire_ok (ag_state a)"
  shows "\<exists>rows. agent_walk IF_TYPE a = (Inr rows, a) \<and> physical_ports rows = Inr (physical_of (ag_state a))"
proof -
  let ?s = "ag_state a"
  have wf: "mib_wf m ?s" using a by (simp add: agent_ok_def)
  let ?t = "port_table (\<lambda>_. True) pt_if_type ?s"
  obtain rows where r: "agent_walk IF_TYPE a = (Inr rows, a)" "index_int_column rows IF_TYPE = Inr (sorted_items ?t)"
    using port_columns(4) [OF a w] by blast
  have empty: "sorted_items ?t = [] \<longleftrightarrow> vs_ports ?s = []"
  proof -
    have "length (sorted_items ?t) = length (vs_ports ?s)" by (simp add: port_table_def case_prod_beta)
    then show ?thesis by (metis length_0_conv)
  qed
  have keys: "set (map fst (sorted_items ?t)) = fst ` set (vs_ports ?s)"
    by (simp add: port_table_def image_image case_prod_beta)
  have wfp: "dict_wf (vs_ports ?s)" using wf by (simp add: mib_wf_def tables_wf_def)
  have "{i \<in> set (map fst (sorted_items ?t)). dict_get (sorted_items ?t) i = Some ETHERNET_CSMACD}
      = fst ` set (filter (\<lambda>(_, x). pt_if_type x = ETHERNET_CSMACD) (vs_ports ?s))"
    unfolding keys get_port_table [OF wf]
    using dict_get_in [OF wfp] by (force split: option.splits)
  then have "physical_ports rows = Inr (physical_of ?s)"
    unfolding physical_ports_def r(2) physical_of_def by (simp add: empty)
  with r(1) show ?thesis by blast
qed

lemma res_map_keys:
  "(\<And>k v. (k, v) \<in> set xs \<Longrightarrow> f k = Inr (g (k, v))) \<Longrightarrow> res_map f (map fst xs) = Inr (map g xs)"
proof (induction xs)
  case (Cons x xs)
  obtain k v where x: "x = (k, v)" by (cases x)
  have "f k = Inr (g (k, v))" by (rule Cons.prems) (simp add: x)
  moreover have "res_map f (map fst xs) = Inr (map g xs)" by (rule Cons.IH) (use Cons.prems in simp)
  ultimately show ?case by (simp add: x)
qed simp

lemma map_keys: "(\<And>k v. (k, v) \<in> set xs \<Longrightarrow> g (k, v) = f k) \<Longrightarrow> map f (map fst xs) = map g xs"
  by (induction xs) force+

lemma filter_keys:
  assumes "dict_wf ps"
  shows "filter (\<lambda>p. p \<in> fst ` set (filter (\<lambda>(_, x). P x) ps)) (map fst ps) = map fst (filter (\<lambda>(_, x). P x) ps)"
proof -
  let ?K = "fst ` set (filter (\<lambda>(_, x). P x) ps)"
  have "filter ((\<lambda>p. p \<in> ?K) \<circ> fst) ps = filter (\<lambda>(_, x). P x) ps"
  proof (rule filter_cong [OF refl])
    fix x assume x: "x \<in> set ps"
    obtain k v where kv: "x = (k, v)" by (cases x)
    have same: "(k, u) \<in> set ps \<Longrightarrow> u = v" for u
      using eq_key_imp_eq_value [of ps k u v] assms x unfolding dict_wf_def kv by simp
    have "k \<in> ?K \<longleftrightarrow> (\<exists>u. (k, u) \<in> set ps \<and> P u)" by force
    also have "\<dots> \<longleftrightarrow> P v" using same x kv by blast
    finally show "((\<lambda>p. p \<in> ?K) \<circ> fst) x = (case x of (_, x) \<Rightarrow> P x)"
      unfolding kv comp_apply fst_conv prod.case .
  qed
  then show ?thesis unfolding filter_map by simp
qed

lemma ports_of_wire: "ports_of (physical_of s) (wire_octets bs) = Inr (seen_ports s (set (bitmap_ports bs)))"
  by (simp add: ports_of_def seen_ports_def)

lemma get_or_wire:
  "get_or x (map (\<lambda>(i, bs). (i, wire_octets bs)) d) k =
     (case dict_get d k of Some bs \<Rightarrow> wire_octets bs | None \<Rightarrow> x)"
  by (simp add: get_or_def split: option.splits)

theorem vlans_read_back:
  assumes a: "agent_ok m a" and w: "wire_ok (ag_state a)"
  shows "snmp_get_vlans agent_client a = (Inr (reported_vlans (ag_state a)), a)"
proof -
  let ?s = "ag_state a" and ?W = "vlan_width m (ag_state a)"
  have wf: "mib_wf m ?s" using a by (simp add: agent_ok_def)
  have wfv: "dict_wf (vs_vlans ?s)" using wf by (simp add: mib_wf_def tables_wf_def)
  let ?names = "sorted_items (vlan_table vl_static_row vl_name ?s)"
  let ?eg = "map (\<lambda>(i, bs). (i, wire_octets bs)) (sorted_items (vlan_table vl_static_row (\<lambda>v. bitmap_of (configured v) ?W) ?s))"
  let ?un = "map (\<lambda>(i, bs). (i, wire_octets bs)) (sorted_items (vlan_table vl_static_row (\<lambda>v. bitmap_of (vl_untagged v) ?W) ?s))"
  let ?ce = "map (\<lambda>(i, bs). (i, wire_octets bs)) (sorted_items (vlan_table (\<lambda>_. True) (\<lambda>v. bitmap_of (vl_member v) ?W) ?s))"
  let ?cu = "map (\<lambda>(i, bs). (i, wire_octets bs)) (sorted_items (vlan_table (\<lambda>_. True) (\<lambda>v. bitmap_of (vl_untagged v) ?W) ?s))"
  obtain r1 r2 r3 r4 r5 r6 where
    r1: "agent_walk DOT1Q_VLAN_STATIC_NAME a = (Inr r1, a)" "index_str_column r1 DOT1Q_VLAN_STATIC_NAME = Inr ?names"
    and r2: "agent_walk DOT1Q_VLAN_STATIC_EGRESS a = (Inr r2, a)" "vlan_bitmap_map r2 DOT1Q_VLAN_STATIC_EGRESS = Inr ?eg"
    and r3: "agent_walk DOT1Q_VLAN_STATIC_UNTAGGED a = (Inr r3, a)" "vlan_bitmap_map r3 DOT1Q_VLAN_STATIC_UNTAGGED = Inr ?un"
    and r4: "agent_walk IF_TYPE a = (Inr r4, a)" "physical_ports r4 = Inr (physical_of ?s)"
    and r5: "agent_walk DOT1Q_VLAN_CURRENT_EGRESS a = (Inr r5, a)" "current_vlan_bitmap_map r5 DOT1Q_VLAN_CURRENT_EGRESS = Inr ?ce"
    and r6: "agent_walk DOT1Q_VLAN_CURRENT_UNTAGGED a = (Inr r6, a)" "current_vlan_bitmap_map r6 DOT1Q_VLAN_CURRENT_UNTAGGED = Inr ?cu"
    using vlan_columns [OF a w] physical_read [OF a w] by blast
  have keys: "sorted_list_of_set (dict_keys ?names \<union> dict_keys ?ce) = map fst (sorted_items (vs_vlans ?s))"
  proof -
    have "dict_keys ?names \<union> dict_keys ?ce = set (map fst (vs_vlans ?s))"
      by (auto simp: dict_keys_def vlan_table_def image_image case_prod_beta)
    then show ?thesis using sorted_keys [OF wfv] by simp
  qed
  have one: "(let static_row = (vid \<in> dict_keys ?names) in
          res_bind (ports_of (physical_of ?s) (if static_row then get_or (Text []) ?eg vid else get_or (Text []) ?ce vid)) (\<lambda>member.
          res_bind (ports_of (physical_of ?s) (if static_row then get_or (Text []) ?un vid else get_or (Text []) ?cu vid)) (\<lambda>untag.
            Inr \<lparr>vi_vlan_id = vid, vi_name = opt_or_none (dict_get ?names vid),
                 vi_member_ports = member, vi_tagged_ports = member - untag, vi_untagged_ports = untag\<rparr>)))
      = Inr (reported_vlan ?s (vid, v))"
    if in_v: "(vid, v) \<in> set (sorted_items (vs_vlans ?s))" for vid v
  proof -
    have g: "dict_get (vs_vlans ?s) vid = Some v" using in_v dict_get_in [OF wfv] by simp
    then have static: "vid \<in> dict_keys ?names \<longleftrightarrow> vl_static_row v"
      using get_vlan_table [OF wf, of vl_static_row vl_name vid] dict_get_None [of ?names vid]
      by (auto simp: dict_keys_def split: if_splits)
    have ok: "vlan_sim_ok v" using wf in_v by (auto simp: mib_wf_def tables_wf_def list_all_iff)
    then have sets: "set (bitmap_ports (bitmap_of (vl_member v) ?W)) = vl_member v"
      "set (bitmap_ports (bitmap_of (vl_untagged v) ?W)) = vl_untagged v"
      "set (bitmap_ports (bitmap_of (configured v) ?W)) = configured v"
      by (auto simp: vlan_sim_ok_def ports_ok_def configured_def intro!: bitmap_of_ok(2))
    show ?thesis
      unfolding static Let_def get_or_wire get_vlan_table [OF wf] g
      by (cases "vl_static_row v") (simp_all add: ports_of_wire sets reported_vlan_def opt_or_none_def Let_def)
  qed
  have "parse_vlans r1 r2 r3 r4 r5 r6 = Inr (reported_vlans ?s)"
    unfolding parse_vlans_def r1(2) r2(2) r3(2) r4(2) r5(2) r6(2) res_bind_simps keys
  proof -
    from res_map_keys [where g = "reported_vlan ?s", OF one] show "res_map (\<lambda>vid. let static_row = (vid \<in> dict_keys ?names) in
          res_bind (ports_of (physical_of ?s) (if static_row then get_or (Text []) ?eg vid else get_or (Text []) ?ce vid)) (\<lambda>member.
          res_bind (ports_of (physical_of ?s) (if static_row then get_or (Text []) ?un vid else get_or (Text []) ?cu vid)) (\<lambda>untag.
            Inr \<lparr>vi_vlan_id = vid, vi_name = opt_or_none (dict_get ?names vid),
                 vi_member_ports = member, vi_tagged_ports = member - untag, vi_untagged_ports = untag\<rparr>)))
        (map fst (sorted_items (vs_vlans ?s))) = Inr (reported_vlans ?s)"
      unfolding reported_vlans_def .
  qed
  then show ?thesis
    by (simp add: snmp_get_vlans_def agent_client_def io_bind_run r1(1) r2(1) r3(1) r4(1) r5(1) r6(1))
qed


section \<open>PVIDs\<close>

lemma column_pvid:
  assumes "mib_wf m s"
  shows "column_of [1, 3, 6, 1, 2, 1, 17, 7, 1, 4, 5, 1, 1] (mib_list m s) =
    map (\<lambda>(i, v). (col (dots ([1, 3, 6, 1, 2, 1, 17, 7, 1, 4, 5, 1, 1] @ [])) i, v)) (int_table TGauge32 (vs_pvids s))"
proof -
  have "column_of [1, 3, 6, 1, 2, 1, 17, 7, 1, 4, 5, 1, 1] (pvid_entries s) = pvid_entries s"
    unfolding column_of_def filter_id_conv pvid_entries_def
    using mib_nonneg(3) [OF assms] by (auto simp: oid_eval suffix_of_dots)
  then have "column_of [1, 3, 6, 1, 2, 1, 17, 7, 1, 4, 5, 1, 1] (mib_list m s) = pvid_entries s"
    by (simp add: column_eval assms)
  then show ?thesis by (simp add: pvid_entries_def int_table_def oid_dots case_prod_beta)
qed

theorem pvids_read_back:
  assumes a: "agent_ok m a" and w: "wire_ok (ag_state a)"
  shows "snmp_get_pvids agent_client a = (Inr (reported_pvids (ag_state a)), a)"
proof -
  let ?s = "ag_state a"
  have wf: "mib_wf m ?s" using a by (simp add: agent_ok_def)
  have ints: "ints_ok TGauge32 (vs_pvids ?s)"
    using wf w mib_nonneg(3) [OF wf]
    by (auto simp: ints_ok_def wire_ok_def mib_wf_def tables_wf_def list_all_iff simp del: int_range.simps)
  have walk: "agent_walk DOT1Q_PVID a =
      (Inr (table_rows (dots ([1, 3, 6, 1, 2, 1, 17, 7, 1, 4, 5, 1, 1] @ [])) (sorted_items (int_table TGauge32 (vs_pvids ?s)))), a)"
    unfolding oid_dots
    by (rule agent_walk_table [OF agent_ok_serves [OF a] _ column_pvid [OF wf] table_ok_int [OF ints]])
      (auto simp: compat_def base_nums_def)
  obtain types where types: "agent_walk IF_TYPE a = (Inr types, a)" "physical_ports types = Inr (physical_of ?s)"
    using physical_read [OF a w] by blast
  have "parse_pvids (table_rows DOT1Q_PVID (sorted_items (int_table TGauge32 (vs_pvids ?s)))) types = Inr (reported_pvids ?s)"
    unfolding parse_pvids_def index_int_table [OF ints] types(2) res_bind_simps reported_pvids_def
    by (simp add: sorted_items_def filter_sort sort_key_id_if_sorted split: option.splits)
  with walk types(1) show ?thesis
    by (simp add: snmp_get_pvids_def agent_client_def io_bind_run oid_dots del: One_nat_def)
qed

section \<open>Port status\<close>

theorem ports_read_back:
  assumes a: "agent_ok m a" and w: "wire_ok (ag_state a)"
  shows "snmp_get_ports agent_client a = (Inr (reported_ports (ag_state a)), a)"
proof -
  let ?s = "ag_state a"
  have wf: "mib_wf m ?s" using a by (simp add: agent_ok_def)
  have wfp: "dict_wf (vs_ports ?s)" using wf by (simp add: mib_wf_def tables_wf_def)
  obtain r1 r2 r3 r4 r5 r6 r7 r8 where
    r1: "agent_walk IF_ADMIN_STATUS a = (Inr r1, a)" "index_int_column r1 IF_ADMIN_STATUS =
       Inr (sorted_items (port_table (\<lambda>_. True) (\<lambda>x. flag_int (pt_admin x)) ?s))"
    and r2: "agent_walk IF_OPER_STATUS a = (Inr r2, a)" "index_int_column r2 IF_OPER_STATUS =
       Inr (sorted_items (port_table (\<lambda>_. True) (\<lambda>x. flag_int (pt_link x)) ?s))"
    and r3: "agent_walk IF_HIGH_SPEED a = (Inr r3, a)" "index_int_column r3 IF_HIGH_SPEED =
       Inr (sorted_items (port_table (\<lambda>_. True) pt_speed ?s))"
    and r4: "agent_walk IF_TYPE a = (Inr r4, a)" "physical_ports r4 = Inr (physical_of ?s)"
    and r5: "agent_walk IF_NAME a = (Inr r5, a)" "index_str_column r5 IF_NAME =
       Inr (sorted_items (port_table (\<lambda>_. True) pt_name ?s))"
    and r6: "agent_walk IF_ALIAS a = (Inr r6, a)" "index_str_column r6 IF_ALIAS =
       Inr (sorted_items (port_table (\<lambda>x. pt_description x \<noteq> None) (\<lambda>x. the (pt_description x)) ?s))"
    and r7: "agent_walk DOT3_STATS_DUPLEX_STATUS a = (Inr r7, a)" "index_int_column r7 DOT3_STATS_DUPLEX_STATUS =
       Inr (sorted_items (port_table pt_serves_etherlike (\<lambda>x. if pt_link x then 3 else 1) ?s))"
    and r8: "agent_walk DOT3_PAUSE_OPER_MODE a = (Inr r8, a)" "index_int_column r8 DOT3_PAUSE_OPER_MODE =
       Inr (sorted_items (port_table pt_serves_etherlike (\<lambda>x. if pt_flow_control x then 4 else 1) ?s))"
    using port_columns [OF a w] physical_read [OF a w] by blast
  have keys: "dict_keys (sorted_items (port_table (\<lambda>_. True) f ?s)) = set (map fst (vs_ports ?s))" for f :: "port_sim \<Rightarrow> int"
    by (auto simp: dict_keys_def port_table_def image_image case_prod_beta)
  have ports: "only_physical (physical_of ?s) (map fst (sorted_items (vs_ports ?s)))
      = map fst (filter (\<lambda>(_, x). pt_if_type x = ETHERNET_CSMACD) (sorted_items (vs_ports ?s)))"
  proof -
    have "fst ` set (filter (\<lambda>(_, x). pt_if_type x = ETHERNET_CSMACD) (vs_ports ?s))
        = fst ` set (filter (\<lambda>(_, x). pt_if_type x = ETHERNET_CSMACD) (sorted_items (vs_ports ?s)))" by simp
    then show ?thesis
      using filter_keys [of "sorted_items (vs_ports ?s)" "\<lambda>x. pt_if_type x = ETHERNET_CSMACD"] wfp
      by (simp add: only_physical_def physical_of_def)
  qed
  have duplex: "dict_get DUPLEX_STATUS 3 = Some True" "dict_get DUPLEX_STATUS 1 = None" "dict_get DUPLEX_STATUS 0 = None"
    by (simp_all add: DUPLEX_STATUS_def dict_get_def)
  have one: "reported_port (p, x) = r"
    if in_p: "(p, x) \<in> set (sorted_items (vs_ports ?s))"
    and r: "r = (let link_up = (dict_get (sorted_items (port_table (\<lambda>_. True) (\<lambda>x. flag_int (pt_link x)) ?s)) p = Some 1) in
              \<lparr>st_port = p,
               st_name = opt_or_none (dict_get (sorted_items (port_table (\<lambda>_. True) pt_name ?s)) p),
               st_admin_enabled = (dict_get (sorted_items (port_table (\<lambda>_. True) (\<lambda>x. flag_int (pt_admin x)) ?s)) p = Some 1),
               st_link_up = link_up,
               st_speed_mbps = (if link_up then int_or_none (dict_get (sorted_items (port_table (\<lambda>_. True) pt_speed ?s)) p) else None),
               st_description = opt_or_none (dict_get (sorted_items (port_table (\<lambda>x. pt_description x \<noteq> None) (\<lambda>x. the (pt_description x)) ?s)) p),
               st_full_duplex = dict_get DUPLEX_STATUS (get_or 0 (sorted_items (port_table pt_serves_etherlike (\<lambda>x. if pt_link x then 3 else 1) ?s)) p),
               st_flow_control = map_option (\<lambda>mode. mode \<noteq> 1) (dict_get (sorted_items (port_table pt_serves_etherlike (\<lambda>x. if pt_flow_control x then 4 else 1 :: int) ?s)) p),
               st_speed_config = None,
               st_oper_status = dict_get (sorted_items (port_table (\<lambda>_. True) (\<lambda>x. flag_int (pt_link x)) ?s)) p\<rparr>)"
    for p x r
  proof -
    have g: "dict_get (vs_ports ?s) p = Some x" using in_p dict_get_in [OF wfp] by simp
    show ?thesis
      unfolding r get_or_def get_port_table [OF wf] g
      by (cases "pt_link x"; cases "pt_serves_etherlike x"; cases "pt_description x")
        (simp_all add: reported_port_def duplex flag_int_def opt_or_none_def Let_def)
  qed
  have "parse_port_status r1 r2 r3 r5 r6 r4 r7 r8 = Inr (reported_ports ?s)"
    unfolding parse_port_status_def r1(2) r2(2) r3(2) r4(2) r5(2) r6(2) r7(2) r8(2) res_bind_simps keys Un_absorb
      sorted_keys [OF wfp] ports reported_ports_def
    by (rule arg_cong [where f = Inr], rule map_keys, rule one [OF _ refl], simp)
  then show ?thesis
    by (simp add: snmp_get_ports_def agent_client_def io_bind_run r1(1) r2(1) r3(1) r4(1) r5(1) r6(1) r7(1) r8(1))
qed

end
