(* ===== verification/Snmp_Writer.thy ===== *)
theory Snmp_Writer
  imports Snmp_Reader Snmp_Plan
begin

text \<open>
  The SNMP writer (\<open>snmp_write.py\<close>): each operation is guarded, reads the state
  before, sends its SETs, and reads again to verify. The client is a parameter, as
  are the clock and the sleep of the PoE cycles, in ticks of one unit.
\<close>

record snmp_writer =
  pw_model :: switch_model
  pw_protected_ports :: "int set"

definition mk_snmp_writer :: "switch_model \<Rightarrow> int set \<Rightarrow> snmp_writer py" where
  "mk_snmp_writer model protected_ports =
     res_bind (snmp_require model) (\<lambda>_. Inr \<lparr>pw_model = model, pw_protected_ports = protected_ports\<rparr>)"

definition snmp_guard :: "snmp_writer \<Rightarrow> int \<Rightarrow> bool \<Rightarrow> unit py" where
  "snmp_guard W port force =
     (if port \<in> pw_protected_ports W \<and> \<not> force then Inl ProtectedPortError else Inr ())"

definition ROW_DESTROY :: ustr where "ROW_DESTROY = lit ''6''"

section \<open>Single items of a read\<close>

definition poe_status_for :: "'w snmp_client \<Rightarrow> snmp_writer \<Rightarrow> int \<Rightarrow> ('w, exn, poe_status option) io" where
  "poe_status_for cl W port =
     io_bind (snmp_get_poe cl (pw_model W)) (\<lambda>ps. io_return (find (\<lambda>p. poe_port p = port) ps))"

definition port_status_for :: "'w snmp_client \<Rightarrow> int \<Rightarrow> ('w, exn, port_status option) io" where
  "port_status_for cl port =
     io_bind (snmp_get_ports cl) (\<lambda>ps. io_return (find (\<lambda>p. st_port p = port) ps))"

definition vlan_for :: "'w snmp_client \<Rightarrow> int \<Rightarrow> ('w, exn, vlan_info option) io" where
  "vlan_for cl vlan =
     io_bind (snmp_get_vlans cl) (\<lambda>vs. io_return (find (\<lambda>v. vi_vlan_id v = vlan) vs))"

definition ends_with :: "ustr \<Rightarrow> ustr \<Rightarrow> bool" where
  "ends_with s t \<longleftrightarrow> length t \<le> length s \<and> drop (length s - length t) s = t"

fun first_raw :: "(snmp_row \<Rightarrow> bool) \<Rightarrow> snmp_row list \<Rightarrow> bytes option" where
  "first_raw P [] = None"
| "first_raw P (row # rows) =
     (case sr_value row of
        VOct (Raw bs) \<Rightarrow> if P row then Some bs else first_raw P rows
      | _ \<Rightarrow> first_raw P rows)"

definition raw_bitmap :: "'w snmp_client \<Rightarrow> ustr \<Rightarrow> int \<Rightarrow> ('w, exn, bytes option) io" where
  "raw_bitmap cl base vlan =
     io_bind (cl_walk cl base) (\<lambda>rows.
       io_return (first_raw (\<lambda>row. ends_with (sr_oid row) (46 # show_int vlan)) rows))"

definition physical_for :: "'w snmp_client \<Rightarrow> ('w, exn, int set option) io" where
  "physical_for cl = io_bind (cl_walk cl IF_TYPE) (\<lambda>rows. io_lift (physical_ports rows))"

definition set_one :: "'w snmp_client \<Rightarrow> ustr \<Rightarrow> snmp_value \<Rightarrow> string \<Rightarrow> ('w, exn, unit) io" where
  "set_one cl oid v letter = io_bind (io_lift (mk_set_varbind oid v letter)) (cl_set cl)"

section \<open>PoE\<close>

definition snmp_set_poe ::
    "'w snmp_client \<Rightarrow> snmp_writer \<Rightarrow> int \<Rightarrow> bool \<Rightarrow> bool \<Rightarrow> ('w, exn, unit) io" where
  "snmp_set_poe cl W port on force =
     io_bind (io_lift (if \<not> on then snmp_guard W port force else Inr ())) (\<lambda>_.
     io_bind (poe_status_for cl W port) (\<lambda>before.
     io_bind (set_one cl (poe_admin_oid port) (VInt (if on then 1 else 2)) ''i'') (\<lambda>_.
     io_bind (poe_status_for cl W port) (\<lambda>after.
       io_when_raise (map_option poe_admin_enabled after \<noteq> Some on)
         (WriteVerificationError (ev_poe before) (ev_poe after))))))"

record poe_cycle_timeouts =
  off_timeout :: int
  on_timeout :: int
  poll_interval :: int

definition DEFAULT_POE_TIMEOUTS :: poe_cycle_timeouts where
  "DEFAULT_POE_TIMEOUTS = \<lparr>off_timeout = 30, on_timeout = 60, poll_interval = 2\<rparr>"

definition poe_is_off :: "poe_status option \<Rightarrow> bool \<Rightarrow> bool" where
  "poe_is_off status port_up \<longleftrightarrow>
     (case status of
        None \<Rightarrow> False
      | Some p \<Rightarrow> (poe_detect_state p = PoeDisabled \<or> poe_detect_state p = PoeSearching) \<and> \<not> port_up)"

definition poe_recovered :: "poe_status option \<Rightarrow> poe_status option \<Rightarrow> bool" where
  "poe_recovered before status \<longleftrightarrow>
     (case status of
        None \<Rightarrow> False
      | Some p \<Rightarrow> poe_detect_state p = PoeDelivering \<or> poe_detect_state p = PoeSearching)"

definition port_up_for :: "'w snmp_client \<Rightarrow> int \<Rightarrow> ('w, exn, bool) io" where
  "port_up_for cl port =
     io_bind (port_status_for cl port) (\<lambda>st.
       io_return (case st of None \<Rightarrow> False | Some p \<Rightarrow> st_link_up p))"

text \<open>
  \<open>while not done(): if clock() >= deadline: raise ...; sleep(poll_interval)\<close>. Nothing
  in the code bounds the loop: not returning is \<open>None\<close>.
\<close>

partial_function (option) poll_until ::
    "('w, exn, bool) io \<Rightarrow> ('w, exn, int) io \<Rightarrow> ('w, exn, unit) io \<Rightarrow> ('w, exn, unit) io \<Rightarrow> int \<Rightarrow> 'w
      \<Rightarrow> ((exn, unit) res \<times> 'w) option" where
  "poll_until finished clock sleep expired deadline w =
     (case finished w of
        (Inl e, w1) \<Rightarrow> Some (Inl e, w1)
      | (Inr b, w1) \<Rightarrow>
          if b then Some (Inr (), w1)
          else (case clock w1 of
                  (Inl e, w2) \<Rightarrow> Some (Inl e, w2)
                | (Inr t, w2) \<Rightarrow>
                    if deadline \<le> t then Some (expired w2)
                    else (case sleep w2 of
                            (Inl e, w3) \<Rightarrow> Some (Inl e, w3)
                          | (Inr _, w3) \<Rightarrow> poll_until finished clock sleep expired deadline w3)))"

text \<open>One phase: a SET, the deadline read from the clock, and the poll.\<close>

definition poe_phase ::
    "('w, exn, unit) io \<Rightarrow> ('w, exn, int) io \<Rightarrow> ('w, exn, unit) io \<Rightarrow> int \<Rightarrow> ('w, exn, bool) io
      \<Rightarrow> ('w, exn, unit) io \<Rightarrow> 'w \<Rightarrow> ((exn, unit) res \<times> 'w) option" where
  "poe_phase set_it clock sleep timeout finished expired w =
     (case io_bind set_it (\<lambda>_. clock) w of
        (Inl e, w1) \<Rightarrow> Some (Inl e, w1)
      | (Inr t, w1) \<Rightarrow> poll_until finished clock sleep expired (t + timeout) w1)"

definition rearm_expired ::
    "'w snmp_client \<Rightarrow> snmp_writer \<Rightarrow> int \<Rightarrow> poe_status option \<Rightarrow> ('w, exn, unit) io" where
  "rearm_expired cl W port before =
     io_bind (poe_status_for cl W port) (\<lambda>after. io_raise (WriteVerificationError (ev_poe before) (ev_poe after)))"

definition poe_rearm ::
    "'w snmp_client \<Rightarrow> snmp_writer \<Rightarrow> int \<Rightarrow> poe_cycle_timeouts \<Rightarrow> (int \<Rightarrow> ('w, exn, unit) io) \<Rightarrow> ('w, exn, int) io
      \<Rightarrow> (poe_status option \<Rightarrow> poe_status option \<Rightarrow> bool) \<Rightarrow> 'w \<Rightarrow> ((exn, unit) res \<times> 'w) option" where
  "poe_rearm cl W port timeouts sleep clock on_recovered w =
     (case poe_status_for cl W port w of
        (Inl e, w1) \<Rightarrow> Some (Inl e, w1)
      | (Inr before, w1) \<Rightarrow>
          let pause = sleep (poll_interval timeouts); expired = rearm_expired cl W port before in
          (case poe_phase (set_one cl (poe_admin_oid port) (VInt 2) ''i'') clock pause (off_timeout timeouts)
                  (io_bind (poe_status_for cl W port) (\<lambda>st.
                   io_bind (port_up_for cl port) (\<lambda>up. io_return (poe_is_off st up)))) expired w1 of
             None \<Rightarrow> None
           | Some (Inl e, w2) \<Rightarrow> Some (Inl e, w2)
           | Some (Inr _, w2) \<Rightarrow>
               poe_phase (set_one cl (poe_admin_oid port) (VInt 1) ''i'') clock pause (on_timeout timeouts)
                 (io_bind (poe_status_for cl W port) (\<lambda>st. io_return (on_recovered before st))) expired w2))"

definition snmp_cycle_poe ::
    "'w snmp_client \<Rightarrow> snmp_writer \<Rightarrow> int \<Rightarrow> bool \<Rightarrow> poe_cycle_timeouts \<Rightarrow> (int \<Rightarrow> ('w, exn, unit) io)
      \<Rightarrow> ('w, exn, int) io \<Rightarrow> 'w \<Rightarrow> ((exn, unit) res \<times> 'w) option" where
  "snmp_cycle_poe cl W port force timeouts sleep clock w =
     (case snmp_guard W port force of
        Inl e \<Rightarrow> Some (Inl e, w)
      | Inr _ \<Rightarrow> poe_rearm cl W port timeouts sleep clock poe_cycle_complete w)"

definition snmp_clear_poe_fault ::
    "'w snmp_client \<Rightarrow> snmp_writer \<Rightarrow> int \<Rightarrow> bool \<Rightarrow> poe_cycle_timeouts \<Rightarrow> (int \<Rightarrow> ('w, exn, unit) io)
      \<Rightarrow> ('w, exn, int) io \<Rightarrow> 'w \<Rightarrow> ((exn, unit) res \<times> 'w) option" where
  "snmp_clear_poe_fault cl W port force timeouts sleep clock w =
     (case snmp_guard W port force of
        Inl e \<Rightarrow> Some (Inl e, w)
      | Inr _ \<Rightarrow> poe_rearm cl W port timeouts sleep clock poe_recovered w)"

section \<open>Ports\<close>

definition snmp_set_port_enabled ::
    "'w snmp_client \<Rightarrow> snmp_writer \<Rightarrow> int \<Rightarrow> bool \<Rightarrow> bool \<Rightarrow> ('w, exn, unit) io" where
  "snmp_set_port_enabled cl W port enabled force =
     io_bind (io_lift (if \<not> enabled then snmp_guard W port force else Inr ())) (\<lambda>_.
     io_bind (port_status_for cl port) (\<lambda>before.
     io_bind (set_one cl (col IF_ADMIN_STATUS port) (VInt (if enabled then 1 else 2)) ''i'') (\<lambda>_.
     io_bind (port_status_for cl port) (\<lambda>after.
       io_when_raise (map_option st_admin_enabled after \<noteq> Some enabled)
         (WriteVerificationError (ev_port before) (ev_port after))))))"

definition ev_description :: "port_status option \<Rightarrow> evidence" where
  "ev_description st = ev_text (case st of None \<Rightarrow> None | Some p \<Rightarrow> st_description p)"

definition snmp_set_port_description ::
    "'w snmp_client \<Rightarrow> snmp_writer \<Rightarrow> int \<Rightarrow> ustr \<Rightarrow> bool \<Rightarrow> ('w, exn, unit) io" where
  "snmp_set_port_description cl W port description force =
     io_bind (io_lift (snmp_guard W port force)) (\<lambda>_.
     io_bind (port_status_for cl port) (\<lambda>before.
     io_bind (set_one cl (col IF_ALIAS port) (VOct (Text description)) ''s'') (\<lambda>_.
     io_bind (port_status_for cl port) (\<lambda>after.
       let want = opt_or_none (Some description) in
       io_when_raise (map_option st_description after \<noteq> Some want)
         (WriteVerificationError (ev_description before) (ev_description after))))))"

definition snmp_set_pvid ::
    "'w snmp_client \<Rightarrow> snmp_writer \<Rightarrow> int \<Rightarrow> int \<Rightarrow> bool \<Rightarrow> ('w, exn, unit) io" where
  "snmp_set_pvid cl W port vlan force =
     io_bind (io_lift (snmp_guard W port force)) (\<lambda>_.
     io_bind (snmp_get_vlans cl) (\<lambda>vs.
     if \<not> list_ex (\<lambda>v. vi_vlan_id v = vlan) vs then io_raise (SnmpError (SnmpNoVlan vlan))
     else
       io_bind (snmp_get_pvids cl) (\<lambda>before.
       io_bind (set_one cl (col DOT1Q_PVID port) (VInt vlan) ''u'') (\<lambda>_.
       io_bind (snmp_get_pvids cl) (\<lambda>after.
         io_when_raise ((port, vlan) \<notin> set after)
           (WriteVerificationError (EvPairs before) (EvPairs after)))))))"

section \<open>VLAN membership\<close>

definition first_raw_or_zeros :: "snmp_row list \<Rightarrow> bytes" where
  "first_raw_or_zeros rows =
     (case first_raw (\<lambda>_. True) rows of
        Some bs \<Rightarrow> bs | None \<Rightarrow> replicate SWITCHPORT_VLAN_BITMAP_BYTES 0)"

definition switchport_vlan_bitmap :: "'w snmp_client \<Rightarrow> ustr \<Rightarrow> int \<Rightarrow> ('w, exn, bytes) io" where
  "switchport_vlan_bitmap cl base port =
     io_bind (cl_get cl [col base port]) (\<lambda>rows. io_return (first_raw_or_zeros rows))"

definition switchport_mode_of :: "'w snmp_client \<Rightarrow> int \<Rightarrow> ('w, exn, int option) io" where
  "switchport_mode_of cl port =
     io_bind (cl_get cl [col FASTPATH_SWITCHPORT_MODE port]) (\<lambda>rows. io_return (first_int rows))"

text \<open>\<open>for vb in plan.varbinds: self.client.set(vb)\<close>: one PDU per binding, in order.\<close>

fun set_each :: "'w snmp_client \<Rightarrow> set_varbind list \<Rightarrow> ('w, exn, unit) io" where
  "set_each cl [] = io_return ()"
| "set_each cl (vb # vbs) = io_bind (cl_set cl vb) (\<lambda>_. set_each cl vbs)"

definition set_vlan_switchport ::
    "'w snmp_client \<Rightarrow> int \<Rightarrow> int \<Rightarrow> vlan_mode \<Rightarrow> vlan_info \<Rightarrow> vlan_info list \<Rightarrow> ('w, exn, unit) io" where
  "set_vlan_switchport cl vlan port mode before vlans =
     (let (current_tagged, current_untagged) = port_membership vlans port in
      io_bind (switchport_mode_of cl port) (\<lambda>current_mode.
      io_bind (switchport_vlan_bitmap cl FASTPATH_SWITCHPORT_ALLOWED_VLANS port) (\<lambda>current_allowed.
      io_bind (io_lift (plan_switchport_membership vlan port mode current_mode current_allowed
                 current_tagged current_untagged (set (map vi_vlan_id vlans)))) (\<lambda>plan.
      io_bind (set_each cl (sp_varbinds plan)) (\<lambda>_.
      io_bind (snmp_get_vlans cl) (\<lambda>after.
        case switchport_divergence plan vlan port after of
          None \<Rightarrow> io_return ()
        | Some problem \<Rightarrow>
            io_bind (vlan_for cl vlan) (\<lambda>v.
              io_raise (WriteVerificationError (ev_vlan (Some before)) (ev_vlan v)))))))))"

definition keep_physical :: "int set option \<Rightarrow> int set \<Rightarrow> int set" where
  "keep_physical keep ports = (case keep of None \<Rightarrow> ports | Some k \<Rightarrow> ports \<inter> k)"

definition octets_or_encoded :: "bytes option \<Rightarrow> int set \<Rightarrow> octets py" where
  "octets_or_encoded raw ports =
     (case raw of
        Some bs \<Rightarrow> Inr (Raw bs)
      | None \<Rightarrow> res_bind (encode_port_bitmap ports 8) (\<lambda>bs. Inr (Raw bs)))"

definition set_vlan_qbridge ::
    "'w snmp_client \<Rightarrow> snmp_writer \<Rightarrow> int \<Rightarrow> int \<Rightarrow> vlan_mode \<Rightarrow> vlan_info \<Rightarrow> ('w, exn, unit) io" where
  "set_vlan_qbridge cl W vlan port mode before =
     io_bind (raw_bitmap cl DOT1Q_VLAN_STATIC_EGRESS vlan) (\<lambda>raw_egress.
     io_bind (raw_bitmap cl DOT1Q_VLAN_STATIC_UNTAGGED vlan) (\<lambda>raw_untagged.
     io_bind (io_lift (octets_or_encoded raw_egress (vi_member_ports before))) (\<lambda>egress.
     io_bind (io_lift (octets_or_encoded raw_untagged (vi_untagged_ports before))) (\<lambda>untagged.
     io_bind (io_lift (membership_bitmaps mode port egress untagged
                (Some (vlan_bitmap_width (pw_model W))))) (\<lambda>(new_egress, new_untagged).
     io_bind (io_lift (mk_set_varbind (col DOT1Q_VLAN_STATIC_EGRESS vlan) (VOct (Raw new_egress)) ''x'')) (\<lambda>egress_vb.
     io_bind (io_lift (mk_set_varbind (col DOT1Q_VLAN_STATIC_UNTAGGED vlan) (VOct (Raw new_untagged)) ''x'')) (\<lambda>untagged_vb.
     io_bind (if m_snmp_split_writes (pw_model W)
              then io_bind (cl_set cl egress_vb) (\<lambda>_. cl_set cl untagged_vb)
              else cl_set_many cl [egress_vb, untagged_vb]) (\<lambda>_.
     io_bind (vlan_for cl vlan) (\<lambda>after.
     io_bind (physical_for cl) (\<lambda>keep.
     io_bind (io_lift (decode_port_bitmap (Raw new_egress))) (\<lambda>sent_egress.
     io_bind (io_lift (decode_port_bitmap (Raw new_untagged))) (\<lambda>sent_untagged.
       io_when_raise
         (case after of
            None \<Rightarrow> True
          | Some v \<Rightarrow> vi_member_ports v \<noteq> keep_physical keep sent_egress
                      \<or> vi_untagged_ports v \<noteq> keep_physical keep sent_untagged)
         (WriteVerificationError (ev_vlan (Some before)) (ev_vlan after))))))))))))))"

definition snmp_set_vlan_membership ::
    "'w snmp_client \<Rightarrow> snmp_writer \<Rightarrow> int \<Rightarrow> int \<Rightarrow> vlan_mode \<Rightarrow> bool \<Rightarrow> ('w, exn, unit) io" where
  "snmp_set_vlan_membership cl W vlan port mode force =
     io_bind (io_lift (snmp_guard W port force)) (\<lambda>_.
     io_bind (snmp_get_vlans cl) (\<lambda>vlans.
     case find (\<lambda>v. vi_vlan_id v = vlan) vlans of
       None \<Rightarrow> io_raise (SnmpError (SnmpNoVlan vlan))
     | Some before \<Rightarrow>
         if m_snmp_vlan_write (pw_model W) = ''fastpath_switchport''
         then set_vlan_switchport cl vlan port mode before vlans
         else set_vlan_qbridge cl W vlan port mode before))"

section \<open>VLANs\<close>

definition require_snmp_vlan_creation :: "switch_model \<Rightarrow> unit py" where
  "require_snmp_vlan_creation model =
     (if \<not> m_snmp_can_create_vlan model then Inl UnsupportedCapabilityError else Inr ())"

definition snmp_create_vlan ::
    "'w snmp_client \<Rightarrow> snmp_writer \<Rightarrow> int \<Rightarrow> ustr \<Rightarrow> bool \<Rightarrow> ('w, exn, unit) io" where
  "snmp_create_vlan cl W vlan name force =
     io_bind (io_lift (require_snmp_vlan_creation (pw_model W))) (\<lambda>_.
     io_bind (vlan_for cl vlan) (\<lambda>before.
     io_bind (io_lift (mk_set_varbind (col DOT1Q_VLAN_STATIC_ROW_STATUS vlan) (VInt ROW_STATUS_CREATE_AND_GO) ''i'')) (\<lambda>row_vb.
     io_bind (io_lift (mk_set_varbind (col DOT1Q_VLAN_STATIC_NAME vlan) (VOct (Text name)) ''s'')) (\<lambda>name_vb.
     io_bind (cl_set_many cl [row_vb, name_vb]) (\<lambda>_.
     io_bind (vlan_for cl vlan) (\<lambda>after.
       io_when_raise
         (case after of None \<Rightarrow> True
          | Some v \<Rightarrow> (case vi_name v of Some n \<Rightarrow> n | None \<Rightarrow> []) \<noteq> name)
         (WriteVerificationError (ev_vlan before) (ev_vlan after))))))))"

definition snmp_delete_vlan ::
    "'w snmp_client \<Rightarrow> snmp_writer \<Rightarrow> int \<Rightarrow> bool \<Rightarrow> ('w, exn, unit) io" where
  "snmp_delete_vlan cl W vlan force =
     io_bind (vlan_for cl vlan) (\<lambda>before.
     case before of
       None \<Rightarrow> io_raise (SnmpError (SnmpNoVlan vlan))
     | Some v \<Rightarrow>
         if \<not> force \<and> vi_member_ports v \<inter> pw_protected_ports W \<noteq> {} then io_raise ProtectedPortError
         else
           io_bind (set_one cl (col DOT1Q_VLAN_STATIC_ROW_STATUS vlan) (VInt ROW_STATUS_DESTROY) ''i'') (\<lambda>_.
           io_bind (vlan_for cl vlan) (\<lambda>after.
             io_when_raise (after \<noteq> None) (WriteVerificationError (ev_vlan before) (ev_vlan after)))))"

section \<open>What this backend refuses by name\<close>

definition snmp_set_port_speed :: "int \<Rightarrow> port_speed \<Rightarrow> bool \<Rightarrow> ('w, exn, unit) io" where
  "snmp_set_port_speed port speed force = io_raise UnsupportedCapabilityError"

definition snmp_set_flow_control :: "int \<Rightarrow> bool \<Rightarrow> bool \<Rightarrow> ('w, exn, unit) io" where
  "snmp_set_flow_control port enabled force = io_raise UnsupportedCapabilityError"

definition snmp_add_syslog_collector :: "ustr \<Rightarrow> int \<Rightarrow> int \<Rightarrow> bool \<Rightarrow> ('w, exn, unit) io" where
  "snmp_add_syslog_collector host port severity force = io_raise UnsupportedCapabilityError"

section \<open>System settings\<close>

definition snmp_remove_syslog_collector ::
    "'w snmp_client \<Rightarrow> snmp_writer \<Rightarrow> ustr \<Rightarrow> bool \<Rightarrow> ('w, exn, unit) io" where
  "snmp_remove_syslog_collector cl W host force =
     io_bind (io_lift (snmp_require (pw_model W))) (\<lambda>_.
     if \<not> has_vendor_oids (pw_model W) then io_raise UnsupportedCapabilityError
     else
       io_bind (snmp_get_syslog cl (pw_model W)) (\<lambda>before.
       case find (\<lambda>s. sl_host s = host) (sg_servers before) of
         None \<Rightarrow> io_raise (SnmpError SnmpNoCollector)
       | Some row \<Rightarrow>
           (case sl_index row of
              None \<Rightarrow> io_raise (SnmpError SnmpNoCollector)
            | Some index \<Rightarrow>
                io_bind (io_lift (vendor_oids_of (pw_model W))) (\<lambda>vo.
                io_bind (set_one cl (col (vo_syslog_host_status vo) index) (VOct (Text ROW_DESTROY)) ''i'') (\<lambda>_.
                io_bind (snmp_get_syslog cl (pw_model W)) (\<lambda>after.
                  io_when_raise (list_ex (\<lambda>s. sl_host s = host) (sg_servers after))
                    (WriteVerificationError (ev_servers before) (ev_servers after))))))))"

definition snmp_set_syslog_enabled ::
    "'w snmp_client \<Rightarrow> snmp_writer \<Rightarrow> bool \<Rightarrow> bool \<Rightarrow> ('w, exn, unit) io" where
  "snmp_set_syslog_enabled cl W enabled force =
     (if \<not> has_vendor_oids (pw_model W) then io_raise UnsupportedCapabilityError
      else
        io_bind (io_lift (vendor_oids_of (pw_model W))) (\<lambda>vo.
        io_bind (snmp_get_syslog cl (pw_model W)) (\<lambda>before.
        io_bind (io_lift (mk_set_varbind (vo_syslog_admin_mode vo) (VInt (if enabled then 1 else 2)) ''i'')) (\<lambda>vb.
        io_bind (cl_set_many cl [vb]) (\<lambda>_.
        io_bind (snmp_get_syslog cl (pw_model W)) (\<lambda>after.
          io_when_raise (sg_enabled after \<noteq> enabled)
            (WriteVerificationError (EvState 0 (sg_enabled before)) (EvState 0 (sg_enabled after)))))))))"

definition snmp_set_hostname ::
    "'w snmp_client \<Rightarrow> snmp_writer \<Rightarrow> ustr \<Rightarrow> bool \<Rightarrow> ('w, exn, unit) io" where
  "snmp_set_hostname cl W name force =
     io_bind (snmp_get_hostname cl) (\<lambda>before.
     io_bind (io_lift (mk_set_varbind SYS_NAME (VOct (Text name)) ''s'')) (\<lambda>vb.
     io_bind (cl_set_many cl [vb]) (\<lambda>_.
     io_bind (snmp_get_hostname cl) (\<lambda>after.
       io_when_raise (after \<noteq> name) (WriteVerificationError (EvText before) (EvText after))))))"

definition snmp_set_mgmt_ip ::
    "'w snmp_client \<Rightarrow> snmp_writer \<Rightarrow> ustr \<Rightarrow> ustr \<Rightarrow> ustr \<Rightarrow> bool \<Rightarrow> ('w, exn, unit) io" where
  "snmp_set_mgmt_ip cl W address netmask gateway force =
     (if \<not> force then io_raise ProtectedPortError
      else
        io_bind (io_lift (vendor_oids_of (pw_model W))) (\<lambda>vo.
        io_bind (snmp_get_mgmt_ip cl (pw_model W)) (\<lambda>before.
        io_bind (io_lift (mk_set_varbind (vo_mgmt_write_addr_unverified vo) (VOct (Text address)) ''a'')) (\<lambda>a.
        io_bind (io_lift (mk_set_varbind (vo_mgmt_write_netmask_unverified vo) (VOct (Text netmask)) ''a'')) (\<lambda>n.
        io_bind (io_lift (mk_set_varbind (vo_mgmt_write_gateway_unverified vo) (VOct (Text gateway)) ''a'')) (\<lambda>g.
        io_bind (cl_set_many cl [a, n, g]) (\<lambda>_.
        io_bind (snmp_get_mgmt_ip cl (pw_model W)) (\<lambda>after.
          io_when_raise
            (ip_address after \<noteq> Some address \<or> ip_netmask after \<noteq> Some netmask \<or> ip_gateway after \<noteq> Some gateway)
            (WriteVerificationError (ev_mgmt before) (ev_mgmt after))))))))))"

text \<open>
  C14. A protected port is not touched over SNMP either: without \<open>force\<close> the
  operations on it (switching PoE or the port off, a label, a PVID, a membership, the
  two PoE restarts) raise \<open>ProtectedPortError\<close> with no read and no SET, and so does the
  address write, whatever ports are protected. Deleting a VLAN must read it first: when the
  read shows a protected port among its members the operation raises
  \<open>ProtectedPortError\<close> in the state the read left, with no SET. Switching a port or its
  PoE on is not refused.
\<close>

theorem snmp_protected_port_untouched:
  "(port \<in> pw_protected_ports W \<longrightarrow>
        snmp_set_poe cl W port False False w = (Inl ProtectedPortError, w)
      \<and> snmp_set_port_enabled cl W port False False w = (Inl ProtectedPortError, w)
      \<and> snmp_set_port_description cl W port d False w = (Inl ProtectedPortError, w)
      \<and> snmp_set_pvid cl W port vlan False w = (Inl ProtectedPortError, w)
      \<and> snmp_set_vlan_membership cl W vlan port mode False w = (Inl ProtectedPortError, w)
      \<and> snmp_cycle_poe cl W port False T sleep clock w = Some (Inl ProtectedPortError, w)
      \<and> snmp_clear_poe_fault cl W port False T sleep clock w = Some (Inl ProtectedPortError, w)
      \<and> (vlan_for cl vlan w = (Inr (Some v), w1) \<and> port \<in> vi_member_ports v
           \<longrightarrow> snmp_delete_vlan cl W vlan False w = (Inl ProtectedPortError, w1)))
    \<and> snmp_set_mgmt_ip cl W a n g False w = (Inl ProtectedPortError, w)"
  by (auto simp: snmp_guard_def snmp_set_poe_def snmp_set_port_enabled_def snmp_set_port_description_def
      snmp_set_pvid_def snmp_set_vlan_membership_def snmp_set_mgmt_ip_def snmp_cycle_poe_def snmp_clear_poe_fault_def
      snmp_delete_vlan_def io_bind_run)

text \<open>A client that shows one VLAN, 20, with port 24 as its only member, and counts its calls.\<close>

definition one_vlan_client :: "nat snmp_client" where
  "one_vlan_client = \<lparr>cl_get = \<lambda>_ n. (Inr [], Suc n),
     cl_walk = \<lambda>base n.
       (Inr (if base = DOT1Q_VLAN_STATIC_NAME then [mk_row (base @ [46, 50, 48]) (VOct (Text [])) []]
             else if base = DOT1Q_VLAN_STATIC_EGRESS then [mk_row (base @ [46, 50, 48]) (VOct (Raw [0, 0, 1])) []]
             else []), Suc n),
     cl_set_many = \<lambda>_ n. (Inr (), n + 100)\<rparr>"

lemma one_vlan_shown:
  "vlan_for one_vlan_client 20 0 = (Inr (Some \<lparr>vi_vlan_id = 20, vi_name = None, vi_member_ports = {24},
     vi_tagged_ports = {24}, vi_untagged_ports = {}\<rparr>), 6)"
proof -
  have ne: "list_all (\<lambda>b. b \<noteq> DOT1Q_VLAN_STATIC_NAME \<and> b \<noteq> DOT1Q_VLAN_STATIC_EGRESS)
      [IF_TYPE, DOT1Q_VLAN_STATIC_UNTAGGED, DOT1Q_VLAN_CURRENT_EGRESS, DOT1Q_VLAN_CURRENT_UNTAGGED]"
    "DOT1Q_VLAN_STATIC_EGRESS \<noteq> DOT1Q_VLAN_STATIC_NAME"
    by (simp_all add: DOT1Q_VLAN_STATIC_NAME_def DOT1Q_VLAN_STATIC_EGRESS_def IF_TYPE_def
        DOT1Q_VLAN_STATIC_UNTAGGED_def DOT1Q_VLAN_CURRENT_EGRESS_def DOT1Q_VLAN_CURRENT_UNTAGGED_def lit_def)
  have index: "int_of_text [50, 48] = Inr 20" "isdigit [50, 48]" "dec_val [50, 48] = 20"
    by (simp_all add: int_of_text_def strip_def is_space_def isdigit_def is_digit_def dec_val_def digits_val_def)
  have bitmaps: "bitmap_ports [0, 0, 1] = [24]" "bitmap_ports [] = []" "latin1_encode [] = Inr []"
    by (simp_all add: bitmap_ports_def byte_ports_def bit_mask_def latin1_encode_def upt_rec)
  note columns = physical_ports_def index_int_column_def index_str_column_def vlan_bitmap_map_def
    current_vlan_bitmap_map_def suffix_of_Some [THEN iffD2, OF refl]
  show ?thesis
    using ne by (simp add: vlan_for_def snmp_get_vlans_def io_bind_def one_vlan_client_def parse_vlans_def columns index
        bitmaps dict_keys_def dict_get_def dict_set_def ports_of_def get_or_def opt_or_none_def io_return_def)
qed

theorem snmp_protected_port_untouched_witness:
  "snmp_set_pvid one_vlan_client \<lparr>pw_model = m4300_24x, pw_protected_ports = {24}\<rparr> 24 20 False 0
     = (Inl ProtectedPortError, 0)
   \<and> snmp_delete_vlan one_vlan_client \<lparr>pw_model = m4300_24x, pw_protected_ports = {24}\<rparr> 20 False 0
     = (Inl ProtectedPortError, 6)"
proof -
  let ?W = "\<lparr>pw_model = m4300_24x, pw_protected_ports = {24}\<rparr>"
  have "24 \<in> pw_protected_ports ?W" by simp
  note at = snmp_protected_port_untouched [of 24 ?W one_vlan_client 0, THEN conjunct1, THEN mp, OF this]
  then show ?thesis using one_vlan_shown by fastforce
qed

end
