(* ===== verification/Snmp_Device.thy ===== *)
theory Snmp_Device
  imports Snmp_Readback Snmp_Writer
begin

section \<open>What one SET does to the device\<close>

text \<open>
  The state after a rebuild of the agent's view: on a switchport model the rows of
  every port exist. \<open>agent_of\<close> is the agent with that state and the view of it.
\<close>

definition seeded :: "switch_model \<Rightarrow> virtual_switch \<Rightarrow> virtual_switch" where
  "seeded m s = (if switchport_model m then ensure_rows s else s)"

definition agent_of :: "switch_model \<Rightarrow> virtual_switch \<Rightarrow> snmp_agent" where
  "agent_of m s = \<lparr>ag_state = seeded m s, ag_view = view_of (mib_list m (seeded m s))\<rparr>"

lemma agent_of_state [simp]: "ag_state (agent_of m s) = seeded m s"
  by (simp add: agent_of_def)

lemma ensure_rows_induct:
  assumes "\<And>p t. P t \<Longrightarrow> P (switchport_defaults p t)" "P s"
  shows "P (ensure_rows s)"
proof -
  have "P (foldl (\<lambda>s port. switchport_defaults port s) s ps)" for ps
    using assms(2) by (induction ps arbitrary: s) (auto intro: assms(1))
  then show ?thesis by (simp add: ensure_rows_def)
qed

lemma ensure_rows_frame [simp]:
  "vs_model_key (ensure_rows s) = vs_model_key s"
  "vs_ports (ensure_rows s) = vs_ports s"
  "vs_vlans (ensure_rows s) = vs_vlans s"
  "vs_pvids (ensure_rows s) = vs_pvids s"
  using ensure_rows_induct [of "\<lambda>t. vs_model_key t = vs_model_key s \<and> vs_ports t = vs_ports s
      \<and> vs_vlans t = vs_vlans s \<and> vs_pvids t = vs_pvids s" s]
  by simp_all

lemma seeded_frame [simp]:
  "vs_model_key (seeded m s) = vs_model_key s" "vs_ports (seeded m s) = vs_ports s"
  "vs_vlans (seeded m s) = vs_vlans s" "vs_pvids (seeded m s) = vs_pvids s"
  by (simp_all add: seeded_def)

lemma rebuild_ok:
  assumes "mib_wf m (seeded m (ag_state a))"
  shows "rebuild m a = (Inr (), agent_of m (ag_state a))"
proof -
  have "oid_map m (ag_state a) = (Inr (dict_of (mib_list m (seeded m (ag_state a)))), seeded m (ag_state a))"
    using oid_entries_eq [OF assms] by (simp add: oid_map_def seeded_def Let_def)
  then show ?thesis
    using load_view_of [OF mib_dotted [OF assms]] by (simp add: rebuild_def agent_of_def)
qed

text \<open>
  What the device makes of one binding: the value is converted, the identifier is
  writable, the handler accepts it, and the state it leaves can be projected.
\<close>

definition device_write :: "switch_model \<Rightarrow> set_varbind \<Rightarrow> virtual_switch \<Rightarrow> virtual_switch option" where
  "device_write m vb s =
     (case set_value vb of
        Inl _ \<Rightarrow> None
      | Inr v \<Rightarrow>
          if \<not> is_writable_oid m (sv_oid vb) then None
          else (case apply_write (sv_oid vb) v (snapshot s) of
                  (Inl _, _) \<Rightarrow> None
                | (Inr _, s1) \<Rightarrow> Some (seeded m s1)))"

text \<open>A device every value of which fits its column, and whose rows are there.\<close>

definition rows_fit :: "virtual_switch \<Rightarrow> bool" where
  "rows_fit s \<longleftrightarrow>
     list_all (\<lambda>(_, n). int_range TInteger n) (vs_switchport_mode s)
     \<and> list_all (\<lambda>(_, n). int_range TGauge32 n) (vs_switchport_access_vlan s)
     \<and> list_all (\<lambda>(_, n). int_range TGauge32 n) (vs_switchport_native_vlan s)"

definition device_ok :: "switch_model \<Rightarrow> virtual_switch \<Rightarrow> bool" where
  "device_ok m s \<longleftrightarrow> get_model (vs_model_key s) = Inr m \<and> mib_wf m s \<and> wire_ok s \<and> rows_fit s
     \<and> seeded m s = s"

definition agent_serves :: "switch_model \<Rightarrow> snmp_agent \<Rightarrow> bool" where
  "agent_serves m a \<longleftrightarrow> device_ok m (ag_state a) \<and> ag_view a = view_of (mib_list m (ag_state a))"

lemma agent_serves_ok: "agent_serves m a \<Longrightarrow> agent_ok m a" "agent_serves m a \<Longrightarrow> wire_ok (ag_state a)"
  by (simp_all add: agent_serves_def device_ok_def agent_ok_def agent_model_def)

lemma agent_of_serves: "device_ok m s \<Longrightarrow> agent_serves m (agent_of m s)"
  by (simp add: agent_serves_def agent_of_def device_ok_def)

lemma agent_set:
  assumes a: "agent_serves m a" and w: "device_write m vb (ag_state a) = Some s'" and ok: "device_ok m s'"
  shows "agent_set_many [vb] a = (Inr (), agent_of m s')"
proof -
  have m: "agent_model a = Inr m" using a by (simp add: agent_serves_def device_ok_def agent_model_def)
  obtain v s1 where v: "set_value vb = Inr v" "is_writable_oid m (sv_oid vb)"
    "apply_write (sv_oid vb) v (snapshot (ag_state a)) = (Inr (), s1)" "s' = seeded m s1"
    using w by (auto simp: device_write_def split: sum.splits if_splits prod.splits)
  have "write_pdu m [(sv_oid vb, v)] (ag_state a) = (Inr (), s1)"
    using v by (simp add: write_pdu_def Let_def)
  moreover have "rebuild m (a\<lparr>ag_state := s1\<rparr>) = (Inr (), agent_of m s1)"
    using rebuild_ok [of m "a\<lparr>ag_state := s1\<rparr>"] ok v(4) by (simp add: device_ok_def)
  moreover have "agent_of m s1 = agent_of m s'"
    using ok v(4) by (simp add: agent_of_def device_ok_def)
  ultimately show ?thesis
    using m v(1) by (simp add: agent_set_many_def write_variables_def)
qed

section \<open>The device as its clients see it\<close>

text \<open>
  What a writer relies on: the reads report the device, and an accepted SET changes
  it to the state \<open>device_write\<close> gives.
\<close>

locale snmp_device =
  fixes cl :: "'w snmp_client" and m :: switch_model
    and ok :: "'w \<Rightarrow> bool" and device :: "'w \<Rightarrow> virtual_switch"
  assumes ports_law: "ok w \<Longrightarrow> snmp_get_ports cl w = (Inr (reported_ports (device w)), w)"
    and vlans_law: "ok w \<Longrightarrow> snmp_get_vlans cl w = (Inr (reported_vlans (device w)), w)"
    and pvids_law: "ok w \<Longrightarrow> snmp_get_pvids cl w = (Inr (reported_pvids (device w)), w)"
    and device_law: "ok w \<Longrightarrow> device_ok m (device w)"
    and set_law: "ok w \<Longrightarrow> device_write m vb (device w) = Some s' \<Longrightarrow> device_ok m s' \<Longrightarrow>
      \<exists>w'. cl_set cl vb w = (Inr (), w') \<and> ok w' \<and> device w' = s'"
begin

lemma pvid_set:
  assumes w: "ok w" and g: "snmp_guard W port force = Inr ()"
    and v: "list_ex (\<lambda>v. vi_vlan_id v = vlan) (reported_vlans (device w))"
    and s: "device_write m (varbind (col DOT1Q_PVID port) (VInt vlan) ''u'') (device w) = Some s'" "device_ok m s'"
    and r: "(port, vlan) \<in> set (reported_pvids s')"
  shows "\<exists>w'. snmp_set_pvid cl W port vlan force w = (Inr (), w') \<and> ok w' \<and> device w' = s'"
proof -
  obtain w' where w': "cl_set cl (varbind (col DOT1Q_PVID port) (VInt vlan) ''u'') w = (Inr (), w')" "ok w'" "device w' = s'"
    using set_law [OF w s] by blast
  then have "snmp_set_pvid cl W port vlan force w = (Inr (), w')"
    using g v r pvids_law [OF w'(2)]
    by (simp add: snmp_set_pvid_def set_one_def io_bind_run vlans_law [OF w] pvids_law [OF w])
  with w' show ?thesis by blast
qed

lemma port_status:
  "ok w \<Longrightarrow> port_status_for cl port w = (Inr (find (\<lambda>p. st_port p = port) (reported_ports (device w))), w)"
  by (simp add: port_status_for_def io_bind_run ports_law)

lemma port_enabled_set:
  assumes w: "ok w" and g: "\<not> enabled \<longrightarrow> snmp_guard W port force = Inr ()"
    and s: "device_write m (varbind (col IF_ADMIN_STATUS port) (VInt (if enabled then 1 else 2)) ''i'') (device w) = Some s'"
      "device_ok m s'"
    and r: "map_option st_admin_enabled (find (\<lambda>p. st_port p = port) (reported_ports s')) = Some enabled"
  shows "\<exists>w'. snmp_set_port_enabled cl W port enabled force w = (Inr (), w') \<and> ok w' \<and> device w' = s'"
proof -
  obtain w' where w': "cl_set cl (varbind (col IF_ADMIN_STATUS port) (VInt (if enabled then 1 else 2)) ''i'') w = (Inr (), w')"
    "ok w'" "device w' = s'"
    using set_law [OF w s] by blast
  note before = port_status [OF w, of port] and after = port_status [OF w'(2), of port]
  have "snmp_set_port_enabled cl W port enabled force w = (Inr (), w')"
    using w' r g before after
    by (cases enabled) (auto simp add: snmp_set_port_enabled_def set_one_def io_bind_run)
  with w' show ?thesis by blast
qed

end

lemma agent_reports:
  assumes "agent_serves m a"
  shows "snmp_get_ports agent_client a = (Inr (reported_ports (ag_state a)), a)"
    "snmp_get_vlans agent_client a = (Inr (reported_vlans (ag_state a)), a)"
    "snmp_get_pvids agent_client a = (Inr (reported_pvids (ag_state a)), a)"
  using agent_serves_ok [OF assms] ports_read_back vlans_read_back pvids_read_back by blast+

interpretation agent: snmp_device agent_client m "agent_serves m" ag_state for m
proof unfold_locales
  fix w vb s'
  assume "agent_serves m w" "device_write m vb (ag_state w) = Some s'" "device_ok m s'"
  moreover have "ag_state (agent_of m s') = s'" using \<open>device_ok m s'\<close> by (simp add: device_ok_def)
  ultimately show "\<exists>w'. cl_set agent_client vb w = (Inr (), w') \<and> agent_serves m w' \<and> ag_state w' = s'"
    using agent_set agent_of_serves by (auto simp: cl_set_def agent_client_def)
qed (fact agent_reports(1), fact agent_reports(2), fact agent_reports(3), simp add: agent_serves_def)

section \<open>The writes of single columns\<close>

lemma ensure_rows_commute:
  assumes "\<And>p t. switchport_defaults p (h t) = h (switchport_defaults p t)"
    and "map fst (vs_ports (h s)) = map fst (vs_ports s)"
  shows "ensure_rows (h s) = h (ensure_rows s)"
proof -
  have "foldl (\<lambda>s port. switchport_defaults port s) (h s) ps = h (foldl (\<lambda>s port. switchport_defaults port s) s ps)" for ps
    by (induction ps arbitrary: s) (simp_all add: assms(1))
  then show ?thesis unfolding ensure_rows_def assms(2) .
qed

lemma seeded_commute:
  assumes "\<And>p t. switchport_defaults p (h t) = h (switchport_defaults p t)"
    and "map fst (vs_ports (h s)) = map fst (vs_ports s)"
  shows "seeded m (h s) = h (seeded m s)"
  using ensure_rows_commute [of h s] assms by (simp add: seeded_def)

definition with_pvid :: "int \<Rightarrow> int \<Rightarrow> virtual_switch \<Rightarrow> virtual_switch" where
  "with_pvid p n s = s\<lparr>vs_pvids := dict_set p n (vs_pvids s), vs_pdu_egress_writes := {}\<rparr>"

lemma device_ok_with_pvid:
  assumes "device_ok m s" "0 \<le> p" "0 \<le> n" "n \<le> 4294967295"
  shows "device_ok m (with_pvid p n s)"
proof -
  have "seeded m (with_pvid p n s) = with_pvid p n s"
    using seeded_commute [of "with_pvid p n" s m] assms(1)
    by (simp add: with_pvid_def switchport_defaults_def device_ok_def)
  then show ?thesis
    using assms
    by (auto simp: device_ok_def mib_wf_def indices_ok_def tables_wf_def rows_wf_def wire_ok_def rows_fit_def with_pvid_def)
qed

lemma device_write_pvid:
  assumes ok: "device_ok m s" and p: "0 \<le> p" and n: "0 \<le> n" "n \<le> 4294967295"
  shows "device_write m (varbind (col DOT1Q_PVID p) (VInt n) ''u'') s = Some (with_pvid p n s)"
proof -
  have m: "get_model (vs_model_key (snapshot s)) = Inr m" using ok by (simp add: device_ok_def snapshot_def)
  have "set_value (varbind (col DOT1Q_PVID p) (VInt n) ''u'') = Inr (VInt n)"
    using n by (simp add: set_value_def smi_range_def)
  moreover have "is_writable_oid m (col DOT1Q_PVID p)"
    using p by (simp add: is_writable_oid_def dispatch col_nonneg)
  moreover have "apply_write (col DOT1Q_PVID p) (VInt n) (snapshot s) = (Inr (), with_pvid p n s)"
    using p m by (simp add: dispatch col_nonneg write_pvid_def try_int_def with_pvid_def snapshot_def)
  moreover have "seeded m (with_pvid p n s) = with_pvid p n s"
    using device_ok_with_pvid [OF ok p n] by (simp add: device_ok_def)
  ultimately show ?thesis by (simp add: device_write_def)
qed

definition with_admin :: "int \<Rightarrow> bool \<Rightarrow> virtual_switch \<Rightarrow> virtual_switch" where
  "with_admin p on s =
     s\<lparr>vs_ports := dict_set p ((dict_at (vs_ports s) p)\<lparr>pt_admin := on, pt_link := on \<and> pt_link (dict_at (vs_ports s) p)\<rparr>)
          (vs_ports s),
       vs_pdu_egress_writes := {}\<rparr>"

lemma keys_dict_set: "k \<in> dict_keys d \<Longrightarrow> map fst (dict_set k v d) = map fst d"
  by (simp add: dict_set_def dict_keys_def update_keys)

lemma device_ok_with_admin:
  assumes ok: "device_ok m s" and p: "p \<in> dict_keys (vs_ports s)"
  shows "device_ok m (with_admin p on s)"
proof -
  have wf: "dict_wf (vs_ports s)" using ok by (simp add: device_ok_def mib_wf_def tables_wf_def)
  obtain x where x: "(p, x) \<in> set (vs_ports s)" "dict_at (vs_ports s) p = x"
    using p dict_get_in [OF wf] by (fastforce simp: dict_keys_def dict_at_def)
  note keys = keys_dict_set [OF p]
  let ?ps = "vs_ports (with_admin p on s)"
  let ?h = "\<lambda>t. t\<lparr>vs_ports := ?ps, vs_pdu_egress_writes := {}\<rparr>"
  have h: "with_admin p on s = ?h s" by (simp add: with_admin_def)
  have ps: "map fst ?ps = map fst (vs_ports s)" by (simp add: with_admin_def keys)
  have "seeded m (?h s) = ?h (seeded m s)"
    using seeded_commute [of ?h s m] ps by (simp add: switchport_defaults_def)
  moreover have "seeded m s = s" using ok by (simp add: device_ok_def)
  ultimately have "seeded m (?h s) = ?h s" by simp
  then have "seeded m (with_admin p on s) = with_admin p on s" unfolding h [symmetric] .
  moreover have "0 \<le> p" using ok x by (auto simp: device_ok_def mib_wf_def indices_ok_def list_all_iff)
  moreover have "dict_keys (vs_ports (with_admin p on s)) = dict_keys (vs_ports s)"
    using ps unfolding dict_keys_def by (metis set_map)
  ultimately have "0 \<le> p" "seeded m (with_admin p on s) = with_admin p on s"
    "rows_wf s \<Longrightarrow> rows_wf (with_admin p on s)"
    by (simp_all add: rows_wf_def with_admin_def)
  moreover have "int_range TGauge32 (pt_speed x) \<and> int_range TInteger (pt_if_type x) \<and> is_ascii (pt_name x)
       \<and> is_ascii (case pt_description x of Some d \<Rightarrow> d | None \<Rightarrow> [])"
    using ok x(1) by (force simp: device_ok_def wire_ok_def list_all_iff simp del: int_range.simps)
  ultimately show ?thesis
    using ok wf x(2) unfolding device_ok_def mib_wf_def
    by (simp add: indices_ok_def tables_wf_def wire_ok_def rows_fit_def with_admin_def del: int_range.simps)
qed

lemma device_write_admin:
  assumes ok: "device_ok m s" and p: "p \<in> dict_keys (vs_ports s)"
  shows "device_write m (varbind (col IF_ADMIN_STATUS p) (VInt (if on then 1 else 2)) ''i'') s = Some (with_admin p on s)"
proof -
  have m: "get_model (vs_model_key (snapshot s)) = Inr m" using ok by (simp add: device_ok_def snapshot_def)
  have p0: "0 \<le> p" using ok p by (auto simp: device_ok_def mib_wf_def indices_ok_def list_all_iff dict_keys_def)
  have "set_value (varbind (col IF_ADMIN_STATUS p) (VInt (if on then 1 else 2)) ''i'') = Inr (VInt (if on then 1 else 2))"
    by (simp add: set_value_def smi_range_def)
  moreover have "is_writable_oid m (col IF_ADMIN_STATUS p)"
    using p0 by (simp add: is_writable_oid_def dispatch col_nonneg)
  moreover have "apply_write (col IF_ADMIN_STATUS p) (VInt (if on then 1 else 2)) (snapshot s) = (Inr (), with_admin p on s)"
    using p0 p m by (simp add: dispatch col_nonneg write_admin_def try_int_def with_admin_def snapshot_def)
  moreover have "seeded m (with_admin p on s) = with_admin p on s"
    using device_ok_with_admin [OF ok p] by (simp add: device_ok_def)
  ultimately show ?thesis by (simp add: device_write_def)
qed

section \<open>Writes through the writer\<close>

lemma served_agent: "agent_serves m a \<Longrightarrow> a = agent_of m (ag_state a)"
  by (simp add: agent_serves_def device_ok_def agent_of_def)

definition is_physical :: "virtual_switch \<Rightarrow> int \<Rightarrow> bool" where
  "is_physical s p \<longleftrightarrow> (case dict_get (vs_ports s) p of Some x \<Rightarrow> pt_if_type x = ETHERNET_CSMACD | None \<Rightarrow> False)"

lemma reported_vlan_id: "vi_vlan_id (reported_vlan s v) = fst v"
  by (simp add: reported_vlan_def Let_def case_prod_beta)

lemma vlan_reported: "list_ex (\<lambda>v. vi_vlan_id v = vlan) (reported_vlans s) \<longleftrightarrow> vlan \<in> vlan_ids s"
  by (force simp: reported_vlans_def list_ex_iff reported_vlan_id vlan_ids_def)

lemma physical_seen: "is_physical s p \<Longrightarrow> dict_wf (vs_ports s) \<Longrightarrow> \<exists>keep. physical_of s = Some keep \<and> p \<in> keep"
  by (force simp: is_physical_def physical_of_def simp flip: dict_get_in split: option.splits)

lemma find_keyed:
  "(p, x) \<in> set l \<Longrightarrow> distinct (map fst l) \<Longrightarrow>
     find (\<lambda>st. st_port st = p) (map reported_port l) = Some (reported_port (p, x))"
proof (induction l)
  case (Cons y l)
  obtain q z where y: "y = (q, z)" by (cases y)
  have "st_port (reported_port y) = q" by (simp add: y reported_port_def)
  with Cons y show ?case by (cases "q = p") force+
qed simp

lemma find_reported_port:
  assumes wf: "dict_wf (vs_ports s)" and g: "dict_get (vs_ports s) p = Some x" and x: "pt_if_type x = ETHERNET_CSMACD"
  shows "find (\<lambda>st. st_port st = p) (reported_ports s) = Some (reported_port (p, x))"
proof -
  let ?l = "filter (\<lambda>(_, x). pt_if_type x = ETHERNET_CSMACD) (sorted_items (vs_ports s))"
  have "(p, x) \<in> set ?l" using g x wf by (simp add: dict_get_in)
  moreover have "distinct (map fst ?l)"
    using dict_wf_filter [of "sorted_items (vs_ports s)"] wf unfolding dict_wf_sorted_items unfolding dict_wf_def by blast
  ultimately have "find (\<lambda>st. st_port st = p) (map reported_port ?l) = Some (reported_port (p, x))"
    by (rule find_keyed)
  then show ?thesis by (simp add: reported_ports_def)
qed

end
