(* ===== verification/Snmp_Switchport.thy ===== *)
theory Snmp_Switchport
  imports Snmp_Device
begin

text \<open>
  The membership write of a model that keeps VLANs in switchport rows, from the
  writer to the rows of the device: a locale extends the device with the reads of a
  row, the plan is carried out column by column under its laws, and the agent is its
  interpretation.
\<close>

section \<open>A GET of one row\<close>

lemma view_get_in:
  assumes s: "sorted_wrt (<) (map fst view)" and e: "e \<in> set view"
  shows "view_get view (fst e) = Some e"
proof -
  obtain xs ys where v: "view = xs @ e # ys" using e by (meson split_list)
  have less: "\<forall>x \<in> set (map fst xs). x < fst e" using s unfolding v by (simp add: sorted_wrt_append)
  then have "takeWhile (\<lambda>y. y < fst e) (map fst view) = map fst xs"
    unfolding v by (simp add: takeWhile_append)
  then show ?thesis by (simp add: view_get_def bisect_left_def v)
qed

lemma agent_get_row:
  assumes s: "serves m es a" and b: "base \<noteq> []" and dist: "distinct (map fst (column_of base es))"
    and e: "e \<in> set (column_of base es)" and rd: "read_value (snd e) = Inr r"
    and p: "\<not> compat [1, 3, 6, 1, 2, 1, 105, 1, 1, 1] base"
    and v: "\<And>ns. base_nums ns \<Longrightarrow> \<not> compat (ns @ [15, 1, 1, 1, 2]) base"
  shows "\<exists>row. agent_get [fst e] a = (Inr [row], a)"
proof -
  have m: "agent_model a = Inr m" and vw: "vendor_wf m" and d: "dotted_entries es" and vi: "ag_view a = view_of es"
    using s by (simp_all add: serves_def)
  have "e \<in> set es" using e by (auto simp: column_of_def)
  then have "dotted_oid (fst e)" using d by (auto simp: dotted_entries_def list_all_iff)
  then obtain xs where xs: "xs \<noteq> []" "fst e = dots xs" by (auto simp: dotted_oid_def)
  have below: "below base xs" using e xs b by (auto simp: column_of_def suffix_of_dots split: if_splits)
  have "(tuple_of (fst e), snd e) \<in> set (map (\<lambda>(a, v). (tuple_of a, v)) (sorted_column base es))"
    using e by force
  then have "(tuple_of (fst e), snd e) \<in> set (view_of es)"
    unfolding filter_view_of [OF d b dist, symmetric] by simp
  from view_get_in [OF view_of_sorted [OF d] this]
  have "view_get (view_of es) (map int xs) = Some (map int xs, snd e)" using xs by simp
  moreover have "is_oid_implemented m (dots xs)" by (rule implemented_below [OF vw below xs(1) p v])
  ultimately have "read_variable m (view_of es) (map int xs) = Answer (map int xs, snd e)"
    by (simp add: read_variable_def)
  then show ?thesis
    using rd xs by (cases r) (simp add: agent_get_def m vi get_one_def row_of_def as_snmp_error_def)
qed

lemma column_rows:
  assumes "0 \<le> p"
  shows "column_of [1, 3, 6, 1, 4, 1, 4526, 10, 1, 2, 8, 37, 1, 2] (switchport_rows s p) =
      [(col FASTPATH_SWITCHPORT_MODE p, TInteger, num (dict_at (vs_switchport_mode s) p))]"
    "column_of [1, 3, 6, 1, 4, 1, 4526, 10, 1, 2, 8, 37, 1, 6] (switchport_rows s p) =
      [(col FASTPATH_SWITCHPORT_ALLOWED_VLANS p, TOctets, latin1_decode (dict_at (vs_switchport_allowed_vlans s) p))]"
  using assms by (simp_all add: switchport_rows_def oid_eval suffix_of_dots)

lemma column_of_switchports:
  assumes "mib_wf m s" "switchport_model m"
    and "base = [1, 3, 6, 1, 4, 1, 4526, 10, 1, 2, 8, 37, 1, 2] \<or> base = [1, 3, 6, 1, 4, 1, 4526, 10, 1, 2, 8, 37, 1, 6]"
  shows "column_of base (mib_list m s) = concat (map (\<lambda>p. column_of base (switchport_rows s p)) (map fst (vs_ports s)))"
  using assms(3) by (elim disjE; hypsubst) (simp_all add: column_eval assms(1,2))

lemma agent_get_switchport:
  assumes a: "agent_ok m a" and sw: "switchport_model m" and p: "p \<in> dict_keys (vs_ports (ag_state a))"
    and mode: "int_range TInteger (dict_at (vs_switchport_mode (ag_state a)) p)"
  shows "\<exists>rows. agent_get [col FASTPATH_SWITCHPORT_MODE p] a = (Inr rows, a)"
    "\<exists>rows. agent_get [col FASTPATH_SWITCHPORT_ALLOWED_VLANS p] a = (Inr rows, a)"
proof -
  let ?s = "ag_state a"
  have wf: "mib_wf m ?s" using a by (simp add: agent_ok_def)
  have dist: "distinct (map fst (concat (map (\<lambda>p. column_of base (switchport_rows ?s p)) (map fst (vs_ports ?s)))))"
    if one: "\<And>q. 0 \<le> q \<Longrightarrow> column_of base (switchport_rows ?s q) = [(col (dots base) q, f q)]" and b: "base \<noteq> []" for base f
  proof -
    have nn: "\<forall>q \<in> set (map fst (vs_ports ?s)). 0 \<le> q" using mib_nonneg(1) [OF wf] by auto
    have "distinct (map fst (vs_ports ?s))" using wf by (simp add: mib_wf_def tables_wf_def dict_wf_def)
    with nn have "distinct (map fst (concat (map (\<lambda>p. column_of base (switchport_rows ?s p)) ps)))"
      if "ps = map fst (vs_ports ?s)" for ps
      unfolding that [symmetric] using b
      by (induction ps) (auto simp: one col_inject)
    then show ?thesis by blast
  qed
  have p0: "0 \<le> p" using p mib_nonneg(1) [OF wf] by (auto simp: dict_keys_def)
  have mem: "x \<in> set (concat (map (\<lambda>p. column_of base (switchport_rows ?s p)) (map fst (vs_ports ?s))))"
    if "x \<in> set (column_of base (switchport_rows ?s p))" for x base
    using that p by (force simp: dict_keys_def)
  obtain r where r: "read_value (TInteger, num (dict_at (vs_switchport_mode ?s) p)) = Inr r"
    using read_int [OF mode] by blast
  have get: "\<exists>rows. agent_get [col (dots base) p] a = (Inr rows, a)"
    if b: "base = [1, 3, 6, 1, 4, 1, 4526, 10, 1, 2, 8, 37, 1, 2] \<or> base = [1, 3, 6, 1, 4, 1, 4526, 10, 1, 2, 8, 37, 1, 6]"
      and one: "\<And>q. 0 \<le> q \<Longrightarrow> column_of base (switchport_rows ?s q) = [(col (dots base) q, f q)]"
      and rd: "read_value (f p) = Inr x" for base f x
  proof -
    have ne: "base \<noteq> []" using b by auto
    have e: "(col (dots base) p, f p) \<in> set (column_of base (mib_list m ?s))"
      unfolding column_of_switchports [OF wf sw b] by (rule mem) (simp add: one p0)
    have clear: "\<not> compat [1, 3, 6, 1, 2, 1, 105, 1, 1, 1] base"
      "\<not> compat (ns @ [15, 1, 1, 1, 2]) base" if "base_nums ns" for ns
      using b that by (auto simp: compat_def base_nums_def)
    have "\<exists>row. agent_get [fst (col (dots base) p, f p)] a = (Inr [row], a)"
      by (rule agent_get_row [OF agent_ok_serves [OF a] ne dist [OF one ne, folded column_of_switchports [OF wf sw b]] e])
        (use rd clear base_nums_def in auto)
    then show ?thesis by auto
  qed
  show "\<exists>rows. agent_get [col FASTPATH_SWITCHPORT_MODE p] a = (Inr rows, a)"
    unfolding oid_dots
    by (rule get [where f = "\<lambda>q. (TInteger, num (dict_at (vs_switchport_mode ?s) q))" and x = r])
      (simp_all add: column_rows oid_dots r del: One_nat_def)
  show "\<exists>rows. agent_get [col FASTPATH_SWITCHPORT_ALLOWED_VLANS p] a = (Inr rows, a)"
    unfolding oid_dots by (rule get [OF _ _ read_latin1]) (simp_all add: column_rows oid_dots del: One_nat_def)
qed

section \<open>Seeded rows\<close>

definition has_row :: "int \<Rightarrow> virtual_switch \<Rightarrow> bool" where
  "has_row p s \<longleftrightarrow>
     dict_get (vs_switchport_mode s) p \<noteq> None \<and> dict_get (vs_switchport_access_vlan s) p \<noteq> None
     \<and> dict_get (vs_switchport_native_vlan s) p \<noteq> None \<and> dict_get (vs_switchport_allowed_vlans s) p \<noteq> None
     \<and> dict_get (vs_switchport_general_untagged s) p \<noteq> None \<and> dict_get (vs_switchport_general_tagged s) p \<noteq> None"

lemma defaults_has_row: "has_row p (switchport_defaults p s)" "has_row q s \<Longrightarrow> has_row q (switchport_defaults p s)"
  by (auto simp: has_row_def switchport_defaults_def)

lemma dict_setdefault_id: "dict_get d k \<noteq> None \<Longrightarrow> dict_setdefault k v d = d"
  by (auto simp: dict_setdefault_def)

lemma defaults_id:
  assumes "has_row p s"
  shows "switchport_defaults p s = s"
proof -
  have keys: "dict_get (vs_switchport_mode s) p \<noteq> None" "dict_get (vs_switchport_access_vlan s) p \<noteq> None"
    "dict_get (vs_switchport_native_vlan s) p \<noteq> None" "dict_get (vs_switchport_allowed_vlans s) p \<noteq> None"
    "dict_get (vs_switchport_general_untagged s) p \<noteq> None" "dict_get (vs_switchport_general_tagged s) p \<noteq> None"
    using assms unfolding has_row_def by blast+
  show ?thesis unfolding switchport_defaults_def keys [THEN dict_setdefault_id] by (cases s) simp
qed

lemma ensure_rows_id: "ensure_rows s = s \<longleftrightarrow> (\<forall>p \<in> dict_keys (vs_ports s). has_row p s)"
proof
  have "\<forall>p \<in> set ps. has_row p (foldl (\<lambda>s port. switchport_defaults port s) s ps)" for ps
    by (induction ps rule: rev_induct) (auto simp: defaults_has_row)
  moreover assume "ensure_rows s = s"
  ultimately show "\<forall>p \<in> dict_keys (vs_ports s). has_row p s"
    unfolding ensure_rows_def dict_keys_def by metis
next
  assume "\<forall>p \<in> dict_keys (vs_ports s). has_row p s"
  then have "\<forall>p \<in> set (map fst (vs_ports s)). has_row p s" by (simp add: dict_keys_def)
  then have "foldl (\<lambda>s port. switchport_defaults port s) s ps = s" if "set ps \<subseteq> set (map fst (vs_ports s))" for ps
    using that by (induction ps) (auto simp: defaults_id)
  then show "ensure_rows s = s" by (simp add: ensure_rows_def)
qed

definition set_fits :: "switchport_set \<Rightarrow> bool" where
  "set_fits w = (case w of
      SetMode n \<Rightarrow> int_range TInteger n | SetAccess n \<Rightarrow> int_range TGauge32 n
    | SetNative n \<Rightarrow> int_range TGauge32 n | SetAllowed b \<Rightarrow> True)"

text \<open>The row a write is applied to, before the membership follows it.\<close>

definition with_row :: "int \<Rightarrow> switchport_set \<Rightarrow> virtual_switch \<Rightarrow> virtual_switch" where
  "with_row p w s = (case w of
      SetMode n \<Rightarrow> s\<lparr>vs_switchport_mode := dict_set p n (vs_switchport_mode s)\<rparr>
    | SetAccess n \<Rightarrow> s\<lparr>vs_switchport_access_vlan := dict_set p n (vs_switchport_access_vlan s)\<rparr>
    | SetNative n \<Rightarrow> s\<lparr>vs_switchport_native_vlan := dict_set p n (vs_switchport_native_vlan s)\<rparr>
    | SetAllowed b \<Rightarrow> s\<lparr>vs_switchport_allowed_vlans := dict_set p b (vs_switchport_allowed_vlans s)\<rparr>)"

lemma write_switchport_row: "write_switchport p w s = (Inr (), s') \<Longrightarrow> s' = apply_switchport p (with_row p w s)"
  by (cases w) (auto simp: write_switchport_def with_row_def split: if_splits)

lemma with_row_has_row: "has_row q s \<Longrightarrow> has_row q (with_row p w s)"
  by (cases w) (auto simp: has_row_def with_row_def)

lemma rows_fit_with_row: "rows_fit s \<Longrightarrow> set_fits w \<Longrightarrow> rows_fit (with_row p w s)"
  by (cases w) (auto simp: rows_fit_def with_row_def set_fits_def simp del: int_range.simps)

lemma rows_fit_defaults: "rows_fit s \<Longrightarrow> rows_fit (switchport_defaults p s)"
  by (simp add: rows_fit_def switchport_defaults_def dict_setdefault_def int_consts)

lemma apply_switchport_has_row: "has_row q s \<Longrightarrow> has_row q (apply_switchport p s)"
  using defaults_has_row(2) [of q s p] by (simp add: has_row_def apply_switchport_def Let_def split: prod.splits)

lemma place_port_ok: "vlan_sim_ok v \<Longrightarrow> 1 \<le> p \<Longrightarrow> vlan_sim_ok (place_port p u t vid v)"
  by (auto simp: place_port_def vlan_sim_ok_def ports_ok_def)

lemma place_port_frame [simp]:
  "vl_name (place_port p u t vid v) = vl_name v" "vl_static_row (place_port p u t vid v) = vl_static_row v"
  "vl_configured_only (place_port p u t vid v) = vl_configured_only v"
  by (simp_all add: place_port_def)

lemma with_row_wf [simp]:
  "indices_ok (with_row p w s) = indices_ok s" "tables_wf (with_row p w s) = tables_wf s"
  "rows_wf (with_row p w s) = rows_wf s" "wire_ok (with_row p w s) = wire_ok s"
  by (cases w; simp add: with_row_def indices_ok_def tables_wf_def rows_wf_def wire_ok_def)+

lemma row_pvids_wf [simp]: "dict_wf (vs_pvids s) \<Longrightarrow> dict_wf (row_pvids s p)"
  by (simp add: row_pvids_def Let_def)

lemma row_pvids_ports:
  "list_all (\<lambda>(p, _). 0 \<le> p) (vs_pvids s) \<Longrightarrow> 0 \<le> p \<Longrightarrow> list_all (\<lambda>(p, _). 0 \<le> p) (row_pvids s p)"
  by (simp add: row_pvids_def Let_def)

lemma row_pvids_fit:
  assumes "rows_fit s" "has_row p s" "list_all (\<lambda>(_, n). int_range TGauge32 n) (vs_pvids s)"
  shows "list_all (\<lambda>(_, n). int_range TGauge32 n) (row_pvids s p)"
  using assms list_all_dict_get [of "\<lambda>(_, n). int_range TGauge32 n" "vs_switchport_access_vlan s" p]
    list_all_dict_get [of "\<lambda>(_, n). int_range TGauge32 n" "vs_switchport_native_vlan s" p]
  by (auto simp: rows_fit_def row_pvids_def Let_def has_row_def dict_at_def simp del: int_range.simps)

lemma device_ok_apply:
  assumes "device_ok m s" and sw: "switchport_model m" and p: "1 \<le> p" "p \<in> dict_keys (vs_ports s)"
    and w: "set_fits w"
  shows "device_ok m (apply_switchport p (with_row p w s))"
proof -
  let ?r = "with_row p w s" and ?s = "apply_switchport p (with_row p w s)"
  have frame: "vs_ports ?r = vs_ports s" "vs_vlans ?r = vs_vlans s" "vs_pvids ?r = vs_pvids s" "vs_model_key ?r = vs_model_key s"
    by (cases w; simp add: with_row_def)+
  have rows: "has_row q s" if "q \<in> dict_keys (vs_ports s)" for q
    using assms(1) that ensure_rows_id [of s] by (simp add: device_ok_def seeded_def sw)
  have hr: "has_row q ?s" if "q \<in> dict_keys (vs_ports s)" for q
    by (rule apply_switchport_has_row [OF with_row_has_row [OF rows [OF that]]])
  have seed: "seeded m ?s = ?s" using hr ensure_rows_id [of ?s] by (simp add: seeded_def frame)
  have d: "switchport_defaults p ?r = ?r" by (rule defaults_id [OF with_row_has_row [OF rows [OF p(2)]]])
  have fit: "rows_fit ?r" using assms(1) w by (simp add: device_ok_def rows_fit_with_row)
  obtain u t where ut: "row_membership ?r p = (u, t)" by fastforce
  have s: "?s = ?r\<lparr>vs_pvids := row_pvids ?r p, vs_vlans := map (\<lambda>(vid, v). (vid, place_port p u t vid v)) (vs_vlans ?r)\<rparr>"
    by (simp add: apply_switchport_def d ut Let_def)
  have fit': "rows_fit ?s" using fit unfolding s by (simp add: rows_fit_def)
  have r: "indices_ok ?r" "tables_wf ?r" "rows_wf ?r" "wire_ok ?r" "vendor_wf m" "get_model (vs_model_key ?r) = Inr m"
    using assms(1) sw unfolding with_row_wf frame by (simp_all add: device_ok_def mib_wf_def)
  have "indices_ok ?s"
    using r(1) p(1) row_pvids_ports [of ?r p] unfolding s by (simp add: indices_ok_def list_all_iff case_prod_beta)
  moreover have "tables_wf ?s"
    using r(2) place_port_ok [OF _ p(1)] unfolding s by (auto simp: tables_wf_def list_all_iff dict_wf_def comp_def case_prod_beta row_pvids_wf [unfolded dict_wf_def])
  moreover have "rows_wf ?s" using r(3) unfolding s by (simp add: rows_wf_def)
  moreover have "wire_ok ?s"
    using r(4) row_pvids_fit [OF fit with_row_has_row [OF rows [OF p(2)]]] unfolding s
    by (auto simp: wire_ok_def list_all_iff case_prod_beta simp del: int_range.simps)
  ultimately show ?thesis
    using r(5,6) fit' seed unfolding device_ok_def mib_wf_def by (simp add: s)
qed

section \<open>One column, and a plan\<close>

lemma device_ok_snapshot: "device_ok m s \<Longrightarrow> device_ok m (snapshot s)"
proof -
  assume ok: "device_ok m s"
  have "seeded m (snapshot s) = snapshot (seeded m s)"
    by (rule seeded_commute) (simp_all add: snapshot_def switchport_defaults_def)
  then have "seeded m (snapshot s) = snapshot s" using ok by (simp add: device_ok_def)
  then show ?thesis
    using ok unfolding device_ok_def mib_wf_def
    by (simp add: snapshot_def indices_ok_def tables_wf_def rows_wf_def wire_ok_def rows_fit_def)
qed

lemma snapshot_frame [simp]:
  "vs_ports (snapshot s) = vs_ports s" "vs_vlans (snapshot s) = vs_vlans s" "vs_model_key (snapshot s) = vs_model_key s"
  "snapshot (snapshot s) = snapshot s"
  by (simp_all add: snapshot_def)

lemma write_switchport_snapshot:
  "write_switchport p w s = (r, s') \<Longrightarrow> snapshot s = s \<Longrightarrow> snapshot s' = s'"
proof -
  assume w: "write_switchport p w s = (r, s')" and s: "snapshot s = s"
  have "vs_pdu_egress_writes s = {}" using arg_cong [OF s, of vs_pdu_egress_writes] by (simp add: snapshot_def)
  then have "vs_pdu_egress_writes s' = {}"
    using w by (cases w) (auto simp: write_switchport_def apply_switchport_def switchport_defaults_def Let_def
        split: if_splits prod.splits)
  then show "snapshot s' = s'" by (cases s') (simp add: snapshot_def)
qed

lemma set_value_set_of: "set_fits w \<Longrightarrow> set_value (set_of p w) = Inr (sv_value (set_of p w))"
  by (cases w) (simp_all add: set_fits_def set_value_def smi_range_def)

lemma device_write_switchport:
  assumes ok: "device_ok m s" and sw: "switchport_model m" and p: "1 \<le> p" "p \<in> dict_keys (vs_ports s)"
    and w: "set_fits w" and r: "write_switchport p w (snapshot s) = (Inr (), s')"
  shows "device_write m (set_of p w) s = Some s'" "device_ok m s'"
proof -
  show ok': "device_ok m s'"
    using device_ok_apply [OF device_ok_snapshot [OF ok] sw p(1) _ w] p(2) write_switchport_row [OF r] by simp
  have m: "get_model (vs_model_key (snapshot s)) = Inr m" using ok by (simp add: device_ok_def)
  have "apply_write (sv_oid (set_of p w)) (sv_value (set_of p w)) (snapshot s) = write_switchport p w (snapshot s)"
    using apply_write_switchport [OF m sw, of "nat p" w] p(1) by simp
  moreover have "is_writable_oid m (sv_oid (set_of p w))"
    using switchport_writable [OF sw, of "nat p" w] p(1) by simp
  ultimately show "device_write m (set_of p w) s = Some s'"
    using ok' r by (simp add: device_write_def set_value_set_of [OF w] device_ok_def)
qed

lemma write_switchport_keeps:
  assumes "write_switchport p w s = (r, s')" "\<forall>(vid, v) \<in> set (vs_vlans s). q \<notin> vl_configured_only v"
  shows "vs_ports s' = vs_ports s" "\<forall>(vid, v) \<in> set (vs_vlans s'). q \<notin> vl_configured_only v"
proof -
  have "s' = apply_switchport p (with_row p w s) \<or> s' = s"
    using assms(1) by (cases w) (auto simp: write_switchport_def with_row_def split: if_splits)
  moreover have "vs_ports (with_row p w s) = vs_ports s" "vs_vlans (with_row p w s) = vs_vlans s"
    by (cases w; simp add: with_row_def)+
  ultimately show "vs_ports s' = vs_ports s" "\<forall>(vid, v) \<in> set (vs_vlans s'). q \<notin> vl_configured_only v"
    using assms(2) by (fastforce simp: apply_switchport_vlans)+
qed

lemma write_switchports_keeps:
  "write_switchports p ws s = (r, s') \<Longrightarrow> \<forall>(vid, v) \<in> set (vs_vlans s). q \<notin> vl_configured_only v \<Longrightarrow>
     vs_ports s' = vs_ports s \<and> (\<forall>(vid, v) \<in> set (vs_vlans s'). q \<notin> vl_configured_only v)"
proof (induction ws arbitrary: s)
  case (Cons w ws)
  obtain r1 s1 where w: "write_switchport p w s = (r1, s1)" by fastforce
  note k = write_switchport_keeps [OF w Cons.prems(2)]
  show ?case
  proof (cases r1)
    case (Inl e)
    with Cons.prems w k show ?thesis by simp
  next
    case (Inr x)
    then have "write_switchports p ws s1 = (r, s')" using Cons.prems(1) w by simp
    from Cons.IH [OF this k(2)] k(1) show ?thesis by simp
  qed
qed simp

text \<open>Where no VLAN holds the port back from its current row, the reader sees the state.\<close>

lemma reported_membership:
  assumes wf: "dict_wf (vs_vlans s)" "dict_wf (vs_ports s)" and p: "is_physical s port"
    and c: "\<forall>(vid, v) \<in> set (vs_vlans s). port \<notin> vl_configured_only v"
  shows "port_membership (reported_vlans s) port = state_membership s port"
proof -
  obtain keep where keep: "physical_of s = Some keep" "port \<in> keep" using physical_seen [OF p wf(2)] by blast
  have t: "port \<in> vi_tagged_ports (reported_vlan s (vid, v)) \<longleftrightarrow> port \<in> vl_member v \<and> port \<notin> vl_untagged v"
    and u: "port \<in> vi_untagged_ports (reported_vlan s (vid, v)) \<longleftrightarrow> port \<in> vl_untagged v"
    if "(vid, v) \<in> set (vs_vlans s)" for vid v
    using c that keep by (auto simp: reported_vlan_def Let_def seen_ports_def configured_def)
  have "{vi_vlan_id v |v. v \<in> set (reported_vlans s) \<and> port \<in> vi_tagged_ports v}
      = {vid. \<exists>v. (vid, v) \<in> set (vs_vlans s) \<and> port \<in> vl_member v \<and> port \<notin> vl_untagged v}"
    unfolding reported_vlans_def using t by (force simp: reported_vlan_id)
  moreover have "{vi_vlan_id v |v. v \<in> set (reported_vlans s) \<and> port \<in> vi_untagged_ports v}
      = {vid. \<exists>v. (vid, v) \<in> set (vs_vlans s) \<and> port \<in> vl_untagged v}"
    unfolding reported_vlans_def using u by (force simp: reported_vlan_id)
  ultimately show ?thesis
    unfolding port_membership_def state_membership_def dict_get_in [OF wf(1)] by (auto split: option.splits)
qed

section \<open>The plan, carried out\<close>

text \<open>
  A device whose switchport rows can be read: the writer reads a port's mode and its
  allowed VLANs before it plans.
\<close>

locale snmp_switchport_device = snmp_device cl m ok device
  for cl :: "'w snmp_client" and m ok device +
  assumes mode_law: "ok w \<Longrightarrow> p \<in> dict_keys (vs_ports (device w)) \<Longrightarrow> switchport_model m \<Longrightarrow>
      \<exists>rows. cl_get cl [col FASTPATH_SWITCHPORT_MODE p] w = (Inr rows, w)"
    and allowed_law: "ok w \<Longrightarrow> p \<in> dict_keys (vs_ports (device w)) \<Longrightarrow> switchport_model m \<Longrightarrow>
      \<exists>rows. cl_get cl [col FASTPATH_SWITCHPORT_ALLOWED_VLANS p] w = (Inr rows, w)"
begin

lemma columns_set:
  assumes sw: "switchport_model m" and p: "1 \<le> p"
  shows "ok w \<Longrightarrow> p \<in> dict_keys (vs_ports (device w)) \<Longrightarrow> list_all set_fits ws \<Longrightarrow>
     write_switchports p ws (snapshot (device w)) = (Inr (), s') \<Longrightarrow>
     \<exists>w'. set_each cl (map (set_of p) ws) w = (Inr (), w') \<and> ok w' \<and> snapshot (device w') = s'"
proof (induction ws arbitrary: w)
  case Nil
  then show ?case by simp
next
  case (Cons x ws)
  obtain s1 where s1: "write_switchport p x (snapshot (device w)) = (Inr (), s1)" "write_switchports p ws s1 = (Inr (), s')"
    using Cons.prems(4) by (auto split: sum.splits prod.splits)
  have x: "set_fits x" "list_all set_fits ws" using Cons.prems(3) by simp_all
  note dw = device_write_switchport [OF device_law [OF Cons.prems(1)] sw p Cons.prems(2) x(1) s1(1)]
  obtain w1 where w1: "cl_set cl (set_of p x) w = (Inr (), w1)" "ok w1" "device w1 = s1"
    using set_law [OF Cons.prems(1) dw] by blast
  have "snapshot s1 = s1" by (rule write_switchport_snapshot [OF s1(1)]) simp
  moreover have "vs_ports s1 = vs_ports (device w)"
    using write_switchport_row [OF s1(1)] by (cases x) (simp_all add: with_row_def)
  ultimately have "\<exists>w'. set_each cl (map (set_of p) ws) w1 = (Inr (), w') \<and> ok w' \<and> snapshot (device w') = s'"
    by (intro Cons.IH) (use w1 x(2) s1(2) Cons.prems(2) in simp_all)
  then show ?case using w1(1) by (auto simp: io_bind_run)
qed

lemma membership_set:
  assumes w: "ok w" and g: "snmp_guard W port force = Inr ()" and sw: "switchport_model m" and W: "pw_model W = m"
    and p: "1 \<le> port" "is_physical (device w) port"
    and c: "\<forall>(vid, v) \<in> set (vs_vlans (device w)). port \<notin> vl_configured_only v"
    and range: "\<forall>v \<in> vlan_ids (device w). 1 \<le> v \<and> v \<le> 4096" and one: "DEFAULT_VLAN \<in> vlan_ids (device w)"
    and v: "vlan \<in> vlan_ids (device w)"
    and ex: "expressible (request mode vlan (state_membership (device w) port))"
  shows "\<exists>w'. snmp_set_vlan_membership cl W vlan port mode force w = (Inr (), w') \<and> ok w'
    \<and> state_membership (device w') port = settle (request mode vlan (state_membership (device w) port))
    \<and> vlan_ids (device w') = vlan_ids (device w)
    \<and> (\<forall>q. q \<noteq> port \<longrightarrow> state_membership (device w') q = state_membership (device w) q)"
proof -
  let ?s = "device w"
  have ok: "device_ok m ?s" by (rule device_law [OF w])
  have wf: "dict_wf (vs_vlans ?s)" "dict_wf (vs_ports ?s)" using ok by (simp_all add: device_ok_def mib_wf_def tables_wf_def)
  have key: "port \<in> dict_keys (vs_ports ?s)"
    using p(2) dict_get_None [of "vs_ports ?s" port] by (auto simp: is_physical_def dict_keys_def split: option.splits)
  obtain T U where TU: "state_membership ?s port = (T, U)" by fastforce
  have snap: "state_membership (snapshot t) = state_membership t" "vlan_ids (snapshot t) = vlan_ids t" for t
    by (simp_all add: state_membership_def vlan_ids_def fun_eq_iff)
  obtain r1 r2 where r: "cl_get cl [col FASTPATH_SWITCHPORT_MODE port] w = (Inr r1, w)"
    "cl_get cl [col FASTPATH_SWITCHPORT_ALLOWED_VLANS port] w = (Inr r2, w)"
    using mode_law [OF w key sw] allowed_law [OF w key sw] by blast
  have "state_membership (snapshot ?s) port = (T, U)" "finite (vlan_ids (snapshot ?s))"
    "\<forall>v \<in> vlan_ids (snapshot ?s). 1 \<le> v \<and> v \<le> 4096" "DEFAULT_VLAN \<in> vlan_ids (snapshot ?s)"
    "vlan \<in> vlan_ids (snapshot ?s)" "expressible (request mode vlan (T, U))"
    using TU range one v ex unfolding snap by (simp_all add: vlan_ids_def)
  then obtain plan sets s' where
    plan: "plan_switchport_membership vlan port mode (first_int r1) (first_raw_or_zeros r2) T U (vlan_ids ?s) = Inr plan"
    and want: "settle (request mode vlan (T, U)) = (sp_tagged_vlans plan, {sp_untagged_vlan plan})"
    and sets: "sp_varbinds plan = map (set_of port) sets"
    and s': "write_switchports port sets (snapshot ?s) = (Inr (), s')"
      "state_membership s' port = settle (request mode vlan (T, U))" "vlan_ids s' = vlan_ids ?s"
      "\<forall>q. q \<noteq> port \<longrightarrow> state_membership s' q = state_membership ?s q"
    and fits: "\<forall>n. SetAccess n \<in> set sets \<or> SetNative n \<in> set sets \<longrightarrow> n \<in> vlan_ids ?s"
      "\<forall>n. SetMode n \<in> set sets \<longrightarrow> n = SWITCHPORT_MODE_ACCESS \<or> n = SWITCHPORT_MODE_TRUNK"
    by (rule plan_applied [where cm = "first_int r1" and ca = "first_raw_or_zeros r2"]) (simp only: snap)
  have "list_all set_fits sets"
    unfolding list_all_iff
  proof
    fix x assume x: "x \<in> set sets"
    show "set_fits x"
    proof (cases x)
      case (SetMode n)
      then show ?thesis using fits(2) x by (auto simp: set_fits_def int_consts)
    qed (use fits(1) x range in \<open>force simp: set_fits_def\<close>)+
  qed
  then obtain w' where w': "set_each cl (map (set_of port) sets) w = (Inr (), w')" "ok w'" "snapshot (device w') = s'"
    using columns_set [OF sw p(1) w key _ s'(1)] by blast
  have after: "state_membership (device w') = state_membership s'" "vlan_ids (device w') = vlan_ids ?s"
    using snap [of "device w'"] s'(3) by (simp_all add: w'(3))
  have keeps: "vs_ports s' = vs_ports ?s" "\<forall>(vid, v) \<in> set (vs_vlans s'). port \<notin> vl_configured_only v"
    using write_switchports_keeps [OF s'(1), of port] c by simp_all
  have ok': "device_ok m (device w')" by (rule device_law [OF w'(2)])
  have phys: "is_physical (device w') port" using p(2) keeps(1) w'(3) [symmetric] by (simp add: is_physical_def)
  have seen: "port_membership (reported_vlans (device w')) port = settle (request mode vlan (T, U))"
    using reported_membership [OF _ _ phys] ok' keeps(2) w'(3) [symmetric] s'(2) after
    by (simp add: device_ok_def mib_wf_def tables_wf_def)
  have ids: "set (map vi_vlan_id (reported_vlans t)) = vlan_ids t" for t
    by (auto simp: reported_vlans_def vlan_ids_def reported_vlan_id image_image)
  have "\<exists>v \<in> set (reported_vlans (device w')). vi_vlan_id v = vlan"
    using v after(2) ids [of "device w'"] by (metis imageE set_map)
  then have none: "switchport_divergence plan vlan port (reported_vlans (device w')) = None"
    by (simp add: switchport_divergence_def seen want)
  have "vlan \<in> set (map vi_vlan_id (reported_vlans ?s))" using v ids by simp
  then obtain before where before: "find (\<lambda>v. vi_vlan_id v = vlan) (reported_vlans ?s) = Some before"
    by (cases "find (\<lambda>v. vi_vlan_id v = vlan) (reported_vlans ?s)") (auto simp: find_None_iff)
  have now: "port_membership (reported_vlans ?s) port = (T, U)"
    using reported_membership [OF wf p(2) c] TU by simp
  have "snmp_set_vlan_membership cl W vlan port mode force w = (Inr (), w')"
    using g w' before now r plan none sw W vlans_law [OF w] vlans_law [OF w'(2)]
    by (simp add: snmp_set_vlan_membership_def switchport_model_def set_vlan_switchport_def switchport_mode_of_def
        switchport_vlan_bitmap_def io_bind_run ids sets del: set_map)
  then show ?thesis using w'(2) after s'(2,4) by (auto simp: TU)
qed

end

lemma agent_rows:
  assumes a: "agent_serves m a" and p: "p \<in> dict_keys (vs_ports (ag_state a))" and sw: "switchport_model m"
  shows "\<exists>rows. agent_get [col FASTPATH_SWITCHPORT_MODE p] a = (Inr rows, a)"
    "\<exists>rows. agent_get [col FASTPATH_SWITCHPORT_ALLOWED_VLANS p] a = (Inr rows, a)"
proof -
  let ?s = "ag_state a"
  have ok: "device_ok m ?s" using a by (simp add: agent_serves_def)
  then have "has_row p ?s" using p sw ensure_rows_id [of ?s] by (simp add: device_ok_def seeded_def)
  then obtain n where n: "dict_get (vs_switchport_mode ?s) p = Some n" by (auto simp: has_row_def)
  have "list_all (\<lambda>(_, n). int_range TInteger n) (vs_switchport_mode ?s)"
    using ok by (simp add: device_ok_def rows_fit_def del: int_range.simps)
  from list_all_dict_get [OF this n] have "int_range TInteger (dict_at (vs_switchport_mode ?s) p)"
    using n by (simp add: dict_at_def)
  from agent_get_switchport [OF agent_serves_ok(1) [OF a] sw p this]
  show "\<exists>rows. agent_get [col FASTPATH_SWITCHPORT_MODE p] a = (Inr rows, a)"
    "\<exists>rows. agent_get [col FASTPATH_SWITCHPORT_ALLOWED_VLANS p] a = (Inr rows, a)" .
qed

interpretation agent_rows: snmp_switchport_device agent_client m "agent_serves m" ag_state for m
  by unfold_locales (simp_all add: agent_client_def agent_rows)

end
