(* ===== verification/Snmp_System.thy ===== *)
theory Snmp_System
  imports Snmp_Switchport
begin

text \<open>
  The SNMP reader and writer against the virtual switch behind its agent, end to end.
\<close>

text \<open>
  C2. The SNMP reader reports the device: on an agent that serves a well-formed
  virtual switch, the ports, the VLANs and the PVIDs it returns are those of the
  device, in the order of their numbers, and reading changes nothing.
\<close>

theorem snmp_reads_report_device:
  assumes "device_ok m s"
  shows "snmp_get_ports agent_client (agent_of m s) = (Inr (reported_ports s), agent_of m s)
    \<and> snmp_get_vlans agent_client (agent_of m s) = (Inr (reported_vlans s), agent_of m s)
    \<and> snmp_get_pvids agent_client (agent_of m s) = (Inr (reported_pvids s), agent_of m s)"
proof -
  have "agent_serves m (agent_of m s)" "ag_state (agent_of m s) = s"
    using agent_of_serves [OF assms] assms by (simp_all add: device_ok_def)
  then show ?thesis using agent.ports_law agent.vlans_law agent.pvids_law by metis
qed

definition sample_switch :: virtual_switch where
  "sample_switch = (mk_virtual_switch ''m4300-24x'')
     \<lparr>vs_ports := [(1, mk_port_sim (lit ''1/0/1'') True True 10000), (2, mk_port_sim (lit ''1/0/2'') True False 0)],
      vs_vlans := [(1, mk_vlan_sim (lit ''default'') {1, 2} {1, 2}), (20, mk_vlan_sim (lit ''lab'') {} {})],
      vs_pvids := [(1, 1), (2, 1)],
      vs_switchport_mode := [(1, 1), (2, 1)], vs_switchport_access_vlan := [(1, 1), (2, 1)],
      vs_switchport_native_vlan := [(1, 1), (2, 1)],
      vs_switchport_allowed_vlans := [(1, replicate 512 0), (2, replicate 512 0)],
      vs_switchport_general_untagged := [(1, {1}), (2, {1})], vs_switchport_general_tagged := [(1, {}), (2, {})]\<rparr>"

lemma sample_ok: "device_ok m4300_24x sample_switch"
proof -
  have k: "vs_model_key sample_switch = m_key m4300_24x"
    by (simp add: sample_switch_def mk_virtual_switch_def m4300_24x_def mk_model_def)
  have "get_model (m_key m4300_24x) = Inr m4300_24x" by (rule get_model_registered) (simp add: registered_def)
  moreover have "rows_wf sample_switch" "rows_fit sample_switch" "tables_wf sample_switch"
    by (simp_all add: rows_wf_def rows_fit_def tables_wf_def sample_switch_def mk_virtual_switch_def mk_vlan_sim_def
        vlan_range_def dict_keys_def dict_at_def dict_get_def dict_wf_def vlan_sim_ok_def ports_ok_def)
  moreover have "vendor_wf m4300_24x" by (simp add: vendor_wf_def m4300_24x_def mk_model_def)
  moreover have "lit ''0.0.0.0'' = dots [0, 0, 0, 0]" by (simp add: lit_def show_nat.simps dots.simps)
  then have "indices_ok sample_switch"
    by (auto simp: indices_ok_def sample_switch_def mk_virtual_switch_def dotted_oid_def)
  moreover have "wire_ok sample_switch"
    by (simp add: wire_ok_def sample_switch_def mk_virtual_switch_def mk_vlan_sim_def mk_port_sim_def is_ascii_def lit_def)
  moreover have "seeded m4300_24x sample_switch = sample_switch"
    using ensure_rows_id [of sample_switch]
    by (simp add: seeded_def sample_switch_def mk_virtual_switch_def dict_keys_def has_row_def dict_get_def)
  ultimately show ?thesis by (simp add: device_ok_def mib_wf_def k)
qed

theorem snmp_reads_report_device_witness:
  "snmp_get_pvids agent_client (agent_of m4300_24x sample_switch) = (Inr (reported_pvids sample_switch), agent_of m4300_24x sample_switch)"
  using snmp_reads_report_device [OF sample_ok] by blast

definition sample_snmp_writer :: snmp_writer where
  "sample_snmp_writer = \<lparr>pw_model = m4300_24x, pw_protected_ports = {2}\<rparr>"

lemma sample_facts:
  "is_physical sample_switch 1" "vlan_ids sample_switch = {1, 20}" "switchport_model m4300_24x"
  "snmp_guard sample_snmp_writer 1 False = Inr ()" "pw_model sample_snmp_writer = m4300_24x"
  "state_membership sample_switch 1 = ({}, {1})" "\<forall>(vid, v) \<in> set (vs_vlans sample_switch). 1 \<notin> vl_configured_only v"
  by (auto simp: is_physical_def sample_switch_def dict_get_def mk_port_sim_def vlan_ids_def switchport_model_def
      m4300_24x_def snmp_guard_def sample_snmp_writer_def state_membership_def mk_vlan_sim_def int_consts
      ETHERNET_CSMACD_def split: option.splits if_splits)

text \<open>
  C4. Changing a port's VLAN membership over SNMP, on a model that keeps it in
  switchport rows, does what the request means: the port ends in exactly the VLANs
  the specification gives (\<open>settle\<close> of the \<open>request\<close>, which is stated by the role the port
  is to have in each VLAN and not by the code's sets), no other port moves in any VLAN,
  no VLAN appears or disappears, and the writer's own verification passes. The
  request must be one an access or trunk port can express, and the port one the
  reader shows.
\<close>

theorem switchport_membership_written:
  assumes "device_ok m s" and "snmp_guard W port force = Inr ()" and "switchport_model m" and "pw_model W = m"
    and "1 \<le> port" and "is_physical s port"
    and "\<forall>(vid, v) \<in> set (vs_vlans s). port \<notin> vl_configured_only v"
    and "\<forall>v \<in> vlan_ids s. 1 \<le> v \<and> v \<le> 4096" and "DEFAULT_VLAN \<in> vlan_ids s" and "vlan \<in> vlan_ids s"
    and "expressible (request mode vlan (state_membership s port))"
  shows "\<exists>s'. snmp_set_vlan_membership agent_client W vlan port mode force (agent_of m s) = (Inr (), agent_of m s')
    \<and> state_membership s' port = settle (request mode vlan (state_membership s port))
    \<and> vlan_ids s' = vlan_ids s
    \<and> (\<forall>q. q \<noteq> port \<longrightarrow> state_membership s' q = state_membership s q)"
proof -
  have st: "ag_state (agent_of m s) = s" using assms(1) by (simp add: device_ok_def)
  from agent_rows.membership_set [OF agent_of_serves [OF assms(1)] assms(2-5), unfolded st, OF assms(6-11)]
  show ?thesis using served_agent by metis
qed

theorem switchport_membership_written_witness:
  "\<exists>s'. snmp_set_vlan_membership agent_client sample_snmp_writer 20 1 VlanTagged False (agent_of m4300_24x sample_switch)
        = (Inr (), agent_of m4300_24x s')
    \<and> state_membership s' 1 = ({20}, {1})"
proof -
  have r: "request VlanTagged 20 (state_membership sample_switch 1) = ({20}, {1})"
    by (auto simp: sample_facts request_def requested_role_def role_in_def)
  have "settle ({20}, {1}) = ({20}, {1})" by (simp add: settle_def)
  moreover have "expressible ({20}, {1})" by (simp add: expressible_def)
  ultimately show ?thesis
    using switchport_membership_written [OF sample_ok sample_facts(4,3,5) _ sample_facts(1,7), of 20 VlanTagged]
    by (auto simp: r sample_facts(2) DEFAULT_VLAN_def)
qed

text \<open>
  C6. Writing a PVID over SNMP succeeds exactly where the code means it to: the VLAN
  exists, the port is one the reader shows and is not protected. The device then has
  that PVID and is otherwise as it was, and the agent serves the new state.
\<close>

theorem snmp_pvid_written:
  assumes ok: "device_ok m s" and g: "snmp_guard W port force = Inr ()"
    and v: "vlan \<in> vlan_ids s" "0 \<le> vlan" "vlan \<le> 4294967295" and p: "is_physical s port"
  shows "snmp_set_pvid agent_client W port vlan force (agent_of m s) = (Inr (), agent_of m (with_pvid port vlan s))"
proof -
  have wf: "dict_wf (vs_ports s)" "dict_wf (vs_pvids s)" using ok by (simp_all add: device_ok_def mib_wf_def tables_wf_def)
  have p0: "0 \<le> port"
    using ok p wf(1) by (force simp: is_physical_def device_ok_def mib_wf_def indices_ok_def list_all_iff
        simp flip: dict_get_in split: option.splits)
  let ?s = "with_pvid port vlan s"
  have ok': "device_ok m ?s" by (rule device_ok_with_pvid [OF ok p0 v(2,3)])
  have st: "ag_state (agent_of m s) = s" using ok by (simp add: device_ok_def)
  have "physical_of ?s = physical_of s" by (simp add: physical_of_def with_pvid_def)
  moreover have "(port, vlan) \<in> set (vs_pvids ?s)"
    using dict_get_in [of "vs_pvids ?s" port vlan] wf(2) by (simp add: with_pvid_def)
  ultimately have "(port, vlan) \<in> set (reported_pvids ?s)"
    using physical_seen [OF p wf(1)] by (auto simp: reported_pvids_def)
  then obtain a' where "snmp_set_pvid agent_client W port vlan force (agent_of m s) = (Inr (), a')"
    "agent_serves m a'" "ag_state a' = ?s"
    using agent.pvid_set [OF agent_of_serves [OF ok] g, unfolded st vlan_reported, OF v(1) device_write_pvid [OF ok p0 v(2,3)] ok']
    by blast
  then show ?thesis using served_agent by metis
qed

theorem snmp_pvid_written_witness:
  "snmp_set_pvid agent_client sample_snmp_writer 1 20 False (agent_of m4300_24x sample_switch)
    = (Inr (), agent_of m4300_24x (with_pvid 1 20 sample_switch))"
  by (rule snmp_pvid_written [OF sample_ok sample_facts(4) _ _ _ sample_facts(1)]) (simp_all add: sample_facts(2))

text \<open>
  Enabling or disabling a port over SNMP takes effect and verifies: the device
  has the admin state that was asked for, the link of a disabled port is down, and
  everything else is as it was. Only disabling is guarded by the protected ports.
\<close>

lemma snmp_port_switched:
  assumes ok: "device_ok m s" and g: "enabled \<or> snmp_guard W port force = Inr ()" and p: "is_physical s port"
  shows "snmp_set_port_enabled agent_client W port enabled force (agent_of m s)
    = (Inr (), agent_of m (with_admin port enabled s))"
proof -
  have wf: "dict_wf (vs_ports s)" using ok by (simp add: device_ok_def mib_wf_def tables_wf_def)
  obtain x where x: "dict_get (vs_ports s) port = Some x" "pt_if_type x = ETHERNET_CSMACD"
    using p by (auto simp: is_physical_def split: option.splits)
  then have key: "port \<in> dict_keys (vs_ports s)"
    using dict_get_Some_key [of "vs_ports s" port x] by (simp add: dict_keys_def)
  let ?s = "with_admin port enabled s"
  let ?x = "x\<lparr>pt_admin := enabled, pt_link := enabled \<and> pt_link x\<rparr>"
  have ok': "device_ok m ?s" by (rule device_ok_with_admin [OF ok key])
  have st: "ag_state (agent_of m s) = s" using ok by (simp add: device_ok_def)
  have "dict_get (vs_ports ?s) port = Some ?x" using x by (simp add: with_admin_def dict_at_def)
  then have "find (\<lambda>st. st_port st = port) (reported_ports ?s) = Some (reported_port (port, ?x))"
    using find_reported_port [of ?s port ?x] wf x(2) by (simp add: with_admin_def)
  then have r: "map_option st_admin_enabled (find (\<lambda>st. st_port st = port) (reported_ports ?s)) = Some enabled"
    by (simp add: reported_port_def)
  have "\<not> enabled \<longrightarrow> snmp_guard W port force = Inr ()" using g by blast
  then obtain a' where "snmp_set_port_enabled agent_client W port enabled force (agent_of m s) = (Inr (), a')"
    "agent_serves m a'" "ag_state a' = ?s"
    using agent.port_enabled_set [OF agent_of_serves [OF ok], unfolded st, OF _ device_write_admin [OF ok key] ok' r] by blast
  then show ?thesis using served_agent by metis
qed

lemma snmp_port_switched_witness:
  "snmp_set_port_enabled agent_client sample_snmp_writer 1 False False (agent_of m4300_24x sample_switch)
    = (Inr (), agent_of m4300_24x (with_admin 1 False sample_switch))"
  by (rule snmp_port_switched [OF sample_ok _ sample_facts(1)]) (simp add: sample_facts(4))

end
