(* ===== verification/Snmp_Cycle.thy ===== *)
theory Snmp_Cycle
  imports Snmp_Writer
begin

text \<open>
  The PoE power cycle of the SNMP writer returns. Its loops are bounded by the clock
  alone: what is needed is that no operation turns the clock back and that a pause
  moves it on.
\<close>

section \<open>Operations that do not turn the clock back\<close>

definition forward :: "('w \<Rightarrow> int) \<Rightarrow> ('w, exn, 'a) io \<Rightarrow> bool" where
  "forward now f \<longleftrightarrow> (\<forall>w r w'. f w = (r, w') \<longrightarrow> now w \<le> now w')"

named_theorems forward_intro \<open>operations that keep the clock from going back\<close>

lemma forward_return [forward_intro]: "forward now (io_return x)"
  by (simp add: forward_def)

lemma forward_raise [forward_intro]: "forward now (io_raise e)"
  by (simp add: forward_def)

lemma forward_lift [forward_intro]: "forward now (io_lift r)"
  by (simp add: forward_def)

lemma forward_bind [forward_intro]:
  assumes "forward now f" "\<And>x. forward now (g x)"
  shows "forward now (io_bind f g)"
  unfolding forward_def
proof (intro allI impI)
  fix w r w' assume "io_bind f g w = (r, w')"
  moreover obtain r1 w1 where "f w = (r1, w1)" by fastforce
  ultimately show "now w \<le> now w'"
    using assms by (cases r1) (fastforce simp: forward_def io_bind_def)+
qed

lemma forward_if [forward_intro]: "(c \<Longrightarrow> forward now f) \<Longrightarrow> (\<not> c \<Longrightarrow> forward now g) \<Longrightarrow> forward now (if c then f else g)"
  by simp

definition forward_client :: "('w \<Rightarrow> int) \<Rightarrow> 'w snmp_client \<Rightarrow> bool" where
  "forward_client now cl \<longleftrightarrow>
     (\<forall>oids. forward now (cl_get cl oids)) \<and> (\<forall>base. forward now (cl_walk cl base)) \<and> (\<forall>vbs. forward now (cl_set_many cl vbs))"

lemma forward_client_ops [forward_intro]:
  assumes "forward_client now cl"
  shows "forward now (cl_get cl oids)" "forward now (cl_walk cl base)" "forward now (cl_set_many cl vbs)"
    "forward now (cl_set cl vb)"
  using assms by (simp_all add: forward_client_def cl_set_def)

lemma forward_poe_status: "forward_client now cl \<Longrightarrow> forward now (poe_status_for cl W port)"
  unfolding poe_status_for_def snmp_get_poe_def vendor_walk_def by (intro forward_intro)

lemma forward_port_up: "forward_client now cl \<Longrightarrow> forward now (port_up_for cl port)"
  unfolding port_up_for_def port_status_for_def snmp_get_ports_def by (intro forward_intro)

lemma forward_set_one: "forward_client now cl \<Longrightarrow> forward now (set_one cl oid v letter)"
  unfolding set_one_def by (intro forward_intro)

section \<open>The polls\<close>

lemma poll_returns:
  assumes fin: "forward now finished"
    and clock: "\<And>w t w'. clock w = (Inr t, w') \<Longrightarrow> now w \<le> t \<and> t \<le> now w'"
    and sleep: "\<And>w u w'. sleep w = (Inr u, w') \<Longrightarrow> now w < now w'"
    and expired: "\<And>w. fst (expired w) \<noteq> Inr ()"
  shows "\<exists>r w'. poll_until finished clock sleep expired deadline w = Some (r, w')
    \<and> (r = Inr () \<longrightarrow> (\<exists>w1. finished w1 = (Inr True, w')))"
    (is "?P w")
proof (induction "nat (deadline - now w)" arbitrary: w rule: less_induct)
  case less
  obtain b w1 where f: "finished w = (b, w1)" by fastforce
  obtain t w2 where c: "clock w1 = (t, w2)" by fastforce
  obtain u w3 where s: "sleep w2 = (u, w3)" by fastforce
  obtain x w4 where e: "expired w2 = (x, w4)" "x \<noteq> Inr ()"
    using expired [of w2] by (cases "expired w2") auto
  have again: "\<exists>r w'. poll_until finished clock sleep expired deadline w3 = Some (r, w')
      \<and> (r = Inr () \<longrightarrow> (\<exists>w1. finished w1 = (Inr True, w')))"
    if "b = Inr False" "t = Inr n" "\<not> deadline \<le> n" "u = Inr x" for n x
  proof -
    have "now w \<le> now w1" using fin f by (simp add: forward_def)
    moreover have "now w1 \<le> n" "n \<le> now w2" using clock [of w1 n w2] c that(2) by simp_all
    moreover have "now w2 < now w3" using sleep [of w2 x w3] s that(4) by simp
    ultimately show ?thesis using that(3) by (intro less) linarith
  qed
  show ?case
  proof (cases b)
    case (Inr y)
    then show ?thesis
      using f c s again e
      by (subst poll_until.simps) (cases y; cases t; cases u; auto split: prod.splits)
  qed (use f in \<open>subst poll_until.simps, simp\<close>)
qed

lemma phase_returns:
  assumes "forward now finished"
    and "\<And>w t w'. clock w = (Inr t, w') \<Longrightarrow> now w \<le> t \<and> t \<le> now w'"
    and "\<And>w u w'. sleep w = (Inr u, w') \<Longrightarrow> now w < now w'"
    and "\<And>w. fst (expired w) \<noteq> Inr ()"
  shows "\<exists>r w'. poe_phase set_it clock sleep timeout finished expired w = Some (r, w')
    \<and> (r = Inr () \<longrightarrow> (\<exists>w1. finished w1 = (Inr True, w')))"
proof -
  obtain r w1 where b: "io_bind set_it (\<lambda>_. clock) w = (r, w1)" by fastforce
  show ?thesis
    using poll_returns [OF assms, where w = w1] by (cases r) (auto simp: poe_phase_def b)
qed

lemma rearm_returns:
  assumes cl: "forward_client now cl"
    and clock: "\<And>w t w'. clock w = (Inr t, w') \<Longrightarrow> now w \<le> t \<and> t \<le> now w'"
    and sleep: "\<And>w u w'. sleep (poll_interval T) w = (Inr u, w') \<Longrightarrow> now w < now w'"
  shows "\<exists>r w'. poe_rearm cl W port T sleep clock on_recovered w = Some (r, w')
    \<and> (r = Inr () \<longrightarrow> (\<exists>before w0 w1 st. poe_status_for cl W port w = (Inr before, w0)
        \<and> poe_status_for cl W port w1 = (Inr st, w') \<and> on_recovered before st))"
proof -
  have off: "forward now (io_bind (poe_status_for cl W port) (\<lambda>st.
      io_bind (port_up_for cl port) (\<lambda>up. io_return (poe_is_off st up))))"
    by (intro forward_intro forward_poe_status [OF cl] forward_port_up [OF cl])
  have on: "forward now (io_bind (poe_status_for cl W port) (\<lambda>st. io_return (on_recovered before st)))" for before
    by (intro forward_intro forward_poe_status [OF cl])
  have expired: "fst (rearm_expired cl W port before w) \<noteq> Inr ()" for before w
    by (auto simp: rearm_expired_def io_bind_def split: prod.splits sum.splits)
  have phase: "\<exists>r w'. poe_phase set_it clock (sleep (poll_interval T)) timeout finished (rearm_expired cl W port before) w = Some (r, w')
      \<and> (r = Inr () \<longrightarrow> (\<exists>w1. finished w1 = (Inr True, w')))"
    if "forward now finished" for set_it timeout finished before w
    by (rule phase_returns [OF that _ _ expired]) (use clock sleep in blast)+
  obtain b w1 where b: "poe_status_for cl W port w = (b, w1)" by fastforce
  show ?thesis
  proof (cases b)
    case (Inr before)
    let ?pause = "sleep (poll_interval T)" and ?expired = "rearm_expired cl W port before"
    obtain r2 w2 where o: "poe_phase (set_one cl (poe_admin_oid port) (VInt 2) ''i'') clock ?pause (off_timeout T)
        (io_bind (poe_status_for cl W port) (\<lambda>st.
          io_bind (port_up_for cl port) (\<lambda>up. io_return (poe_is_off st up)))) ?expired w1 = Some (r2, w2)"
      using phase [OF off] by blast
    obtain r3 w3 where n: "poe_phase (set_one cl (poe_admin_oid port) (VInt 1) ''i'') clock ?pause (on_timeout T)
        (io_bind (poe_status_for cl W port) (\<lambda>st. io_return (on_recovered before st))) ?expired w2 = Some (r3, w3)"
      "r3 = Inr () \<longrightarrow> (\<exists>w1. io_bind (poe_status_for cl W port) (\<lambda>st. io_return (on_recovered before st)) w1 = (Inr True, w3))"
      using phase [OF on] by blast
    show ?thesis
      using o n by (cases r2) (auto simp: poe_rearm_def b Inr Let_def res_iff)
  qed (simp add: poe_rearm_def b)
qed

text \<open>
  C9. A PoE power cycle over SNMP always returns, whatever the device does: its polls
  are bounded by the clock. All this needs is that no call turns the clock back, that
  the clock reads the present, and that a pause moves it on. A cycle that reports
  success has read, last of all, a status in which the port has come back.
\<close>

theorem poe_cycle_returns:
  assumes "forward_client now cl"
    and "\<And>w t w'. clock w = (Inr t, w') \<Longrightarrow> now w \<le> t \<and> t \<le> now w'"
    and "\<And>w u w'. sleep (poll_interval T) w = (Inr u, w') \<Longrightarrow> now w < now w'"
    and "snmp_guard W port force = Inr ()"
  shows "\<exists>r w'. snmp_cycle_poe cl W port force T sleep clock w = Some (r, w')
    \<and> (r = Inr () \<longrightarrow> (\<exists>before w0 w1 st. poe_status_for cl W port w = (Inr before, w0)
        \<and> poe_status_for cl W port w1 = (Inr st, w') \<and> poe_cycle_complete before st))"
  using rearm_returns [OF assms(1-3)] by (simp add: snmp_cycle_poe_def assms(4))

definition idle_client :: "int snmp_client" where
  "idle_client = \<lparr>cl_get = \<lambda>_. io_return [], cl_walk = \<lambda>_. io_return [], cl_set_many = \<lambda>_. io_return ()\<rparr>"

definition cycle_writer :: snmp_writer where
  "cycle_writer = \<lparr>pw_model = m4300_16x, pw_protected_ports = {}\<rparr>"

theorem poe_cycle_returns_witness:
  "\<exists>r w'. snmp_cycle_poe idle_client cycle_writer 3 False DEFAULT_POE_TIMEOUTS (\<lambda>n w. (Inr (), w + n)) (\<lambda>w. (Inr w, w)) 0
    = Some (r, w')"
proof -
  have "forward_client (\<lambda>w. w) idle_client" by (simp add: forward_client_def idle_client_def forward_return)
  moreover have "snmp_guard cycle_writer 3 False = Inr ()" by (simp add: snmp_guard_def cycle_writer_def)
  ultimately show ?thesis
    using poe_cycle_returns [where now = "\<lambda>w :: int. w" and cl = idle_client and clock = "\<lambda>w. (Inr w, w)"
        and sleep = "\<lambda>n w. (Inr (), w + n)" and T = DEFAULT_POE_TIMEOUTS and W = cycle_writer and port = 3
        and force = False and w = 0]
    by (fastforce simp: DEFAULT_POE_TIMEOUTS_def)
qed

end
