(* ===== verification/Snmp_Async.thy ===== *)
theory Snmp_Async
  imports Snmp_Writer
begin

text \<open>
  The asynchronous SNMP reader and writer (\<open>AsyncSnmpReader\<close> of \<open>snmp_read.py\<close>,
  \<open>AsyncSnmpWriter\<close> of \<open>snmp_write.py\<close>), which the code writes out a second time:
  each operation is transcribed from its own source. An awaited call runs to its end
  before the operation goes on, so it is a step like any other.
\<close>

section \<open>The reader\<close>

definition async_read_system_info :: "'w snmp_client \<Rightarrow> ('w, exn, detected_model) io" where
  "async_read_system_info cl = io_bind (cl_get cl [SYS_DESCR, SYS_OBJECT_ID]) (\<lambda>rows. io_lift (detected_model_of rows))"

definition async_snmp_get_ports :: "'w snmp_client \<Rightarrow> ('w, exn, port_status list) io" where
  "async_snmp_get_ports cl =
     io_bind (cl_walk cl IF_ADMIN_STATUS) (\<lambda>admin.
     io_bind (cl_walk cl IF_OPER_STATUS) (\<lambda>oper.
     io_bind (cl_walk cl IF_HIGH_SPEED) (\<lambda>speed.
     io_bind (cl_walk cl IF_NAME) (\<lambda>names.
     io_bind (cl_walk cl IF_ALIAS) (\<lambda>aliases.
     io_bind (cl_walk cl IF_TYPE) (\<lambda>if_types.
     io_bind (cl_walk cl DOT3_STATS_DUPLEX_STATUS) (\<lambda>duplex.
     io_bind (cl_walk cl DOT3_PAUSE_OPER_MODE) (\<lambda>pause.
       io_lift (parse_port_status admin oper speed names aliases if_types duplex pause)))))))))"

definition async_snmp_get_stats :: "'w snmp_client \<Rightarrow> ('w, exn, port_stats list) io" where
  "async_snmp_get_stats cl =
     io_bind (cl_walk cl IF_HC_IN_OCTETS) (\<lambda>in_octets.
     io_bind (cl_walk cl IF_HC_OUT_OCTETS) (\<lambda>out_octets.
     io_bind (cl_walk cl IF_HC_IN_UCAST) (\<lambda>in_ucast.
     io_bind (cl_walk cl IF_HC_OUT_UCAST) (\<lambda>out_ucast.
     io_bind (cl_walk cl IF_IN_ERRORS) (\<lambda>in_errors.
     io_bind (cl_walk cl IF_OUT_ERRORS) (\<lambda>out_errors.
     io_bind (cl_walk cl IF_TYPE) (\<lambda>if_types.
       io_lift (parse_port_stats in_octets out_octets in_ucast out_ucast in_errors out_errors if_types))))))))"

definition async_snmp_get_vlans :: "'w snmp_client \<Rightarrow> ('w, exn, vlan_info list) io" where
  "async_snmp_get_vlans cl =
     io_bind (cl_walk cl DOT1Q_VLAN_STATIC_NAME) (\<lambda>names.
     io_bind (cl_walk cl DOT1Q_VLAN_STATIC_EGRESS) (\<lambda>egress.
     io_bind (cl_walk cl DOT1Q_VLAN_STATIC_UNTAGGED) (\<lambda>untagged.
     io_bind (cl_walk cl IF_TYPE) (\<lambda>if_types.
     io_bind (cl_walk cl DOT1Q_VLAN_CURRENT_EGRESS) (\<lambda>current_egress.
     io_bind (cl_walk cl DOT1Q_VLAN_CURRENT_UNTAGGED) (\<lambda>current_untagged.
       io_lift (parse_vlans names egress untagged if_types current_egress current_untagged)))))))"

definition async_snmp_get_pvids :: "'w snmp_client \<Rightarrow> ('w, exn, (int \<times> int) list) io" where
  "async_snmp_get_pvids cl =
     io_bind (cl_walk cl DOT1Q_PVID) (\<lambda>rows.
     io_bind (cl_walk cl IF_TYPE) (\<lambda>if_types. io_lift (parse_pvids rows if_types)))"

definition async_snmp_get_lldp :: "'w snmp_client \<Rightarrow> ('w, exn, lldp_neighbor list) io" where
  "async_snmp_get_lldp cl = io_bind (cl_walk cl LLDP_REM_TABLE) (\<lambda>rows. io_lift (parse_lldp rows))"

definition async_snmp_get_macs :: "'w snmp_client \<Rightarrow> ('w, exn, mac_entry list) io" where
  "async_snmp_get_macs cl =
     io_bind (cl_walk cl DOT1Q_TP_FDB_PORT) (\<lambda>fdb.
     io_bind (cl_walk cl DOT1D_BASE_PORT_IF_INDEX) (\<lambda>bridge_ports. io_lift (parse_macs fdb bridge_ports)))"

definition async_vendor_walk ::
    "'w snmp_client \<Rightarrow> switch_model \<Rightarrow> (vendor_oids \<Rightarrow> ustr) \<Rightarrow> ('w, exn, snmp_row list) io" where
  "async_vendor_walk cl model column =
     (if has_vendor_oids model
      then io_bind (io_lift (vendor_oids_of model)) (\<lambda>v. cl_walk cl (column v))
      else io_return [])"

definition async_snmp_get_poe :: "'w snmp_client \<Rightarrow> switch_model \<Rightarrow> ('w, exn, poe_status list) io" where
  "async_snmp_get_poe cl model =
     (if m_poe_port_count model = 0 then io_raise UnsupportedCapabilityError
      else
        io_bind (async_vendor_walk cl model vo_poe_power_mw) (\<lambda>power.
        io_bind (cl_walk cl PETH_PSE_PORT_ADMIN) (\<lambda>admin.
        io_bind (cl_walk cl PETH_PSE_PORT_DETECT) (\<lambda>detect.
          io_lift (parse_poe (admin @ detect) power)))))"

definition async_snmp_get_sensors :: "'w snmp_client \<Rightarrow> switch_model \<Rightarrow> ('w, exn, sensor list) io" where
  "async_snmp_get_sensors cl model =
     (if \<not> has_vendor_oids model then
        io_bind (cl_walk cl ENT_PHYSICAL_CLASS) (\<lambda>classes.
        io_bind (cl_walk cl ENT_PHYSICAL_NAME) (\<lambda>names.
        io_bind (cl_walk cl ENT_PHYSICAL_DESCR) (\<lambda>descrs.
          io_lift (parse_entity_sensors classes names descrs))))
      else
        io_bind (io_lift (vendor_oids_of model)) (\<lambda>v.
        io_bind (cl_walk cl (vo_box_fan v)) (\<lambda>fan.
        io_bind (cl_walk cl (vo_box_psu_power v)) (\<lambda>power.
        io_bind (cl_walk cl (vo_box_temp v)) (\<lambda>temp.
          if fan = [] \<and> power = [] \<and> temp = [] then io_raise UnsupportedCapabilityError
          else io_lift (parse_box_sensors
            [(lit ''fan'', lit ''RPM'', fan), (lit ''power'', lit ''W'', power),
             (lit ''temperature'', lit ''C'', temp)]))))))"

definition async_snmp_get_mgmt_ip :: "'w snmp_client \<Rightarrow> switch_model \<Rightarrow> ('w, exn, mgmt_ip_config) io" where
  "async_snmp_get_mgmt_ip cl model =
     io_bind (async_vendor_walk cl model vo_dhcp_mode_unverified) (\<lambda>dhcp.
     io_bind (cl_walk cl IP_ADENT_ADDR) (\<lambda>addr.
     io_bind (cl_walk cl IP_ADENT_NETMASK) (\<lambda>netmask.
     io_bind (cl_walk cl IP_ROUTE_DEST) (\<lambda>route_dest.
     io_bind (cl_walk cl IP_ROUTE_NEXTHOP) (\<lambda>route_nexthop.
     io_bind (cl_walk cl DOT1D_BASE_BRIDGE_ADDRESS) (\<lambda>base_mac.
     io_bind (cl_walk cl IP_ADDRESS_IFINDEX) (\<lambda>addr_rfc4293.
       io_lift (parse_mgmt_ip addr netmask route_dest route_nexthop dhcp base_mac addr_rfc4293))))))))"

definition async_snmp_get_hostname :: "'w snmp_client \<Rightarrow> ('w, exn, ustr) io" where
  "async_snmp_get_hostname cl = io_bind (cl_get cl [SYS_NAME]) (\<lambda>rows. io_lift (parse_hostname rows))"

definition async_snmp_get_syslog :: "'w snmp_client \<Rightarrow> switch_model \<Rightarrow> ('w, exn, syslog_config) io" where
  "async_snmp_get_syslog cl model =
     (if \<not> has_vendor_oids model then io_raise UnsupportedCapabilityError
      else
        io_bind (io_lift (vendor_oids_of model)) (\<lambda>vo.
        io_bind (cl_get cl [vo_syslog_admin_mode vo]) (\<lambda>admin_mode.
        io_bind (cl_get cl [vo_syslog_local_port vo]) (\<lambda>local_port.
        io_bind (cl_walk cl (vo_syslog_host_addr vo)) (\<lambda>host_addr.
        io_bind (cl_walk cl (vo_syslog_host_port vo)) (\<lambda>host_port.
        io_bind (cl_walk cl (vo_syslog_host_severity vo)) (\<lambda>host_severity.
        io_bind (cl_walk cl (vo_syslog_host_status vo)) (\<lambda>host_status.
          io_lift (parse_syslog admin_mode local_port host_addr host_port host_severity host_status
            (vo_syslog_host_addr vo) (vo_syslog_host_port vo) (vo_syslog_host_severity vo)
            (vo_syslog_host_status vo))))))))))"

definition async_snmp_get_system_info :: "'w snmp_client \<Rightarrow> ('w, exn, detected_model) io" where
  "async_snmp_get_system_info cl = async_read_system_info cl"

definition async_snmp_get_users :: "('w, exn, 'a list) io" where
  "async_snmp_get_users = io_raise UnsupportedCapabilityError"

definition async_snmp_get_services :: "('w, exn, 'a list) io" where
  "async_snmp_get_services = io_raise UnsupportedCapabilityError"

section \<open>The writer\<close>

definition mk_async_snmp_writer :: "switch_model \<Rightarrow> int set \<Rightarrow> snmp_writer py" where
  "mk_async_snmp_writer model protected_ports =
     res_bind (snmp_require model) (\<lambda>_. Inr \<lparr>pw_model = model, pw_protected_ports = protected_ports\<rparr>)"

definition async_snmp_guard :: "snmp_writer \<Rightarrow> int \<Rightarrow> bool \<Rightarrow> unit py" where
  "async_snmp_guard W port force =
     (if port \<in> pw_protected_ports W \<and> \<not> force then Inl ProtectedPortError else Inr ())"

definition async_poe_status_for :: "'w snmp_client \<Rightarrow> snmp_writer \<Rightarrow> int \<Rightarrow> ('w, exn, poe_status option) io" where
  "async_poe_status_for cl W port =
     io_bind (async_snmp_get_poe cl (pw_model W)) (\<lambda>ps. io_return (find (\<lambda>p. poe_port p = port) ps))"

definition async_port_status_for :: "'w snmp_client \<Rightarrow> int \<Rightarrow> ('w, exn, port_status option) io" where
  "async_port_status_for cl port =
     io_bind (async_snmp_get_ports cl) (\<lambda>ps. io_return (find (\<lambda>p. st_port p = port) ps))"

definition async_vlan_for :: "'w snmp_client \<Rightarrow> int \<Rightarrow> ('w, exn, vlan_info option) io" where
  "async_vlan_for cl vlan =
     io_bind (async_snmp_get_vlans cl) (\<lambda>vs. io_return (find (\<lambda>v. vi_vlan_id v = vlan) vs))"

definition async_raw_bitmap :: "'w snmp_client \<Rightarrow> ustr \<Rightarrow> int \<Rightarrow> ('w, exn, bytes option) io" where
  "async_raw_bitmap cl base vlan =
     io_bind (cl_walk cl base) (\<lambda>rows.
       io_return (first_raw (\<lambda>row. ends_with (sr_oid row) (46 # show_int vlan)) rows))"

definition async_physical_for :: "'w snmp_client \<Rightarrow> ('w, exn, int set option) io" where
  "async_physical_for cl = io_bind (cl_walk cl IF_TYPE) (\<lambda>rows. io_lift (physical_ports rows))"

definition async_set_one :: "'w snmp_client \<Rightarrow> ustr \<Rightarrow> snmp_value \<Rightarrow> string \<Rightarrow> ('w, exn, unit) io" where
  "async_set_one cl oid v letter = io_bind (io_lift (mk_set_varbind oid v letter)) (cl_set cl)"

definition async_snmp_set_poe ::
    "'w snmp_client \<Rightarrow> snmp_writer \<Rightarrow> int \<Rightarrow> bool \<Rightarrow> bool \<Rightarrow> ('w, exn, unit) io" where
  "async_snmp_set_poe cl W port on force =
     io_bind (io_lift (if \<not> on then async_snmp_guard W port force else Inr ())) (\<lambda>_.
     io_bind (async_poe_status_for cl W port) (\<lambda>before.
     io_bind (async_set_one cl (poe_admin_oid port) (VInt (if on then 1 else 2)) ''i'') (\<lambda>_.
     io_bind (async_poe_status_for cl W port) (\<lambda>after.
       io_when_raise (map_option poe_admin_enabled after \<noteq> Some on)
         (WriteVerificationError (ev_poe before) (ev_poe after))))))"

definition async_port_up_for :: "'w snmp_client \<Rightarrow> int \<Rightarrow> ('w, exn, bool) io" where
  "async_port_up_for cl port =
     io_bind (async_port_status_for cl port) (\<lambda>st.
       io_return (case st of None \<Rightarrow> False | Some p \<Rightarrow> st_link_up p))"

definition async_rearm_expired ::
    "'w snmp_client \<Rightarrow> snmp_writer \<Rightarrow> int \<Rightarrow> poe_status option \<Rightarrow> ('w, exn, unit) io" where
  "async_rearm_expired cl W port before =
     io_bind (async_poe_status_for cl W port) (\<lambda>after. io_raise (WriteVerificationError (ev_poe before) (ev_poe after)))"

definition async_poe_rearm ::
    "'w snmp_client \<Rightarrow> snmp_writer \<Rightarrow> int \<Rightarrow> poe_cycle_timeouts \<Rightarrow> (int \<Rightarrow> ('w, exn, unit) io) \<Rightarrow> ('w, exn, int) io
      \<Rightarrow> (poe_status option \<Rightarrow> poe_status option \<Rightarrow> bool) \<Rightarrow> 'w \<Rightarrow> ((exn, unit) res \<times> 'w) option" where
  "async_poe_rearm cl W port timeouts sleep clock on_recovered w =
     (case async_poe_status_for cl W port w of
        (Inl e, w1) \<Rightarrow> Some (Inl e, w1)
      | (Inr before, w1) \<Rightarrow>
          let pause = sleep (poll_interval timeouts); expired = async_rearm_expired cl W port before in
          (case poe_phase (async_set_one cl (poe_admin_oid port) (VInt 2) ''i'') clock pause (off_timeout timeouts)
                  (io_bind (async_poe_status_for cl W port) (\<lambda>st.
                   io_bind (async_port_up_for cl port) (\<lambda>up. io_return (poe_is_off st up)))) expired w1 of
             None \<Rightarrow> None
           | Some (Inl e, w2) \<Rightarrow> Some (Inl e, w2)
           | Some (Inr _, w2) \<Rightarrow>
               poe_phase (async_set_one cl (poe_admin_oid port) (VInt 1) ''i'') clock pause (on_timeout timeouts)
                 (io_bind (async_poe_status_for cl W port) (\<lambda>st. io_return (on_recovered before st))) expired w2))"

definition async_snmp_cycle_poe ::
    "'w snmp_client \<Rightarrow> snmp_writer \<Rightarrow> int \<Rightarrow> bool \<Rightarrow> poe_cycle_timeouts \<Rightarrow> (int \<Rightarrow> ('w, exn, unit) io)
      \<Rightarrow> ('w, exn, int) io \<Rightarrow> 'w \<Rightarrow> ((exn, unit) res \<times> 'w) option" where
  "async_snmp_cycle_poe cl W port force timeouts sleep clock w =
     (case async_snmp_guard W port force of
        Inl e \<Rightarrow> Some (Inl e, w)
      | Inr _ \<Rightarrow> async_poe_rearm cl W port timeouts sleep clock poe_cycle_complete w)"

definition async_snmp_clear_poe_fault ::
    "'w snmp_client \<Rightarrow> snmp_writer \<Rightarrow> int \<Rightarrow> bool \<Rightarrow> poe_cycle_timeouts \<Rightarrow> (int \<Rightarrow> ('w, exn, unit) io)
      \<Rightarrow> ('w, exn, int) io \<Rightarrow> 'w \<Rightarrow> ((exn, unit) res \<times> 'w) option" where
  "async_snmp_clear_poe_fault cl W port force timeouts sleep clock w =
     (case async_snmp_guard W port force of
        Inl e \<Rightarrow> Some (Inl e, w)
      | Inr _ \<Rightarrow> async_poe_rearm cl W port timeouts sleep clock poe_recovered w)"

definition async_snmp_set_port_enabled ::
    "'w snmp_client \<Rightarrow> snmp_writer \<Rightarrow> int \<Rightarrow> bool \<Rightarrow> bool \<Rightarrow> ('w, exn, unit) io" where
  "async_snmp_set_port_enabled cl W port enabled force =
     io_bind (io_lift (if \<not> enabled then async_snmp_guard W port force else Inr ())) (\<lambda>_.
     io_bind (async_port_status_for cl port) (\<lambda>before.
     io_bind (async_set_one cl (col IF_ADMIN_STATUS port) (VInt (if enabled then 1 else 2)) ''i'') (\<lambda>_.
     io_bind (async_port_status_for cl port) (\<lambda>after.
       io_when_raise (map_option st_admin_enabled after \<noteq> Some enabled)
         (WriteVerificationError (ev_port before) (ev_port after))))))"

definition async_snmp_set_port_description ::
    "'w snmp_client \<Rightarrow> snmp_writer \<Rightarrow> int \<Rightarrow> ustr \<Rightarrow> bool \<Rightarrow> ('w, exn, unit) io" where
  "async_snmp_set_port_description cl W port description force =
     io_bind (io_lift (async_snmp_guard W port force)) (\<lambda>_.
     io_bind (async_port_status_for cl port) (\<lambda>before.
     io_bind (async_set_one cl (col IF_ALIAS port) (VOct (Text description)) ''s'') (\<lambda>_.
     io_bind (async_port_status_for cl port) (\<lambda>after.
       let want = opt_or_none (Some description) in
       io_when_raise (map_option st_description after \<noteq> Some want)
         (WriteVerificationError (ev_description before) (ev_description after))))))"

definition async_snmp_set_pvid ::
    "'w snmp_client \<Rightarrow> snmp_writer \<Rightarrow> int \<Rightarrow> int \<Rightarrow> bool \<Rightarrow> ('w, exn, unit) io" where
  "async_snmp_set_pvid cl W port vlan force =
     io_bind (io_lift (async_snmp_guard W port force)) (\<lambda>_.
     io_bind (async_snmp_get_vlans cl) (\<lambda>vs.
     if \<not> list_ex (\<lambda>v. vi_vlan_id v = vlan) vs then io_raise (SnmpError (SnmpNoVlan vlan))
     else
       io_bind (async_snmp_get_pvids cl) (\<lambda>before.
       io_bind (async_set_one cl (col DOT1Q_PVID port) (VInt vlan) ''u'') (\<lambda>_.
       io_bind (async_snmp_get_pvids cl) (\<lambda>after.
         io_when_raise ((port, vlan) \<notin> set after)
           (WriteVerificationError (EvPairs before) (EvPairs after)))))))"

definition async_switchport_vlan_bitmap :: "'w snmp_client \<Rightarrow> ustr \<Rightarrow> int \<Rightarrow> ('w, exn, bytes) io" where
  "async_switchport_vlan_bitmap cl base port =
     io_bind (cl_get cl [col base port]) (\<lambda>rows. io_return (first_raw_or_zeros rows))"

definition async_switchport_mode_of :: "'w snmp_client \<Rightarrow> int \<Rightarrow> ('w, exn, int option) io" where
  "async_switchport_mode_of cl port =
     io_bind (cl_get cl [col FASTPATH_SWITCHPORT_MODE port]) (\<lambda>rows. io_return (first_int rows))"

fun async_set_each :: "'w snmp_client \<Rightarrow> set_varbind list \<Rightarrow> ('w, exn, unit) io" where
  "async_set_each cl [] = io_return ()"
| "async_set_each cl (vb # vbs) = io_bind (cl_set cl vb) (\<lambda>_. async_set_each cl vbs)"

definition async_set_vlan_switchport ::
    "'w snmp_client \<Rightarrow> int \<Rightarrow> int \<Rightarrow> vlan_mode \<Rightarrow> vlan_info \<Rightarrow> vlan_info list \<Rightarrow> ('w, exn, unit) io" where
  "async_set_vlan_switchport cl vlan port mode before vlans =
     (let (current_tagged, current_untagged) = port_membership vlans port in
      io_bind (async_switchport_mode_of cl port) (\<lambda>current_mode.
      io_bind (async_switchport_vlan_bitmap cl FASTPATH_SWITCHPORT_ALLOWED_VLANS port) (\<lambda>current_allowed.
      io_bind (io_lift (plan_switchport_membership vlan port mode current_mode current_allowed
                 current_tagged current_untagged (set (map vi_vlan_id vlans)))) (\<lambda>plan.
      io_bind (async_set_each cl (sp_varbinds plan)) (\<lambda>_.
      io_bind (async_snmp_get_vlans cl) (\<lambda>after.
        case switchport_divergence plan vlan port after of
          None \<Rightarrow> io_return ()
        | Some problem \<Rightarrow>
            io_bind (async_vlan_for cl vlan) (\<lambda>v.
              io_raise (WriteVerificationError (ev_vlan (Some before)) (ev_vlan v)))))))))"

definition async_set_vlan_qbridge ::
    "'w snmp_client \<Rightarrow> snmp_writer \<Rightarrow> int \<Rightarrow> int \<Rightarrow> vlan_mode \<Rightarrow> vlan_info \<Rightarrow> ('w, exn, unit) io" where
  "async_set_vlan_qbridge cl W vlan port mode before =
     io_bind (async_raw_bitmap cl DOT1Q_VLAN_STATIC_EGRESS vlan) (\<lambda>raw_egress.
     io_bind (async_raw_bitmap cl DOT1Q_VLAN_STATIC_UNTAGGED vlan) (\<lambda>raw_untagged.
     io_bind (io_lift (octets_or_encoded raw_egress (vi_member_ports before))) (\<lambda>egress.
     io_bind (io_lift (octets_or_encoded raw_untagged (vi_untagged_ports before))) (\<lambda>untagged.
     io_bind (io_lift (membership_bitmaps mode port egress untagged
                (Some (vlan_bitmap_width (pw_model W))))) (\<lambda>(new_egress, new_untagged).
     io_bind (io_lift (mk_set_varbind (col DOT1Q_VLAN_STATIC_EGRESS vlan) (VOct (Raw new_egress)) ''x'')) (\<lambda>egress_vb.
     io_bind (io_lift (mk_set_varbind (col DOT1Q_VLAN_STATIC_UNTAGGED vlan) (VOct (Raw new_untagged)) ''x'')) (\<lambda>untagged_vb.
     io_bind (if m_snmp_split_writes (pw_model W)
              then io_bind (cl_set cl egress_vb) (\<lambda>_. cl_set cl untagged_vb)
              else cl_set_many cl [egress_vb, untagged_vb]) (\<lambda>_.
     io_bind (async_vlan_for cl vlan) (\<lambda>after.
     io_bind (async_physical_for cl) (\<lambda>keep.
     io_bind (io_lift (decode_port_bitmap (Raw new_egress))) (\<lambda>sent_egress.
     io_bind (io_lift (decode_port_bitmap (Raw new_untagged))) (\<lambda>sent_untagged.
       io_when_raise
         (case after of
            None \<Rightarrow> True
          | Some v \<Rightarrow> vi_member_ports v \<noteq> keep_physical keep sent_egress
                      \<or> vi_untagged_ports v \<noteq> keep_physical keep sent_untagged)
         (WriteVerificationError (ev_vlan (Some before)) (ev_vlan after))))))))))))))"

definition async_snmp_set_vlan_membership ::
    "'w snmp_client \<Rightarrow> snmp_writer \<Rightarrow> int \<Rightarrow> int \<Rightarrow> vlan_mode \<Rightarrow> bool \<Rightarrow> ('w, exn, unit) io" where
  "async_snmp_set_vlan_membership cl W vlan port mode force =
     io_bind (io_lift (async_snmp_guard W port force)) (\<lambda>_.
     io_bind (async_snmp_get_vlans cl) (\<lambda>vlans.
     case find (\<lambda>v. vi_vlan_id v = vlan) vlans of
       None \<Rightarrow> io_raise (SnmpError (SnmpNoVlan vlan))
     | Some before \<Rightarrow>
         if m_snmp_vlan_write (pw_model W) = ''fastpath_switchport''
         then async_set_vlan_switchport cl vlan port mode before vlans
         else async_set_vlan_qbridge cl W vlan port mode before))"

definition async_snmp_create_vlan ::
    "'w snmp_client \<Rightarrow> snmp_writer \<Rightarrow> int \<Rightarrow> ustr \<Rightarrow> bool \<Rightarrow> ('w, exn, unit) io" where
  "async_snmp_create_vlan cl W vlan name force =
     io_bind (io_lift (require_snmp_vlan_creation (pw_model W))) (\<lambda>_.
     io_bind (async_vlan_for cl vlan) (\<lambda>before.
     io_bind (io_lift (mk_set_varbind (col DOT1Q_VLAN_STATIC_ROW_STATUS vlan) (VInt ROW_STATUS_CREATE_AND_GO) ''i'')) (\<lambda>row_vb.
     io_bind (io_lift (mk_set_varbind (col DOT1Q_VLAN_STATIC_NAME vlan) (VOct (Text name)) ''s'')) (\<lambda>name_vb.
     io_bind (cl_set_many cl [row_vb, name_vb]) (\<lambda>_.
     io_bind (async_vlan_for cl vlan) (\<lambda>after.
       io_when_raise
         (case after of None \<Rightarrow> True
          | Some v \<Rightarrow> (case vi_name v of Some n \<Rightarrow> n | None \<Rightarrow> []) \<noteq> name)
         (WriteVerificationError (ev_vlan before) (ev_vlan after))))))))"

definition async_snmp_delete_vlan ::
    "'w snmp_client \<Rightarrow> snmp_writer \<Rightarrow> int \<Rightarrow> bool \<Rightarrow> ('w, exn, unit) io" where
  "async_snmp_delete_vlan cl W vlan force =
     io_bind (async_vlan_for cl vlan) (\<lambda>before.
     case before of
       None \<Rightarrow> io_raise (SnmpError (SnmpNoVlan vlan))
     | Some v \<Rightarrow>
         if \<not> force \<and> vi_member_ports v \<inter> pw_protected_ports W \<noteq> {} then io_raise ProtectedPortError
         else
           io_bind (async_set_one cl (col DOT1Q_VLAN_STATIC_ROW_STATUS vlan) (VInt ROW_STATUS_DESTROY) ''i'') (\<lambda>_.
           io_bind (async_vlan_for cl vlan) (\<lambda>after.
             io_when_raise (after \<noteq> None) (WriteVerificationError (ev_vlan before) (ev_vlan after)))))"

definition async_snmp_set_port_speed :: "int \<Rightarrow> port_speed \<Rightarrow> bool \<Rightarrow> ('w, exn, unit) io" where
  "async_snmp_set_port_speed port speed force = io_raise UnsupportedCapabilityError"

definition async_snmp_set_flow_control :: "int \<Rightarrow> bool \<Rightarrow> bool \<Rightarrow> ('w, exn, unit) io" where
  "async_snmp_set_flow_control port enabled force = io_raise UnsupportedCapabilityError"

definition async_snmp_add_syslog_collector :: "ustr \<Rightarrow> int \<Rightarrow> int \<Rightarrow> bool \<Rightarrow> ('w, exn, unit) io" where
  "async_snmp_add_syslog_collector host port severity force = io_raise UnsupportedCapabilityError"

definition async_snmp_remove_syslog_collector ::
    "'w snmp_client \<Rightarrow> snmp_writer \<Rightarrow> ustr \<Rightarrow> bool \<Rightarrow> ('w, exn, unit) io" where
  "async_snmp_remove_syslog_collector cl W host force =
     io_bind (io_lift (snmp_require (pw_model W))) (\<lambda>_.
     if \<not> has_vendor_oids (pw_model W) then io_raise UnsupportedCapabilityError
     else
       io_bind (async_snmp_get_syslog cl (pw_model W)) (\<lambda>before.
       case find (\<lambda>s. sl_host s = host) (sg_servers before) of
         None \<Rightarrow> io_raise (SnmpError SnmpNoCollector)
       | Some row \<Rightarrow>
           (case sl_index row of
              None \<Rightarrow> io_raise (SnmpError SnmpNoCollector)
            | Some index \<Rightarrow>
                io_bind (io_lift (vendor_oids_of (pw_model W))) (\<lambda>vo.
                io_bind (async_set_one cl (col (vo_syslog_host_status vo) index) (VOct (Text ROW_DESTROY)) ''i'') (\<lambda>_.
                io_bind (async_snmp_get_syslog cl (pw_model W)) (\<lambda>after.
                  io_when_raise (list_ex (\<lambda>s. sl_host s = host) (sg_servers after))
                    (WriteVerificationError (ev_servers before) (ev_servers after))))))))"

definition async_snmp_set_syslog_enabled ::
    "'w snmp_client \<Rightarrow> snmp_writer \<Rightarrow> bool \<Rightarrow> bool \<Rightarrow> ('w, exn, unit) io" where
  "async_snmp_set_syslog_enabled cl W enabled force =
     (if \<not> has_vendor_oids (pw_model W) then io_raise UnsupportedCapabilityError
      else
        io_bind (io_lift (vendor_oids_of (pw_model W))) (\<lambda>vo.
        io_bind (async_snmp_get_syslog cl (pw_model W)) (\<lambda>before.
        io_bind (io_lift (mk_set_varbind (vo_syslog_admin_mode vo) (VInt (if enabled then 1 else 2)) ''i'')) (\<lambda>vb.
        io_bind (cl_set_many cl [vb]) (\<lambda>_.
        io_bind (async_snmp_get_syslog cl (pw_model W)) (\<lambda>after.
          io_when_raise (sg_enabled after \<noteq> enabled)
            (WriteVerificationError (EvState 0 (sg_enabled before)) (EvState 0 (sg_enabled after)))))))))"

definition async_snmp_set_hostname ::
    "'w snmp_client \<Rightarrow> snmp_writer \<Rightarrow> ustr \<Rightarrow> bool \<Rightarrow> ('w, exn, unit) io" where
  "async_snmp_set_hostname cl W name force =
     io_bind (async_snmp_get_hostname cl) (\<lambda>before.
     io_bind (io_lift (mk_set_varbind SYS_NAME (VOct (Text name)) ''s'')) (\<lambda>vb.
     io_bind (cl_set_many cl [vb]) (\<lambda>_.
     io_bind (async_snmp_get_hostname cl) (\<lambda>after.
       io_when_raise (after \<noteq> name) (WriteVerificationError (EvText before) (EvText after))))))"

definition async_snmp_set_mgmt_ip ::
    "'w snmp_client \<Rightarrow> snmp_writer \<Rightarrow> ustr \<Rightarrow> ustr \<Rightarrow> ustr \<Rightarrow> bool \<Rightarrow> ('w, exn, unit) io" where
  "async_snmp_set_mgmt_ip cl W address netmask gateway force =
     (if \<not> force then io_raise ProtectedPortError
      else
        io_bind (io_lift (vendor_oids_of (pw_model W))) (\<lambda>vo.
        io_bind (async_snmp_get_mgmt_ip cl (pw_model W)) (\<lambda>before.
        io_bind (io_lift (mk_set_varbind (vo_mgmt_write_addr_unverified vo) (VOct (Text address)) ''a'')) (\<lambda>a.
        io_bind (io_lift (mk_set_varbind (vo_mgmt_write_netmask_unverified vo) (VOct (Text netmask)) ''a'')) (\<lambda>n.
        io_bind (io_lift (mk_set_varbind (vo_mgmt_write_gateway_unverified vo) (VOct (Text gateway)) ''a'')) (\<lambda>g.
        io_bind (cl_set_many cl [a, n, g]) (\<lambda>_.
        io_bind (async_snmp_get_mgmt_ip cl (pw_model W)) (\<lambda>after.
          io_when_raise
            (ip_address after \<noteq> Some address \<or> ip_netmask after \<noteq> Some netmask \<or> ip_gateway after \<noteq> Some gateway)
            (WriteVerificationError (ev_mgmt before) (ev_mgmt after))))))))))"

section \<open>Both do the same\<close>

lemma async_read_helpers:
  "async_read_system_info = read_system_info" "async_vendor_walk = vendor_walk" "async_set_one = set_one"
  by (simp_all add: fun_eq_iff async_read_system_info_def read_system_info_def async_vendor_walk_def vendor_walk_def
      async_set_one_def set_one_def)

lemma async_reads:
  "async_snmp_get_ports = snmp_get_ports" "async_snmp_get_stats = snmp_get_stats" "async_snmp_get_vlans = snmp_get_vlans"
  "async_snmp_get_pvids = snmp_get_pvids" "async_snmp_get_lldp = snmp_get_lldp" "async_snmp_get_macs = snmp_get_macs"
  "async_snmp_get_poe = snmp_get_poe" "async_snmp_get_sensors = snmp_get_sensors" "async_snmp_get_mgmt_ip = snmp_get_mgmt_ip"
  "async_snmp_get_hostname = snmp_get_hostname" "async_snmp_get_syslog = snmp_get_syslog"
  "async_snmp_get_system_info = snmp_get_system_info"
  unfolding fun_eq_iff async_snmp_get_ports_def async_snmp_get_stats_def async_snmp_get_vlans_def async_snmp_get_pvids_def
    async_snmp_get_lldp_def async_snmp_get_macs_def async_snmp_get_poe_def async_snmp_get_sensors_def
    async_snmp_get_mgmt_ip_def async_snmp_get_hostname_def async_snmp_get_syslog_def async_snmp_get_system_info_def
    snmp_get_ports_def snmp_get_stats_def snmp_get_vlans_def snmp_get_pvids_def snmp_get_lldp_def snmp_get_macs_def
    snmp_get_poe_def snmp_get_sensors_def snmp_get_mgmt_ip_def snmp_get_hostname_def snmp_get_syslog_def
    snmp_get_system_info_def async_read_helpers
  by simp_all

lemma async_write_helpers:
  "async_snmp_guard = snmp_guard" "async_poe_status_for = poe_status_for" "async_port_status_for = port_status_for"
  "async_vlan_for = vlan_for" "async_raw_bitmap = raw_bitmap" "async_physical_for = physical_for"
  "async_switchport_vlan_bitmap = switchport_vlan_bitmap" "async_switchport_mode_of = switchport_mode_of"
  unfolding fun_eq_iff async_snmp_guard_def snmp_guard_def async_poe_status_for_def poe_status_for_def
    async_port_status_for_def port_status_for_def async_vlan_for_def vlan_for_def async_raw_bitmap_def raw_bitmap_def
    async_physical_for_def physical_for_def async_switchport_vlan_bitmap_def switchport_vlan_bitmap_def
    async_switchport_mode_of_def switchport_mode_of_def async_reads
  by simp_all

lemma async_poe_helpers:
  "async_port_up_for = port_up_for" "async_rearm_expired = rearm_expired"
  unfolding fun_eq_iff async_port_up_for_def port_up_for_def async_rearm_expired_def rearm_expired_def async_write_helpers
  by simp_all

lemma async_poe_rearm: "async_poe_rearm = poe_rearm"
  unfolding fun_eq_iff async_poe_rearm_def poe_rearm_def async_write_helpers async_poe_helpers async_read_helpers by simp

lemma async_set_each: "async_set_each cl vbs = set_each cl vbs"
  by (induction vbs) simp_all

lemma async_vlan_helpers:
  "async_set_vlan_switchport = set_vlan_switchport" "async_set_vlan_qbridge = set_vlan_qbridge"
  unfolding fun_eq_iff async_set_vlan_switchport_def set_vlan_switchport_def async_set_vlan_qbridge_def set_vlan_qbridge_def
    async_write_helpers async_set_each async_reads
  by simp_all

text \<open>
  C25. The asynchronous SNMP reader and writer do what the synchronous ones do: every
  operation, over any client, gives the same answer or error and leaves the world the
  same, with the same reads and SETs in the same order.
\<close>

theorem async_snmp_matches:
  "async_snmp_get_ports cl = snmp_get_ports cl \<and> async_snmp_get_stats cl = snmp_get_stats cl
   \<and> async_snmp_get_vlans cl = snmp_get_vlans cl \<and> async_snmp_get_pvids cl = snmp_get_pvids cl
   \<and> async_snmp_get_lldp cl = snmp_get_lldp cl \<and> async_snmp_get_macs cl = snmp_get_macs cl
   \<and> async_snmp_get_poe cl m = snmp_get_poe cl m \<and> async_snmp_get_sensors cl m = snmp_get_sensors cl m
   \<and> async_snmp_get_mgmt_ip cl m = snmp_get_mgmt_ip cl m \<and> async_snmp_get_hostname cl = snmp_get_hostname cl
   \<and> async_snmp_get_syslog cl m = snmp_get_syslog cl m \<and> async_snmp_get_system_info cl = snmp_get_system_info cl
   \<and> async_snmp_set_poe cl W port on force = snmp_set_poe cl W port on force
   \<and> async_snmp_cycle_poe cl W port force T sleep clock = snmp_cycle_poe cl W port force T sleep clock
   \<and> async_snmp_clear_poe_fault cl W port force T sleep clock = snmp_clear_poe_fault cl W port force T sleep clock
   \<and> async_snmp_set_port_enabled cl W port on force = snmp_set_port_enabled cl W port on force
   \<and> async_snmp_set_port_description cl W port d force = snmp_set_port_description cl W port d force
   \<and> async_snmp_set_pvid cl W port vlan force = snmp_set_pvid cl W port vlan force
   \<and> async_snmp_set_vlan_membership cl W vlan port mode force = snmp_set_vlan_membership cl W vlan port mode force
   \<and> async_snmp_create_vlan cl W vlan name force = snmp_create_vlan cl W vlan name force
   \<and> async_snmp_delete_vlan cl W vlan force = snmp_delete_vlan cl W vlan force
   \<and> async_snmp_remove_syslog_collector cl W host force = snmp_remove_syslog_collector cl W host force
   \<and> async_snmp_set_syslog_enabled cl W on force = snmp_set_syslog_enabled cl W on force
   \<and> async_snmp_set_hostname cl W name force = snmp_set_hostname cl W name force
   \<and> async_snmp_set_mgmt_ip cl W a n g force = snmp_set_mgmt_ip cl W a n g force"
  unfolding fun_eq_iff async_reads
    async_snmp_set_poe_def snmp_set_poe_def async_snmp_cycle_poe_def snmp_cycle_poe_def
    async_snmp_clear_poe_fault_def snmp_clear_poe_fault_def async_snmp_set_port_enabled_def snmp_set_port_enabled_def
    async_snmp_set_port_description_def snmp_set_port_description_def async_snmp_set_pvid_def snmp_set_pvid_def
    async_snmp_set_vlan_membership_def snmp_set_vlan_membership_def async_snmp_create_vlan_def snmp_create_vlan_def
    async_snmp_delete_vlan_def snmp_delete_vlan_def async_snmp_remove_syslog_collector_def
    snmp_remove_syslog_collector_def async_snmp_set_syslog_enabled_def snmp_set_syslog_enabled_def
    async_snmp_set_hostname_def snmp_set_hostname_def async_snmp_set_mgmt_ip_def snmp_set_mgmt_ip_def
    async_write_helpers async_read_helpers async_poe_rearm async_vlan_helpers
  by simp

end
