(* ===== verification/Py_Regex.thy ===== *)
theory Py_Regex
  imports Snmp_Parsers
begin

text \<open>
  The regular expressions of the command-line code (\<open>re.compile\<close>) as data, with
  the matcher of Python's \<open>re\<close>: it tries the alternatives in order and takes the
  first way to match, so a greedy repetition is tried longest first and a lazy
  one shortest first. The text functions those modules use beside it are here
  too: \<open>splitlines\<close>, \<open>int\<close>, \<open>isdigit\<close>, \<open>ljust\<close>, \<open>join\<close>, \<open>partition\<close>.
  Text is what the command-line transports decode, so code points below 256.
\<close>

section \<open>Expressions\<close>

text \<open>
  \<open>Cls\<close> is one character of a class, \<open>Str\<close> a literal, \<open>Many\<close> and \<open>Few\<close> the greedy
  and the lazy repetition of a class with a least count, \<open>May\<close> the greedy
  \<open>?\<close>, \<open>Grp\<close> a capturing group, \<open>Eos\<close> the anchor \<open>$\<close> (which also holds before a
  final newline), and \<open>Stop\<close> holds where no character of the class follows.
\<close>

datatype re =
    Cls "nat \<Rightarrow> bool"
  | Str ustr
  | Seq re re
  | Alt re re
  | May re
  | Many "nat \<Rightarrow> bool" nat
  | Few "nat \<Rightarrow> bool" nat
  | Grp re
  | Eos
  | Stop "nat \<Rightarrow> bool"

fun re_seq :: "re list \<Rightarrow> re" where
  "re_seq [] = Str []"
| "re_seq [r] = r"
| "re_seq (r # rs) = Seq r (re_seq rs)"

fun re_alt :: "re list \<Rightarrow> re" where
  "re_alt [] = Cls (\<lambda>c. False)"
| "re_alt [r] = r"
| "re_alt (r # rs) = Alt r (re_alt rs)"

definition re_lit :: "string \<Rightarrow> re" where
  "re_lit s = Str (lit s)"

text \<open>The number of capturing groups, which a repetition of a class has none of.\<close>

fun n_groups :: "re \<Rightarrow> nat" where
  "n_groups (Seq r s) = n_groups r + n_groups s"
| "n_groups (Alt r s) = n_groups r + n_groups s"
| "n_groups (May r) = n_groups r"
| "n_groups (Grp r) = Suc (n_groups r)"
| "n_groups _ = 0"

text \<open>The text after a literal it begins with.\<close>

fun strip_prefix :: "ustr \<Rightarrow> ustr \<Rightarrow> ustr option" where
  "strip_prefix [] s = Some s"
| "strip_prefix (c # t) [] = None"
| "strip_prefix (c # t) (d # s) = (if c = d then strip_prefix t s else None)"

text \<open>How many characters at the front are in a class.\<close>

definition run_of :: "(nat \<Rightarrow> bool) \<Rightarrow> ustr \<Rightarrow> nat" where
  "run_of p s = length (takeWhile p s)"

type_synonym found = "(ustr option list \<times> ustr) list"

text \<open>Every way to match at the front of the text, best first: the groups and the rest.\<close>

fun matches :: "re \<Rightarrow> ustr \<Rightarrow> found" where
  "matches (Cls p) s = (case s of [] \<Rightarrow> [] | c # cs \<Rightarrow> if p c then [([], cs)] else [])"
| "matches (Str t) s = (case strip_prefix t s of Some s' \<Rightarrow> [([], s')] | None \<Rightarrow> [])"
| "matches (Seq r t) s =
     concat (map (\<lambda>(g, s'). map (\<lambda>(h, s''). (g @ h, s'')) (matches t s')) (matches r s))"
| "matches (Alt r t) s =
     map (\<lambda>(g, s'). (g @ replicate (n_groups t) None, s')) (matches r s)
     @ map (\<lambda>(g, s'). (replicate (n_groups r) None @ g, s')) (matches t s)"
| "matches (May r) s = matches r s @ [(replicate (n_groups r) None, s)]"
| "matches (Many p n) s = map (\<lambda>k. ([], drop k s)) (rev [n..<Suc (run_of p s)])"
| "matches (Few p n) s = map (\<lambda>k. ([], drop k s)) [n..<Suc (run_of p s)]"
| "matches (Grp r) s =
     map (\<lambda>(g, s'). (Some (take (length s - length s') s) # g, s')) (matches r s)"
| "matches Eos s = (if s = [] \<or> s = [10] then [([], s)] else [])"
| "matches (Stop p) s = (case s of [] \<Rightarrow> [([], s)] | c # cs \<Rightarrow> if p c then [] else [([], s)])"

text \<open>\<open>r.match(s)\<close> with the groups, and \<open>r.search(s)\<close>.\<close>

definition re_match :: "re \<Rightarrow> ustr \<Rightarrow> ustr option list option" where
  "re_match r s = (case matches r s of [] \<Rightarrow> None | (g, s') # _ \<Rightarrow> Some g)"

fun re_search :: "re \<Rightarrow> ustr \<Rightarrow> ustr option list option" where
  "re_search r [] = re_match r []"
| "re_search r (c # cs) =
     (case re_match r (c # cs) of Some g \<Rightarrow> Some g | None \<Rightarrow> re_search r cs)"

definition re_matches :: "re \<Rightarrow> ustr \<Rightarrow> bool" where
  "re_matches r s \<longleftrightarrow> re_match r s \<noteq> None"

text \<open>The text of a group that took part in the match.\<close>

definition grp :: "ustr option list \<Rightarrow> nat \<Rightarrow> ustr" where
  "grp g i = (case g ! i of Some t \<Rightarrow> t | None \<Rightarrow> [])"

text \<open>The classes: \<open>\d\<close>, \<open>\s\<close>, \<open>\S\<close>, \<open>\w\<close>, \<open>.\<close> and a hexadecimal digit.\<close>

definition non_space :: "nat \<Rightarrow> bool" where
  "non_space c \<longleftrightarrow> \<not> is_space c"

definition any_char :: "nat \<Rightarrow> bool" where
  "any_char c \<longleftrightarrow> c \<noteq> 10"

definition is_hex :: "nat \<Rightarrow> bool" where
  "is_hex c \<longleftrightarrow> hex_val c \<noteq> None"

definition is_word :: "nat \<Rightarrow> bool" where
  "is_word c \<longleftrightarrow> is_digit c \<or> (65 \<le> c \<and> c \<le> 90) \<or> (97 \<le> c \<and> c \<le> 122) \<or> c = 95
     \<or> c \<in> {170, 178, 179, 181, 185, 186, 188, 189, 190}
     \<or> (192 \<le> c \<and> c < 256 \<and> c \<noteq> 215 \<and> c \<noteq> 247)"

section \<open>Facts for evaluating a match\<close>

lemma run_of_simps [simp]:
  "run_of p [] = 0"
  "run_of p (c # cs) = (if p c then Suc (run_of p cs) else 0)"
  by (simp_all add: run_of_def)

lemma takeWhile_all: "list_all p xs \<Longrightarrow> takeWhile p xs = xs"
  by (simp add: takeWhile_eq_all_conv list_all_iff)

lemma run_of_all: "list_all p xs \<Longrightarrow> run_of p xs = length xs"
  by (simp add: run_of_def takeWhile_all)

lemma run_of_append:
  assumes "list_all p xs" and "ys = [] \<or> \<not> p (hd ys)"
  shows "run_of p (xs @ ys) = length xs"
  using assms by (cases ys) (simp_all add: run_of_def takeWhile_append takeWhile_all list_all_iff)

text \<open>A greedy repetition before the end takes everything, and fails on a foreign character.\<close>

lemma strip_prefix_append [simp]: "strip_prefix t (t @ s) = Some s"
  by (induction t) simp_all

lemma strip_prefix_SomeD: "strip_prefix t s = Some s' \<Longrightarrow> s = t @ s'"
  by (induction t s rule: strip_prefix.induct) (auto split: if_splits)

lemma rev_upt_Suc: "n \<le> m \<Longrightarrow> rev [n..<Suc m] = m # rev [n..<m]"
  by simp

lemma greedy_first:
  assumes all: "list_all p xs" and stop: "ys = [] \<or> \<not> p (hd ys)" and n: "n \<le> length xs"
    and no: "\<And>k. k < length xs \<Longrightarrow> f (drop k xs @ ys) = []"
  shows "concat (map (\<lambda>k. f (drop k (xs @ ys))) (rev [n..<Suc (run_of p (xs @ ys))])) = f ys"
proof -
  have r: "run_of p (xs @ ys) = length xs" by (rule run_of_append [OF all stop])
  have "concat (map (\<lambda>k. f (drop k (xs @ ys))) (rev [n..<length xs])) = []"
    using no by (auto simp: concat_eq_Nil_conv)
  then show ?thesis using n by (simp add: r rev_upt_Suc del: drop_append) simp
qed

lemma Many_greedy:
  assumes "list_all p xs" "ys = [] \<or> \<not> p (hd ys)" "n \<le> length xs"
    and "\<And>k. k < length xs \<Longrightarrow> matches r (drop k xs @ ys) = []"
  shows "matches (Seq (Many p n) r) (xs @ ys) = matches r ys"
  using greedy_first [OF assms(1-3), where f = "matches r"] assms(4)
  by (simp add: comp_def del: drop_append upt_Suc)

lemma Grp_Many_greedy:
  assumes all: "list_all p xs" and stop: "ys = [] \<or> \<not> p (hd ys)" and n: "n \<le> length xs"
    and no: "\<And>k. k < length xs \<Longrightarrow> matches r (drop k xs @ ys) = []"
  shows "matches (Seq (Grp (Many p n)) r) (xs @ ys) = map (\<lambda>(g, s'). (Some xs # g, s')) (matches r ys)"
proof -
  let ?f = "\<lambda>t. map (\<lambda>(g, s'). (Some (take (length (xs @ ys) - length t) (xs @ ys)) # g, s')) (matches r t)"
  have "matches (Seq (Grp (Many p n)) r) (xs @ ys) =
      concat (map (\<lambda>k. ?f (drop k (xs @ ys))) (rev [n..<Suc (run_of p (xs @ ys))]))"
    by (simp add: comp_def del: drop_append take_append length_append length_drop upt_Suc)
  also have "\<dots> = ?f ys"
    by (rule greedy_first [OF all stop n]) (use no in auto)
  also have "\<dots> = map (\<lambda>(g, s'). (Some xs # g, s')) (matches r ys)"
    by simp
  finally show ?thesis .
qed

text \<open>What follows a repetition and cannot begin inside it.\<close>

lemma matches_Eos_inside:
  assumes "k < length xs" "list_all p xs" "\<not> p 10"
  shows "matches Eos (drop k xs @ ys) = []"
proof -
  have "xs ! k \<noteq> 10" using assms by (auto simp: list_all_length)
  then show ?thesis using assms(1) by (simp add: Cons_nth_drop_Suc [symmetric])
qed

lemma matches_Str_inside:
  assumes "k < length xs" "list_all p xs" "\<not> p d"
  shows "matches (Seq (Str (d # t)) r) (drop k xs @ ys) = []"
proof -
  have "xs ! k \<noteq> d" using assms by (auto simp: list_all_length)
  then show ?thesis using assms(1) by (simp add: Cons_nth_drop_Suc [symmetric])
qed

lemma matches_Many_Eos:
  assumes "list_all p xs" "n \<le> length xs" "\<not> p 10"
  shows "matches (Seq (Many p n) Eos) xs = [([], [])]"
    and "matches (Seq (Grp (Many p n)) Eos) xs = [([Some xs], [])]"
  using Many_greedy [where ys = "[]" and r = Eos, OF assms(1) _ assms(2)]
    Grp_Many_greedy [where ys = "[]" and r = Eos, OF assms(1) _ assms(2)]
    matches_Eos_inside [OF _ assms(1,3), where ys = "[]"] by simp_all

lemma matches_Many_Str:
  assumes "list_all p xs" "n \<le> length xs" "\<not> p d"
  shows "matches (Seq (Many p n) (Seq (Str (d # t)) r)) (xs @ d # t @ ys) = matches r ys"
    and "matches (Seq (Grp (Many p n)) (Seq (Str (d # t)) r)) (xs @ d # t @ ys) =
      map (\<lambda>(g, s'). (Some xs # g, s')) (matches r ys)"
proof -
  have in_: "matches (Seq (Str (d # t)) r) (drop k xs @ d # t @ ys) = []" if "k < length xs" for k
    by (rule matches_Str_inside [OF that assms(1,3)])
  show "matches (Seq (Many p n) (Seq (Str (d # t)) r)) (xs @ d # t @ ys) = matches r ys"
    by (subst Many_greedy [OF assms(1) _ assms(2) in_]) (simp_all add: assms(3))
  show "matches (Seq (Grp (Many p n)) (Seq (Str (d # t)) r)) (xs @ d # t @ ys) =
      map (\<lambda>(g, s'). (Some xs # g, s')) (matches r ys)"
    by (subst Grp_Many_greedy [OF assms(1) _ assms(2) in_]) (simp_all add: assms(3) case_prod_unfold)
qed

lemma re_match_Cons: "matches r s = (g, s') # ms \<Longrightarrow> re_match r s = Some g"
  by (simp add: re_match_def)

lemma re_match_Nil: "matches r s = [] \<Longrightarrow> re_match r s = None"
  by (simp add: re_match_def)

text \<open>A match begins where the expression says; the rest is a suffix of the text.\<close>

lemma matches_suffix: "(g, s') \<in> set (matches r s) \<Longrightarrow> \<exists>u. s = u @ s'"
proof (induction r arbitrary: s g s')
  case (Str t)
  then show ?case by (auto split: option.splits dest: sym [THEN strip_prefix_SomeD])
next
  case (Seq r t)
  then obtain g1 s1 h where 1: "(g1, s1) \<in> set (matches r s)" and 2: "(h, s') \<in> set (matches t s1)"
    by auto
  from Seq.IH(1)[OF 1] Seq.IH(2)[OF 2] show ?case by auto
next
  case (Many p n)
  then show ?case by auto (metis append_take_drop_id)+
next
  case (Few p n)
  then show ?case by auto (metis append_take_drop_id)+
next
  case (Alt r t)
  then show ?case by fastforce
next
  case (May r)
  then show ?case by fastforce
next
  case (Grp r)
  then show ?case by fastforce
qed (auto split: list.splits if_splits)

lemma strip_prefix_length: "strip_prefix t s = Some u \<Longrightarrow> length u \<le> length s"
  by (induction t s rule: strip_prefix.induct) (auto split: if_splits)

text \<open>What is left and what the groups took is no longer than the text.\<close>

lemma matches_within:
  "(g, s') \<in> set (matches r s) \<Longrightarrow> length s' \<le> length s \<and> (\<forall>x. Some x \<in> set g \<longrightarrow> length x \<le> length s)"
proof (induction r arbitrary: s g s')
  case (Seq r t)
  then obtain a u b where m: "(a, u) \<in> set (matches r s)" "(b, s') \<in> set (matches t u)" "g = a @ b" by auto
  then show ?case using Seq.IH(1) [OF m(1)] Seq.IH(2) [OF m(2)] by fastforce
next
  case (Grp r)
  then obtain a where "(a, s') \<in> set (matches r s)" "g = Some (take (length s - length s') s) # a" by auto
  then show ?case using Grp.IH by fastforce
next
  case (Str t)
  then show ?case using strip_prefix_length by (auto split: option.splits)
qed (fastforce split: list.splits if_splits simp del: upt_Suc)+

lemma matches_groups: "(g, s') \<in> set (matches r s) \<Longrightarrow> length g = n_groups r"
  by (induction r arbitrary: s g s') (fastforce split: list.splits if_splits)+

lemma re_match_groups:
  assumes "re_match r s = Some g"
  shows "length g = n_groups r"
proof -
  obtain s' ms where "matches r s = (g, s') # ms"
    using assms by (auto simp: re_match_def split: list.splits)
  then have "(g, s') \<in> set (matches r s)" by simp
  then show ?thesis by (rule matches_groups)
qed

section \<open>Text functions\<close>

text \<open>\<open>str.splitlines()\<close>: the boundaries below 256, a carriage return taking a newline with it.\<close>

definition line_break :: "nat \<Rightarrow> bool" where
  "line_break c \<longleftrightarrow> (10 \<le> c \<and> c \<le> 13) \<or> (28 \<le> c \<and> c \<le> 30) \<or> c = 133"

fun lines_from :: "ustr \<Rightarrow> ustr \<Rightarrow> ustr list" where
  "lines_from acc [] = (if acc = [] then [] else [rev acc])"
| "lines_from acc (c # cs) =
     (if line_break c then
        rev acc # lines_from [] (if c = 13 \<and> cs \<noteq> [] \<and> hd cs = 10 then tl cs else cs)
      else lines_from (c # acc) cs)"

definition splitlines :: "ustr \<Rightarrow> ustr list" where
  "splitlines s = lines_from [] s"

fun join :: "ustr \<Rightarrow> ustr list \<Rightarrow> ustr" where
  "join sep [] = []"
| "join sep [t] = t"
| "join sep (t # ts) = t @ sep @ join sep ts"

definition ljust :: "nat \<Rightarrow> ustr \<Rightarrow> ustr" where
  "ljust w s = s @ replicate (w - length s) 32"

text \<open>\<open>t in s\<close>, \<open>startswith\<close> and \<open>endswith\<close>.\<close>

definition starts_with :: "ustr \<Rightarrow> ustr \<Rightarrow> bool" where
  "starts_with t s \<longleftrightarrow> strip_prefix t s \<noteq> None"

definition ends_with :: "ustr \<Rightarrow> ustr \<Rightarrow> bool" where
  "ends_with t s \<longleftrightarrow> starts_with (rev t) (rev s)"

fun contains :: "ustr \<Rightarrow> ustr \<Rightarrow> bool" where
  "contains t [] = (t = [])"
| "contains t (c # cs) = (starts_with t (c # cs) \<or> contains t cs)"

text \<open>\<open>s.partition(sep)\<close> for a one-character separator that occurs: before and after it.\<close>

definition part_before :: "nat \<Rightarrow> ustr \<Rightarrow> ustr" where
  "part_before c s = takeWhile (\<lambda>d. d \<noteq> c) s"

definition part_after :: "nat \<Rightarrow> ustr \<Rightarrow> ustr" where
  "part_after c s = drop 1 (dropWhile (\<lambda>d. d \<noteq> c) s)"

text \<open>
  \<open>int(s.strip())\<close>: a sign, then digits with single underscores between them;
  \<open>None\<close> where it raises \<open>ValueError\<close>, which it also does beyond
  \<open>sys.get_int_max_str_digits()\<close> digits, leading zeros included.
\<close>

definition MAX_STR_DIGITS :: nat where
  "MAX_STR_DIGITS = 4300"

fun int_digits :: "ustr \<Rightarrow> nat option \<Rightarrow> nat option" where
  "int_digits [] acc = acc"
| "int_digits (c # cs) acc =
     (if is_digit c then int_digits cs (Some (10 * (case acc of None \<Rightarrow> 0 | Some n \<Rightarrow> n) + (c - 48)))
      else if c = 95 \<and> acc \<noteq> None \<and> cs \<noteq> [] \<and> is_digit (hd cs) then int_digits cs acc
      else None)"

definition py_int :: "ustr \<Rightarrow> int option" where
  "py_int s =
     (case strip s of
        [] \<Rightarrow> None
      | c # cs \<Rightarrow>
          if MAX_STR_DIGITS < length (filter is_digit (c # cs)) then None
          else if c = 45 then map_option (\<lambda>n. - int n) (int_digits cs None)
          else if c = 43 then map_option int (int_digits cs None)
          else map_option int (int_digits (c # cs) None))"

text \<open>The value of a run of digits.\<close>

definition dec :: "ustr \<Rightarrow> int" where
  "dec s = int (foldl (\<lambda>n c. 10 * n + (c - 48)) 0 s)"

text \<open>\<open>int(m.group(i))\<close> of a group that matched a run of digits.\<close>

definition int_group :: "ustr \<Rightarrow> int py" where
  "int_group s = (if MAX_STR_DIGITS < length s then Inl ValueError else Inr (dec s))"

text \<open>\<open>str.isdigit()\<close>, which also holds of the superscripts two, three and one.\<close>

definition isdigit_char :: "nat \<Rightarrow> bool" where
  "isdigit_char c \<longleftrightarrow> is_digit c \<or> c \<in> {178, 179, 185}"

definition isdigit :: "ustr \<Rightarrow> bool" where
  "isdigit s \<longleftrightarrow> s \<noteq> [] \<and> list_all isdigit_char s"

end
