(* ===== verification/Cli_Fastpath.thy ===== *)
theory Cli_Fastpath
  imports Py_Regex Virtual_State
begin

text \<open>
  The rendering of FASTPATH \<open>show\<close> output from the state of a simulated switch
  (\<open>virtual/cli_fastpath.py\<close>). Only the PoE table changes the state: reading it
  uses up the lag of its status column.
\<close>

section \<open>Ports and interface names\<close>

definition phys_ports :: "virtual_switch \<Rightarrow> int list py" where
  "phys_ports s =
     res_bind (get_model (vs_model_key s)) (\<lambda>m.
       Inr (sort (filter (\<lambda>p. 1 \<le> p \<and> p \<le> m_port_count m) (map fst (vs_ports s)))))"

definition cli_iface :: "virtual_switch \<Rightarrow> int \<Rightarrow> ustr" where
  "cli_iface s port =
     (case dict_get (vs_ports s) port of
        Some sim \<Rightarrow> if pt_name sim \<noteq> [] then pt_name sim else lit ''1/0/'' @ show_int port
      | None \<Rightarrow> lit ''1/0/'' @ show_int port)"

definition port_for_iface :: "virtual_switch \<Rightarrow> ustr \<Rightarrow> int option" where
  "port_for_iface s ifname =
     find (\<lambda>p. cli_iface s p = strip ifname) (map fst (vs_ports s))"

definition is_m4300 :: "virtual_switch \<Rightarrow> bool" where
  "is_m4300 s \<longleftrightarrow> take 5 (vs_model_key s) = ''m4300''"

section \<open>Layout\<close>

definition dotted_line :: "string \<Rightarrow> ustr \<Rightarrow> ustr" where
  "dotted_line label value =
     lit label @ replicate (max 2 (46 - length label)) 46 @ lit '' '' @ value"

definition table_line :: "nat list \<Rightarrow> ustr list \<Rightarrow> ustr" where
  "table_line widths cells = join [32] (map (\<lambda>(c, w). ljust w c) (zip cells widths))"

definition render_table :: "ustr list \<Rightarrow> nat list \<Rightarrow> ustr list list \<Rightarrow> ustr" where
  "render_table headers widths rows =
     join [10]
       (table_line widths headers # join [32] (map (\<lambda>w. replicate w 45) widths)
        # map (table_line widths) rows)"

text \<open>\<open>f"{b:02X}"\<close>.\<close>

fun show_hex :: "nat \<Rightarrow> ustr" where
  "show_hex n = (if n < 16 then [hex_digit_upper n] else show_hex (n div 16) @ [hex_digit_upper (n mod 16)])"

definition hex02 :: "nat \<Rightarrow> ustr" where
  "hex02 n = (let h = show_hex n in replicate (2 - length h) 48 @ h)"

definition mac_text :: "nat list \<Rightarrow> ustr" where
  "mac_text raw = join [58] (map hex02 raw)"

definition speed_text :: "int \<Rightarrow> ustr" where
  "speed_text mbps =
     (if 1000 \<le> mbps \<and> mbps mod 1000 = 0 then show_int (mbps div 1000) @ lit ''G Full''
      else show_int mbps @ lit '' Full'')"

section \<open>Labelled output\<close>

definition render_version :: "virtual_switch \<Rightarrow> ustr py" where
  "render_version s =
     res_bind (get_model (vs_model_key s)) (\<lambda>m.
       let display = lit (m_display_name m);
           descr = (if vs_sys_descr s \<noteq> [] then vs_sys_descr s
                    else lit ''NETGEAR '' @ display @ lit '' Managed Switch'')
       in Inr (join [10]
         [lit ''Switch: 1'', [], dotted_line ''System Description'' descr,
          dotted_line ''Machine Model'' (if vs_model_name s \<noteq> [] then vs_model_name s else display),
          dotted_line ''Serial Number'' (vs_serial s),
          dotted_line ''Burned In MAC Address'' (mac_text (map unat (vs_nsdp_mac s))),
          dotted_line ''Software Version'' (vs_firmware s)]))"

definition render_network :: "virtual_switch \<Rightarrow> ustr" where
  "render_network s =
     (let g = vs_mgmt s in
      join [10]
        [dotted_line ''Interface Status'' (lit ''Up''),
         dotted_line ''IP Address'' (mg_address g),
         dotted_line ''Subnet Mask'' (mg_netmask g),
         dotted_line ''Default Gateway'' (mg_gateway g),
         dotted_line ''Burned In MAC Address'' (mac_text (map unat (vs_nsdp_mac s))),
         dotted_line ''Configured IPv4 Protocol''
           (if mg_mode g = lit ''dhcp'' then lit ''DHCP'' else lit ''None''),
         dotted_line ''Management VLAN ID'' (lit ''1'')])"

definition render_hosts :: "virtual_switch \<Rightarrow> ustr" where
  "render_hosts s =
     join [10]
       [dotted_line ''Host name'' (vs_hostname s),
        dotted_line ''Default domain'' (lit ''Domain name is not configured''),
        dotted_line ''Default domain list'' (lit ''Domain Name List is not configured''),
        dotted_line ''Domain Name Lookup'' (lit ''Enabled''),
        dotted_line ''Number of retries'' (lit ''2''),
        dotted_line ''Retry timeout period'' (lit ''3''),
        dotted_line ''Name servers (Preference order)'' (lit ''10.1.5.1''),
        [],
        lit ''Configured host name-to-address mapping:'',
        [],
        lit '' Host                                Addresses'',
        lit ''------------------------ ----------------------'',
        lit ''No host name is configured to IP address'',
        [],
        lit '' Host                   Total   Elapsed    Type        Addresses'',
        lit ''---------------------- -------  -------    ----        --------------'',
        lit ''No hostname is mapped to an IP address'']"

definition render_interface_counters :: "virtual_switch \<Rightarrow> int \<Rightarrow> ustr" where
  "render_interface_counters s port =
     (let sim = dict_get (vs_ports s) port;
          counter = (\<lambda>f. case sim of
              None \<Rightarrow> show_int 0
            | Some x \<Rightarrow> (case f x of Some n \<Rightarrow> show_int n | None \<Rightarrow> show_int 0))
      in join [10]
        [dotted_line ''Total Packets Received (Octets)'' (counter pt_rx_octets),
         dotted_line ''Unicast Packets Received'' (counter pt_rx_ucast),
         dotted_line ''Total Packets Received with MAC Errors'' (counter pt_rx_errors),
         dotted_line ''Total Packets Transmitted (Octets)'' (counter pt_tx_octets),
         dotted_line ''Unicast Packets Transmitted'' (counter pt_tx_ucast),
         dotted_line ''Total Transmit Errors'' (counter pt_tx_errors),
         dotted_line ''Time Since Counters Last Cleared'' (lit ''1 day 0 hr 0 min 0 sec'')])"

definition CLI_INVALID :: ustr where
  "CLI_INVALID = lit ''% Invalid input detected at '' @ [39] @ lit ''^'' @ [39] @ lit '' marker.''"

definition rstrip :: "ustr \<Rightarrow> ustr" where
  "rstrip s = rev (dropWhile is_space (rev s))"

definition render_port_description :: "virtual_switch \<Rightarrow> ustr \<Rightarrow> ustr py" where
  "render_port_description s ifname =
     res_bind (phys_ports s) (\<lambda>ports.
       case find (\<lambda>p. cli_iface s p = ifname) ports of
         None \<Rightarrow> Inr CLI_INVALID
       | Some port \<Rightarrow>
           let described = (case dict_get (vs_ports s) port of
                 Some sim \<Rightarrow> (case pt_description sim of Some d \<Rightarrow> d | None \<Rightarrow> []) | None \<Rightarrow> [])
           in Inr (join [10]
             [lit ''Interface....... '' @ ifname,
              lit ''ifIndex......... '' @ show_int port,
              rstrip (lit ''Description..... '' @ described),
              lit ''MAC address..... '' @ mac_text (map unat (vs_nsdp_mac s)),
              lit ''Bit Offset Val.. '' @ show_int port]))"

section \<open>Tables\<close>

definition on_ports :: "virtual_switch \<Rightarrow> (int \<Rightarrow> port_sim \<Rightarrow> ustr list) \<Rightarrow> ustr list list py" where
  "on_ports s f =
     res_bind (phys_ports s) (\<lambda>ports.
       Inr (concat (map (\<lambda>p. case dict_get (vs_ports s) p of Some sim \<Rightarrow> [f p sim] | None \<Rightarrow> []) ports)))"

definition enable_word :: "bool \<Rightarrow> ustr" where
  "enable_word b = (if b then lit ''Enable'' else lit ''Disable'')"

definition port_line :: "virtual_switch \<Rightarrow> int \<Rightarrow> port_sim \<Rightarrow> ustr list" where
  "port_line s p sim =
     [cli_iface s p, [], enable_word (pt_admin sim), pt_physical_mode sim,
      if pt_link sim \<and> pt_speed sim \<noteq> 0 then speed_text (pt_speed sim) else [],
      if pt_link sim then lit ''Up'' else lit ''Down'', lit ''Enable'', lit ''Enable'',
      enable_word (pt_flow_control sim)]"

definition PORT_HEADERS :: "ustr list" where
  "PORT_HEADERS = map lit [''Intf'', ''Type'', ''Admin'', ''Physical'', ''Physical'', ''Link'',
     ''Link'', ''LACP'', ''Flow'']"

definition PORT_WIDTHS :: "nat list" where
  "PORT_WIDTHS = [9, 6, 9, 10, 10, 6, 7, 6, 7]"

definition render_ports :: "virtual_switch \<Rightarrow> ustr py" where
  "render_ports s =
     res_bind (on_ports s (port_line s)) (\<lambda>rows. Inr (render_table PORT_HEADERS PORT_WIDTHS rows))"

definition vlan_line :: "int \<times> vlan_sim \<Rightarrow> ustr list" where
  "vlan_line v =
     [show_int (fst v), vl_name (snd v), if fst v = 1 then lit ''Default'' else lit ''Static'']"

definition render_vlan_brief :: "virtual_switch \<Rightarrow> ustr" where
  "render_vlan_brief s =
     render_table (map lit [''VLAN ID'', ''VLAN Name'', ''VLAN Type'']) [7, 32, 19]
       (map vlan_line (sorted_items (vs_vlans s)))"

definition vlan_port_line :: "virtual_switch \<Rightarrow> vlan_sim option \<Rightarrow> int \<Rightarrow> ustr list" where
  "vlan_port_line s v p =
     (case v of
        None \<Rightarrow> [cli_iface s p, lit ''Exclude'', lit ''Autodetect'', lit ''Untagged'']
      | Some x \<Rightarrow>
          if p \<in> vl_member x
          then [cli_iface s p, lit ''Include'', lit ''Include'',
                if p \<in> vl_untagged x then lit ''Untagged'' else lit ''Tagged'']
          else [cli_iface s p, lit ''Exclude'', lit ''Autodetect'', lit ''Untagged''])"

definition VLAN_PORT_HEADERS :: "ustr list" where
  "VLAN_PORT_HEADERS = map lit [''Interface'', ''Current'', ''Configured'', ''Tagging'']"

definition VLAN_PORT_WIDTHS :: "nat list" where
  "VLAN_PORT_WIDTHS = [10, 8, 11, 8]"

definition render_vlan_detail :: "virtual_switch \<Rightarrow> int \<Rightarrow> ustr py" where
  "render_vlan_detail s vid =
     (let v = dict_get (vs_vlans s) vid;
          name = (case v of Some x \<Rightarrow> vl_name x | None \<Rightarrow> [])
      in res_bind (phys_ports s) (\<lambda>ports.
        Inr (join [10]
          [lit ''VLAN ID: '' @ show_int vid, lit ''VLAN Name: '' @ name,
           if vid \<noteq> 1 then lit ''VLAN Type: Static'' else lit ''VLAN Type: Default'', []]
         @ [10] @ render_table VLAN_PORT_HEADERS VLAN_PORT_WIDTHS (map (vlan_port_line s v) ports))))"

definition pvid_line :: "virtual_switch \<Rightarrow> int \<Rightarrow> ustr list" where
  "pvid_line s p =
     (let pvid = show_int (case dict_get (vs_pvids s) p of Some v \<Rightarrow> v | None \<Rightarrow> 1)
      in [cli_iface s p, pvid, pvid, lit ''Admit All'', lit ''Disable'', lit ''Disable'',
          lit ''Enable'', lit ''0''])"

definition PVID_HEADERS :: "ustr list" where
  "PVID_HEADERS = map lit [''Interface'', ''Port'', ''Port'', ''Acceptable'', ''Ingress'',
     ''Ingress'', ''GVRP'', ''Default'']"

definition PVID_WIDTHS :: "nat list" where
  "PVID_WIDTHS = [9, 10, 8, 11, 10, 9, 7, 8]"

definition render_pvids :: "virtual_switch \<Rightarrow> ustr py" where
  "render_pvids s =
     res_bind (phys_ports s) (\<lambda>ports.
       Inr (render_table PVID_HEADERS PVID_WIDTHS (map (pvid_line s) ports)))"

definition mac_line :: "virtual_switch \<Rightarrow> mac_sim \<Rightarrow> ustr list" where
  "mac_line s x =
     (let ifindex = (case dict_get (vs_bridge_ports s) (mc_bridge_port x) of
            Some i \<Rightarrow> i | None \<Rightarrow> mc_bridge_port x)
      in [show_int (mc_vlan x), mac_text (map nat (mc_mac_bytes x)),
          case dict_get (vs_ports s) ifindex of
            Some sim \<Rightarrow> pt_name sim | None \<Rightarrow> lit ''1/0/'' @ show_int ifindex,
          show_int ifindex, lit ''Learned''])"

definition render_mac_table :: "virtual_switch \<Rightarrow> ustr" where
  "render_mac_table s =
     render_table (map lit [''VLAN ID'', ''MAC Address'', ''Interface'', ''IfIndex'', ''Status''])
       [7, 18, 21, 7, 12] (map (mac_line s) (vs_macs s))"

definition lldp_line :: "virtual_switch \<Rightarrow> lldp_sim \<Rightarrow> ustr list" where
  "lldp_line s n =
     [cli_iface s (ll_local_port n), show_int (ll_rem_idx n),
      if ll_chassis n \<noteq> [] then mac_text (ll_chassis n) else [], ll_port_id n, ll_sys_name n]"

definition render_lldp :: "virtual_switch \<Rightarrow> ustr" where
  "render_lldp s =
     join [10] [lit ''LLDP Remote Device Summary'', [], lit ''Local''] @ [10]
     @ render_table (map lit [''Interface'', ''RemID'', ''Chassis ID'', ''Port ID'', ''System Name''])
         [9, 8, 20, 18, 18] (map (lldp_line s) (vs_lldp s))"

section \<open>PoE\<close>

definition poe_status_text :: "poe_sim \<Rightarrow> ustr \<times> poe_sim" where
  "poe_status_text p =
     (if 0 < pe_cli_status_lag_reads p
      then (lit ''Disabled'', p\<lparr>pe_cli_status_lag_reads := pe_cli_status_lag_reads p - 1\<rparr>)
      else (if \<not> pe_admin p then lit ''Disabled''
            else if pe_detect p = 3 then lit ''Delivering Power''
            else if pe_detect p = 4 \<or> pe_detect p = 6 then lit ''Fault''
            else lit ''Searching'', p))"

definition poe_line :: "virtual_switch \<Rightarrow> int \<times> poe_sim \<Rightarrow> ustr list" where
  "poe_line s e =
     (let p = fst e; x = snd e in
      [cli_iface s p, if p \<le> 8 then lit ''Yes'' else lit ''No'',
       show_int (if p \<le> 8 then 32000 else 18000),
       if pe_power_mw x \<noteq> 0 then show_int 4 else lit ''Unknown'',
       show_int (pe_power_mw x), show_int 0, show_int (if pe_power_mw x \<noteq> 0 then 54 else 0)]
      @ (if is_m4300 s then [] else [show_int 30])
      @ [fst (poe_status_text x), lit ''No Error''])"

definition poe_headers :: "virtual_switch \<Rightarrow> ustr list" where
  "poe_headers s =
     map lit ([''Intf'', ''High Power'', ''Max Power (mW)'', ''Class'', ''Power (mW)'',
       ''Output Current (mA)'', ''Output Voltage (V)'']
       @ (if is_m4300 s then [] else [''Temperature'']) @ [''Status'', ''Fault Status''])"

definition poe_widths :: "virtual_switch \<Rightarrow> nat list" where
  "poe_widths s = [7, 11, 15, 9, 11, 20, 19] @ (if is_m4300 s then [] else [13]) @ [18, 13]"

definition render_poe :: "virtual_switch \<Rightarrow> ustr \<times> virtual_switch" where
  "render_poe s =
     (render_table (poe_headers s) (poe_widths s) (map (poe_line s) (sorted_items (vs_poe s))),
      s\<lparr>vs_poe := map (\<lambda>(p, x). (p, snd (poe_status_text x))) (vs_poe s)\<rparr>)"

section \<open>Environment and logging\<close>

definition numbered :: "(nat \<Rightarrow> 'a \<Rightarrow> 'b) \<Rightarrow> 'a list \<Rightarrow> 'b list" where
  "numbered f xs = map (\<lambda>(i, x). f (Suc i) x) (zip [0..<length xs] xs)"

definition render_environment :: "virtual_switch \<Rightarrow> ustr" where
  "render_environment s =
     (let of_kind = (\<lambda>k. filter (\<lambda>x. ss_kind x = lit k) (vs_sensors s));
          temps = of_kind ''temperature''; fans = of_kind ''fan''; psus = of_kind ''power'';
          first_or = (\<lambda>xs d. case xs of [] \<Rightarrow> lit d | x # _ \<Rightarrow> ss_raw x);
          num = (\<lambda>i. show_int (int i))
      in join [10]
        [dotted_line ''Temp (C)'' (first_or temps ''36''),
         dotted_line ''Fan Speed, RPM'' (first_or fans ''Not Supported''),
         [],
         lit ''Temperature Sensors:'',
         render_table
           (map lit [''Unit'', ''Sensor'', ''Description'', ''Temp (C)'', ''State'', ''Max_Temp (C)''])
           [4, 6, 16, 10, 14, 14]
           (numbered (\<lambda>i x. [num 1, num i, ss_instance x, ss_raw x, lit ''Normal'', num 55]) temps),
         [],
         lit ''Fans:'',
         render_table
           (map lit [''Unit'', ''Fan'', ''Description'', ''Type'', ''Speed'', ''Duty'', ''State''])
           [4, 3, 14, 9, 13, 13, 14]
           (numbered (\<lambda>i x. [num 1, num i, ss_instance x, lit ''Fixed'', ss_raw x,
              lit ''Not Supported'', lit ''Operational'']) fans),
         [],
         if is_m4300 s then lit ''Power Modules:'' else lit ''Power supplies:'',
         render_table
           (map lit [''Unit'', ''Power supply'', ''Description'', ''Type'', ''State''])
           [4, 12, 16, 10, 14]
           (numbered (\<lambda>i x. [num 1, num i, ss_instance x, lit ''Fixed'', lit ''Operational'']) psus)])"

definition SEVERITY_WORDS :: "(int, ustr) dict" where
  "SEVERITY_WORDS =
     [(0, lit ''emergency''), (1, lit ''alert''), (2, lit ''critical''), (3, lit ''error''),
      (4, lit ''warning''), (5, lit ''notice''), (6, lit ''info''), (7, lit ''debug'')]"

definition render_logging :: "virtual_switch \<Rightarrow> ustr" where
  "render_logging s =
     join [10]
       [lit ''Logging Client Local Port           : '' @ show_int (sy_local_port (vs_syslog s)),
        lit ''Logging Client Source Interface     : serviceport'',
        lit ''CLI Command Logging                 : disabled'',
        lit ''Console Logging                     : disabled'',
        lit ''Console Logging Severity Filter     : error'',
        lit ''Buffered Logging                    : enabled'',
        lit ''Buffered Logging Severity Filter    : notice'',
        [],
        lit ''Syslog Logging                      : ''
          @ (if sy_admin_mode (vs_syslog s) = 1 then lit ''enabled'' else lit ''disabled''),
        [],
        lit ''Log Messages Received               : 9850'',
        lit ''Log Messages Dropped                : 0'',
        lit ''Log Messages Relayed                : 118'']"

definition collector_line :: "syslog_collector_sim \<Rightarrow> ustr" where
  "collector_line c =
     ljust 5 (show_int (sc_index c)) @ lit '' '' @ ljust 24 (sc_host c) @ lit '' ''
     @ ljust 10 (case dict_get SEVERITY_WORDS (sc_severity c) of
          Some w \<Rightarrow> w | None \<Rightarrow> show_int (sc_severity c)) @ lit '' ''
     @ ljust 6 (show_int (sc_port c)) @ lit '' ''
     @ ljust 9 (if sc_status c = 1 then lit ''Active'' else lit ''Inactive'') @ lit '' udp''"

definition render_logging_hosts :: "virtual_switch \<Rightarrow> ustr" where
  "render_logging_hosts s =
     join [10]
       (lit ''Index   IP Address/Hostname     Severity    Port   Status  Mode   Auth    Cert#''
        # lit ''----- ------------------------ ---------- ------ --------- ----- -------- -----''
        # map collector_line (sy_collectors (vs_syslog s)))"

end
