(* ===== verification/Cli_Commands.thy ===== *)
theory Cli_Commands
  imports Py_Regex
begin

text \<open>
  The per-model FASTPATH command tables (\<open>protocols/cli/commands.py\<close>): the
  record \<open>CliModelSpec\<close> with its command templates, the four specs, the methods
  that fill a template in, the profiles of the certificate deploy, and the two
  lookups with their refusals.
\<close>

section \<open>Templates\<close>

text \<open>\<open>str.format\<close> with named fields, for the templates below.\<close>

function fmt :: "string \<Rightarrow> (string \<times> ustr) list \<Rightarrow> ustr" where
  "fmt [] kv = []"
| "fmt (c # cs) kv =
     (if c = CHR ''{'' then
        (case map_of kv (takeWhile (\<lambda>d. d \<noteq> CHR ''}'') cs) of Some v \<Rightarrow> v | None \<Rightarrow> [])
        @ fmt (drop 1 (dropWhile (\<lambda>d. d \<noteq> CHR ''}'') cs)) kv
      else of_char c # fmt cs kv)"
  by pat_completeness auto
termination
proof (relation "measure (\<lambda>(cs, kv). length cs)", goal_cases)
  case (2 c cs kv)
  have "length (dropWhile (\<lambda>d. d \<noteq> CHR ''}'') cs) \<le> length cs" by (rule length_dropWhile_le)
  then show ?case by simp
qed simp_all

section \<open>Addresses\<close>

text \<open>
  \<open>ipaddress.ip_address\<close>: four decimal octets without leading zeros, or the
  eight groups of an IPv6 address with at most one \<open>::\<close>, an IPv4 tail and a
  scope after \<open>%\<close>.
\<close>

definition ipv4_octet :: "ustr \<Rightarrow> bool" where
  "ipv4_octet q \<longleftrightarrow> q \<noteq> [] \<and> list_all is_digit q \<and> length q \<le> 3
     \<and> (q = [48] \<or> hd q \<noteq> 48) \<and> dec q \<le> 255"

definition ipv4_text :: "ustr \<Rightarrow> bool" where
  "ipv4_text s \<longleftrightarrow> length (split_on 46 s) = 4 \<and> list_all ipv4_octet (split_on 46 s)"

definition ipv6_group :: "ustr \<Rightarrow> bool" where
  "ipv6_group g \<longleftrightarrow> g \<noteq> [] \<and> list_all is_hex g \<and> length g \<le> 4"

text \<open>The groups of an address part, the two an IPv4 tail stands for counted as groups.\<close>

definition ipv6_parts :: "ustr \<Rightarrow> ustr list option" where
  "ipv6_parts s =
     (let parts = split_on 58 s in
      if length parts < 3 then None
      else if 46 \<in> set (last parts)
      then if ipv4_text (last parts) then Some (butlast parts @ [[48], [48]]) else None
      else Some parts)"

definition ipv6_groups_ok :: "ustr list \<Rightarrow> bool" where
  "ipv6_groups_ok parts =
     (let n = length parts;
          inner = filter (\<lambda>i. parts ! i = []) [1..<n - 1]
      in if n > 9 \<or> length inner > 1 then False
         else (case inner of
           [] \<Rightarrow> n = 8 \<and> list_all ipv6_group parts
         | k # _ \<Rightarrow>
             let hi = (if parts ! 0 = [] then k - 1 else k);
                 lo = (if last parts = [] then n - k - 2 else n - k - 1)
             in \<not> (parts ! 0 = [] \<and> hi \<noteq> 0) \<and> \<not> (last parts = [] \<and> lo \<noteq> 0) \<and> hi + lo < 8
                \<and> list_all ipv6_group (take hi parts)
                \<and> list_all ipv6_group (drop (n - lo) parts)))"

definition ipv6_text :: "ustr \<Rightarrow> bool" where
  "ipv6_text s =
     (let addr = part_before 37 s; scope = part_after 37 s in
      \<not> (37 \<in> set s \<and> (scope = [] \<or> 37 \<in> set scope)) \<and> 47 \<notin> set s
      \<and> (case ipv6_parts addr of None \<Rightarrow> False | Some ps \<Rightarrow> ipv6_groups_ok ps))"

definition address_kind :: "ustr \<Rightarrow> ustr" where
  "address_kind a =
     (if ipv4_text a then lit ''ipv4'' else if ipv6_text a then lit ''ipv6'' else lit ''dns'')"

definition fastpath_rate :: "int \<Rightarrow> ustr" where
  "fastpath_rate mbps =
     (if 1000 \<le> mbps \<and> mbps mod 1000 = 0 then show_int (mbps div 1000) @ lit ''G''
      else show_int mbps)"

section \<open>The spec record\<close>

record cli_model_spec =
  cc_model_key :: string
  cc_captured :: bool
  cc_reads_verified :: bool
  cc_writes_verified :: bool
  cc_telnet_port :: int
  cc_enable_cmd :: string
  cc_paging_off_cmd :: string
  cc_version_cmd :: string
  cc_port_status_cmd :: string
  cc_vlan_brief_cmd :: string
  cc_vlan_detail_cmd :: string
  cc_pvid_cmd :: string
  cc_mac_table_cmd :: string
  cc_lldp_cmd :: string
  cc_poe_cmd :: string
  cc_environment_cmd :: string
  cc_network_cmd :: string
  cc_interface_stats_cmd :: string
  cc_hosts_cmd :: string
  cc_users_cmd :: string
  cc_http_service_cmd :: string
  cc_telnet_service_cmd :: string
  cc_ssh_service_cmd :: string
  cc_logging_cmd :: string
  cc_logging_hosts_cmd :: string
  cc_hostname_config_cmd :: string
  cc_logging_host_add_cmd :: string
  cc_logging_host_remove_cmd :: string
  cc_logging_syslog_cmd :: string
  cc_logging_no_syslog_cmd :: string
  cc_iface_template :: string
  cc_uplink_iface_template :: "string option"
  cc_first_uplink_port :: "int option"
  cc_vlan_database_cmd :: string
  cc_vlan_create_cmd :: string
  cc_vlan_name_cmd :: string
  cc_vlan_delete_cmd :: string
  cc_configure_cmd :: string
  cc_interface_cmd :: string
  cc_switchport_general_cmd :: "string option"
  cc_vlan_participation_cmd :: string
  cc_vlan_tagging_cmd :: string
  cc_vlan_no_tagging_cmd :: string
  cc_vlan_pvid_cmd :: string
  cc_port_description_cmd :: string
  cc_port_no_description_cmd :: string
  cc_port_description_show_cmd :: string
  cc_port_speed_auto_cmd :: string
  cc_port_speed_forced_cmd :: string
  cc_port_flow_control_cmd :: string
  cc_port_no_flow_control_cmd :: string
  cc_exit_cmd :: string
  cc_poe_enable_cmd :: string
  cc_poe_disable_cmd :: string
  cc_poe_reset_cmd :: string
  cc_port_enable_cmd :: string
  cc_port_disable_cmd :: string
  cc_mgmt_ip_exec_cmds :: "string list"
  cc_mgmt_ip_config_cmds :: "string list"
  cc_reload_cmd :: string

text \<open>The dataclass constructor with its defaults.\<close>

definition mk_cli_spec :: "string \<Rightarrow> bool \<Rightarrow> bool \<Rightarrow> cli_model_spec" where
  "mk_cli_spec key captured verified =
     \<lparr>cc_model_key = key, cc_captured = captured, cc_reads_verified = verified,
      cc_writes_verified = True, cc_telnet_port = 23,
      cc_enable_cmd = ''enable'', cc_paging_off_cmd = ''terminal length 0'',
      cc_version_cmd = ''show version'', cc_port_status_cmd = ''show port all'',
      cc_vlan_brief_cmd = ''show vlan brief'', cc_vlan_detail_cmd = ''show vlan {vlan}'',
      cc_pvid_cmd = ''show vlan port all'', cc_mac_table_cmd = ''show mac-addr-table'',
      cc_lldp_cmd = ''show lldp remote-device all'', cc_poe_cmd = ''show poe port info all'',
      cc_environment_cmd = ''show environment'', cc_network_cmd = ''show network'',
      cc_interface_stats_cmd = ''show interface ethernet {iface}'',
      cc_hosts_cmd = ''show hosts'', cc_users_cmd = ''show users'',
      cc_http_service_cmd = ''show ip http'', cc_telnet_service_cmd = ''show telnetcon'',
      cc_ssh_service_cmd = ''show ip ssh'', cc_logging_cmd = ''show logging'',
      cc_logging_hosts_cmd = ''show logging hosts'',
      cc_hostname_config_cmd = ''hostname {name}'',
      cc_logging_host_add_cmd = ''logging host \"{address}\" {kind} {port} {severity}'',
      cc_logging_host_remove_cmd = ''logging host remove {index}'',
      cc_logging_syslog_cmd = ''logging syslog'',
      cc_logging_no_syslog_cmd = ''no logging syslog'',
      cc_iface_template = ''1/0/{port}'', cc_uplink_iface_template = None,
      cc_first_uplink_port = None,
      cc_vlan_database_cmd = ''vlan database'', cc_vlan_create_cmd = ''vlan {vlan}'',
      cc_vlan_name_cmd = ''vlan name {vlan} {name}'', cc_vlan_delete_cmd = ''no vlan {vlan}'',
      cc_configure_cmd = ''configure'', cc_interface_cmd = ''interface {iface}'',
      cc_switchport_general_cmd = Some ''switchport mode general'',
      cc_vlan_participation_cmd = ''vlan participation {action} {vlan}'',
      cc_vlan_tagging_cmd = ''vlan tagging {vlan}'',
      cc_vlan_no_tagging_cmd = ''no vlan tagging {vlan}'',
      cc_vlan_pvid_cmd = ''vlan pvid {vlan}'',
      cc_port_description_cmd = ''description '' @ [CHR 0x27] @ ''{text}'' @ [CHR 0x27],
      cc_port_no_description_cmd = ''no description'',
      cc_port_description_show_cmd = ''show port description {iface}'',
      cc_port_speed_auto_cmd = ''speed auto'',
      cc_port_speed_forced_cmd = ''speed {rate} {duplex}-duplex'',
      cc_port_flow_control_cmd = ''flowcontrol'',
      cc_port_no_flow_control_cmd = ''no flowcontrol'', cc_exit_cmd = ''exit'',
      cc_poe_enable_cmd = ''poe'', cc_poe_disable_cmd = ''no poe'',
      cc_poe_reset_cmd = ''poe reset'', cc_port_enable_cmd = ''no shutdown'',
      cc_port_disable_cmd = ''shutdown'',
      cc_mgmt_ip_exec_cmds = [''network parms {address} {netmask} {gateway}''],
      cc_mgmt_ip_config_cmds = [], cc_reload_cmd = ''reload''\<rparr>"

definition M4300_OVERRIDES :: "cli_model_spec \<Rightarrow> cli_model_spec" where
  "M4300_OVERRIDES spec = spec
     \<lparr>cc_vlan_brief_cmd := ''show vlan'', cc_network_cmd := ''show ip management'',
      cc_mgmt_ip_exec_cmds := [],
      cc_mgmt_ip_config_cmds :=
        [''ip management address {address} {netmask}'', ''ip default-gateway {gateway}'']\<rparr>"

definition SPEC_GSM7252PS :: cli_model_spec where
  "SPEC_GSM7252PS = (mk_cli_spec ''gsm7252ps'' True True)\<lparr>cc_switchport_general_cmd := None\<rparr>"

definition SPEC_M4300_24X :: cli_model_spec where
  "SPEC_M4300_24X = M4300_OVERRIDES (mk_cli_spec ''m4300-24x'' True True)"

definition SPEC_M4300_16X :: cli_model_spec where
  "SPEC_M4300_16X = M4300_OVERRIDES (mk_cli_spec ''m4300-16x'' True True)"

definition SPEC_GSM7228PS :: cli_model_spec where
  "SPEC_GSM7228PS = (mk_cli_spec ''gsm7228ps'' True True)
     \<lparr>cc_telnet_port := 60000, cc_vlan_brief_cmd := ''show vlan'',
      cc_network_cmd := ''show network'', cc_iface_template := ''1/g{port}'',
      cc_uplink_iface_template := Some ''1/xg{port}'', cc_first_uplink_port := Some 49\<rparr>"

definition CLI_SPECS :: "(string, cli_model_spec) dict" where
  "CLI_SPECS = map (\<lambda>s. (cc_model_key s, s))
     [SPEC_GSM7252PS, SPEC_M4300_24X, SPEC_M4300_16X, SPEC_GSM7228PS]"

section \<open>The commands of a spec\<close>

definition vlan_detail :: "cli_model_spec \<Rightarrow> int \<Rightarrow> ustr" where
  "vlan_detail spec vlan = fmt (cc_vlan_detail_cmd spec) [(''vlan'', show_int vlan)]"

definition iface :: "cli_model_spec \<Rightarrow> int \<Rightarrow> ustr" where
  "iface spec port =
     (case (cc_uplink_iface_template spec, cc_first_uplink_port spec) of
        (Some t, Some first) \<Rightarrow>
          if first \<le> port then fmt t [(''port'', show_int port)]
          else fmt (cc_iface_template spec) [(''port'', show_int port)]
      | _ \<Rightarrow> fmt (cc_iface_template spec) [(''port'', show_int port)])"

definition interface_stats :: "cli_model_spec \<Rightarrow> int \<Rightarrow> ustr" where
  "interface_stats spec port = fmt (cc_interface_stats_cmd spec) [(''iface'', iface spec port)]"

definition vlan_create :: "cli_model_spec \<Rightarrow> int \<Rightarrow> ustr" where
  "vlan_create spec vlan = fmt (cc_vlan_create_cmd spec) [(''vlan'', show_int vlan)]"

definition vlan_name :: "cli_model_spec \<Rightarrow> int \<Rightarrow> ustr \<Rightarrow> ustr" where
  "vlan_name spec vlan name =
     fmt (cc_vlan_name_cmd spec) [(''vlan'', show_int vlan), (''name'', name)]"

definition vlan_delete :: "cli_model_spec \<Rightarrow> int \<Rightarrow> ustr" where
  "vlan_delete spec vlan = fmt (cc_vlan_delete_cmd spec) [(''vlan'', show_int vlan)]"

definition interface_enter :: "cli_model_spec \<Rightarrow> int \<Rightarrow> ustr" where
  "interface_enter spec port = fmt (cc_interface_cmd spec) [(''iface'', iface spec port)]"

definition vlan_participation :: "cli_model_spec \<Rightarrow> int \<Rightarrow> bool \<Rightarrow> ustr" where
  "vlan_participation spec vlan include =
     fmt (cc_vlan_participation_cmd spec)
       [(''action'', if include then lit ''include'' else lit ''exclude''), (''vlan'', show_int vlan)]"

definition vlan_tagging :: "cli_model_spec \<Rightarrow> int \<Rightarrow> bool \<Rightarrow> ustr" where
  "vlan_tagging spec vlan tagged =
     fmt (if tagged then cc_vlan_tagging_cmd spec else cc_vlan_no_tagging_cmd spec)
       [(''vlan'', show_int vlan)]"

definition vlan_pvid :: "cli_model_spec \<Rightarrow> int \<Rightarrow> ustr" where
  "vlan_pvid spec vlan = fmt (cc_vlan_pvid_cmd spec) [(''vlan'', show_int vlan)]"

definition port_description :: "cli_model_spec \<Rightarrow> ustr \<Rightarrow> ustr" where
  "port_description spec t =
     (if t = [] then lit (cc_port_no_description_cmd spec)
      else fmt (cc_port_description_cmd spec) [(''text'', t)])"

definition port_description_show :: "cli_model_spec \<Rightarrow> int \<Rightarrow> ustr" where
  "port_description_show spec port =
     fmt (cc_port_description_show_cmd spec) [(''iface'', iface spec port)]"

definition port_speed_cmd :: "cli_model_spec \<Rightarrow> port_speed \<Rightarrow> ustr py" where
  "port_speed_cmd spec speed =
     (if ps_auto speed then Inr (lit (cc_port_speed_auto_cmd spec))
      else (case ps_mbps speed of
              None \<Rightarrow> Inl AssertionError
            | Some mbps \<Rightarrow>
                Inr (fmt (cc_port_speed_forced_cmd spec)
                  [(''rate'', fastpath_rate mbps),
                   (''duplex'', if ps_full speed = Some True then lit ''full'' else lit ''half'')])))"

definition logging_host_add :: "cli_model_spec \<Rightarrow> ustr \<Rightarrow> int \<Rightarrow> int \<Rightarrow> ustr py" where
  "logging_host_add spec address port severity =
     res_bind (syslog_severity_word severity) (\<lambda>word.
       Inr (fmt (cc_logging_host_add_cmd spec)
         [(''address'', address), (''kind'', address_kind address), (''port'', show_int port),
          (''severity'', word)]))"

definition logging_host_remove :: "cli_model_spec \<Rightarrow> int \<Rightarrow> ustr" where
  "logging_host_remove spec index =
     fmt (cc_logging_host_remove_cmd spec) [(''index'', show_int index)]"

definition logging_syslog :: "cli_model_spec \<Rightarrow> bool \<Rightarrow> ustr" where
  "logging_syslog spec enabled =
     lit (if enabled then cc_logging_syslog_cmd spec else cc_logging_no_syslog_cmd spec)"

definition port_flow_control :: "cli_model_spec \<Rightarrow> bool \<Rightarrow> ustr" where
  "port_flow_control spec enabled =
     lit (if enabled then cc_port_flow_control_cmd spec else cc_port_no_flow_control_cmd spec)"

definition poe_admin :: "cli_model_spec \<Rightarrow> bool \<Rightarrow> ustr" where
  "poe_admin spec on = lit (if on then cc_poe_enable_cmd spec else cc_poe_disable_cmd spec)"

definition port_admin :: "cli_model_spec \<Rightarrow> bool \<Rightarrow> ustr" where
  "port_admin spec enabled =
     lit (if enabled then cc_port_enable_cmd spec else cc_port_disable_cmd spec)"

definition mgmt_ip :: "cli_model_spec \<Rightarrow> ustr \<Rightarrow> ustr \<Rightarrow> ustr \<Rightarrow> ustr list \<times> ustr list" where
  "mgmt_ip spec address netmask gateway =
     (let kv = [(''address'', address), (''netmask'', netmask), (''gateway'', gateway)]
      in (map (\<lambda>c. fmt c kv) (cc_mgmt_ip_exec_cmds spec),
          map (\<lambda>c. fmt c kv) (cc_mgmt_ip_config_cmds spec)))"

section \<open>Lookups\<close>

record scp_profile =
  sp_model_key :: string
  sp_crypto :: string
  sp_writemem_stuff :: bool
  sp_verify_port :: int

definition SCP_CERT_PROFILES :: "(string, scp_profile) dict" where
  "SCP_CERT_PROFILES = map (\<lambda>p. (sp_model_key p, p))
     [\<lparr>sp_model_key = ''m4300-24x'', sp_crypto = ''modern'', sp_writemem_stuff = False, sp_verify_port = 443\<rparr>,
      \<lparr>sp_model_key = ''m4300-16x'', sp_crypto = ''modern'', sp_writemem_stuff = False, sp_verify_port = 49152\<rparr>,
      \<lparr>sp_model_key = ''gsm7252ps'', sp_crypto = ''legacy'', sp_writemem_stuff = True, sp_verify_port = 443\<rparr>]"

definition scp_cert_profile :: "switch_model \<Rightarrow> scp_profile py" where
  "scp_cert_profile m =
     (if CLI_BACKENDS \<inter> m_backends m = {} then Inl UnsupportedCapabilityError
      else (case dict_get SCP_CERT_PROFILES (m_key m) of
              Some p \<Rightarrow> Inr p | None \<Rightarrow> Inl UnsupportedCapabilityError))"

definition cli_spec :: "switch_model \<Rightarrow> cli_model_spec py" where
  "cli_spec m =
     (if CLI_BACKENDS \<inter> m_backends m = {} then Inl UnsupportedCapabilityError
      else (case dict_get CLI_SPECS (m_key m) of
              Some s \<Rightarrow> Inr s | None \<Rightarrow> Inl UnsupportedCapabilityError))"

end
