(* ===== verification/Cli_Parse.thy ===== *)
theory Cli_Parse
  imports Cli_Commands
begin

text \<open>
  The parsers of FASTPATH \<open>show\<close> output (\<open>protocols/cli/parse.py\<close>): the dotted
  label lines, the fixed-width tables cut by their ruler, and one parser per
  command turning them into the library's records.
\<close>

section \<open>Primitives\<close>

definition LABEL_RE :: re where
  "LABEL_RE = re_seq [Many is_space 0, Grp (Few any_char 1), Many is_space 0,
     Many (\<lambda>c. c = 46) 2, Many is_space 0, Grp (Few any_char 0), Many is_space 0, Eos]"

definition RULER_RE :: re where
  "RULER_RE = re_seq [Many (\<lambda>c. c = 32 \<or> c = 9) 0, Many (\<lambda>c. c = 45) 2,
     Many (\<lambda>c. c = 45 \<or> c = 32 \<or> c = 9) 0, Eos]"

definition PHYS_IFACE_RE :: re where
  "PHYS_IFACE_RE = re_seq [Grp (Many is_digit 1), re_lit ''/0/'', Grp (Many is_digit 1), Eos]"

definition SMART_IFACE_RE :: re where
  "SMART_IFACE_RE = re_seq [Many is_digit 1, re_lit ''/'', May (re_lit ''x''), re_lit ''g'',
     Grp (Many is_digit 1), Eos]"

definition HEX_PAIR :: re where
  "HEX_PAIR = Seq (Cls is_hex) (Cls is_hex)"

definition MAC_TEXT_RE :: re where
  "MAC_TEXT_RE = re_seq (concat (replicate 5 [HEX_PAIR, re_lit '':'']) @ [HEX_PAIR, Eos])"

definition labelled_values :: "ustr \<Rightarrow> (ustr, ustr) dict" where
  "labelled_values t =
     fold (\<lambda>line out.
        case re_match LABEL_RE line of
          None \<Rightarrow> out
        | Some g \<Rightarrow> dict_set (strip (grp g 0)) (strip (grp g 1)) out)
      (splitlines t) []"

text \<open>
  The start of each dash run of a ruler; a column reaches to the start of the
  next one, the last to the end of the line.
\<close>

fun ruler_starts :: "nat \<Rightarrow> bool \<Rightarrow> ustr \<Rightarrow> nat list" where
  "ruler_starts i inside [] = []"
| "ruler_starts i inside (c # cs) =
     (if c = 45 then (if inside then [] else [i]) @ ruler_starts (Suc i) True cs
      else ruler_starts (Suc i) False cs)"

fun spans_of :: "nat list \<Rightarrow> (nat \<times> nat option) list" where
  "spans_of [] = []"
| "spans_of [s] = [(s, None)]"
| "spans_of (s # t # ss) = (s, Some t) # spans_of (t # ss)"

definition ruler_spans :: "ustr \<Rightarrow> (nat \<times> nat option) list" where
  "ruler_spans ruler = spans_of (ruler_starts 0 False ruler)"

definition slice_cell :: "ustr \<Rightarrow> nat \<times> nat option \<Rightarrow> ustr" where
  "slice_cell row span =
     strip (case snd span of Some e \<Rightarrow> drop (fst span) (take e row) | None \<Rightarrow> drop (fst span) row)"

definition slice_row :: "(nat \<times> nat option) list \<Rightarrow> ustr \<Rightarrow> ustr list" where
  "slice_row spans row = map (slice_cell row) spans"

definition is_ruler :: "ustr \<Rightarrow> bool" where
  "is_ruler line \<longleftrightarrow> re_matches RULER_RE line"

definition is_blank :: "ustr \<Rightarrow> bool" where
  "is_blank line \<longleftrightarrow> strip line = []"

text \<open>The lines from the one that contains the given text on, and all of them without one.\<close>

definition lines_after :: "ustr option \<Rightarrow> ustr \<Rightarrow> ustr list" where
  "lines_after after t =
     (case after of
        None \<Rightarrow> splitlines t
      | Some a \<Rightarrow> dropWhile (\<lambda>line. \<not> contains a line) (splitlines t))"

definition iter_table_rows :: "ustr option \<Rightarrow> ustr \<Rightarrow> ustr list list" where
  "iter_table_rows after t =
     (case dropWhile (\<lambda>line. \<not> is_ruler line) (lines_after after t) of
        [] \<Rightarrow> []
      | ruler # body \<Rightarrow>
          map (slice_row (ruler_spans ruler))
            (takeWhile (\<lambda>line. \<not> (is_blank line \<or> is_ruler line)) body))"

text \<open>\<open>re.sub(r"\s+", " ", " ".join(p for p in pieces if p))\<close>.\<close>

fun collapse_spaces :: "bool \<Rightarrow> ustr \<Rightarrow> ustr" where
  "collapse_spaces inside [] = []"
| "collapse_spaces inside (c # cs) =
     (if is_space c then (if inside then [] else [32]) @ collapse_spaces True cs
      else c # collapse_spaces False cs)"

text \<open>
  The header names: the run of lines directly above the ruler, found from the
  ruler upwards through all lines of the text, cut by the ruler.
\<close>

definition header_columns :: "ustr option \<Rightarrow> ustr \<Rightarrow> ustr list" where
  "header_columns after t =
     (let ls = splitlines t;
          i0 = (case after of None \<Rightarrow> 0
                | Some a \<Rightarrow> length (takeWhile (\<lambda>line. \<not> contains a line) ls));
          i = i0 + length (takeWhile (\<lambda>line. \<not> is_ruler line) (drop i0 ls))
      in if length ls \<le> i then []
         else (let header = rev (takeWhile (\<lambda>line. \<not> is_blank line \<and> \<not> is_ruler line) (rev (take i ls)))
               in map (\<lambda>span.
                    collapse_spaces False
                      (join [32] (filter (\<lambda>p. p \<noteq> []) (map (\<lambda>line. slice_cell line span) header))))
                  (ruler_spans (ls ! i))))"

definition phys_port :: "ustr \<Rightarrow> int option py" where
  "phys_port ifname =
     (let s = strip ifname in
      case re_match PHYS_IFACE_RE s of
        Some g \<Rightarrow> res_bind (int_group (grp g 1)) (\<lambda>n. Inr (Some n))
      | None \<Rightarrow>
     (case re_match SMART_IFACE_RE s of
        Some g \<Rightarrow> res_bind (int_group (grp g 0)) (\<lambda>n. Inr (Some n))
      | None \<Rightarrow> Inr None))"

definition keep_some :: "'a option list \<Rightarrow> 'a list" where
  "keep_some xs = concat (map (\<lambda>x. case x of None \<Rightarrow> [] | Some y \<Rightarrow> [y]) xs)"

text \<open>A loop over the rows of a table that appends or goes on: \<open>None\<close> is its \<open>continue\<close>.\<close>

definition collect_rows :: "(ustr list \<Rightarrow> 'a option py) \<Rightarrow> ustr list list \<Rightarrow> 'a list py" where
  "collect_rows f rows = res_bind (res_map f rows) (\<lambda>xs. Inr (keep_some xs))"

section \<open>Identity\<close>

text \<open>\<open>a or b\<close> on an optional text: the first that is there and not empty.\<close>

definition or_text :: "ustr option \<Rightarrow> ustr option \<Rightarrow> ustr option" where
  "or_text a b = (case a of Some t \<Rightarrow> if t \<noteq> [] then a else b | None \<Rightarrow> b)"

definition parse_version :: "ustr \<Rightarrow> (string, switch_model) dict \<Rightarrow> detected_model" where
  "parse_version t models =
     (let fields = labelled_values t;
          descr = or_text (dict_get fields (lit ''System Description''))
                    (dict_get fields (lit ''Machine Model''))
      in case opt_or_none descr of
           None \<Rightarrow> \<lparr>dm_key = None, dm_sys_descr = None, dm_sys_object_id = None\<rparr>
         | Some d \<Rightarrow> \<lparr>dm_key = detect_model_from_sysdescr (Some d) models, dm_sys_descr = Some d,
                     dm_sys_object_id = None\<rparr>)"

section \<open>Ports\<close>

definition SPEED_RE :: re where
  "SPEED_RE = re_seq [Grp (Many is_digit 1), Many is_space 0,
     Grp (May (Cls (\<lambda>c. c \<in> {71, 103, 77, 109})))]"

definition speed_mbps :: "ustr \<Rightarrow> int option py" where
  "speed_mbps phys_status =
     (case re_match SPEED_RE (strip phys_status) of
        None \<Rightarrow> Inr None
      | Some g \<Rightarrow>
          res_bind (int_group (grp g 0)) (\<lambda>value.
            Inr (Some (if to_upper (grp g 1) = lit ''G'' then value * 1000 else value))))"

definition duplex :: "ustr \<Rightarrow> bool option" where
  "duplex phys_status =
     (let t = lower (strip phys_status) in
      if contains (lit ''full'') t then Some True
      else if contains (lit ''half'') t then Some False
      else None)"

definition parse_physical_mode :: "ustr \<Rightarrow> port_speed option py" where
  "parse_physical_mode cell =
     (let t = strip cell in
      if t = [] then Inr None
      else if lower t = lit ''auto'' then res_bind (mk_port_speed True None None) (\<lambda>s. Inr (Some s))
      else res_bind (speed_mbps t) (\<lambda>speed.
             case (speed, duplex t) of
               (Some rate, Some full) \<Rightarrow>
                 res_bind (mk_port_speed False (Some rate) (Some full)) (\<lambda>s. Inr (Some s))
             | _ \<Rightarrow> Inr None))"

text \<open>\<open>next((i for i, x in enumerate(xs) if p(x)), None)\<close>.\<close>

fun find_index :: "('a \<Rightarrow> bool) \<Rightarrow> 'a list \<Rightarrow> nat option" where
  "find_index p [] = None"
| "find_index p (x # xs) = (if p x then Some 0 else map_option Suc (find_index p xs))"

text \<open>The body of the loop.\<close>

definition port_row :: "nat option \<Rightarrow> ustr list \<Rightarrow> port_status option py" where
  "port_row flow_col cells =
     (if length cells \<le> 5 then Inr None
      else res_bind (phys_port (cells ! 0)) (\<lambda>found. case found of
              None \<Rightarrow> Inr None
            | Some port \<Rightarrow>
                let up = lower (strip (cells ! 5)) = lit ''up'' in
                res_bind (if up then speed_mbps (cells ! 4) else Inr None) (\<lambda>speed.
                res_bind (parse_physical_mode (cells ! 3)) (\<lambda>mode.
                  Inr (Some
                    \<lparr>st_port = port, st_name = Some (cells ! 0),
                     st_admin_enabled = (lower (strip (cells ! 2)) = lit ''enable''),
                     st_link_up = up,
                     st_speed_mbps = speed,
                     st_description = None,
                     st_full_duplex = (if up then duplex (cells ! 4) else None),
                     st_flow_control =
                       (case flow_col of
                          Some i \<Rightarrow> if i < length cells
                                    then Some (lower (strip (cells ! i)) = lit ''enable'') else None
                        | None \<Rightarrow> None),
                     st_speed_config = mode, st_oper_status = None\<rparr>)))))"

definition parse_port_status :: "ustr \<Rightarrow> port_status list py" where
  "parse_port_status t =
     (let flow_col = find_index (\<lambda>name. contains (lit ''flow'') (lower name)) (header_columns None t)
      in collect_rows (port_row flow_col) (iter_table_rows None t))"

section \<open>VLANs\<close>

definition parse_vlan_brief :: "ustr \<Rightarrow> (int \<times> ustr) list" where
  "parse_vlan_brief t =
     keep_some (map (\<lambda>cells.
       case (case cells of [] \<Rightarrow> None | c # _ \<Rightarrow> py_int c) of
         None \<Rightarrow> None
       | Some vid \<Rightarrow> Some (vid, if 1 < length cells then cells ! 1 else []))
     (iter_table_rows None t))"

definition VLAN_HEADER_RE :: re where
  "VLAN_HEADER_RE = re_seq [re_lit ''VLAN ID:'', Many is_space 0, Grp (Many is_digit 1)]"

definition VLAN_NAME_RE :: re where
  "VLAN_NAME_RE = re_seq [re_lit ''VLAN Name:'', Many is_space 0, Grp (Many any_char 0)]"

text \<open>One row's effect on the two port sets.\<close>

definition vlan_detail_row :: "ustr list \<Rightarrow> int set \<times> int set \<Rightarrow> (int set \<times> int set) py" where
  "vlan_detail_row cells acc =
     (if length cells \<le> 3 then Inr acc
      else res_bind (phys_port (cells ! 0)) (\<lambda>found. Inr (case found of
              None \<Rightarrow> acc
            | Some port \<Rightarrow>
                if lower (strip (cells ! 1)) \<noteq> lit ''include'' then acc
                else if lower (strip (cells ! 3)) = lit ''tagged''
                then (insert port (fst acc), snd acc)
                else (fst acc, insert port (snd acc)))))"

fun vlan_detail_rows :: "ustr list list \<Rightarrow> int set \<times> int set \<Rightarrow> (int set \<times> int set) py" where
  "vlan_detail_rows [] acc = Inr acc"
| "vlan_detail_rows (cells # rows) acc = res_bind (vlan_detail_row cells acc) (vlan_detail_rows rows)"

definition parse_vlan_detail :: "ustr option \<Rightarrow> ustr \<Rightarrow> vlan_info py" where
  "parse_vlan_detail name t =
     (let page_name = map_option (\<lambda>g. strip (grp g 0)) (re_search VLAN_NAME_RE t) in
      res_bind (case re_search VLAN_HEADER_RE t of Some g \<Rightarrow> int_group (grp g 0) | None \<Rightarrow> Inr 0) (\<lambda>vid.
      res_bind (vlan_detail_rows (iter_table_rows None t) ({}, {})) (\<lambda>sets.
        Inr \<lparr>vi_vlan_id = vid,
             vi_name = (case name of Some n \<Rightarrow> Some n | None \<Rightarrow> page_name),
             vi_member_ports = fst sets \<union> snd sets,
             vi_tagged_ports = fst sets, vi_untagged_ports = snd sets\<rparr>)))"

definition pvid_row :: "ustr list \<Rightarrow> (int \<times> int) option py" where
  "pvid_row cells =
     (if length cells \<le> 1 then Inr None
      else res_bind (phys_port (cells ! 0)) (\<lambda>found.
             Inr (case (found, py_int (cells ! 1)) of
                    (Some port, Some pvid) \<Rightarrow> Some (port, pvid)
                  | _ \<Rightarrow> None)))"

definition cli_pvids :: "ustr \<Rightarrow> (int \<times> int) list py" where
  "cli_pvids t = collect_rows pvid_row (iter_table_rows None t)"

section \<open>Neighbours and PoE\<close>

definition parse_mac_table :: "ustr \<Rightarrow> mac_entry list" where
  "parse_mac_table t =
     keep_some (map (\<lambda>cells.
       if length cells \<le> 3 then None
       else (let mac = to_upper (strip (cells ! 1)) in
             if \<not> re_matches MAC_TEXT_RE mac then None
             else map_option (\<lambda>ifindex.
                    \<lparr>me_mac = mac, me_port = ifindex, me_vlan_id = py_int (cells ! 0)\<rparr>)
                  (py_int (cells ! 3))))
     (iter_table_rows None t))"

definition lldp_row :: "ustr list \<Rightarrow> lldp_neighbor option py" where
  "lldp_row cells =
     (if cells = [] then Inr None
      else res_bind (phys_port (cells ! 0)) (\<lambda>found. Inr (case found of
               None \<Rightarrow> None
             | Some port \<Rightarrow>
                 if length cells \<le> 4 \<or> strip (cells ! 2) = [] then None
                 else Some
                   \<lparr>ln_local_port = port,
                    ln_remote_sys_name = opt_or_none (Some (strip (cells ! 4))),
                    ln_remote_port_desc = None,
                    ln_remote_chassis_id = opt_or_none (Some (to_upper (strip (cells ! 2)))),
                    ln_remote_port_id = opt_or_none (Some (strip (cells ! 3)))\<rparr>)))"

definition cli_lldp :: "ustr \<Rightarrow> lldp_neighbor list py" where
  "cli_lldp t = collect_rows lldp_row (iter_table_rows None t)"

definition POE_DETECT_TEXT :: "(ustr \<times> poe_detect) list" where
  "POE_DETECT_TEXT =
     [(lit ''delivering'', PoeDelivering), (lit ''searching'', PoeSearching),
      (lit ''disabled'', PoeDisabled), (lit ''fault'', PoeFault)]"

definition poe_detect_of :: "ustr \<Rightarrow> poe_detect" where
  "poe_detect_of status =
     (case find (\<lambda>(k, v). contains k status) POE_DETECT_TEXT of
        Some (k, v) \<Rightarrow> v | None \<Rightarrow> PoeUnknown)"

definition poe_row :: "nat \<Rightarrow> nat \<Rightarrow> nat \<Rightarrow> ustr list \<Rightarrow> poe_status option py" where
  "poe_row intf_i mw_i status_i cells =
     (if length cells \<le> max intf_i (max mw_i status_i) then Inr None
      else res_bind (phys_port (cells ! intf_i)) (\<lambda>found. Inr (map_option (\<lambda>port.
             let detect = poe_detect_of (lower (strip (cells ! status_i))) in
             \<lparr>poe_port = port, poe_admin_enabled = (detect \<noteq> PoeDisabled),
              poe_detect_state = detect, poe_power_mw = py_int (cells ! mw_i)\<rparr>)
           found)))"

definition cli_poe :: "ustr \<Rightarrow> poe_status list py" where
  "cli_poe t =
     (let names = header_columns None t;
          col = (\<lambda>name. find_index (\<lambda>x. x = lit name) names)
      in case (col ''Intf'', col ''Power (mW)'', col ''Status'') of
           (Some intf_i, Some mw_i, Some status_i) \<Rightarrow>
             collect_rows (poe_row intf_i mw_i status_i) (iter_table_rows None t)
         | _ \<Rightarrow> Inr [])"

section \<open>Environment, services and users\<close>

definition temperature_row :: "ustr list \<Rightarrow> sensor option" where
  "temperature_row cells =
     (if length cells \<le> 3 then None
      else map_option (\<lambda>v.
             \<lparr>sn_name = strip (cells ! 2), sn_kind = lit ''temperature'', sn_value = Reading v,
              sn_unit = lit ''C''\<rparr>)
           (py_int (cells ! 3)))"

definition fan_row :: "ustr list \<Rightarrow> sensor option" where
  "fan_row cells =
     (if length cells \<le> 4 then None
      else map_option (\<lambda>v.
             \<lparr>sn_name = strip (cells ! 2), sn_kind = lit ''fan'', sn_value = Reading v,
              sn_unit = lit ''RPM''\<rparr>)
           (py_int (cells ! 4)))"

definition psu_row :: "ustr list \<Rightarrow> sensor option" where
  "psu_row cells =
     (if length cells \<le> 4 then None
      else Some
        \<lparr>sn_name = strip (cells ! 2), sn_kind = lit ''power'',
         sn_value = Reading (if lower (strip (cells ! 4)) = lit ''operational'' then 1 else 0),
         sn_unit = lit ''state''\<rparr>)"

definition parse_environment :: "ustr \<Rightarrow> sensor list" where
  "parse_environment t =
     (let psu_after = (if contains (lit ''Power supplies:'') t then lit ''Power supplies:''
                       else lit ''Power Modules:'')
      in keep_some (map temperature_row (iter_table_rows (Some (lit ''Temperature Sensors:'')) t))
         @ keep_some (map fan_row (iter_table_rows (Some (lit ''Fans:'')) t))
         @ keep_some (map psu_row (iter_table_rows (Some psu_after) t)))"

definition enabled_word :: "ustr \<Rightarrow> bool" where
  "enabled_word t \<longleftrightarrow> lower (strip t) \<in> {lit ''enabled'', lit ''enable'', lit ''yes''}"

record service_status =
  sv_name :: ustr
  sv_enabled :: bool
  sv_port :: "int option"

definition get_text :: "(ustr, ustr) dict \<Rightarrow> string \<Rightarrow> ustr" where
  "get_text d k = (case dict_get d (lit k) of Some v \<Rightarrow> v | None \<Rightarrow> [])"

definition rstrip_colon :: "ustr \<Rightarrow> ustr" where
  "rstrip_colon s = rev (dropWhile (\<lambda>c. c = 58) (rev s))"

definition parse_services :: "ustr \<Rightarrow> ustr \<Rightarrow> ustr \<Rightarrow> service_status list" where
  "parse_services http_text telnet_text ssh_text =
     (let http = labelled_values http_text;
          telnet = labelled_values telnet_text;
          ssh = dict_of (map (\<lambda>(k, v). (strip (rstrip_colon k), v)) (labelled_values ssh_text));
          service = (\<lambda>name d mode port.
            \<lparr>sv_name = lit name, sv_enabled = enabled_word (get_text d mode),
             sv_port = py_int (get_text d port)\<rparr>)
      in [service ''http'' http ''HTTP Mode (Unsecure)'' ''HTTP Port'',
          service ''https'' http ''HTTP Mode (Secure)'' ''Secure Port'',
          service ''telnet'' telnet ''Telnet Server Admin Mode'' ''Telnet Server Port'',
          service ''ssh'' ssh ''Administrative Mode'' ''SSH Port''])"

record switch_user =
  us_name :: ustr
  us_access_mode :: ustr
  us_privileged :: "bool option"
  us_snmpv3_access :: "ustr option"
  us_snmpv3_auth :: "ustr option"
  us_snmpv3_encryption :: "ustr option"

definition parse_users :: "ustr \<Rightarrow> switch_user list" where
  "parse_users t =
     keep_some (map (\<lambda>cells.
       if cells = [] \<or> strip (cells ! 0) = [] then None
       else (let p = map strip (take 5 (cells @ [[], [], [], []])) in
             Some \<lparr>us_name = p ! 0, us_access_mode = p ! 1,
                   us_privileged = privileged_access (p ! 1),
                   us_snmpv3_access = opt_or_none (Some (p ! 2)),
                   us_snmpv3_auth = opt_or_none (Some (p ! 3)),
                   us_snmpv3_encryption = opt_or_none (Some (p ! 4))\<rparr>))
     (iter_table_rows None t))"

section \<open>Remote logging, host name, management address, counters\<close>

definition colon_fields :: "ustr \<Rightarrow> (ustr, ustr) dict" where
  "colon_fields t =
     fold (\<lambda>line out.
        if 58 \<notin> set line then out
        else (let label = strip (part_before 58 line) in
              if label = [] then out
              else dict_set label (strip (part_after 58 line)) out))
      (splitlines t) []"

text \<open>\<open>int\<close> of a text \<open>isdigit\<close> accepts: it raises \<open>ValueError\<close> for a superscript digit
  and for too many digits.\<close>

definition int_of :: "ustr \<Rightarrow> int py" where
  "int_of s = (case py_int s of Some n \<Rightarrow> Inr n | None \<Rightarrow> Inl ValueError)"

definition syslog_row :: "ustr \<Rightarrow> syslog_server option py" where
  "syslog_row line =
     (let cells = split_words line in
      if length cells < 5 \<or> \<not> isdigit (cells ! 0) then Inr None
      else
        res_bind (if isdigit (cells ! 3) then int_of (cells ! 3) else Inr 0) (\<lambda>port.
        res_bind (syslog_severity (cells ! 2)) (\<lambda>severity.
        res_bind (int_of (cells ! 0)) (\<lambda>index.
          Inr (Some \<lparr>sl_host = cells ! 1, sl_port = port, sl_severity = severity,
                     sl_active = (lower (cells ! 4) = lit ''active''),
                     sl_index = Some index\<rparr>)))))"

definition parse_syslog :: "ustr \<Rightarrow> ustr \<Rightarrow> syslog_config py" where
  "parse_syslog logging_text hosts_text =
     (let fields = colon_fields logging_text in
      case (dict_get fields (lit ''Syslog Logging''),
            dict_get fields (lit ''Logging Client Local Port'')) of
        (Some mode, Some port_text) \<Rightarrow>
          if \<not> isdigit (strip port_text) then Inl (CliCommandError CliBadOutput)
          else
            res_bind (int_of (strip port_text)) (\<lambda>local_port.
            res_bind (res_map syslog_row (splitlines hosts_text)) (\<lambda>rows.
              Inr \<lparr>sg_enabled = (lower (strip mode) = lit ''enabled''), sg_local_port = local_port,
                   sg_servers = keep_some rows\<rparr>))
      | _ \<Rightarrow> Inl (CliCommandError CliBadOutput))"

definition parse_hostname :: "ustr \<Rightarrow> ustr py" where
  "parse_hostname t =
     (case dict_get (labelled_values t) (lit ''Host name'') of
        None \<Rightarrow> Inl (CliCommandError CliBadOutput)
      | Some name \<Rightarrow> Inr (strip name))"

definition parse_mgmt_ip :: "ustr \<Rightarrow> mgmt_ip_config" where
  "parse_mgmt_ip t =
     (let fields = labelled_values t;
          proto = to_upper (strip (case or_text (dict_get fields (lit ''Configured IPv4 Protocol''))
                                          (dict_get fields (lit ''Method'')) of
                                     Some v \<Rightarrow> v | None \<Rightarrow> []));
          mac = to_upper (strip (get_text fields ''Burned In MAC Address''))
      in \<lparr>ip_mode_of = (if proto = lit ''DHCP'' then IpDhcp
                       else if proto \<noteq> [] then IpStatic else IpUnknown),
          ip_address = opt_or_none (dict_get fields (lit ''IP Address'')),
          ip_netmask = opt_or_none (dict_get fields (lit ''Subnet Mask'')),
          ip_gateway = opt_or_none (dict_get fields (lit ''Default Gateway'')),
          ip_base_mac = (if re_matches MAC_TEXT_RE mac then Some mac else None)\<rparr>)"

definition parse_interface_counters :: "ustr \<Rightarrow> int \<Rightarrow> port_stats" where
  "parse_interface_counters t port =
     (let fields = labelled_values t in
      \<lparr>ct_port = port,
       ct_rx_bytes = py_int (get_text fields ''Total Packets Received (Octets)''),
       ct_tx_bytes = py_int (get_text fields ''Total Packets Transmitted (Octets)''),
       ct_rx_packets = py_int (get_text fields ''Unicast Packets Received''),
       ct_tx_packets = py_int (get_text fields ''Unicast Packets Transmitted''),
       ct_rx_errors = py_int (get_text fields ''Total Packets Received with MAC Errors''),
       ct_tx_errors = py_int (get_text fields ''Total Transmit Errors'')\<rparr>)"

definition parse_port_description :: "ustr \<Rightarrow> ustr option py" where
  "parse_port_description t =
     (case dict_get (labelled_values t) (lit ''Description'') of
        None \<Rightarrow> Inl (CliCommandError CliBadOutput)
      | Some v \<Rightarrow> Inr (opt_or_none (Some v)))"

end
