(* ===== verification/Cli_Client.thy ===== *)
theory Cli_Client
  imports Cli_Parse Snmp_Writer
begin

text \<open>
  The reader and the writer of the command-line backend (\<open>cli_read.py\<close>,
  \<open>cli_write.py\<close>) over a session: what \<open>CliSession\<close> promises is the three
  operations of the record \<open>cli_session\<close>, each able to raise and to change the
  world behind it. The PoE operations poll the status against a clock.
\<close>

section \<open>The session and the reader\<close>

record 'w cli_session =
  cs_run :: "ustr \<Rightarrow> ('w, exn, ustr) io"
  cs_scp_copy :: "ustr \<Rightarrow> ustr \<Rightarrow> ('w, exn, ustr) io"
  cs_write_memory :: "ustr \<Rightarrow> bool \<Rightarrow> ('w, exn, ustr) io"

record cli_reader =
  cr_spec :: cli_model_spec
  cr_model :: switch_model

definition mk_cli_reader :: "switch_model \<Rightarrow> cli_reader py" where
  "mk_cli_reader m = res_bind (cli_spec m) (\<lambda>spec. Inr \<lparr>cr_spec = spec, cr_model = m\<rparr>)"

definition run_show :: "'w cli_session \<Rightarrow> string \<Rightarrow> ('w, exn, ustr) io" where
  "run_show ss command = cs_run ss (lit command)"

definition cli_get_ports :: "'w cli_session \<Rightarrow> 'r cli_reader_scheme \<Rightarrow> ('w, exn, port_status list) io" where
  "cli_get_ports ss R =
     io_bind (run_show ss (cc_port_status_cmd (cr_spec R))) (\<lambda>t. io_lift (parse_port_status t))"

fun cli_stats_of ::
    "'w cli_session \<Rightarrow> 'r cli_reader_scheme \<Rightarrow> port_status list \<Rightarrow> ('w, exn, port_stats list) io" where
  "cli_stats_of ss R [] = io_return []"
| "cli_stats_of ss R (st # sts) =
     io_bind (cs_run ss (interface_stats (cr_spec R) (st_port st))) (\<lambda>t.
     io_bind (cli_stats_of ss R sts) (\<lambda>rest.
       io_return (parse_interface_counters t (st_port st) # rest)))"

definition cli_get_stats :: "'w cli_session \<Rightarrow> 'r cli_reader_scheme \<Rightarrow> ('w, exn, port_stats list) io" where
  "cli_get_stats ss R = io_bind (cli_get_ports ss R) (cli_stats_of ss R)"

fun cli_vlans_of ::
    "'w cli_session \<Rightarrow> 'r cli_reader_scheme \<Rightarrow> (int \<times> ustr) list \<Rightarrow> ('w, exn, vlan_info list) io" where
  "cli_vlans_of ss R [] = io_return []"
| "cli_vlans_of ss R ((vid, name) # brief) =
     io_bind (cs_run ss (vlan_detail (cr_spec R) vid)) (\<lambda>detail.
     io_bind (io_lift (parse_vlan_detail (Some name) detail)) (\<lambda>v.
     io_bind (cli_vlans_of ss R brief) (\<lambda>rest.
       io_return (v # rest))))"

definition cli_get_vlans :: "'w cli_session \<Rightarrow> 'r cli_reader_scheme \<Rightarrow> ('w, exn, vlan_info list) io" where
  "cli_get_vlans ss R =
     io_bind (run_show ss (cc_vlan_brief_cmd (cr_spec R))) (\<lambda>t. cli_vlans_of ss R (parse_vlan_brief t))"

definition cli_get_pvids :: "'w cli_session \<Rightarrow> 'r cli_reader_scheme \<Rightarrow> ('w, exn, (int \<times> int) list) io" where
  "cli_get_pvids ss R = io_bind (run_show ss (cc_pvid_cmd (cr_spec R))) (\<lambda>t. io_lift (cli_pvids t))"

definition cli_get_macs :: "'w cli_session \<Rightarrow> 'r cli_reader_scheme \<Rightarrow> ('w, exn, mac_entry list) io" where
  "cli_get_macs ss R =
     io_bind (io_when_raise (\<not> has_mac_table (cr_model R)) UnsupportedCapabilityError) (\<lambda>_.
     io_bind (run_show ss (cc_mac_table_cmd (cr_spec R))) (\<lambda>t. io_return (parse_mac_table t)))"

definition cli_get_lldp :: "'w cli_session \<Rightarrow> 'r cli_reader_scheme \<Rightarrow> ('w, exn, lldp_neighbor list) io" where
  "cli_get_lldp ss R = io_bind (run_show ss (cc_lldp_cmd (cr_spec R))) (\<lambda>t. io_lift (cli_lldp t))"

definition cli_get_poe :: "'w cli_session \<Rightarrow> 'r cli_reader_scheme \<Rightarrow> ('w, exn, poe_status list) io" where
  "cli_get_poe ss R =
     io_bind (io_when_raise (m_poe_port_count (cr_model R) = 0) UnsupportedCapabilityError) (\<lambda>_.
     io_bind (run_show ss (cc_poe_cmd (cr_spec R))) (\<lambda>t. io_lift (cli_poe t)))"

definition cli_get_sensors :: "'w cli_session \<Rightarrow> 'r cli_reader_scheme \<Rightarrow> ('w, exn, sensor list) io" where
  "cli_get_sensors ss R =
     io_bind (run_show ss (cc_environment_cmd (cr_spec R))) (\<lambda>t. io_return (parse_environment t))"

definition cli_get_mgmt_ip :: "'w cli_session \<Rightarrow> 'r cli_reader_scheme \<Rightarrow> ('w, exn, mgmt_ip_config) io" where
  "cli_get_mgmt_ip ss R =
     io_bind (run_show ss (cc_network_cmd (cr_spec R))) (\<lambda>t. io_return (parse_mgmt_ip t))"

definition cli_get_services :: "'w cli_session \<Rightarrow> 'r cli_reader_scheme \<Rightarrow> ('w, exn, service_status list) io" where
  "cli_get_services ss R =
     io_bind (run_show ss (cc_http_service_cmd (cr_spec R))) (\<lambda>http.
     io_bind (run_show ss (cc_telnet_service_cmd (cr_spec R))) (\<lambda>telnet.
     io_bind (run_show ss (cc_ssh_service_cmd (cr_spec R))) (\<lambda>ssh.
       io_return (parse_services http telnet ssh))))"

definition cli_get_users :: "'w cli_session \<Rightarrow> 'r cli_reader_scheme \<Rightarrow> ('w, exn, switch_user list) io" where
  "cli_get_users ss R = io_bind (run_show ss (cc_users_cmd (cr_spec R))) (\<lambda>t. io_return (parse_users t))"

definition cli_get_syslog :: "'w cli_session \<Rightarrow> 'r cli_reader_scheme \<Rightarrow> ('w, exn, syslog_config) io" where
  "cli_get_syslog ss R =
     io_bind (run_show ss (cc_logging_cmd (cr_spec R))) (\<lambda>t.
     io_bind (run_show ss (cc_logging_hosts_cmd (cr_spec R))) (\<lambda>h. io_lift (parse_syslog t h)))"

definition cli_get_hostname :: "'w cli_session \<Rightarrow> 'r cli_reader_scheme \<Rightarrow> ('w, exn, ustr) io" where
  "cli_get_hostname ss R =
     io_bind (run_show ss (cc_hosts_cmd (cr_spec R))) (\<lambda>t. io_lift (parse_hostname t))"

definition cli_identify :: "'w cli_session \<Rightarrow> 'r cli_reader_scheme \<Rightarrow> ('w, exn, detected_model) io" where
  "cli_identify ss R =
     io_bind (run_show ss (cc_version_cmd (cr_spec R))) (\<lambda>t. io_return (parse_version t MODELS))"

section \<open>The certificate deploy\<close>

definition scp_source_url :: "ustr \<Rightarrow> ustr \<Rightarrow> ustr \<Rightarrow> ustr" where
  "scp_source_url scp_source remote_dir filename =
     lit ''scp://'' @ scp_source @ remote_dir @ lit ''/'' @ filename"

definition copy_cmd :: "ustr \<Rightarrow> ustr \<Rightarrow> ustr \<Rightarrow> string \<Rightarrow> ustr" where
  "copy_cmd scp_source remote_dir filename dest =
     lit ''copy '' @ scp_source_url scp_source remote_dir filename @ lit '' '' @ lit dest"

definition deploy_certificate_scp ::
    "'w cli_session \<Rightarrow> ustr \<Rightarrow> ustr \<Rightarrow> ustr \<Rightarrow> ustr \<Rightarrow> bool \<Rightarrow> bool \<Rightarrow> ('w, exn, unit) io" where
  "deploy_certificate_scp ss scp_source scp_password remote_dir base chain writemem_stuff =
     io_bind (cs_run ss (lit ''no ip http secure-server'')) (\<lambda>_.
     io_bind (cs_scp_copy ss
       (copy_cmd scp_source remote_dir (base @ lit ''-server.pem'') ''nvram:sslpem-server'') scp_password) (\<lambda>_.
     io_bind (if chain
       then io_bind (cs_scp_copy ss
         (copy_cmd scp_source remote_dir (base @ lit ''-root.pem'') ''nvram:sslpem-root'') scp_password)
         (\<lambda>_. io_return ())
       else io_return ()) (\<lambda>_.
     io_bind (cs_run ss (lit ''ip http secure-server'')) (\<lambda>_.
     io_bind (cs_write_memory ss (lit ''write memory'') writemem_stuff) (\<lambda>_. io_return ())))))"

section \<open>Running commands\<close>

record cli_writer = cli_reader +
  cw_protected_ports :: "int set"

definition mk_cli_writer :: "switch_model \<Rightarrow> int set \<Rightarrow> cli_writer py" where
  "mk_cli_writer m protected =
     res_bind (cli_spec m) (\<lambda>spec.
       Inr \<lparr>cr_spec = spec, cr_model = m, cw_protected_ports = protected\<rparr>)"

definition cli_guard :: "cli_writer \<Rightarrow> int \<Rightarrow> bool \<Rightarrow> unit py" where
  "cli_guard W port force =
     (if port \<in> cw_protected_ports W \<and> \<not> force then Inl ProtectedPortError else Inr ())"

definition cli_run :: "'w cli_session \<Rightarrow> ustr \<Rightarrow> ('w, exn, unit) io" where
  "cli_run ss command =
     io_bind (cs_run ss command) (\<lambda>t.
       io_when_raise (strip t \<noteq> []) (CliCommandError (CliRejected command (strip t))))"

fun run_body :: "'w cli_session \<Rightarrow> ustr list \<Rightarrow> ('w, exn, unit) io" where
  "run_body ss [] = io_return ()"
| "run_body ss (c # cs) = io_bind (cli_run ss c) (\<lambda>_. run_body ss cs)"

text \<open>
  \<open>_in_mode\<close>: the number of levels entered is known whether or not a command
  raised, and that many \<open>exit\<close>s follow in the \<open>finally\<close>, where an exception of
  the session itself replaces the first one.
\<close>

fun enter_modes :: "'w cli_session \<Rightarrow> ustr list \<Rightarrow> nat \<Rightarrow> 'w \<Rightarrow> ((exn, unit) res \<times> nat) \<times> 'w" where
  "enter_modes ss [] n w = ((Inr (), n), w)"
| "enter_modes ss (c # cs) n w =
     (case cli_run ss c w of
        (Inl e, w') \<Rightarrow> ((Inl e, n), w')
      | (Inr _, w') \<Rightarrow> enter_modes ss cs (Suc n) w')"

fun exit_modes :: "'w cli_session \<Rightarrow> ustr \<Rightarrow> nat \<Rightarrow> ('w, exn, unit) io" where
  "exit_modes ss exit_cmd 0 = io_return ()"
| "exit_modes ss exit_cmd (Suc n) =
     io_bind (cs_run ss exit_cmd) (\<lambda>_. exit_modes ss exit_cmd n)"

definition in_mode :: "'w cli_session \<Rightarrow> 'r cli_reader_scheme \<Rightarrow> ustr list \<Rightarrow> ustr list \<Rightarrow> ('w, exn, unit) io" where
  "in_mode ss W enter body w =
     (let ((r, n), w1) = enter_modes ss enter 0 w;
          (r2, w2) = (case r of Inl e \<Rightarrow> (Inl e, w1) | Inr _ \<Rightarrow> run_body ss body w1)
      in case exit_modes ss (lit (cc_exit_cmd (cr_spec W))) n w2 of
           (Inl e, w3) \<Rightarrow> (Inl e, w3)
         | (Inr _, w3) \<Rightarrow> (r2, w3))"

definition general_mode :: "cli_writer \<Rightarrow> ustr list" where
  "general_mode W =
     (case cc_switchport_general_cmd (cr_spec W) of None \<Rightarrow> [] | Some cmd \<Rightarrow> [lit cmd])"

definition cli_vlan :: "'w cli_session \<Rightarrow> cli_writer \<Rightarrow> int \<Rightarrow> ('w, exn, vlan_info option) io" where
  "cli_vlan ss W vlan =
     io_bind (cli_get_vlans ss W) (\<lambda>vs. io_return (find (\<lambda>v. vi_vlan_id v = vlan) vs))"

definition cli_port_mode :: "vlan_info option \<Rightarrow> int \<Rightarrow> vlan_mode" where
  "cli_port_mode info port =
     (case info of
        None \<Rightarrow> VlanExcluded
      | Some v \<Rightarrow> if port \<notin> vi_member_ports v then VlanExcluded
                  else if port \<in> vi_tagged_ports v then VlanTagged else VlanUntagged)"

definition config_mode :: "cli_writer \<Rightarrow> ustr list" where
  "config_mode W = [lit (cc_configure_cmd (cr_spec W))]"

definition interface_mode :: "cli_writer \<Rightarrow> int \<Rightarrow> ustr list" where
  "interface_mode W port =
     [lit (cc_configure_cmd (cr_spec W)), interface_enter (cr_spec W) port]"

definition vlan_mode_value :: "vlan_mode \<Rightarrow> ustr" where
  "vlan_mode_value m =
     (case m of VlanUntagged \<Rightarrow> lit ''untagged'' | VlanTagged \<Rightarrow> lit ''tagged''
        | VlanExcluded \<Rightarrow> lit ''excluded'')"

section \<open>VLANs\<close>

definition cli_create_vlan :: "'w cli_session \<Rightarrow> cli_writer \<Rightarrow> int \<Rightarrow> ustr \<Rightarrow> bool \<Rightarrow> ('w, exn, unit) io" where
  "cli_create_vlan ss W vlan name force =
     io_bind (cli_vlan ss W vlan) (\<lambda>prior.
     io_bind (in_mode ss W [lit (cc_vlan_database_cmd (cr_spec W))]
       [vlan_create (cr_spec W) vlan, vlan_name (cr_spec W) vlan name]) (\<lambda>_.
     io_bind (cli_vlan ss W vlan) (\<lambda>after.
       io_when_raise
         (case after of
            None \<Rightarrow> True
          | Some v \<Rightarrow> (case vi_name v of Some n \<Rightarrow> n | None \<Rightarrow> []) \<noteq> name)
         (WriteVerificationError (ev_vlan prior) (ev_vlan after)))))"

definition cli_delete_vlan :: "'w cli_session \<Rightarrow> cli_writer \<Rightarrow> int \<Rightarrow> bool \<Rightarrow> ('w, exn, unit) io" where
  "cli_delete_vlan ss W vlan force =
     io_bind (cli_vlan ss W vlan) (\<lambda>prior.
       case prior of
         None \<Rightarrow> io_raise (CliCommandError (CliNoVlan vlan))
       | Some b \<Rightarrow>
           io_bind (io_when_raise (\<not> force \<and> vi_member_ports b \<inter> cw_protected_ports W \<noteq> {})
             ProtectedPortError) (\<lambda>_.
           io_bind (in_mode ss W [lit (cc_vlan_database_cmd (cr_spec W))]
             [vlan_delete (cr_spec W) vlan]) (\<lambda>_.
           io_bind (cli_vlan ss W vlan) (\<lambda>after.
             io_when_raise (after \<noteq> None)
               (WriteVerificationError (ev_vlan prior) (ev_vlan after))))))"

definition membership_body :: "cli_writer \<Rightarrow> int \<Rightarrow> vlan_mode \<Rightarrow> ustr list" where
  "membership_body W vlan mode =
     general_mode W
     @ (if mode = VlanExcluded then [vlan_participation (cr_spec W) vlan False]
        else [vlan_participation (cr_spec W) vlan True,
              vlan_tagging (cr_spec W) vlan (mode = VlanTagged)])"

definition cli_set_vlan_membership ::
    "'w cli_session \<Rightarrow> cli_writer \<Rightarrow> int \<Rightarrow> int \<Rightarrow> vlan_mode \<Rightarrow> bool \<Rightarrow> ('w, exn, unit) io" where
  "cli_set_vlan_membership ss W vlan port mode force =
     io_bind (io_lift (cli_guard W port force)) (\<lambda>_.
     io_bind (cli_vlan ss W vlan) (\<lambda>prior.
       if prior = None then io_raise (CliCommandError (CliNoVlan vlan))
       else
         io_bind (in_mode ss W (interface_mode W port) (membership_body W vlan mode)) (\<lambda>_.
         io_bind (cli_vlan ss W vlan) (\<lambda>after.
         io_bind (io_when_raise (after = None)
           (WriteVerificationError (ev_vlan prior) (ev_vlan after))) (\<lambda>_.
           io_when_raise (cli_port_mode after port \<noteq> mode)
             (WriteVerificationError (EvText (vlan_mode_value (cli_port_mode prior port)))
                (EvText (vlan_mode_value (cli_port_mode after port)))))))))"

definition cli_set_pvid :: "'w cli_session \<Rightarrow> cli_writer \<Rightarrow> int \<Rightarrow> int \<Rightarrow> bool \<Rightarrow> ('w, exn, unit) io" where
  "cli_set_pvid ss W port vlan force =
     io_bind (io_lift (cli_guard W port force)) (\<lambda>_.
     io_bind (cli_get_vlans ss W) (\<lambda>vs.
     io_bind (io_when_raise (vlan \<notin> vi_vlan_id ` set vs) (CliCommandError (CliNoVlan vlan))) (\<lambda>_.
     io_bind (cli_get_pvids ss W) (\<lambda>prior.
     io_bind (in_mode ss W (interface_mode W port)
       (general_mode W @ [vlan_pvid (cr_spec W) vlan])) (\<lambda>_.
     io_bind (cli_get_pvids ss W) (\<lambda>after.
       io_when_raise (dict_get (dict_of after) port \<noteq> Some vlan)
         (WriteVerificationError (ev_int (dict_get (dict_of prior) port))
            (ev_int (dict_get (dict_of after) port)))))))))"

section \<open>Ports\<close>

definition cli_described :: "'w cli_session \<Rightarrow> cli_writer \<Rightarrow> int \<Rightarrow> ('w, exn, ustr option) io" where
  "cli_described ss W port =
     io_bind (cs_run ss (port_description_show (cr_spec W) port)) (\<lambda>t.
       io_lift (parse_port_description t))"

definition cli_set_port_description ::
    "'w cli_session \<Rightarrow> cli_writer \<Rightarrow> int \<Rightarrow> ustr \<Rightarrow> bool \<Rightarrow> ('w, exn, unit) io" where
  "cli_set_port_description ss W port description force =
     io_bind (io_lift (cli_guard W port force)) (\<lambda>_.
     io_bind (cli_described ss W port) (\<lambda>prior.
     io_bind (in_mode ss W (interface_mode W port)
       [port_description (cr_spec W) description]) (\<lambda>_.
     io_bind (cli_described ss W port) (\<lambda>after.
       io_when_raise (after \<noteq> opt_or_none (Some description))
         (WriteVerificationError (ev_text prior) (ev_text after))))))"

text \<open>A port's row of \<open>show port all\<close>, where the switch must have the port.\<close>

definition cli_port_status :: "'w cli_session \<Rightarrow> cli_writer \<Rightarrow> int \<Rightarrow> ('w, exn, port_status option) io" where
  "cli_port_status ss W port =
     io_bind (cli_get_ports ss W) (\<lambda>ps. io_return (find (\<lambda>p. st_port p = port) ps))"

definition cli_speed_config :: "'w cli_session \<Rightarrow> cli_writer \<Rightarrow> int \<Rightarrow> ('w, exn, port_speed option) io" where
  "cli_speed_config ss W port =
     io_bind (cli_port_status ss W port) (\<lambda>st.
       case st of None \<Rightarrow> io_raise (CliCommandError (CliNoPort port))
                | Some p \<Rightarrow> io_return (st_speed_config p))"

definition cli_flow_control :: "'w cli_session \<Rightarrow> cli_writer \<Rightarrow> int \<Rightarrow> ('w, exn, bool option) io" where
  "cli_flow_control ss W port =
     io_bind (cli_port_status ss W port) (\<lambda>st.
       case st of None \<Rightarrow> io_raise (CliCommandError (CliNoPort port))
                | Some p \<Rightarrow> io_return (st_flow_control p))"

definition ev_speed :: "port_speed option \<Rightarrow> evidence" where
  "ev_speed s = (case s of None \<Rightarrow> EvNone | Some p \<Rightarrow> EvSpeed (ps_auto p) (ps_mbps p) (ps_full p))"

definition ev_bool :: "bool option \<Rightarrow> evidence" where
  "ev_bool b = (case b of None \<Rightarrow> EvNone | Some x \<Rightarrow> EvBool x)"

definition cli_set_port_speed ::
    "'w cli_session \<Rightarrow> cli_writer \<Rightarrow> int \<Rightarrow> port_speed \<Rightarrow> bool \<Rightarrow> ('w, exn, unit) io" where
  "cli_set_port_speed ss W port speed force =
     io_bind (io_lift (cli_guard W port force)) (\<lambda>_.
     io_bind (io_when_raise (\<not> ps_auto speed \<and> ps_mbps speed = Some 1000)
       (CliCommandError CliNoForcedRate)) (\<lambda>_.
     io_bind (cli_speed_config ss W port) (\<lambda>prior.
     io_bind (io_lift (port_speed_cmd (cr_spec W) speed)) (\<lambda>command.
     io_bind (in_mode ss W (interface_mode W port) [command]) (\<lambda>_.
     io_bind (cli_speed_config ss W port) (\<lambda>after.
       io_when_raise (after \<noteq> Some speed)
         (WriteVerificationError (ev_speed prior) (ev_speed after))))))))"

definition cli_set_flow_control ::
    "'w cli_session \<Rightarrow> cli_writer \<Rightarrow> int \<Rightarrow> bool \<Rightarrow> bool \<Rightarrow> ('w, exn, unit) io" where
  "cli_set_flow_control ss W port enabled force =
     io_bind (io_lift (cli_guard W port force)) (\<lambda>_.
     io_bind (cli_flow_control ss W port) (\<lambda>prior.
     io_bind (in_mode ss W (interface_mode W port) [port_flow_control (cr_spec W) enabled]) (\<lambda>_.
     io_bind (cli_flow_control ss W port) (\<lambda>after.
       io_when_raise (after \<noteq> Some enabled)
         (WriteVerificationError (ev_bool prior) (ev_bool after))))))"

definition cli_set_port_enabled ::
    "'w cli_session \<Rightarrow> cli_writer \<Rightarrow> int \<Rightarrow> bool \<Rightarrow> bool \<Rightarrow> ('w, exn, unit) io" where
  "cli_set_port_enabled ss W port enabled force =
     io_bind (io_lift (if \<not> enabled then cli_guard W port force else Inr ())) (\<lambda>_.
     io_bind (cli_port_status ss W port) (\<lambda>prior.
     io_bind (in_mode ss W (interface_mode W port) [port_admin (cr_spec W) enabled]) (\<lambda>_.
     io_bind (cli_port_status ss W port) (\<lambda>after.
       io_when_raise (map_option st_admin_enabled after \<noteq> Some enabled)
         (WriteVerificationError (ev_port prior) (ev_port after))))))"

section \<open>PoE\<close>

definition cli_poe_status :: "'w cli_session \<Rightarrow> cli_writer \<Rightarrow> int \<Rightarrow> ('w, exn, poe_status option) io" where
  "cli_poe_status ss W port =
     io_bind (cli_get_poe ss W) (\<lambda>ps. io_return (find (\<lambda>p. poe_port p = port) ps))"

definition require_poe :: "cli_writer \<Rightarrow> unit py" where
  "require_poe W =
     (if m_poe_port_count (cr_model W) = 0 then Inl UnsupportedCapabilityError else Inr ())"

text \<open>
  The read-back of \<open>set_poe\<close>: the status is read until its admin state is the one
  asked for, and the last status read is the evidence when the clock runs out.
\<close>

partial_function (option) poll_admin ::
    "('w, exn, poe_status option) io \<Rightarrow> bool \<Rightarrow> poe_status option \<Rightarrow> ('w, exn, int) io
      \<Rightarrow> ('w, exn, unit) io \<Rightarrow> int \<Rightarrow> 'w \<Rightarrow> ((exn, unit) res \<times> 'w) option" where
  "poll_admin status on prior clock sleep deadline w =
     (case status w of
        (Inl e, w1) \<Rightarrow> Some (Inl e, w1)
      | (Inr after, w1) \<Rightarrow>
          if map_option poe_admin_enabled after = Some on then Some (Inr (), w1)
          else (case clock w1 of
                  (Inl e, w2) \<Rightarrow> Some (Inl e, w2)
                | (Inr t, w2) \<Rightarrow>
                    if deadline \<le> t
                    then Some (Inl (WriteVerificationError (ev_poe prior) (ev_poe after)), w2)
                    else (case sleep w2 of
                            (Inl e, w3) \<Rightarrow> Some (Inl e, w3)
                          | (Inr _, w3) \<Rightarrow> poll_admin status on prior clock sleep deadline w3)))"

definition cli_set_poe ::
    "'w cli_session \<Rightarrow> cli_writer \<Rightarrow> int \<Rightarrow> bool \<Rightarrow> bool \<Rightarrow> poe_cycle_timeouts
      \<Rightarrow> (int \<Rightarrow> ('w, exn, unit) io) \<Rightarrow> ('w, exn, int) io \<Rightarrow> 'w \<Rightarrow> ((exn, unit) res \<times> 'w) option" where
  "cli_set_poe ss W port on force limits sleep clock w =
     (case io_bind (io_lift (require_poe W)) (\<lambda>_.
           io_bind (io_lift (if \<not> on then cli_guard W port force else Inr ())) (\<lambda>_.
           io_bind (cli_poe_status ss W port) (\<lambda>prior.
           io_bind (in_mode ss W (interface_mode W port) [poe_admin (cr_spec W) on]) (\<lambda>_.
           io_bind clock (\<lambda>t. io_return (prior, t)))))) w of
        (Inl e, w1) \<Rightarrow> Some (Inl e, w1)
      | (Inr (prior, t), w1) \<Rightarrow>
          poll_admin (cli_poe_status ss W port) on prior clock (sleep (poll_interval limits))
            (t + (if on then on_timeout limits else off_timeout limits)) w1)"

definition cli_poe_reset ::
    "'w cli_session \<Rightarrow> cli_writer \<Rightarrow> int \<Rightarrow> poe_cycle_timeouts \<Rightarrow> (int \<Rightarrow> ('w, exn, unit) io)
      \<Rightarrow> ('w, exn, int) io \<Rightarrow> (poe_status option \<Rightarrow> bool) \<Rightarrow> 'w \<Rightarrow> ((exn, unit) res \<times> 'w) option" where
  "cli_poe_reset ss W port timeouts sleep clock recovered w =
     (case io_bind (io_lift (require_poe W)) (\<lambda>_.
           io_bind (cli_poe_status ss W port) (\<lambda>prior.
           io_bind (in_mode ss W (interface_mode W port)
             [lit (cc_poe_reset_cmd (cr_spec W))]) (\<lambda>_.
           io_bind clock (\<lambda>t. io_return (prior, t))))) w of
        (Inl e, w1) \<Rightarrow> Some (Inl e, w1)
      | (Inr (prior, t), w1) \<Rightarrow>
          poll_until
            (io_bind (cli_poe_status ss W port) (\<lambda>st. io_return (recovered st)))
            clock (sleep (poll_interval timeouts))
            (io_bind (cli_poe_status ss W port) (\<lambda>after.
               io_raise (WriteVerificationError (ev_poe prior) (ev_poe after))))
            (t + on_timeout timeouts) w1)"

definition cli_cycle_poe ::
    "'w cli_session \<Rightarrow> cli_writer \<Rightarrow> int \<Rightarrow> bool \<Rightarrow> poe_cycle_timeouts
      \<Rightarrow> (int \<Rightarrow> ('w, exn, unit) io) \<Rightarrow> ('w, exn, int) io \<Rightarrow> 'w \<Rightarrow> ((exn, unit) res \<times> 'w) option" where
  "cli_cycle_poe ss W port force timeouts sleep clock w =
     (case cli_guard W port force of
        Inl e \<Rightarrow> Some (Inl e, w)
      | Inr _ \<Rightarrow> cli_poe_reset ss W port timeouts sleep clock
          (\<lambda>st. case st of None \<Rightarrow> False | Some p \<Rightarrow> poe_is_delivering p) w)"

definition cli_clear_poe_fault ::
    "'w cli_session \<Rightarrow> cli_writer \<Rightarrow> int \<Rightarrow> bool \<Rightarrow> poe_cycle_timeouts
      \<Rightarrow> (int \<Rightarrow> ('w, exn, unit) io) \<Rightarrow> ('w, exn, int) io \<Rightarrow> 'w \<Rightarrow> ((exn, unit) res \<times> 'w) option" where
  "cli_clear_poe_fault ss W port force timeouts sleep clock w =
     (case cli_guard W port force of
        Inl e \<Rightarrow> Some (Inl e, w)
      | Inr _ \<Rightarrow> cli_poe_reset ss W port timeouts sleep clock (poe_recovered None) w)"

section \<open>Host name, management address, reboot, remote logging\<close>

definition cli_set_hostname :: "'w cli_session \<Rightarrow> cli_writer \<Rightarrow> ustr \<Rightarrow> bool \<Rightarrow> ('w, exn, unit) io" where
  "cli_set_hostname ss W name force =
     io_bind (io_when_raise (strip name = []) ValueError) (\<lambda>_.
     io_bind (cli_get_hostname ss W) (\<lambda>prior.
     io_bind (in_mode ss W (config_mode W)
       [fmt (cc_hostname_config_cmd (cr_spec W)) [(''name'', name)]]) (\<lambda>_.
     io_bind (cli_get_hostname ss W) (\<lambda>after.
       io_when_raise (after \<noteq> name)
         (WriteVerificationError (EvText prior) (EvText after))))))"

definition cli_set_mgmt_ip ::
    "'w cli_session \<Rightarrow> cli_writer \<Rightarrow> ustr \<Rightarrow> ustr \<Rightarrow> ustr \<Rightarrow> bool \<Rightarrow> ('w, exn, unit) io" where
  "cli_set_mgmt_ip ss W address netmask gateway force =
     io_bind (io_when_raise (\<not> force) ProtectedPortError) (\<lambda>_.
     let (exec_cmds, config_cmds) = mgmt_ip (cr_spec W) address netmask gateway in
     io_bind (cli_get_mgmt_ip ss W) (\<lambda>prior.
     io_bind (run_body ss exec_cmds) (\<lambda>_.
     io_bind (if config_cmds \<noteq> [] then in_mode ss W (config_mode W) config_cmds
              else io_return ()) (\<lambda>_.
     io_bind (cli_get_mgmt_ip ss W) (\<lambda>after.
       io_when_raise
         (ip_address after \<noteq> Some address \<or> ip_netmask after \<noteq> Some netmask
          \<or> ip_gateway after \<noteq> Some gateway)
         (WriteVerificationError (ev_mgmt prior) (ev_mgmt after)))))))"

definition cli_reboot :: "'w cli_session \<Rightarrow> cli_writer \<Rightarrow> bool \<Rightarrow> ('w, exn, unit) io" where
  "cli_reboot ss W force =
     io_bind (io_when_raise (\<not> force) ProtectedPortError) (\<lambda>_ w.
       case cs_write_memory ss (lit (cc_reload_cmd (cr_spec W))) True w of
         (Inr _, w') \<Rightarrow> (Inr (), w')
       | (Inl e, w') \<Rightarrow> if e = CliTransportError then (Inr (), w') else (Inl e, w'))"

definition cli_set_syslog_enabled :: "'w cli_session \<Rightarrow> cli_writer \<Rightarrow> bool \<Rightarrow> bool \<Rightarrow> ('w, exn, unit) io" where
  "cli_set_syslog_enabled ss W enabled force =
     io_bind (cli_get_syslog ss W) (\<lambda>prior.
     io_bind (in_mode ss W (config_mode W) [logging_syslog (cr_spec W) enabled]) (\<lambda>_.
     io_bind (cli_get_syslog ss W) (\<lambda>after.
       io_when_raise (sg_enabled after \<noteq> enabled)
         (WriteVerificationError (EvBool (sg_enabled prior)) (EvBool (sg_enabled after))))))"

definition cli_add_syslog_collector ::
    "'w cli_session \<Rightarrow> cli_writer \<Rightarrow> ustr \<Rightarrow> int \<Rightarrow> int \<Rightarrow> bool \<Rightarrow> ('w, exn, unit) io" where
  "cli_add_syslog_collector ss W host port severity force =
     io_bind (cli_get_syslog ss W) (\<lambda>prior.
     io_bind (io_when_raise (host \<in> sl_host ` set (sg_servers prior))
       (CliCommandError CliCollectorExists)) (\<lambda>_.
     io_bind (io_lift (logging_host_add (cr_spec W) host port severity)) (\<lambda>command.
     io_bind (in_mode ss W (config_mode W) [command]) (\<lambda>_.
     io_bind (cli_get_syslog ss W) (\<lambda>after.
       io_when_raise
         (case find (\<lambda>s. sl_host s = host) (sg_servers after) of
            None \<Rightarrow> True
          | Some s \<Rightarrow> sl_port s \<noteq> port \<or> sl_severity s \<noteq> severity)
         (WriteVerificationError (ev_servers prior) (ev_servers after)))))))"

definition cli_remove_syslog_collector ::
    "'w cli_session \<Rightarrow> cli_writer \<Rightarrow> ustr \<Rightarrow> bool \<Rightarrow> ('w, exn, unit) io" where
  "cli_remove_syslog_collector ss W host force =
     io_bind (cli_get_syslog ss W) (\<lambda>prior.
       case find (\<lambda>s. sl_host s = host) (sg_servers prior) of
         None \<Rightarrow> io_raise (CliCommandError CliNoCollector)
       | Some row \<Rightarrow>
           (case sl_index row of
              None \<Rightarrow> io_raise (CliCommandError CliNoIndex)
            | Some index \<Rightarrow>
                io_bind (in_mode ss W (config_mode W)
                  [logging_host_remove (cr_spec W) index]) (\<lambda>_.
                io_bind (cli_get_syslog ss W) (\<lambda>after.
                  io_when_raise (host \<in> sl_host ` set (sg_servers after))
                    (WriteVerificationError (ev_servers prior) (ev_servers after))))))"

end
