(* ===== verification/Virtual_Cli.thy ===== *)
theory Virtual_Cli
  imports Cli_Fastpath Cli_Client
begin

text \<open>
  The command-line face of the virtual switch (\<open>virtual/faces/cli.py\<close>): a session
  whose commands are dispatched by the mode stack, the configuration commands
  changing the switch's state and the \<open>show\<close> commands rendering it. The stack is
  kept innermost first.
\<close>

section \<open>Command patterns\<close>

definition SHOW_VLAN_ID_RE :: re where
  "SHOW_VLAN_ID_RE = re_seq [re_lit ''show vlan '', Grp (Many is_digit 1), Eos]"

definition SHOW_IFACE_RE :: re where
  "SHOW_IFACE_RE = re_seq [re_lit ''show interface ethernet '', Grp (Many non_space 1), Eos]"

definition SETUP_RE :: re where
  "SETUP_RE = re_seq [Grp (re_alt [re_lit ''enable'',
     re_seq [re_lit ''terminal length '', Many is_digit 1], re_lit ''disable'']), Eos]"

definition COPY_RE :: re where
  "COPY_RE = re_seq [re_lit ''copy'', Many is_space 1, Grp (Many non_space 1), Many is_space 1,
     Grp (Many non_space 1), Eos]"

definition CONFIGURE_RE :: re where
  "CONFIGURE_RE = re_seq [re_lit ''config'', May (re_lit ''ure''), May (re_lit '' terminal''), Eos]"

definition HOSTNAME_RE :: re where
  "HOSTNAME_RE = re_seq [re_lit ''hostname'', Many is_space 1,
     Grp (re_seq [May (Str [34]), Many (\<lambda>c. c \<noteq> 34) 1, May (Str [34])]), Eos]"

definition VLAN_DATABASE_RE :: re where
  "VLAN_DATABASE_RE = re_seq [re_lit ''vlan database'', Eos]"

definition VLAN_CREATE_RE :: re where
  "VLAN_CREATE_RE = re_seq [re_lit ''vlan '', Grp (Many is_digit 1), Eos]"

definition VLAN_SET_NAME_RE :: re where
  "VLAN_SET_NAME_RE = re_seq [re_lit ''vlan name '', Grp (Many is_digit 1), re_lit '' '',
     Grp (Many non_space 1), Eos]"

definition VLAN_DELETE_RE :: re where
  "VLAN_DELETE_RE = re_seq [re_lit ''no vlan '', Grp (Many is_digit 1), Eos]"

definition INTERFACE_RE :: re where
  "INTERFACE_RE = re_seq [re_lit ''interface '', Grp (Many non_space 1), Eos]"

definition SWITCHPORT_MODE_RE :: re where
  "SWITCHPORT_MODE_RE = re_seq [re_lit ''switchport mode '',
     Grp (re_alt [re_lit ''access'', re_lit ''general'', re_lit ''trunk'']), Eos]"

definition PARTICIPATION_RE :: re where
  "PARTICIPATION_RE = re_seq [re_lit ''vlan participation '',
     Grp (re_alt [re_lit ''include'', re_lit ''exclude'']), re_lit '' '', Grp (Many is_digit 1), Eos]"

definition TAGGING_RE :: re where
  "TAGGING_RE = re_seq [May (Grp (re_lit ''no '')), re_lit ''vlan tagging '', Grp (Many is_digit 1), Eos]"

definition PVID_RE :: re where
  "PVID_RE = re_seq [re_lit ''vlan pvid '', Grp (Many is_digit 1), Eos]"

definition DESCRIPTION_RE :: re where
  "DESCRIPTION_RE = re_seq [re_lit ''description '', Str [39], Grp (Many (\<lambda>c. c \<noteq> 39) 0), Str [39], Eos]"

definition NO_DESCRIPTION_RE :: re where
  "NO_DESCRIPTION_RE = re_seq [re_lit ''no description'', Eos]"

definition PORT_DESCRIPTION_SHOW_RE :: re where
  "PORT_DESCRIPTION_SHOW_RE = re_seq [re_lit ''show port description '', Grp (Many non_space 1), Eos]"

definition SPEED_AUTO_RE :: re where
  "SPEED_AUTO_RE = re_seq [re_lit ''speed auto'', Eos]"

definition SPEED_FORCED_RE :: re where
  "SPEED_FORCED_RE = re_seq [re_lit ''speed '', Grp (re_seq [Many is_digit 1, May (re_lit ''G'')]),
     re_lit '' '', Grp (re_alt [re_lit ''full'', re_lit ''half'']), re_lit ''-duplex'', Eos]"

definition FLOW_CONTROL_RE :: re where
  "FLOW_CONTROL_RE = re_seq [May (Grp (re_lit ''no '')), re_lit ''flowcontrol'', Eos]"

definition POE_RE :: re where
  "POE_RE = re_seq [May (Grp (re_lit ''no '')), re_lit ''poe'', Eos]"

definition POE_RESET_RE :: re where
  "POE_RESET_RE = re_seq [re_lit ''poe reset'', Eos]"

definition SHUTDOWN_RE :: re where
  "SHUTDOWN_RE = re_seq [May (Grp (re_lit ''no '')), re_lit ''shutdown'', Eos]"

definition LOGGING_HOST_ADD_RE :: re where
  "LOGGING_HOST_ADD_RE = re_seq [re_lit ''logging host '', Str [34], Grp (Many (\<lambda>c. c \<noteq> 34) 1),
     Str [34], re_lit '' '', Grp (re_alt [re_lit ''ipv4'', re_lit ''ipv6'', re_lit ''dns'']), re_lit '' '',
     Grp (Many is_digit 1), re_lit '' '', Grp (Many is_word 1), Eos]"

definition LOGGING_HOST_REMOVE_RE :: re where
  "LOGGING_HOST_REMOVE_RE = re_seq [re_lit ''logging host remove '', Grp (Many is_digit 1), Eos]"

definition LOGGING_HOST_NEGATION_RE :: re where
  "LOGGING_HOST_NEGATION_RE = re_seq [re_lit ''no logging host'', Stop is_word, Many any_char 0, Eos]"

definition LOGGING_SYSLOG_RE :: re where
  "LOGGING_SYSLOG_RE = re_seq [May (Grp (re_lit ''no '')), re_lit ''logging syslog'', Eos]"

definition IP_RE :: re where
  "IP_RE = Grp (re_seq [Many is_digit 1, re_lit ''.'', Many is_digit 1, re_lit ''.'',
     Many is_digit 1, re_lit ''.'', Many is_digit 1])"

definition NETWORK_PARMS_RE :: re where
  "NETWORK_PARMS_RE = re_seq [re_lit ''network parms '', IP_RE, re_lit '' '', IP_RE,
     May (re_seq [re_lit '' '', IP_RE]), Eos]"

definition IP_MGMT_ADDR_RE :: re where
  "IP_MGMT_ADDR_RE = re_seq [re_lit ''ip management address '', IP_RE, re_lit '' '', IP_RE, Eos]"

definition IP_GATEWAY_RE :: re where
  "IP_GATEWAY_RE = re_seq [re_lit ''ip default-gateway '', IP_RE, Eos]"

section \<open>The face\<close>

datatype cli_mode = VlanDb | Config | Interface

record cli_face =
  cf_state :: virtual_switch
  cf_spec :: cli_model_spec
  cf_modes :: "cli_mode list"
  cf_iface_port :: "int option"

definition mk_cli_face :: "virtual_switch \<Rightarrow> cli_model_spec \<Rightarrow> cli_face" where
  "mk_cli_face s spec = \<lparr>cf_state = s, cf_spec = spec, cf_modes = [], cf_iface_port = None\<rparr>"

text \<open>The innermost mode, \<open>None\<close> in EXEC mode.\<close>

definition cli_mode_of :: "cli_face \<Rightarrow> cli_mode option" where
  "cli_mode_of f = (case cf_modes f of [] \<Rightarrow> None | m # _ \<Rightarrow> Some m)"

definition no_such_vlan :: "int \<Rightarrow> ustr" where
  "no_such_vlan vlan = lit ''ERROR: VLAN '' @ show_int vlan @ lit '' does not exist''"

definition the_deploy :: "virtual_switch \<Rightarrow> scp_cert_deploy" where
  "the_deploy s = (case vs_scp_cert_deploy s of Some d \<Rightarrow> d | None \<Rightarrow> new_scp_cert_deploy)"

definition honours_vlans :: "virtual_switch \<Rightarrow> int \<Rightarrow> bool" where
  "honours_vlans s port \<longleftrightarrow>
     (case dict_get (vs_ports s) port of
        None \<Rightarrow> False
      | Some sim \<Rightarrow> pt_switchport_mode sim \<in> {lit ''general'', lit ''trunk''})"

section \<open>Inside \<open>vlan database\<close>\<close>

text \<open>A handled command answers a text; \<open>None\<close> is a command the mode does not have.\<close>

definition vlan_db_command :: "ustr \<Rightarrow> virtual_switch \<Rightarrow> ustr option \<times> virtual_switch" where
  "vlan_db_command c s =
     (case re_match VLAN_CREATE_RE c of
        Some g \<Rightarrow>
          let vid = dec (grp g 0) in
          (Some [], if dict_get (vs_vlans s) vid = None
                    then s\<lparr>vs_vlans := dict_set vid (mk_vlan_sim [] {} {}) (vs_vlans s)\<rparr> else s)
      | None \<Rightarrow>
     (case re_match VLAN_SET_NAME_RE c of
        Some g \<Rightarrow>
          let vid = dec (grp g 0) in
          (case dict_get (vs_vlans s) vid of
             None \<Rightarrow> (Some (no_such_vlan vid), s)
           | Some v \<Rightarrow> (Some [], s\<lparr>vs_vlans := dict_set vid (v\<lparr>vl_name := grp g 1\<rparr>) (vs_vlans s)\<rparr>))
      | None \<Rightarrow>
     (case re_match VLAN_DELETE_RE c of
        Some g \<Rightarrow>
          let vid = dec (grp g 0) in
          if vid = 1 then (Some (lit ''ERROR: The default VLAN cannot be deleted''), s)
          else if dict_get (vs_vlans s) vid = None then (Some (no_such_vlan vid), s)
          else (Some [], s\<lparr>vs_vlans := dict_pop vid (vs_vlans s),
                           vs_pvids := map (\<lambda>(p, v). (p, if v = vid then 1 else v)) (vs_pvids s)\<rparr>)
      | None \<Rightarrow> (None, s))))"

definition has_switchport_modes :: "virtual_switch \<Rightarrow> bool" where
  "has_switchport_modes s \<longleftrightarrow> vs_model_key s \<noteq> ''gsm7252ps''"

definition uses_ip_management :: "virtual_switch \<Rightarrow> bool" where
  "uses_ip_management s \<longleftrightarrow> is_m4300 s"

definition poe_capable :: "virtual_switch \<Rightarrow> bool py" where
  "poe_capable s = res_bind (get_model (vs_model_key s)) (\<lambda>m. Inr (0 < m_poe_port_count m))"

section \<open>Inside \<open>interface\<close>\<close>

text \<open>An assignment to a field of \<open>self.state.ports[port]\<close>.\<close>

definition set_port :: "int \<Rightarrow> (port_sim \<Rightarrow> port_sim) \<Rightarrow> virtual_switch \<Rightarrow> virtual_switch py" where
  "set_port port f s =
     (case dict_get (vs_ports s) port of
        None \<Rightarrow> Inl KeyError
      | Some sim \<Rightarrow> Inr (s\<lparr>vs_ports := dict_set port (f sim) (vs_ports s)\<rparr>))"

definition accepted :: "virtual_switch py \<Rightarrow> (ustr option \<times> virtual_switch) py" where
  "accepted r = res_bind r (\<lambda>s. Inr (Some [], s))"

definition refused :: "ustr \<Rightarrow> virtual_switch \<Rightarrow> (ustr option \<times> virtual_switch) py" where
  "refused t s = Inr (Some t, s)"

definition poe_command :: "(virtual_switch \<Rightarrow> virtual_switch) \<Rightarrow> virtual_switch \<Rightarrow> (ustr option \<times> virtual_switch) py" where
  "poe_command f s =
     res_bind (poe_capable s) (\<lambda>ok. if ok then Inr (Some [], f s) else refused CLI_INVALID s)"

definition participation_command ::
    "bool \<Rightarrow> int \<Rightarrow> int \<Rightarrow> virtual_switch \<Rightarrow> (ustr option \<times> virtual_switch) py" where
  "participation_command include vid port s =
     (case dict_get (vs_vlans s) vid of
        None \<Rightarrow> refused (no_such_vlan vid) s
      | Some v \<Rightarrow>
          if \<not> honours_vlans s port then Inr (Some [], s)
          else if include
          then Inr (Some [], s\<lparr>vs_vlans := dict_set vid
                 (v\<lparr>vl_member := insert port (vl_member v), vl_untagged := insert port (vl_untagged v)\<rparr>)
                 (vs_vlans s)\<rparr>)
          else Inr (Some [], s\<lparr>vs_vlans := dict_set vid
                 (v\<lparr>vl_member := vl_member v - {port}, vl_untagged := vl_untagged v - {port}\<rparr>)
                 (vs_vlans s)\<rparr>))"

definition tagging_command ::
    "bool \<Rightarrow> int \<Rightarrow> int \<Rightarrow> virtual_switch \<Rightarrow> (ustr option \<times> virtual_switch) py" where
  "tagging_command tagged vid port s =
     (case dict_get (vs_vlans s) vid of
        None \<Rightarrow> refused (no_such_vlan vid) s
      | Some v \<Rightarrow>
          if \<not> honours_vlans s port then Inr (Some [], s)
          else Inr (Some [], s\<lparr>vs_vlans := dict_set vid
                 (v\<lparr>vl_untagged := (if tagged then vl_untagged v - {port}
                                   else insert port (vl_untagged v))\<rparr>)
                 (vs_vlans s)\<rparr>))"

definition pvid_command :: "int \<Rightarrow> int \<Rightarrow> virtual_switch \<Rightarrow> (ustr option \<times> virtual_switch) py" where
  "pvid_command vid port s =
     (if dict_get (vs_vlans s) vid = None then refused (no_such_vlan vid) s
      else if \<not> honours_vlans s port then Inr (Some [], s)
      else Inr (Some [], s\<lparr>vs_pvids := dict_set port vid (vs_pvids s)\<rparr>))"

definition capitalize_word :: "ustr \<Rightarrow> ustr" where
  "capitalize_word w = (case w of [] \<Rightarrow> [] | c # cs \<Rightarrow> ascii_upper_char c # lower cs)"

definition speed_command :: "ustr \<Rightarrow> ustr \<Rightarrow> int \<Rightarrow> virtual_switch \<Rightarrow> (ustr option \<times> virtual_switch) py" where
  "speed_command rate dup port s =
     (if rate = lit ''1000'' then refused CLI_INVALID s
      else accepted (set_port port
             (\<lambda>sim. sim\<lparr>pt_physical_mode := rate @ lit '' '' @ capitalize_word dup\<rparr>) s))"

definition shutdown_command :: "bool \<Rightarrow> int \<Rightarrow> virtual_switch \<Rightarrow> (ustr option \<times> virtual_switch) py" where
  "shutdown_command enabled port s =
     (case dict_get (vs_ports s) port of
        None \<Rightarrow> refused CLI_INVALID s
      | Some sim \<Rightarrow>
          accepted (set_port port
            (\<lambda>x. x\<lparr>pt_admin := enabled, pt_link := (if enabled then pt_link x else False)\<rparr>) s))"

text \<open>The group of an optional \<open>(no )?\<close> took part in the match.\<close>

definition negated :: "ustr option list \<Rightarrow> bool" where
  "negated g \<longleftrightarrow> g ! 0 \<noteq> None"

definition interface_command :: "ustr \<Rightarrow> int \<Rightarrow> virtual_switch \<Rightarrow> (ustr option \<times> virtual_switch) py" where
  "interface_command c port s =
     (case re_match SWITCHPORT_MODE_RE c of
        Some g \<Rightarrow>
          if \<not> has_switchport_modes s then refused CLI_INVALID s
          else accepted (set_port port (\<lambda>sim. sim\<lparr>pt_switchport_mode := grp g 0\<rparr>) s)
      | None \<Rightarrow>
      if re_matches POE_RESET_RE c then poe_command (apply_poe_reset port) s
      else (case re_match POE_RE c of
        Some g \<Rightarrow> poe_command (apply_poe_admin port (\<not> negated g)) s
      | None \<Rightarrow>
     (case re_match SHUTDOWN_RE c of
        Some g \<Rightarrow> shutdown_command (negated g) port s
      | None \<Rightarrow>
     (case re_match PARTICIPATION_RE c of
        Some g \<Rightarrow> participation_command (grp g 0 = lit ''include'') (dec (grp g 1)) port s
      | None \<Rightarrow>
     (case re_match TAGGING_RE c of
        Some g \<Rightarrow> tagging_command (\<not> negated g) (dec (grp g 1)) port s
      | None \<Rightarrow>
     (case re_match PVID_RE c of
        Some g \<Rightarrow> pvid_command (dec (grp g 0)) port s
      | None \<Rightarrow>
     (case re_match FLOW_CONTROL_RE c of
        Some g \<Rightarrow> accepted (set_port port (\<lambda>sim. sim\<lparr>pt_flow_control := \<not> negated g\<rparr>) s)
      | None \<Rightarrow>
      if re_matches SPEED_AUTO_RE c
      then accepted (set_port port (\<lambda>sim. sim\<lparr>pt_physical_mode := lit ''Auto''\<rparr>) s)
      else (case re_match SPEED_FORCED_RE c of
        Some g \<Rightarrow> speed_command (grp g 0) (grp g 1) port s
      | None \<Rightarrow>
     (case re_match DESCRIPTION_RE c of
        Some g \<Rightarrow> accepted (set_port port
          (\<lambda>sim. sim\<lparr>pt_description := opt_or_none (Some (grp g 0))\<rparr>) s)
      | None \<Rightarrow>
      if re_matches NO_DESCRIPTION_RE c
      then accepted (set_port port (\<lambda>sim. sim\<lparr>pt_description := None\<rparr>) s)
      else Inr (None, s))))))))))"

section \<open>Inside \<open>configure\<close>, and the modes\<close>

definition strip_quotes :: "ustr \<Rightarrow> ustr" where
  "strip_quotes s = rev (dropWhile (\<lambda>c. c = 34) (rev (dropWhile (\<lambda>c. c = 34) s)))"

definition add_collector :: "ustr \<Rightarrow> int \<Rightarrow> int \<Rightarrow> virtual_switch \<Rightarrow> virtual_switch" where
  "add_collector host port severity s =
     (let cs = sy_collectors (vs_syslog s);
          nxt = (if cs = [] then 0 else Max (sc_index ` set cs)) + 1
      in s\<lparr>vs_syslog := (vs_syslog s)\<lparr>sy_collectors := cs @
           [\<lparr>sc_host = host, sc_port = port, sc_severity = severity, sc_status = 1,
             sc_index = nxt\<rparr>]\<rparr>\<rparr>)"

definition no_such_collector :: "int \<Rightarrow> ustr" where
  "no_such_collector index =
     lit ''Error! Logging Host with index of '' @ show_int index @ lit '' is non-existent.''"

text \<open>The answer of a command inside \<open>configure\<close>, with the face it leaves.\<close>

definition answer :: "ustr \<Rightarrow> cli_face \<Rightarrow> ustr option \<times> cli_face" where
  "answer t f = (Some t, f)"

definition with_state :: "cli_face \<Rightarrow> virtual_switch \<Rightarrow> cli_face" where
  "with_state f s = f\<lparr>cf_state := s\<rparr>"

definition configure_command :: "ustr \<Rightarrow> cli_face \<Rightarrow> ustr option \<times> cli_face" where
  "configure_command c f =
     (let s = cf_state f in
      case re_match HOSTNAME_RE c of
        Some g \<Rightarrow> answer [] (with_state f (s\<lparr>vs_hostname := strip_quotes (strip (grp g 0))\<rparr>))
      | None \<Rightarrow>
     (case re_match LOGGING_SYSLOG_RE c of
        Some g \<Rightarrow> answer [] (with_state f (s\<lparr>vs_syslog := (vs_syslog s)
            \<lparr>sy_admin_mode := (if negated g then 2 else 1)\<rparr>\<rparr>))
      | None \<Rightarrow>
     (case re_match LOGGING_HOST_ADD_RE c of
        Some g \<Rightarrow>
          (case syslog_severity (grp g 3) of
             Inl _ \<Rightarrow> answer CLI_INVALID f
           | Inr severity \<Rightarrow>
               answer [] (with_state f (add_collector (grp g 0) (dec (grp g 2)) severity s)))
      | None \<Rightarrow>
      if re_matches LOGGING_HOST_NEGATION_RE c then answer CLI_INVALID f
      else (case re_match LOGGING_HOST_REMOVE_RE c of
        Some g \<Rightarrow>
          let index = dec (grp g 0); cs = sy_collectors (vs_syslog s) in
          (case find (\<lambda>x. sc_index x = index) cs of
             None \<Rightarrow> answer (no_such_collector index) f
           | Some row \<Rightarrow> answer [] (with_state f (s\<lparr>vs_syslog := (vs_syslog s)
                 \<lparr>sy_collectors := remove1 row cs\<rparr>\<rparr>)))
      | None \<Rightarrow>
     (case re_match INTERFACE_RE c of
        Some g \<Rightarrow>
          (case port_for_iface s (grp g 0) of
             None \<Rightarrow> answer CLI_INVALID f
           | Some port \<Rightarrow>
               answer [] (f\<lparr>cf_iface_port := Some port, cf_modes := Interface # cf_modes f\<rparr>))
      | None \<Rightarrow>
     (case re_match IP_MGMT_ADDR_RE c of
        Some g \<Rightarrow>
          if \<not> uses_ip_management s then answer CLI_INVALID f
          else answer [] (with_state f (s\<lparr>vs_mgmt := (vs_mgmt s)
                 \<lparr>mg_address := grp g 0, mg_netmask := grp g 1, mg_mode := lit ''static''\<rparr>\<rparr>))
      | None \<Rightarrow>
     (case re_match IP_GATEWAY_RE c of
        Some g \<Rightarrow>
          if \<not> uses_ip_management s then answer CLI_INVALID f
          else answer [] (with_state f (s\<lparr>vs_mgmt := (vs_mgmt s)\<lparr>mg_gateway := grp g 0\<rparr>\<rparr>))
      | None \<Rightarrow> (None, f))))))))"

definition leave_mode :: "cli_face \<Rightarrow> cli_face" where
  "leave_mode f =
     (case cf_modes f of
        [] \<Rightarrow> f
      | m # ms \<Rightarrow>
          let f1 = f\<lparr>cf_modes := ms\<rparr> in
          if cli_mode_of f1 \<noteq> Some Interface then f1\<lparr>cf_iface_port := None\<rparr> else f1)"

definition network_parms :: "ustr option list \<Rightarrow> virtual_switch \<Rightarrow> virtual_switch" where
  "network_parms g s =
     s\<lparr>vs_mgmt := (vs_mgmt s)\<lparr>mg_address := grp g 0, mg_netmask := grp g 1,
        mg_gateway := (if grp g 2 \<noteq> [] then grp g 2 else mg_gateway (vs_mgmt s)),
        mg_mode := lit ''static''\<rparr>\<rparr>"

definition config_command :: "ustr \<Rightarrow> cli_face \<Rightarrow> (ustr option \<times> cli_face) py" where
  "config_command c f =
     (if c = lit ''exit'' then Inr (Some [], leave_mode f)
      else if c = lit ''end'' then Inr (Some [], f\<lparr>cf_modes := [], cf_iface_port := None\<rparr>)
      else if re_matches VLAN_DATABASE_RE c
      then Inr (if cli_mode_of f = None \<or> cli_mode_of f = Some Config
                then answer [] (f\<lparr>cf_modes := VlanDb # cf_modes f\<rparr>) else answer CLI_INVALID f)
      else if re_matches CONFIGURE_RE c
      then Inr (if cli_mode_of f = None then answer [] (f\<lparr>cf_modes := Config # cf_modes f\<rparr>)
                else answer CLI_INVALID f)
      else (case re_match NETWORK_PARMS_RE c of
        Some g \<Rightarrow>
          Inr (if cli_mode_of f \<noteq> None \<or> uses_ip_management (cf_state f) then answer CLI_INVALID f
               else answer [] (with_state f (network_parms g (cf_state f))))
      | None \<Rightarrow>
      (case cli_mode_of f of
        Some VlanDb \<Rightarrow>
          (let (r, s) = vlan_db_command c (cf_state f) in Inr (r, with_state f s))
      | Some Config \<Rightarrow> Inr (configure_command c f)
      | Some Interface \<Rightarrow>
          (case cf_iface_port f of
             None \<Rightarrow> Inr (None, f)
           | Some port \<Rightarrow>
               res_bind (interface_command c port (cf_state f)) (\<lambda>(r, s). Inr (r, with_state f s)))
      | None \<Rightarrow> Inr (None, f))))"

section \<open>Dispatch\<close>

definition https_toggle :: "ustr \<Rightarrow> bool \<Rightarrow> virtual_switch \<Rightarrow> virtual_switch" where
  "https_toggle c on s =
     (let d = the_deploy s in
      s\<lparr>vs_scp_cert_deploy := Some
         (if on then d\<lparr>sd_https_enabled := True, sd_commands := sd_commands d @ [c]\<rparr>
          else d\<lparr>sd_https_disabled := True, sd_commands := sd_commands d @ [c]\<rparr>)\<rparr>)"

definition UNKNOWN_COMMAND :: ustr where
  "UNKNOWN_COMMAND = lit ''Command not found / Incomplete command. Use ? to list commands.''"

text \<open>The \<open>show\<close> commands: they answer in every mode.\<close>

definition show_command :: "ustr \<Rightarrow> cli_face \<Rightarrow> ustr py \<times> cli_face" where
  "show_command c f =
     (let s = cf_state f; spec = cf_spec f; is = (\<lambda>cmd. c = lit (cmd spec)) in
      if is cc_version_cmd then (render_version s, f)
      else if is cc_port_status_cmd then (render_ports s, f)
      else (case re_match PORT_DESCRIPTION_SHOW_RE c of
        Some g \<Rightarrow> (render_port_description s (grp g 0), f)
      | None \<Rightarrow>
      if is cc_vlan_brief_cmd then (Inr (render_vlan_brief s), f)
      else if is cc_pvid_cmd then (render_pvids s, f)
      else if is cc_mac_table_cmd then (Inr (render_mac_table s), f)
      else if is cc_lldp_cmd then (Inr (render_lldp s), f)
      else if is cc_poe_cmd
      then (let (t, s') = render_poe s in (Inr t, with_state f s'))
      else if is cc_environment_cmd then (Inr (render_environment s), f)
      else if is cc_network_cmd then (Inr (render_network s), f)
      else if is cc_hosts_cmd then (Inr (render_hosts s), f)
      else if is cc_logging_hosts_cmd then (Inr (render_logging_hosts s), f)
      else if is cc_logging_cmd then (Inr (render_logging s), f)
      else (case re_match SHOW_VLAN_ID_RE c of
        Some g \<Rightarrow> (render_vlan_detail s (dec (grp g 0)), f)
      | None \<Rightarrow>
     (case re_match SHOW_IFACE_RE c of
        Some g \<Rightarrow>
          (case port_for_iface s (grp g 0) of
             None \<Rightarrow> (Inr CLI_INVALID, f)
           | Some port \<Rightarrow> (Inr (render_interface_counters s port), f))
      | None \<Rightarrow> (Inr UNKNOWN_COMMAND, f)))))"

definition face_run :: "ustr \<Rightarrow> (cli_face, exn, ustr) io" where
  "face_run command f =
     (let c = strip command in
      if re_matches SETUP_RE c then (Inr [], f)
      else if c = lit ''no ip http secure-server''
      then (Inr [], with_state f (https_toggle c False (cf_state f)))
      else if c = lit ''ip http secure-server''
      then (Inr [], with_state f (https_toggle c True (cf_state f)))
      else (case config_command c f of
              Inl e \<Rightarrow> (Inl e, f)
            | Inr (Some t, f') \<Rightarrow> (Inr t, f')
            | Inr (None, f') \<Rightarrow> show_command c f'))"

definition face_scp_copy :: "ustr \<Rightarrow> ustr \<Rightarrow> (cli_face, exn, ustr) io" where
  "face_scp_copy command scp_password f =
     (case re_match COPY_RE (strip command) of
        None \<Rightarrow> (Inr (lit ''% Invalid input: expected '' @ [39] @ lit ''copy <src> <dest>'' @ [39]), f)
      | Some g \<Rightarrow>
          let s = cf_state f; d = the_deploy s in
          (Inr (lit ''Data transfer complete. bytes transferred to '' @ grp g 1),
           with_state f (s\<lparr>vs_scp_cert_deploy := Some
             (d\<lparr>sd_commands := sd_commands d @ [strip command],
                sd_copies := sd_copies d @ [(grp g 0, grp g 1)]\<rparr>)\<rparr>)))"

definition face_write_memory :: "ustr \<Rightarrow> bool \<Rightarrow> (cli_face, exn, ustr) io" where
  "face_write_memory command prestuff f =
     (let c = strip command; s = cf_state f; d = the_deploy s in
      if c = lit ''reload'' then (Inr [], with_state f (s\<lparr>vs_reboots := vs_reboots s + 1\<rparr>))
      else (Inr [], with_state f (s\<lparr>vs_scp_cert_deploy := Some
             (d\<lparr>sd_commands := sd_commands d @ [c], sd_saved := True\<rparr>)\<rparr>)))"

definition face_session :: "cli_face cli_session" where
  "face_session = \<lparr>cs_run = face_run, cs_scp_copy = face_scp_copy, cs_write_memory = face_write_memory\<rparr>"

end
