(* ===== verification/Cli_Tables.thy ===== *)
theory Cli_Tables
  imports Cli_Parse Cli_Fastpath
begin

text \<open>
  A rendered table is read back: \<open>iter_table_rows\<close> returns the cells that
  \<open>render_table\<close> was given, when they fit their columns. Below it the facts about
  lines, rulers and slices, above it the label lines, numbers and port names.
\<close>

section \<open>Lines\<close>

definition one_line :: "ustr \<Rightarrow> bool" where
  "one_line s \<longleftrightarrow> list_all (\<lambda>c. \<not> line_break c) s"

lemma one_line_simps [simp]:
  "one_line []"
  "one_line (c # s) \<longleftrightarrow> \<not> line_break c \<and> one_line s"
  "one_line (s @ t) \<longleftrightarrow> one_line s \<and> one_line t"
  "one_line (replicate n c) \<longleftrightarrow> n = 0 \<or> \<not> line_break c"
  by (auto simp: one_line_def list_all_iff)

lemma one_line_concat [simp]: "one_line (concat ss) \<longleftrightarrow> list_all one_line ss"
  by (induction ss) simp_all

lemma line_break_values [simp]:
  "\<not> line_break 32" "\<not> line_break 45" "\<not> line_break 46" "line_break 10"
  by (simp_all add: line_break_def)

lemma one_line_strip_prefix: "one_line s \<Longrightarrow> one_line (drop n s)" "one_line s \<Longrightarrow> one_line (take n s)"
  by (auto simp: one_line_def list_all_iff dest: in_set_dropD in_set_takeD)

lemma one_line_join: "one_line sep \<Longrightarrow> one_line (join sep ts) \<longleftrightarrow> list_all one_line ts"
  by (induction sep ts rule: join.induct) auto

lemma one_line_ljust [simp]: "one_line (ljust w s) \<longleftrightarrow> one_line s"
  by (auto simp: ljust_def)

lemma lines_from_line:
  "one_line s \<Longrightarrow> lines_from acc (s @ 10 # t) = (rev acc @ s) # lines_from [] t"
  by (induction s arbitrary: acc) simp_all

lemma lines_from_last:
  "one_line s \<Longrightarrow> lines_from acc s = (if acc = [] \<and> s = [] then [] else [rev acc @ s])"
  by (induction s arbitrary: acc) simp_all

lemma splitlines_line: "one_line s \<Longrightarrow> splitlines (s @ 10 # t) = s # splitlines t"
  by (simp add: splitlines_def lines_from_line)

lemma splitlines_join:
  "list_all one_line ls \<Longrightarrow> ls \<noteq> [] \<Longrightarrow> last ls \<noteq> [] \<Longrightarrow> splitlines (join [10] ls) = ls"
proof (induction "[10] :: ustr" ls rule: join.induct)
  case (2 t)
  then show ?case by (simp add: splitlines_def lines_from_last)
next
  case (3 t u us)
  then show ?case by (simp add: splitlines_line)
qed simp

lemma join_append:
  "xs \<noteq> [] \<Longrightarrow> ys \<noteq> [] \<Longrightarrow> join sep (xs @ ys) = join sep xs @ sep @ join sep ys"
proof (induction sep xs rule: join.induct)
  case (2 sep t)
  then show ?case by (cases ys) simp_all
qed simp_all

section \<open>Stripping\<close>

lemma dropWhile_space_replicate: "dropWhile is_space (replicate n 32 @ s) = dropWhile is_space s"
  by (induction n) (simp_all add: is_space_def)

lemma strip_pad [simp]: "strip (s @ replicate n 32) = strip s"
proof (cases "dropWhile is_space s = []")
  case True
  then have "\<forall>c \<in> set s. is_space c" by (simp add: dropWhile_eq_Nil_conv)
  then have "dropWhile is_space (s @ replicate n 32) = []"
    by (auto simp: dropWhile_eq_Nil_conv is_space_def)
  with True show ?thesis by (simp only: strip_def)
next
  case False
  then obtain x where "x \<in> set s" "\<not> is_space x" by (auto simp: dropWhile_eq_Nil_conv)
  then have "dropWhile is_space (s @ replicate n 32) = dropWhile is_space s @ replicate n 32"
    by (simp add: dropWhile_append1)
  then show ?thesis by (simp add: strip_def dropWhile_space_replicate)
qed

lemma strip_pad_one [simp]: "strip (s @ [32]) = strip s"
  using strip_pad [where n = 1 and s = s] by simp

lemma strip_ljust [simp]: "strip (ljust w s) = strip s"
  by (simp add: ljust_def)

lemma strip_ljust_space [simp]: "strip (ljust w s @ [32]) = strip s"
  by simp

lemma strip_idem: "s = [] \<or> (\<not> is_space (hd s) \<and> \<not> is_space (last s)) \<Longrightarrow> strip s = s"
proof (cases s rule: rev_cases)
  case (snoc t c)
  assume "s = [] \<or> (\<not> is_space (hd s) \<and> \<not> is_space (last s))"
  then have h: "\<not> is_space (hd s)" "\<not> is_space c" using snoc by auto
  have "dropWhile is_space s = s" using h(1) snoc by (simp add: dropWhile_eq_self_iff)
  then show ?thesis using h(2) snoc by (simp add: strip_def)
qed (simp add: strip_def)

lemma strip_eq_Nil: "strip s = [] \<longleftrightarrow> list_all is_space s"
proof
  assume "strip s = []"
  then have "dropWhile is_space (rev (dropWhile is_space s)) = []" by (simp add: strip_def)
  then have "\<forall>c \<in> set (dropWhile is_space s). is_space c" by (simp add: dropWhile_eq_Nil_conv)
  then have "dropWhile is_space s = []"
    by (metis hd_dropWhile hd_in_set)
  then show "list_all is_space s" by (simp add: dropWhile_eq_Nil_conv list_all_iff)
next
  assume "list_all is_space s"
  then have "dropWhile is_space s = []" by (simp only: list_all_iff dropWhile_eq_Nil_conv)
  then show "strip s = []" by (simp only: strip_def rev.simps dropWhile.simps)
qed

section \<open>Rulers\<close>

text \<open>A character of ink: neither space nor dash, so its line is no ruler and not blank.\<close>

definition inked :: "ustr \<Rightarrow> bool" where
  "inked s \<longleftrightarrow> list_ex (\<lambda>c. \<not> is_space c \<and> c \<noteq> 45) s"

lemma inked_simps [simp]:
  "\<not> inked []"
  "inked (c # s) \<longleftrightarrow> (\<not> is_space c \<and> c \<noteq> 45) \<or> inked s"
  "inked (s @ t) \<longleftrightarrow> inked s \<or> inked t"
  by (simp_all add: inked_def)

lemma inked_not_blank: "inked s \<Longrightarrow> \<not> is_blank s"
  by (auto simp: inked_def is_blank_def strip_eq_Nil list_all_iff list_ex_iff)

text \<open>The characters an expression can take.\<close>

fun takes :: "re \<Rightarrow> nat \<Rightarrow> bool" where
  "takes (Cls p) c = p c"
| "takes (Str t) c = (c \<in> set t)"
| "takes (Seq r s) c = (takes r c \<or> takes s c)"
| "takes (Alt r s) c = (takes r c \<or> takes s c)"
| "takes (May r) c = takes r c"
| "takes (Many p n) c = p c"
| "takes (Few p n) c = p c"
| "takes (Grp r) c = takes r c"
| "takes Eos c = False"
| "takes (Stop p) c = False"

lemma run_of_takes: "k \<le> run_of p s \<Longrightarrow> c \<in> set (take k s) \<Longrightarrow> p c"
proof -
  assume k: "k \<le> run_of p s" and c: "c \<in> set (take k s)"
  have "take k s = take k (takeWhile p s @ dropWhile p s)" by simp
  also have "\<dots> = take k (takeWhile p s)"
    using k by (simp add: run_of_def del: takeWhile_dropWhile_id)
  finally have "c \<in> set (takeWhile p s)" using c by (auto dest: in_set_takeD)
  then show "p c" by (rule set_takeWhileD [THEN conjunct2])
qed

lemma matches_takes: "(g, s') \<in> set (matches r s) \<Longrightarrow> \<exists>u. s = u @ s' \<and> (\<forall>c \<in> set u. takes r c)"
proof (induction r arbitrary: s g s')
  case (Str t)
  then show ?case by (auto split: option.splits dest!: sym [THEN strip_prefix_SomeD])
next
  case (Seq r t)
  then obtain g1 s1 h where 1: "(g1, s1) \<in> set (matches r s)" and 2: "(h, s') \<in> set (matches t s1)"
    by auto
  obtain u where u: "s = u @ s1" "\<forall>c \<in> set u. takes r c" using Seq.IH(1)[OF 1] by blast
  obtain v where v: "s1 = v @ s'" "\<forall>c \<in> set v. takes t c" using Seq.IH(2)[OF 2] by blast
  show ?case by (rule exI [of _ "u @ v"]) (use u v in auto)
next
  case (Many p n)
  then obtain k where "k \<in> set [n..<Suc (run_of p s)]" "s' = drop k s" by (auto simp del: upt_Suc)
  then have "k \<le> run_of p s" "s' = drop k s" by (auto simp: less_Suc_eq_le)
  then show ?case by (intro exI [of _ "take k s"]) (auto dest: run_of_takes)
next
  case (Few p n)
  then obtain k where "k \<in> set [n..<Suc (run_of p s)]" "s' = drop k s" by (auto simp del: upt_Suc)
  then have "k \<le> run_of p s" "s' = drop k s" by (auto simp: less_Suc_eq_le)
  then show ?case by (intro exI [of _ "take k s"]) (auto dest: run_of_takes)
next
  case (Alt r t)
  then show ?case by fastforce
next
  case (May r)
  then show ?case by fastforce
next
  case (Grp r)
  then show ?case by fastforce
qed (auto split: list.splits if_splits)

lemma matches_seq_last: "(g, s') \<in> set (matches (Seq r t) s) \<Longrightarrow> \<exists>s1 h. (h, s') \<in> set (matches t s1)"
  by auto

lemma matches_ruler_rest: "(g, s') \<in> set (matches RULER_RE s) \<Longrightarrow> s' = [] \<or> s' = [10]"
  unfolding RULER_RE_def re_seq.simps
  by (drule matches_seq_last, elim exE)+ (auto split: if_splits)

lemma inked_not_ruler: "inked s \<Longrightarrow> \<not> is_ruler s"
proof
  assume i: "inked s" and "is_ruler s"
  then obtain g s' where m: "(g, s') \<in> set (matches RULER_RE s)"
    by (auto simp: is_ruler_def re_matches_def re_match_def split: list.splits)
  then obtain u where u: "s = u @ s'" "\<forall>c \<in> set u. takes RULER_RE c"
    using matches_takes by blast
  have sp: "is_space 10" "is_space 32" "is_space 9" by (simp_all add: is_space_def)
  have "s' = [] \<or> s' = [10]" by (rule matches_ruler_rest [OF m])
  then have "\<not> inked s'" using sp by auto
  moreover have "c = 32 \<or> c = 9 \<or> c = 45" if "takes RULER_RE c" for c
    using that by (auto simp: RULER_RE_def)
  then have "\<not> inked u" using u(2) sp by (fastforce simp: inked_def list_ex_iff)
  ultimately show False using i u(1) by simp
qed

definition ruler_of :: "nat list \<Rightarrow> ustr" where
  "ruler_of ws = join [32] (map (\<lambda>w. replicate w 45) ws)"

lemma set_join: "c \<in> set (join sep ts) \<Longrightarrow> c \<in> set sep \<or> (\<exists>t \<in> set ts. c \<in> set t)"
  by (induction sep ts rule: join.induct) auto

lemma set_ruler: "c \<in> set (ruler_of ws) \<Longrightarrow> c = 45 \<or> c = 32"
  by (auto simp: ruler_of_def dest!: set_join split: if_splits)

lemma ruler_is_ruler:
  assumes "ws \<noteq> []" "2 \<le> hd ws"
  shows "is_ruler (ruler_of ws)"
proof -
  obtain w vs where ws: "ws = w # vs" using assms(1) by (cases ws) auto
  define tail where "tail = (if vs = [] then [] else 32 # ruler_of vs)"
  have r: "ruler_of ws = replicate w 45 @ tail"
    by (cases vs) (simp_all add: ruler_of_def ws tail_def)
  have tail: "list_all (\<lambda>c. c = 45 \<or> c = 32 \<or> c = 9) tail"
    using set_ruler by (auto simp: list_all_iff tail_def)
  have rest: "matches (Seq (Many (\<lambda>c. c = 45 \<or> c = 32 \<or> c = 9) 0) Eos) tail = [([], [])]"
    by (rule matches_Many_Eos(1)) (use tail in simp_all)
  have dashes: "matches (Seq (Many (\<lambda>c. c = 45) 2) r) (replicate w 45 @ tail) \<noteq> []"
    if "matches r tail = [([], [])]" for r
  proof -
    have "w \<in> set [2..<Suc (run_of (\<lambda>c. c = 45) (replicate w 45 @ tail))]"
      using assms(2) ws by (simp add: less_Suc_eq_le run_of_def takeWhile_append)
    then show ?thesis using that by (auto simp: concat_eq_Nil_conv simp del: upt_Suc intro!: bexI [of _ w])
  qed
  have "matches (Seq (Many (\<lambda>c. c = 32 \<or> c = 9) 0) r) (replicate w 45 @ tail) = matches r (replicate w 45 @ tail)" for r
    using assms(2) ws by (cases w) simp_all
  then have "matches RULER_RE (ruler_of ws) \<noteq> []"
    using dashes [OF rest] by (simp only: RULER_RE_def re_seq.simps r) simp
  then show ?thesis by (cases "matches RULER_RE (ruler_of ws)") (auto simp: is_ruler_def re_matches_def re_match_def)
qed

section \<open>Columns\<close>

fun starts :: "nat \<Rightarrow> nat list \<Rightarrow> nat list" where
  "starts i [] = []"
| "starts i (w # ws) = i # starts (i + w + 1) ws"

lemma starts_eq_Nil [simp]: "starts i ws = [] \<longleftrightarrow> ws = []"
  by (cases ws) simp_all

lemma ruler_starts_dashes: "ruler_starts i True (replicate n 45 @ s) = ruler_starts (i + n) True s"
  by (induction n arbitrary: i) simp_all

lemma ruler_starts_column:
  "0 < w \<Longrightarrow> ruler_starts i False (replicate w 45 @ s) = i # ruler_starts (i + w) True s"
  by (cases w) (simp_all add: ruler_starts_dashes)

lemma ruler_starts_ruler: "list_all (\<lambda>w. 0 < w) ws \<Longrightarrow> ruler_starts i False (ruler_of ws) = starts i ws"
proof (induction ws arbitrary: i)
  case (Cons w ws)
  show ?case
  proof (cases ws)
    case Nil
    then show ?thesis using Cons.prems ruler_starts_column [where s = "[]"] by (simp add: ruler_of_def)
  next
    case (Cons v vs)
    then have "ruler_of (w # ws) = replicate w 45 @ 32 # ruler_of ws" by (simp add: ruler_of_def)
    then show ?thesis using Cons.IH Cons.prems by (simp add: ruler_starts_column)
  qed
qed (simp add: ruler_of_def)

text \<open>The cells fit: as many as columns, and each but the last within its width.\<close>

fun fits :: "nat list \<Rightarrow> ustr list \<Rightarrow> bool" where
  "fits [] cells = (cells = [])"
| "fits [w] cells = (length cells = 1)"
| "fits (w # v # ws) [] = False"
| "fits (w # v # ws) (c # cells) = (length c \<le> w \<and> fits (v # ws) cells)"

lemma fits_length: "fits ws cells \<Longrightarrow> length cells = length ws"
  by (induction ws cells rule: fits.induct) simp_all

lemma slice_row_table:
  "fits ws cells \<Longrightarrow> length pre = i \<Longrightarrow>
     map (slice_cell (pre @ table_line ws cells)) (spans_of (starts i ws)) = map strip cells"
proof (induction ws cells arbitrary: pre i rule: fits.induct)
  case (2 w cells)
  then obtain c where "cells = [c]" by (cases cells) auto
  then show ?case using 2 by (simp add: table_line_def slice_cell_def)
next
  case (4 w v ws c cells)
  let ?line = "table_line (v # ws) cells"
  have "length cells = length (v # ws)" using 4(2) fits_length [of "v # ws" cells] by simp
  then obtain d ds where cells: "cells = d # ds" by (cases cells) auto
  have line: "table_line (w # v # ws) (c # cells) = (ljust w c @ [32]) @ ?line"
    by (simp add: table_line_def cells)
  have len: "length (ljust w c) = w" using 4 by (simp add: ljust_def)
  have "map (slice_cell ((pre @ ljust w c @ [32]) @ ?line)) (spans_of (starts (i + w + 1) (v # ws))) = map strip cells"
    by (rule 4(1)) (use 4 len in simp_all)
  moreover have "slice_cell (pre @ table_line (w # v # ws) (c # cells)) (i, Some (i + w + 1)) = strip c"
    using 4 len by (simp add: line slice_cell_def)
  ultimately show ?case by (simp add: line)
qed simp_all

section \<open>Tables\<close>

definition table_lines :: "ustr list \<Rightarrow> nat list \<Rightarrow> ustr list list \<Rightarrow> ustr list" where
  "table_lines headers widths rows =
     table_line widths headers # ruler_of widths # map (table_line widths) rows"

lemma render_table_lines: "render_table hs ws rows = join [10] (table_lines hs ws rows)"
  by (simp add: render_table_def table_lines_def ruler_of_def)

definition widths_ok :: "nat list \<Rightarrow> bool" where
  "widths_ok ws \<longleftrightarrow> ws \<noteq> [] \<and> 2 \<le> hd ws \<and> list_all (\<lambda>w. 0 < w) ws"

definition row_ok :: "nat list \<Rightarrow> ustr list \<Rightarrow> bool" where
  "row_ok ws cells \<longleftrightarrow> fits ws cells \<and> list_all one_line cells \<and> list_ex inked cells"

lemma inked_join: "inked (join [32] ts) \<longleftrightarrow> list_ex inked ts"
  by (induction "[32] :: ustr" ts rule: join.induct) (auto simp: is_space_def)

lemma inked_ljust [simp]: "inked (ljust w s) \<longleftrightarrow> inked s"
proof -
  have "is_space 32" by (simp add: is_space_def)
  then have "\<not> inked (replicate n 32)" for n by (induction n) simp_all
  then show ?thesis by (simp add: ljust_def)
qed

lemma zip_map_fst: "length cells = length ws \<Longrightarrow> map fst (zip cells ws) = cells"
  by simp

lemma table_line_ok:
  assumes "row_ok ws cells"
  shows "one_line (table_line ws cells)" "inked (table_line ws cells)"
proof -
  have len: "length cells = length ws" using assms by (simp add: row_ok_def fits_length)
  show "one_line (table_line ws cells)"
    using assms by (auto simp: table_line_def one_line_join list_all_iff row_ok_def dest: set_zip_leftD)
  have "list_ex inked (map fst (zip cells ws))" using assms len by (simp add: row_ok_def)
  then show "inked (table_line ws cells)"
    by (force simp: table_line_def inked_join list_ex_iff)
qed

lemma one_line_ruler [simp]: "one_line (ruler_of ws)"
  by (auto simp: ruler_of_def one_line_join list_all_iff)

lemma takeWhile_rows:
  "list_all (row_ok ws) rows \<Longrightarrow>
     takeWhile (\<lambda>l. \<not> is_blank l \<and> \<not> is_ruler l) (map (table_line ws) rows) = map (table_line ws) rows"
  by (auto simp: takeWhile_eq_all_conv list_all_iff table_line_ok(2) inked_not_blank inked_not_ruler)

definition table_ok :: "ustr list \<Rightarrow> ustr list \<Rightarrow> nat list \<Rightarrow> ustr list list \<Rightarrow> bool" where
  "table_ok title hs ws rows \<longleftrightarrow>
     list_all (\<lambda>l. one_line l \<and> \<not> is_ruler l) title \<and> widths_ok ws \<and> row_ok ws hs \<and> list_all (row_ok ws) rows"

lemma splitlines_table:
  assumes "table_ok title hs ws rows"
  shows "splitlines (join [10] (title @ table_lines hs ws rows)) = title @ table_lines hs ws rows"
proof (rule splitlines_join)
  show "list_all one_line (title @ table_lines hs ws rows)"
    using assms by (auto simp: table_ok_def table_lines_def list_all_iff table_line_ok)
  have "inked (table_line ws r)" if "r \<in> set rows" for r
    using assms that by (auto simp: table_ok_def list_all_iff table_line_ok)
  then have "table_line ws r \<noteq> []" if "r \<in> set rows" for r using that by fastforce
  moreover have "ruler_of ws \<noteq> []"
    using assms by (cases ws rule: remdups_adj.cases) (auto simp: table_ok_def widths_ok_def ruler_of_def)
  ultimately show "last (title @ table_lines hs ws rows) \<noteq> []"
    by (simp add: table_lines_def last_map)
qed (simp add: table_lines_def)

text \<open>Reading a rendered table gives back its cells, whatever lines come before it.\<close>

lemma table_read_back:
  assumes "table_ok title hs ws rows"
  shows "iter_table_rows None (join [10] (title @ table_lines hs ws rows)) = map (map strip) rows"
proof -
  have "\<not> is_ruler (table_line ws hs)"
    using assms by (simp add: table_ok_def table_line_ok(2) inked_not_ruler)
  moreover have "is_ruler (ruler_of ws)"
    using assms by (simp add: table_ok_def widths_ok_def ruler_is_ruler)
  ultimately have drop: "dropWhile (\<lambda>l. \<not> is_ruler l) (title @ table_lines hs ws rows) =
      ruler_of ws # map (table_line ws) rows"
    using assms by (subst dropWhile_append2) (auto simp: table_ok_def list_all_iff table_lines_def)
  have spans: "ruler_spans (ruler_of ws) = spans_of (starts 0 ws)"
    using assms by (simp add: ruler_spans_def ruler_starts_ruler table_ok_def widths_ok_def)
  have slice: "slice_row (spans_of (starts 0 ws)) (table_line ws r) = map strip r" if "r \<in> set rows" for r
    using slice_row_table [where pre = "[]" and i = 0 and ws = ws and cells = r] assms that
    by (simp add: slice_row_def table_ok_def list_all_iff row_ok_def)
  show ?thesis
    using assms slice
    by (simp add: iter_table_rows_def lines_after_def splitlines_table drop spans takeWhile_rows table_ok_def)
qed

text \<open>The header names of a table right below its title's blank line, or at the top.\<close>

lemma header_read_back:
  assumes ok: "table_ok title hs ws rows" and top: "title = [] \<or> is_blank (last title)"
  shows "header_columns None (join [10] (title @ table_lines hs ws rows)) =
    map (\<lambda>h. collapse_spaces False (strip h)) hs"
proof -
  let ?t = "join [10] (title @ table_lines hs ws rows)" and ?h = "table_line ws hs"
  have h: "\<not> is_ruler ?h" "\<not> is_blank ?h"
    using ok by (simp_all add: table_ok_def table_line_ok(2) inked_not_ruler inked_not_blank)
  have r: "is_ruler (ruler_of ws)"
    using ok by (simp add: table_ok_def widths_ok_def ruler_is_ruler)
  define ls where "ls = title @ table_lines hs ws rows"
  have split: "splitlines ?t = ls" by (simp add: ls_def splitlines_table [OF ok])
  have i: "takeWhile (\<lambda>l. \<not> is_ruler l) ls = title @ [?h]"
    unfolding ls_def
    using ok h r by (subst takeWhile_append2) (auto simp: table_ok_def list_all_iff table_lines_def)
  have parts: "take (Suc (length title)) ls = title @ [?h]" "ls ! Suc (length title) = ruler_of ws"
    "\<not> length ls \<le> Suc (length title)"
    by (simp_all add: ls_def table_lines_def nth_append)
  have above: "rev (takeWhile (\<lambda>l. \<not> is_blank l \<and> \<not> is_ruler l) (rev (title @ [?h]))) = [?h]"
    using top h by (cases title rule: rev_cases) simp_all
  have spans: "ruler_spans (ruler_of ws) = spans_of (starts 0 ws)"
    using ok by (simp add: ruler_spans_def ruler_starts_ruler table_ok_def widths_ok_def)
  have cells: "map (slice_cell ?h) (spans_of (starts 0 ws)) = map strip hs"
    using slice_row_table [where pre = "[]" and i = 0 and ws = ws and cells = hs] ok
    by (simp add: table_ok_def row_ok_def)
  have one: "join [32] (filter (\<lambda>p. p \<noteq> []) [x]) = x" for x :: ustr by simp
  have "map (\<lambda>sp. collapse_spaces False (join [32] (filter (\<lambda>p. p \<noteq> []) [slice_cell ?h sp]))) (spans_of (starts 0 ws)) =
      map (collapse_spaces False) (map (slice_cell ?h) (spans_of (starts 0 ws)))"
    by (simp only: one map_map comp_def)
  then have "map (\<lambda>sp. collapse_spaces False (join [32] (filter (\<lambda>p. p \<noteq> []) (map (\<lambda>l. slice_cell l sp) [?h])))) (spans_of (starts 0 ws)) =
      map (\<lambda>h. collapse_spaces False (strip h)) hs"
    by (simp add: cells comp_def)
  then show ?thesis
    unfolding header_columns_def Let_def split
    by (simp only: option.case drop_0 add_0_left i length_append length_Cons list.size add_0_right add_Suc_right
        parts above spans if_False)
qed

end
