(* ===== verification/Cli_Text.thy ===== *)
theory Cli_Text
  imports Cli_Tables
begin

text \<open>
  What the parsers read from the pieces of rendered output: numbers, port names,
  speeds, and the dotted label lines. The facts on matching say which way of
  matching comes first.
\<close>

section \<open>First matches\<close>

lemma Many_first:
  assumes "n \<le> run_of p s" and "matches r (drop (run_of p s) s) = m # ms"
  shows "\<exists>ms'. matches (Seq (Many p n) r) s = m # ms'"
  using assms by (simp add: rev_upt_Suc del: upt_Suc)

lemma Grp_Many_first:
  assumes "n \<le> run_of p s" and "matches r (drop (run_of p s) s) = (g, s') # ms"
  shows "\<exists>ms'. matches (Seq (Grp (Many p n)) r) s = (Some (take (run_of p s) s) # g, s') # ms'"
proof -
  have "run_of p s \<le> length s" by (simp add: run_of_def length_takeWhile_le)
  then show ?thesis using assms by (simp add: rev_upt_Suc del: upt_Suc)
qed

lemma Grp_Many_alone:
  assumes "n \<le> run_of p s"
  shows "\<exists>ms. matches (Grp (Many p n)) s = ([Some (take (run_of p s) s)], drop (run_of p s) s) # ms"
proof -
  have "run_of p s \<le> length s" by (simp add: run_of_def length_takeWhile_le)
  then show ?thesis using assms by (simp add: rev_upt_Suc del: upt_Suc)
qed

lemma Str_first: "matches (Seq (Str t) r) (t @ s) = matches r s"
  by (simp add: case_prod_beta)

lemma concat_map_first:
  "\<forall>j \<in> set xs. f j = [] \<Longrightarrow> f k = m # ms \<Longrightarrow> \<exists>ms'. concat (map f (xs @ k # ys)) = m # ms'"
  by (induction xs) simp_all

lemma Grp_Few_first:
  assumes "n \<le> k" "k \<le> run_of p s" "\<And>j. n \<le> j \<Longrightarrow> j < k \<Longrightarrow> matches r (drop j s) = []"
    and "matches r (drop k s) = (g, s') # ms"
  shows "\<exists>ms'. matches (Seq (Grp (Few p n)) r) s = (Some (take k s) # g, s') # ms'"
proof -
  let ?f = "\<lambda>j. map (\<lambda>(g, s'). (Some (take (length s - (length s - j)) s) # g, s')) (matches r (drop j s))"
  have len: "k \<le> length s" using assms(2) by (simp add: run_of_def le_trans [OF _ length_takeWhile_le])
  have "[n..<Suc (run_of p s)] = [n..<k] @ k # [Suc k..<Suc (run_of p s)]"
    using assms(1,2) upt_add_eq_append [of n k "Suc (run_of p s) - k"] by (simp add: upt_conv_Cons del: upt_Suc)
  moreover have "matches (Seq (Grp (Few p n)) r) s = concat (map ?f [n..<Suc (run_of p s)])"
    by (simp add: comp_def del: upt_Suc)
  moreover have "\<exists>ms'. concat (map ?f ([n..<k] @ k # [Suc k..<Suc (run_of p s)])) = (Some (take k s) # g, s') # ms'"
    by (rule concat_map_first [where ms = "map (\<lambda>(h, y). (Some (take k s) # h, y)) ms"])
      (use assms(3,4) len in auto)
  ultimately show ?thesis by simp
qed

lemma re_match_first: "\<exists>ms. matches r s = (g, s') # ms \<Longrightarrow> re_match r s = Some g"
  by (auto simp: re_match_def)

section \<open>Numbers\<close>

lemma digits_show_nat: "list_all is_digit (show_nat n)"
  using show_nat_digits by (auto simp: list_all_iff)

lemma show_int_nonneg: "0 \<le> n \<Longrightarrow> show_int n = show_nat (nat n)"
  by (simp add: show_int_def)

lemma digits_show_int: "0 \<le> n \<Longrightarrow> list_all is_digit (show_int n)"
  by (simp add: show_int_nonneg digits_show_nat)

lemma show_int_nonempty [simp]: "show_int n \<noteq> []"
  by (simp add: show_int_def)

lemma foldl_digits: "foldl (\<lambda>n c. 10 * n + (c - 48)) a (s :: nat list) = foldl (\<lambda>a d. a * 10 + d) a (map (\<lambda>d. d - 48) s)"
  by (induction s arbitrary: a) (simp_all add: mult.commute)

lemma dec_show_nat [simp]: "dec (show_nat n) = int n"
  using digits_val_show_nat [of n] by (simp add: dec_def foldl_digits digits_val_def)

lemma dec_show_int [simp]: "0 \<le> n \<Longrightarrow> dec (show_int n) = n"
  by (simp add: show_int_nonneg)

lemma int_digits_run:
  "list_all is_digit s \<Longrightarrow> int_digits s (Some a) = Some (foldl (\<lambda>n c. 10 * n + (c - 48)) a s)"
  by (induction s arbitrary: a) simp_all

lemma int_digits_None: "list_all is_digit s \<Longrightarrow> s \<noteq> [] \<Longrightarrow> int_digits s None = Some (foldl (\<lambda>n c. 10 * n + (c - 48)) 0 s)"
  by (cases s) (simp_all add: int_digits_run)

lemma digit_not_space: "is_digit c \<Longrightarrow> \<not> is_space c"
  by (auto simp: is_digit_def is_space_def)

lemma digits_strip: "list_all is_digit s \<Longrightarrow> strip s = s"
  by (rule strip_idem) (cases s; auto simp: list_all_iff digit_not_space)

lemma py_int_show_int: "0 \<le> n \<Longrightarrow> length (show_int n) \<le> MAX_STR_DIGITS \<Longrightarrow> py_int (show_int n) = Some n"
proof -
  assume n: "0 \<le> n" and short: "length (show_int n) \<le> MAX_STR_DIGITS"
  obtain c cs where s: "show_int n = c # cs" by (cases "show_int n") auto
  have d: "list_all is_digit (c # cs)" using digits_show_int [OF n] s by simp
  then have "c \<noteq> 45" "c \<noteq> 43" by (auto simp: is_digit_def)
  moreover have "int_digits (c # cs) None = Some (foldl (\<lambda>n c. 10 * n + (c - 48)) 0 (c # cs))"
    by (rule int_digits_None [OF d]) simp
  moreover have "strip (show_int n) = c # cs" using digits_strip [OF digits_show_int [OF n]] s by simp
  moreover have "dec (c # cs) = n" using dec_show_int [OF n] s by simp
  moreover have "filter is_digit (c # cs) = c # cs" using d by (simp only: filter_True list_all_iff)
  then have "\<not> MAX_STR_DIGITS < length (filter is_digit (c # cs))" using short s by (simp only: not_less)
  ultimately show ?thesis
    by (simp add: py_int_def dec_def del: int_digits.simps foldl_Cons filter.simps)
qed

lemma int_group_show_int: "0 \<le> n \<Longrightarrow> length (show_int n) \<le> MAX_STR_DIGITS \<Longrightarrow> int_group (show_int n) = Inr n"
  by (simp add: int_group_def)

lemma strip_show_int [simp]: "0 \<le> n \<Longrightarrow> strip (show_int n) = show_int n"
  by (rule digits_strip [OF digits_show_int])

lemma length_show_nat: "n < 10 ^ k \<Longrightarrow> 0 < k \<Longrightarrow> length (show_nat n) \<le> k"
proof (induction n arbitrary: k rule: show_nat.induct)
  case (1 n)
  show ?case
  proof (cases "n < 10")
    case False
    then obtain j where k: "k = Suc j" "0 < j"
      using 1(2,3) by (cases k; cases "k - 1") auto
    have "n div 10 < 10 ^ j" using 1(2) k by (simp add: div_less_iff_less_mult mult.commute)
    then have "length (show_nat (n div 10)) \<le> j" using 1(1) False k by simp
    then show ?thesis using False k by (subst show_nat.simps) simp
  qed (use 1 in \<open>subst show_nat.simps, simp\<close>)
qed

lemma length_show_int: "0 \<le> n \<Longrightarrow> n < 10 ^ k \<Longrightarrow> 0 < k \<Longrightarrow> length (show_int n) \<le> k"
  using length_show_nat [of "nat n" k] by (simp add: show_int_nonneg nat_less_iff)

text \<open>A number of a table's width is far below the limit on digits.\<close>

lemma small_length: "0 \<le> n \<Longrightarrow> n < 100000000000 \<Longrightarrow> length (show_int n) \<le> MAX_STR_DIGITS"
  using length_show_int [of n 11] by (simp add: MAX_STR_DIGITS_def)

lemmas small_ints [simp] = py_int_show_int [OF _ small_length] int_group_show_int [OF _ small_length]

text \<open>Digits and text without spaces stay on a line, and digits are ink.\<close>

lemma line_break_space: "line_break c \<Longrightarrow> is_space c"
  unfolding line_break_def is_space_def by (elim disjE insertE emptyE) simp_all

lemma solid_one_line: "list_all non_space s \<Longrightarrow> one_line s"
  by (auto simp: one_line_def list_all_iff non_space_def dest: line_break_space)

lemma solid_strip: "list_all non_space s \<Longrightarrow> strip s = s"
  by (rule strip_idem) (cases s; auto simp: list_all_iff non_space_def)

lemma digits_solid: "list_all is_digit s \<Longrightarrow> list_all non_space s"
  by (auto simp: list_all_iff non_space_def digit_not_space)

lemma show_int_one_line [simp]: "0 \<le> n \<Longrightarrow> one_line (show_int n)"
  by (rule solid_one_line [OF digits_solid [OF digits_show_int]])

lemma digits_inked: "list_all is_digit s \<Longrightarrow> s \<noteq> [] \<Longrightarrow> inked s"
  by (cases s) (auto simp: digit_not_space is_digit_def)

section \<open>Port names\<close>

text \<open>A name the switch prints for a port and the parser reads as that port.\<close>

definition names_port :: "ustr \<Rightarrow> int \<Rightarrow> bool" where
  "names_port name p \<longleftrightarrow> phys_port name = Inr (Some p) \<and> list_all non_space name \<and> length name \<le> 7 \<and> inked name"

lemma is_digit_values: "\<not> is_digit 47" "\<not> is_digit 10" "\<not> is_digit 103" "\<not> is_digit 120"
  by (simp_all add: is_digit_def)

lemma phys_iface_match:
  assumes tail: "matches (Seq (Grp (Many is_digit 1)) Eos) t = [([Some t], [])]"
  shows "re_match PHYS_IFACE_RE ([49, 47, 48, 47] @ t) = Some [Some [49], Some t]"
proof -
  have "matches (Seq (Grp (Many is_digit 1)) (Seq (Str (47 # [48, 47])) (Seq (Grp (Many is_digit 1)) Eos)))
      ([49] @ 47 # [48, 47] @ t) = map (\<lambda>(g, s'). (Some [49] # g, s'))
      (matches (Seq (Grp (Many is_digit 1)) Eos) t)"
    by (rule matches_Many_Str(2)) (simp_all add: is_digit_def)
  then show ?thesis
    unfolding tail by (simp add: PHYS_IFACE_RE_def re_lit_def lit_def re_match_def del: matches.simps)
qed

lemma phys_port_slash:
  "0 \<le> p \<Longrightarrow> p < 100000000000 \<Longrightarrow> phys_port (lit ''1/0/'' @ show_int p) = Inr (Some p)"
proof -
  assume p: "0 \<le> p" and small: "p < 100000000000"
  have tail: "matches (Seq (Grp (Many is_digit 1)) Eos) (show_int p) = [([Some (show_int p)], [])]"
    by (rule matches_Many_Eos(2) [OF digits_show_int [OF p]])
      (use is_digit_values in \<open>simp_all add: Suc_le_eq\<close>)
  have "re_match PHYS_IFACE_RE ([49, 47, 48, 47] @ show_int p) = Some [Some [49], Some (show_int p)]"
    by (rule phys_iface_match [OF tail])
  moreover have "strip ([49, 47, 48, 47] @ show_int p) = [49, 47, 48, 47] @ show_int p"
    by (rule solid_strip) (use digits_solid [OF digits_show_int [OF p]] in \<open>simp add: non_space_def is_space_def\<close>)
  ultimately show ?thesis using p small by (simp add: phys_port_def lit_def grp_def)
qed

lemma names_port_slash: "0 \<le> p \<Longrightarrow> p < 1000 \<Longrightarrow> names_port (lit ''1/0/'' @ show_int p) p"
  using length_show_int [of p 3] digits_solid [OF digits_show_int]
  by (simp add: names_port_def phys_port_slash) (simp add: lit_def non_space_def is_space_def)

end
