(* ===== verification/Cli_Reads.thy ===== *)
theory Cli_Reads
  imports Cli_Text Virtual_Cli
begin

text \<open>
  What the command-line reader reports of a simulated switch: the rendered screens
  of \<open>show port all\<close>, \<open>show vlan\<close>, \<open>show vlan N\<close> and \<open>show vlan port all\<close> are parsed
  back to the ports, VLANs and PVIDs of the state.
\<close>

section \<open>A switch whose screens can be read\<close>

text \<open>
  What the columns can hold: port names the parser knows, VLAN names of one line
  without outer spaces, numbers and texts within the column widths.
\<close>

definition shown_port_ok :: "virtual_switch \<Rightarrow> int \<Rightarrow> port_sim \<Rightarrow> bool" where
  "shown_port_ok s p x \<longleftrightarrow> names_port (cli_iface s p) p
     \<and> one_line (pt_physical_mode x) \<and> length (pt_physical_mode x) \<le> 10
     \<and> 0 \<le> pt_speed x \<and> pt_speed x \<le> 100000"

definition shown_vlan_ok :: "int \<Rightarrow> vlan_sim \<Rightarrow> bool" where
  "shown_vlan_ok vid v \<longleftrightarrow> 0 \<le> vid \<and> vid < 10000 \<and> one_line (vl_name v) \<and> length (vl_name v) \<le> 32
     \<and> strip (vl_name v) = vl_name v"

definition screens_ok :: "switch_model \<Rightarrow> virtual_switch \<Rightarrow> bool" where
  "screens_ok m s \<longleftrightarrow> get_model (vs_model_key s) = Inr m \<and> dict_wf (vs_ports s) \<and> dict_wf (vs_vlans s)
     \<and> list_all (\<lambda>(p, x). shown_port_ok s p x) (vs_ports s)
     \<and> list_all (\<lambda>(vid, v). shown_vlan_ok vid v) (vs_vlans s)
     \<and> list_all (\<lambda>(p, v). 0 \<le> v \<and> v < 10000) (vs_pvids s)"

text \<open>The physical ports in order.\<close>

definition shown_ports :: "switch_model \<Rightarrow> virtual_switch \<Rightarrow> int list" where
  "shown_ports m s = sort (filter (\<lambda>p. 1 \<le> p \<and> p \<le> m_port_count m) (map fst (vs_ports s)))"

lemma phys_ports_shown: "screens_ok m s \<Longrightarrow> phys_ports s = Inr (shown_ports m s)"
  by (simp add: phys_ports_def screens_ok_def shown_ports_def)

lemma shown_port_in:
  assumes "screens_ok m s" "p \<in> set (shown_ports m s)"
  shows "\<exists>x. dict_get (vs_ports s) p = Some x \<and> shown_port_ok s p x"
proof -
  obtain x where x: "(p, x) \<in> set (vs_ports s)" using assms(2) by (auto simp: shown_ports_def)
  then have "dict_get (vs_ports s) p = Some x" using assms(1) by (simp add: screens_ok_def dict_get_in)
  moreover have "shown_port_ok s p x" using assms(1) x by (auto simp: screens_ok_def list_all_iff)
  ultimately show ?thesis by blast
qed

lemma shown_name: "screens_ok m s \<Longrightarrow> p \<in> set (shown_ports m s) \<Longrightarrow> names_port (cli_iface s p) p"
  using shown_port_in by (fastforce simp: shown_port_ok_def)

lemma names_port_facts:
  assumes "names_port name p"
  shows "phys_port name = Inr (Some p)" "one_line name" "strip name = name" "inked name" "length name \<le> 7"
  using assms by (simp_all add: names_port_def solid_one_line solid_strip)

lemma one_line_lit: "one_line (lit t) \<longleftrightarrow> list_all (\<lambda>c. \<not> line_break (of_char c)) t"
  by (simp add: one_line_def lit_def list_all_iff)

lemma inked_lit: "inked (lit t) \<longleftrightarrow> list_ex (\<lambda>c. \<not> is_space (of_char c) \<and> of_char c \<noteq> (45 :: nat)) t"
  by (simp add: inked_def lit_def list_ex_iff)

lemma nil_not_ruler: "\<not> is_ruler []"
  by (simp add: is_ruler_def RULER_RE_def re_matches_def re_match_def)

lemma keep_some_map: "(\<And>x. x \<in> set xs \<Longrightarrow> f x = Some (g x)) \<Longrightarrow> keep_some (map f xs) = map g xs"
  by (induction xs) (simp_all add: keep_some_def)

lemma collect_rows_map:
  "(\<And>x. x \<in> set xs \<Longrightarrow> f (g x) = Inr (Some (h x))) \<Longrightarrow> collect_rows f (map g xs) = Inr (map h xs)"
  by (induction xs) (auto simp: collect_rows_def res_iff keep_some_def)

lemmas cell_eval = one_line_lit line_break_def lit_def

section \<open>PVIDs\<close>

definition shown_pvid :: "virtual_switch \<Rightarrow> int \<Rightarrow> int" where
  "shown_pvid s p = (case dict_get (vs_pvids s) p of Some v \<Rightarrow> v | None \<Rightarrow> 1)"

lemma shown_pvid_range: "screens_ok m s \<Longrightarrow> 0 \<le> shown_pvid s p \<and> shown_pvid s p < 10000"
  by (auto simp: shown_pvid_def screens_ok_def list_all_iff dict_get_def split: option.splits dest: map_of_SomeD)

lemma pvid_line_shown:
  "pvid_line s p = [cli_iface s p, show_int (shown_pvid s p), show_int (shown_pvid s p),
     lit ''Admit All'', lit ''Disable'', lit ''Disable'', lit ''Enable'', lit ''0'']"
  by (simp add: pvid_line_def shown_pvid_def Let_def)

lemma pvid_row_ok:
  assumes "screens_ok m s" "p \<in> set (shown_ports m s)"
  shows "row_ok PVID_WIDTHS (pvid_line s p)"
proof -
  note n = names_port_facts [OF shown_name [OF assms]] and v = shown_pvid_range [OF assms(1), of p]
  have "length (show_int (shown_pvid s p)) \<le> 4"
    using length_show_int [of "shown_pvid s p" 4] v by simp
  then show ?thesis using n v by (simp add: row_ok_def pvid_line_shown PVID_WIDTHS_def one_line_lit line_break_def) (simp add: lit_def)
qed

lemma pvid_header_ok: "row_ok PVID_WIDTHS PVID_HEADERS" "widths_ok PVID_WIDTHS"
  by (simp_all add: row_ok_def PVID_WIDTHS_def PVID_HEADERS_def widths_ok_def one_line_lit line_break_def)
    (simp_all add: lit_def is_space_def)

lemma cli_pvids_read_back:
  assumes "screens_ok m s" "render_pvids s = Inr t"
  shows "cli_pvids t = Inr (map (\<lambda>p. (p, shown_pvid s p)) (shown_ports m s))"
proof -
  let ?rows = "map (pvid_line s) (shown_ports m s)"
  have t: "t = join [10] ([] @ table_lines PVID_HEADERS PVID_WIDTHS ?rows)"
    using assms by (simp add: render_pvids_def phys_ports_shown render_table_lines)
  have "table_ok [] PVID_HEADERS PVID_WIDTHS ?rows"
    using pvid_row_ok [OF assms(1)] by (simp add: table_ok_def pvid_header_ok list_all_iff)
  from table_read_back [OF this] have "iter_table_rows None t = map (map strip) ?rows" by (simp only: t)
  moreover have "pvid_row (map strip (pvid_line s p)) = Inr (Some (p, shown_pvid s p))"
    if "p \<in> set (shown_ports m s)" for p
    using names_port_facts [OF shown_name [OF assms(1) that]] shown_pvid_range [OF assms(1), of p]
    by (simp add: pvid_row_def pvid_line_shown)
  then have "collect_rows pvid_row (map (\<lambda>p. map strip (pvid_line s p)) (shown_ports m s)) =
      Inr (map (\<lambda>p. (p, shown_pvid s p)) (shown_ports m s))"
    by (rule collect_rows_map)
  ultimately show ?thesis by (simp add: cli_pvids_def comp_def)
qed

section \<open>VLANs\<close>

lemma vlan_row_ok: "shown_vlan_ok vid v \<Longrightarrow> row_ok [7, 32, 19] (vlan_line (vid, v))"
  using length_show_int [of vid 4] digits_inked [OF digits_show_int [of vid]]
  by (auto simp: row_ok_def vlan_line_def shown_vlan_ok_def one_line_lit line_break_def)

lemma vlan_header_ok: "row_ok [7, 32, 19] [lit ''VLAN ID'', lit ''VLAN Name'', lit ''VLAN Type'']" "widths_ok [7, 32, 19]"
  by (simp_all add: row_ok_def widths_ok_def one_line_lit line_break_def) (simp_all add: lit_def is_space_def)

lemma vlan_brief_read_back:
  assumes "screens_ok m s"
  shows "parse_vlan_brief (render_vlan_brief s) = map (\<lambda>(vid, v). (vid, vl_name v)) (sorted_items (vs_vlans s))"
proof -
  let ?hs = "[lit ''VLAN ID'', lit ''VLAN Name'', lit ''VLAN Type'']" and ?ws = "[7, 32, 19] :: nat list"
  let ?rows = "map vlan_line (sorted_items (vs_vlans s))"
  have ok: "shown_vlan_ok vid v" if "(vid, v) \<in> set (sorted_items (vs_vlans s))" for vid v
    using assms that by (auto simp: screens_ok_def list_all_iff)
  have ids: "py_int (show_int vid) = Some vid" if "(vid, v) \<in> set (vs_vlans s)" for vid v
    using ok [of vid v] that by (simp add: shown_vlan_ok_def)
  have "table_ok [] ?hs ?ws ?rows"
    using ok vlan_row_ok by (auto simp: table_ok_def vlan_header_ok list_all_iff)
  from table_read_back [OF this]
  have "iter_table_rows None (render_vlan_brief s) = map (map strip) ?rows"
    by (simp only: render_vlan_brief_def render_table_lines append_Nil list.map)
  moreover have "keep_some (map (\<lambda>e. (\<lambda>cells.
       case (case cells of [] \<Rightarrow> None | c # _ \<Rightarrow> py_int c) of
         None \<Rightarrow> None
       | Some vid \<Rightarrow> Some (vid, if 1 < length cells then cells ! 1 else [])) (map strip (vlan_line e))) (sorted_items (vs_vlans s))) =
     map (\<lambda>(vid, v). (vid, vl_name v)) (sorted_items (vs_vlans s))"
    using ok ids by (intro keep_some_map) (auto simp: vlan_line_def shown_vlan_ok_def)
  ultimately show ?thesis by (simp add: parse_vlan_brief_def comp_def)
qed

definition vlan_title :: "int \<Rightarrow> vlan_sim option \<Rightarrow> ustr list" where
  "vlan_title vid v =
     [lit ''VLAN ID: '' @ show_int vid, lit ''VLAN Name: '' @ (case v of Some x \<Rightarrow> vl_name x | None \<Rightarrow> []),
      if vid \<noteq> 1 then lit ''VLAN Type: Static'' else lit ''VLAN Type: Default'', []]"

lemma vlan_port_row_ok:
  assumes "screens_ok m s" "p \<in> set (shown_ports m s)"
  shows "row_ok VLAN_PORT_WIDTHS (vlan_port_line s v p)"
  using names_port_facts [OF shown_name [OF assms]]
  by (auto simp: row_ok_def vlan_port_line_def VLAN_PORT_WIDTHS_def one_line_lit line_break_def split: option.splits)
    (simp_all add: lit_def)

lemma vlan_port_header_ok: "row_ok VLAN_PORT_WIDTHS VLAN_PORT_HEADERS" "widths_ok VLAN_PORT_WIDTHS"
  by (simp_all add: row_ok_def VLAN_PORT_WIDTHS_def VLAN_PORT_HEADERS_def widths_ok_def one_line_lit line_break_def)
    (simp_all add: lit_def is_space_def)

lemma vlan_detail_id:
  assumes "0 \<le> vid"
  shows "re_search VLAN_HEADER_RE (lit ''VLAN ID: '' @ show_int vid @ 10 # rest) = Some [Some (show_int vid)]"
proof -
  have d: "list_all is_digit (show_int vid)" by (rule digits_show_int [OF assms])
  have run: "run_of is_digit (show_int vid @ 10 # rest) = length (show_int vid)"
    by (rule run_of_append [OF d]) (simp add: is_digit_values)
  have "\<exists>ms. matches (Grp (Many is_digit 1)) (show_int vid @ 10 # rest) = ([Some (show_int vid)], 10 # rest) # ms"
    using Grp_Many_alone [of 1 is_digit "show_int vid @ 10 # rest"] run by (simp add: Suc_le_eq del: matches.simps)
  moreover have "run_of is_space (32 # show_int vid @ 10 # rest) = 1"
    using d show_int_nonempty [of vid] by (cases "show_int vid") (auto simp: is_space_def is_digit_def)
  ultimately have "\<exists>ms. matches (Seq (Many is_space 0) (Grp (Many is_digit 1))) (32 # show_int vid @ 10 # rest) = ([Some (show_int vid)], 10 # rest) # ms"
    using Many_first [of 0 is_space "32 # show_int vid @ 10 # rest" "Grp (Many is_digit 1)"] by (auto simp del: matches.simps)
  then obtain ms where "matches (Seq (Many is_space 0) (Grp (Many is_digit 1))) (32 # show_int vid @ 10 # rest) = ([Some (show_int vid)], 10 # rest) # ms"
    by blast
  then have "\<exists>ms. matches VLAN_HEADER_RE (lit ''VLAN ID:'' @ 32 # show_int vid @ 10 # rest) = ([Some (show_int vid)], 10 # rest) # ms"
    by (simp only: VLAN_HEADER_RE_def re_seq.simps re_lit_def Str_first) blast
  then have "re_match VLAN_HEADER_RE (lit ''VLAN ID: '' @ show_int vid @ 10 # rest) = Some [Some (show_int vid)]"
    by (intro re_match_first [where s' = "10 # rest"]) (simp add: lit_def del: matches.simps)
  then show ?thesis by (cases "lit ''VLAN ID: ''") (simp_all add: lit_def)
qed

lemma fold_vlan_rows:
  assumes "\<And>p. p \<in> set ps \<Longrightarrow> names_port (cli_iface s p) p"
  shows "vlan_detail_rows (map (\<lambda>p. map strip (vlan_port_line s v p)) ps) (a, b) = Inr
    (a \<union> {p \<in> set ps. \<exists>x. v = Some x \<and> p \<in> vl_member x \<and> p \<notin> vl_untagged x},
     b \<union> {p \<in> set ps. \<exists>x. v = Some x \<and> p \<in> vl_member x \<and> p \<in> vl_untagged x})"
  using assms
proof (induction ps arbitrary: a b)
  case (Cons p ps)
  note n = names_port_facts [OF Cons.prems [OF list.set_intros(1)]]
  have row: "vlan_detail_row (map strip (vlan_port_line s v p)) (a, b) = Inr
      (a \<union> (if \<exists>x. v = Some x \<and> p \<in> vl_member x \<and> p \<notin> vl_untagged x then {p} else {}),
       b \<union> (if \<exists>x. v = Some x \<and> p \<in> vl_member x \<and> p \<in> vl_untagged x then {p} else {}))"
    using n by (auto simp: vlan_detail_row_def vlan_port_line_def text_eval split: option.splits)
  show ?case using Cons by (simp add: row) auto
qed simp

definition shown_vlan :: "switch_model \<Rightarrow> virtual_switch \<Rightarrow> int \<times> vlan_sim \<Rightarrow> vlan_info" where
  "shown_vlan m s = (\<lambda>(vid, v).
     \<lparr>vi_vlan_id = vid, vi_name = Some (vl_name v),
      vi_member_ports = vl_member v \<inter> set (shown_ports m s),
      vi_tagged_ports = (vl_member v - vl_untagged v) \<inter> set (shown_ports m s),
      vi_untagged_ports = vl_member v \<inter> vl_untagged v \<inter> set (shown_ports m s)\<rparr>)"

lemma vlan_detail_read_back:
  assumes "screens_ok m s" "dict_get (vs_vlans s) vid = Some v" "render_vlan_detail s vid = Inr t"
  shows "parse_vlan_detail (Some (vl_name v)) t = Inr (shown_vlan m s (vid, v))"
proof -
  let ?rows = "map (vlan_port_line s (Some v)) (shown_ports m s)" and ?title = "vlan_title vid (Some v)"
  have v: "shown_vlan_ok vid v"
    using assms(1,2) by (auto simp: screens_ok_def list_all_iff dict_get_def dest: map_of_SomeD)
  have t: "t = join [10] (?title @ table_lines VLAN_PORT_HEADERS VLAN_PORT_WIDTHS ?rows)"
    using assms(2,3) phys_ports_shown [OF assms(1)]
    by (simp add: render_vlan_detail_def vlan_title_def render_table_lines join_append table_lines_def)
  have ink: "inked (lit ''VLAN ID: '' @ t)" "inked (lit ''VLAN Name: '' @ t)" for t
    by (simp_all add: inked_lit) (simp_all add: is_space_def)
  have "inked (lit ''VLAN Type: Static'')" "inked (lit ''VLAN Type: Default'')"
    by (simp_all add: inked_lit) (simp_all add: is_space_def)
  note rulers = this [THEN inked_not_ruler] ink [THEN inked_not_ruler]
  have "list_all one_line ?title \<and> list_all (\<lambda>l. \<not> is_ruler l) ?title"
    using v by (simp add: vlan_title_def shown_vlan_ok_def one_line_lit line_break_def rulers nil_not_ruler)
  then have "table_ok ?title VLAN_PORT_HEADERS VLAN_PORT_WIDTHS ?rows"
    using vlan_port_row_ok [OF assms(1)] by (simp add: table_ok_def vlan_port_header_ok list_all_iff)
  then have rows: "iter_table_rows None t = map (map strip) ?rows"
    using table_read_back by (simp only: t)
  obtain rest where "t = lit ''VLAN ID: '' @ show_int vid @ 10 # rest"
    using t by (auto simp: vlan_title_def)
  then have vid: "re_search VLAN_HEADER_RE t = Some [Some (show_int vid)]"
    using vlan_detail_id v by (simp add: shown_vlan_ok_def)
  have "vlan_detail_rows (map (map strip) ?rows) ({}, {}) = Inr
      ({p \<in> set (shown_ports m s). p \<in> vl_member v \<and> p \<notin> vl_untagged v},
       {p \<in> set (shown_ports m s). p \<in> vl_member v \<and> p \<in> vl_untagged v})"
    using fold_vlan_rows [of "shown_ports m s" s "Some v" "{}" "{}"] shown_name [OF assms(1)]
    by (simp add: comp_def)
  then show ?thesis
    using v by (auto simp: parse_vlan_detail_def Let_def rows vid shown_vlan_def grp_def shown_vlan_ok_def)
qed

end
