(* ===== verification/Cli_Ports.thy ===== *)
theory Cli_Ports
  imports Cli_Reads
begin

text \<open>
  The port rows of \<open>show port all\<close>: every status the parser returns is well formed, and it
  raises only for a number longer than \<open>int\<close> converts; on the simulated switch's own screen
  the statuses are those of its ports.
\<close>

section \<open>Well-formed rows\<close>

text \<open>
  A row of the command line carries a name and a number, no description and no
  operational state, nothing of a link that is down, and a configured speed that is
  either automatic or a rate with a duplex mode.
\<close>

definition cli_row_wf :: "port_status \<Rightarrow> bool" where
  "cli_row_wf st \<longleftrightarrow> 0 \<le> st_port st \<and> st_name st \<noteq> None \<and> st_description st = None
     \<and> st_oper_status st = None
     \<and> (st_link_up st \<or> (st_speed_mbps st = None \<and> st_full_duplex st = None))
     \<and> pred_option port_speed_wf (st_speed_config st)
     \<and> pred_option (\<lambda>n. 0 \<le> n) (st_speed_mbps st)"

lemma dec_nonneg [simp]: "0 \<le> dec s"
  by (simp add: dec_def)

text \<open>\<open>int\<close> refuses a number only if the text it is read from is longer than its limit.\<close>

lemma grp_within:
  assumes "re_match r s = Some g" "i < n_groups r"
  shows "length (grp g i) \<le> length s"
proof -
  obtain s' ms where m: "matches r s = (g, s') # ms"
    using assms(1) by (auto simp: re_match_def split: list.splits)
  then have "(g, s') \<in> set (matches r s)" by simp
  from matches_within [OF this] matches_groups [OF this] assms(2)
  have "g ! i \<in> set g" "\<And>x. Some x \<in> set g \<Longrightarrow> length x \<le> length s" by auto
  then show ?thesis by (auto simp: grp_def dest: sym split: option.split)
qed

lemma int_group_cases: "int_group s = Inr (dec s) \<or> (int_group s = Inl ValueError \<and> MAX_STR_DIGITS < length s)"
  by (simp add: int_group_def)

lemma strip_shorter: "length (strip s) \<le> length s"
proof -
  have "length (rev (dropWhile is_space (rev (dropWhile is_space s)))) \<le> length (dropWhile is_space s)"
    by (metis length_dropWhile_le length_rev)
  then show ?thesis by (simp add: strip_def le_trans [OF _ length_dropWhile_le])
qed

text \<open>A result of the right kind, or \<open>ValueError\<close> from a text over the limit.\<close>

definition read_or_long :: "('a \<Rightarrow> bool) \<Rightarrow> ustr \<Rightarrow> 'a option py \<Rightarrow> bool" where
  "read_or_long P s r \<longleftrightarrow> (case r of Inr x \<Rightarrow> pred_option P x
     | Inl e \<Rightarrow> e = ValueError \<and> MAX_STR_DIGITS < length s)"

lemma group_read:
  assumes "re_match r (strip s) = Some g" "i < n_groups r" "\<And>n. 0 \<le> n \<Longrightarrow> P (f n)"
  shows "read_or_long P s (res_bind (int_group (grp g i)) (\<lambda>n. Inr (Some (f n))))"
  using int_group_cases [of "grp g i"] grp_within [OF assms(1,2)] strip_shorter [of s] assms(3)
  by (auto simp: read_or_long_def)

lemma phys_port_typed: "read_or_long (\<lambda>p. 0 \<le> p) s (phys_port s)"
proof -
  have n: "1 < n_groups PHYS_IFACE_RE" "0 < n_groups SMART_IFACE_RE"
    by (simp_all add: PHYS_IFACE_RE_def SMART_IFACE_RE_def re_lit_def)
  show ?thesis
    using group_read [OF _ n(1), of s _ "\<lambda>p. 0 \<le> p" "\<lambda>n. n"] group_read [OF _ n(2), of s _ "\<lambda>p. 0 \<le> p" "\<lambda>n. n"]
    by (auto simp: phys_port_def Let_def read_or_long_def split: option.split)
qed

lemma speed_mbps_typed: "read_or_long (\<lambda>n. 0 \<le> n) s (speed_mbps s)"
proof -
  have n: "0 < n_groups SPEED_RE" by (simp add: SPEED_RE_def)
  show ?thesis
    using group_read [OF _ n, of s _ "\<lambda>n. 0 \<le> n" "\<lambda>n. if b then n * 1000 else n" for b]
    by (auto simp: speed_mbps_def read_or_long_def split: option.split)
qed

lemma physical_mode_typed: "read_or_long port_speed_wf c (parse_physical_mode c)"
  using speed_mbps_typed [of "strip c"] strip_shorter [of c]
  by (auto simp: parse_physical_mode_def Let_def mk_port_speed_def port_speed_wf_def read_or_long_def
      split: option.splits sum.splits)

lemma port_row_typed:
  "case port_row flow cells of Inr r \<Rightarrow> pred_option cli_row_wf r
   | Inl e \<Rightarrow> e = ValueError \<and> (\<exists>c \<in> set cells. MAX_STR_DIGITS < length c)"
proof (cases "length cells \<le> 5")
  case False
  then have "cells ! 0 \<in> set cells" "cells ! 3 \<in> set cells" "cells ! 4 \<in> set cells"
    by (auto intro!: nth_mem)
  then show ?thesis
    using False phys_port_typed [of "cells ! 0"] speed_mbps_typed [of "cells ! 4"] physical_mode_typed [of "cells ! 3"]
    by (auto simp: port_row_def read_or_long_def cli_row_wf_def Let_def split: option.splits sum.splits)
qed (simp add: port_row_def)

lemma res_map_typed:
  assumes "\<And>x. case f x of Inr r \<Rightarrow> P r | Inl e \<Rightarrow> e = ValueError \<and> Q x"
  shows "case res_map f xs of Inr ys \<Rightarrow> list_all P ys | Inl e \<Rightarrow> e = ValueError \<and> (\<exists>x \<in> set xs. Q x)"
proof (induction xs)
  case (Cons x xs)
  then show ?case using assms [of x] by (cases "f x"; cases "res_map f xs") auto
qed simp

lemma keep_some_typed: "list_all (pred_option P) xs \<Longrightarrow> list_all P (keep_some xs)"
  by (induction xs) (auto simp: keep_some_def split: option.splits)

lemma collect_rows_typed:
  assumes "\<And>cells. case f cells of Inr r \<Rightarrow> pred_option P r | Inl e \<Rightarrow> e = ValueError \<and> Q cells"
  shows "case collect_rows f rows of Inr xs \<Rightarrow> list_all P xs
    | Inl e \<Rightarrow> e = ValueError \<and> (\<exists>cells \<in> set rows. Q cells)"
  using res_map_typed [where f = f and P = "pred_option P" and Q = Q and xs = rows, OF assms] keep_some_typed
  by (auto simp: collect_rows_def split: sum.splits)

text \<open>C32. Whatever text the switch sends, the port parser returns rows that are all well
  formed, or raises \<open>ValueError\<close>, and that only because of a cell longer than the
  4300 digits \<open>int\<close> converts; nothing in the parser catches it.\<close>

theorem parse_port_status_typed:
  "case parse_port_status t of
     Inr rows \<Rightarrow> list_all cli_row_wf rows
   | Inl e \<Rightarrow> e = ValueError \<and> (\<exists>cells \<in> set (iter_table_rows None t). \<exists>c \<in> set cells. 4300 < length c)"
  unfolding parse_port_status_def Let_def MAX_STR_DIGITS_def [symmetric]
  by (rule collect_rows_typed) (rule port_row_typed)

text \<open>The exception is there: an interface number of 4301 digits.\<close>

lemma long_port_number: "phys_port (lit ''1/0/'' @ replicate 4301 49) = Inl ValueError"
proof -
  let ?n = "replicate 4301 49 :: ustr"
  have d: "list_all is_digit ?n" by (simp add: list_all_iff is_digit_def)
  have "matches (Seq (Grp (Many is_digit 1)) Eos) ?n = [([Some ?n], [])]"
    by (rule matches_Many_Eos(2) [OF d]) (use is_digit_values in \<open>simp_all add: Suc_le_eq\<close>)
  then have "re_match PHYS_IFACE_RE ([49, 47, 48, 47] @ ?n) = Some [Some [49], Some ?n]"
    by (rule phys_iface_match)
  moreover have "strip ([49, 47, 48, 47] @ ?n) = [49, 47, 48, 47] @ ?n"
    by (rule solid_strip) (use digits_solid [OF d] in \<open>simp add: non_space_def is_space_def\<close>)
  ultimately show ?thesis
    by (simp add: phys_port_def lit_def grp_def int_group_def MAX_STR_DIGITS_def del: replicate.simps)
qed

section \<open>Speeds\<close>

definition SPEED_UNIT :: re where
  "SPEED_UNIT = Grp (May (Cls (\<lambda>c. c \<in> {71, 103, 77, 109})))"

lemma SPEED_RE_text:
  assumes "list_all is_digit ds" "ds \<noteq> []" "\<not> is_digit (hd rest)"
    and unit: "matches SPEED_UNIT (drop (run_of is_space rest) rest) = ([Some u], s') # ms"
  shows "re_match SPEED_RE (ds @ rest) = Some [Some ds, Some u]"
proof -
  have run: "run_of is_digit (ds @ rest) = length ds"
    by (rule run_of_append [OF assms(1)]) (use assms(3) in simp)
  obtain ms' where "matches (Seq (Many is_space 0) SPEED_UNIT) rest = ([Some u], s') # ms'"
    using Many_first [of 0 is_space rest SPEED_UNIT, OF _ unit] by auto
  moreover have "drop (run_of is_digit (ds @ rest)) (ds @ rest) = rest" "take (run_of is_digit (ds @ rest)) (ds @ rest) = ds"
    by (simp_all add: run)
  moreover have "1 \<le> run_of is_digit (ds @ rest)" using run assms(2) by (simp add: Suc_le_eq)
  ultimately have "\<exists>ms'. matches (Seq (Grp (Many is_digit 1)) (Seq (Many is_space 0) SPEED_UNIT)) (ds @ rest) =
      (Some ds # [Some u], s') # ms'"
    using Grp_Many_first [of 1 is_digit "ds @ rest" "Seq (Many is_space 0) SPEED_UNIT"] by (simp del: matches.simps)
  then show ?thesis
    unfolding SPEED_RE_def re_seq.simps SPEED_UNIT_def by (rule re_match_first)
qed

lemma strip_ends: "s \<noteq> [] \<Longrightarrow> \<not> is_space (hd s) \<Longrightarrow> \<not> is_space c \<Longrightarrow> strip (s @ t @ [c]) = s @ t @ [c]"
  by (rule strip_idem) simp

lemma speed_text_split:
  assumes "0 < n"
  obtains m where "speed_text n = show_int m @ lit ''G Full''" "n = m * 1000" "0 \<le> m"
  | "speed_text n = show_int n @ lit '' Full''" "\<not> (1000 \<le> n \<and> n mod 1000 = 0)"
  using assms that(1) [of "n div 1000"] that(2) by (cases "1000 \<le> n \<and> n mod 1000 = 0") (auto simp: speed_text_def)

lemma digit_hd: "0 \<le> n \<Longrightarrow> \<not> is_space (hd (show_int n))"
  using digits_show_int [of n] by (cases "show_int n") (auto dest: digit_not_space)

lemma speed_mbps_text:
  assumes "0 < n" "n \<le> 100000"
  shows "speed_mbps (speed_text n) = Inr (Some n)"
  using assms
proof (cases rule: speed_text_split)
  case (1 m)
  have "strip (show_int m @ lit ''G Full'') = show_int m @ lit ''G Full''"
    using strip_ends [of "show_int m" 108 "[71, 32, 70, 117, 108]"] digit_hd [OF 1(3)] by (simp add: lit_def is_space_def)
  moreover have "re_match SPEED_RE (show_int m @ lit ''G Full'') = Some [Some (show_int m), Some [71]]"
    by (rule SPEED_RE_text [OF digits_show_int [OF 1(3)]])
      (simp_all add: lit_def is_digit_def is_space_def SPEED_UNIT_def)
  moreover have "to_upper [71] = lit ''G''" by (simp add: to_upper_def upper_char_def text_eval)
  moreover have "m < 100000000000" using 1 assms by simp
  ultimately show ?thesis using 1 by (simp add: speed_mbps_def grp_def)
next
  case 2
  have "strip (show_int n @ lit '' Full'') = show_int n @ lit '' Full''"
    using strip_ends [of "show_int n" 108 "[32, 70, 117, 108]"] digit_hd [of n] assms by (simp add: lit_def is_space_def)
  moreover have "re_match SPEED_RE (show_int n @ lit '' Full'') = Some [Some (show_int n), Some []]"
    by (rule SPEED_RE_text [OF digits_show_int])
      (use assms in \<open>simp_all add: lit_def is_digit_def is_space_def SPEED_UNIT_def\<close>)
  moreover have "to_upper [] \<noteq> lit ''G''" by (simp add: to_upper_def lit_def)
  ultimately show ?thesis using 2 assms by (simp add: speed_mbps_def grp_def)
qed

lemma contains_append: "contains t s \<Longrightarrow> contains t (u @ s)"
  by (induction u) simp_all

lemma lower_append: "lower (s @ t) = lower s @ lower t"
  by (simp add: lower_def)

lemma duplex_text:
  assumes "0 < n"
  shows "duplex (speed_text n) = Some True"
proof -
  have full: "duplex (show_int m @ u @ lit ''Full'') = Some True"
    if "0 \<le> m" for m u
  proof -
    have "strip (show_int m @ u @ lit ''Full'') = show_int m @ u @ lit ''Full''"
      using strip_ends [of "show_int m" 108 "u @ [70, 117, 108]"] digit_hd [OF that] by (simp add: lit_def is_space_def)
    moreover have "contains (lit ''full'') (lower (lit ''Full''))"
      by (simp add: text_eval starts_with_def)
    ultimately show ?thesis
      by (simp add: duplex_def Let_def lower_append contains_append)
  qed
  have lits: "lit ''G Full'' = lit ''G '' @ lit ''Full''" "lit '' Full'' = lit '' '' @ lit ''Full''"
    by (simp_all add: lit_def)
  show ?thesis using assms by (cases rule: speed_text_split) (use assms in \<open>simp_all add: lits full\<close>)
qed

section \<open>The switch's own ports\<close>

definition shown_status :: "virtual_switch \<Rightarrow> int \<Rightarrow> port_sim \<Rightarrow> port_status" where
  "shown_status s p x =
     (let up = pt_link x; known = up \<and> pt_speed x \<noteq> 0 in
      \<lparr>st_port = p, st_name = Some (cli_iface s p), st_admin_enabled = pt_admin x, st_link_up = up,
       st_speed_mbps = (if known then Some (pt_speed x) else None), st_description = None,
       st_full_duplex = (if known then Some True else None),
       st_flow_control = Some (pt_flow_control x),
       st_speed_config = (case parse_physical_mode (pt_physical_mode x) of Inr m \<Rightarrow> m | Inl _ \<Rightarrow> None),
       st_oper_status = None\<rparr>)"

lemma strip_strip [simp]: "strip (strip t) = strip t"
proof (rule strip_idem)
  define a where "a = dropWhile is_space t"
  define b where "b = dropWhile is_space (rev a)"
  have s: "strip t = rev b" by (simp add: strip_def a_def b_def)
  show "strip t = [] \<or> (\<not> is_space (hd (strip t)) \<and> \<not> is_space (last (strip t)))"
  proof (cases "b = []")
    case False
    have "rev a = takeWhile is_space (rev a) @ b" by (simp add: b_def)
    then have a: "a = rev b @ rev (takeWhile is_space (rev a))" by (metis rev_append rev_rev_ident)
    then have "a \<noteq> []" "hd (rev b) = hd a" using False by (metis append_is_Nil_conv rev_is_Nil_conv, metis hd_append2 rev_is_Nil_conv)
    then have "\<not> is_space (hd (rev b))" using hd_dropWhile [of is_space t] by (simp add: a_def)
    moreover have "\<not> is_space (hd b)" using False hd_dropWhile [of is_space "rev a"] by (auto simp only: b_def)
    ultimately show ?thesis using False by (simp add: s last_rev)
  qed (simp add: s)
qed

lemma physical_mode_strip [simp]: "parse_physical_mode (strip c) = parse_physical_mode c"
  by (simp add: parse_physical_mode_def)

lemma length_speed_text:
  assumes "0 < n" "n \<le> 100000"
  shows "length (speed_text n) \<le> 10" "one_line (speed_text n)"
proof -
  have one: "one_line (lit ''G Full'')" "one_line (lit '' Full'')" by (simp_all add: one_line_lit line_break_def)
  show "one_line (speed_text n)" using assms one by (simp add: speed_text_def)
  show "length (speed_text n) \<le> 10"
  proof (cases "n = 100000")
    case True
    then show ?thesis using length_show_int [of 100 3] by (simp add: speed_text_def) (simp add: lit_def)
  next
    case False
    have "0 \<le> n div 1000" "n div 1000 < 100"
      using False assms zdiv_mono1 [of n 99999 1000] by (simp_all add: pos_imp_zdiv_nonneg_iff)
    then show ?thesis
      using False assms length_show_int [of n 5] length_show_int [of "n div 1000" 2] by (simp add: speed_text_def) (simp add: lit_def)
  qed
qed

lemma port_header_ok: "row_ok PORT_WIDTHS PORT_HEADERS" "widths_ok PORT_WIDTHS"
  by (simp_all add: row_ok_def PORT_WIDTHS_def PORT_HEADERS_def widths_ok_def one_line_lit line_break_def)
    (simp_all add: lit_def is_space_def)

lemma port_row_ok:
  assumes "shown_port_ok s p x"
  shows "row_ok PORT_WIDTHS (port_line s p x)"
proof -
  have n: "one_line (cli_iface s p)" "inked (cli_iface s p)" "length (cli_iface s p) \<le> 7"
    using assms names_port_facts by (auto simp: shown_port_ok_def)
  have m: "one_line (pt_physical_mode x)" "length (pt_physical_mode x) \<le> 10"
    using assms by (simp_all add: shown_port_ok_def)
  have w: "one_line (enable_word b)" "length (enable_word b) \<le> 7" for b
    by (simp_all add: enable_word_def one_line_lit line_break_def) (simp_all add: lit_def)
  define v where "v = (if pt_link x \<and> pt_speed x \<noteq> 0 then speed_text (pt_speed x) else [])"
  have v: "one_line v" "length v \<le> 10"
    using assms length_speed_text [of "pt_speed x"] by (auto simp: v_def shown_port_ok_def)
  show ?thesis
    using n m v w [of "pt_admin x"] w [of "pt_flow_control x"]
    by (simp add: row_ok_def port_line_def PORT_WIDTHS_def one_line_lit line_break_def flip: v_def) (simp add: lit_def)
qed

lemma port_row_shown:
  assumes "shown_port_ok s p x"
  shows "port_row (Some 8) (map strip (port_line s p x)) = Inr (Some (shown_status s p x))"
proof -
  have n: "phys_port (cli_iface s p) = Inr (Some p)" "strip (cli_iface s p) = cli_iface s p"
    using assms names_port_facts by (auto simp: shown_port_ok_def)
  have "\<not> MAX_STR_DIGITS < length (pt_physical_mode x)" using assms by (simp add: shown_port_ok_def MAX_STR_DIGITS_def)
  then obtain m where m: "parse_physical_mode (pt_physical_mode x) = Inr m"
    using physical_mode_typed [of "pt_physical_mode x"] by (auto simp: read_or_long_def split: sum.splits)
  have w: "(lower (strip (enable_word b)) = lit ''enable'') = b" for b
    by (simp add: enable_word_def text_eval)
  have up: "(lower (strip (if b then lit ''Up'' else lit ''Down'')) = lit ''up'') = b" for b
    by (simp add: text_eval)
  have blank: "speed_mbps [] = Inr None" "duplex [] = None"
    by (simp_all add: speed_mbps_def SPEED_RE_def re_match_def strip_def duplex_def Let_def lower_def starts_with_def) (simp_all add: lit_def)
  have strip: "speed_mbps (strip t) = speed_mbps t" "duplex (strip t) = duplex t" for t
    by (simp_all add: speed_mbps_def duplex_def)
  have "0 \<le> pt_speed x" "pt_speed x \<le> 100000" using assms by (simp_all add: shown_port_ok_def)
  then show ?thesis
    using m n by (simp add: port_row_def port_line_def Let_def shown_status_def w up strip blank speed_mbps_text duplex_text)
qed

lemma ports_line_count:
  assumes "screens_ok m s"
  shows "on_ports s (f s) = Inr (map (\<lambda>p. f s p (the (dict_get (vs_ports s) p))) (shown_ports m s))"
proof -
  have "concat (map (\<lambda>p. case dict_get (vs_ports s) p of Some x \<Rightarrow> [f s p x] | None \<Rightarrow> []) ps) =
      map (\<lambda>p. f s p (the (dict_get (vs_ports s) p))) ps" if "set ps \<subseteq> set (shown_ports m s)" for ps
    using that
  proof (induction ps)
    case (Cons p ps)
    then show ?case using shown_port_in [OF assms, of p] by auto
  qed simp
  then show ?thesis by (simp add: on_ports_def phys_ports_shown [OF assms])
qed

lemma flow_column:
  "find_index (\<lambda>name. contains (lit ''flow'') (lower name)) (map (\<lambda>h. collapse_spaces False (strip h)) PORT_HEADERS) = Some 8"
  by (simp add: PORT_HEADERS_def text_eval starts_with_def)

lemma cli_ports_read_back:
  assumes "screens_ok m s" "render_ports s = Inr t"
  shows "parse_port_status t = Inr (map (\<lambda>p. shown_status s p (the (dict_get (vs_ports s) p))) (shown_ports m s))"
proof -
  let ?x = "\<lambda>p. the (dict_get (vs_ports s) p)"
  let ?rows = "map (\<lambda>p. port_line s p (?x p)) (shown_ports m s)"
  have t: "t = join [10] ([] @ table_lines PORT_HEADERS PORT_WIDTHS ?rows)"
    using assms ports_line_count [OF assms(1), of port_line] by (simp add: render_ports_def render_table_lines)
  have ok: "shown_port_ok s p (?x p)" if "p \<in> set (shown_ports m s)" for p
    using shown_port_in [OF assms(1) that] by auto
  have table: "table_ok [] PORT_HEADERS PORT_WIDTHS ?rows"
    using ok by (simp add: table_ok_def port_header_ok list_all_iff port_row_ok)
  have "collect_rows (port_row (Some 8)) (map (\<lambda>p. map strip (port_line s p (?x p))) (shown_ports m s)) =
      Inr (map (\<lambda>p. shown_status s p (?x p)) (shown_ports m s))"
    using port_row_shown [OF ok] by (rule collect_rows_map)
  then show ?thesis
    using header_read_back [OF table] table_read_back [OF table]
    by (simp add: parse_port_status_def t flow_column comp_def)
qed

end
