(* ===== verification/Cli_Modes.thy ===== *)
theory Cli_Modes
  imports Virtual_Cli Cli_Text
begin

text \<open>
  The mode stack of a session. Every operation of the command-line reader and writer
  started in EXEC mode leaves the session there, whether it returns or raises, so
  the next operation on the same session finds the prompt it expects.
\<close>

section \<open>The commands of the models\<close>

definition FASTPATH_SPECS :: "cli_model_spec set" where
  "FASTPATH_SPECS = {SPEC_GSM7252PS, SPEC_M4300_24X, SPEC_M4300_16X, SPEC_GSM7228PS}"

lemma cli_spec_fastpath: "cli_spec m = Inr spec \<Longrightarrow> spec \<in> FASTPATH_SPECS"
  by (auto simp: cli_spec_def CLI_SPECS_def FASTPATH_SPECS_def dict_get_def split: if_splits option.splits)

lemma mk_cli_spec_fields:
  shows "cc_version_cmd (mk_cli_spec k a b) = ''show version''"
    "cc_port_status_cmd (mk_cli_spec k a b) = ''show port all''"
    "cc_pvid_cmd (mk_cli_spec k a b) = ''show vlan port all''"
    "cc_vlan_detail_cmd (mk_cli_spec k a b) = ''show vlan {vlan}''"
    "cc_mac_table_cmd (mk_cli_spec k a b) = ''show mac-addr-table''"
    "cc_lldp_cmd (mk_cli_spec k a b) = ''show lldp remote-device all''"
    "cc_poe_cmd (mk_cli_spec k a b) = ''show poe port info all''"
    "cc_environment_cmd (mk_cli_spec k a b) = ''show environment''"
    "cc_hosts_cmd (mk_cli_spec k a b) = ''show hosts''"
    "cc_logging_cmd (mk_cli_spec k a b) = ''show logging''"
    "cc_logging_hosts_cmd (mk_cli_spec k a b) = ''show logging hosts''"
    "cc_vlan_database_cmd (mk_cli_spec k a b) = ''vlan database''"
    "cc_vlan_create_cmd (mk_cli_spec k a b) = ''vlan {vlan}''"
    "cc_vlan_name_cmd (mk_cli_spec k a b) = ''vlan name {vlan} {name}''"
    "cc_vlan_delete_cmd (mk_cli_spec k a b) = ''no vlan {vlan}''"
    "cc_configure_cmd (mk_cli_spec k a b) = ''configure''"
    "cc_exit_cmd (mk_cli_spec k a b) = ''exit''"
    "cc_interface_cmd (mk_cli_spec k a b) = ''interface {iface}''"
    "cc_vlan_pvid_cmd (mk_cli_spec k a b) = ''vlan pvid {vlan}''"
    "cc_vlan_participation_cmd (mk_cli_spec k a b) = ''vlan participation {action} {vlan}''"
    "cc_vlan_tagging_cmd (mk_cli_spec k a b) = ''vlan tagging {vlan}''"
    "cc_vlan_no_tagging_cmd (mk_cli_spec k a b) = ''no vlan tagging {vlan}''"
    "cc_port_no_description_cmd (mk_cli_spec k a b) = ''no description''"
    "cc_port_description_cmd (mk_cli_spec k a b) = ''description '' @ [CHR 0x27] @ ''{text}'' @ [CHR 0x27]"
    "cc_port_description_show_cmd (mk_cli_spec k a b) = ''show port description {iface}''"
    "cc_interface_stats_cmd (mk_cli_spec k a b) = ''show interface ethernet {iface}''"
    "cc_port_speed_auto_cmd (mk_cli_spec k a b) = ''speed auto''"
    "cc_port_speed_forced_cmd (mk_cli_spec k a b) = ''speed {rate} {duplex}-duplex''"
    "cc_port_flow_control_cmd (mk_cli_spec k a b) = ''flowcontrol''"
    "cc_port_no_flow_control_cmd (mk_cli_spec k a b) = ''no flowcontrol''"
    "cc_poe_enable_cmd (mk_cli_spec k a b) = ''poe''"
    "cc_poe_disable_cmd (mk_cli_spec k a b) = ''no poe''"
    "cc_poe_reset_cmd (mk_cli_spec k a b) = ''poe reset''"
    "cc_port_enable_cmd (mk_cli_spec k a b) = ''no shutdown''"
    "cc_port_disable_cmd (mk_cli_spec k a b) = ''shutdown''"
    "cc_hostname_config_cmd (mk_cli_spec k a b) = ''hostname {name}''"
    "cc_logging_host_remove_cmd (mk_cli_spec k a b) = ''logging host remove {index}''"
    "cc_logging_syslog_cmd (mk_cli_spec k a b) = ''logging syslog''"
    "cc_logging_no_syslog_cmd (mk_cli_spec k a b) = ''no logging syslog''"
    "cc_logging_host_add_cmd (mk_cli_spec k a b) = ''logging host \"{address}\" {kind} {port} {severity}''"
    "cc_users_cmd (mk_cli_spec k a b) = ''show users''"
    "cc_http_service_cmd (mk_cli_spec k a b) = ''show ip http''"
    "cc_telnet_service_cmd (mk_cli_spec k a b) = ''show telnetcon''"
    "cc_ssh_service_cmd (mk_cli_spec k a b) = ''show ip ssh''"
    "cc_vlan_brief_cmd (mk_cli_spec k a b) = ''show vlan brief''"
    "cc_network_cmd (mk_cli_spec k a b) = ''show network''"
    "cc_switchport_general_cmd (mk_cli_spec k a b) = Some ''switchport mode general''"
    "cc_mgmt_ip_exec_cmds (mk_cli_spec k a b) = [''network parms {address} {netmask} {gateway}'']"
    "cc_mgmt_ip_config_cmds (mk_cli_spec k a b) = []"
    "cc_iface_template (mk_cli_spec k a b) = ''1/0/{port}''"
    "cc_uplink_iface_template (mk_cli_spec k a b) = None"
  by (simp_all only: mk_cli_spec_def cli_model_spec.select_convs)

lemmas spec_eval = FASTPATH_SPECS_def SPEC_GSM7252PS_def SPEC_M4300_24X_def SPEC_M4300_16X_def
  SPEC_GSM7228PS_def M4300_OVERRIDES_def mk_cli_spec_fields

lemma fastpath_reads:
  assumes "spec \<in> FASTPATH_SPECS"
  shows "cc_version_cmd spec = ''show version''" "cc_port_status_cmd spec = ''show port all''"
    "cc_pvid_cmd spec = ''show vlan port all''" "cc_vlan_detail_cmd spec = ''show vlan {vlan}''"
    "cc_vlan_brief_cmd spec = ''show vlan brief'' \<or> cc_vlan_brief_cmd spec = ''show vlan''"
    "cc_mac_table_cmd spec = ''show mac-addr-table''" "cc_lldp_cmd spec = ''show lldp remote-device all''"
    "cc_poe_cmd spec = ''show poe port info all''" "cc_environment_cmd spec = ''show environment''"
    "cc_network_cmd spec = ''show network'' \<or> cc_network_cmd spec = ''show ip management''"
    "cc_hosts_cmd spec = ''show hosts''" "cc_logging_cmd spec = ''show logging''"
    "cc_logging_hosts_cmd spec = ''show logging hosts''"
  using assms by (auto simp: spec_eval)

lemma fastpath_writes:
  assumes "spec \<in> FASTPATH_SPECS"
  shows "cc_vlan_database_cmd spec = ''vlan database''" "cc_vlan_create_cmd spec = ''vlan {vlan}''"
    "cc_vlan_name_cmd spec = ''vlan name {vlan} {name}''" "cc_vlan_delete_cmd spec = ''no vlan {vlan}''"
    "cc_configure_cmd spec = ''configure''" "cc_exit_cmd spec = ''exit''"
    "cc_interface_cmd spec = ''interface {iface}''" "cc_vlan_pvid_cmd spec = ''vlan pvid {vlan}''"
    "cc_vlan_participation_cmd spec = ''vlan participation {action} {vlan}''"
    "cc_vlan_tagging_cmd spec = ''vlan tagging {vlan}''" "cc_vlan_no_tagging_cmd spec = ''no vlan tagging {vlan}''"
    "cc_port_no_description_cmd spec = ''no description''"
    "cc_port_description_cmd spec = ''description '' @ [CHR 0x27] @ ''{text}'' @ [CHR 0x27]"
    "cc_port_description_show_cmd spec = ''show port description {iface}''"
    "cc_interface_stats_cmd spec = ''show interface ethernet {iface}''"
    "cc_port_speed_auto_cmd spec = ''speed auto''" "cc_port_speed_forced_cmd spec = ''speed {rate} {duplex}-duplex''"
    "cc_port_flow_control_cmd spec = ''flowcontrol''" "cc_port_no_flow_control_cmd spec = ''no flowcontrol''"
    "cc_poe_enable_cmd spec = ''poe''" "cc_poe_disable_cmd spec = ''no poe''" "cc_poe_reset_cmd spec = ''poe reset''"
    "cc_port_enable_cmd spec = ''no shutdown''" "cc_port_disable_cmd spec = ''shutdown''"
    "cc_hostname_config_cmd spec = ''hostname {name}''"
    "cc_logging_host_remove_cmd spec = ''logging host remove {index}''"
    "cc_logging_syslog_cmd spec = ''logging syslog''" "cc_logging_no_syslog_cmd spec = ''no logging syslog''"
    "cc_logging_host_add_cmd spec = ''logging host \"{address}\" {kind} {port} {severity}''"
    "cc_users_cmd spec = ''show users''" "cc_http_service_cmd spec = ''show ip http''"
    "cc_telnet_service_cmd spec = ''show telnetcon''" "cc_ssh_service_cmd spec = ''show ip ssh''"
  using assms by (auto simp: spec_eval)

lemma fastpath_switchport:
  "spec \<in> FASTPATH_SPECS \<Longrightarrow> cc_switchport_general_cmd spec = None
     \<or> cc_switchport_general_cmd spec = Some ''switchport mode general''"
  by (auto simp: spec_eval)

lemma fastpath_mgmt:
  "spec \<in> FASTPATH_SPECS \<Longrightarrow>
     cc_mgmt_ip_exec_cmds spec = [''network parms {address} {netmask} {gateway}''] \<and> cc_mgmt_ip_config_cmds spec = []
   \<or> cc_mgmt_ip_exec_cmds spec = []
     \<and> cc_mgmt_ip_config_cmds spec = [''ip management address {address} {netmask}'', ''ip default-gateway {gateway}'']"
  by (auto simp: spec_eval)

lemma show_int_solid: "list_all non_space (show_int n)"
  using digits_solid [OF digits_show_nat] by (simp add: show_int_def non_space_def is_space_def)

lemma show_int_first: "\<exists>b r. show_int n = b # r \<and> \<not> is_space b \<and> b \<noteq> 100"
proof (cases "show_int n")
  case (Cons b r)
  have "b = 45 \<or> is_digit b"
    using Cons digits_show_nat [of "nat n"] by (auto simp: show_int_def split: if_splits)
  then have "\<not> is_space b \<and> b \<noteq> 100" by (auto simp: is_digit_def is_space_def)
  then show ?thesis using Cons by blast
qed simp

lemma fastpath_iface:
  "spec \<in> FASTPATH_SPECS \<Longrightarrow>
     cc_uplink_iface_template spec = None \<and> cc_iface_template spec = ''1/0/{port}''
   \<or> cc_uplink_iface_template spec = Some ''1/xg{port}'' \<and> cc_first_uplink_port spec = Some 49
     \<and> cc_iface_template spec = ''1/g{port}''"
  by (auto simp: spec_eval)

lemma iface_solid:
  assumes "spec \<in> FASTPATH_SPECS"
  shows "list_all non_space (iface spec port)" "iface spec port \<noteq> []"
  using fastpath_iface [OF assms] show_int_solid [of port]
  by (auto simp: iface_def non_space_def is_space_def split: if_splits)

section \<open>Commands that stay in their mode\<close>

definition keeps_mode :: "ustr \<Rightarrow> bool" where
  "keeps_mode c \<longleftrightarrow> strip c \<noteq> lit ''exit'' \<and> strip c \<noteq> lit ''end''
     \<and> \<not> re_matches VLAN_DATABASE_RE (strip c) \<and> \<not> re_matches CONFIGURE_RE (strip c)
     \<and> \<not> re_matches INTERFACE_RE (strip c)"

lemma with_state_modes [simp]: "cf_modes (with_state f s) = cf_modes f"
  by (simp add: with_state_def)

text \<open>A result whose face has the modes of \<open>f\<close>, whatever way the dispatch takes.\<close>

definition same_modes :: "cli_face \<Rightarrow> 'a \<times> cli_face \<Rightarrow> bool" where
  "same_modes f x \<longleftrightarrow> cf_modes (snd x) = cf_modes f"

named_theorems same_intro \<open>results that keep the modes\<close>

lemma same_results [same_intro]:
  "same_modes f (t, f)" "same_modes f (t, with_state f s)" "same_modes f (answer u f)"
  "same_modes f (answer u (with_state f s))"
  by (simp_all add: same_modes_def answer_def)

lemma same_if [same_intro]: "same_modes f x \<Longrightarrow> same_modes f y \<Longrightarrow> same_modes f (if b then x else y)"
  by simp

lemma same_option [same_intro]:
  "same_modes f x \<Longrightarrow> (\<And>g. same_modes f (y g)) \<Longrightarrow> same_modes f (case o1 of None \<Rightarrow> x | Some g \<Rightarrow> y g)"
  by (cases o1) simp_all

lemma same_sum [same_intro]:
  "(\<And>e. same_modes f (x e)) \<Longrightarrow> (\<And>v. same_modes f (y v)) \<Longrightarrow> same_modes f (case r of Inl e \<Rightarrow> x e | Inr v \<Rightarrow> y v)"
  by (cases r) simp_all

lemma same_prod [same_intro]:
  "(\<And>u v. same_modes f (x u v)) \<Longrightarrow> same_modes f (case p of (u, v) \<Rightarrow> x u v)"
  by (cases p) simp

lemma show_command_modes: "same_modes f (show_command c f)"
  unfolding show_command_def Let_def by (intro same_intro)

lemma configure_command_modes:
  assumes "\<not> re_matches INTERFACE_RE c"
  shows "same_modes f (configure_command c f)"
proof -
  have "re_match INTERFACE_RE c = None" using assms by (simp add: re_matches_def)
  then show ?thesis
    unfolding configure_command_def Let_def by (simp only: option.case) (intro same_intro)
qed

lemma config_command_modes:
  assumes "c \<noteq> lit ''exit''" "c \<noteq> lit ''end''" "\<not> re_matches VLAN_DATABASE_RE c" "\<not> re_matches CONFIGURE_RE c"
    "\<not> re_matches INTERFACE_RE c" "config_command c f = Inr x"
  shows "same_modes f x"
proof -
  note configure = configure_command_modes [OF assms(5), of f]
  have "config_command c f = Inr y \<Longrightarrow> same_modes f y" for y
    using assms(1-4) configure
    by (auto simp: config_command_def res_iff same_results split: option.splits if_splits cli_mode.splits prod.splits)
  then show ?thesis using assms(6) by blast
qed

lemma face_run_modes:
  assumes "keeps_mode c"
  shows "cf_modes (snd (face_run c f)) = cf_modes f"
proof -
  have "same_modes f x" if "config_command (strip c) f = Inr x" for x
    using assms that by (intro config_command_modes) (auto simp: keeps_mode_def)
  then have "same_modes f (case config_command (strip c) f of
        Inl e \<Rightarrow> (Inl e, f)
      | Inr (Some t, f') \<Rightarrow> (Inr t, f')
      | Inr (None, f') \<Rightarrow> show_command (strip c) f')"
    using show_command_modes by (auto simp: same_modes_def split: sum.split option.split)
  then have "same_modes f (face_run c f)"
    unfolding face_run_def Let_def by (intro same_if same_results)
  then show ?thesis by (simp add: same_modes_def)
qed

text \<open>What a command starts with survives the stripping.\<close>

lemma strip_prefix_kept:
  assumes "\<not> is_space a" "\<not> is_space (hd (u @ [a]))"
  shows "\<exists>r'. strip (u @ a # r) = u @ a # r'"
proof -
  have d: "dropWhile is_space (u @ a # r) = u @ a # r" using assms(2) by (cases u) simp_all
  have "dropWhile is_space (rev r @ a # rev u) = dropWhile is_space (rev r) @ a # rev u"
  proof (cases "list_all is_space (rev r)")
    case True
    then show ?thesis using assms(1) by (subst dropWhile_append2) (auto simp: list_all_iff dropWhile_eq_Nil_conv)
  next
    case False
    then show ?thesis by (auto simp: list_all_iff dropWhile_append1)
  qed
  then show ?thesis by (simp add: strip_def d)
qed

lemma keeps_mode_first:
  assumes "\<not> is_space a" "a \<notin> {101, 118, 99, 105}"
  shows "keeps_mode (a # r)"
proof -
  obtain r' where "strip (a # r) = a # r'" using strip_prefix_kept [of a "[]" r] assms(1) by auto
  then show ?thesis
    using assms(2) by (simp add: keeps_mode_def re_matches_def re_match_def VLAN_DATABASE_RE_def CONFIGURE_RE_def
        INTERFACE_RE_def re_lit_def lit_def)
qed

lemma keeps_mode_vlan:
  assumes "\<not> is_space b" "b \<noteq> 100"
  shows "keeps_mode (118 # 108 # 97 # 110 # 32 # b # r)"
proof -
  obtain r' where "strip ([118, 108, 97, 110, 32] @ b # r) = [118, 108, 97, 110, 32] @ b # r'"
    using strip_prefix_kept [of b "[118, 108, 97, 110, 32]" r] assms(1) by (auto simp: is_space_def)
  then show ?thesis
    using assms(2) by (simp add: keeps_mode_def re_matches_def re_match_def VLAN_DATABASE_RE_def CONFIGURE_RE_def
        INTERFACE_RE_def re_lit_def lit_def)
qed

lemma keeps_mode_ip: "keeps_mode (105 # 112 # r)"
proof -
  obtain r' where "strip ([105] @ 112 # r) = [105] @ 112 # r'"
    using strip_prefix_kept [of 112 "[105]" r] by (auto simp: is_space_def)
  then show ?thesis
    by (simp add: keeps_mode_def re_matches_def re_match_def VLAN_DATABASE_RE_def CONFIGURE_RE_def
        INTERFACE_RE_def re_lit_def lit_def)
qed

section \<open>Entering and leaving a mode\<close>

lemma face_run_exit: "face_run (lit ''exit'') f = (Inr [], leave_mode f)"
  by (simp add: face_run_def Let_def strip_def is_space_def lit_def re_matches_def re_match_def SETUP_RE_def
      re_lit_def config_command_def)

lemma leave_mode_modes: "cf_modes (leave_mode f) = drop 1 (cf_modes f)"
  by (simp add: leave_mode_def Let_def split: list.split)

lemma exit_modes_run:
  "\<exists>f'. exit_modes face_session (lit ''exit'') n f = (Inr (), f') \<and> cf_modes f' = drop n (cf_modes f)"
proof (induction n arbitrary: f)
  case (Suc n)
  obtain f' where "exit_modes face_session (lit ''exit'') n (leave_mode f) = (Inr (), f')"
    "cf_modes f' = drop n (cf_modes (leave_mode f))"
    using Suc.IH by blast
  moreover have "cs_run face_session (lit ''exit'') f = (Inr [], leave_mode f)"
    by (simp add: face_session_def face_run_exit)
  ultimately show ?case by (simp add: io_bind_run leave_mode_modes)
qed simp

text \<open>A command that in the modes \<open>ms\<close> enters \<open>m\<close>, or is refused and leaves them as they were.\<close>

definition enters :: "cli_mode list \<Rightarrow> ustr \<Rightarrow> cli_mode \<Rightarrow> bool" where
  "enters ms c m \<longleftrightarrow> (\<forall>f. cf_modes f = ms \<longrightarrow>
     cf_modes (snd (cli_run face_session c f)) = (if fst (cli_run face_session c f) = Inr () then m # ms else ms))"

lemma strip_invalid: "strip CLI_INVALID \<noteq> []"
  by (simp add: CLI_INVALID_def strip_eq_Nil) (simp add: lit_def is_space_def)

lemma cli_run_face:
  "face_run c f = (Inr t, f') \<Longrightarrow> cli_run face_session c f =
     ((if strip t \<noteq> [] then Inl (CliCommandError (CliRejected c (strip t))) else Inr ()), f')"
  by (simp add: cli_run_def face_session_def io_bind_run)

lemma entersI:
  assumes "\<And>f. cf_modes f = ms \<Longrightarrow>
      face_run c f = (Inr CLI_INVALID, f) \<or> (\<exists>f'. face_run c f = (Inr [], f') \<and> cf_modes f' = m # ms)"
  shows "enters ms c m"
  unfolding enters_def
proof (intro allI impI)
  fix f :: cli_face assume f: "cf_modes f = ms"
  have "strip [] = []" by (simp add: strip_def)
  then show "cf_modes (snd (cli_run face_session c f)) = (if fst (cli_run face_session c f) = Inr () then m # ms else ms)"
    using assms [OF f] strip_invalid f by (auto simp: cli_run_face)
qed

lemmas dispatch_eval = face_run_def Let_def strip_def is_space_def lit_def re_matches_def re_match_def SETUP_RE_def
  re_lit_def config_command_def VLAN_DATABASE_RE_def CONFIGURE_RE_def answer_def cli_mode_of_def

lemma enters_vlan_database: "enters [] (lit ''vlan database'') VlanDb"
  by (rule entersI) (simp add: dispatch_eval)

lemma enters_configure: "enters [] (lit ''configure'') Config"
  by (rule entersI) (simp add: dispatch_eval)

lemma interface_command_match:
  assumes "list_all non_space x" "x \<noteq> []"
  shows "re_match INTERFACE_RE (lit ''interface '' @ x) = Some [Some x]"
proof -
  have "matches (Seq (Grp (Many non_space 1)) Eos) x = [([Some x], [])]"
    by (rule matches_Many_Eos(2) [OF assms(1)]) (use assms(2) in \<open>simp_all add: Suc_le_eq non_space_def is_space_def\<close>)
  then show ?thesis
    by (simp only: INTERFACE_RE_def re_seq.simps re_lit_def re_match_def Str_first) simp
qed

lemma interface_run:
  assumes "list_all non_space x" "x \<noteq> []" "cf_modes f = [Config]"
  shows "face_run (lit ''interface '' @ x) f = (case port_for_iface (cf_state f) x of
      None \<Rightarrow> (Inr CLI_INVALID, f)
    | Some port \<Rightarrow> (Inr [], f\<lparr>cf_iface_port := Some port, cf_modes := [Interface, Config]\<rparr>))"
proof -
  define c where "c = lit ''interface '' @ x"
  have strip: "strip c = c"
  proof (rule strip_idem)
    have "last x \<in> set x" using assms(2) by simp
    then have "\<not> is_space (last x)" using assms(1) by (auto simp: list_all_iff non_space_def)
    then show "c = [] \<or> (\<not> is_space (hd c) \<and> \<not> is_space (last c))"
      using assms(2) by (simp add: c_def) (simp add: lit_def is_space_def)
  qed
  have eval: "c = 105 # 110 # 116 # 101 # 114 # lit ''face '' @ x" by (simp add: c_def lit_def)
  have no: "re_match SETUP_RE c = None" "re_match VLAN_DATABASE_RE c = None" "re_match CONFIGURE_RE c = None"
    "re_match NETWORK_PARMS_RE c = None" "re_match HOSTNAME_RE c = None" "re_match LOGGING_SYSLOG_RE c = None"
    "re_match LOGGING_HOST_ADD_RE c = None" "re_match LOGGING_HOST_NEGATION_RE c = None" "re_match LOGGING_HOST_REMOVE_RE c = None"
    unfolding eval
    by (simp_all add: re_match_def SETUP_RE_def VLAN_DATABASE_RE_def CONFIGURE_RE_def NETWORK_PARMS_RE_def HOSTNAME_RE_def
        LOGGING_SYSLOG_RE_def LOGGING_HOST_ADD_RE_def LOGGING_HOST_NEGATION_RE_def LOGGING_HOST_REMOVE_RE_def re_lit_def lit_def)
  have ne: "c \<noteq> lit ''exit''" "c \<noteq> lit ''end''" "c \<noteq> lit ''no ip http secure-server''" "c \<noteq> lit ''ip http secure-server''"
    unfolding eval by (simp_all add: lit_def)
  have "configure_command c f = (case port_for_iface (cf_state f) x of
      None \<Rightarrow> answer CLI_INVALID f
    | Some port \<Rightarrow> answer [] (f\<lparr>cf_iface_port := Some port, cf_modes := Interface # cf_modes f\<rparr>))"
    using interface_command_match [OF assms(1,2)]
    by (simp add: configure_command_def Let_def no re_matches_def grp_def flip: c_def)
  then have "face_run c f = (case port_for_iface (cf_state f) x of
      None \<Rightarrow> (Inr CLI_INVALID, f)
    | Some port \<Rightarrow> (Inr [], f\<lparr>cf_iface_port := Some port, cf_modes := [Interface, Config]\<rparr>))"
    using assms(3) by (simp add: face_run_def Let_def strip no ne re_matches_def config_command_def cli_mode_of_def answer_def split: option.split)
  then show ?thesis by (simp only: c_def)
qed

lemma enters_interface:
  assumes "list_all non_space x" "x \<noteq> []"
  shows "enters [Config] (lit ''interface '' @ x) Interface"
proof (rule entersI)
  fix f :: cli_face assume "cf_modes f = [Config]"
  from interface_run [OF assms this] show "face_run (lit ''interface '' @ x) f = (Inr CLI_INVALID, f)
      \<or> (\<exists>f'. face_run (lit ''interface '' @ x) f = (Inr [], f') \<and> cf_modes f' = [Interface, Config])"
    by (auto split: option.split)
qed

fun enters_all :: "cli_mode list \<Rightarrow> ustr list \<Rightarrow> bool" where
  "enters_all ms [] = True"
| "enters_all ms (c # cs) = (\<exists>m. enters ms c m \<and> enters_all (m # ms) cs)"

lemma enter_modes_depth:
  assumes "enters_all (cf_modes f) cs" "n = length (cf_modes f)" "enter_modes face_session cs n f = ((r, k), f')"
  shows "length (cf_modes f') = k"
  using assms
proof (induction cs arbitrary: n f)
  case (Cons c cs)
  obtain m where m: "enters (cf_modes f) c m" "enters_all (m # cf_modes f) cs" using Cons.prems(1) by auto
  obtain r1 f1 where run: "cli_run face_session c f = (r1, f1)" by fastforce
  have f1: "cf_modes f1 = (if r1 = Inr () then m # cf_modes f else cf_modes f)"
    using m(1) run by (force simp: enters_def)
  show ?case
  proof (cases r1)
    case (Inl e)
    then show ?thesis using Cons.prems run f1 by auto
  next
    case (Inr u)
    then show ?thesis using Cons.IH [of f1 "Suc n"] Cons.prems run f1 m(2) by simp
  qed
qed simp

lemma cli_run_modes: "keeps_mode c \<Longrightarrow> cf_modes (snd (cli_run face_session c f)) = cf_modes f"
  using face_run_modes [of c f]
  by (cases "face_run c f"; cases "fst (face_run c f)") (auto simp: cli_run_def face_session_def io_bind_def)

lemma run_body_modes: "list_all keeps_mode cs \<Longrightarrow> cf_modes (snd (run_body face_session cs f)) = cf_modes f"
proof (induction cs arbitrary: f)
  case (Cons c cs)
  obtain r f' where run: "cli_run face_session c f = (r, f')" by fastforce
  have "cf_modes f' = cf_modes f" using cli_run_modes [of c f] Cons.prems run by simp
  then show ?case using Cons run by (cases r) (simp_all add: io_bind_run)
qed simp

section \<open>Operations that return to EXEC mode\<close>

definition keeps_exec :: "(cli_face, exn, 'a) io \<Rightarrow> bool" where
  "keeps_exec p \<longleftrightarrow> (\<forall>f. cf_modes f = [] \<longrightarrow> cf_modes (snd (p f)) = [])"

named_theorems exec_intro \<open>operations that return to EXEC mode\<close>

lemma keeps_exec_basic [exec_intro]:
  "keeps_exec (io_return x)" "keeps_exec (io_raise e)" "keeps_exec (io_lift r)" "keeps_exec (io_when_raise b e)"
  by (simp_all add: keeps_exec_def)

lemma keeps_exec_bind [exec_intro]:
  assumes "keeps_exec p" "\<And>x. keeps_exec (q x)"
  shows "keeps_exec (io_bind p q)"
  unfolding keeps_exec_def
proof (intro allI impI)
  fix f :: cli_face assume f: "cf_modes f = []"
  obtain r f' where "p f = (r, f')" by fastforce
  then show "cf_modes (snd (io_bind p q f)) = []"
    using assms f by (cases r) (fastforce simp: keeps_exec_def io_bind_def)+
qed

lemma keeps_exec_if [exec_intro]: "keeps_exec p \<Longrightarrow> keeps_exec q \<Longrightarrow> keeps_exec (if b then p else q)"
  by simp

lemma keeps_exec_option [exec_intro]:
  "keeps_exec p \<Longrightarrow> (\<And>x. keeps_exec (q x)) \<Longrightarrow> keeps_exec (case o1 of None \<Rightarrow> p | Some x \<Rightarrow> q x)"
  by (cases o1) simp_all

lemma keeps_exec_prod [exec_intro]: "(\<And>x y. keeps_exec (q x y)) \<Longrightarrow> keeps_exec (case z of (x, y) \<Rightarrow> q x y)"
  by (cases z) simp

lemma keeps_exec_run [exec_intro]: "keeps_mode c \<Longrightarrow> keeps_exec (cs_run face_session c)"
  using face_run_modes by (simp add: keeps_exec_def face_session_def)

lemma keeps_exec_body [exec_intro]: "list_all keeps_mode cs \<Longrightarrow> keeps_exec (run_body face_session cs)"
  using run_body_modes by (simp add: keeps_exec_def)

lemma keeps_exec_in_mode [exec_intro]:
  assumes "cc_exit_cmd (cr_spec W) = ''exit''" "enters_all [] enter" "list_all keeps_mode body"
  shows "keeps_exec (in_mode face_session W enter body)"
  unfolding keeps_exec_def
proof (intro allI impI)
  fix f :: cli_face assume f: "cf_modes f = []"
  obtain r n f1 where e: "enter_modes face_session enter 0 f = ((r, n), f1)" by (metis prod.collapse)
  have n: "length (cf_modes f1) = n" using enter_modes_depth [OF _ _ e] assms(2) f by simp
  define x where "x = (case r of Inl e \<Rightarrow> (Inl e, f1) | Inr _ \<Rightarrow> run_body face_session body f1)"
  have "cf_modes (snd x) = cf_modes f1"
    using run_body_modes [OF assms(3)] by (simp add: x_def split: sum.split)
  moreover obtain f2 where "exit_modes face_session (lit ''exit'') n (snd x) = (Inr (), f2)"
    "cf_modes f2 = drop n (cf_modes (snd x))"
    using exit_modes_run by blast
  ultimately show "cf_modes (snd (in_mode face_session W enter body f)) = []"
    using n assms(1) by (simp add: in_mode_def Let_def e case_prod_beta flip: x_def)
qed

section \<open>The commands of the operations\<close>

lemma enters_paths:
  assumes "cr_spec W \<in> FASTPATH_SPECS"
  shows "enters_all [] [lit (cc_vlan_database_cmd (cr_spec W))]"
    "enters_all [] (config_mode W)" "enters_all [] (interface_mode W port)"
proof -
  have "interface_enter (cr_spec W) port = lit ''interface '' @ iface (cr_spec W) port"
    by (simp add: interface_enter_def fastpath_writes [OF assms] lit_def)
  then show "enters_all [] [lit (cc_vlan_database_cmd (cr_spec W))]"
    "enters_all [] (config_mode W)" "enters_all [] (interface_mode W port)"
    using enters_vlan_database enters_configure enters_interface [OF iface_solid [OF assms, of port]]
    by (auto simp: config_mode_def interface_mode_def fastpath_writes [OF assms])
qed

lemma keeps_mode_commands:
  assumes "spec \<in> FASTPATH_SPECS"
  shows "keeps_mode (vlan_create spec vlan)" "keeps_mode (vlan_name spec vlan name)"
    "keeps_mode (vlan_delete spec vlan)" "keeps_mode (vlan_participation spec vlan b)"
    "keeps_mode (vlan_tagging spec vlan b)" "keeps_mode (vlan_pvid spec vlan)"
    "keeps_mode (port_description spec t)" "keeps_mode (port_description_show spec port)"
    "keeps_mode (interface_stats spec port)" "keeps_mode (vlan_detail spec vlan)"
    "keeps_mode (port_flow_control spec b)" "keeps_mode (port_admin spec b)" "keeps_mode (poe_admin spec b)"
    "keeps_mode (lit (cc_poe_reset_cmd spec))" "keeps_mode (logging_syslog spec b)"
    "keeps_mode (logging_host_remove spec port)" "keeps_mode (fmt (cc_hostname_config_cmd spec) [(''name'', name)])"
proof -
  obtain b r where d: "show_int vlan = b # r" "\<not> is_space b" "b \<noteq> 100" using show_int_first by blast
  note w = fastpath_writes [OF assms] fastpath_reads(4) [OF assms]
  show "keeps_mode (vlan_create spec vlan)"
    using d by (simp add: vlan_create_def w keeps_mode_vlan)
qed (simp_all add: keeps_mode_first keeps_mode_vlan fastpath_writes fastpath_reads(4) assms is_space_def lit_def
    vlan_name_def vlan_delete_def vlan_participation_def vlan_tagging_def vlan_pvid_def port_description_def
    port_description_show_def interface_stats_def vlan_detail_def port_flow_control_def port_admin_def poe_admin_def
    logging_syslog_def logging_host_remove_def)

lemma keeps_mode_show: "keeps_mode (lit (CHR ''s'' # t))"
  by (simp add: lit_def keeps_mode_first is_space_def)

lemma keeps_mode_reads:
  assumes "spec \<in> FASTPATH_SPECS"
  shows "keeps_mode (lit (cc_version_cmd spec))" "keeps_mode (lit (cc_port_status_cmd spec))"
    "keeps_mode (lit (cc_vlan_brief_cmd spec))" "keeps_mode (lit (cc_pvid_cmd spec))"
    "keeps_mode (lit (cc_mac_table_cmd spec))" "keeps_mode (lit (cc_lldp_cmd spec))"
    "keeps_mode (lit (cc_poe_cmd spec))" "keeps_mode (lit (cc_environment_cmd spec))"
    "keeps_mode (lit (cc_network_cmd spec))" "keeps_mode (lit (cc_hosts_cmd spec))"
    "keeps_mode (lit (cc_logging_cmd spec))" "keeps_mode (lit (cc_logging_hosts_cmd spec))"
    "keeps_mode (lit (cc_users_cmd spec))" "keeps_mode (lit (cc_http_service_cmd spec))"
    "keeps_mode (lit (cc_telnet_service_cmd spec))" "keeps_mode (lit (cc_ssh_service_cmd spec))"
  using fastpath_reads(5,10) [OF assms]
  by (auto simp: fastpath_reads(1-4,6-9,11-13) [OF assms] fastpath_writes [OF assms] keeps_mode_show)

lemma keeps_mode_speed:
  assumes "spec \<in> FASTPATH_SPECS" "port_speed_cmd spec speed = Inr c"
  shows "keeps_mode c"
proof -
  have "keeps_mode (lit ''speed auto'')" "keeps_mode (fmt ''speed {rate} {duplex}-duplex'' kv)" for kv
    by (simp_all add: lit_def keeps_mode_first is_space_def)
  then show ?thesis
    using assms(2) by (auto simp: port_speed_cmd_def fastpath_writes [OF assms(1)]
        split: if_splits option.splits simp del: fmt.simps)
qed

lemma keeps_mode_collector:
  assumes "spec \<in> FASTPATH_SPECS" "logging_host_add spec address port severity = Inr c"
  shows "keeps_mode c"
proof -
  have "keeps_mode (fmt (CHR ''l'' # t) kv)" for t kv
    by (simp add: keeps_mode_first is_space_def)
  then show ?thesis
    using assms(2) by (auto simp: logging_host_add_def fastpath_writes [OF assms(1)] res_iff simp del: fmt.simps)
qed

lemma keeps_mode_mgmt:
  assumes "spec \<in> FASTPATH_SPECS" "mgmt_ip spec address netmask gateway = (e, c)"
  shows "list_all keeps_mode e" "list_all keeps_mode c"
proof -
  have "keeps_mode (fmt (CHR ''n'' # t) kv)" "keeps_mode (fmt (CHR ''i'' # CHR ''p'' # t) kv)" for t kv
    by (simp_all add: keeps_mode_first keeps_mode_ip is_space_def)
  then show "list_all keeps_mode e" "list_all keeps_mode c"
    using assms(2) fastpath_mgmt [OF assms(1)] by (auto simp: mgmt_ip_def Let_def simp del: fmt.simps)
qed

section \<open>The reader's and the writer's operations\<close>

lemma keeps_exec_show:
  assumes "cr_spec R \<in> FASTPATH_SPECS"
  shows "keeps_exec (run_show face_session (cc_port_status_cmd (cr_spec R)))"
    "keeps_exec (run_show face_session (cc_vlan_brief_cmd (cr_spec R)))"
    "keeps_exec (run_show face_session (cc_pvid_cmd (cr_spec R)))"
    "keeps_exec (run_show face_session (cc_poe_cmd (cr_spec R)))"
    "keeps_exec (run_show face_session (cc_network_cmd (cr_spec R)))"
    "keeps_exec (run_show face_session (cc_hosts_cmd (cr_spec R)))"
    "keeps_exec (run_show face_session (cc_logging_cmd (cr_spec R)))"
    "keeps_exec (run_show face_session (cc_logging_hosts_cmd (cr_spec R)))"
  unfolding run_show_def by (intro keeps_exec_run keeps_mode_reads assms)+

lemma keeps_exec_vlans_of: "cr_spec R \<in> FASTPATH_SPECS \<Longrightarrow> keeps_exec (cli_vlans_of face_session R brief)"
proof (induction brief)
  case (Cons e brief)
  then show ?case
    by (cases e) (auto intro!: exec_intro keeps_mode_commands)
qed (simp add: exec_intro)

lemma keeps_exec_reads:
  assumes "cr_spec R \<in> FASTPATH_SPECS"
  shows "keeps_exec (cli_get_vlans face_session R)" "keeps_exec (cli_get_pvids face_session R)"
    "keeps_exec (cli_get_ports face_session R)" "keeps_exec (cli_get_poe face_session R)"
    "keeps_exec (cli_get_hostname face_session R)" "keeps_exec (cli_get_syslog face_session R)"
    "keeps_exec (cli_get_mgmt_ip face_session R)"
  unfolding cli_get_vlans_def cli_get_pvids_def cli_get_ports_def cli_get_poe_def cli_get_hostname_def
    cli_get_syslog_def cli_get_mgmt_ip_def
  by (intro exec_intro keeps_exec_show keeps_exec_vlans_of assms)+

lemma keeps_exec_lookups:
  assumes "cr_spec W \<in> FASTPATH_SPECS"
  shows "keeps_exec (cli_vlan face_session W vlan)" "keeps_exec (cli_described face_session W port)"
    "keeps_exec (cli_port_status face_session W port)" "keeps_exec (cli_speed_config face_session W port)"
    "keeps_exec (cli_flow_control face_session W port)" "keeps_exec (cli_poe_status face_session W port)"
  unfolding cli_vlan_def cli_described_def cli_speed_config_def cli_flow_control_def cli_poe_status_def cli_port_status_def
  by (intro exec_intro keeps_exec_reads keeps_mode_commands assms)+

lemma keeps_mode_general:
  assumes "cr_spec W \<in> FASTPATH_SPECS"
  shows "list_all keeps_mode (general_mode W)" "list_all keeps_mode (membership_body W vlan mode)"
proof -
  have "keeps_mode (lit ''switchport mode general'')" by (rule keeps_mode_show)
  then show "list_all keeps_mode (general_mode W)"
    using fastpath_switchport [OF assms] by (auto simp: general_mode_def)
  then show "list_all keeps_mode (membership_body W vlan mode)"
    using keeps_mode_commands [OF assms] by (simp add: membership_body_def)
qed

end
