(* ===== verification/Cli_System.thy ===== *)
theory Cli_System
  imports Cli_Ports Cli_Modes
begin

text \<open>
  The command-line reader and writer against the simulated switch's session: what
  the reads report, and that the writes leave the session in EXEC mode.
\<close>

lemma lit_eq [simp]: "lit a = lit b \<longleftrightarrow> a = b"
proof
  assume "lit a = lit b"
  moreover have "inj (of_char :: char \<Rightarrow> nat)" by (simp add: inj_on_def of_char_eq_iff)
  ultimately show "a = b" by (simp add: lit_def inj_map_eq_map)
qed simp

section \<open>Shows\<close>

lemma exec_show:
  assumes "cf_modes f = []" "strip (lit ''show '' @ r) = lit ''show '' @ r"
  shows "face_run (lit ''show '' @ r) f = show_command (lit ''show '' @ r) f"
proof -
  let ?c = "lit ''show '' @ r"
  have eval: "?c = 115 # 104 # 111 # 119 # 32 # r" by (simp add: lit_def)
  have "re_matches SETUP_RE ?c = False" "re_matches VLAN_DATABASE_RE ?c = False"
    "re_matches CONFIGURE_RE ?c = False" "re_match NETWORK_PARMS_RE ?c = None"
    unfolding eval
    by (simp_all add: re_matches_def re_match_def SETUP_RE_def VLAN_DATABASE_RE_def CONFIGURE_RE_def
        NETWORK_PARMS_RE_def re_lit_def lit_def)
  moreover have "?c \<noteq> lit ''exit''" "?c \<noteq> lit ''end''" "?c \<noteq> lit ''no ip http secure-server''"
    "?c \<noteq> lit ''ip http secure-server''"
    by (simp_all add: lit_def)
  ultimately have "config_command ?c f = Inr (None, f)" using assms(1) by (simp add: config_command_def cli_mode_of_def)
  with assms(2) show ?thesis
    using \<open>re_matches SETUP_RE ?c = False\<close> \<open>?c \<noteq> lit ''no ip http secure-server''\<close> \<open>?c \<noteq> lit ''ip http secure-server''\<close>
    by (simp add: face_run_def Let_def)
qed

lemma exec_show_lit:
  assumes "cf_modes f = []" "strip (lit (''show '' @ t)) = lit (''show '' @ t)"
  shows "face_run (lit (''show '' @ t)) f = show_command (lit (''show '' @ t)) f"
proof -
  have l: "lit (''show '' @ t) = lit ''show '' @ lit t" by (simp add: lit_def)
  show ?thesis using exec_show [of f "lit t"] assms by (simp only: l)
qed

text \<open>The session in EXEC mode, on a switch and with a model's commands.\<close>

definition at_exec :: "virtual_switch \<Rightarrow> cli_model_spec \<Rightarrow> cli_face \<Rightarrow> bool" where
  "at_exec s spec f \<longleftrightarrow> cf_state f = s \<and> cf_spec f = spec \<and> cf_modes f = [] \<and> spec \<in> FASTPATH_SPECS"

lemma no_description_shown: "re_match PORT_DESCRIPTION_SHOW_RE (lit ''show vlan'' @ r) = None"
  by (simp add: re_match_def PORT_DESCRIPTION_SHOW_RE_def re_lit_def lit_def)

lemma run_pvids:
  assumes "at_exec s spec f"
  shows "run_show face_session (cc_pvid_cmd spec) f = (render_pvids s, f)"
proof -
  have f: "cf_state f = s" "cf_spec f = spec" "cf_modes f = []" "spec \<in> FASTPATH_SPECS"
    using assms by (simp_all add: at_exec_def)
  note c = fastpath_reads [OF f(4)]
  have "face_run (lit ''show vlan port all'') f = show_command (lit ''show vlan port all'') f"
    using exec_show_lit [of f "''vlan port all''"] f(3) by (simp add: strip_def is_space_def lit_def)
  moreover have "re_match PORT_DESCRIPTION_SHOW_RE (lit ''show vlan port all'') = None"
    using no_description_shown [of "lit '' port all''"] by (simp add: lit_def)
  ultimately show ?thesis
    using c(5,10) by (elim disjE) (simp_all add: run_show_def face_session_def show_command_def Let_def f c)
qed

lemma run_vlan_brief:
  assumes "at_exec s spec f"
  shows "run_show face_session (cc_vlan_brief_cmd spec) f = (Inr (render_vlan_brief s), f)"
proof -
  have f: "cf_state f = s" "cf_spec f = spec" "cf_modes f = []" "spec \<in> FASTPATH_SPECS"
    using assms by (simp_all add: at_exec_def)
  note c = fastpath_reads [OF f(4)]
  have "face_run (lit t) f = show_command (lit t) f \<and> re_match PORT_DESCRIPTION_SHOW_RE (lit t) = None"
    if "t = ''show vlan brief'' \<or> t = ''show vlan''" for t
    using that exec_show_lit [of f "''vlan brief''"] exec_show_lit [of f "''vlan''"] f(3)
      no_description_shown [of "lit '' brief''"] no_description_shown [of "[]"]
    by (auto simp: strip_def is_space_def lit_def)
  from this [OF c(5)] show ?thesis
    using c(5) by (elim disjE) (simp_all add: run_show_def face_session_def show_command_def Let_def f c)
qed

lemma number_command:
  assumes "0 \<le> n"
  shows "re_match (Seq (Str t) (Seq (Grp (Many is_digit 1)) Eos)) (t @ show_int n) = Some [Some (show_int n)]"
proof -
  have "matches (Seq (Grp (Many is_digit 1)) Eos) (show_int n) = [([Some (show_int n)], [])]"
    by (rule matches_Many_Eos(2) [OF digits_show_int [OF assms]])
      (use is_digit_values in \<open>simp_all add: Suc_le_eq\<close>)
  then show ?thesis by (simp add: re_match_def Str_first del: matches.simps)
qed

lemma strip_command:
  assumes "t \<noteq> []" "\<not> is_space (hd t)" "0 \<le> n"
  shows "strip (t @ show_int n) = t @ show_int n"
proof (rule strip_idem)
  have "last (show_int n) \<in> set (show_int n)" by simp
  then have "\<not> is_space (last (show_int n))"
    using digits_show_int [OF assms(3)] by (auto simp: list_all_iff dest: digit_not_space)
  then show "t @ show_int n = [] \<or> (\<not> is_space (hd (t @ show_int n)) \<and> \<not> is_space (last (t @ show_int n)))"
    using assms(1,2) by simp
qed

lemma vlan_detail_command:
  "spec \<in> FASTPATH_SPECS \<Longrightarrow> vlan_detail spec vid = lit ''show '' @ lit ''vlan '' @ show_int vid"
  by (simp add: vlan_detail_def fastpath_reads lit_def)

lemma run_vlan_detail:
  assumes "at_exec s spec f" "0 \<le> vid"
  shows "cs_run face_session (vlan_detail spec vid) f = (render_vlan_detail s vid, f)"
proof -
  have f: "cf_state f = s" "cf_spec f = spec" "cf_modes f = []" "spec \<in> FASTPATH_SPECS"
    using assms by (simp_all add: at_exec_def)
  define c where "c = lit ''show '' @ lit ''vlan '' @ show_int vid"
  have c: "c = lit ''show vlan '' @ show_int vid" by (simp add: lit_def c_def)
  have "strip c = c"
    unfolding c by (rule strip_command) (use assms(2) in \<open>simp_all add: lit_def is_space_def\<close>)
  then have run: "face_run c f = show_command c f"
    unfolding c_def by (rule exec_show [OF f(3)])
  have none: "re_match PORT_DESCRIPTION_SHOW_RE c = None"
    using no_description_shown [of "32 # show_int vid"] by (simp add: lit_def c_def)
  obtain d ds where d: "show_int vid = d # ds" "is_digit d"
    using digits_show_int [OF assms(2)] by (cases "show_int vid") auto
  have ne: "list_all (\<lambda>cmd. c \<noteq> lit cmd) [''show version'', ''show port all'', ''show vlan port all'', ''show vlan brief'', ''show vlan'',
      ''show mac-addr-table'', ''show lldp remote-device all'', ''show poe port info all'', ''show environment'',
      ''show network'', ''show ip management'', ''show hosts'', ''show logging'', ''show logging hosts'']"
    using d by (simp add: lit_def is_digit_def c_def) 
  have id: "re_match SHOW_VLAN_ID_RE c = Some [Some (show_int vid)]"
    unfolding c using number_command [OF assms(2), of "lit ''show vlan ''"]
    by (simp add: SHOW_VLAN_ID_RE_def re_lit_def del: matches.simps)
  have "vlan_detail spec vid = c" by (simp add: vlan_detail_command [OF f(4)] c_def)
  moreover have "show_command c f = (render_vlan_detail s vid, f)"
    using fastpath_reads(5,10) [OF f(4)] assms(2) none id ne
    by (elim disjE) (simp_all add: show_command_def Let_def f fastpath_reads [OF f(4)] grp_def)
  ultimately show ?thesis using run by (simp add: face_session_def)
qed

lemma run_ports:
  assumes "at_exec s spec f"
  shows "run_show face_session (cc_port_status_cmd spec) f = (render_ports s, f)"
proof -
  have f: "cf_state f = s" "cf_spec f = spec" "cf_modes f = []" "spec \<in> FASTPATH_SPECS"
    using assms by (simp_all add: at_exec_def)
  note c = fastpath_reads [OF f(4)]
  have "face_run (lit ''show port all'') f = show_command (lit ''show port all'') f"
    using exec_show_lit [of f "''port all''"] f(3) by (simp add: strip_def is_space_def lit_def)
  then show ?thesis
    using c(5,10) by (elim disjE) (simp_all add: run_show_def face_session_def show_command_def Let_def f c)
qed

section \<open>What the reader reports\<close>

lemma renders:
  assumes "screens_ok m s"
  shows "\<exists>t. render_pvids s = Inr t" "\<exists>t. render_ports s = Inr t" "\<exists>t. render_vlan_detail s vid = Inr t"
  using ports_line_count [OF assms, of port_line]
  by (simp_all add: render_pvids_def render_ports_def render_vlan_detail_def phys_ports_shown [OF assms] Let_def)

lemma read_pvids:
  assumes "at_exec s (cr_spec R) f" "screens_ok m s"
  shows "cli_get_pvids face_session R f = (Inr (map (\<lambda>p. (p, shown_pvid s p)) (shown_ports m s)), f)"
proof -
  obtain t where "render_pvids s = Inr t" using renders(1) [OF assms(2)] by blast
  then show ?thesis
    using run_pvids [OF assms(1)] cli_pvids_read_back [OF assms(2)] by (simp add: cli_get_pvids_def io_bind_run)
qed

lemma read_ports:
  assumes "at_exec s (cr_spec R) f" "screens_ok m s"
  shows "cli_get_ports face_session R f =
    (Inr (map (\<lambda>p. shown_status s p (the (dict_get (vs_ports s) p))) (shown_ports m s)), f)"
proof -
  obtain t where "render_ports s = Inr t" using renders(2) [OF assms(2)] by blast
  then show ?thesis
    using run_ports [OF assms(1)] cli_ports_read_back [OF assms(2)] by (simp add: cli_get_ports_def io_bind_run)
qed

lemma read_vlan_details:
  assumes "at_exec s (cr_spec R) f" "screens_ok m s" "set vs \<subseteq> set (vs_vlans s)"
  shows "cli_vlans_of face_session R (map (\<lambda>(vid, v). (vid, vl_name v)) vs) f = (Inr (map (shown_vlan m s) vs), f)"
  using assms(3)
proof (induction vs)
  case (Cons e vs)
  obtain vid v where e: "e = (vid, v)" by fastforce
  then have get: "dict_get (vs_vlans s) vid = Some v"
    using Cons.prems assms(2) by (simp add: screens_ok_def dict_get_in)
  have "0 \<le> vid" using Cons.prems assms(2) e by (auto simp: screens_ok_def list_all_iff shown_vlan_ok_def)
  moreover obtain t where t: "render_vlan_detail s vid = Inr t" using renders(3) [OF assms(2)] by blast
  ultimately have "cs_run face_session (vlan_detail (cr_spec R) vid) f = (Inr t, f)"
    using run_vlan_detail [OF assms(1)] by simp
  then show ?case
    using Cons vlan_detail_read_back [OF assms(2) get t] by (simp add: e io_bind_run)
qed simp

lemma read_vlans:
  assumes "at_exec s (cr_spec R) f" "screens_ok m s"
  shows "cli_get_vlans face_session R f = (Inr (map (shown_vlan m s) (sorted_items (vs_vlans s))), f)"
proof -
  have "set (sorted_items (vs_vlans s)) \<subseteq> set (vs_vlans s)" by simp
  then show ?thesis
    using run_vlan_brief [OF assms(1)] vlan_brief_read_back [OF assms(2)] read_vlan_details [OF assms]
    by (simp add: cli_get_vlans_def io_bind_run)
qed


text \<open>A switch with two ports, one with a link, and a named VLAN.\<close>

definition cli_sample :: virtual_switch where
  "cli_sample = (mk_virtual_switch ''m4300-16x'')
     \<lparr>vs_ports := [(2, mk_port_sim [] True False 0), (1, mk_port_sim [] True True 10000)],
      vs_vlans := [(1, mk_vlan_sim (lit ''default'') {1, 2} {1, 2}), (90, mk_vlan_sim (lit ''lab'') {1} {})],
      vs_pvids := [(1, 90)]\<rparr>"

definition cli_sample_reader :: cli_reader where
  "cli_sample_reader = \<lparr>cr_spec = SPEC_M4300_16X, cr_model = m4300_16x\<rparr>"

lemma cli_sample_at_exec:
  "at_exec cli_sample (cr_spec cli_sample_reader) (mk_cli_face cli_sample SPEC_M4300_16X)"
  by (simp add: at_exec_def mk_cli_face_def cli_sample_reader_def FASTPATH_SPECS_def)

lemma cli_sample_ok: "screens_ok m4300_16x cli_sample"
proof -
  have k: "vs_model_key cli_sample = m_key m4300_16x"
    by (simp add: cli_sample_def mk_virtual_switch_def m4300_16x_def mk_model_def)
  have "get_model (m_key m4300_16x) = Inr m4300_16x" by (rule get_model_registered) (simp add: registered_def)
  moreover have "cli_iface cli_sample p = lit ''1/0/'' @ show_int p" for p
    by (simp add: cli_iface_def cli_sample_def dict_get_def mk_port_sim_def)
  moreover have "one_line (lit ''Auto'')" "length (lit ''Auto'') \<le> 10"
    "one_line (lit ''default'')" "strip (lit ''default'') = lit ''default''" "length (lit ''default'') \<le> 32"
    "one_line (lit ''lab'')" "strip (lit ''lab'') = lit ''lab''" "length (lit ''lab'') \<le> 32"
    by (simp_all add: lit_def line_break_def strip_def is_space_def)
  ultimately show ?thesis
    by (simp add: screens_ok_def k shown_port_ok_def shown_vlan_ok_def names_port_slash)
      (simp add: cli_sample_def mk_port_sim_def mk_vlan_sim_def dict_wf_def names_port_slash)
qed


end
