(* ===== verification/Cli_Writes.thy ===== *)
theory Cli_Writes
  imports Cli_Modes
begin

text \<open>
  The operations of the command-line writer over the simulated session: each one
  returns the session to EXEC mode, the PoE polls included.
\<close>

section \<open>Configuration writes\<close>

lemma keeps_exec_vlan_writes:
  assumes "cr_spec W \<in> FASTPATH_SPECS"
  shows "keeps_exec (cli_create_vlan face_session W vlan name force)"
    "keeps_exec (cli_delete_vlan face_session W vlan force)"
    "keeps_exec (cli_set_vlan_membership face_session W vlan port mode force)"
    "keeps_exec (cli_set_pvid face_session W port vlan force)"
  unfolding cli_create_vlan_def cli_delete_vlan_def cli_set_vlan_membership_def cli_set_pvid_def
  by (intro exec_intro keeps_exec_lookups keeps_exec_reads enters_paths fastpath_writes assms;
      simp add: keeps_mode_commands keeps_mode_general assms)+

lemma keeps_exec_port_writes:
  assumes "cr_spec W \<in> FASTPATH_SPECS"
  shows "keeps_exec (cli_set_port_description face_session W port t force)"
    "keeps_exec (cli_set_flow_control face_session W port on force)"
    "keeps_exec (cli_set_port_enabled face_session W port on force)"
    "keeps_exec (cli_set_syslog_enabled face_session W on force)"
    "keeps_exec (cli_set_hostname face_session W t force)"
  unfolding cli_set_port_description_def cli_set_flow_control_def cli_set_port_enabled_def cli_set_syslog_enabled_def
    cli_set_hostname_def
  by (intro exec_intro keeps_exec_lookups keeps_exec_reads enters_paths fastpath_writes assms;
      simp add: keeps_mode_commands assms)+

text \<open>A command built by a step that can fail: only what it built is run.\<close>

lemma keeps_exec_lifted:
  "(\<And>c. r = Inr c \<Longrightarrow> keeps_exec (q c)) \<Longrightarrow> keeps_exec (io_bind (io_lift r) q)"
  by (cases r) (simp_all add: keeps_exec_basic)

lemma keeps_exec_built_writes:
  assumes "cr_spec W \<in> FASTPATH_SPECS"
  shows "keeps_exec (cli_set_port_speed face_session W port speed force)"
    "keeps_exec (cli_add_syslog_collector face_session W host port severity force)"
    "keeps_exec (cli_remove_syslog_collector face_session W host force)"
  unfolding cli_set_port_speed_def cli_add_syslog_collector_def cli_remove_syslog_collector_def
  by (intro keeps_exec_lifted exec_intro keeps_exec_lookups keeps_exec_reads enters_paths fastpath_writes assms;
      simp add: keeps_mode_speed [OF assms] keeps_mode_collector [OF assms] keeps_mode_commands assms)+

lemma keeps_exec_mgmt_write:
  assumes "cr_spec W \<in> FASTPATH_SPECS"
  shows "keeps_exec (cli_set_mgmt_ip face_session W address netmask gateway force)"
proof -
  obtain e c where m: "mgmt_ip (cr_spec W) address netmask gateway = (e, c)" by fastforce
  show ?thesis
    unfolding cli_set_mgmt_ip_def m Let_def prod.case
    by (intro exec_intro keeps_exec_reads enters_paths fastpath_writes keeps_mode_mgmt [OF assms m] assms)
qed

lemma keeps_exec_reboot: "keeps_exec (cli_reboot face_session W force)"
proof -
  have "cf_modes (snd (face_write_memory c b f)) = cf_modes f" for c b f
    by (simp add: face_write_memory_def Let_def)
  then have "keeps_exec (\<lambda>w. case cs_write_memory face_session c b w of
      (Inr _, w') \<Rightarrow> (Inr (), w')
    | (Inl e, w') \<Rightarrow> if e = CliTransportError then (Inr (), w') else (Inl e, w'))" for c b
    by (simp add: keeps_exec_def face_session_def case_prod_beta split: sum.split)
  then show ?thesis unfolding cli_reboot_def by (intro keeps_exec_bind keeps_exec_basic)
qed

section \<open>PoE\<close>

definition keeps_exec_option_io :: "(cli_face \<Rightarrow> ((exn, unit) res \<times> cli_face) option) \<Rightarrow> bool" where
  "keeps_exec_option_io p \<longleftrightarrow> (\<forall>f r f'. cf_modes f = [] \<longrightarrow> p f = Some (r, f') \<longrightarrow> cf_modes f' = [])"

lemma keeps_execD: "keeps_exec p \<Longrightarrow> cf_modes f = [] \<Longrightarrow> p f = (r, f') \<Longrightarrow> cf_modes f' = []"
  unfolding keeps_exec_def by (metis snd_conv)

lemma keeps_exec_poll_admin:
  assumes "keeps_exec status" "keeps_exec clock" "keeps_exec sleep"
  shows "keeps_exec_option_io (poll_admin status on prior clock sleep deadline)"
proof -
  let ?P = "\<lambda>status on prior clock sleep deadline f x. keeps_exec status \<longrightarrow> keeps_exec clock \<longrightarrow> keeps_exec sleep
    \<longrightarrow> cf_modes f = [] \<longrightarrow> cf_modes (snd x) = []"
  have "?P status on prior clock sleep deadline f x" if "poll_admin status on prior clock sleep deadline f = Some x" for f x
  proof (rule poll_admin.raw_induct [where P = ?P, OF _ that], goal_cases)
    case (1 poll status on prior clock sleep deadline f x)
    show ?case
    proof (intro impI)
      assume k: "keeps_exec status" "keeps_exec clock" "keeps_exec sleep" and f: "cf_modes f = []"
      obtain a w1 where a: "status f = (a, w1)" by fastforce
      have m1: "cf_modes w1 = []" by (rule keeps_execD [OF k(1) f a])
      obtain t w2 where t: "clock w1 = (t, w2)" by fastforce
      have m2: "cf_modes w2 = []" by (rule keeps_execD [OF k(2) m1 t])
      obtain u w3 where u: "sleep w2 = (u, w3)" by fastforce
      have m3: "cf_modes w3 = []" by (rule keeps_execD [OF k(3) m2 u])
      show "cf_modes (snd x) = []"
        using 1(2) 1(1) [of status on prior clock sleep deadline w3 x] k m1 m2 m3
        by (cases a; cases t; cases u) (auto simp: a t u split: if_splits)
    qed
  qed
  then show ?thesis using assms by (fastforce simp: keeps_exec_option_io_def)
qed

lemma keeps_exec_poll_until:
  assumes "keeps_exec finished" "keeps_exec clock" "keeps_exec sleep" "keeps_exec expired"
  shows "keeps_exec_option_io (poll_until finished clock sleep expired deadline)"
proof -
  let ?P = "\<lambda>finished clock sleep expired deadline f x. keeps_exec finished \<longrightarrow> keeps_exec clock \<longrightarrow> keeps_exec sleep
    \<longrightarrow> keeps_exec expired \<longrightarrow> cf_modes f = [] \<longrightarrow> cf_modes (snd x) = []"
  have "?P finished clock sleep expired deadline f x" if "poll_until finished clock sleep expired deadline f = Some x" for f x
  proof (rule poll_until.raw_induct [where P = ?P, OF _ that], goal_cases)
    case (1 poll finished clock sleep expired deadline f x)
    show ?case
    proof (intro impI)
      assume k: "keeps_exec finished" "keeps_exec clock" "keeps_exec sleep" "keeps_exec expired" and f: "cf_modes f = []"
      obtain a w1 where a: "finished f = (a, w1)" by fastforce
      have m1: "cf_modes w1 = []" by (rule keeps_execD [OF k(1) f a])
      obtain t w2 where t: "clock w1 = (t, w2)" by fastforce
      have m2: "cf_modes w2 = []" by (rule keeps_execD [OF k(2) m1 t])
      obtain u w3 where u: "sleep w2 = (u, w3)" by fastforce
      have m3: "cf_modes w3 = []" by (rule keeps_execD [OF k(3) m2 u])
      have e: "cf_modes (snd (expired w2)) = []" using k(4) m2 by (simp add: keeps_exec_def)
      show "cf_modes (snd x) = []"
        using 1(2) 1(1) [of finished clock sleep expired deadline w3 x] k m1 m2 m3 e
        by (cases a; cases t; cases u) (auto simp: a t u split: if_splits)
    qed
  qed
  then show ?thesis using assms by (fastforce simp: keeps_exec_option_io_def)
qed

lemma keeps_exec_started:
  assumes "keeps_exec p" "\<And>x t. keeps_exec_option_io (q x t)"
  shows "keeps_exec_option_io (\<lambda>w. case p w of (Inl e, w1) \<Rightarrow> Some (Inl e, w1) | (Inr (x, t), w1) \<Rightarrow> q x t w1)"
  unfolding keeps_exec_option_io_def
proof (intro allI impI)
  fix f r f' assume f: "cf_modes f = []"
    and run: "(case p f of (Inl e, w1) \<Rightarrow> Some (Inl e, w1) | (Inr (x, t), w1) \<Rightarrow> q x t w1) = Some (r, f')"
  obtain a w1 where a: "p f = (a, w1)" by fastforce
  have "cf_modes w1 = []" by (rule keeps_execD [OF assms(1) f a])
  then show "cf_modes f' = []"
    using run assms(2) by (cases a) (auto simp: a keeps_exec_option_io_def)
qed

lemma keeps_exec_set_poe:
  assumes "cr_spec W \<in> FASTPATH_SPECS" "keeps_exec clock" "\<And>t. keeps_exec (sleep t)"
  shows "keeps_exec_option_io (cli_set_poe face_session W port on force limits sleep clock)"
  unfolding cli_set_poe_def [abs_def]
  by (rule keeps_exec_started,
      (intro exec_intro keeps_exec_lookups enters_paths fastpath_writes assms; simp add: keeps_mode_commands assms),
      rule keeps_exec_poll_admin; intro keeps_exec_lookups assms)

lemma keeps_exec_poe_reset:
  assumes "cr_spec W \<in> FASTPATH_SPECS" "keeps_exec clock" "\<And>t. keeps_exec (sleep t)"
  shows "keeps_exec_option_io (cli_poe_reset face_session W port limits sleep clock recovered)"
  unfolding cli_poe_reset_def [abs_def]
  by (rule keeps_exec_started,
      (intro exec_intro keeps_exec_lookups enters_paths fastpath_writes assms; simp add: keeps_mode_commands assms),
      rule keeps_exec_poll_until; intro exec_intro keeps_exec_lookups assms)

lemma keeps_exec_poe_cycles:
  assumes "cr_spec W \<in> FASTPATH_SPECS" "keeps_exec clock" "\<And>t. keeps_exec (sleep t)"
  shows "keeps_exec_option_io (cli_cycle_poe face_session W port force limits sleep clock)"
    "keeps_exec_option_io (cli_clear_poe_fault face_session W port force limits sleep clock)"
proof -
  note reset = keeps_exec_poe_reset [OF assms, unfolded keeps_exec_option_io_def]
  show "keeps_exec_option_io (cli_cycle_poe face_session W port force limits sleep clock)"
    "keeps_exec_option_io (cli_clear_poe_fault face_session W port force limits sleep clock)"
    unfolding keeps_exec_option_io_def cli_cycle_poe_def cli_clear_poe_fault_def
    by (auto split: sum.splits dest: reset [rule_format, rotated])
qed

text \<open>C15. Every write of the command-line backend leaves the session in EXEC mode:
  started there, it is back there however it ends, so a refused command, a failed
  read-back or a guard never leaves the next operation inside a configuration mode.\<close>

theorem cli_writes_return_to_exec:
  assumes "cr_spec W \<in> FASTPATH_SPECS" "keeps_exec clock" "\<And>t. keeps_exec (sleep t)" "cf_modes f = []"
  shows "cf_modes (snd (cli_create_vlan face_session W vlan name force f)) = []
    \<and> cf_modes (snd (cli_delete_vlan face_session W vlan force f)) = []
    \<and> cf_modes (snd (cli_set_vlan_membership face_session W vlan port mode force f)) = []
    \<and> cf_modes (snd (cli_set_pvid face_session W port vlan force f)) = []
    \<and> cf_modes (snd (cli_set_port_description face_session W port name force f)) = []
    \<and> cf_modes (snd (cli_set_port_speed face_session W port speed force f)) = []
    \<and> cf_modes (snd (cli_set_flow_control face_session W port on force f)) = []
    \<and> cf_modes (snd (cli_set_port_enabled face_session W port on force f)) = []
    \<and> cf_modes (snd (cli_set_hostname face_session W name force f)) = []
    \<and> cf_modes (snd (cli_set_mgmt_ip face_session W address netmask gateway force f)) = []
    \<and> cf_modes (snd (cli_set_syslog_enabled face_session W on force f)) = []
    \<and> cf_modes (snd (cli_add_syslog_collector face_session W name vlan severity force f)) = []
    \<and> cf_modes (snd (cli_remove_syslog_collector face_session W name force f)) = []
    \<and> cf_modes (snd (cli_reboot face_session W force f)) = []
    \<and> pred_option (\<lambda>(r, f'). cf_modes f' = []) (cli_set_poe face_session W port on force limits sleep clock f)
    \<and> pred_option (\<lambda>(r, f'). cf_modes f' = []) (cli_cycle_poe face_session W port force limits sleep clock f)
    \<and> pred_option (\<lambda>(r, f'). cf_modes f' = []) (cli_clear_poe_fault face_session W port force limits sleep clock f)"
proof -
  have poe: "pred_option (\<lambda>(r, f'). cf_modes f' = []) (p f)" if "keeps_exec_option_io p" for p
    using that assms(4) by (cases "p f") (auto simp: keeps_exec_option_io_def)
  note keeps_exec_vlan_writes [OF assms(1)] keeps_exec_port_writes [OF assms(1)] keeps_exec_built_writes [OF assms(1)]
    keeps_exec_mgmt_write [OF assms(1)] keeps_exec_reboot
  moreover note poe [OF keeps_exec_set_poe [OF assms(1-3)]] keeps_exec_poe_cycles [OF assms(1-3), THEN poe]
  ultimately show ?thesis using assms(4) by (simp only: keeps_exec_def)
qed

definition exec_sample_face :: cli_face where
  "exec_sample_face = mk_cli_face (mk_virtual_switch ''gsm7252ps'') SPEC_GSM7252PS"

definition exec_sample_writer :: cli_writer where
  "exec_sample_writer = \<lparr>cr_spec = SPEC_GSM7252PS, cr_model = gsm7252ps, cw_protected_ports = {}\<rparr>"

theorem cli_writes_return_to_exec_witness:
  "cf_modes (snd (cli_create_vlan face_session exec_sample_writer 5000 (lit ''a b'') False exec_sample_face)) = []"
  using cli_writes_return_to_exec [where W = exec_sample_writer and f = exec_sample_face and clock = "io_return 0"
      and sleep = "\<lambda>_. io_return ()"]
  by (simp add: exec_sample_writer_def FASTPATH_SPECS_def exec_sample_face_def mk_cli_face_def keeps_exec_basic)

end
