(* ===== verification/Cli_Effects.thy ===== *)
theory Cli_Effects
  imports Cli_System Cli_Writes
begin

text \<open>
  What the command-line writes do to the simulated switch: the commands each mode
  accepts and the state they leave, and whole operations from guard to read-back.
\<close>

section \<open>Commands inside their modes\<close>

lemma face_run_body:
  assumes "keeps_mode c" "strip c = c" "re_match SETUP_RE c = None" "re_match NETWORK_PARMS_RE c = None"
    "c \<noteq> lit ''no ip http secure-server''" "c \<noteq> lit ''ip http secure-server''"
  shows "cli_mode_of f = Some VlanDb \<Longrightarrow> face_run c f =
      (case vlan_db_command c (cf_state f) of
         (Some t, s) \<Rightarrow> (Inr t, with_state f s) | (None, s) \<Rightarrow> show_command c (with_state f s))"
    and "cli_mode_of f = Some Interface \<Longrightarrow> cf_iface_port f = Some port \<Longrightarrow> face_run c f =
      (case interface_command c port (cf_state f) of
         Inl e \<Rightarrow> (Inl e, f)
       | Inr (Some t, s) \<Rightarrow> (Inr t, with_state f s)
       | Inr (None, s) \<Rightarrow> show_command c (with_state f s))"
proof -
  have c: "c \<noteq> lit ''exit''" "c \<noteq> lit ''end''" "\<not> re_matches VLAN_DATABASE_RE c" "\<not> re_matches CONFIGURE_RE c"
    using assms(1,2) by (simp_all add: keeps_mode_def)
  have plain: "\<not> re_matches SETUP_RE c" using assms(3) by (simp add: re_matches_def)
  show "cli_mode_of f = Some VlanDb \<Longrightarrow> face_run c f =
      (case vlan_db_command c (cf_state f) of
         (Some t, s) \<Rightarrow> (Inr t, with_state f s) | (None, s) \<Rightarrow> show_command c (with_state f s))"
    using c plain assms by (simp add: face_run_def Let_def config_command_def split: prod.split option.split)
  show "cli_mode_of f = Some Interface \<Longrightarrow> cf_iface_port f = Some port \<Longrightarrow> face_run c f =
      (case interface_command c port (cf_state f) of
         Inl e \<Rightarrow> (Inl e, f)
       | Inr (Some t, s) \<Rightarrow> (Inr t, with_state f s)
       | Inr (None, s) \<Rightarrow> show_command c (with_state f s))"
    using c plain assms by (simp add: face_run_def Let_def config_command_def res_bind_def split: prod.split option.split sum.split)
qed

section \<open>VLANs by name\<close>

lemma vlan_create_command:
  assumes "0 \<le> vid"
  shows "vlan_db_command (lit ''vlan '' @ show_int vid) s =
    (Some [], if dict_get (vs_vlans s) vid = None
              then s\<lparr>vs_vlans := dict_set vid (mk_vlan_sim [] {} {}) (vs_vlans s)\<rparr> else s)"
  using number_command [OF assms, of "lit ''vlan ''"] assms
  by (simp add: vlan_db_command_def VLAN_CREATE_RE_def re_lit_def grp_def Let_def del: matches.simps)

lemma matches_word_end_none:
  assumes "32 \<in> set t"
  shows "matches (Seq (Grp (Many non_space 1)) Eos) t = []"
proof -
  have "matches Eos (drop k t) = []" if "k \<le> run_of non_space t" for k
  proof -
    have "32 \<notin> set (take k t)"
      using run_of_takes [OF that, of 32] by (auto simp: non_space_def is_space_def)
    then have "32 \<in> set (drop k t)" using assms by (metis append_take_drop_id in_set_conv_decomp set_append Un_iff)
    then show ?thesis by auto
  qed
  then show ?thesis
    by (auto simp: concat_eq_Nil_conv less_Suc_eq_le simp del: upt_Suc)
qed

lemma set_name_match:
  assumes "0 \<le> vid"
  shows "matches VLAN_SET_NAME_RE (lit ''vlan name '' @ show_int vid @ 32 # name) =
    map (\<lambda>(g, s'). (Some (show_int vid) # g, s')) (matches (Seq (Grp (Many non_space 1)) Eos) name)"
proof -
  have "matches (Seq (Grp (Many is_digit 1)) (Seq (Str (32 # [])) (Seq (Grp (Many non_space 1)) Eos))) (show_int vid @ 32 # [] @ name) =
      map (\<lambda>(g, s'). (Some (show_int vid) # g, s')) (matches (Seq (Grp (Many non_space 1)) Eos) name)"
    by (rule matches_Many_Str(2) [OF digits_show_int [OF assms]]) (simp_all add: Suc_le_eq is_digit_def)
  moreover have "lit '' '' = [32]" by (simp add: lit_def)
  ultimately show ?thesis
    by (simp only: VLAN_SET_NAME_RE_def re_seq.simps re_lit_def Str_first append_Nil)
qed

lemma not_create_command: "re_match VLAN_CREATE_RE (lit ''vlan name '' @ r) = None"
  by (simp add: VLAN_CREATE_RE_def re_match_def re_lit_def is_digit_def run_of_def) (simp add: lit_def is_digit_def)

lemma vlan_name_command:
  assumes "0 \<le> vid" "dict_get (vs_vlans s) vid = Some v" "list_all non_space name" "name \<noteq> []"
  shows "vlan_db_command (lit ''vlan name '' @ show_int vid @ 32 # name) s =
    (Some [], s\<lparr>vs_vlans := dict_set vid (v\<lparr>vl_name := name\<rparr>) (vs_vlans s)\<rparr>)"
proof -
  have "matches (Seq (Grp (Many non_space 1)) Eos) name = [([Some name], [])]"
    by (rule matches_Many_Eos(2) [OF assms(3)]) (use assms(4) in \<open>simp_all add: Suc_le_eq non_space_def is_space_def\<close>)
  then have "re_match VLAN_SET_NAME_RE (lit ''vlan name '' @ show_int vid @ 32 # name) = Some [Some (show_int vid), Some name]"
    using set_name_match [OF assms(1)] by (simp add: re_match_def del: matches.simps)
  then show ?thesis
    using assms(1,2) by (simp add: vlan_db_command_def not_create_command grp_def Let_def)
qed

lemma vlan_name_refused:
  assumes "0 \<le> vid" "32 \<in> set name"
  shows "vlan_db_command (lit ''vlan name '' @ show_int vid @ 32 # name) s = (None, s)"
proof -
  have "re_match VLAN_SET_NAME_RE (lit ''vlan name '' @ show_int vid @ 32 # name) = None"
    using set_name_match [OF assms(1)] matches_word_end_none [OF assms(2)] by (simp add: re_match_def del: matches.simps)
  moreover have "re_match VLAN_DELETE_RE (lit ''vlan name '' @ show_int vid @ 32 # name) = None"
    by (simp add: VLAN_DELETE_RE_def re_match_def re_lit_def) (simp add: lit_def)
  ultimately show ?thesis by (simp add: vlan_db_command_def not_create_command)
qed

text \<open>No \<open>show\<close> command starts as a configuration command does.\<close>

lemma show_unknown:
  assumes "cf_spec f \<in> FASTPATH_SPECS" "c \<noteq> []" "hd c \<noteq> 115"
  shows "show_command c f = (Inr UNKNOWN_COMMAND, f)"
proof -
  obtain b r where c: "c = b # r" "b \<noteq> 115" using assms(2,3) by (cases c) auto
  have "c \<noteq> lit (CHR ''s'' # t)" for t using c by (simp add: lit_def)
  moreover have "re_match PORT_DESCRIPTION_SHOW_RE c = None" "re_match SHOW_VLAN_ID_RE c = None" "re_match SHOW_IFACE_RE c = None"
    unfolding c(1) using c(2)
    by (simp_all add: re_match_def PORT_DESCRIPTION_SHOW_RE_def SHOW_VLAN_ID_RE_def SHOW_IFACE_RE_def re_lit_def lit_def)
  ultimately show ?thesis
    using fastpath_reads(5,10) [OF assms(1)]
    by (elim disjE) (simp_all add: show_command_def Let_def fastpath_reads [OF assms(1)])
qed

section \<open>Into a mode and out again\<close>

lemma enter_vlan_database:
  "cf_modes f = [] \<Longrightarrow> cli_run face_session (lit ''vlan database'') f = (Inr (), f\<lparr>cf_modes := [VlanDb]\<rparr>)"
  by (subst cli_run_face [where t = "[]" and f' = "f\<lparr>cf_modes := [VlanDb]\<rparr>"]) (simp_all add: dispatch_eval)

lemma enter_configure:
  "cf_modes f = [] \<Longrightarrow> cli_run face_session (lit ''configure'') f = (Inr (), f\<lparr>cf_modes := [Config]\<rparr>)"
  by (subst cli_run_face [where t = "[]" and f' = "f\<lparr>cf_modes := [Config]\<rparr>"]) (simp_all add: dispatch_eval)

lemma exit_all:
  "length (cf_modes f) = n \<Longrightarrow> 0 < n \<Longrightarrow>
     exit_modes face_session (lit ''exit'') n f = (Inr (), f\<lparr>cf_modes := [], cf_iface_port := None\<rparr>)"
proof (induction n arbitrary: f)
  case (Suc n)
  obtain m ms where ms: "cf_modes f = m # ms" "length ms = n" using Suc.prems by (cases "cf_modes f") auto
  have run: "cs_run face_session (lit ''exit'') f = (Inr [], leave_mode f)"
    by (simp add: face_session_def face_run_exit)
  show ?case
  proof (cases n)
    case 0
    then show ?thesis using ms run by (simp add: io_bind_run leave_mode_def cli_mode_of_def)
  next
    case (Suc k)
    have l: "cf_modes (leave_mode f) = ms" using ms by (simp add: leave_mode_modes)
    have "(leave_mode f)\<lparr>cf_modes := [], cf_iface_port := None\<rparr> = f\<lparr>cf_modes := [], cf_iface_port := None\<rparr>"
      by (simp add: leave_mode_def Let_def split: list.split)
    then show ?thesis
      using Suc.IH [of "leave_mode f"] ms l run Suc by (simp add: io_bind_run)
  qed
qed simp

lemma in_vlan_database:
  assumes "at_exec s (cr_spec W) f"
    and "run_body face_session body (f\<lparr>cf_modes := [VlanDb]\<rparr>) = (r, with_state (f\<lparr>cf_modes := [VlanDb]\<rparr>) s')"
  shows "in_mode face_session W [lit (cc_vlan_database_cmd (cr_spec W))] body f =
    (r, f\<lparr>cf_state := s', cf_modes := [], cf_iface_port := None\<rparr>)"
proof -
  have f: "cf_modes f = []" "cr_spec W \<in> FASTPATH_SPECS" using assms(1) by (simp_all add: at_exec_def)
  have "exit_modes face_session (lit ''exit'') 1 (with_state (f\<lparr>cf_modes := [VlanDb]\<rparr>) s') =
      (Inr (), f\<lparr>cf_state := s', cf_modes := [], cf_iface_port := None\<rparr>)"
    by (subst exit_all) (simp_all add: with_state_def)
  then show ?thesis
    using f by (simp add: in_mode_def fastpath_writes enter_vlan_database assms(2) del: exit_modes.simps)
qed

lemma at_exec_after:
  "at_exec s spec f \<Longrightarrow> at_exec s' spec (f\<lparr>cf_state := s', cf_modes := [], cf_iface_port := x\<rparr>)"
  by (simp add: at_exec_def)

section \<open>Creating a VLAN\<close>

text \<open>The specification: the VLAN exists with the name, keeping the members it had.\<close>

definition with_named_vlan :: "int \<Rightarrow> ustr \<Rightarrow> virtual_switch \<Rightarrow> virtual_switch" where
  "with_named_vlan vid name s =
     (let v = (case dict_get (vs_vlans s) vid of Some v \<Rightarrow> v | None \<Rightarrow> mk_vlan_sim [] {} {})
      in s\<lparr>vs_vlans := dict_set vid (v\<lparr>vl_name := name\<rparr>) (vs_vlans s)\<rparr>)"

definition with_vlan :: "int \<Rightarrow> virtual_switch \<Rightarrow> virtual_switch" where
  "with_vlan vid s = (if dict_get (vs_vlans s) vid = None
     then s\<lparr>vs_vlans := dict_set vid (mk_vlan_sim [] {} {}) (vs_vlans s)\<rparr> else s)"

lemma dict_set_set [simp]: "dict_set k v (dict_set k u d) = dict_set k v d"
  by (induction d) (auto simp: dict_set_def)

lemma create_commands:
  assumes "spec \<in> FASTPATH_SPECS"
  shows "vlan_create spec vid = lit ''vlan '' @ show_int vid"
    "vlan_name spec vid name = lit ''vlan name '' @ show_int vid @ 32 # name"
  by (simp_all add: vlan_create_def vlan_name_def fastpath_writes [OF assms] lit_def)

lemma run_create:
  assumes "spec \<in> FASTPATH_SPECS" "0 \<le> vid" "cf_modes f = [VlanDb]"
  shows "cli_run face_session (vlan_create spec vid) f = (Inr (), with_state f (with_vlan vid (cf_state f)))"
proof -
  let ?c = "lit ''vlan '' @ show_int vid"
  have keep: "keeps_mode ?c" using keeps_mode_commands(1) [OF assms(1), of vid] create_commands [OF assms(1)] by simp
  have strip: "strip ?c = ?c" by (rule strip_command) (use assms(2) in \<open>simp_all add: lit_def is_space_def\<close>)
  have "re_match SETUP_RE ?c = None" "re_match NETWORK_PARMS_RE ?c = None" "?c \<noteq> lit ''no ip http secure-server''"
    "?c \<noteq> lit ''ip http secure-server''"
    by (simp_all add: re_match_def SETUP_RE_def NETWORK_PARMS_RE_def re_lit_def lit_def)
  from face_run_body(1) [OF keep strip this] have "face_run ?c f = (Inr [], with_state f (with_vlan vid (cf_state f)))"
    using assms(3) vlan_create_command [OF assms(2), of "cf_state f"] by (simp add: cli_mode_of_def with_vlan_def)
  then show ?thesis
    using cli_run_face [of ?c f] create_commands [OF assms(1)] by (simp add: strip_def)
qed

lemma strip_name_command:
  assumes "name \<noteq> []" "\<not> is_space (last name)"
  shows "strip (lit ''vlan name '' @ show_int vid @ 32 # name) = lit ''vlan name '' @ show_int vid @ 32 # name"
  by (rule strip_idem) (use assms in \<open>simp add: lit_def is_space_def\<close>)

lemma run_name:
  assumes "spec \<in> FASTPATH_SPECS" "cf_modes f = [VlanDb]" "name \<noteq> []" "\<not> is_space (last name)"
  shows "face_run (vlan_name spec vid name) f =
    (case vlan_db_command (vlan_name spec vid name) (cf_state f) of
       (Some t, s) \<Rightarrow> (Inr t, with_state f s)
     | (None, s) \<Rightarrow> show_command (vlan_name spec vid name) (with_state f s))"
proof -
  let ?c = "lit ''vlan name '' @ show_int vid @ 32 # name"
  have keep: "keeps_mode ?c" using keeps_mode_commands(2) [OF assms(1), of vid name] create_commands [OF assms(1)] by simp
  have "re_match SETUP_RE ?c = None" "re_match NETWORK_PARMS_RE ?c = None" "?c \<noteq> lit ''no ip http secure-server''"
    "?c \<noteq> lit ''ip http secure-server''"
    by (simp_all add: re_match_def SETUP_RE_def NETWORK_PARMS_RE_def re_lit_def lit_def)
  from face_run_body(1) [OF keep strip_name_command [OF assms(3,4)] this] show ?thesis
    unfolding create_commands(2) [OF assms(1)] using assms(2) by (simp add: cli_mode_of_def)
qed

text \<open>Looking a VLAN up in what the reader reports.\<close>

lemma find_shown:
  "find (\<lambda>v. vi_vlan_id v = vid) (map (shown_vlan m s) xs) = map_option (\<lambda>v. shown_vlan m s (vid, v)) (map_of xs vid)"
  by (induction xs) (auto simp: shown_vlan_def)

lemma read_vlan:
  assumes "at_exec s (cr_spec W) f" "screens_ok m s"
  shows "cli_vlan face_session W vid f = (Inr (map_option (\<lambda>v. shown_vlan m s (vid, v)) (dict_get (vs_vlans s) vid)), f)"
proof -
  have "dict_wf (vs_vlans s)" using assms(2) by (simp add: screens_ok_def)
  then have "map_of (sorted_items (vs_vlans s)) vid = dict_get (vs_vlans s) vid" by (simp add: dict_get_def)
  then show ?thesis
    using read_vlans [OF assms] by (simp add: cli_vlan_def io_bind_run find_shown)
qed

definition plain_name :: "ustr \<Rightarrow> bool" where
  "plain_name name \<longleftrightarrow> list_all non_space name \<and> name \<noteq> [] \<and> length name \<le> 32"

lemma last_solid: "list_all non_space name \<Longrightarrow> name \<noteq> [] \<Longrightarrow> \<not> is_space (last name)"
  by (auto simp: list_all_iff non_space_def dest: last_in_set)

lemma named_eq: "0 \<le> vid \<Longrightarrow> \<exists>v. dict_get (vs_vlans (with_vlan vid s)) vid = Some v
    \<and> (with_vlan vid s)\<lparr>vs_vlans := dict_set vid (v\<lparr>vl_name := name\<rparr>) (vs_vlans (with_vlan vid s))\<rparr> = with_named_vlan vid name s"
  by (cases "dict_get (vs_vlans s) vid") (auto simp: with_vlan_def with_named_vlan_def)

lemma screens_ok_named:
  assumes "screens_ok m s" "0 \<le> vid" "vid < 10000" "plain_name name"
  shows "screens_ok m (with_named_vlan vid name s)"
proof -
  have n: "one_line name" "strip name = name" "length name \<le> 32"
    using assms(4) by (simp_all add: plain_name_def solid_one_line solid_strip)
  have "cli_iface (with_named_vlan vid name s) p = cli_iface s p" for p
    by (simp add: cli_iface_def with_named_vlan_def Let_def)
  then show ?thesis
    using assms n by (simp add: screens_ok_def with_named_vlan_def Let_def shown_port_ok_def shown_vlan_ok_def)
qed

lemma with_state_with_state [simp]: "with_state (with_state f s) t = with_state f t"
  by (simp add: with_state_def)

lemma with_state_simps [simp]:
  "cf_state (with_state f s) = s" "cf_spec (with_state f s) = cf_spec f"
  by (simp_all add: with_state_def)

text \<open>C8. Creating a VLAN over the command line creates it: with a name of one word,
  the operation succeeds, its own read-back included, the switch has the VLAN under
  that name with the members it had, and nothing else on the switch has changed.\<close>

theorem cli_vlan_created:
  assumes "at_exec s (cr_spec W) f" "screens_ok m s" "0 \<le> vid" "vid < 10000" "plain_name name"
  shows "cli_create_vlan face_session W vid name force f =
      (Inr (), f\<lparr>cf_state := with_named_vlan vid name s, cf_modes := [], cf_iface_port := None\<rparr>)"
proof -
  let ?f = "f\<lparr>cf_modes := [VlanDb]\<rparr>" and ?s = "with_named_vlan vid name s"
  let ?f' = "f\<lparr>cf_state := ?s, cf_modes := [], cf_iface_port := None\<rparr>"
  have f: "cf_state f = s" "cr_spec W \<in> FASTPATH_SPECS" using assms(1) by (simp_all add: at_exec_def)
  have n: "list_all non_space name" "name \<noteq> []" using assms(5) by (simp_all add: plain_name_def)
  obtain v where v: "dict_get (vs_vlans (with_vlan vid s)) vid = Some v"
    "(with_vlan vid s)\<lparr>vs_vlans := dict_set vid (v\<lparr>vl_name := name\<rparr>) (vs_vlans (with_vlan vid s))\<rparr> = ?s"
    using named_eq [OF assms(3)] by blast
  have create: "cli_run face_session (vlan_create (cr_spec W) vid) ?f = (Inr (), with_state ?f (with_vlan vid s))"
    using run_create [OF f(2) assms(3), of ?f] f(1) by simp
  have "face_run (vlan_name (cr_spec W) vid name) (with_state ?f (with_vlan vid s)) = (Inr [], with_state ?f ?s)"
    using run_name [OF f(2) _ n(2) last_solid [OF n], of "with_state ?f (with_vlan vid s)"]
      vlan_name_command [OF assms(3) v(1) n] v(2) create_commands(2) [OF f(2)] by simp
  then have "cli_run face_session (vlan_name (cr_spec W) vid name) (with_state ?f (with_vlan vid s)) = (Inr (), with_state ?f ?s)"
    by (simp add: cli_run_face) (simp add: strip_def)
  then have "run_body face_session [vlan_create (cr_spec W) vid, vlan_name (cr_spec W) vid name] ?f = (Inr (), with_state ?f ?s)"
    using create by (simp add: io_bind_run)
  then have mode: "in_mode face_session W [lit (cc_vlan_database_cmd (cr_spec W))]
      [vlan_create (cr_spec W) vid, vlan_name (cr_spec W) vid name] f = (Inr (), ?f')"
    by (rule in_vlan_database [OF assms(1)])
  have "dict_get (vs_vlans ?s) vid \<noteq> None" "\<And>w. dict_get (vs_vlans ?s) vid = Some w \<Longrightarrow> vl_name w = name"
    by (auto simp: with_named_vlan_def Let_def)
  then have "\<exists>w. cli_vlan face_session W vid ?f' = (Inr (Some w), ?f') \<and> vi_name w = Some name"
    using read_vlan [OF at_exec_after [OF assms(1)] screens_ok_named [OF assms(2-5)], where vid = vid]
    by (auto simp: shown_vlan_def)
  then show ?thesis
    using read_vlan [OF assms(1,2), of vid] mode by (auto simp: cli_create_vlan_def io_bind_run)
qed

definition cli_sample_writer :: cli_writer where
  "cli_sample_writer = \<lparr>cr_spec = SPEC_M4300_16X, cr_model = m4300_16x, cw_protected_ports = {2}\<rparr>"

lemma cli_sample_writer_exec:
  "at_exec cli_sample (cr_spec cli_sample_writer) (mk_cli_face cli_sample SPEC_M4300_16X)"
  by (simp add: at_exec_def mk_cli_face_def cli_sample_writer_def FASTPATH_SPECS_def)

theorem cli_vlan_created_witness:
  "fst (cli_create_vlan face_session cli_sample_writer 30 (lit ''users'') False (mk_cli_face cli_sample SPEC_M4300_16X)) = Inr ()"
proof -
  have "plain_name (lit ''users'')" by (simp add: plain_name_def lit_def non_space_def is_space_def)
  from cli_vlan_created [OF cli_sample_writer_exec cli_sample_ok _ _ this] show ?thesis by simp
qed

lemma strip_unknown: "strip UNKNOWN_COMMAND \<noteq> []"
  by (simp add: UNKNOWN_COMMAND_def strip_eq_Nil) (simp add: lit_def is_space_def)

text \<open>C29. A name the switch refuses leaves half a write: with a name holding a space the
  operation raises the switch's refusal, but the VLAN has been created before the
  refused command and stays on the switch, with the name and the members it had.\<close>

theorem cli_create_vlan_refused_name:
  assumes "at_exec s (cr_spec W) f" "screens_ok m s" "0 \<le> vid" "32 \<in> set name" "\<not> is_space (last name)"
  shows "cli_create_vlan face_session W vid name force f =
      (Inl (CliCommandError (CliRejected (vlan_name (cr_spec W) vid name) (strip UNKNOWN_COMMAND))),
       f\<lparr>cf_state := with_vlan vid s, cf_modes := [], cf_iface_port := None\<rparr>)
    \<and> dict_get (vs_vlans (with_vlan vid s)) vid \<noteq> None"
proof -
  let ?f = "f\<lparr>cf_modes := [VlanDb]\<rparr>" and ?s = "with_vlan vid s" and ?c = "vlan_name (cr_spec W) vid name"
  have f: "cf_state f = s" "cr_spec W \<in> FASTPATH_SPECS" "cf_spec f = cr_spec W" using assms(1) by (simp_all add: at_exec_def)
  have n: "name \<noteq> []" using assms(4) by auto
  have create: "cli_run face_session (vlan_create (cr_spec W) vid) ?f = (Inr (), with_state ?f ?s)"
    using run_create [OF f(2) assms(3), of ?f] f(1) by simp
  have "show_command ?c (with_state ?f ?s) = (Inr UNKNOWN_COMMAND, with_state ?f ?s)"
    by (rule show_unknown) (simp_all add: f create_commands(2) [OF f(2)] lit_def)
  then have "face_run ?c (with_state ?f ?s) = (Inr UNKNOWN_COMMAND, with_state ?f ?s)"
    using run_name [OF f(2) _ n assms(5), of "with_state ?f ?s"] vlan_name_refused [OF assms(3,4)] create_commands(2) [OF f(2)]
    by simp
  then have "run_body face_session [vlan_create (cr_spec W) vid, ?c] ?f =
      (Inl (CliCommandError (CliRejected ?c (strip UNKNOWN_COMMAND))), with_state ?f ?s)"
    using create strip_unknown by (simp add: io_bind_run cli_run_face)
  from in_vlan_database [OF assms(1) this] show ?thesis
    using read_vlan [OF assms(1,2), of vid] by (simp add: cli_create_vlan_def io_bind_run with_vlan_def)
qed

theorem cli_create_vlan_refused_name_witness:
  "dict_get (vs_vlans (cf_state (snd (cli_create_vlan face_session cli_sample_writer 30 (lit ''lab users'') False
     (mk_cli_face cli_sample SPEC_M4300_16X))))) 30 \<noteq> None"
proof -
  have "32 \<in> set (lit ''lab users'')" "\<not> is_space (last (lit ''lab users''))" by (simp_all add: lit_def is_space_def)
  from cli_create_vlan_refused_name [OF cli_sample_writer_exec cli_sample_ok _ this, where vid = 30 and force = False]
  show ?thesis by simp
qed

section \<open>PVIDs\<close>

text \<open>The switch prints for the port the name the writer uses, and for no port listed before it.\<close>

definition named_port :: "cli_model_spec \<Rightarrow> virtual_switch \<Rightarrow> int \<Rightarrow> bool" where
  "named_port spec s p \<longleftrightarrow> port_for_iface s (iface spec p) = Some p"

lemma enter_interface:
  assumes "spec \<in> FASTPATH_SPECS" "cf_modes f = [Config]" "named_port spec (cf_state f) p"
  shows "cli_run face_session (interface_enter spec p) f =
    (Inr (), f\<lparr>cf_iface_port := Some p, cf_modes := [Interface, Config]\<rparr>)"
proof -
  have c: "interface_enter spec p = lit ''interface '' @ iface spec p"
    by (simp add: interface_enter_def fastpath_writes [OF assms(1)] lit_def)
  have "face_run (interface_enter spec p) f = (case port_for_iface (cf_state f) (iface spec p) of
      None \<Rightarrow> (Inr CLI_INVALID, f)
    | Some port \<Rightarrow> (Inr [], f\<lparr>cf_iface_port := Some port, cf_modes := [Interface, Config]\<rparr>))"
    unfolding c by (rule interface_run [OF iface_solid [OF assms(1)] assms(2)])
  then show ?thesis
    using assms(3) by (simp add: named_port_def cli_run_face) (simp add: strip_def)
qed

lemma in_interface:
  assumes "at_exec s (cr_spec W) f" "named_port (cr_spec W) s p"
    and "run_body face_session body (f\<lparr>cf_iface_port := Some p, cf_modes := [Interface, Config]\<rparr>) =
      (r, with_state (f\<lparr>cf_iface_port := Some p, cf_modes := [Interface, Config]\<rparr>) s')"
  shows "in_mode face_session W (interface_mode W p) body f =
    (r, f\<lparr>cf_state := s', cf_modes := [], cf_iface_port := None\<rparr>)"
proof -
  have f: "cf_modes f = []" "cr_spec W \<in> FASTPATH_SPECS" "cf_state f = s" using assms(1) by (simp_all add: at_exec_def)
  have "cli_run face_session (interface_enter (cr_spec W) p) (f\<lparr>cf_modes := [Config]\<rparr>) =
      (Inr (), f\<lparr>cf_iface_port := Some p, cf_modes := [Interface, Config]\<rparr>)"
    by (subst enter_interface) (use f assms(2) in simp_all)
  moreover have "exit_modes face_session (lit ''exit'') 2 (with_state (f\<lparr>cf_iface_port := Some p, cf_modes := [Interface, Config]\<rparr>) s') =
      (Inr (), f\<lparr>cf_state := s', cf_modes := [], cf_iface_port := None\<rparr>)"
    by (subst exit_all) (simp_all add: with_state_def)
  ultimately show ?thesis
    using f by (simp add: in_mode_def interface_mode_def fastpath_writes enter_configure assms(3) numeral_2_eq_2 del: exit_modes.simps)
qed

text \<open>A command accepted in interface mode.\<close>

lemma run_in_interface:
  assumes "keeps_mode c" "strip c = c" "re_match SETUP_RE c = None" "re_match NETWORK_PARMS_RE c = None"
    "c \<noteq> lit ''no ip http secure-server''" "c \<noteq> lit ''ip http secure-server''"
    and "cf_modes f = [Interface, Config]" "cf_iface_port f = Some p" "interface_command c p (cf_state f) = Inr (Some [], s')"
  shows "cli_run face_session c f = (Inr (), with_state f s')"
proof -
  have "face_run c f = (Inr [], with_state f s')"
    using face_run_body(2) [OF assms(1-6), of f p] assms(7-9) by (simp add: cli_mode_of_def)
  then show ?thesis by (simp add: cli_run_face) (simp add: strip_def)
qed

definition made_general :: "cli_model_spec \<Rightarrow> int \<Rightarrow> virtual_switch \<Rightarrow> virtual_switch" where
  "made_general spec p s =
     (case (cc_switchport_general_cmd spec, dict_get (vs_ports s) p) of
        (Some _, Some x) \<Rightarrow> s\<lparr>vs_ports := dict_set p (x\<lparr>pt_switchport_mode := lit ''general''\<rparr>) (vs_ports s)\<rparr>
      | _ \<Rightarrow> s)"

definition with_pvid :: "cli_model_spec \<Rightarrow> int \<Rightarrow> int \<Rightarrow> virtual_switch \<Rightarrow> virtual_switch" where
  "with_pvid spec p vid s = (made_general spec p s)\<lparr>vs_pvids := dict_set p vid (vs_pvids s)\<rparr>"

text \<open>The switch knows the modes the writer sets, and the port then follows VLANs.\<close>

definition follows_vlans :: "cli_model_spec \<Rightarrow> virtual_switch \<Rightarrow> int \<Rightarrow> bool" where
  "follows_vlans spec s p \<longleftrightarrow>
     (if cc_switchport_general_cmd spec = None then honours_vlans s p else has_switchport_modes s)"

lemma general_command:
  assumes "dict_get (vs_ports s) p = Some x" "has_switchport_modes s"
  shows "interface_command (lit ''switchport mode general'') p s =
    Inr (Some [], s\<lparr>vs_ports := dict_set p (x\<lparr>pt_switchport_mode := lit ''general''\<rparr>) (vs_ports s)\<rparr>)"
proof -
  have "re_match SWITCHPORT_MODE_RE (lit ''switchport mode general'') = Some [Some (lit ''general'')]"
    by (simp add: SWITCHPORT_MODE_RE_def re_match_def re_lit_def lit_def)
  then show ?thesis
    using assms by (simp add: interface_command_def accepted_def set_port_def grp_def)
qed

lemma pvid_command_accepted:
  assumes "0 \<le> vid" "dict_get (vs_vlans s) vid \<noteq> None" "honours_vlans s p"
  shows "interface_command (lit ''vlan pvid '' @ show_int vid) p s =
    Inr (Some [], s\<lparr>vs_pvids := dict_set p vid (vs_pvids s)\<rparr>)"
proof -
  let ?c = "lit ''vlan pvid '' @ show_int vid"
  have no: "re_match SWITCHPORT_MODE_RE ?c = None" "\<not> re_matches POE_RESET_RE ?c" "re_match POE_RE ?c = None"
    "re_match SHUTDOWN_RE ?c = None" "re_match PARTICIPATION_RE ?c = None" "re_match TAGGING_RE ?c = None"
    by (simp_all add: re_match_def re_matches_def SWITCHPORT_MODE_RE_def POE_RESET_RE_def POE_RE_def SHUTDOWN_RE_def
        PARTICIPATION_RE_def TAGGING_RE_def re_lit_def lit_def)
  have "re_match PVID_RE ?c = Some [Some (show_int vid)]"
    using number_command [OF assms(1), of "lit ''vlan pvid ''"] by (simp add: PVID_RE_def re_lit_def del: matches.simps)
  then show ?thesis
    using assms by (auto simp: interface_command_def no pvid_command_def grp_def)
qed

lemma run_general:
  assumes "cr_spec W \<in> FASTPATH_SPECS" "cf_modes f = [Interface, Config]" "cf_iface_port f = Some p"
    "dict_get (vs_ports (cf_state f)) p = Some x" "follows_vlans (cr_spec W) (cf_state f) p"
  shows "run_body face_session (general_mode W) f = (Inr (), with_state f (made_general (cr_spec W) p (cf_state f)))"
proof -
  let ?c = "lit ''switchport mode general''"
  have keep: "keeps_mode ?c" "strip ?c = ?c" "re_match SETUP_RE ?c = None" "re_match NETWORK_PARMS_RE ?c = None"
    "?c \<noteq> lit ''no ip http secure-server''" "?c \<noteq> lit ''ip http secure-server''"
    by (rule keeps_mode_show)
      (simp_all add: re_match_def SETUP_RE_def NETWORK_PARMS_RE_def re_lit_def lit_def strip_def is_space_def)
  from fastpath_switchport [OF assms(1)] show ?thesis
  proof
    assume "cc_switchport_general_cmd (cr_spec W) = None"
    then show ?thesis by (simp add: general_mode_def made_general_def with_state_def)
  next
    assume g: "cc_switchport_general_cmd (cr_spec W) = Some ''switchport mode general''"
    then have "has_switchport_modes (cf_state f)" using assms(5) by (simp add: follows_vlans_def)
    from run_in_interface [OF keep assms(2,3) general_command [OF assms(4) this]] show ?thesis
      using g assms(4) by (simp add: general_mode_def made_general_def io_bind_run)
  qed
qed

lemma run_body_append:
  "run_body ss (xs @ ys) w = io_bind (run_body ss xs) (\<lambda>_. run_body ss ys) w"
  by (induction xs arbitrary: w) (auto simp: io_bind_def split: prod.split sum.split)

lemma run_pvid:
  assumes "cr_spec W \<in> FASTPATH_SPECS" "cf_modes f = [Interface, Config]" "cf_iface_port f = Some p"
    "dict_get (vs_ports (cf_state f)) p = Some x" "follows_vlans (cr_spec W) (cf_state f) p"
    "0 \<le> vid" "dict_get (vs_vlans (cf_state f)) vid \<noteq> None"
  shows "run_body face_session (general_mode W @ [vlan_pvid (cr_spec W) vid]) f =
    (Inr (), with_state f (with_pvid (cr_spec W) p vid (cf_state f)))"
proof -
  let ?c = "lit ''vlan pvid '' @ show_int vid" and ?s = "made_general (cr_spec W) p (cf_state f)"
  have c: "vlan_pvid (cr_spec W) vid = ?c" by (simp add: vlan_pvid_def fastpath_writes [OF assms(1)] lit_def)
  have "keeps_mode ?c" using keeps_mode_commands(6) [OF assms(1), of vid] c by simp
  moreover have "strip ?c = ?c" by (rule strip_command) (use assms(6) in \<open>simp_all add: lit_def is_space_def\<close>)
  moreover have "re_match SETUP_RE ?c = None" "re_match NETWORK_PARMS_RE ?c = None" "?c \<noteq> lit ''no ip http secure-server''"
    "?c \<noteq> lit ''ip http secure-server''"
    by (simp_all add: re_match_def SETUP_RE_def NETWORK_PARMS_RE_def re_lit_def lit_def)
  moreover have "dict_get (vs_vlans ?s) vid \<noteq> None" "vs_pvids ?s = vs_pvids (cf_state f)"
    using assms(7) by (simp_all add: made_general_def split: option.split)
  moreover have "honours_vlans ?s p"
    using assms(4,5) by (auto simp: honours_vlans_def made_general_def follows_vlans_def split: option.splits if_splits)
  ultimately have "cli_run face_session ?c (with_state f ?s) = (Inr (), with_state f (with_pvid (cr_spec W) p vid (cf_state f)))"
    using run_in_interface [of ?c "with_state f ?s" p "with_pvid (cr_spec W) p vid (cf_state f)"]
      pvid_command_accepted [OF assms(6), of ?s p] assms(2,3)
    by (simp add: with_pvid_def) (simp add: with_state_def)
  then show ?thesis using run_general [OF assms(1-5)] by (simp add: run_body_append io_bind_run c)
qed

lemma made_general_ports:
  "cli_iface (with_pvid spec p vid s) q = cli_iface s q" "vs_model_key (with_pvid spec p vid s) = vs_model_key s"
  "vs_vlans (with_pvid spec p vid s) = vs_vlans s"
  "vs_pvids (with_pvid spec p vid s) = dict_set p vid (vs_pvids s)"
  by (auto simp: with_pvid_def made_general_def cli_iface_def split: option.split)

lemma screens_ok_pvid:
  assumes "screens_ok m s" "0 \<le> vid" "vid < 10000"
  shows "screens_ok m (with_pvid spec p vid s)"
proof -
  have "shown_port_ok s p (x\<lparr>pt_switchport_mode := t\<rparr>)" if "dict_get (vs_ports s) p = Some x" for x t
    using list_all_dict_get [OF _ that, of "\<lambda>(q, x). shown_port_ok s q x"] assms(1)
    by (simp add: screens_ok_def shown_port_ok_def)
  then have "list_all (\<lambda>(q, x). shown_port_ok s q x) (vs_ports (with_pvid spec p vid s)) \<and> dict_wf (vs_ports (with_pvid spec p vid s))"
    using assms(1) by (simp add: screens_ok_def with_pvid_def made_general_def split: option.split)
  moreover have "shown_port_ok (with_pvid spec p vid s) = shown_port_ok s"
    by (intro ext) (simp add: shown_port_ok_def made_general_ports)
  ultimately show ?thesis
    using assms by (simp add: screens_ok_def made_general_ports)
qed

lemma fst_dict_set: "fst ` set (dict_set k v d) = insert k (fst ` set d)"
  by (simp add: dict_set_def update_keys flip: set_map) auto

lemma shown_ports_pvid:
  assumes "p \<in> set (shown_ports m s)"
  shows "p \<in> set (shown_ports m (with_pvid spec p vid s))"
proof -
  have "fst ` set (vs_ports s) \<subseteq> fst ` set (vs_ports (with_pvid spec p vid s))"
    by (auto simp: with_pvid_def made_general_def fst_dict_set split: option.split)
  then show ?thesis using assms by (auto simp: shown_ports_def)
qed

lemma dict_get_shown: "p \<in> set ps \<Longrightarrow> dict_get (dict_of (map (\<lambda>p. (p, g p)) ps)) p = Some (g p)"
  by (simp add: dict_get_dict_of rev_map map_of_map_restrict)

text \<open>C7. Setting a PVID over the command line sets it: for a port the switch prints
  under the writer's name for it and a VLAN it has, the operation succeeds, its own
  read-back included; the port has the PVID, is in general mode where the model has
  the modes, and no other port, VLAN or PVID has changed. That is the simulated
  switch: the docstring of \<open>CliWriter.set_vlan_membership\<close>, whose prelude this is,
  says of a live one that forcing general mode can move the port's membership in
  other VLANs, and the command handler of \<open>switchport mode\<close> sets the mode alone.\<close>

theorem cli_pvid_written:
  assumes "at_exec s (cr_spec W) f" "screens_ok m s" "p \<in> set (shown_ports m s)"
    and "named_port (cr_spec W) s p" "follows_vlans (cr_spec W) s p"
    and "dict_get (vs_vlans s) vid \<noteq> None" "cli_guard W p force = Inr ()"
  shows "cli_set_pvid face_session W p vid force f =
      (Inr (), f\<lparr>cf_state := with_pvid (cr_spec W) p vid s, cf_modes := [], cf_iface_port := None\<rparr>)"
proof -
  let ?f = "f\<lparr>cf_iface_port := Some p, cf_modes := [Interface, Config]\<rparr>" and ?s = "with_pvid (cr_spec W) p vid s"
  let ?f' = "f\<lparr>cf_state := ?s, cf_modes := [], cf_iface_port := None\<rparr>"
  have f: "cf_state f = s" "cr_spec W \<in> FASTPATH_SPECS" using assms(1) by (simp_all add: at_exec_def)
  obtain x where x: "dict_get (vs_ports s) p = Some x" using shown_port_in [OF assms(2,3)] by blast
  obtain v where v: "dict_get (vs_vlans s) vid = Some v" using assms(6) by auto
  then have vid: "0 \<le> vid" "vid < 10000"
    using assms(2) by (auto simp: screens_ok_def shown_vlan_ok_def dest: list_all_dict_get)
  have "run_body face_session (general_mode W @ [vlan_pvid (cr_spec W) vid]) ?f = (Inr (), with_state ?f ?s)"
    using run_pvid [OF f(2), of ?f p x vid] f(1) x v assms(5) vid by simp
  then have mode: "in_mode face_session W (interface_mode W p) (general_mode W @ [vlan_pvid (cr_spec W) vid]) f = (Inr (), ?f')"
    by (rule in_interface [OF assms(1,4)])
  have exists: "vid \<in> vi_vlan_id ` set (map (shown_vlan m s) (sorted_items (vs_vlans s)))"
  proof -
    have "(vid, v) \<in> set (vs_vlans s)" using v assms(2) by (simp add: screens_ok_def dict_get_in)
    then have "shown_vlan m s (vid, v) \<in> set (map (shown_vlan m s) (sorted_items (vs_vlans s)))" by simp
    then show ?thesis by (rule rev_image_eqI) (simp add: shown_vlan_def)
  qed
  have after: "cli_get_pvids face_session W ?f' = (Inr (map (\<lambda>q. (q, shown_pvid ?s q)) (shown_ports m ?s)), ?f')"
    by (rule read_pvids [OF at_exec_after [OF assms(1)] screens_ok_pvid [OF assms(2) vid]])
  have "shown_pvid ?s p = vid" by (simp add: shown_pvid_def made_general_ports)
  then have "dict_get (dict_of (map (\<lambda>q. (q, shown_pvid ?s q)) (shown_ports m ?s))) p = Some vid"
    using dict_get_shown [OF shown_ports_pvid [OF assms(3)], where g = "shown_pvid ?s"] by simp
  then show ?thesis
    using assms(7) read_vlans [OF assms(1,2)] read_pvids [OF assms(1,2)] exists mode after
    by (simp add: cli_set_pvid_def io_bind_run)
qed

theorem cli_pvid_written_witness:
  "fst (cli_set_pvid face_session cli_sample_writer 1 1 False (mk_cli_face cli_sample SPEC_M4300_16X)) = Inr ()"
proof -
  have name: "cli_iface cli_sample p = lit ''1/0/'' @ show_int p" for p
    by (simp add: cli_iface_def cli_sample_def dict_get_def mk_port_sim_def)
  have key: "vs_model_key cli_sample = ''m4300-16x''" by (simp add: cli_sample_def mk_virtual_switch_def)
  have port: "1 \<in> set (shown_ports m4300_16x cli_sample)"
    by (simp add: shown_ports_def cli_sample_def m4300_16x_def mk_model_def)
  have writer: "cr_spec cli_sample_writer = SPEC_M4300_16X" by (simp add: cli_sample_writer_def)
  have "iface SPEC_M4300_16X 1 = lit ''1/0/1''"
    by (simp add: iface_def spec_eval lit_def show_int_def show_nat.simps)
  moreover have "cli_iface cli_sample 1 = lit ''1/0/1''" "cli_iface cli_sample 2 = lit ''1/0/2''"
    by (simp_all add: name) (simp_all add: lit_def show_int_def show_nat.simps)
  moreover have "strip (lit ''1/0/1'') = lit ''1/0/1''" "map fst (vs_ports cli_sample) = [2, 1]"
    by (simp_all add: text_eval cli_sample_def)
  ultimately have "named_port (cr_spec cli_sample_writer) cli_sample 1"
    by (simp add: named_port_def port_for_iface_def writer)
  moreover have "follows_vlans (cr_spec cli_sample_writer) cli_sample 1"
    by (simp add: follows_vlans_def writer has_switchport_modes_def key spec_eval)
  moreover have "dict_get (vs_vlans cli_sample) 1 \<noteq> None"
    by (simp add: cli_sample_def dict_get_def)
  moreover have "cli_guard cli_sample_writer 1 False = Inr ()"
    by (simp add: cli_guard_def cli_sample_writer_def)
  ultimately show ?thesis
    using cli_pvid_written [OF cli_sample_writer_exec cli_sample_ok port] by simp
qed

end
