(* ===== verification/Cli_Poe.thy ===== *)
theory Cli_Poe
  imports Cli_Effects
begin

text \<open>
  PoE over the command line: what the reader sees of the status column, which lags
  behind a change, and the write that polls until the column has caught up.
\<close>

section \<open>The PoE screen\<close>

definition shown_poe_ok :: "virtual_switch \<Rightarrow> int \<Rightarrow> poe_sim \<Rightarrow> bool" where
  "shown_poe_ok s p x \<longleftrightarrow> names_port (cli_iface s p) p \<and> 0 \<le> pe_power_mw x \<and> pe_power_mw x < 100000000000"

definition poe_screen_ok :: "virtual_switch \<Rightarrow> bool" where
  "poe_screen_ok s \<longleftrightarrow> dict_wf (vs_poe s) \<and> list_all (\<lambda>(p, x). shown_poe_ok s p x) (vs_poe s)"

text \<open>The status column: \<open>Disabled\<close> while it lags, then the detection state.\<close>

definition shown_detect :: "poe_sim \<Rightarrow> poe_detect" where
  "shown_detect x =
     (if 0 < pe_cli_status_lag_reads x \<or> \<not> pe_admin x then PoeDisabled
      else if pe_detect x = 3 then PoeDelivering
      else if pe_detect x = 4 \<or> pe_detect x = 6 then PoeFault else PoeSearching)"

definition shown_poe :: "int \<times> poe_sim \<Rightarrow> poe_status" where
  "shown_poe = (\<lambda>(p, x). \<lparr>poe_port = p, poe_admin_enabled = (shown_detect x \<noteq> PoeDisabled),
     poe_detect_state = shown_detect x, poe_power_mw = Some (pe_power_mw x)\<rparr>)"

text \<open>The switch after one look at its PoE table.\<close>

definition looked_at_poe :: "virtual_switch \<Rightarrow> virtual_switch" where
  "looked_at_poe s = s\<lparr>vs_poe := map (\<lambda>(p, x). (p, snd (poe_status_text x))) (vs_poe s)\<rparr>"

lemma status_detect: "poe_detect_of (lower (strip (fst (poe_status_text x)))) = shown_detect x"
  by (simp add: poe_status_text_def shown_detect_def poe_detect_of_def POE_DETECT_TEXT_def text_eval starts_with_def)

lemma status_width: "one_line (fst (poe_status_text x))" "length (fst (poe_status_text x)) \<le> 18"
  by (simp_all add: poe_status_text_def one_line_lit line_break_def) (simp add: lit_def)

lemma poe_row_ok:
  assumes "shown_poe_ok s p x"
  shows "row_ok (poe_widths s) (poe_line s (p, x))"
proof -
  have n: "one_line (cli_iface s p)" "inked (cli_iface s p)" "length (cli_iface s p) \<le> 7"
    using assms names_port_facts by (auto simp: shown_poe_ok_def)
  have w: "length (show_int (pe_power_mw x)) \<le> 11" "one_line (show_int (pe_power_mw x))"
    using assms length_show_int [of "pe_power_mw x" 11] by (simp_all add: shown_poe_ok_def)
  have k: "length (show_int 32000) \<le> 15" "length (show_int 18000) \<le> 15" "length (show_int 4) \<le> 9"
    "length (show_int 0) \<le> 19" "length (show_int 54) \<le> 19" "length (show_int 30) \<le> 13"
    using length_show_int [of 32000 5] length_show_int [of 18000 5] length_show_int [of 4 1] length_show_int [of 0 1]
      length_show_int [of 54 2] length_show_int [of 30 2] by simp_all
  have l: "length (lit ''Yes'') \<le> 11" "length (lit ''No'') \<le> 11" "length (lit ''Unknown'') \<le> 9" "one_line (lit ''Yes'')"
    "one_line (lit ''No'')" "one_line (lit ''Unknown'')" "one_line (lit ''No Error'')"
    by (simp_all add: lit_def line_break_def)
  have z: "length (show_int 0) \<le> 20" using k(4) by simp
  show ?thesis
    using n w k l z status_width [of x]
    by (simp add: row_ok_def poe_line_def poe_widths_def Let_def)
qed

lemma poe_header_ok: "row_ok (poe_widths s) (poe_headers s)" "widths_ok (poe_widths s)"
  by (simp_all add: row_ok_def poe_widths_def poe_headers_def widths_ok_def one_line_lit line_break_def)
    (simp add: lit_def is_space_def)

definition status_column :: "virtual_switch \<Rightarrow> nat" where
  "status_column s = (if is_m4300 s then 7 else 8)"

lemma poe_columns:
  "find_index (\<lambda>x. x = lit ''Intf'') (map (\<lambda>h. collapse_spaces False (strip h)) (poe_headers s)) = Some 0"
  "find_index (\<lambda>x. x = lit ''Power (mW)'') (map (\<lambda>h. collapse_spaces False (strip h)) (poe_headers s)) = Some 4"
  "find_index (\<lambda>x. x = lit ''Status'') (map (\<lambda>h. collapse_spaces False (strip h)) (poe_headers s)) = Some (status_column s)"
  by (simp_all add: poe_headers_def status_column_def text_eval)

lemma poe_row_shown:
  assumes "shown_poe_ok s p x"
  shows "poe_row 0 4 (status_column s) (map strip (poe_line s (p, x))) = Inr (Some (shown_poe (p, x)))"
proof -
  have n: "phys_port (cli_iface s p) = Inr (Some p)" "strip (cli_iface s p) = cli_iface s p"
    using assms names_port_facts by (auto simp: shown_poe_ok_def)
  have w: "py_int (show_int (pe_power_mw x)) = Some (pe_power_mw x)" "strip (show_int (pe_power_mw x)) = show_int (pe_power_mw x)"
    using assms by (simp_all add: shown_poe_ok_def)
  show ?thesis
    using n w status_detect [of x]
    by (simp add: poe_row_def poe_line_def Let_def status_column_def shown_poe_def)
qed

lemma poe_read_back:
  assumes "poe_screen_ok s"
  shows "cli_poe (fst (render_poe s)) = Inr (map shown_poe (sorted_items (vs_poe s)))"
proof -
  let ?rows = "map (poe_line s) (sorted_items (vs_poe s))"
  have ok: "shown_poe_ok s p x" if "(p, x) \<in> set (sorted_items (vs_poe s))" for p x
    using assms that by (auto simp: poe_screen_ok_def list_all_iff)
  have table: "table_ok [] (poe_headers s) (poe_widths s) ?rows"
    using ok poe_row_ok by (auto simp: table_ok_def poe_header_ok list_all_iff)
  have t: "fst (render_poe s) = join [10] ([] @ table_lines (poe_headers s) (poe_widths s) ?rows)"
    by (simp add: render_poe_def render_table_lines)
  have "collect_rows (poe_row 0 4 (status_column s)) (map (\<lambda>e. map strip (poe_line s e)) (sorted_items (vs_poe s))) =
      Inr (map shown_poe (sorted_items (vs_poe s)))"
    using ok poe_row_shown by (intro collect_rows_map) auto
  then show ?thesis
    using header_read_back [OF table] table_read_back [OF table]
    by (simp add: cli_poe_def t Let_def poe_columns comp_def)
qed

lemma run_poe:
  assumes "at_exec s spec f"
  shows "run_show face_session (cc_poe_cmd spec) f = (Inr (fst (render_poe s)), with_state f (looked_at_poe s))"
proof -
  have f: "cf_state f = s" "cf_spec f = spec" "cf_modes f = []" "spec \<in> FASTPATH_SPECS"
    using assms by (simp_all add: at_exec_def)
  note c = fastpath_reads [OF f(4)]
  have "face_run (lit ''show poe port info all'') f = show_command (lit ''show poe port info all'') f"
    using exec_show_lit [of f "''poe port info all''"] f(3) by (simp add: strip_def is_space_def lit_def)
  moreover have "re_match PORT_DESCRIPTION_SHOW_RE (lit ''show poe port info all'') = None"
    by (simp add: re_match_def PORT_DESCRIPTION_SHOW_RE_def re_lit_def lit_def)
  ultimately show ?thesis
    using c(5,10) by (elim disjE) (simp_all add: run_show_def face_session_def show_command_def Let_def f c render_poe_def looked_at_poe_def)
qed

lemma read_poe_status:
  assumes "at_exec s (cr_spec W) f" "poe_screen_ok s" "m_poe_port_count (cr_model W) \<noteq> 0"
  shows "cli_poe_status face_session W p f =
    (Inr (map_option (\<lambda>x. shown_poe (p, x)) (dict_get (vs_poe s) p)), with_state f (looked_at_poe s))"
proof -
  have "find (\<lambda>y. poe_port y = p) (map shown_poe xs) = map_option (\<lambda>x. shown_poe (p, x)) (map_of xs p)" for xs
    by (induction xs) (auto simp: shown_poe_def)
  moreover have "dict_wf (vs_poe s)" using assms(2) by (simp add: poe_screen_ok_def)
  then have "map_of (sorted_items (vs_poe s)) p = dict_get (vs_poe s) p" by (simp add: dict_get_def)
  ultimately show ?thesis
    using run_poe [OF assms(1)] poe_read_back [OF assms(2)] assms(3)
    by (simp add: cli_poe_status_def cli_get_poe_def io_bind_run)
qed

section \<open>Polling until the column has caught up\<close>

lemma looked_at_simps [simp]:
  "cli_iface (looked_at_poe s) = cli_iface s" "vs_ports (looked_at_poe s) = vs_ports s"
  "vs_model_key (looked_at_poe s) = vs_model_key s"
  "dict_get (vs_poe (looked_at_poe s)) p = map_option (\<lambda>x. snd (poe_status_text x)) (dict_get (vs_poe s) p)"
  by (auto simp: looked_at_poe_def cli_iface_def)

lemma poe_status_text_keeps:
  "pe_admin (snd (poe_status_text x)) = pe_admin x" "pe_power_mw (snd (poe_status_text x)) = pe_power_mw x"
  "nat (pe_cli_status_lag_reads (snd (poe_status_text x))) = nat (pe_cli_status_lag_reads x) - 1"
  by (auto simp: poe_status_text_def)

lemma poe_screen_ok_looked: "poe_screen_ok s \<Longrightarrow> poe_screen_ok (looked_at_poe s)"
  by (simp add: poe_screen_ok_def list_all_dict shown_poe_ok_def poe_status_text_keeps)
    (auto simp: looked_at_poe_def list_all_dict shown_poe_ok_def poe_status_text_keeps)

lemma at_exec_state: "at_exec s spec f \<Longrightarrow> at_exec s' spec (with_state f s')"
  by (simp add: at_exec_def)

lemma poll_catches_up:
  assumes "at_exec s (cr_spec W) f" "poe_screen_ok s" "m_poe_port_count (cr_model W) \<noteq> 0"
    and "dict_get (vs_poe s) p = Some x" "pe_admin x"
    and "\<And>f. clock f = (Inr (time f), f)" "\<And>f. time f < deadline" "\<And>f. sleep f = (Inr (), f)"
  shows "poll_admin (cli_poe_status face_session W p) True prior clock sleep deadline f =
    Some (Inr (), with_state f ((looked_at_poe ^^ Suc (nat (pe_cli_status_lag_reads x))) s))"
  using assms(1,2,4,5)
proof (induction "nat (pe_cli_status_lag_reads x)" arbitrary: s f x)
  case 0
  then have "poe_admin_enabled (shown_poe (p, x))" by (simp add: shown_poe_def shown_detect_def)
  moreover have "cli_poe_status face_session W p f = (Inr (Some (shown_poe (p, x))), with_state f (looked_at_poe s))"
    using read_poe_status [OF 0(2,3) assms(3), of p] 0(4) by simp
  ultimately show ?case using 0(1) by (subst poll_admin.simps) (simp flip: 0(1))
next
  case (Suc n)
  let ?s = "looked_at_poe s" and ?x = "snd (poe_status_text x)"
  have lag: "n = nat (pe_cli_status_lag_reads ?x)" using Suc(2) by (simp add: poe_status_text_keeps)
  have "0 < pe_cli_status_lag_reads x" using Suc(2) by linarith
  then have "\<not> poe_admin_enabled (shown_poe (p, x))" by (simp add: shown_poe_def shown_detect_def)
  moreover have "cli_poe_status face_session W p f = (Inr (Some (shown_poe (p, x))), with_state f ?s)"
    using read_poe_status [OF Suc(3,4) assms(3), of p] Suc(5) by simp
  moreover have "poll_admin (cli_poe_status face_session W p) True prior clock sleep deadline (with_state f ?s) =
      Some (Inr (), with_state (with_state f ?s) ((looked_at_poe ^^ Suc (nat (pe_cli_status_lag_reads ?x))) ?s))"
    by (rule Suc(1) [OF lag at_exec_state [OF Suc(3)] poe_screen_ok_looked [OF Suc(4)]])
      (use Suc(5,6) in \<open>simp_all add: poe_status_text_keeps\<close>)
  ultimately show ?case
    using assms(7) [of "with_state f ?s"]
    by (subst poll_admin.simps) (simp add: assms(6,8) funpow_swap1 flip: Suc(2) lag)
qed

section \<open>Switching PoE on\<close>

lemma poe_command_on:
  assumes "get_model (vs_model_key s) = Inr m" "0 < m_poe_port_count m"
  shows "interface_command (lit ''poe'') p s = Inr (Some [], apply_poe_admin p True s)"
proof -
  have "re_match SWITCHPORT_MODE_RE (lit ''poe'') = None" "\<not> re_matches POE_RESET_RE (lit ''poe'')"
    "re_match POE_RE (lit ''poe'') = Some [None]"
    by (simp_all add: re_match_def re_matches_def SWITCHPORT_MODE_RE_def POE_RESET_RE_def POE_RE_def re_lit_def lit_def)
  then show ?thesis
    using assms by (simp add: interface_command_def poe_command_def poe_capable_def negated_def)
qed

lemma run_poe_on:
  assumes "cr_spec W \<in> FASTPATH_SPECS" "cf_modes f = [Interface, Config]" "cf_iface_port f = Some p"
    "get_model (vs_model_key (cf_state f)) = Inr m" "0 < m_poe_port_count m"
  shows "run_body face_session [poe_admin (cr_spec W) True] f = (Inr (), with_state f (apply_poe_admin p True (cf_state f)))"
proof -
  have c: "poe_admin (cr_spec W) True = lit ''poe''" by (simp add: poe_admin_def fastpath_writes [OF assms(1)])
  have "keeps_mode (lit ''poe'')" using keeps_mode_commands(13) [OF assms(1), of True] c by simp
  moreover have "strip (lit ''poe'') = lit ''poe''" "re_match SETUP_RE (lit ''poe'') = None"
    "re_match NETWORK_PARMS_RE (lit ''poe'') = None"
    "lit ''poe'' \<noteq> lit ''no ip http secure-server''" "lit ''poe'' \<noteq> lit ''ip http secure-server''"
    by (simp_all add: re_match_def SETUP_RE_def NETWORK_PARMS_RE_def re_lit_def lit_def strip_def is_space_def)
  ultimately show ?thesis
    using run_in_interface [OF _ _ _ _ _ _ assms(2,3) poe_command_on [OF assms(4,5)]] by (simp add: c io_bind_run)
qed

lemma apply_poe_on:
  assumes "dict_get (vs_poe s) p = Some x"
  shows "\<exists>y. dict_get (vs_poe (apply_poe_admin p True s)) p = Some y \<and> pe_admin y
      \<and> (pe_admin x \<or> pe_cli_status_lag_reads y = 1)"
    and "vs_ports (apply_poe_admin p True s) = vs_ports s"
    and "poe_screen_ok s \<Longrightarrow> poe_screen_ok (apply_poe_admin p True s)"
proof -
  define y where "y = (if pe_admin x then x\<lparr>pe_admin := True, pe_detect := 3\<rparr>
      else x\<lparr>pe_admin := True, pe_detect := 3, pe_cli_status_lag_reads := 1\<rparr>)"
  have s': "apply_poe_admin p True s = s\<lparr>vs_poe := dict_set p y (vs_poe s)\<rparr>"
    using assms by (auto simp: apply_poe_admin_def Let_def y_def split: option.split)
  show "\<exists>y. dict_get (vs_poe (apply_poe_admin p True s)) p = Some y \<and> pe_admin y \<and> (pe_admin x \<or> pe_cli_status_lag_reads y = 1)"
    "vs_ports (apply_poe_admin p True s) = vs_ports s"
    by (simp_all add: s' y_def)
  assume ok: "poe_screen_ok s"
  then have "shown_poe_ok s p y"
    using list_all_dict_get [OF _ assms, of "\<lambda>(q, x). shown_poe_ok s q x"] by (simp add: poe_screen_ok_def shown_poe_ok_def y_def)
  moreover have "shown_poe_ok (s\<lparr>vs_poe := d\<rparr>) = shown_poe_ok s" for d
    by (intro ext) (simp add: shown_poe_ok_def cli_iface_def)
  ultimately show "poe_screen_ok (apply_poe_admin p True s)"
    using ok by (simp add: s' poe_screen_ok_def)
qed

lemma looked_after:
  assumes "dict_get (vs_poe s) p = Some x" "pe_admin x"
  shows "\<exists>y. dict_get (vs_poe ((looked_at_poe ^^ n) s)) p = Some y \<and> pe_admin y"
proof (induction n)
  case 0
  then show ?case using assms by simp
next
  case (Suc n)
  then show ?case by (auto simp: poe_status_text_keeps)
qed

text \<open>The port answers PoE on this switch, under the writer's name for it.\<close>

definition poe_port_ok :: "cli_writer \<Rightarrow> virtual_switch \<Rightarrow> int \<Rightarrow> bool" where
  "poe_port_ok W s p \<longleftrightarrow> poe_screen_ok s \<and> named_port (cr_spec W) s p \<and> dict_get (vs_poe s) p \<noteq> None
     \<and> m_poe_port_count (cr_model W) \<noteq> 0 \<and> pred_sum (\<lambda>e. False) (\<lambda>m. 0 < m_poe_port_count m) (get_model (vs_model_key s))"

text \<open>C10. Switching PoE on over the command line gets there although the status column
  lags: the first look after the command still says \<open>Disabled\<close>, and the writer polls
  until it does not. As long as the clock stays before the deadline the operation
  returns success, and the port's PoE is on.\<close>

theorem cli_poe_switched_on:
  assumes "at_exec s (cr_spec W) f" "poe_port_ok W s p"
    and "\<And>f. clock f = (Inr (time f), f)" "\<And>f f'. time f < time f' + on_timeout limits"
    and "\<And>n f. sleep n f = (Inr (), f)"
  shows "\<exists>f' y. cli_set_poe face_session W p True force limits sleep clock f = Some (Inr (), f')
    \<and> dict_get (vs_poe (cf_state f')) p = Some y \<and> pe_admin y \<and> cf_modes f' = []"
proof -
  let ?s1 = "looked_at_poe s" and ?s2 = "apply_poe_admin p True (looked_at_poe s)"
  let ?g = "(with_state f ?s1)\<lparr>cf_iface_port := Some p, cf_modes := [Interface, Config]\<rparr>"
  let ?f2 = "f\<lparr>cf_state := ?s2, cf_modes := [], cf_iface_port := None\<rparr>"
  note ok = assms(2) [unfolded poe_port_ok_def]
  have f: "cf_modes f = []" "cr_spec W \<in> FASTPATH_SPECS" using assms(1) by (simp_all add: at_exec_def)
  obtain x where x: "dict_get (vs_poe s) p = Some x" using ok by auto
  obtain m where m: "get_model (vs_model_key s) = Inr m" "0 < m_poe_port_count m"
    using ok by (cases "get_model (vs_model_key s)") auto
  have prior: "cli_poe_status face_session W p f = (Inr (Some (shown_poe (p, x))), with_state f ?s1)"
    using read_poe_status [OF assms(1), of p] ok x by simp
  have at1: "at_exec ?s1 (cr_spec W) (with_state f ?s1)" by (rule at_exec_state [OF assms(1)])
  have "named_port (cr_spec W) ?s1 p" using ok by (simp add: named_port_def port_for_iface_def)
  moreover have "run_body face_session [poe_admin (cr_spec W) True] ?g = (Inr (), with_state ?g ?s2)"
    using run_poe_on [OF f(2), of ?g p m] m by simp
  ultimately have mode: "in_mode face_session W (interface_mode W p) [poe_admin (cr_spec W) True] (with_state f ?s1) = (Inr (), ?f2)"
    using in_interface [OF at1] by (simp add: with_state_def)
  have "dict_get (vs_poe ?s1) p = Some (snd (poe_status_text x))" using x by simp
  from apply_poe_on [OF this] obtain y where y: "dict_get (vs_poe ?s2) p = Some y" "pe_admin y"
    and screen: "poe_screen_ok ?s2" using poe_screen_ok_looked ok by blast
  let ?n = "Suc (nat (pe_cli_status_lag_reads y))"
  have "poll_admin (cli_poe_status face_session W p) True (Some (shown_poe (p, x))) clock (sleep (poll_interval limits))
      (time ?f2 + on_timeout limits) ?f2 = Some (Inr (), with_state ?f2 ((looked_at_poe ^^ ?n) ?s2))"
    by (rule poll_catches_up [OF at_exec_after [OF assms(1)] screen _ y, where time = time])
      (use ok assms(3-5) in simp_all)
  then have "cli_set_poe face_session W p True force limits sleep clock f = Some (Inr (), with_state ?f2 ((looked_at_poe ^^ ?n) ?s2))"
    using ok by (simp add: cli_set_poe_def require_poe_def io_bind_run prior mode assms(3) del: funpow.simps)
  then show ?thesis
    using looked_after [OF y, of ?n] by (auto simp del: funpow.simps)
qed

definition poe_sample :: virtual_switch where
  "poe_sample = (mk_virtual_switch ''gsm7252ps'')
     \<lparr>vs_poe := [(3, \<lparr>pe_admin = False, pe_detect = 1, pe_power_mw = 0, pe_cli_status_lag_reads = 0\<rparr>)],
      vs_ports := [(3, mk_port_sim [] True False 0)]\<rparr>"

theorem cli_poe_switched_on_witness:
  "\<exists>f' y. cli_set_poe face_session exec_sample_writer 3 True False \<lparr>off_timeout = 10, on_timeout = 10, poll_interval = 1\<rparr>
      (\<lambda>_. io_return ()) (io_return 7) (mk_cli_face poe_sample SPEC_GSM7252PS) = Some (Inr (), f')
    \<and> dict_get (vs_poe (cf_state f')) 3 = Some y \<and> pe_admin y \<and> cf_modes f' = []"
proof -
  have spec: "cr_spec exec_sample_writer = SPEC_GSM7252PS" by (simp add: exec_sample_writer_def)
  have at: "at_exec poe_sample (cr_spec exec_sample_writer) (mk_cli_face poe_sample SPEC_GSM7252PS)"
    by (simp add: at_exec_def mk_cli_face_def spec FASTPATH_SPECS_def)
  have name: "cli_iface poe_sample p = lit ''1/0/'' @ show_int p" for p
    by (simp add: cli_iface_def poe_sample_def dict_get_def mk_port_sim_def)
  have key: "vs_model_key poe_sample = m_key gsm7252ps"
    by (simp add: poe_sample_def mk_virtual_switch_def gsm7252ps_def mk_model_def)
  have "get_model (m_key gsm7252ps) = Inr gsm7252ps" by (rule get_model_registered) (simp add: registered_def)
  moreover have "0 < m_poe_port_count gsm7252ps" by (simp add: gsm7252ps_def mk_model_def)
  moreover have "iface SPEC_GSM7252PS 3 = lit ''1/0/3''"
    by (simp add: iface_def spec_eval lit_def show_int_def show_nat.simps)
  moreover have "cli_iface poe_sample 3 = lit ''1/0/3''"
    unfolding name by (simp add: lit_def show_int_def show_nat.simps)
  moreover have "strip (lit ''1/0/3'') = lit ''1/0/3''" "map fst (vs_ports poe_sample) = [3]"
    by (simp_all add: text_eval poe_sample_def)
  ultimately have "named_port SPEC_GSM7252PS poe_sample 3" by (simp add: named_port_def port_for_iface_def)
  moreover have "poe_screen_ok poe_sample"
    using names_port_slash [of 3] by (simp add: poe_screen_ok_def shown_poe_ok_def name) (simp add: poe_sample_def dict_wf_def)
  ultimately have "poe_port_ok exec_sample_writer poe_sample 3"
    using \<open>get_model (m_key gsm7252ps) = Inr gsm7252ps\<close> \<open>0 < m_poe_port_count gsm7252ps\<close>
    by (simp add: poe_port_ok_def spec key exec_sample_writer_def) (simp add: poe_sample_def dict_get_def)
  from cli_poe_switched_on [OF at this, where clock = "io_return 7" and time = "\<lambda>_. 7"] show ?thesis by simp
qed

end
