(* ===== verification/Config.thy ===== *)
theory Config
  imports Registry Py_Regex
begin

text \<open>
  The inventory and its secrets (\<open>config.py\<close>): secret specifications, the splitting
  of a command line by \<open>shlex\<close>, the checks on a switch's table, and the rule that a
  file with a literal secret must be closed to everyone but its owner. What
  \<open>tomllib\<close> read, the file's mode, the environment and the process runner are
  arguments.
\<close>

section \<open>Splitting a command line\<close>

text \<open>The states of \<open>shlex.split\<close> in POSIX mode; \<open>Escaped\<close> remembers the open quote.\<close>

datatype lex_state =
    Outside
  | InWord ustr bool
  | Quoted nat ustr
  | Escaped "nat option" ustr bool

definition lex_space :: "nat \<Rightarrow> bool" where
  "lex_space c \<longleftrightarrow> c = 32 \<or> c = 9 \<or> c = 13 \<or> c = 10"

fun lex_words :: "lex_state \<Rightarrow> ustr \<Rightarrow> ustr list py" where
  "lex_words Outside [] = Inr []"
| "lex_words Outside (c # s) =
     (if lex_space c then lex_words Outside s
      else if c = 92 then lex_words (Escaped None [] False) s
      else if c = 39 \<or> c = 34 then lex_words (Quoted c []) s
      else lex_words (InWord [c] False) s)"
| "lex_words (InWord t q) [] = Inr (if t = [] \<and> \<not> q then [] else [t])"
| "lex_words (InWord t q) (c # s) =
     (if lex_space c then
        (if t \<noteq> [] \<or> q then res_bind (lex_words Outside s) (\<lambda>ws. Inr (t # ws)) else lex_words Outside s)
      else if c = 39 \<or> c = 34 then lex_words (Quoted c t) s
      else if c = 92 then lex_words (Escaped None t q) s
      else lex_words (InWord (t @ [c]) q) s)"
| "lex_words (Quoted k t) [] = Inl ValueError"
| "lex_words (Quoted k t) (c # s) =
     (if c = k then lex_words (InWord t True) s
      else if c = 92 \<and> k = 34 then lex_words (Escaped (Some k) t True) s
      else lex_words (Quoted k (t @ [c])) s)"
| "lex_words (Escaped e t q) [] = Inl ValueError"
| "lex_words (Escaped e t q) (c # s) =
     (case e of
        None \<Rightarrow> lex_words (InWord (t @ [c]) q) s
      | Some k \<Rightarrow> lex_words (Quoted k (if c \<noteq> 92 \<and> c \<noteq> k then t @ [92, c] else t @ [c])) s)"

definition shlex_split :: "ustr \<Rightarrow> ustr list py" where
  "shlex_split s = lex_words Outside s"

section \<open>Secrets\<close>

text \<open>A finished process: its exit code and standard output.\<close>

type_synonym runner = "ustr list \<Rightarrow> (int \<times> ustr) py"

definition is_env_spec :: "ustr \<Rightarrow> bool" where
  "is_env_spec spec \<longleftrightarrow> starts_with (lit ''${'') spec \<and> ends_with (lit ''}'') spec"

definition resolve_secret :: "ustr option \<Rightarrow> (ustr, ustr) dict \<Rightarrow> runner \<Rightarrow> ustr option py" where
  "resolve_secret spec env runner =
     (case spec of
        None \<Rightarrow> Inr None
      | Some t \<Rightarrow>
          if is_env_spec t
          then (case dict_get env (take (length t - 3) (drop 2 t)) of
                  Some v \<Rightarrow> Inr (Some v) | None \<Rightarrow> Inl CredentialError)
          else if starts_with (lit ''!'') t
          then res_bind (shlex_split (drop 1 t)) (\<lambda>args.
                 if args = [] then Inl CredentialError
                 else (case runner args of
                         Inl e \<Rightarrow> if is_os_error e \<or> e = TimeoutExpired then Inl CredentialError else Inl e
                       | Inr (code, out) \<Rightarrow>
                           if code \<noteq> 0 then Inl CredentialError else Inr (Some (strip out))))
          else Inr (Some t))"

definition is_literal :: "ustr option \<Rightarrow> bool" where
  "is_literal spec =
     (case spec of None \<Rightarrow> False | Some t \<Rightarrow> \<not> is_env_spec t \<and> \<not> starts_with (lit ''!'') t)"

text \<open>The group and other bits of a file mode; \<open>mode\<close> is what \<open>os.stat\<close> answered.\<close>

unbundle bit_operations_syntax

definition ensure_secure_file :: "int py \<Rightarrow> unit py" where
  "ensure_secure_file mode =
     res_bind mode (\<lambda>m. if m AND 63 \<noteq> 0 then Inl ConfigError else Inr ())"

section \<open>A switch's table\<close>

text \<open>The values of \<open>tomllib\<close>; floats and dates are \<open>TOther\<close>.\<close>

datatype toml =
    TStr ustr
  | TInt int
  | TBool bool
  | TArr "toml list"
  | TTab "(ustr \<times> toml) list"
  | TOther

type_synonym table = "(ustr, toml) dict"

record switch_config =
  sc_name :: ustr
  sc_model :: switch_model
  sc_host :: ustr
  sc_snmp_community :: "ustr option"
  sc_snmp_write_community_spec :: "ustr option"
  sc_http_password_spec :: "ustr option"
  sc_nsdp_interface :: "ustr option"
  sc_protected_ports :: "int set"

definition snmp_write_community :: "switch_config \<Rightarrow> (ustr, ustr) dict \<Rightarrow> runner \<Rightarrow> ustr option py" where
  "snmp_write_community c env runner = resolve_secret (sc_snmp_write_community_spec c) env runner"

definition http_password :: "switch_config \<Rightarrow> (ustr, ustr) dict \<Rightarrow> runner \<Rightarrow> ustr option py" where
  "http_password c env runner = resolve_secret (sc_http_password_spec c) env runner"

text \<open>The model of a key given as text.\<close>

definition get_model_text :: "ustr \<Rightarrow> switch_model py" where
  "get_model_text t =
     (if list_all (\<lambda>c. c < 256) t then get_model (map char_of t) else Inl UnknownModelError)"

definition sub_table :: "table \<Rightarrow> string \<Rightarrow> table py" where
  "sub_table t key =
     (case dict_get t (lit key) of
        None \<Rightarrow> Inr [] | Some (TTab d) \<Rightarrow> Inr d | Some _ \<Rightarrow> Inl ConfigError)"

definition optional_text :: "table \<Rightarrow> string \<Rightarrow> ustr option py" where
  "optional_text t key =
     (case dict_get t (lit key) of
        None \<Rightarrow> Inr None | Some (TStr s) \<Rightarrow> Inr (Some s) | Some _ \<Rightarrow> Inl ConfigError)"

definition port_of :: "toml \<Rightarrow> int py" where
  "port_of v = (case v of TInt n \<Rightarrow> Inr n | _ \<Rightarrow> Inl ConfigError)"

definition port_list :: "table \<Rightarrow> int list py" where
  "port_list t =
     (case dict_get t (lit ''protected_ports'') of
        None \<Rightarrow> Inr [] | Some (TArr vs) \<Rightarrow> res_map port_of vs | Some _ \<Rightarrow> Inl ConfigError)"

definition switch_from_table :: "ustr \<Rightarrow> table \<Rightarrow> (switch_config \<times> ustr option list) py" where
  "switch_from_table name t =
     (case (dict_get t (lit ''model''), dict_get t (lit ''host'')) of
        (Some (TStr model_key), Some (TStr host)) \<Rightarrow>
          res_bind (sub_table t ''snmp'') (\<lambda>snmp.
          res_bind (sub_table t ''http'') (\<lambda>http.
          res_bind (sub_table t ''nsdp'') (\<lambda>nsdp.
          res_bind (port_list t) (\<lambda>ports.
          res_bind (optional_text snmp ''community'') (\<lambda>community.
          res_bind (optional_text snmp ''write_community'') (\<lambda>write_community.
          res_bind (optional_text http ''password'') (\<lambda>password.
          res_bind (optional_text nsdp ''interface'') (\<lambda>iface.
          res_bind (get_model_text model_key) (\<lambda>model.
            Inr (\<lparr>sc_name = name, sc_model = model, sc_host = host, sc_snmp_community = community,
                   sc_snmp_write_community_spec = write_community, sc_http_password_spec = password,
                   sc_nsdp_interface = iface, sc_protected_ports = set ports\<rparr>,
                 filter is_literal [write_community, password]))))))))))
      | _ \<Rightarrow> Inl ConfigError)"

section \<open>The inventory\<close>

fun load_switches ::
    "(ustr \<times> toml) list \<Rightarrow> (ustr, switch_config) dict \<Rightarrow> bool \<Rightarrow> ((ustr, switch_config) dict \<times> bool) py" where
  "load_switches [] found any_literal = Inr (found, any_literal)"
| "load_switches ((name, v) # rest) found any_literal =
     (case v of
        TTab t \<Rightarrow>
          res_bind (switch_from_table name t) (\<lambda>(cfg, literals).
            load_switches rest (dict_set name cfg found) (literals \<noteq> [] \<or> any_literal))
      | _ \<Rightarrow> Inl ConfigError)"

text \<open>\<open>data\<close> is what opening the file and \<open>tomllib.load\<close> gave, \<open>mode\<close> what \<open>os.stat\<close> gives.\<close>

definition load_inventory :: "table py \<Rightarrow> int py \<Rightarrow> (ustr, switch_config) dict py" where
  "load_inventory data mode =
     res_bind data (\<lambda>d.
     res_bind (sub_table d ''switches'') (\<lambda>switches.
     res_bind (load_switches switches [] False) (\<lambda>(found, any_literal).
       if any_literal then res_bind (ensure_secure_file mode) (\<lambda>_. Inr found) else Inr found)))"

section \<open>Literal secrets\<close>

definition holds_literal :: "switch_config \<Rightarrow> bool" where
  "holds_literal c \<longleftrightarrow> is_literal (sc_snmp_write_community_spec c) \<or> is_literal (sc_http_password_spec c)"

lemma switch_from_table_literals:
  "switch_from_table name t = Inr (cfg, literals) \<Longrightarrow> literals \<noteq> [] \<longleftrightarrow> holds_literal cfg"
  by (auto simp: switch_from_table_def holds_literal_def res_iff split: option.splits toml.splits if_splits)

lemma dict_set_values: "(k', v') \<in> set (dict_set k v d) \<Longrightarrow> v' = v \<or> (k', v') \<in> set d"
  by (induction d) (auto simp: dict_set_def split: if_splits)

lemma load_switches_literals:
  assumes "load_switches ts found b = Inr (found', b')" "\<forall>(n, c) \<in> set found. holds_literal c \<longrightarrow> b"
  shows "\<forall>(n, c) \<in> set found'. holds_literal c \<longrightarrow> b'"
  using assms
proof (induction ts found b rule: load_switches.induct)
  case (2 name v rest found b)
  then obtain t cfg literals where t: "v = TTab t" "switch_from_table name t = Inr (cfg, literals)"
    and rest: "load_switches rest (dict_set name cfg found) (literals \<noteq> [] \<or> b) = Inr (found', b')"
    by (auto simp: res_iff split: toml.splits)
  have "\<forall>(n, c) \<in> set (dict_set name cfg found). holds_literal c \<longrightarrow> literals \<noteq> [] \<or> b"
    using 2(3) switch_from_table_literals [OF t(2)] by (auto dest: dict_set_values)
  then show ?case using 2(1) [OF t(1) t(2) refl rest] by blast
qed auto

text \<open>C18. No literal secret from a file others can read: if a loaded inventory holds a
  switch whose write community or web password is written out in the file, then no
  group or other permission bit of the file is set.\<close>

theorem inventory_literals_protected:
  assumes "load_inventory data mode = Inr found" "(name, cfg) \<in> set found"
    and "is_literal (sc_snmp_write_community_spec cfg) \<or> is_literal (sc_http_password_spec cfg)"
  shows "\<exists>m. mode = Inr m \<and> m AND 63 = 0"
proof -
  obtain d switches b where "sub_table d ''switches'' = Inr switches"
    and load: "load_switches switches [] False = Inr (found, b)"
    and b: "b \<longrightarrow> ensure_secure_file mode = Inr ()"
    using assms(1) by (auto simp: load_inventory_def res_iff split: if_splits)
  have "b" using load_switches_literals [OF load] assms(2,3) by (auto simp: holds_literal_def)
  with b show ?thesis by (auto simp: ensure_secure_file_def res_iff split: if_splits)
qed

definition sample_inventory :: table where
  "sample_inventory =
     [(lit ''switches'', TTab [(lit ''lab'', TTab
        [(lit ''model'', TStr (lit ''gsm7252ps'')), (lit ''host'', TStr (lit ''10.0.0.2'')),
         (lit ''http'', TTab [(lit ''password'', TStr (lit ''hunter2''))])])])]"

definition sample_config :: switch_config where
  "sample_config =
     \<lparr>sc_name = lit ''lab'', sc_model = gsm7252ps, sc_host = lit ''10.0.0.2'', sc_snmp_community = None,
      sc_snmp_write_community_spec = None, sc_http_password_spec = Some (lit ''hunter2''),
      sc_nsdp_interface = None, sc_protected_ports = {}\<rparr>"

lemma get_model_text_lit: "get_model_text (lit key) = get_model key"
proof -
  have "list_all (\<lambda>c. c < 256) (lit key)" by (simp add: lit_def list_all_iff)
  moreover have "map char_of (lit key) = key" by (simp add: lit_def comp_def)
  ultimately show ?thesis by (simp add: get_model_text_def)
qed

lemma sample_inventory_loads:
  "load_inventory (Inr sample_inventory) (Inr 384) = Inr [(lit ''lab'', sample_config)]"
proof -
  have "get_model ''gsm7252ps'' = Inr gsm7252ps"
    using get_model_registered [of gsm7252ps] by (simp add: registered_def gsm7252ps_def mk_model_def)
  moreover have "is_literal (Some (lit ''hunter2''))" "\<not> is_literal None"
    by (simp_all add: is_literal_def is_env_spec_def starts_with_def) (simp_all add: lit_def)
  moreover have "lit a = lit b \<longleftrightarrow> a = b" for a b :: string
    by (simp add: lit_def inj_map_eq_map inj_on_def)
  moreover have "(384 :: int) AND 63 = 0" by simp
  ultimately show ?thesis
    by (simp add: load_inventory_def sample_inventory_def sub_table_def switch_from_table_def optional_text_def
        port_list_def get_model_text_lit sample_config_def ensure_secure_file_def dict_get_def dict_set_def)
qed

theorem inventory_literals_protected_witness:
  "load_inventory (Inr sample_inventory) (Inr 384) = Inr [(lit ''lab'', sample_config)]
   \<and> (\<exists>m :: int. (Inr 384 :: int py) = Inr m \<and> m AND 63 = 0)"
proof -
  have "is_literal (sc_snmp_write_community_spec sample_config) \<or> is_literal (sc_http_password_spec sample_config)"
    by (simp add: sample_config_def is_literal_def is_env_spec_def starts_with_def) (simp add: lit_def)
  with inventory_literals_protected [OF sample_inventory_loads, of "lit ''lab''" sample_config] show ?thesis
    using sample_inventory_loads by auto
qed

section \<open>How a secret fails\<close>

lemma lex_words_raises: "lex_words st s = Inl e \<Longrightarrow> e = ValueError"
  by (induction st s rule: lex_words.induct) (auto simp: res_iff split: if_splits option.splits)

text \<open>C31. How resolving a secret can fail, whatever the environment holds and whatever
  \<open>subprocess.run\<close> returns or raises: with \<open>CredentialError\<close>, but for two exceptions that
  escape as they are. One is the bare \<open>ValueError\<close> of a command line \<open>shlex\<close> cannot split;
  the other is what \<open>subprocess.run\<close> itself raises beyond \<open>OSError\<close> and
  \<open>TimeoutExpired\<close> (\<open>ValueError\<close> for an argument with a NUL, and its subclass
  \<open>UnicodeDecodeError\<close>, which the model does not tell from it, for output that is not text). Both do escape, and the two exceptions the code names never do. A
  literal resolves to itself.\<close>

theorem secret_failures:
  "(resolve_secret spec env runner = Inl e \<longrightarrow> e = CredentialError \<or>
      (\<exists>t. spec = Some (33 # t) \<and>
         (e = ValueError \<and> shlex_split t = Inl ValueError
          \<or> (\<exists>args. shlex_split t = Inr args \<and> args \<noteq> [] \<and> runner args = Inl e
               \<and> \<not> is_os_error e \<and> e \<noteq> TimeoutExpired))))
    \<and> (shlex_split t = Inl x \<longrightarrow> resolve_secret (Some (33 # t)) env runner = Inl ValueError)
    \<and> (shlex_split t = Inr args \<and> args \<noteq> [] \<and> runner args = Inl x \<longrightarrow>
        resolve_secret (Some (33 # t)) env runner
          = Inl (if is_os_error x \<or> x = TimeoutExpired then CredentialError else x))
    \<and> (is_literal spec \<longrightarrow> resolve_secret spec env runner = Inr spec)"
proof -
  have bang: "starts_with (lit ''!'') t \<longleftrightarrow> (\<exists>u. t = 33 # u)" "\<not> is_env_spec (33 # u)" for t u
    by (cases t) (auto simp: starts_with_def lit_def is_env_spec_def)
  have lex: "shlex_split t = Inl x \<Longrightarrow> x = ValueError" for t x
    using lex_words_raises [of Outside] by (auto simp: shlex_split_def res_iff)
  have "e = CredentialError \<or> (\<exists>t. spec = Some (33 # t) \<and>
         (e = ValueError \<and> shlex_split t = Inl ValueError
          \<or> (\<exists>args. shlex_split t = Inr args \<and> args \<noteq> [] \<and> runner args = Inl e
               \<and> \<not> is_os_error e \<and> e \<noteq> TimeoutExpired)))"
    if "resolve_secret spec env runner = Inl e"
    using that lex by (auto simp: resolve_secret_def bang res_iff split: option.splits if_splits sum.splits prod.splits)
  moreover have "resolve_secret (Some (33 # t)) env runner = Inl ValueError" if "shlex_split t = Inl x"
    using that lex by (auto simp: resolve_secret_def bang)
  moreover have "resolve_secret (Some (33 # t)) env runner
      = Inl (if is_os_error x \<or> x = TimeoutExpired then CredentialError else x)"
    if "shlex_split t = Inr args" "args \<noteq> []" "runner args = Inl x"
    using that by (auto simp: resolve_secret_def bang)
  moreover have "resolve_secret spec env runner = Inr spec" if "is_literal spec"
    using that by (auto simp: is_literal_def resolve_secret_def split: option.splits)
  ultimately show ?thesis by blast
qed

theorem secret_failures_witness:
  "resolve_secret (Some [33, 39]) [] (\<lambda>_. Inl OSError) = Inl ValueError
   \<and> resolve_secret (Some [33, 97]) [] (\<lambda>_. Inl OSError) = Inl CredentialError
   \<and> resolve_secret (Some [33, 97]) [] (\<lambda>_. Inl ValueError) = Inl ValueError
   \<and> resolve_secret (Some (lit ''hunter2'')) [] (\<lambda>_. Inl OSError) = Inr (Some (lit ''hunter2''))"
proof -
  have l: "is_literal (Some (lit ''hunter2''))"
    by (simp add: is_literal_def is_env_spec_def starts_with_def) (simp add: lit_def)
  have w: "shlex_split [39] = Inl ValueError" "shlex_split [97] = Inr [[97]]"
    by (simp_all add: shlex_split_def lex_space_def)
  show ?thesis
    using secret_failures [of "Some (lit ''hunter2'')" "[]" "\<lambda>_. Inl OSError" _ "[39]" ValueError]
      secret_failures [of _ "[]" "\<lambda>_. Inl OSError" _ "[97]" OSError "[[97]]"]
      secret_failures [of _ "[]" "\<lambda>_. Inl ValueError" _ "[97]" ValueError "[[97]]"] l w
    by (simp add: is_os_error_def)
qed

end
