(* ===== verification/Ngsw.thy ===== *)
theory Ngsw
  imports Config
begin

text \<open>
  The command-line tool's decisions (\<open>cli/context.py\<close>, \<open>cli/safety.py\<close>,
  \<open>cli/resolve.py\<close>): exit codes, the gate every disruptive write passes, and which
  switch with which credentials the arguments, the environment and the inventory
  name. Argument parsing and the printing of results are not modelled.
\<close>

section \<open>Streams and exit codes\<close>

record console =
  cx_out :: "ustr list"
  cx_err :: "ustr list"
  cx_inp :: "ustr list"

definition EXIT_OK :: int where "EXIT_OK = 0"
definition EXIT_ERROR :: int where "EXIT_ERROR = 1"
definition EXIT_VERIFY :: int where "EXIT_VERIFY = 3"
definition EXIT_PROTECTED :: int where "EXIT_PROTECTED = 4"

definition exit_code_for :: "exn \<Rightarrow> int" where
  "exit_code_for e =
     (case e of WriteVerificationError b a \<Rightarrow> EXIT_VERIFY
      | ProtectedPortError \<Rightarrow> EXIT_PROTECTED
      | _ \<Rightarrow> EXIT_ERROR)"

section \<open>The gate of a disruptive write\<close>

definition say :: "ustr \<Rightarrow> (console \<times> 'w, exn, unit) io" where
  "say t w = (Inr (), ((fst w)\<lparr>cx_out := cx_out (fst w) @ [t]\<rparr>, snd w))"

definition warn :: "ustr \<Rightarrow> (console \<times> 'w, exn, unit) io" where
  "warn t w = (Inr (), ((fst w)\<lparr>cx_err := cx_err (fst w) @ [t]\<rparr>, snd w))"

text \<open>\<open>readline\<close>: the empty text at the end of the input.\<close>

definition read_reply :: "(console \<times> 'w, exn, ustr) io" where
  "read_reply w =
     (case cx_inp (fst w) of
        [] \<Rightarrow> (Inr [], w)
      | l # ls \<Rightarrow> (Inr l, ((fst w)\<lparr>cx_inp := ls\<rparr>, snd w)))"

definition is_yes :: "ustr \<Rightarrow> bool" where
  "is_yes reply \<longleftrightarrow> lower (strip reply) \<in> {lit ''y'', lit ''yes''}"

definition confirm :: "ustr \<Rightarrow> bool \<Rightarrow> (console \<times> 'w, exn, bool) io" where
  "confirm prompt assume_yes =
     (if assume_yes then io_return True
      else io_bind (warn (prompt @ lit '' [y/N]: '')) (\<lambda>_.
           io_bind read_reply (\<lambda>reply. io_return (is_yes reply))))"

definition do_write ::
    "bool \<Rightarrow> bool \<Rightarrow> ustr \<Rightarrow> ustr \<Rightarrow> (console \<times> 'w, exn, unit) io \<Rightarrow> ustr option
      \<Rightarrow> (console \<times> 'w, exn, int) io" where
  "do_write dry_run assume_yes host description action warning =
     (if dry_run
      then io_bind (say (lit ''DRY-RUN: would '' @ description @ lit '' on '' @ host @ lit '' (nothing sent)''))
             (\<lambda>_. io_return EXIT_OK)
      else let asked = lit ''About to '' @ description @ lit '' on '' @ host @ lit ''.'';
               prompt = (case warning of
                   Some t \<Rightarrow> if t \<noteq> [] then t @ [10] @ asked else asked | None \<Rightarrow> asked)
           in io_bind (confirm prompt assume_yes) (\<lambda>ok.
                if \<not> ok
                then io_bind (warn (lit ''aborted: no changes made'')) (\<lambda>_. io_return EXIT_ERROR)
                else io_bind action (\<lambda>_.
                     io_bind (say (lit ''ok: '' @ description)) (\<lambda>_. io_return EXIT_OK))))"

section \<open>Which switch, with which credentials\<close>

record cli_args =
  ar_config :: "ustr option"
  ar_switch :: "ustr option"
  ar_host :: "ustr option"
  ar_model :: "ustr option"
  ar_community :: "ustr option"
  ar_write_community :: "ustr option"
  ar_nsdp_interface :: "ustr option"
  ar_http_password :: "ustr option"
  ar_backend :: "backend option"

text \<open>A truthy optional text.\<close>

abbreviation given :: "ustr option \<Rightarrow> ustr option" where
  "given t \<equiv> opt_or_none t"

text \<open>The prompt, when there is one, is what the user types at it or the exception it raises.\<close>

definition read_community ::
    "cli_args \<Rightarrow> (ustr, ustr) dict \<Rightarrow> ustr option \<Rightarrow> ustr py option \<Rightarrow> bool \<Rightarrow> ustr option py" where
  "read_community args env config_value prompt snmp_backend =
     (case given (ar_community args) of
        Some c \<Rightarrow> Inr (Some c)
      | None \<Rightarrow>
     (case given (dict_get env (lit ''NGSW_COMMUNITY'')) of
        Some c \<Rightarrow> Inr (Some c)
      | None \<Rightarrow>
     (case given config_value of
        Some c \<Rightarrow> Inr (Some c)
      | None \<Rightarrow>
     (case prompt of
        Some typed \<Rightarrow>
          if snmp_backend
          then res_bind typed (\<lambda>t. Inr (if strip t \<noteq> [] then Some t else None))
          else Inr None
      | None \<Rightarrow> Inr None))))"

definition write_community_override :: "cli_args \<Rightarrow> (ustr, ustr) dict \<Rightarrow> ustr option" where
  "write_community_override args env =
     (case given (ar_write_community args) of
        Some c \<Rightarrow> Some c | None \<Rightarrow> dict_get env (lit ''NGSW_WRITE_COMMUNITY''))"

definition nsdp_interface :: "cli_args \<Rightarrow> ustr option \<Rightarrow> ustr option" where
  "nsdp_interface args config_value =
     (case given (ar_nsdp_interface args) of Some i \<Rightarrow> Some i | None \<Rightarrow> config_value)"

text \<open>A resolver is the value its call gives.\<close>

definition http_password_resolver :: "cli_args \<Rightarrow> ustr option py option \<Rightarrow> ustr option py" where
  "http_password_resolver args config_resolver =
     (case given (ar_http_password args) of
        Some p \<Rightarrow> Inr (Some p)
      | None \<Rightarrow> (case config_resolver of Some r \<Rightarrow> r | None \<Rightarrow> Inr None))"

text \<open>The arguments \<open>SyncSwitch\<close> is built from.\<close>

record switch_target =
  tg_model :: switch_model
  tg_host :: ustr
  tg_community :: "ustr option"
  tg_write_community :: "ustr option"
  tg_write_resolver :: "ustr option py option"
  tg_nsdp_interface :: "ustr option"
  tg_password_resolver :: "ustr option py"
  tg_protected_ports :: "int set"
  tg_backend :: "backend option"

definition from_inventory ::
    "(ustr \<Rightarrow> (ustr, switch_config) dict py) \<Rightarrow> runner \<Rightarrow> cli_args \<Rightarrow> (ustr, ustr) dict \<Rightarrow> ustr py option
      \<Rightarrow> ustr \<Rightarrow> switch_target py" where
  "from_inventory load runner args env prompt name =
     (case given (ar_config args) of
        None \<Rightarrow> Inl ConfigError
      | Some path \<Rightarrow>
          res_bind (load path) (\<lambda>inventory.
            case dict_get inventory name of
              None \<Rightarrow> Inl ConfigError
            | Some cfg \<Rightarrow>
                res_bind (read_community args env (sc_snmp_community cfg) prompt (SNMP \<in> m_backends (sc_model cfg)))
                  (\<lambda>community.
                  Inr \<lparr>tg_model = sc_model cfg, tg_host = sc_host cfg, tg_community = community,
                       tg_write_community = write_community_override args env,
                       tg_write_resolver = Some (snmp_write_community cfg env runner),
                       tg_nsdp_interface = nsdp_interface args (sc_nsdp_interface cfg),
                       tg_password_resolver = http_password_resolver args (Some (http_password cfg env runner)),
                       tg_protected_ports = sc_protected_ports cfg, tg_backend = ar_backend args\<rparr>)))"

definition resolve_switch ::
    "(ustr \<Rightarrow> (ustr, switch_config) dict py) \<Rightarrow> runner \<Rightarrow> cli_args \<Rightarrow> (ustr, ustr) dict \<Rightarrow> ustr py option
      \<Rightarrow> switch_target py" where
  "resolve_switch load runner args env prompt =
     (case given (ar_switch args) of
        Some name \<Rightarrow> from_inventory load runner args env prompt name
      | None \<Rightarrow>
     (case (given (ar_host args), given (ar_model args)) of
        (Some host, Some key) \<Rightarrow>
          res_bind (get_model_text key) (\<lambda>model.
          res_bind (read_community args env None prompt (SNMP \<in> m_backends model)) (\<lambda>community.
            Inr \<lparr>tg_model = model, tg_host = host, tg_community = community,
                 tg_write_community = write_community_override args env, tg_write_resolver = None,
                 tg_nsdp_interface = nsdp_interface args None,
                 tg_password_resolver = http_password_resolver args None,
                 tg_protected_ports = {}, tg_backend = ar_backend args\<rparr>))
      | _ \<Rightarrow> Inl ConfigError))"

section \<open>What the gate guarantees\<close>

text \<open>The user said yes, beforehand or to the prompt.\<close>

definition approved :: "bool \<Rightarrow> console \<Rightarrow> bool" where
  "approved assume_yes c \<longleftrightarrow> assume_yes \<or> (cx_inp c \<noteq> [] \<and> is_yes (hd (cx_inp c)))"

lemma not_yes_Nil: "\<not> is_yes []"
  by (simp add: is_yes_def strip_def lower_def) (simp add: lit_def)

text \<open>C17. A dry run and an unapproved write send nothing: whatever the action, the world
  behind it is untouched, and only the dry run exits with success. End of input
  counts as a refusal.\<close>

theorem unapproved_write_sends_nothing:
  assumes "dry_run \<or> \<not> approved assume_yes c"
  shows "\<exists>c'. do_write dry_run assume_yes host description action warning (c, w) =
    (Inr (if dry_run then EXIT_OK else EXIT_ERROR), (c', w))"
proof (cases dry_run)
  case False
  then have no: "\<not> assume_yes" "cx_inp c = [] \<or> \<not> is_yes (hd (cx_inp c))"
    using assms by (auto simp: approved_def)
  then show ?thesis
    using False not_yes_Nil
    by (cases "cx_inp c") (simp_all add: do_write_def Let_def confirm_def read_reply_def warn_def io_bind_def)
qed (simp add: do_write_def say_def io_bind_def)

theorem unapproved_write_sends_nothing_witness:
  "\<exists>c'. do_write False False (lit ''10.0.0.2'') (lit ''reboot'') (\<lambda>(c, w). (Inr (), (c, w + 1))) None
     (\<lparr>cx_out = [], cx_err = [], cx_inp = [[10]]\<rparr>, 7 :: int) = (Inr EXIT_ERROR, (c', 7))"
proof -
  have "\<not> approved False \<lparr>cx_out = [], cx_err = [], cx_inp = [[10]]\<rparr>"
    by (simp add: approved_def is_yes_def strip_def is_space_def lower_def) (simp add: lit_def)
  then show ?thesis
    using unapproved_write_sends_nothing [of False False] by fastforce
qed

text \<open>A flag outranks the environment, which outranks the inventory; nobody is asked for the
  community of a switch without SNMP.\<close>

lemma community_precedence:
  "given (ar_community args) = Some c \<Longrightarrow> read_community args env v prompt b = Inr (Some c)"
  "given (ar_community args) = None \<Longrightarrow> given (dict_get env (lit ''NGSW_COMMUNITY'')) = Some c \<Longrightarrow>
     read_community args env v prompt b = Inr (Some c)"
  "read_community args env v prompt False = read_community args env v None False"
  by (auto simp: read_community_def split: option.split)

end
