(* ===== verification/Cli_Shell.thy ===== *)
theory Cli_Shell
  imports Cli_Client Cli_Text
begin

text \<open>
  The driver of an interactive shell (\<open>transport/cli/session.py\<close>) over the bytes of
  a channel: it reads until the prompt is back, at most \<open>MAX_READS\<close> times, answers
  the prompts of a certificate copy and of a save, and strips the echo and the
  prompt off a command's output.
\<close>

section \<open>Patterns\<close>

definition PROMPT_RE :: re where
  "PROMPT_RE = re_seq [re_lit '')'', Many is_space 0,
     May (re_seq [re_lit ''('', Many (\<lambda>c. c \<noteq> 41) 0, re_lit '')'', Many is_space 0]),
     Cls (\<lambda>c. c = 35 \<or> c = 62), Many is_space 0, Eos]"

definition PASSWORD_RE :: re where
  "PASSWORD_RE = re_seq [Cls (\<lambda>c. c = 80 \<or> c = 112), re_lit ''assword:'', Many is_space 0, Eos]"

text \<open>The patterns with \<open>IGNORECASE\<close> are matched against the text in lower case.\<close>

definition SCP_TOFU_RE :: re where
  "SCP_TOFU_RE = re_alt [re_lit ''host key'', re_lit ''continue connecting'',
     re_seq [re_lit ''(yes'', Many is_space 0, re_lit ''/'', Many is_space 0, re_lit ''no'']]"

definition SCP_PASSWORD_RE :: re where
  "SCP_PASSWORD_RE = Seq (Cls (\<lambda>c. c = 80 \<or> c = 112)) (re_lit ''assword:'')"

definition SCP_CONFIRM_RE :: re where
  "SCP_CONFIRM_RE = re_seq [re_lit ''(y'', Many is_space 0, re_lit ''/'', Many is_space 0, re_lit ''n)'']"

definition SCP_SUCCESS_RE :: re where
  "SCP_SUCCESS_RE = re_alt [re_lit ''bytes transferred'', re_lit ''completed successfully'',
     re_lit ''operation completed'']"

definition SCP_FAILURE_RE :: re where
  "SCP_FAILURE_RE = re_alt [re_lit ''transfer failed'', re_lit ''failed!'',
     re_seq [re_lit ''%'', Many is_space 0, re_lit ''error''], re_lit ''error during'']"

definition found :: "re \<Rightarrow> ustr \<Rightarrow> bool" where
  "found r t \<longleftrightarrow> re_search r t \<noteq> None"

section \<open>The driver\<close>

definition MAX_READS :: nat where "MAX_READS = 10000"

record 'w shell =
  sh_send :: "bytes \<Rightarrow> ('w, exn, unit) io"
  sh_recv :: "nat \<Rightarrow> ('w, exn, bytes) io"
  sh_enable_cmd :: ustr
  sh_paging_off_cmd :: ustr
  sh_enable_password :: "ustr option"
  sh_newline :: ustr

definition latin1 :: "bytes \<Rightarrow> ustr" where
  "latin1 bs = map unat bs"

definition latin1_encode :: "ustr \<Rightarrow> bytes py" where
  "latin1_encode t = (if list_all (\<lambda>c. c < 256) t then Inr (map of_nat t) else Inl UnicodeEncodeError)"

definition write_raw :: "'w shell \<Rightarrow> ustr \<Rightarrow> ('w, exn, unit) io" where
  "write_raw sh t = io_bind (io_lift (latin1_encode t)) (sh_send sh)"

definition write_line :: "'w shell \<Rightarrow> ustr \<Rightarrow> ('w, exn, unit) io" where
  "write_line sh t = write_raw sh (t @ sh_newline sh)"

fun read_until_from :: "'w shell \<Rightarrow> bool \<Rightarrow> nat \<Rightarrow> ustr \<Rightarrow> ('w, exn, ustr) io" where
  "read_until_from sh allow_password 0 buf = io_raise CliTransportError"
| "read_until_from sh allow_password (Suc n) buf =
     io_bind (sh_recv sh 4096) (\<lambda>chunk.
       let buf' = buf @ latin1 chunk in
       if found PROMPT_RE buf' then io_return buf'
       else if allow_password \<and> found PASSWORD_RE buf' then io_return buf'
       else if chunk = [] then io_raise CliTransportError
       else read_until_from sh allow_password n buf')"

definition read_until :: "'w shell \<Rightarrow> bool \<Rightarrow> ('w, exn, ustr) io" where
  "read_until sh allow_password = read_until_from sh allow_password MAX_READS []"

definition shell_setup :: "'w shell \<Rightarrow> ('w, exn, unit) io" where
  "shell_setup sh =
     io_bind (read_until sh False) (\<lambda>_.
     io_bind (write_line sh (sh_enable_cmd sh)) (\<lambda>_.
     io_bind (read_until sh True) (\<lambda>out.
     io_bind (if found PASSWORD_RE out
              then io_bind (write_line sh (case sh_enable_password sh of Some p \<Rightarrow> p | None \<Rightarrow> []))
                     (\<lambda>_. io_bind (read_until sh False) (\<lambda>_. io_return ()))
              else io_return ()) (\<lambda>_.
     io_bind (write_line sh (sh_paging_off_cmd sh)) (\<lambda>_.
     io_bind (read_until sh False) (\<lambda>_. io_return ()))))))"

section \<open>The text of a command\<close>

text \<open>\<open>raw.replace(CRLF, LF).replace(CR, LF)\<close>.\<close>

fun crlf_to_lf :: "ustr \<Rightarrow> ustr" where
  "crlf_to_lf [] = []"
| "crlf_to_lf (c # s) =
     (if c = 13 \<and> s \<noteq> [] \<and> hd s = 10 then crlf_to_lf s else c # crlf_to_lf s)"

definition newlines :: "ustr \<Rightarrow> ustr" where
  "newlines t = map (\<lambda>c. if c = 13 then 10 else c) (crlf_to_lf t)"

definition strip_newlines :: "ustr \<Rightarrow> ustr" where
  "strip_newlines t = rev (dropWhile (\<lambda>c. c = 10) (rev (dropWhile (\<lambda>c. c = 10) t)))"

definition clean :: "ustr \<Rightarrow> ustr \<Rightarrow> ustr" where
  "clean raw command =
     (let ls = split_on 10 (newlines raw);
          body = (if ls \<noteq> [] \<and> strip command \<noteq> [] \<and> contains (strip command) (hd ls) then tl ls else ls);
          kept = rev (dropWhile (found PROMPT_RE) (rev body))
      in strip_newlines (join [10] kept))"

definition shell_run :: "'w shell \<Rightarrow> ustr \<Rightarrow> ('w, exn, ustr) io" where
  "shell_run sh command =
     io_bind (write_line sh command) (\<lambda>_.
     io_bind (read_until sh False) (\<lambda>raw. io_return (clean raw command)))"

section \<open>Copies and saves\<close>

fun scp_copy_from :: "'w shell \<Rightarrow> ustr \<Rightarrow> nat \<Rightarrow> ustr \<Rightarrow> ustr \<Rightarrow> bool \<Rightarrow> ('w, exn, ustr) io" where
  "scp_copy_from sh password 0 transcript buf succeeded =
     (if succeeded then io_return transcript else io_raise CliTransportError)"
| "scp_copy_from sh password (Suc n) transcript buf succeeded =
     io_bind (sh_recv sh 4096) (\<lambda>chunk.
       let transcript' = transcript @ latin1 chunk; buf' = buf @ latin1 chunk in
       if found SCP_FAILURE_RE (lower buf') then io_raise CliTransportError
       else if found SCP_TOFU_RE (lower buf')
       then io_bind (write_line sh (lit ''yes'')) (\<lambda>_. scp_copy_from sh password n transcript' [] succeeded)
       else if found SCP_PASSWORD_RE buf'
       then io_bind (write_line sh password) (\<lambda>_. scp_copy_from sh password n transcript' [] succeeded)
       else if found SCP_CONFIRM_RE buf'
       then io_bind (sh_send sh [121]) (\<lambda>_. scp_copy_from sh password n transcript' [] succeeded)
       else let succeeded' = succeeded \<or> found SCP_SUCCESS_RE (lower buf') in
         if found PROMPT_RE buf' then io_return transcript'
         else if chunk = []
         then (if succeeded' then io_return transcript' else io_raise CliTransportError)
         else scp_copy_from sh password n transcript' buf' succeeded')"

definition shell_scp_copy :: "'w shell \<Rightarrow> ustr \<Rightarrow> ustr \<Rightarrow> ('w, exn, ustr) io" where
  "shell_scp_copy sh command password =
     io_bind (write_line sh command) (\<lambda>_. scp_copy_from sh password MAX_READS [] [] False)"

fun write_memory_from :: "'w shell \<Rightarrow> bool \<Rightarrow> nat \<Rightarrow> ustr \<Rightarrow> ustr \<Rightarrow> ('w, exn, ustr) io" where
  "write_memory_from sh prestuff 0 transcript buf = io_raise CliTransportError"
| "write_memory_from sh prestuff (Suc n) transcript buf =
     io_bind (sh_recv sh 4096) (\<lambda>chunk.
       let transcript' = transcript @ latin1 chunk; buf' = buf @ latin1 chunk in
       if \<not> prestuff \<and> found SCP_CONFIRM_RE buf'
       then io_bind (sh_send sh [121]) (\<lambda>_. write_memory_from sh prestuff n transcript' [])
       else if found PROMPT_RE buf' then io_return transcript'
       else if chunk = [] then io_raise CliTransportError
       else write_memory_from sh prestuff n transcript' buf')"

definition shell_write_memory :: "'w shell \<Rightarrow> ustr \<Rightarrow> bool \<Rightarrow> ('w, exn, ustr) io" where
  "shell_write_memory sh command prestuff =
     io_bind (if prestuff then write_raw sh (command @ [13] @ lit ''y'' @ [13]) else write_line sh command)
       (\<lambda>_. write_memory_from sh prestuff MAX_READS [] [])"

definition shell_session :: "'w shell \<Rightarrow> 'w cli_session" where
  "shell_session sh =
     \<lparr>cs_run = shell_run sh, cs_scp_copy = shell_scp_copy sh, cs_write_memory = shell_write_memory sh\<rparr>"

section \<open>Lines\<close>

definition plain_line :: "ustr \<Rightarrow> bool" where
  "plain_line l \<longleftrightarrow> list_all (\<lambda>c. c \<noteq> 10 \<and> c \<noteq> 13 \<and> c < 256) l"

lemma crlf_plain: "plain_line l \<Longrightarrow> crlf_to_lf (l @ s) = l @ crlf_to_lf s"
  by (induction l) (auto simp: plain_line_def)

lemma newlines_join:
  "list_all plain_line ls \<Longrightarrow> newlines (join [13, 10] ls) = join [10] ls"
proof (induction "[13, 10] :: ustr" ls rule: join.induct)
  case (2 t)
  have "newlines t = t"
    using 2 crlf_plain [of t "[]"] by (auto simp: newlines_def plain_line_def list_all_iff intro!: map_idI)
  then show ?case by simp
next
  case (3 t u us)
  have "newlines (t @ [13, 10] @ s) = t @ [10] @ newlines s" for s
    using 3(2) crlf_plain [of t "[13, 10] @ s"]
    by (auto simp: newlines_def plain_line_def list_all_iff intro!: map_idI)
  with 3 show ?case by simp
qed (simp add: newlines_def)

lemma split_on_join:
  "list_all plain_line ls \<Longrightarrow> ls \<noteq> [] \<Longrightarrow> split_on 10 (join [10] ls) = ls"
proof (induction "[10] :: ustr" ls rule: join.induct)
  case (2 t)
  then have "10 \<notin> set t" by (auto simp: plain_line_def list_all_iff)
  then show ?case by (simp add: split_on_single)
next
  case (3 t u us)
  then have "10 \<notin> set t" by (auto simp: plain_line_def list_all_iff)
  then show ?case using 3 by (simp add: split_on_append)
qed simp

lemma found_append: "found r t \<Longrightarrow> found r (u @ t)"
proof (induction u)
  case (Cons c u)
  then show ?case by (simp add: found_def split: option.split)
qed simp

lemma contains_prefix: "contains t (t @ v)"
proof (cases "t @ v")
  case (Cons c s)
  have "starts_with t (t @ v)" by (simp add: starts_with_def strip_prefix_append)
  then have "contains t (c # s)" unfolding Cons by simp
  then show ?thesis unfolding Cons .
qed simp

lemma strip_within: "\<exists>u v. s = u @ strip s @ v"
proof -
  define a where "a = dropWhile is_space s"
  have "s = takeWhile is_space s @ a" by (simp add: a_def)
  moreover have "rev a = takeWhile is_space (rev a) @ dropWhile is_space (rev a)" by simp
  then have "a = rev (dropWhile is_space (rev a)) @ rev (takeWhile is_space (rev a))"
    by (metis rev_append rev_rev_ident)
  ultimately show ?thesis by (metis strip_def a_def)
qed

lemma contains_within: "contains t s \<Longrightarrow> contains t (u @ s)"
  by (induction u) simp_all

lemma contains_strip: "contains (strip s) s"
  using strip_within [of s] contains_within contains_prefix by metis

text \<open>A body the cleaning keeps whole: lines of text, none of the outer ones empty, the last no prompt.\<close>

definition body_ok :: "ustr list \<Rightarrow> bool" where
  "body_ok body \<longleftrightarrow> body \<noteq> [] \<and> list_all plain_line body \<and> hd body \<noteq> [] \<and> last body \<noteq> []
     \<and> \<not> found PROMPT_RE (last body)"

lemma join_hd: "ls \<noteq> [] \<Longrightarrow> hd ls \<noteq> [] \<Longrightarrow> join sep ls \<noteq> [] \<and> hd (join sep ls) = hd (hd ls)"
  by (induction sep ls rule: join.induct) simp_all

lemma join_last: "ls \<noteq> [] \<Longrightarrow> last ls \<noteq> [] \<Longrightarrow> join sep ls \<noteq> [] \<and> last (join sep ls) = last (last ls)"
  by (induction sep ls rule: join.induct) (auto simp: last_append)

lemma strip_newlines_body:
  assumes "body_ok body"
  shows "strip_newlines (join [10] body) = join [10] body"
proof -
  let ?t = "join [10] body"
  have t: "?t \<noteq> []" "hd ?t = hd (hd body)" "last ?t = last (last body)"
    using assms join_hd [of body "[10]"] join_last [of body "[10]"] by (simp_all add: body_ok_def)
  have "hd (hd body) \<in> set (hd body)" "last (last body) \<in> set (last body)"
    "hd body \<in> set body" "last body \<in> set body"
    using assms by (simp_all add: body_ok_def)
  then have "hd (hd body) \<noteq> 10" "last (last body) \<noteq> 10"
    using assms unfolding body_ok_def plain_line_def list_all_iff by blast+
  then have "dropWhile (\<lambda>c. c = 10) ?t = ?t" "dropWhile (\<lambda>c. c = 10) (rev ?t) = rev ?t"
    using t by (simp_all add: dropWhile_eq_self_iff hd_rev)
  then show ?thesis by (simp add: strip_newlines_def)
qed

lemma clean_reply:
  assumes "plain_line command" "strip command \<noteq> []" "body_ok body" "plain_line prompt" "found PROMPT_RE prompt"
  shows "clean (join [13, 10] (command # body @ [prompt])) command = join [10] body"
proof -
  have "list_all plain_line (command # body @ [prompt])" using assms by (simp add: body_ok_def)
  then have "split_on 10 (newlines (join [13, 10] (command # body @ [prompt]))) = command # body @ [prompt]"
    by (simp only: newlines_join) (rule split_on_join, simp_all)
  moreover have "dropWhile (found PROMPT_RE) (rev (body @ [prompt])) = rev body"
    using assms(3,5) by (cases body rule: rev_cases) (simp_all add: body_ok_def)
  ultimately show ?thesis
    using assms(2) strip_newlines_body [OF assms(3)] by (simp add: clean_def Let_def contains_strip)
qed

section \<open>A channel that delivers its bytes in pieces\<close>

text \<open>The pieces still to come and what has been sent; a drained channel is a closed one.\<close>

record wire =
  wr_in :: "bytes list"
  wr_sent :: bytes

definition wire_send :: "bytes \<Rightarrow> (wire, exn, unit) io" where
  "wire_send bs = (\<lambda>w. (Inr (), w\<lparr>wr_sent := wr_sent w @ bs\<rparr>))"

definition wire_recv :: "nat \<Rightarrow> (wire, exn, bytes) io" where
  "wire_recv n = (\<lambda>w. case wr_in w of [] \<Rightarrow> (Inr [], w)
     | c # cs \<Rightarrow> (Inr (take n c), w\<lparr>wr_in := (if length c \<le> n then cs else drop n c # cs)\<rparr>))"

definition wire_shell :: "ustr option \<Rightarrow> wire shell" where
  "wire_shell enable_password =
     \<lparr>sh_send = wire_send, sh_recv = wire_recv, sh_enable_cmd = lit ''enable'',
      sh_paging_off_cmd = lit ''terminal length 0'', sh_enable_password = enable_password,
      sh_newline = [13, 10]\<rparr>"

lemma wire_recv_Cons:
  "length c \<le> n \<Longrightarrow> wire_recv n w = (Inr c, w\<lparr>wr_in := cs\<rparr>)" if "wr_in w = c # cs"
  using that by (simp add: wire_recv_def)

lemma latin1_append [simp]: "latin1 (a @ b) = latin1 a @ latin1 b"
  by (simp add: latin1_def)

text \<open>Pieces as the driver takes them, none of which but the last shows a prompt.\<close>

definition quiet :: "ustr \<Rightarrow> bytes list \<Rightarrow> bool" where
  "quiet buf cs \<longleftrightarrow> (\<forall>k < length cs. \<not> found PROMPT_RE (buf @ latin1 (concat (take k cs))))"

definition pieces_ok :: "bytes list \<Rightarrow> bool" where
  "pieces_ok cs \<longleftrightarrow> list_all (\<lambda>c. c \<noteq> [] \<and> length c \<le> 4096) cs \<and> length cs \<le> MAX_READS"

lemma read_until_from_pieces:
  assumes "list_all (\<lambda>c. c \<noteq> [] \<and> length c \<le> 4096) cs" "cs \<noteq> []" "length cs \<le> n"
    and "\<And>k. 0 < k \<Longrightarrow> k < length cs \<Longrightarrow> \<not> found PROMPT_RE (buf @ latin1 (concat (take k cs)))"
    and "found PROMPT_RE (buf @ latin1 (concat cs))" "wr_in w = cs"
  shows "read_until_from (wire_shell p) False n buf w = (Inr (buf @ latin1 (concat cs)), w\<lparr>wr_in := []\<rparr>)"
  using assms
proof (induction n arbitrary: cs buf w)
  case (Suc n)
  then obtain c ds where cs: "cs = c # ds" by (cases cs) auto
  have recv: "wire_recv 4096 w = (Inr c, w\<lparr>wr_in := ds\<rparr>)"
    using Suc.prems cs by (simp add: wire_recv_def)
  show ?case
  proof (cases ds)
    case Nil
    then show ?thesis using Suc.prems cs recv by (simp add: wire_shell_def io_bind_def Let_def io_return_def)
  next
    case (Cons d es)
    have quiet: "\<not> found PROMPT_RE (buf @ latin1 c)" using Suc.prems(4) [of 1] cs Cons by simp
    have "\<not> found PROMPT_RE ((buf @ latin1 c) @ latin1 (concat (take k ds)))"
      if "0 < k" "k < length ds" for k
      using Suc.prems(4) [of "Suc k"] that cs by simp
    then have "read_until_from (wire_shell p) False n (buf @ latin1 c) (w\<lparr>wr_in := ds\<rparr>)
        = (Inr ((buf @ latin1 c) @ latin1 (concat ds)), w\<lparr>wr_in := ds\<rparr>\<lparr>wr_in := []\<rparr>)"
      using Suc.prems cs Cons by (intro Suc.IH) auto
    then show ?thesis using Suc.prems cs recv quiet by (simp add: wire_shell_def io_bind_def Let_def)
  qed
qed simp

lemma read_until_from_closed:
  assumes "list_all (\<lambda>c. c \<noteq> [] \<and> length c \<le> 4096) cs"
    and "\<And>k. \<not> found PROMPT_RE (buf @ latin1 (concat (take k cs)))" "wr_in w = cs"
  shows "\<exists>w'. read_until_from (wire_shell p) False n buf w = (Inl CliTransportError, w')"
  using assms
proof (induction n arbitrary: cs buf w)
  case 0
  then show ?case by (simp add: io_raise_def)
next
  case (Suc n)
  show ?case
  proof (cases cs)
    case Nil
    then show ?thesis using Suc.prems(3) Suc.prems(2) [of 0]
      by (simp add: wire_shell_def wire_recv_def io_bind_def Let_def io_raise_def latin1_def)
  next
    case (Cons c ds)
    have "\<not> found PROMPT_RE ((buf @ latin1 c) @ latin1 (concat (take k ds)))" for k
      using Suc.prems(2) [of "Suc k"] Cons by simp
    moreover have "\<not> found PROMPT_RE (buf @ latin1 c)" using Suc.prems(2) [of 1] Cons by simp
    ultimately show ?thesis
      using Suc.IH [of ds "buf @ latin1 c" "w\<lparr>wr_in := ds\<rparr>"] Suc.prems(1,3) Cons
      by (simp add: wire_shell_def wire_recv_def io_bind_def Let_def)
  qed
qed

section \<open>Framing\<close>

lemma latin1_encode_plain: "list_all (\<lambda>c. c < 256) t \<Longrightarrow> latin1_encode t = Inr (map of_nat t)"
  by (simp add: latin1_encode_def)

lemma wire_write_line:
  assumes "plain_line command"
  shows "write_line (wire_shell p) command w
    = (Inr (), w\<lparr>wr_sent := wr_sent w @ map of_nat command @ [13, 10]\<rparr>)"
proof -
  have "list_all (\<lambda>c. c < 256) (command @ [13, 10])" using assms by (auto simp: plain_line_def list_all_iff)
  then show ?thesis
    by (simp add: write_line_def write_raw_def wire_shell_def latin1_encode_plain wire_send_def)
qed

lemma found_join_last:
  "found r (join sep (ls @ [l]))" if "found r l"
  using that by (induction sep "ls @ [l]" arbitrary: ls rule: join.induct)
    (auto simp: Cons_eq_append_conv found_append append_eq_Cons_conv)

lemma prompt_needs_paren: "41 \<notin> set t \<Longrightarrow> \<not> found PROMPT_RE t"
  by (induction t) (auto simp: found_def PROMPT_RE_def re_lit_def lit_def re_match_def)

text \<open>
  C16. Framing: a command's output is what the switch printed between the echo of
  the command and its prompt, with its line ends as newlines, in whatever pieces
  the channel delivers the bytes, as long as no earlier piece ends in what looks
  like a prompt; the command has been sent with its line end and the channel is
  left with nothing unread.\<close>

theorem shell_run_frames:
  assumes "plain_line command" "strip command \<noteq> []" "body_ok body" "plain_line prompt"
    and "found PROMPT_RE prompt"
    and "latin1 (concat cs) = join [13, 10] (command # body @ [prompt])"
    and "pieces_ok cs" "\<forall>k < length cs. \<not> found PROMPT_RE (latin1 (concat (take k cs)))"
  shows "cs_run (shell_session (wire_shell p)) command \<lparr>wr_in = cs, wr_sent = sent\<rparr>
    = (Inr (join [10] body), \<lparr>wr_in = [], wr_sent = sent @ map of_nat command @ [13, 10]\<rparr>)"
proof -
  have shown: "found PROMPT_RE (latin1 (concat cs))"
    using found_join_last [OF assms(5), of "[13, 10]" "command # body"] assms(6) by simp
  have "cs \<noteq> []"
    using assms(6) by (cases cs; cases "body @ [prompt]") (auto simp: latin1_def)
  then have "read_until (wire_shell p) False \<lparr>wr_in = cs, wr_sent = sent'\<rparr>
      = (Inr (latin1 (concat cs)), \<lparr>wr_in = [], wr_sent = sent'\<rparr>)" for sent'
    using read_until_from_pieces [of cs MAX_READS "[]" "\<lparr>wr_in = cs, wr_sent = sent'\<rparr>" p] assms(7,8) shown
    by (simp add: read_until_def pieces_ok_def)
  then show ?thesis
    using clean_reply [OF assms(1-5)] assms(6)
    by (simp add: shell_session_def shell_run_def io_bind_def wire_write_line [OF assms(1)] io_return_def)
qed

lemma shell_run_frames_witness:
  "cs_run (shell_session (wire_shell None)) [115, 104]
     \<lparr>wr_in = [[115, 104, 13, 10, 77, 52, 13], [10, 40, 65, 41, 32, 35]], wr_sent = []\<rparr>
   = (Inr [77, 52], \<lparr>wr_in = [], wr_sent = [115, 104, 13, 10]\<rparr>)"
proof -
  have prompt: "found PROMPT_RE [40, 65, 41, 32, 35]"
    by (simp add: found_def PROMPT_RE_def re_lit_def lit_def re_match_def is_space_def)
  have quiet: "\<forall>k < 2. \<not> found PROMPT_RE (latin1 (concat (take k [[115, 104, 13, 10, 77, 52, 13], [10, 40, 65, 41, 32, 35]])))"
    by (auto simp: less_2_cases_iff latin1_def intro!: prompt_needs_paren)
  show ?thesis
    using shell_run_frames [where command = "[115, 104]" and body = "[[77, 52]]"
        and prompt = "[40, 65, 41, 32, 35]" and p = None and sent = "[]"
        and cs = "[[115, 104, 13, 10, 77, 52, 13], [10, 40, 65, 41, 32, 35]]"] prompt quiet
    by (simp add: plain_line_def strip_def is_space_def body_ok_def latin1_def pieces_ok_def
        MAX_READS_def prompt_needs_paren)
qed

text \<open>A channel that closes before a prompt is shown is a transport error.\<close>

lemma shell_run_closed:
  assumes "plain_line command" "list_all (\<lambda>c. c \<noteq> [] \<and> length c \<le> 4096) cs"
    and "\<And>k. \<not> found PROMPT_RE (latin1 (concat (take k cs)))"
  shows "\<exists>w'. cs_run (shell_session (wire_shell p)) command \<lparr>wr_in = cs, wr_sent = sent\<rparr>
    = (Inl CliTransportError, w')"
  using read_until_from_closed [of cs "[]" "\<lparr>wr_in = cs, wr_sent = sent @ map of_nat command @ [13, 10]\<rparr>" p MAX_READS]
    assms
  by (auto simp: shell_session_def shell_run_def io_bind_def wire_write_line read_until_def)

section \<open>A copy the switch never confirmed\<close>

text \<open>Text with none of the markers of a copy in it.\<close>

definition unmarked :: "ustr \<Rightarrow> bool" where
  "unmarked t \<longleftrightarrow> \<not> found SCP_FAILURE_RE (lower t) \<and> \<not> found SCP_TOFU_RE (lower t)
     \<and> \<not> found SCP_PASSWORD_RE t \<and> \<not> found SCP_CONFIRM_RE t \<and> \<not> found SCP_SUCCESS_RE (lower t)"

lemma scp_copy_from_pieces:
  assumes "list_all (\<lambda>c. c \<noteq> [] \<and> length c \<le> 4096) cs" "cs \<noteq> []" "length cs \<le> n"
    and "\<And>k. 0 < k \<Longrightarrow> k < length cs \<Longrightarrow> \<not> found PROMPT_RE (buf @ latin1 (concat (take k cs)))"
    and "\<And>k. unmarked (buf @ latin1 (concat (take k cs)))"
    and "found PROMPT_RE (buf @ latin1 (concat cs))" "wr_in w = cs"
  shows "scp_copy_from (wire_shell p) password n tr buf False w
    = (Inr (tr @ latin1 (concat cs)), w\<lparr>wr_in := []\<rparr>)"
  using assms
proof (induction n arbitrary: cs tr buf w)
  case (Suc n)
  then obtain c ds where cs: "cs = c # ds" by (cases cs) auto
  have recv: "wire_recv 4096 w = (Inr c, w\<lparr>wr_in := ds\<rparr>)"
    using Suc.prems cs by (simp add: wire_recv_def)
  have un: "unmarked (buf @ latin1 c)" using Suc.prems(5) [of 1] cs by simp
  show ?case
  proof (cases ds)
    case Nil
    then show ?thesis using Suc.prems(6) cs recv un
      by (simp add: wire_shell_def io_bind_def Let_def io_return_def unmarked_def)
  next
    case (Cons d es)
    have quiet: "\<not> found PROMPT_RE (buf @ latin1 c)" using Suc.prems(4) [of 1] cs Cons by simp
    have "\<not> found PROMPT_RE ((buf @ latin1 c) @ latin1 (concat (take k ds)))"
      if "0 < k" "k < length ds" for k
      using Suc.prems(4) [of "Suc k"] that cs by simp
    moreover have "unmarked ((buf @ latin1 c) @ latin1 (concat (take k ds)))" for k
      using Suc.prems(5) [of "Suc k"] cs by simp
    ultimately have "scp_copy_from (wire_shell p) password n (tr @ latin1 c) (buf @ latin1 c) False
          (w\<lparr>wr_in := ds\<rparr>)
        = (Inr ((tr @ latin1 c) @ latin1 (concat ds)), w\<lparr>wr_in := ds\<rparr>\<lparr>wr_in := []\<rparr>)"
      using Suc.prems(1-3,6) cs Cons by (intro Suc.IH) auto
    then show ?thesis using Suc.prems(1) cs recv quiet un
      by (simp add: wire_shell_def io_bind_def Let_def unmarked_def)
  qed
qed simp

text \<open>No marker begins with a control character, a blank, \<open>)\<close>, \<open>#\<close> or \<open>?\<close>.\<close>

definition blank_text :: "ustr \<Rightarrow> bool" where
  "blank_text t \<longleftrightarrow> list_all (\<lambda>c. c < 37 \<or> c = 41 \<or> c = 63) t"

lemma blank_text_lower: "blank_text t \<Longrightarrow> lower t = t"
  by (auto simp: blank_text_def lower_def ascii_lower_char_def list_all_iff intro!: map_idI)

lemma blank_text_unmarked:
  assumes "blank_text t"
  shows "unmarked t"
proof -
  have "\<not> found SCP_FAILURE_RE t" "\<not> found SCP_TOFU_RE t" "\<not> found SCP_PASSWORD_RE t"
    "\<not> found SCP_CONFIRM_RE t" "\<not> found SCP_SUCCESS_RE t"
    using assms by (induction t) (auto simp: blank_text_def found_def SCP_FAILURE_RE_def SCP_TOFU_RE_def
      SCP_PASSWORD_RE_def SCP_CONFIRM_RE_def SCP_SUCCESS_RE_def re_lit_def lit_def re_match_def)
  with assms show ?thesis by (simp add: unmarked_def blank_text_lower)
qed

text \<open>
  C30. A copy is taken for a success as soon as the prompt is back, whether or not
  the switch reported the transfer: on any answer that holds none of the copy's
  markers, not even the one of success, the copy returns the answer as its
  transcript and has answered nothing.\<close>

theorem unconfirmed_copy_succeeds:
  assumes "plain_line command" "pieces_ok cs" "cs \<noteq> []"
    and "\<forall>k \<le> length cs. unmarked (latin1 (concat (take k cs)))"
    and "\<forall>k < length cs. \<not> found PROMPT_RE (latin1 (concat (take k cs)))"
    and "found PROMPT_RE (latin1 (concat cs))"
  shows "cs_scp_copy (shell_session (wire_shell p)) command password \<lparr>wr_in = cs, wr_sent = sent\<rparr>
    = (Inr (latin1 (concat cs)), \<lparr>wr_in = [], wr_sent = sent @ map of_nat command @ [13, 10]\<rparr>)"
proof -
  have "unmarked (latin1 (concat (take k cs)))" for k
    using assms(4) by (cases "k \<le> length cs") auto
  then show ?thesis
    using scp_copy_from_pieces [of cs MAX_READS "[]" _ p password "[]"] assms
    by (simp add: shell_session_def shell_scp_copy_def io_bind_def wire_write_line pieces_ok_def)
qed

lemma unconfirmed_copy_succeeds_witness:
  "cs_scp_copy (shell_session (wire_shell None)) [99, 112] [120]
     \<lparr>wr_in = [[63, 13, 10], [41, 35]], wr_sent = []\<rparr>
   = (Inr [63, 13, 10, 41, 35],
      \<lparr>wr_in = [], wr_sent = [99, 112, 13, 10]\<rparr>)"
proof -
  let ?a = "[63, 13, 10] :: bytes"
  let ?b = "[41, 35] :: bytes"
  have "unmarked (latin1 [])" "unmarked (latin1 ?a)" "unmarked (latin1 (?a @ ?b))"
    by (simp_all add: blank_text_unmarked blank_text_def latin1_def)
  then have un: "\<forall>k \<le> 2. unmarked (latin1 (concat (take k [?a, ?b])))"
    by (auto simp: le_Suc_eq numeral_2_eq_2)
  have quiet: "\<forall>k < 2. \<not> found PROMPT_RE (latin1 (concat (take k [?a, ?b])))"
    by (auto simp: less_2_cases_iff latin1_def intro!: prompt_needs_paren)
  have shown: "found PROMPT_RE (latin1 (concat [?a, ?b]))"
    using found_append [of PROMPT_RE "latin1 ?b" "latin1 ?a"]
    by (simp add: latin1_def found_def PROMPT_RE_def re_lit_def lit_def re_match_def is_space_def)
  show ?thesis
    using unconfirmed_copy_succeeds [where command = "[99, 112]" and cs = "[?a, ?b]" and p = None
        and sent = "[]" and password = "[120]"] un quiet shown
    by (simp add: plain_line_def pieces_ok_def MAX_READS_def latin1_def)
qed

end
