(* ===== verification/Spec2Isabelle.thy ===== *)
theory Spec2Isabelle
  imports Registry Nsdp_Async Nsdp_System Snmp_System Snmp_Cycle Snmp_Async Virtual_Cli Cli_Effects Cli_Poe Ngsw Cli_Shell
begin

text \<open>
  A verification development for python-netgear-switch-library, a library that reads
  and configures managed switches over several protocols, each model of switch having
  some of them, and for the virtual switch the library is tested against. Paths below
  are relative to \<open>src/netgear_switch\<close>.

  How the program fits together. A caller names a model and an operation;
  \<open>registry.py\<close> says which backends the model has and the facade (\<open>sync_api.py\<close>,
  \<open>aio_api.py\<close>) picks one with \<open>_dispatch.py\<close>, never another than the one asked for. Each backend is a reader and a writer over a client:
  NSDP (\<open>nsdp_read.py\<close>, \<open>nsdp_write.py\<close> over UDP datagrams), SNMP (\<open>snmp_read.py\<close>,
  \<open>snmp_write.py\<close> over walks and SETs), the command line (\<open>cli_read.py\<close>, \<open>cli_write.py\<close>
  over an interactive shell) and HTTP. Writers are guarded by a set of protected
  ports, send their change and read it back. The virtual switch (\<open>virtual/\<close>) is one
  state with a face per protocol. The end-to-end theorems put a reader or writer in
  front of the face of its protocol.

  Conventions. An exception is a value of \<open>exn\<close>, a fallible function has the type
  \<open>'a py\<close>, an operation that also changes state is \<open>('w, exn, 'a) io\<close>: it returns the
  state even when it raises. Python's \<open>int\<close> is \<open>int\<close>, wire bytes are \<open>8 word\<close>, text is
  a list of code points, a dict an association list in insertion order. The text of an
  error message is not kept, the facts it is formatted from are where a caller sees
  them.

  \<^bold>\<open>Shared ground.\<close> Prelude (results, state passing, big-endian integers, dicts), Errors
  (\<open>errors.py\<close>), Py_Text and Py_Regex (the text functions, codecs and regular expressions
  the code uses, the matcher trying alternatives in Python's order), Models
  (\<open>models.py\<close>), Registry (\<open>registry.py\<close>, \<open>_dispatch.py\<close>, and the facades' choice of a
  backend), Bitmap (the port bitmap of
  NSDP and SNMP; its codec contract is the locale \<open>port_bitmap_codec\<close>, interpreted on
  both), Virtual_State (\<open>virtual/state.py\<close>: the record of the switch).

  \<^bold>\<open>NSDP.\<close> Nsdp_Protocol, Nsdp_Auth, Nsdp_Parsers and Nsdp_Frames are \<open>protocols/nsdp\<close>:
  packets and TLV entries, the two password schemes, the parsers and request builders,
  with round trips and totality, the passwords the second scheme cannot tell apart
  (\<open>interchangeable\<close>), and what a switch reads in a membership entry for ports it does
  not have. Nsdp_Client and Nsdp_Async are \<open>transport/sync/nsdp_udp.py\<close>
  and \<open>transport/aio/nsdp_udp.py\<close>; Nsdp_Read and Nsdp_Write the reader and the writer;
  Virtual_Nsdp, Virtual_Nsdp_View and Virtual_Face the projection of the state to entries,
  what a client parses out of it, and the responder with its lockout, whose reachable
  states are an inductive relation. Nsdp_Session is the contract of a client and the
  switch behind it (locale \<open>nsdp_session\<close>), Nsdp_System its instance: the UDP client in
  front of the serving loop.

  \<^bold>\<open>SNMP.\<close> Snmp_Oids, Snmp_Parse, Snmp_Parsers and Snmp_Write are \<open>protocols/snmp\<close> and the
  bitmap helpers; Snmp_Client the client's interface; Snmp_Reader, Snmp_Plan and
  Snmp_Writer the reader and the writer, with the plan of a membership change on a
  switchport table against its abstract specification (\<open>request\<close>, the role of the port in
  each VLAN); Snmp_Cycle the termination of the
  PoE cycle; Snmp_Async the asynchronous twins. Virtual_Snmp, Virtual_Switchport and
  Virtual_Mib are the SNMP side of the switch, Snmp_Agent the agent with the pysnmp client in
  front of it. Snmp_View, Snmp_Columns, Snmp_Rows, Snmp_Tables and Snmp_Readback carry a
  column from the state through GETNEXT to the parsed table; Snmp_Device and
  Snmp_Switchport are the contracts a write relies on (locales \<open>snmp_device\<close> and its
  extension \<open>snmp_switchport_device\<close>, both interpreted on the agent), Snmp_System the
  results end to end.

  \<^bold>\<open>Command line.\<close> Cli_Commands and Cli_Parse are \<open>protocols/cli\<close>: command templates per
  model and the screen parsers. Cli_Client is the reader and the writer over a session
  (\<open>cli_read.py\<close>, \<open>cli_write.py\<close>); Cli_Shell the driver that turns a channel's bytes into
  a session (\<open>transport/cli/session.py\<close>). Cli_Fastpath and Virtual_Cli are the rendering of
  the screens and the session of the virtual switch with its mode stack. Cli_Tables,
  Cli_Text, Cli_Reads and Cli_Ports show that a rendered screen is parsed back to the state;
  Cli_Modes and Cli_Writes that every operation comes back to EXEC mode; Cli_System,
  Cli_Effects and Cli_Poe what the operations report and do.

  \<^bold>\<open>Inventory and tool.\<close> Config is \<open>config.py\<close>: secrets, the checks on an inventory and the
  rule on its file mode. Ngsw is the deciding part of the command-line tool: exit codes
  (\<open>cli/context.py\<close>), the gate of a disruptive write (\<open>cli/safety.py\<close>) and the
  resolution of a switch with its credentials (\<open>cli/resolve.py\<close>).

  Parameters. The network of the NSDP client, the salts of the virtual switch, the
  client behind an SNMP reader, the session behind a command-line one and the channel
  behind a shell are arguments, as are the clock and the sleep of polls, the
  process runner, the file's mode and what \<open>tomllib\<close> read. pysnmp is assumed to carry a
  request and its answer unchanged. A failing \<open>bind\<close> or \<open>sendto\<close> is one of the
  network's exceptions; the network's \<open>TimeoutError\<close> is that of the receive. No assumption is
  made of what the process runner raises.

  Bounds. The UDP clients receive 4096 bytes (the asynchronous one all of a datagram) and
  a datagram has at most 65507; entries of at most 3000 bytes in all keep a write with its
  credential below the first, and 16000 bytes per entry keep its length field in range.
  A switchport bitmap is 512 bytes, 4096 VLANs. \<open>MAX_READS\<close> = 10,000 is the source's own
  bound on the reads of a shell and the only fuel; every other loop is a structural
  recursion, has a measure, or (polls, which the clock alone bounds) is a partial function
  into \<open>option\<close> whose return is proved. The end-to-end theorems over the command line ask
  that what is shown fits its column (\<open>screens_ok\<close>, \<open>poe_screen_ok\<close>), as a value that
  does not is cut off on a real screen too. Text of the command line is Latin-1, which is
  how the transports decode it. \<open>int\<close> converts at most 4300 digits (\<open>MAX_STR_DIGITS\<close>): the
  screen parsers of the command line, which are given whatever a switch prints, have that limit
  (\<open>int_group\<close>, \<open>py_int\<close>); the column parsers of SNMP are
  modelled without it (identifiers and wire integers are 32 or 64 bits wide, and for a text value
  it would be one more \<open>SnmpError\<close>), and so is the simulated switch, whose commands hold the
  numbers the writers format.

  Not modelled. HTTP (\<open>protocols/http\<close>, \<open>http_read.py\<close>, \<open>http_write.py\<close>, \<open>transport/http\<close>
  and the web faces of the virtual switch): it scrapes HTML with the parser of the
  standard library and some hundreds of page-specific patterns. \<open>virtual/seed.py\<close> and
  the templates are captured data. Past the choice of a backend the facades (\<open>sync_api.py\<close>,
  \<open>aio_api.py\<close>) forward to the modelled readers and writers; \<open>capabilities.py\<close> tabulates the registry and the HTTP
  tables for the documentation; \<open>mcp/\<close> is glue over the facades. Sockets, threads, the
  SSH, telnet and serial channels, the net-snmp command-line client, argument parsing and
  printing are input and output.
\<close>

end
